(* ===== verification/Prelude.thy ===== *)
theory Prelude
  imports Complex_Main "HOL-Library.Word" "HOL-Library.List_Lexorder" "HOL-Library.Char_ord"
    "HOL-Library.Product_Lexorder" "HOL-Library.Sublist"
begin

unbundle bit_operations_syntax

text \<open>
  Shared vocabulary of the development.

  \<^item> Machine integers: \<open>u64\<close>, \<open>u16\<close> and \<open>u8\<close> are words of that width; Rust's
    \<open>saturating_add\<close> and \<open>checked_add\<close> are defined on them.  \<open>usize\<close> lengths are \<open>nat\<close>;
    \<open>len_u64\<close> is the cast \<open>xs.len() as u64\<close>.
  \<^item> Rust strings are UTF-8 byte sequences whose order, length and ASCII operations are all
    bytewise, so a Rust \<open>String\<close> is a HOL \<open>string\<close> with one \<open>char\<close> per byte.
  \<^item> The fallible functions of the source return sums, \<open>Inl\<close> for \<open>Err\<close>; \<open>and_then\<close> is the
    \<open>?\<close> operator and \<open>for_each\<close> a \<open>for\<close> loop whose body may return early with an error.
  \<^item> The string operations of the Rust standard library the sources call, and the lemmas about
    them that the components share.
\<close>

named_theorems result_simps \<open>unfolding rules for the error-propagating combinators\<close>

subsection \<open>Machine integers\<close>

type_synonym u8 = "8 word"
type_synonym u16 = "16 word"
type_synonym u32 = "32 word"
type_synonym u64 = "64 word"
type_synonym bytes = "u8 list"

definition u64_max :: u64 where
  "u64_max = - 1"

definition saturating_add :: "u64 \<Rightarrow> u64 \<Rightarrow> u64" where
  "saturating_add a b = (if unat a + unat b < 2 ^ 64 then a + b else u64_max)"

definition checked_add :: "u64 \<Rightarrow> u64 \<Rightarrow> u64 option" where
  "checked_add a b = (if unat a + unat b < 2 ^ 64 then Some (a + b) else None)"

definition len_u64 :: "'a list \<Rightarrow> u64" where
  "len_u64 xs = of_nat (length xs)"

text \<open>Evaluation compares the sums as integers: numerals of \<open>nat\<close> are unary there.\<close>

lemma add_fits_u64: "unat a + unat b < 2 ^ 64 \<longleftrightarrow> uint (a :: u64) + uint (b :: u64) < 18446744073709551616"
proof -
  have "uint a + uint b < 18446744073709551616 \<longleftrightarrow> int (unat a + unat b) < int (2 ^ 64)" by simp
  also have "\<dots> \<longleftrightarrow> unat a + unat b < 2 ^ 64" by (simp only: of_nat_less_iff)
  finally show ?thesis by simp
qed

lemma saturating_add_code [code]:
  "saturating_add a b = (if uint a + uint b < 18446744073709551616 then a + b else u64_max)"
  unfolding saturating_add_def add_fits_u64 ..

lemma checked_add_code [code]:
  "checked_add a b = (if uint a + uint b < 18446744073709551616 then Some (a + b) else None)"
  unfolding checked_add_def add_fits_u64 ..

lemma unat_u64_max: "unat u64_max = 2 ^ 64 - 1"
  by (simp add: u64_max_def unsigned_minus_1_eq_mask mask_eq_exp_minus_1)

lemma unat_add_u64: "unat a + unat b < 2 ^ 64 \<Longrightarrow> unat (a + b :: u64) = unat a + unat b"
  by (simp add: unat_word_ariths)

lemma unat_saturating_add:
  "unat (saturating_add a b) = min (unat a + unat b) (2 ^ 64 - 1)"
  by (auto simp: saturating_add_def unat_add_u64 unat_u64_max min_def)

lemma saturating_add_le:
  assumes "saturating_add a b \<le> c" and "c < u64_max"
  shows "unat a + unat b \<le> unat c"
proof -
  have "unat c < 2 ^ 64 - 1" using assms(2) by (simp add: word_less_nat_alt unat_u64_max)
  moreover have "min (unat a + unat b) (2 ^ 64 - 1) \<le> unat c"
    using assms(1) by (simp add: word_le_nat_alt unat_saturating_add)
  ultimately show ?thesis by (simp add: min_def split: if_splits)
qed

lemma saturating_add_exact:
  assumes "saturating_add a b \<le> c" and "c < u64_max"
  shows "unat (a + b) = unat a + unat b" and "a + b \<le> c"
proof -
  have le: "unat a + unat b \<le> unat c" using assms by (rule saturating_add_le)
  have "unat c < 2 ^ 64" using unsigned_less [of c] by simp
  with le have "unat a + unat b < 2 ^ 64" by linarith
  then show eq: "unat (a + b) = unat a + unat b" by (rule unat_add_u64)
  from le eq show "a + b \<le> c" by (simp add: word_le_nat_alt)
qed

lemma checked_add_Some:
  "checked_add a b = Some c \<Longrightarrow> unat c = unat a + unat b"
  by (auto simp: checked_add_def unat_add_u64 split: if_splits)

lemma checked_add_None_iff: "checked_add a b = None \<longleftrightarrow> 2 ^ 64 \<le> unat a + unat b"
  by (auto simp: checked_add_def)

lemma unat_lt_u64: "unat (k :: u64) < 2 ^ 64"
  using unsigned_less [of k] by simp

lemma unat_of_nat_u64: "n < 2 ^ 64 \<Longrightarrow> unat (of_nat n :: u64) = n"
  by (simp add: unat_of_nat)

lemma unat_len_u64: "length xs < 2 ^ 64 \<Longrightarrow> unat (len_u64 xs) = length xs"
  by (simp add: len_u64_def unat_of_nat)

lemma unat_Suc_u64: "(a::u64) < b \<Longrightarrow> unat (a + 1) = unat a + 1"
proof -
  assume "a < b"
  then have "unat a < unat b" by (simp add: word_less_nat_alt)
  moreover have "unat b < 2 ^ 64" using unsigned_less [of b] by simp
  ultimately show ?thesis using unat_add_u64 [of a 1] by simp
qed

subsection \<open>Results\<close>

definition and_then :: "'e + 'a \<Rightarrow> ('a \<Rightarrow> 'e + 'b) \<Rightarrow> 'e + 'b" where
  "and_then r f = (case r of Inl e \<Rightarrow> Inl e | Inr x \<Rightarrow> f x)"

definition ok_or :: "'a option \<Rightarrow> 'e \<Rightarrow> 'e + 'a" where
  "ok_or x e = (case x of None \<Rightarrow> Inl e | Some y \<Rightarrow> Inr y)"

definition map_err :: "('e \<Rightarrow> 'f) \<Rightarrow> 'e + 'a \<Rightarrow> 'f + 'a" where
  "map_err f r = (case r of Inl e \<Rightarrow> Inl (f e) | Inr x \<Rightarrow> Inr x)"

definition ensure :: "bool \<Rightarrow> 'e \<Rightarrow> 'e + unit" where
  "ensure b e = (if b then Inr () else Inl e)"

fun for_each :: "('a \<Rightarrow> 's \<Rightarrow> 'e + 's) \<Rightarrow> 'a list \<Rightarrow> 's \<Rightarrow> 'e + 's" where
  "for_each f [] s = Inr s"
| "for_each f (x # xs) s = (case f x s of Inl e \<Rightarrow> Inl e | Inr s' \<Rightarrow> for_each f xs s')"

lemma and_then_simps [simp, result_simps]:
  "and_then (Inl e) f = Inl e" "and_then (Inr x) f = f x"
  by (simp_all add: and_then_def)

lemma and_then_Inr_iff: "and_then r f = Inr y \<longleftrightarrow> (\<exists>x. r = Inr x \<and> f x = Inr y)"
  by (cases r) auto

lemma and_then_Inl_iff:
  "and_then r f = Inl e \<longleftrightarrow> r = Inl e \<or> (\<exists>x. r = Inr x \<and> f x = Inl e)"
  by (cases r) auto

lemma ok_or_simps [simp, result_simps]: "ok_or None e = Inl e" "ok_or (Some x) e = Inr x"
  by (simp_all add: ok_or_def)

lemma ok_or_Inr_iff: "ok_or x e = Inr y \<longleftrightarrow> x = Some y"
  by (cases x) auto

lemma map_err_simps [simp, result_simps]:
  "map_err f (Inl e) = Inl (f e)" "map_err f (Inr x) = Inr x"
  by (simp_all add: map_err_def)

lemma map_err_Inr_iff: "map_err f r = Inr y \<longleftrightarrow> r = Inr y"
  by (cases r) auto

lemma ensure_simps [simp, result_simps]: "ensure True e = Inr ()" "ensure False e = Inl e"
  by (simp_all add: ensure_def)

lemma ensure_Inr_iff: "ensure b e = Inr u \<longleftrightarrow> b"
  by (simp add: ensure_def)

lemmas result_iffs = and_then_Inr_iff ok_or_Inr_iff map_err_Inr_iff ensure_Inr_iff

lemma for_each_single [simp]: "for_each f [x] s = f x s"
  by (simp split: sum.split)

lemma for_each_append:
  "for_each f (xs @ ys) s = and_then (for_each f xs s) (for_each f ys)"
  by (induction xs arbitrary: s) (auto split: sum.splits)

lemma for_each_unit_Inr_iff:
  "for_each (\<lambda>x (u::unit). if P x then Inl (e x) else Inr ()) xs u = Inr u'
     \<longleftrightarrow> (\<forall>x \<in> set xs. \<not> P x)"
  by (induction xs arbitrary: u) auto

end
