(* ===== verification/Rust_Str.thy ===== *)
theory Rust_Str
  imports Prelude
begin

text \<open>
  The operations of Rust's \<open>str\<close>, \<open>String\<close> and slices that the sources call, as functions on byte
  strings, with the laws the components use: prefixes and suffixes, splitting at a separator,
  ASCII case folding, decimal parsing and printing, window search.
\<close>

subsection \<open>Prefixes, suffixes, search\<close>

definition starts_with :: "'a list \<Rightarrow> 'a list \<Rightarrow> bool" where
  "starts_with s p = (take (length p) s = p)"

definition strip_prefix :: "'a list \<Rightarrow> 'a list \<Rightarrow> 'a list option" where
  "strip_prefix p s = (if starts_with s p then Some (drop (length p) s) else None)"

definition ends_with :: "'a list \<Rightarrow> 'a list \<Rightarrow> bool" where
  "ends_with s p = (length p \<le> length s \<and> drop (length s - length p) s = p)"

definition strip_suffix :: "'a list \<Rightarrow> 'a list \<Rightarrow> 'a list option" where
  "strip_suffix p s = (if ends_with s p then Some (take (length s - length p) s) else None)"

text \<open>\<open>windows(n).position(|w| w == needle)\<close>: the first offset where the needle occurs.\<close>

fun position :: "'a list \<Rightarrow> 'a list \<Rightarrow> nat option" where
  "position needle [] = (if needle = [] then Some 0 else None)"
| "position needle (x # xs) =
     (if starts_with (x # xs) needle then Some 0 else map_option Suc (position needle xs))"

definition contains_str :: "'a list \<Rightarrow> 'a list \<Rightarrow> bool" where
  "contains_str hay needle = (position needle hay \<noteq> None)"

definition contains_any :: "'a list \<Rightarrow> 'a list \<Rightarrow> bool" where
  "contains_any s cs = list_ex (\<lambda>c. c \<in> set cs) s"

lemma starts_with_iff: "starts_with s p \<longleftrightarrow> (\<exists>r. s = p @ r)"
proof
  assume "starts_with s p"
  then have "s = p @ drop (length p) s"
    unfolding starts_with_def by (metis append_take_drop_id)
  then show "\<exists>r. s = p @ r" by blast
qed (auto simp: starts_with_def)

lemma starts_with_append [simp]: "starts_with (p @ r) p"
  by (simp add: starts_with_def)

lemma strip_prefix_Some: "strip_prefix p s = Some r \<longleftrightarrow> s = p @ r"
proof
  assume "strip_prefix p s = Some r"
  then have "take (length p) s = p" and "r = drop (length p) s"
    by (auto simp: strip_prefix_def starts_with_def split: if_splits)
  then show "s = p @ r" by (metis append_take_drop_id)
qed (simp add: strip_prefix_def)

lemma ends_with_iff: "ends_with s p \<longleftrightarrow> (\<exists>r. s = r @ p)"
proof
  assume "ends_with s p"
  then have "s = take (length s - length p) s @ p"
    unfolding ends_with_def by (metis append_take_drop_id)
  then show "\<exists>r. s = r @ p" by blast
qed (auto simp: ends_with_def)

lemma strip_suffix_Some: "strip_suffix p s = Some r \<longleftrightarrow> s = r @ p"
proof
  assume a: "strip_suffix p s = Some r"
  then have "ends_with s p" and r: "r = take (length s - length p) s"
    by (auto simp: strip_suffix_def split: if_splits)
  then have "drop (length s - length p) s = p" by (simp add: ends_with_def)
  with r show "s = r @ p" by (metis append_take_drop_id)
qed (auto simp: strip_suffix_def ends_with_def)

lemma position_Some:
  "position n s = Some k \<Longrightarrow> k + length n \<le> length s \<and> take (length n) (drop k s) = n"
proof (induction s arbitrary: k)
  case Nil
  then show ?case by (auto split: if_splits)
next
  case (Cons x xs)
  show ?case
  proof (cases "starts_with (x # xs) n")
    case True
    then have "length n \<le> length (x # xs)" unfolding starts_with_iff
      by (metis le_add1 length_append)
    with True Cons.prems show ?thesis by (simp add: starts_with_def)
  next
    case False
    with Cons show ?thesis by auto
  qed
qed

lemma position_split: "position n s = Some k \<Longrightarrow> s = take k s @ n @ drop (k + length n) s"
  using position_Some [of n s k]
  by (metis append_take_drop_id drop_drop add.commute)

lemma position_None_append: "position n s = None \<Longrightarrow> s \<noteq> a @ n @ b"
proof (induction s arbitrary: a)
  case Nil
  then show ?case by (auto split: if_splits)
next
  case (Cons x xs)
  then have ns: "\<not> starts_with (x # xs) n" and none: "position n xs = None"
    by (auto split: if_splits)
  show ?case
  proof (cases a)
    case Nil
    with ns show ?thesis by (auto simp: starts_with_iff)
  next
    case (Cons y ys)
    with Cons.IH [OF none, of ys] show ?thesis by auto
  qed
qed

lemma position_least: "position n s = Some k \<Longrightarrow> s = a @ n @ b \<Longrightarrow> k \<le> length a"
proof (induction s arbitrary: a k)
  case Nil
  then show ?case by (auto split: if_splits)
next
  case (Cons x xs)
  show ?case
  proof (cases a)
    case Nil
    with Cons.prems(2) have "starts_with (x # xs) n" by (simp add: starts_with_def)
    with Cons.prems(1) show ?thesis by simp
  next
    case (Cons y ys)
    with Cons.prems Cons.IH [of _ ys] show ?thesis by (auto split: if_splits)
  qed
qed

lemma contains_str_iff: "contains_str s n \<longleftrightarrow> (\<exists>a b. s = a @ n @ b)"
  unfolding contains_str_def
  by (metis not_None_eq option.exhaust position_None_append position_split)

lemma contains_any_iff: "contains_any s cs \<longleftrightarrow> set s \<inter> set cs \<noteq> {}"
  by (auto simp: contains_any_def list_ex_iff)

subsection \<open>Splitting and joining\<close>

text \<open>\<open>split_once\<close> at the first occurrence of a separator; \<open>split\<close> on every occurrence.\<close>

definition split_once :: "'a list \<Rightarrow> 'a list \<Rightarrow> ('a list \<times> 'a list) option" where
  "split_once sep s =
     map_option (\<lambda>k. (take k s, drop (k + length sep) s)) (position sep s)"

fun split_char :: "'a \<Rightarrow> 'a list \<Rightarrow> 'a list list" where
  "split_char c [] = [[]]"
| "split_char c (x # xs) =
     (if x = c then [] # split_char c xs
      else (case split_char c xs of [] \<Rightarrow> [[x]] | p # ps \<Rightarrow> (x # p) # ps))"

fun join :: "'a list \<Rightarrow> 'a list list \<Rightarrow> 'a list" where
  "join sep [] = []"
| "join sep [x] = x"
| "join sep (x # y # ys) = x @ sep @ join sep (y # ys)"

lemma split_once_Some: "split_once sep s = Some (a, b) \<Longrightarrow> s = a @ sep @ b"
  using position_split by (fastforce simp: split_once_def)

lemma split_char_nonempty: "split_char c s \<noteq> []"
  by (induction s) (auto split: list.splits)

lemma join_split_char: "join [c] (split_char c s) = s"
proof (induction s)
  case Nil
  then show ?case by simp
next
  case (Cons x xs)
  obtain p ps where ps: "split_char c xs = p # ps"
    using split_char_nonempty [of c xs] by (cases "split_char c xs") auto
  with Cons.IH show ?case by (cases ps) auto
qed

subsection \<open>ASCII\<close>

definition char_code :: "char \<Rightarrow> nat" where
  "char_code c = of_char c"

definition ascii_lower :: "char \<Rightarrow> char" where
  "ascii_lower c = (if 65 \<le> char_code c \<and> char_code c \<le> 90 then char_of (char_code c + 32) else c)"

definition to_ascii_lowercase :: "string \<Rightarrow> string" where
  "to_ascii_lowercase s = map ascii_lower s"

definition eq_ignore_ascii_case :: "string \<Rightarrow> string \<Rightarrow> bool" where
  "eq_ignore_ascii_case a b = (to_ascii_lowercase a = to_ascii_lowercase b)"

definition is_ascii_digit :: "char \<Rightarrow> bool" where
  "is_ascii_digit c = (48 \<le> char_code c \<and> char_code c \<le> 57)"

definition is_ascii_alphanumeric :: "char \<Rightarrow> bool" where
  "is_ascii_alphanumeric c =
     (is_ascii_digit c \<or> (65 \<le> char_code c \<and> char_code c \<le> 90) \<or> (97 \<le> char_code c \<and> char_code c \<le> 122))"

lemma ascii_lower_idem [simp]: "ascii_lower (ascii_lower c) = ascii_lower c"
  by (auto simp: ascii_lower_def char_code_def)

lemma to_ascii_lowercase_idem [simp]:
  "to_ascii_lowercase (to_ascii_lowercase s) = to_ascii_lowercase s"
  by (simp add: to_ascii_lowercase_def)

lemma length_to_ascii_lowercase [simp]: "length (to_ascii_lowercase s) = length s"
  by (simp add: to_ascii_lowercase_def)

definition as_bytes :: "string \<Rightarrow> bytes" where
  "as_bytes s = map of_char s"

definition from_bytes :: "bytes \<Rightarrow> string" where
  "from_bytes bs = map (\<lambda>b. char_of (unat b)) bs"

lemma length_as_bytes [simp]: "length (as_bytes s) = length s"
  by (simp add: as_bytes_def)

lemma from_bytes_as_bytes [simp]: "from_bytes (as_bytes s) = s"
proof -
  have "char_of (unat (of_char c :: u8)) = c" for c
  proof -
    have "unat (of_nat (of_char c) :: u8) = (of_char c :: nat)"
      by (simp only: unat_of_nat) (simp add: take_bit_nat_eq_self)
    then show ?thesis by (simp add: of_nat_of_char)
  qed
  then show ?thesis by (simp add: as_bytes_def from_bytes_def comp_def)
qed

lemma as_bytes_from_bytes [simp]: "as_bytes (from_bytes bs) = bs"
proof -
  have "of_char (char_of (unat b)) = b" for b :: u8
  proof -
    have "of_char (char_of (unat b)) = (of_nat (of_char (char_of (unat b)) :: nat) :: u8)"
      by (simp only: of_nat_of_char)
    also have "\<dots> = b" by (simp add: unsigned_less [of b, simplified])
    finally show ?thesis .
  qed
  then show ?thesis by (simp add: as_bytes_def from_bytes_def comp_def)
qed

lemma as_bytes_inj: "as_bytes s = as_bytes t \<Longrightarrow> s = t"
  by (metis from_bytes_as_bytes)

lemma from_bytes_inj: "from_bytes a = from_bytes b \<Longrightarrow> a = b"
  by (metis as_bytes_from_bytes)

subsection \<open>Decimal numbers\<close>

fun show_nat :: "nat \<Rightarrow> string" where
  "show_nat n = (if n < 10 then [char_of (48 + n)] else show_nat (n div 10) @ [char_of (48 + n mod 10)])"

declare show_nat.simps [simp del]

fun digits_val :: "nat \<Rightarrow> string \<Rightarrow> nat option" where
  "digits_val acc [] = Some acc"
| "digits_val acc (c # cs) =
     (if is_ascii_digit c then digits_val (acc * 10 + (char_code c - 48)) cs else None)"

text \<open>\<open>str::parse\<close> at an unsigned type with maximum \<open>hi\<close>: an optional plus sign, at least one digit,
  and an error above the maximum.\<close>

definition parse_uint :: "nat \<Rightarrow> string \<Rightarrow> nat option" where
  "parse_uint hi s =
     (let ds = (case s of c # cs \<Rightarrow> if c = CHR ''+'' then cs else s | [] \<Rightarrow> s)
      in if ds = [] then None
         else (case digits_val 0 ds of Some n \<Rightarrow> if n \<le> hi then Some n else None | None \<Rightarrow> None))"

lemma parse_uint_le: "parse_uint hi s = Some n \<Longrightarrow> n \<le> hi"
  by (auto simp: parse_uint_def Let_def split: if_splits option.splits list.splits)

lemma char_code_digit: "d < 10 \<Longrightarrow> char_code (char_of (48 + d :: nat)) = 48 + d"
  by (simp add: char_code_def)

lemma is_ascii_digit_char_of: "d < 10 \<Longrightarrow> is_ascii_digit (char_of (48 + d :: nat))"
  by (simp add: is_ascii_digit_def char_code_digit)

lemma digits_val_snoc:
  "digits_val acc ds = Some v \<Longrightarrow> d < 10 \<Longrightarrow> digits_val acc (ds @ [char_of (48 + d :: nat)]) = Some (v * 10 + d)"
  by (induction acc ds rule: digits_val.induct)
     (auto simp: is_ascii_digit_char_of char_code_digit split: if_splits)

lemma digits_val_show_nat: "digits_val 0 (show_nat n) = Some n"
proof (induction n rule: show_nat.induct)
  case (1 n)
  show ?case
  proof (cases "n < 10")
    case True
    then show ?thesis
      by (simp add: show_nat.simps [of n] is_ascii_digit_char_of char_code_digit)
  next
    case False
    with "1.IH" digits_val_snoc [of 0 "show_nat (n div 10)" "n div 10" "n mod 10"]
    show ?thesis by (simp add: show_nat.simps [of n])
  qed
qed

lemma show_nat_digits: "c \<in> set (show_nat n) \<Longrightarrow> is_ascii_digit c"
proof (induction n rule: show_nat.induct)
  case (1 n)
  then show ?case
    by (cases "n < 10") (auto simp: show_nat.simps [of n] is_ascii_digit_char_of)
qed

lemma show_nat_nonempty: "show_nat n \<noteq> []"
  by (simp add: show_nat.simps [of n])

lemma show_nat_inj: "show_nat m = show_nat n \<Longrightarrow> m = n"
  by (metis digits_val_show_nat option.inject)

end
