(* ===== verification/Json.thy ===== *)
theory Json
  imports Rust_Str
begin

text \<open>
  JSON values as \<open>serde_json::Value\<close> exposes them.  Numbers keep serde's three variants, so
  \<open>1\<close> and \<open>1.0\<close> are different values; a finite double is represented by the rational it
  denotes.  Objects are association lists in key order without duplicate keys, the iteration
  order of the default \<open>serde_json::Map\<close> (a \<open>BTreeMap\<close>).
\<close>

type_synonym f64 = rat

datatype json_number = PosInt u64 | NegInt int | Float f64

datatype json =
    JNull
  | JBool bool
  | JNumber json_number
  | JString string
  | JArray "json list"
  | JObject "(string \<times> json) list"

subsection \<open>Accessors\<close>

fun as_object :: "json \<Rightarrow> (string \<times> json) list option" where
  "as_object (JObject m) = Some m"
| "as_object _ = None"

fun as_array :: "json \<Rightarrow> json list option" where
  "as_array (JArray xs) = Some xs"
| "as_array _ = None"

fun as_str :: "json \<Rightarrow> string option" where
  "as_str (JString s) = Some s"
| "as_str _ = None"

fun as_bool :: "json \<Rightarrow> bool option" where
  "as_bool (JBool b) = Some b"
| "as_bool _ = None"

fun as_u64 :: "json \<Rightarrow> u64 option" where
  "as_u64 (JNumber (PosInt n)) = Some n"
| "as_u64 _ = None"

fun is_number :: "json \<Rightarrow> bool" where
  "is_number (JNumber _) = True"
| "is_number _ = False"

text \<open>\<open>as_i64\<close> or \<open>as_u64\<close> is defined exactly on the two integer variants.\<close>

fun is_integer :: "json \<Rightarrow> bool" where
  "is_integer (JNumber (PosInt _)) = True"
| "is_integer (JNumber (NegInt _)) = True"
| "is_integer _ = False"

fun json_get :: "json \<Rightarrow> string \<Rightarrow> json option" where
  "json_get (JObject m) k = map_of m k"
| "json_get _ k = None"

definition get_str :: "json \<Rightarrow> string \<Rightarrow> string option" where
  "get_str v k = Option.bind (json_get v k) as_str"

definition get_array :: "json \<Rightarrow> string \<Rightarrow> json list option" where
  "get_array v k = Option.bind (json_get v k) as_array"

definition get_object :: "json \<Rightarrow> string \<Rightarrow> (string \<times> json) list option" where
  "get_object v k = Option.bind (json_get v k) as_object"

definition get_u64 :: "json \<Rightarrow> string \<Rightarrow> u64 option" where
  "get_u64 v k = Option.bind (json_get v k) as_u64"

text \<open>Insertion into the ordered map.\<close>

fun map_insert :: "('k::linorder) \<Rightarrow> 'v \<Rightarrow> ('k \<times> 'v) list \<Rightarrow> ('k \<times> 'v) list" where
  "map_insert k v [] = [(k, v)]"
| "map_insert k v ((k', v') # m) =
     (if k < k' then (k, v) # (k', v') # m
      else if k = k' then (k, v) # m
      else (k', v') # map_insert k v m)"

definition map_wf :: "(('k::linorder) \<times> 'v) list \<Rightarrow> bool" where
  "map_wf m = (sorted (map fst m) \<and> distinct (map fst m))"

lemma map_insert_keys: "set (map fst (map_insert k v m)) = insert k (set (map fst m))"
  by (induction k v m rule: map_insert.induct) auto

lemma map_insert_wf: "map_wf m \<Longrightarrow> map_wf (map_insert k v m)"
proof (induction k v m rule: map_insert.induct)
  case (1 k v)
  then show ?case by (simp add: map_wf_def)
next
  case (2 k v k' v' m)
  then have wf: "map_wf m" and lt: "\<And>x. x \<in> set (map fst m) \<Longrightarrow> k' < x"
    by (auto simp: map_wf_def order_less_le)
  have keys: "set (map fst (map_insert k v m)) = insert k (set (map fst m))"
    by (rule map_insert_keys)
  consider "k < k'" | "k = k'" | "k' < k" by (rule linorder_cases)
  then show ?case
  proof cases
    case 1
    with 2(2) lt show ?thesis by (auto simp: map_wf_def)
  next
    case 2
    with lt wf show ?thesis by (fastforce simp: map_wf_def intro: less_imp_le)
  next
    case 3
    with 2 wf keys lt show ?thesis by (fastforce simp: map_wf_def)
  qed
qed

lemma map_of_map_insert: "map_wf m \<Longrightarrow> map_of (map_insert k v m) = (map_of m)(k \<mapsto> v)"
proof (induction k v m rule: map_insert.induct)
  case (1 k v)
  then show ?case by simp
next
  case (2 k v k' v' m)
  then have wf: "map_wf m" by (simp add: map_wf_def)
  consider "k < k'" | "k = k'" | "k' < k" by (rule linorder_cases)
  then show ?case
  proof cases
    case 1
    then show ?thesis by (auto simp: fun_eq_iff)
  next
    case 2
    then show ?thesis by (auto simp: fun_eq_iff)
  next
    case 3
    with 2 wf show ?thesis by (auto simp: fun_eq_iff)
  qed
qed

subsection \<open>Doubles\<close>

text \<open>
  Conversion of an integer to a double rounds to 53 significant bits, ties to even;
  \<open>bit_length\<close> is the number of binary digits.
\<close>

fun bit_length :: "int \<Rightarrow> nat" where
  "bit_length n = (if n \<le> 0 then 0 else Suc (bit_length (n div 2)))"

declare bit_length.simps [simp del]

definition round_half_even :: "int \<Rightarrow> int \<Rightarrow> int" where
  "round_half_even n d =
     (let q = n div d; r = n mod d
      in if 2 * r < d then q else if d < 2 * r then q + 1 else if even q then q else q + 1)"

definition int_to_f64 :: "int \<Rightarrow> f64" where
  "int_to_f64 n =
     (let k = bit_length \<bar>n\<bar> - 53
      in of_int (sgn n * round_half_even \<bar>n\<bar> (2 ^ k) * 2 ^ k))"

fun as_f64 :: "json \<Rightarrow> f64 option" where
  "as_f64 (JNumber (PosInt n)) = Some (int_to_f64 (uint n))"
| "as_f64 (JNumber (NegInt i)) = Some (int_to_f64 i)"
| "as_f64 (JNumber (Float x)) = Some x"
| "as_f64 _ = None"

definition get_f64 :: "json \<Rightarrow> string \<Rightarrow> f64 option" where
  "get_f64 v k = Option.bind (json_get v k) as_f64"

end
