(* ===== verification/Core_Types.thy ===== *)
theory Core_Types
  imports Json
begin

text \<open>
  The public data of \<open>kahea-core\<close>: risk classes, the four kinds of sealed plan, the WebSocket
  actions and limits, observations, denials and evidence envelopes.  A Rust struct is a record
  whose fields carry a prefix naming the struct; an enum is a datatype with the source's
  constructors.
\<close>

subsection \<open>Constants\<close>

definition PROTOCOL :: string where "PROTOCOL = ''kahea/k1''"

definition VERSION :: string where "VERSION = ''0.3.1''"

subsection \<open>Risk and diagnostics\<close>

datatype RiskClass = Read | Write | Destructive | Unknown

definition for_http_method :: "string \<Rightarrow> RiskClass" where
  "for_http_method m =
     (if m \<in> {''GET'', ''HEAD'', ''OPTIONS'', ''QUERY''} then Read
      else if m \<in> {''POST'', ''PUT'', ''PATCH''} then Write
      else if m = ''DELETE'' then Destructive
      else Unknown)"

datatype DiagnosticSeverity = Info | Warning | SeverityError

record AbsentCapability =
  ac_capability :: string
  ac_reason :: string
  ac_location :: string
  ac_severity :: DiagnosticSeverity
  ac_blocking :: bool

datatype OperationSummary = OperationSummary string string string string RiskClass

record OperationIndexEnvelope =
  oi_protocol :: string
  oi_kind :: string
  oi_version :: string
  oi_config_fingerprint :: string
  oi_source_fingerprints :: "string list"
  oi_source :: string
  oi_operations :: "OperationSummary list"
  oi_next :: "string option"
  oi_absent :: "AbsentCapability list"
  oi_exit :: u8

subsection \<open>HTTP request plans\<close>

record PlannedBody =
  pb_media_type :: string
  pb_bytes :: u64
  pb_blake3 :: string
  pb_encoding :: string
  pb_inline :: string

record PlannedHeader =
  ph_name :: string
  ph_value :: string

record PlannedAuth =
  pa_scheme :: string
  pa_kind :: string
  pa_profile :: string
  pa_placement :: string
  pa_token_url :: "string option"
  pa_scopes :: "string list"

record FieldDerivation =
  fd_field :: string
  fd_source :: string
  fd_source_location :: string
  fd_logical_value :: json
  fd_wire_value :: "string option"
  fd_transformations :: "string list"

record RequestPlan =
  rp_protocol :: string
  rp_kind :: string
  rp_version :: string
  rp_config_fingerprint :: string
  rp_policy_fingerprint :: string
  rp_source_fingerprints :: "string list"
  rp_id :: string
  rp_operation :: string
  rp_target :: string
  rp_method :: string
  rp_risk :: RiskClass
  rp_required_grants :: "string list"
  rp_secret_refs :: "string list"
  rp_headers :: "PlannedHeader list"
  rp_auth :: "PlannedAuth option"
  rp_body :: "PlannedBody option"
  rp_checks :: "string list"
  rp_response_contract :: json
  rp_sensitive_headers :: "string list"
  rp_redact_response_json_pointers :: "string list"
  rp_derivations :: "FieldDerivation list"
  rp_valid :: bool
  rp_fingerprint :: string
  rp_exit :: u8

subsection \<open>WebSocket plans\<close>

record WebSocketLimits =
  connect_timeout_ms :: u64
  action_timeout_ms :: u64
  idle_timeout_ms :: u64
  close_timeout_ms :: u64
  total_timeout_ms :: u64
  max_frame_bytes :: u64
  max_message_bytes :: u64
  max_inbound_frames :: u64
  max_outbound_frames :: u64
  max_inbound_messages :: u64
  max_outbound_messages :: u64
  max_inbound_bytes :: u64
  max_outbound_bytes :: u64

text \<open>The payloads of \<open>SendBinary\<close>, \<open>ExpectBinary\<close>, \<open>Ping\<close> and \<open>ExpectPong\<close> are base64 text; the last
  argument of an expectation is its own timeout.\<close>

datatype WebSocketAction =
    SendText string
  | SendBinary string
  | ExpectText string "u64 option"
  | ExpectBinary string "u64 option"
  | ExpectJson "string option" "json option" "json option" "u64 option"
  | Ping string
  | ExpectPong string "u64 option"
  | Close u16 string
  | ExpectClose "u16 list" "string option" "u64 option"

datatype WebSocketPlanError = Invalid string | Serialization

record WebSocketSessionSource =
  ss_kind :: string
  ss_version :: u32
  ss_operation_id :: string
  ss_url :: string
  ss_risk :: "RiskClass option"
  ss_headers :: "(string \<times> string) list"
  ss_auth :: "string option"
  ss_origin :: "string option"
  ss_subprotocols :: "string list"
  ss_limits :: WebSocketLimits
  ss_actions :: "WebSocketAction list"

record WebSocketPlan =
  wp_protocol :: string
  wp_kind :: string
  wp_version :: string
  wp_config_fingerprint :: string
  wp_policy_fingerprint :: string
  wp_source_fingerprints :: "string list"
  wp_id :: string
  wp_operation :: string
  wp_target :: string
  wp_risk :: RiskClass
  wp_required_grants :: "string list"
  wp_secret_refs :: "string list"
  wp_headers :: "PlannedHeader list"
  wp_auth :: "PlannedAuth option"
  wp_origin :: "string option"
  wp_subprotocols :: "string list"
  wp_handshake_checks :: "string list"
  wp_limits :: WebSocketLimits
  wp_actions :: "WebSocketAction list"
  wp_sensitive_headers :: "string list"
  wp_redact_response_json_pointers :: "string list"
  wp_valid :: bool
  wp_fingerprint :: string
  wp_exit :: u8

subsection \<open>Outcomes and observations\<close>

datatype Outcome = Passed | Failed | Denied | OutcomeError

record Observation =
  ob_protocol :: string
  ob_kind :: string
  ob_version :: string
  ob_config_fingerprint :: string
  ob_policy_fingerprint :: string
  ob_source_fingerprints :: "string list"
  ob_tool_version :: string
  ob_plan :: string
  ob_outcome :: Outcome
  ob_status :: "u16 option"
  ob_response_schema :: "string option"
  ob_latency_ms :: "f64 option"
  ob_response_bytes :: "u64 option"
  ob_body :: "string option"
  ob_trace :: "string option"
  ob_resolved_origin :: "string option"
  ob_http_version :: "string option"
  ob_secret_refs :: "string list"
  ob_runtime :: string
  ob_exit :: u8

datatype WebSocketCloseInitiator = Client | Server

record WebSocketCloseObservation =
  co_initiator :: WebSocketCloseInitiator
  co_code :: u16
  co_reason :: string

datatype WebSocketTerminalCause =
    Completed | HandshakeCheckFailed | ExpectationFailed | BudgetExhausted
  | DnsFailure | ConnectionFailure | TlsFailure | IoFailure | ProtocolViolation
  | UnexpectedEof | ConnectTimeout | ActionTimeout | IdleTimeout | CloseTimeout
  | TotalTimeout | Cancelled

record WebSocketCounters =
  inbound_frames :: u64
  outbound_frames :: u64
  inbound_messages :: u64
  outbound_messages :: u64
  inbound_bytes :: u64
  outbound_bytes :: u64

definition default_counters :: WebSocketCounters where
  "default_counters =
     \<lparr>inbound_frames = 0, outbound_frames = 0, inbound_messages = 0, outbound_messages = 0,
      inbound_bytes = 0, outbound_bytes = 0\<rparr>"

record WebSocketObservation =
  wo_protocol :: string
  wo_kind :: string
  wo_version :: string
  wo_config_fingerprint :: string
  wo_policy_fingerprint :: string
  wo_source_fingerprints :: "string list"
  wo_tool_version :: string
  wo_plan :: string
  wo_outcome :: Outcome
  wo_handshake_status :: "u16 option"
  wo_negotiated_subprotocol :: "string option"
  wo_handshake_latency_ms :: "f64 option"
  wo_session_duration_ms :: "f64 option"
  wo_transcript :: "string option"
  wo_handshake :: "string option"
  wo_trace :: "string option"
  wo_close :: "WebSocketCloseObservation option"
  wo_terminal_cause :: WebSocketTerminalCause
  wo_counters :: WebSocketCounters
  wo_resolved_origin :: "string option"
  wo_http_version :: "string option"
  wo_secret_refs :: "string list"
  wo_runtime :: string
  wo_exit :: u8

record DenialEnvelope =
  de_protocol :: string
  de_kind :: string
  de_version :: string
  de_config_fingerprint :: string
  de_plan :: string
  de_reason :: string
  de_required :: string
  de_policy :: string
  de_exit :: u8

record EvidenceEnvelope =
  ee_protocol :: string
  ee_kind :: string
  ee_version :: string
  ee_config_fingerprint :: string
  ee_handle :: string
  ee_media_type :: string
  ee_bytes :: u64
  ee_blake3 :: string
  ee_redacted :: bool
  ee_exit :: u8

record ExplanationEnvelope =
  xe_protocol :: string
  xe_kind :: string
  xe_version :: string
  xe_config_fingerprint :: string
  xe_handle :: string
  xe_media_type :: string
  xe_selector :: "string option"
  xe_value :: "json option"
  xe_bytes :: u64
  xe_truncated :: bool
  xe_exit :: u8

end
