(* ===== verification/Core_Campaigns.thy ===== *)
theory Core_Campaigns
  imports Core_Types
begin

text \<open>
  The plan and observation envelopes of the two campaign surfaces of \<open>kahea-core\<close>, Arazzo workflows
  and conformance runs.
\<close>

record WorkflowParameterBinding =
  pbind_name :: string
  pbind_location :: "string option"
  pbind_value :: json

datatype WorkflowStepTransport = Http | WebSocket

fun is_http :: "WorkflowStepTransport \<Rightarrow> bool" where
  "is_http Http = True"
| "is_http WebSocket = False"

record WorkflowWebSocketBinding =
  wbind_pointer :: string
  wbind_value :: json

record WorkflowStepTemplate =
  st_step_id :: string
  st_source_name :: string
  st_source_document :: json
  st_source_fingerprint :: string
  st_operation :: string
  st_parameters :: "WorkflowParameterBinding list"
  st_request_body :: "json option"
  st_outputs :: "(string \<times> json) list"
  st_deferred_bindings :: "string list"
  st_depends_on :: "string list"
  st_success_criteria :: "json list"
  st_on_success :: "json list"
  st_on_failure :: "json list"
  st_timeout_ms :: "u64 option"
  st_transport :: WorkflowStepTransport
  st_websocket_plan :: "WebSocketPlan option"
  st_websocket_bindings :: "WorkflowWebSocketBinding list"

record WorkflowPlan =
  wf_protocol :: string
  wf_kind :: string
  wf_version :: string
  wf_config_fingerprint :: string
  wf_policy_fingerprint :: string
  wf_source_fingerprints :: "string list"
  wf_id :: string
  wf_workflow :: string
  wf_input :: json
  wf_steps :: "WorkflowStepTemplate list"
  wf_risk :: RiskClass
  wf_required_grants :: "string list"
  wf_auth :: "string option"
  wf_server :: "string option"
  wf_checks :: "string list"
  wf_websocket_policy_fingerprint :: "string option"
  wf_fingerprint :: string
  wf_exit :: u8

datatype ConformanceGeneration = Positive | Negative

record ConformanceCasePlan =
  cc_case_id :: string
  cc_generation :: ConformanceGeneration
  cc_strategy :: string
  cc_plan :: string
  cc_plan_fingerprint :: string
  cc_request_digest :: string

record ConformancePlan =
  cp_protocol :: string
  cp_kind :: string
  cp_version :: string
  cp_config_fingerprint :: string
  cp_policy_fingerprint :: string
  cp_source_fingerprints :: "string list"
  cp_id :: string
  cp_operation :: string
  cp_seed :: u64
  cp_requested_cases :: nat
  cp_delay_ms :: u64
  cp_max_failures :: nat
  cp_cases :: "ConformanceCasePlan list"
  cp_risk :: RiskClass
  cp_required_grants :: "string list"
  cp_fingerprint :: string
  cp_exit :: u8

end
