(* ===== verification/Crates.thy ===== *)
theory Crates
  imports Core_Campaigns
begin

text \<open>
  Code the sources only call.  Third-party packages are not part of the repository, so every
  function of theirs that a modelled definition uses is a field of the record \<open>crates\<close>, which
  those definitions take as their first argument.  Nothing is assumed about a field here; a theorem
  that relies on documented behaviour of a package states it as a hypothesis.

  \<open>ParsedUrl\<close> holds what the accessors of \<open>url::Url\<close> return for one parsed URL.
\<close>

record ParsedUrl =
  url_scheme :: string
  url_username :: string
  url_password :: "string option"
  url_host_str :: "string option"
  url_port :: "u16 option"
  url_port_or_known_default :: "u16 option"
  url_path :: string
  url_query :: "string option"
  url_fragment :: "string option"
  url_origin_ascii :: string
  url_to_string :: string

text \<open>What an XPath expression evaluates to; a number is kept as the JSON value \<open>json!\<close> makes of it.\<close>

datatype xpath_value = XBool bool | XNumber json | XString string | XNodes "string list"

text \<open>What \<open>str::parse::<f64>\<close> can return.\<close>

datatype f64_parsed = Finite f64 | PosInf | NegInf | NotANumber

record crates =
  \<comment> \<open>\<open>blake3::hash(..).to_hex()\<close>\<close>
  blake3_hex :: "bytes \<Rightarrow> string"
  \<comment> \<open>\<open>base64\<close>, engine \<open>general_purpose::STANDARD\<close>\<close>
  b64_encode :: "bytes \<Rightarrow> string"
  b64_decode :: "string \<Rightarrow> bytes option"
  \<comment> \<open>\<open>serde_json\<close>: \<open>to_vec\<close> and \<open>from_slice\<close> on values, \<open>pointer\<close>, and assignment through \<open>pointer_mut\<close>\<close>
  json_to_vec :: "json \<Rightarrow> bytes option"
  json_from_slice :: "bytes \<Rightarrow> json option"
  json_pointer :: "json \<Rightarrow> string \<Rightarrow> json option"
  json_pointer_set :: "json \<Rightarrow> string \<Rightarrow> json \<Rightarrow> json option"
  \<comment> \<open>\<open>serde_json::to_vec\<close> on the derived serializers of the plan and observation types\<close>
  ser_request_plan :: "RequestPlan \<Rightarrow> bytes option"
  ser_websocket_plan :: "WebSocketPlan \<Rightarrow> bytes option"
  ser_workflow_plan :: "WorkflowPlan \<Rightarrow> bytes option"
  ser_conformance_plan :: "ConformancePlan \<Rightarrow> bytes option"
  ser_observation :: "Observation \<Rightarrow> bytes option"
  ser_websocket_observation :: "WebSocketObservation \<Rightarrow> bytes option"
  \<comment> \<open>\<open>url::Url::parse\<close>\<close>
  url_parse :: "string \<Rightarrow> ParsedUrl option"
  \<comment> \<open>\<open>http\<close>: whether \<open>HeaderName::from_str\<close> and \<open>HeaderValue::from_str\<close> accept\<close>
  header_name_ok :: "string \<Rightarrow> bool"
  header_value_ok :: "string \<Rightarrow> bool"
  \<comment> \<open>\<open>zstd\<close>\<close>
  zstd_encode :: "bytes \<Rightarrow> bytes"
  zstd_decode :: "bytes \<Rightarrow> bytes option"
  \<comment> \<open>\<open>sha1\<close>\<close>
  sha1_digest :: "bytes \<Rightarrow> bytes"
  \<comment> \<open>\<open>serde_json_path\<close>: the nodes a query selects, nothing if it does not parse\<close>
  jsonpath_query :: "string \<Rightarrow> json \<Rightarrow> json list option"
  \<comment> \<open>\<open>sxd_document\<close> and \<open>sxd_xpath\<close>\<close>
  xml_parses :: "bytes \<Rightarrow> bool"
  xpath_eval :: "bytes \<Rightarrow> string \<Rightarrow> xpath_value option"
  xpath_boolean :: "xpath_value \<Rightarrow> bool"
  \<comment> \<open>decimal conversion of doubles\<close>
  f64_parse :: "string \<Rightarrow> f64_parsed option"

subsection \<open>Digests and handles\<close>

definition u64_to_be_bytes :: "u64 \<Rightarrow> bytes" where
  "u64_to_be_bytes w =
     [ucast (drop_bit 56 w), ucast (drop_bit 48 w), ucast (drop_bit 40 w), ucast (drop_bit 32 w),
      ucast (drop_bit 24 w), ucast (drop_bit 16 w), ucast (drop_bit 8 w), ucast w]"

definition digest :: "crates \<Rightarrow> bytes \<Rightarrow> string" where
  "digest C bs = ''b3:'' @ blake3_hex C bs"

text \<open>What \<open>short_handle\<close> feeds the hasher, update by update; hashing the updates in sequence is hashing
  their concatenation.\<close>

definition handle_part :: "bytes \<Rightarrow> bytes" where
  "handle_part p = u64_to_be_bytes (len_u64 p) @ p"

definition handle_preimage :: "string \<Rightarrow> bytes list \<Rightarrow> bytes" where
  "handle_preimage kind parts =
     as_bytes ''kahea/k1'' @ [0] @ as_bytes kind @ concat (map handle_part parts)"

definition short_handle :: "crates \<Rightarrow> string \<Rightarrow> bytes list \<Rightarrow> string" where
  "short_handle C kind parts =
     kind @ '':'' @ take 12 (blake3_hex C (handle_preimage kind parts))"

definition default_config_fingerprint :: "crates \<Rightarrow> string" where
  "default_config_fingerprint C = digest C (as_bytes ''kahea/default-config/v1'')"

lemma length_u64_to_be_bytes [simp]: "length (u64_to_be_bytes w) = 8"
  by (simp add: u64_to_be_bytes_def)

definition u64_from_be_bytes :: "bytes \<Rightarrow> u64" where
  "u64_from_be_bytes bs = foldl (\<lambda>acc b. push_bit 8 acc OR ucast b) 0 bs"

lemma be_step:
  fixes w :: u64
  shows "push_bit 8 (drop_bit (k + 8) w) OR ucast (ucast (drop_bit k w) :: u8) = drop_bit k w"
  by (rule bit_word_eqI) (auto simp: bit_simps algebra_simps)

lemma be_top: "ucast (ucast (drop_bit 56 w) :: u8) = drop_bit 56 (w :: u64)"
proof (rule bit_word_eqI)
  fix n
  show "bit (ucast (ucast (drop_bit 56 w) :: u8) :: u64) n = bit (drop_bit 56 w) n"
    using bit_imp_le_length [of w "n + 56"] by (auto simp: bit_simps algebra_simps)
qed

lemma u64_from_to_be_bytes [simp]: "u64_from_be_bytes (u64_to_be_bytes w) = w"
  using be_step [of 48 w] be_step [of 40 w] be_step [of 32 w] be_step [of 24 w]
    be_step [of 16 w] be_step [of 8 w] be_step [of 0 w] be_top [of w]
  by (simp add: u64_from_be_bytes_def u64_to_be_bytes_def)

lemma handle_part_append_inj:
  assumes "handle_part p @ r = handle_part q @ s"
    and "length p < 2 ^ 64" and "length q < 2 ^ 64"
  shows "p = q \<and> r = s"
proof -
  from assms(1) have "u64_to_be_bytes (len_u64 p) @ (p @ r) = u64_to_be_bytes (len_u64 q) @ (q @ s)"
    by (simp add: handle_part_def)
  then have be: "u64_to_be_bytes (len_u64 p) = u64_to_be_bytes (len_u64 q)" and rest: "p @ r = q @ s"
    by (simp_all add: append_eq_append_conv)
  from be have "len_u64 p = len_u64 q" by (metis u64_from_to_be_bytes)
  with assms(2,3) have "length p = length q" by (metis unat_len_u64)
  with rest show ?thesis by simp
qed

lemma handle_parts_inj:
  assumes "\<forall>p \<in> set ps. length p < 2 ^ 64" and "\<forall>q \<in> set qs. length q < 2 ^ 64"
    and "concat (map handle_part ps) = concat (map handle_part qs)"
  shows "ps = qs"
  using assms
proof (induction ps arbitrary: qs)
  case Nil
  then show ?case
    by (cases qs) (auto simp: handle_part_def u64_to_be_bytes_def)
next
  case (Cons p ps)
  show ?case
  proof (cases qs)
    case Nil
    with Cons.prems show ?thesis by (auto simp: handle_part_def u64_to_be_bytes_def)
  next
    case (Cons q qs')
    with Cons.prems handle_part_append_inj [of p "concat (map handle_part ps)" q "concat (map handle_part qs')"]
    have "p = q" and "concat (map handle_part ps) = concat (map handle_part qs')" by auto
    with Cons Cons.IH [of qs'] Cons.prems show ?thesis by auto
  qed
qed

end
