(* ===== verification/Seal.thy ===== *)
theory Seal
  imports Crates
begin

text \<open>
  Sealing of plans (\<open>kahea-core\<close>).  Sealing empties \<open>id\<close> and \<open>fingerprint\<close>, serializes what is left,
  stores the digest of those bytes as the fingerprint and derives the handle from the fingerprint;
  \<open>verify_seal\<close> recomputes both.  The four plan kinds share this contract, stated once as the locale
  \<open>sealing\<close>: an operation that seals, one that verifies, the bytes under the seal.  The locale is
  interpreted here for request, workflow and conformance plans, and in \<open>Ws_Plan\<close> for WebSocket
  plans, whose \<open>seal\<close> also normalizes and validates.
\<close>

datatype SerdeError = SerdeError

definition sealed_by :: "crates \<Rightarrow> string \<Rightarrow> bytes option \<Rightarrow> string \<Rightarrow> string \<Rightarrow> bool" where
  "sealed_by C kind material fp ident =
     (\<exists>bs. material = Some bs \<and> fp = digest C bs \<and> ident = short_handle C kind [as_bytes fp])"

locale sealing =
  fixes C :: crates
    and kind :: string
    and seal :: "'p \<Rightarrow> 'e + 'p"
    and verify_seal :: "'p \<Rightarrow> SerdeError + bool"
    and material :: "'p \<Rightarrow> bytes option"
    and fp_of :: "'p \<Rightarrow> string"
    and id_of :: "'p \<Rightarrow> string"
  assumes seal_stamps: "seal p = Inr q \<Longrightarrow> sealed_by C kind (material q) (fp_of q) (id_of q)"
    and verify_iff: "verify_seal p = Inr True \<longleftrightarrow> sealed_by C kind (material p) (fp_of p) (id_of p)"
    and verify_total: "material p = Some bs \<Longrightarrow> \<exists>b. verify_seal p = Inr b"
begin

lemma seal_verifies: "seal p = Inr q \<Longrightarrow> verify_seal q = Inr True"
  by (simp add: verify_iff seal_stamps)

lemma same_fingerprint_same_id:
  assumes "verify_seal p = Inr True" and "verify_seal q = Inr True" and "fp_of p = fp_of q"
  shows "id_of p = id_of q"
  using assms by (auto simp: verify_iff sealed_by_def)

lemma same_fingerprint_same_material:
  assumes "verify_seal p = Inr True" and "verify_seal q = Inr True" and "fp_of p = fp_of q"
    and no_collision: "\<And>a b. material p = Some a \<Longrightarrow> material q = Some b
                         \<Longrightarrow> blake3_hex C a = blake3_hex C b \<Longrightarrow> a = b"
  shows "material p = material q"
proof -
  from assms(1) obtain a where a: "material p = Some a" "fp_of p = digest C a"
    by (auto simp: verify_iff sealed_by_def)
  from assms(2) obtain b where b: "material q = Some b" "fp_of q = digest C b"
    by (auto simp: verify_iff sealed_by_def)
  from a(2) b(2) assms(3) have "blake3_hex C a = blake3_hex C b" by (simp add: digest_def)
  with no_collision a(1) b(1) show ?thesis by auto
qed

lemma tampering_detected:
  assumes "verify_seal p = Inr True" and "fp_of q = fp_of p" and "material q \<noteq> material p"
    and "\<And>a b. material p = Some a \<Longrightarrow> material q = Some b
           \<Longrightarrow> blake3_hex C a = blake3_hex C b \<Longrightarrow> a = b"
  shows "verify_seal q \<noteq> Inr True"
  using assms same_fingerprint_same_material [of p q] by auto

end

subsection \<open>Request plans\<close>

definition clear_request_plan :: "RequestPlan \<Rightarrow> RequestPlan" where
  "clear_request_plan p = p\<lparr>rp_id := [], rp_fingerprint := []\<rparr>"

definition seal_request_plan :: "crates \<Rightarrow> RequestPlan \<Rightarrow> SerdeError + RequestPlan" where
  "seal_request_plan C p =
     (let p = clear_request_plan p in
      case ser_request_plan C p of
        None \<Rightarrow> Inl SerdeError
      | Some bs \<Rightarrow>
          (let fp = digest C bs
           in Inr (p\<lparr>rp_fingerprint := fp, rp_id := short_handle C ''plan'' [as_bytes fp]\<rparr>)))"

definition verify_seal_request_plan :: "crates \<Rightarrow> RequestPlan \<Rightarrow> SerdeError + bool" where
  "verify_seal_request_plan C p =
     (case ser_request_plan C (clear_request_plan p) of
        None \<Rightarrow> Inl SerdeError
      | Some bs \<Rightarrow> Inr (digest C bs = rp_fingerprint p
                     \<and> rp_id p = short_handle C ''plan'' [as_bytes (rp_fingerprint p)]))"

subsection \<open>Workflow plans\<close>

definition clear_workflow_plan :: "WorkflowPlan \<Rightarrow> WorkflowPlan" where
  "clear_workflow_plan p = p\<lparr>wf_id := [], wf_fingerprint := []\<rparr>"

definition seal_workflow_plan :: "crates \<Rightarrow> WorkflowPlan \<Rightarrow> SerdeError + WorkflowPlan" where
  "seal_workflow_plan C p =
     (let p = clear_workflow_plan p in
      case ser_workflow_plan C p of
        None \<Rightarrow> Inl SerdeError
      | Some bs \<Rightarrow>
          (let fp = digest C bs
           in Inr (p\<lparr>wf_fingerprint := fp, wf_id := short_handle C ''workflow-plan'' [as_bytes fp]\<rparr>)))"

definition verify_seal_workflow_plan :: "crates \<Rightarrow> WorkflowPlan \<Rightarrow> SerdeError + bool" where
  "verify_seal_workflow_plan C p =
     (case ser_workflow_plan C (clear_workflow_plan p) of
        None \<Rightarrow> Inl SerdeError
      | Some bs \<Rightarrow> Inr (digest C bs = wf_fingerprint p
                     \<and> wf_id p = short_handle C ''workflow-plan'' [as_bytes (wf_fingerprint p)]))"

subsection \<open>Conformance plans\<close>

definition clear_conformance_plan :: "ConformancePlan \<Rightarrow> ConformancePlan" where
  "clear_conformance_plan p = p\<lparr>cp_id := [], cp_fingerprint := []\<rparr>"

definition seal_conformance_plan :: "crates \<Rightarrow> ConformancePlan \<Rightarrow> SerdeError + ConformancePlan" where
  "seal_conformance_plan C p =
     (let p = clear_conformance_plan p in
      case ser_conformance_plan C p of
        None \<Rightarrow> Inl SerdeError
      | Some bs \<Rightarrow>
          (let fp = digest C bs
           in Inr (p\<lparr>cp_fingerprint := fp,
                     cp_id := short_handle C ''conformance-plan'' [as_bytes fp]\<rparr>)))"

definition verify_seal_conformance_plan :: "crates \<Rightarrow> ConformancePlan \<Rightarrow> SerdeError + bool" where
  "verify_seal_conformance_plan C p =
     (case ser_conformance_plan C (clear_conformance_plan p) of
        None \<Rightarrow> Inl SerdeError
      | Some bs \<Rightarrow> Inr (digest C bs = cp_fingerprint p
                     \<and> cp_id p = short_handle C ''conformance-plan'' [as_bytes (cp_fingerprint p)]))"

lemmas seal_defs =
  sealed_by_def clear_request_plan_def seal_request_plan_def verify_seal_request_plan_def
  clear_workflow_plan_def seal_workflow_plan_def verify_seal_workflow_plan_def
  clear_conformance_plan_def seal_conformance_plan_def verify_seal_conformance_plan_def

interpretation request_seal: sealing C "''plan''" "seal_request_plan C" "verify_seal_request_plan C"
    "\<lambda>p. ser_request_plan C (clear_request_plan p)" rp_fingerprint rp_id for C
  by unfold_locales (auto simp: seal_defs Let_def split: option.splits)

interpretation workflow_seal: sealing C "''workflow-plan''" "seal_workflow_plan C"
    "verify_seal_workflow_plan C" "\<lambda>p. ser_workflow_plan C (clear_workflow_plan p)"
    wf_fingerprint wf_id for C
  by unfold_locales (auto simp: seal_defs Let_def split: option.splits)

interpretation conformance_seal: sealing C "''conformance-plan''" "seal_conformance_plan C"
    "verify_seal_conformance_plan C" "\<lambda>p. ser_conformance_plan C (clear_conformance_plan p)"
    cp_fingerprint cp_id for C
  by unfold_locales (auto simp: seal_defs Let_def split: option.splits)

end
