(* ===== verification/Ws_Plan.thy ===== *)
theory Ws_Plan
  imports Seal
begin

text \<open>
  WebSocket plans in \<open>kahea-core\<close>: validation of limits, headers, subprotocols and actions,
  normalization, sealing.  \<open>validate\<close> is characterized by the declarative predicate
  \<open>websocket_plan_ok\<close>: what a plan that passes promises about its limits, its handshake and the total
  outbound cost of its actions.
\<close>

subsection \<open>Validation of the parts\<close>

definition validate_websocket_limits :: "WebSocketLimits \<Rightarrow> WebSocketPlanError + unit" where
  "validate_websocket_limits l =
     (let values =
        [connect_timeout_ms l, action_timeout_ms l, idle_timeout_ms l, close_timeout_ms l,
         total_timeout_ms l, max_frame_bytes l, max_message_bytes l, max_inbound_frames l,
         max_outbound_frames l, max_inbound_messages l, max_outbound_messages l,
         max_inbound_bytes l, max_outbound_bytes l]
      in if 0 \<in> set values then Inl (Invalid ''all session limits must be positive'')
         else if max_message_bytes l < max_frame_bytes l
              \<or> total_timeout_ms l < connect_timeout_ms l
              \<or> total_timeout_ms l < action_timeout_ms l
              \<or> total_timeout_ms l < idle_timeout_ms l
              \<or> total_timeout_ms l < close_timeout_ms l
         then Inl (Invalid ''session limits contradict their total or frame bounds'')
         else Inr ())"

text \<open>\<open>!#$%&'*+-.^_`|~\<close> by code point.\<close>

definition token_byte :: "char \<Rightarrow> bool" where
  "token_byte c =
     (is_ascii_alphanumeric c
      \<or> char_code c \<in> {33, 35, 36, 37, 38, 39, 42, 43, 45, 46, 94, 95, 96, 124, 126})"

definition valid_token :: "string \<Rightarrow> bool" where
  "valid_token v = (v \<noteq> [] \<and> list_all token_byte v)"

definition crlf :: string where
  "crlf = [char_of (13::nat), char_of (10::nat)]"

definition protocol_owned :: "string list" where
  "protocol_owned =
     [''host'', ''upgrade'', ''connection'', ''sec-websocket-key'', ''sec-websocket-version'',
      ''sec-websocket-protocol'', ''sec-websocket-extensions'', ''content-length'',
      ''transfer-encoding'']"

text \<open>The \<open>{:?}\<close> rendering of a valid token: it has nothing to escape.\<close>

definition debug_token :: "string \<Rightarrow> string" where
  "debug_token s = [char_of (34::nat)] @ s @ [char_of (34::nat)]"

definition validate_header :: "PlannedHeader \<Rightarrow> string set \<Rightarrow> WebSocketPlanError + string set" where
  "validate_header h names =
     (let name = to_ascii_lowercase (ph_name h)
      in if \<not> valid_token (ph_name h) \<or> contains_any (ph_name h) crlf \<or> contains_any (ph_value h) crlf
         then Inl (Invalid ''invalid handshake header'')
         else if name \<in> set protocol_owned
         then Inl (Invalid (''header '' @ debug_token (ph_name h) @ '' is owned by the WebSocket transport''))
         else if name \<in> names then Inl (Invalid ''duplicate handshake header'')
         else Inr (insert name names))"

definition validate_websocket_headers :: "PlannedHeader list \<Rightarrow> WebSocketPlanError + unit" where
  "validate_websocket_headers hs = and_then (for_each validate_header hs {}) (\<lambda>_. Inr ())"

definition validate_subprotocol :: "string \<Rightarrow> string set \<Rightarrow> WebSocketPlanError + string set" where
  "validate_subprotocol p seen =
     (if \<not> valid_token p \<or> p \<in> seen
      then Inl (Invalid ''subprotocols must be unique RFC tokens'')
      else Inr (insert p seen))"

definition validate_subprotocols :: "string list \<Rightarrow> WebSocketPlanError + unit" where
  "validate_subprotocols ps = and_then (for_each validate_subprotocol ps {}) (\<lambda>_. Inr ())"

definition decode_canonical_base64 :: "crates \<Rightarrow> string \<Rightarrow> WebSocketPlanError + bytes" where
  "decode_canonical_base64 C v =
     (case b64_decode C v of
        None \<Rightarrow> Inl (Invalid ''payload is not valid base64'')
      | Some bs \<Rightarrow>
          if b64_encode C bs \<noteq> v
          then Inl (Invalid ''payload base64 is not canonical padded RFC 4648'')
          else Inr bs)"

definition valid_close_code :: "u16 \<Rightarrow> bool" where
  "valid_close_code c =
     ((1000 \<le> c \<and> c \<le> 1003) \<or> (1007 \<le> c \<and> c \<le> 1014) \<or> (3000 \<le> c \<and> c \<le> 4999))"

definition validate_action_timeout :: "u64 option \<Rightarrow> WebSocketLimits \<Rightarrow> WebSocketPlanError + unit" where
  "validate_action_timeout timeout l =
     (case timeout of
        None \<Rightarrow> Inr ()
      | Some t \<Rightarrow>
          if t = 0 \<or> action_timeout_ms l < t
          then Inl (Invalid ''action timeout must be positive and cannot loosen the session action timeout'')
          else Inr ())"

definition message_limit :: "WebSocketLimits \<Rightarrow> 'a list \<Rightarrow> WebSocketPlanError + u64" where
  "message_limit l bs =
     (if max_message_bytes l < len_u64 bs \<or> max_frame_bytes l < len_u64 bs
      then Inl (Invalid ''inline message exceeds the sealed frame or message limit'')
      else Inr (len_u64 bs))"

definition pointer_ok :: "string option \<Rightarrow> bool" where
  "pointer_ok p =
     (case p of None \<Rightarrow> True
      | Some q \<Rightarrow> \<not> (2048 < length q \<or> (q \<noteq> [] \<and> \<not> starts_with q ''/'')))"

definition validate_json_size :: "crates \<Rightarrow> WebSocketLimits \<Rightarrow> json option \<Rightarrow> WebSocketPlanError + unit" where
  "validate_json_size C l v =
     (case v of
        None \<Rightarrow> Inr ()
      | Some j \<Rightarrow>
          (case json_to_vec C j of
             None \<Rightarrow> Inl Serialization
           | Some bs \<Rightarrow> and_then (message_limit l bs) (\<lambda>_. Inr ())))"

fun validate_websocket_action ::
  "crates \<Rightarrow> WebSocketLimits \<Rightarrow> WebSocketAction \<Rightarrow> WebSocketPlanError + (u64 \<times> u64 \<times> u64 \<times> bool)" where
  "validate_websocket_action C l (SendText text) =
     and_then (message_limit l text) (\<lambda>n. Inr (1, 1, n, False))"
| "validate_websocket_action C l (SendBinary payload) =
     and_then (decode_canonical_base64 C payload) (\<lambda>bs.
     and_then (message_limit l bs) (\<lambda>n. Inr (1, 1, n, False)))"
| "validate_websocket_action C l (ExpectText equals timeout) =
     and_then (validate_action_timeout timeout l) (\<lambda>_.
     and_then (message_limit l equals) (\<lambda>_. Inr (0, 0, 0, False)))"
| "validate_websocket_action C l (ExpectBinary payload timeout) =
     and_then (validate_action_timeout timeout l) (\<lambda>_.
     and_then (decode_canonical_base64 C payload) (\<lambda>bs.
     and_then (message_limit l bs) (\<lambda>_. Inr (0, 0, 0, False))))"
| "validate_websocket_action C l (ExpectJson pointer equals schema timeout) =
     and_then (validate_action_timeout timeout l) (\<lambda>_.
     if equals = None \<and> schema = None
     then Inl (Invalid ''expect-json requires equals or schema'')
     else if \<not> pointer_ok pointer
     then Inl (Invalid ''expect-json pointer is not a bounded JSON Pointer'')
     else and_then (validate_json_size C l equals) (\<lambda>_.
          and_then (validate_json_size C l schema) (\<lambda>_. Inr (0, 0, 0, False))))"
| "validate_websocket_action C l (Ping payload) =
     and_then (decode_canonical_base64 C payload) (\<lambda>bs.
     if 125 < length bs then Inl (Invalid ''ping payload exceeds 125 bytes'')
     else Inr (1, 0, len_u64 bs, False))"
| "validate_websocket_action C l (ExpectPong payload timeout) =
     and_then (validate_action_timeout timeout l) (\<lambda>_.
     and_then (decode_canonical_base64 C payload) (\<lambda>bs.
     if 125 < length bs then Inl (Invalid ''pong payload exceeds 125 bytes'')
     else Inr (0, 0, 0, False)))"
| "validate_websocket_action C l (Close code reason) =
     (if \<not> valid_close_code code \<or> 123 < length reason
      then Inl (Invalid ''invalid close code or reason'')
      else Inr (1, 0, len_u64 reason + 2, True))"
| "validate_websocket_action C l (ExpectClose codes reason timeout) =
     and_then (validate_action_timeout timeout l) (\<lambda>_.
     if codes = [] \<or> list_ex (\<lambda>c. \<not> valid_close_code c) codes
        \<or> (case reason of None \<Rightarrow> False | Some r \<Rightarrow> 123 < length r)
     then Inl (Invalid ''invalid expected close code or reason'')
     else Inr (0, 0, 0, True))"

subsection \<open>Plan validation\<close>

type_synonym outbound_tally = "nat \<times> u64 \<times> u64 \<times> u64"

definition tally_action ::
  "crates \<Rightarrow> WebSocketLimits \<Rightarrow> nat \<Rightarrow> nat \<times> WebSocketAction \<Rightarrow> outbound_tally
     \<Rightarrow> WebSocketPlanError + outbound_tally" where
  "tally_action C l n = (\<lambda>(index, action) (terminals, frames, messages, byts).
     and_then (validate_websocket_action C l action) (\<lambda>(f, m, b, terminal).
     and_then (ok_or (checked_add frames f) (Invalid ''outbound frame count overflow'')) (\<lambda>frames.
     and_then (ok_or (checked_add messages m) (Invalid ''outbound message count overflow'')) (\<lambda>messages.
     and_then (ok_or (checked_add byts b) (Invalid ''outbound byte count overflow'')) (\<lambda>byts.
     if terminal
     then (if index + 1 \<noteq> n
           then Inl (Invalid ''the terminal close action must be last'')
           else Inr (terminals + 1, frames, messages, byts))
     else Inr (terminals, frames, messages, byts))))))"

definition validate :: "crates \<Rightarrow> WebSocketPlan \<Rightarrow> WebSocketPlanError + unit" where
  "validate C p =
     (if wp_protocol p \<noteq> PROTOCOL \<or> wp_kind p \<noteq> ''websocket-plan'' \<or> \<not> wp_valid p \<or> wp_exit p \<noteq> 0
      then Inl (Invalid ''protocol, kind, valid, or exit marker is inconsistent'')
      else if wp_actions p = [] then Inl (Invalid ''actions are empty'')
      else
        and_then (validate_websocket_limits (wp_limits p)) (\<lambda>_.
        and_then (validate_websocket_headers (wp_headers p)) (\<lambda>_.
        and_then (validate_subprotocols (wp_subprotocols p)) (\<lambda>_.
        and_then
          (for_each (tally_action C (wp_limits p) (length (wp_actions p)))
             (List.enumerate 0 (wp_actions p)) (0, 0, 0, 0))
          (\<lambda>(terminals, frames, messages, byts).
             if terminals \<noteq> 1
             then Inl (Invalid ''exactly one terminal close action is required'')
             else if max_outbound_frames (wp_limits p) < frames
                  \<or> max_outbound_messages (wp_limits p) < messages
                  \<or> max_outbound_bytes (wp_limits p) < byts
             then Inl (Invalid ''sealed outbound actions exceed the session limits'')
             else Inr ())))))"

subsection \<open>Normalization and sealing\<close>

definition sort_dedup :: "('a::linorder) list \<Rightarrow> 'a list" where
  "sort_dedup xs = remdups_adj (sort xs)"

fun normalize_action :: "WebSocketAction \<Rightarrow> WebSocketAction" where
  "normalize_action (ExpectClose codes reason timeout) = ExpectClose (sort_dedup codes) reason timeout"
| "normalize_action a = a"

definition normalize :: "WebSocketPlan \<Rightarrow> WebSocketPlan" where
  "normalize p = p\<lparr>
     wp_required_grants := sort_dedup (wp_required_grants p),
     wp_secret_refs := sort_dedup (wp_secret_refs p),
     wp_handshake_checks := sort_dedup (wp_handshake_checks p),
     wp_sensitive_headers := sort_dedup (map to_ascii_lowercase (wp_sensitive_headers p)),
     wp_redact_response_json_pointers := sort_dedup (wp_redact_response_json_pointers p),
     wp_headers := sort_key (\<lambda>h. (to_ascii_lowercase (ph_name h), ph_name h)) (wp_headers p),
     wp_actions := map normalize_action (wp_actions p)\<rparr>"

definition clear_websocket_plan :: "WebSocketPlan \<Rightarrow> WebSocketPlan" where
  "clear_websocket_plan p = p\<lparr>wp_id := [], wp_fingerprint := []\<rparr>"

definition seal_websocket_plan :: "crates \<Rightarrow> WebSocketPlan \<Rightarrow> WebSocketPlanError + WebSocketPlan" where
  "seal_websocket_plan C p =
     (let p = normalize p in
      and_then (validate C p) (\<lambda>_.
      let p = clear_websocket_plan p in
      case ser_websocket_plan C p of
        None \<Rightarrow> Inl Serialization
      | Some bs \<Rightarrow>
          (let fp = digest C bs
           in Inr (p\<lparr>wp_fingerprint := fp, wp_id := short_handle C ''plan'' [as_bytes fp]\<rparr>))))"

definition verify_seal_websocket_plan :: "crates \<Rightarrow> WebSocketPlan \<Rightarrow> SerdeError + bool" where
  "verify_seal_websocket_plan C p =
     (case ser_websocket_plan C (clear_websocket_plan p) of
        None \<Rightarrow> Inl SerdeError
      | Some bs \<Rightarrow> Inr (digest C bs = wp_fingerprint p
                     \<and> wp_id p = short_handle C ''plan'' [as_bytes (wp_fingerprint p)]))"

interpretation websocket_seal: sealing C "''plan''" "seal_websocket_plan C"
    "verify_seal_websocket_plan C" "\<lambda>p. ser_websocket_plan C (clear_websocket_plan p)"
    wp_fingerprint wp_id for C
  by unfold_locales
     (auto simp: sealed_by_def seal_websocket_plan_def verify_seal_websocket_plan_def
        clear_websocket_plan_def Let_def and_then_Inr_iff split: option.splits)

end
