(* ===== verification/Samples.thy ===== *)
theory Samples
  imports Ws_Plan
begin

text \<open>
  Concrete values the witnesses evaluate: an instance of the third-party functions, session limits,
  a WebSocket plan.  The instance is chosen to be simple and to satisfy the documented laws the
  properties assume: its hash is injective, its codecs invert each other, its serializer of plans keeps
  the target and the operation apart.
\<close>

definition sample_url :: "string \<Rightarrow> ParsedUrl option" where
  "sample_url s =
     (if s = ''ws://127.0.0.1:9000/feed''
      then Some \<lparr>url_scheme = ''ws'', url_username = [], url_password = None,
                 url_host_str = Some ''127.0.0.1'', url_port = Some 9000,
                 url_port_or_known_default = Some 9000, url_path = ''/feed'', url_query = None,
                 url_fragment = None, url_origin_ascii = ''ws://127.0.0.1:9000'',
                 url_to_string = ''ws://127.0.0.1:9000/feed''\<rparr>
      else None)"

definition sample_hex_digit :: "nat \<Rightarrow> char" where
  "sample_hex_digit n = char_of (if n < 10 then 48 + n else 87 + n)"

text \<open>A stand-in for a hash with the shape of the real one: 64 hexadecimal digits, without collisions on
  inputs of equal length up to 32 bytes.\<close>

definition sample_hash :: "bytes \<Rightarrow> string" where
  "sample_hash bs =
     take 64 (concat (map (\<lambda>b. [sample_hex_digit (unat b div 16), sample_hex_digit (unat b mod 16)]) bs)
              @ replicate 64 (CHR ''0''))"

definition sample_crates :: crates where
  "sample_crates =
     \<lparr>blake3_hex = from_bytes, b64_encode = from_bytes, b64_decode = (\<lambda>s. Some (as_bytes s)),
      json_to_vec = (\<lambda>j. Some (case j of JString s \<Rightarrow> as_bytes s | _ \<Rightarrow> as_bytes ''{}'')),
      json_from_slice = (\<lambda>b. Some (JString (from_bytes b))),
      json_pointer = (\<lambda>j p. if p = [] then Some j else None),
      json_pointer_set = (\<lambda>j p v. if p = [] then Some v else None),
      ser_request_plan = (\<lambda>p. Some (as_bytes (rp_target p))),
      ser_websocket_plan = (\<lambda>p. Some (as_bytes (wp_target p))),
      ser_workflow_plan = (\<lambda>p. Some (as_bytes (wf_id p @ wf_fingerprint p))),
      ser_conformance_plan = (\<lambda>p. Some (as_bytes (cp_id p @ cp_fingerprint p))),
      ser_observation = (\<lambda>o'. Some (as_bytes (ob_plan o'))),
      ser_websocket_observation = (\<lambda>o'. Some (as_bytes (wo_plan o'))),
      url_parse = sample_url, header_name_ok = valid_token,
      header_value_ok = (\<lambda>v. \<not> contains_any v crlf),
      zstd_encode = id, zstd_decode = Some, sha1_digest = take 20,
      jsonpath_query = (\<lambda>q j. if q = ''$'' then Some [j] else None), xml_parses = (\<lambda>_. False),
      xpath_eval = (\<lambda>_ _. None), xpath_boolean = (\<lambda>v. v = XBool True),
      f64_parse = (\<lambda>s. map_option (\<lambda>n. Finite (of_nat n)) (parse_uint 100 s))\<rparr>"

definition sample_limits :: WebSocketLimits where
  "sample_limits =
     \<lparr>connect_timeout_ms = 1000, action_timeout_ms = 1000, idle_timeout_ms = 1000,
      close_timeout_ms = 1000, total_timeout_ms = 5000, max_frame_bytes = 64, max_message_bytes = 64,
      max_inbound_frames = 4, max_outbound_frames = 4, max_inbound_messages = 4,
      max_outbound_messages = 4, max_inbound_bytes = 256, max_outbound_bytes = 256\<rparr>"

definition sample_actions :: "WebSocketAction list" where
  "sample_actions = [SendText ''hi'', ExpectText ''ok'' None, ExpectClose [1000] None None]"

definition sample_plan :: WebSocketPlan where
  "sample_plan =
     \<lparr>wp_protocol = PROTOCOL, wp_kind = ''websocket-plan'', wp_version = VERSION,
      wp_config_fingerprint = ''b3:config'', wp_policy_fingerprint = ''b3:policy'',
      wp_source_fingerprints = [''b3:source''], wp_id = [], wp_operation = ''feed'',
      wp_target = ''ws://127.0.0.1:9000/feed'', wp_risk = Read,
      wp_required_grants = [''net-cidr:127.0.0.1/32''], wp_secret_refs = [], wp_headers = [],
      wp_auth = None, wp_origin = None, wp_subprotocols = [''feed.v1''],
      wp_handshake_checks = [''status:101''], wp_limits = sample_limits,
      wp_actions = sample_actions, wp_sensitive_headers = [], wp_redact_response_json_pointers = [],
      wp_valid = True, wp_fingerprint = [], wp_exit = 0\<rparr>"

definition other_plan :: WebSocketPlan where
  "other_plan = sample_plan\<lparr>wp_target := ''ws://127.0.0.1:9000/''\<rparr>"

end
