(* ===== verification/Ws_Plan_Props.thy ===== *)
theory Ws_Plan_Props
  imports Ws_Plan Samples
begin

text \<open>
  Properties of WebSocket plan validation, normalization and sealing.  \<open>websocket_plan_ok\<close> states
  declaratively what a valid plan is; \<open>validate\<close> decides it.
\<close>

subsection \<open>The declarative specification\<close>

definition limits_ok :: "WebSocketLimits \<Rightarrow> bool" where
  "limits_ok l =
     (0 < connect_timeout_ms l \<and> 0 < action_timeout_ms l \<and> 0 < idle_timeout_ms l
      \<and> 0 < close_timeout_ms l \<and> 0 < max_frame_bytes l
      \<and> 0 < max_inbound_frames l \<and> 0 < max_outbound_frames l \<and> 0 < max_inbound_messages l
      \<and> 0 < max_outbound_messages l \<and> 0 < max_inbound_bytes l \<and> 0 < max_outbound_bytes l
      \<and> max_frame_bytes l \<le> max_message_bytes l
      \<and> connect_timeout_ms l \<le> total_timeout_ms l \<and> action_timeout_ms l \<le> total_timeout_ms l
      \<and> idle_timeout_ms l \<le> total_timeout_ms l \<and> close_timeout_ms l \<le> total_timeout_ms l)"

definition header_ok :: "PlannedHeader \<Rightarrow> bool" where
  "header_ok h =
     (valid_token (ph_name h) \<and> set (ph_value h) \<inter> set crlf = {}
      \<and> to_ascii_lowercase (ph_name h) \<notin> set protocol_owned)"

definition headers_ok :: "PlannedHeader list \<Rightarrow> bool" where
  "headers_ok hs = (list_all header_ok hs \<and> distinct (map (to_ascii_lowercase \<circ> ph_name) hs))"

definition subprotocols_ok :: "string list \<Rightarrow> bool" where
  "subprotocols_ok ps = (list_all valid_token ps \<and> distinct ps)"

definition payload_of :: "crates \<Rightarrow> string \<Rightarrow> bytes option" where
  "payload_of C v =
     (case b64_decode C v of
        Some bs \<Rightarrow> if b64_encode C bs = v then Some bs else None
      | None \<Rightarrow> None)"

definition fits :: "WebSocketLimits \<Rightarrow> 'a list \<Rightarrow> bool" where
  "fits l bs = (len_u64 bs \<le> max_message_bytes l \<and> len_u64 bs \<le> max_frame_bytes l)"

definition timeout_ok :: "WebSocketLimits \<Rightarrow> u64 option \<Rightarrow> bool" where
  "timeout_ok l t = (case t of None \<Rightarrow> True | Some ms \<Rightarrow> 0 < ms \<and> ms \<le> action_timeout_ms l)"

definition json_fits :: "crates \<Rightarrow> WebSocketLimits \<Rightarrow> json option \<Rightarrow> bool" where
  "json_fits C l v =
     (case v of None \<Rightarrow> True
      | Some j \<Rightarrow> (case json_to_vec C j of None \<Rightarrow> False | Some bs \<Rightarrow> fits l bs))"

fun action_ok :: "crates \<Rightarrow> WebSocketLimits \<Rightarrow> WebSocketAction \<Rightarrow> bool" where
  "action_ok C l (SendText t) = fits l t"
| "action_ok C l (SendBinary p) = (\<exists>bs. payload_of C p = Some bs \<and> fits l bs)"
| "action_ok C l (ExpectText t to) = (timeout_ok l to \<and> fits l t)"
| "action_ok C l (ExpectBinary p to) = (timeout_ok l to \<and> (\<exists>bs. payload_of C p = Some bs \<and> fits l bs))"
| "action_ok C l (ExpectJson ptr eq sch to) =
     (timeout_ok l to \<and> (eq \<noteq> None \<or> sch \<noteq> None) \<and> pointer_ok ptr \<and> json_fits C l eq \<and> json_fits C l sch)"
| "action_ok C l (Ping p) = (\<exists>bs. payload_of C p = Some bs \<and> length bs \<le> 125)"
| "action_ok C l (ExpectPong p to) = (timeout_ok l to \<and> (\<exists>bs. payload_of C p = Some bs \<and> length bs \<le> 125))"
| "action_ok C l (Close code reason) = (valid_close_code code \<and> length reason \<le> 123)"
| "action_ok C l (ExpectClose codes reason to) =
     (timeout_ok l to \<and> codes \<noteq> [] \<and> list_all valid_close_code codes
      \<and> (case reason of None \<Rightarrow> True | Some r \<Rightarrow> length r \<le> 123))"

fun is_terminal :: "WebSocketAction \<Rightarrow> bool" where
  "is_terminal (Close _ _) = True"
| "is_terminal (ExpectClose _ _ _) = True"
| "is_terminal _ = False"

text \<open>Frames, data messages and payload bytes an action puts on the wire, as natural numbers.\<close>

fun outbound_cost :: "crates \<Rightarrow> WebSocketAction \<Rightarrow> nat \<times> nat \<times> nat" where
  "outbound_cost C (SendText t) = (1, 1, unat (len_u64 t))"
| "outbound_cost C (SendBinary p) =
     (case payload_of C p of Some bs \<Rightarrow> (1, 1, unat (len_u64 bs)) | None \<Rightarrow> (0, 0, 0))"
| "outbound_cost C (Ping p) =
     (case payload_of C p of Some bs \<Rightarrow> (1, 0, unat (len_u64 bs)) | None \<Rightarrow> (0, 0, 0))"
| "outbound_cost C (Close code reason) = (1, 0, unat (len_u64 reason + 2))"
| "outbound_cost C _ = (0, 0, 0)"

definition frames_cost :: "crates \<Rightarrow> WebSocketAction list \<Rightarrow> nat" where
  "frames_cost C as = (\<Sum>a\<leftarrow>as. fst (outbound_cost C a))"

definition messages_cost :: "crates \<Rightarrow> WebSocketAction list \<Rightarrow> nat" where
  "messages_cost C as = (\<Sum>a\<leftarrow>as. fst (snd (outbound_cost C a)))"

definition bytes_cost :: "crates \<Rightarrow> WebSocketAction list \<Rightarrow> nat" where
  "bytes_cost C as = (\<Sum>a\<leftarrow>as. snd (snd (outbound_cost C a)))"

definition one_terminal_last :: "WebSocketAction list \<Rightarrow> bool" where
  "one_terminal_last as = (as \<noteq> [] \<and> is_terminal (last as) \<and> list_all (\<lambda>a. \<not> is_terminal a) (butlast as))"

definition websocket_plan_ok :: "crates \<Rightarrow> WebSocketPlan \<Rightarrow> bool" where
  "websocket_plan_ok C p =
     (wp_protocol p = PROTOCOL \<and> wp_kind p = ''websocket-plan'' \<and> wp_valid p \<and> wp_exit p = 0
      \<and> limits_ok (wp_limits p) \<and> headers_ok (wp_headers p) \<and> subprotocols_ok (wp_subprotocols p)
      \<and> list_all (action_ok C (wp_limits p)) (wp_actions p)
      \<and> one_terminal_last (wp_actions p)
      \<and> frames_cost C (wp_actions p) \<le> unat (max_outbound_frames (wp_limits p))
      \<and> messages_cost C (wp_actions p) \<le> unat (max_outbound_messages (wp_limits p))
      \<and> bytes_cost C (wp_actions p) \<le> unat (max_outbound_bytes (wp_limits p)))"

subsection \<open>The parts decide their specification\<close>

lemma validate_limits_iff: "validate_websocket_limits l = Inr u \<longleftrightarrow> limits_ok l"
  by (auto simp: validate_websocket_limits_def limits_ok_def Let_def not_less word_neq_0_conv
      simp flip: word_neq_0_conv)

lemma valid_token_no_crlf: "valid_token v \<Longrightarrow> \<not> contains_any v crlf"
  by (auto simp: valid_token_def contains_any_def crlf_def list_all_iff list_ex_iff token_byte_def
      is_ascii_alphanumeric_def is_ascii_digit_def char_code_def)

lemma for_each_Cons_Inr:
  "(\<exists>s'. for_each f (x # xs) s = Inr s') \<longleftrightarrow> (\<exists>t. f x s = Inr t \<and> (\<exists>s'. for_each f xs t = Inr s'))"
  by (auto split: sum.splits)

lemma validate_header_iff:
  "validate_header h names = Inr names' \<longleftrightarrow>
     header_ok h \<and> to_ascii_lowercase (ph_name h) \<notin> names
     \<and> names' = insert (to_ascii_lowercase (ph_name h)) names"
  using valid_token_no_crlf [of "ph_name h"]
  by (auto simp: validate_header_def header_ok_def Let_def contains_any_iff)

lemma validate_headers_loop:
  "(\<exists>names'. for_each validate_header hs names = Inr names')
     \<longleftrightarrow> headers_ok hs \<and> to_ascii_lowercase ` ph_name ` set hs \<inter> names = {}"
proof (induction hs arbitrary: names)
  case Nil
  then show ?case by (simp add: headers_ok_def)
next
  case (Cons h hs)
  show ?case
    unfolding for_each_Cons_Inr Cons.IH validate_header_iff by (auto simp: headers_ok_def)
qed

lemma validate_headers_iff: "validate_websocket_headers hs = Inr u \<longleftrightarrow> headers_ok hs"
  using validate_headers_loop [of hs "{}"]
  by (auto simp: validate_websocket_headers_def and_then_Inr_iff)

lemma validate_subprotocols_loop:
  "(\<exists>seen'. for_each validate_subprotocol ps seen = Inr seen')
     \<longleftrightarrow> subprotocols_ok ps \<and> set ps \<inter> seen = {}"
proof (induction ps arbitrary: seen)
  case Nil
  then show ?case by (simp add: subprotocols_ok_def)
next
  case (Cons p ps)
  show ?case
    unfolding for_each_Cons_Inr Cons.IH
    by (auto simp: validate_subprotocol_def subprotocols_ok_def)
qed

lemma validate_subprotocols_iff: "validate_subprotocols ps = Inr u \<longleftrightarrow> subprotocols_ok ps"
  using validate_subprotocols_loop [of ps "{}"]
  by (auto simp: validate_subprotocols_def and_then_Inr_iff)

lemma decode_canonical_iff: "decode_canonical_base64 C v = Inr bs \<longleftrightarrow> payload_of C v = Some bs"
  by (auto simp: decode_canonical_base64_def payload_of_def split: option.splits if_splits)

lemma message_limit_iff: "message_limit l bs = Inr n \<longleftrightarrow> fits l bs \<and> n = len_u64 bs"
  by (auto simp: message_limit_def fits_def not_less)

lemma action_timeout_iff: "validate_action_timeout t l = Inr u \<longleftrightarrow> timeout_ok l t"
  by (auto simp: validate_action_timeout_def timeout_ok_def not_less word_neq_0_conv split: option.splits)

lemma json_size_iff: "validate_json_size C l v = Inr u \<longleftrightarrow> json_fits C l v"
  by (auto simp: validate_json_size_def json_fits_def and_then_Inr_iff message_limit_iff
      split: option.splits)

lemmas part_iffs =
  and_then_Inr_iff decode_canonical_iff message_limit_iff action_timeout_iff json_size_iff

lemma validate_action_iff:
  "validate_websocket_action C l a = Inr (f, m, b, t) \<longleftrightarrow>
     action_ok C l a \<and> (unat f, unat m, unat b) = outbound_cost C a \<and> t = is_terminal a"
proof -
  have len: "unat x = unat (y :: u64) \<longleftrightarrow> x = y" for x y by (simp add: word_unat_eq_iff)
  have zero: "unat (x :: u64) = 0 \<longleftrightarrow> x = 0" for x by (metis len unsigned_0)
  have one: "unat (x :: u64) = Suc 0 \<longleftrightarrow> x = 1" for x by (metis One_nat_def len unsigned_1)
  show ?thesis
    by (cases a) (auto simp: part_iffs len zero one list_all_iff list_ex_iff not_less
          split: option.splits cong: conj_cong)
qed

subsection \<open>Plan validation decides the specification\<close>

lemma cost_Cons:
  "frames_cost C (a # as) = fst (outbound_cost C a) + frames_cost C as"
  "messages_cost C (a # as) = fst (snd (outbound_cost C a)) + messages_cost C as"
  "bytes_cost C (a # as) = snd (snd (outbound_cost C a)) + bytes_cost C as"
  "frames_cost C [] = 0" "messages_cost C [] = 0" "bytes_cost C [] = 0"
  by (simp_all add: frames_cost_def messages_cost_def bytes_cost_def)

lemma checked_add_iff:
  "checked_add a b = Some c \<longleftrightarrow> unat c = unat a + unat b"
proof
  assume eq: "unat c = unat a + unat b"
  moreover have "unat c < 2 ^ 64" using unsigned_less [of c] by simp
  ultimately have "unat (a + b) = unat a + unat b" and lt: "unat a + unat b < 2 ^ 64"
    using unat_add_u64 by auto
  with eq have "c = a + b" by (simp add: word_unat_eq_iff)
  with lt show "checked_add a b = Some c" by (simp add: checked_add_def)
qed (rule checked_add_Some)

lemma tally_action_iff:
  "tally_action C l n (i, a) (t, f, m, b) = Inr (t', f', m', b') \<longleftrightarrow>
     action_ok C l a \<and> (is_terminal a \<longrightarrow> i + 1 = n)
     \<and> t' = t + (if is_terminal a then 1 else 0)
     \<and> unat f' = unat f + fst (outbound_cost C a)
     \<and> unat m' = unat m + fst (snd (outbound_cost C a))
     \<and> unat b' = unat b + snd (snd (outbound_cost C a))"
  (is "?L \<longleftrightarrow> ?R")
proof -
  have split: "?L \<longleftrightarrow> (\<exists>df dm db dt. validate_websocket_action C l a = Inr (df, dm, db, dt)
      \<and> checked_add f df = Some f' \<and> checked_add m dm = Some m' \<and> checked_add b db = Some b'
      \<and> (dt \<longrightarrow> i + 1 = n) \<and> t' = t + (if dt then 1 else 0))"
  proof (cases "validate_websocket_action C l a")
    case (Inr r)
    then show ?thesis
      by (cases r) (auto simp: tally_action_def result_iffs)
  qed (simp add: tally_action_def)
  show ?thesis
  proof
    assume ?L
    then show ?R
      unfolding split
      by (cases "outbound_cost C a") (auto simp: validate_action_iff checked_add_iff)
  next
    assume r: ?R
    obtain df dm db where c: "outbound_cost C a = (df, dm, db)" by (cases "outbound_cost C a")
    have lt: "unat f' < 2 ^ 64" "unat m' < 2 ^ 64" "unat b' < 2 ^ 64"
      using unsigned_less [of f'] unsigned_less [of m'] unsigned_less [of b'] by simp_all
    have "unat (of_nat df :: u64) = df" "unat (of_nat dm :: u64) = dm" "unat (of_nat db :: u64) = db"
      using r c lt by (simp_all add: unat_of_nat)
    with r c have "validate_websocket_action C l a = Inr (of_nat df, of_nat dm, of_nat db, is_terminal a)
        \<and> checked_add f (of_nat df) = Some f' \<and> checked_add m (of_nat dm) = Some m'
        \<and> checked_add b (of_nat db) = Some b' \<and> (is_terminal a \<longrightarrow> i + 1 = n)
        \<and> t' = t + (if is_terminal a then 1 else 0)"
      by (simp add: validate_action_iff checked_add_iff)
    then show ?L unfolding split by blast
  qed
qed

lemma tally_loop_iff:
  assumes "n = i + length as" and "as \<noteq> []"
  shows "for_each (tally_action C l n) (List.enumerate i as) (t, f, m, b) = Inr (t', f', m', b') \<longleftrightarrow>
     list_all (action_ok C l) as \<and> list_all (\<lambda>a. \<not> is_terminal a) (butlast as)
     \<and> t' = t + (if is_terminal (last as) then 1 else 0)
     \<and> unat f' = unat f + frames_cost C as
     \<and> unat m' = unat m + messages_cost C as
     \<and> unat b' = unat b + bytes_cost C as"
  using assms
proof (induction as arbitrary: i t f m b)
  case Nil
  then show ?case by simp
next
  case (Cons a as)
  show ?case
  proof (cases "as = []")
    case True
    with Cons.prems show ?thesis
      by (simp add: tally_action_iff cost_Cons del: for_each.simps)
  next
    case False
    have step: "for_each (tally_action C l n) (List.enumerate i (a # as)) (t, f, m, b)
          = Inr (t', f', m', b') \<longleftrightarrow>
        (\<exists>t1 f1 m1 b1. tally_action C l n (i, a) (t, f, m, b) = Inr (t1, f1, m1, b1)
           \<and> for_each (tally_action C l n) (List.enumerate (Suc i) as) (t1, f1, m1, b1)
               = Inr (t', f', m', b'))"
      by (auto split: sum.splits)
    have IH: "for_each (tally_action C l n) (List.enumerate (Suc i) as) (t1, f1, m1, b1)
          = Inr (t', f', m', b') \<longleftrightarrow>
        list_all (action_ok C l) as \<and> list_all (\<lambda>a. \<not> is_terminal a) (butlast as)
        \<and> t' = t1 + (if is_terminal (last as) then 1 else 0)
        \<and> unat f' = unat f1 + frames_cost C as \<and> unat m' = unat m1 + messages_cost C as
        \<and> unat b' = unat b1 + bytes_cost C as" for t1 f1 m1 b1
      using Cons.IH [of "Suc i"] Cons.prems(1) False by simp
    show ?thesis (is "?L \<longleftrightarrow> ?R")
    proof
      assume ?L
      then show ?R
        using False Cons.prems(1)
        unfolding step IH tally_action_iff by (auto simp: cost_Cons split: if_splits)
    next
      assume r: ?R
      let ?f1 = "of_nat (unat f + fst (outbound_cost C a)) :: u64"
      let ?m1 = "of_nat (unat m + fst (snd (outbound_cost C a))) :: u64"
      let ?b1 = "of_nat (unat b + snd (snd (outbound_cost C a))) :: u64"
      have lt: "unat f' < 2 ^ 64" "unat m' < 2 ^ 64" "unat b' < 2 ^ 64"
        using unsigned_less [of f'] unsigned_less [of m'] unsigned_less [of b'] by simp_all
      have u: "unat ?f1 = unat f + fst (outbound_cost C a)"
        "unat ?m1 = unat m + fst (snd (outbound_cost C a))"
        "unat ?b1 = unat b + snd (snd (outbound_cost C a))"
        by (rule unat_of_nat_u64, use r lt in \<open>simp add: cost_Cons\<close>)+
      have "tally_action C l n (i, a) (t, f, m, b) = Inr (t, ?f1, ?m1, ?b1)"
        unfolding tally_action_iff using r False u by simp
      moreover have "for_each (tally_action C l n) (List.enumerate (Suc i) as) (t, ?f1, ?m1, ?b1)
          = Inr (t', f', m', b')"
        unfolding IH using r False u by (simp add: cost_Cons)
      ultimately show ?L unfolding step by blast
    qed
  qed
qed

lemma cost_word_iff: "(\<exists>f :: u64. unat f = F \<and> f \<le> mf) \<longleftrightarrow> F \<le> unat mf"
proof
  assume le: "F \<le> unat mf"
  have "F < 2 ^ 64" using le unat_lt_u64 [of mf] by linarith
  then have "unat (of_nat F :: u64) = F" by (rule unat_of_nat_u64)
  with le show "\<exists>f :: u64. unat f = F \<and> f \<le> mf" unfolding word_le_nat_alt by metis
qed (auto simp: word_le_nat_alt)

lemma cost_words_iff:
  "(\<exists>(f :: u64) (m :: u64) (b :: u64). unat f = F \<and> unat m = M \<and> unat b = B \<and> f \<le> mf \<and> m \<le> mm \<and> b \<le> mb) \<longleftrightarrow>
     F \<le> unat mf \<and> M \<le> unat mm \<and> B \<le> unat mb"
  using cost_word_iff [of F mf] cost_word_iff [of M mm] cost_word_iff [of B mb] by blast

lemma validate_iff: "validate C p = Inr u \<longleftrightarrow> websocket_plan_ok C p"
proof -
  let ?l = "wp_limits p" and ?as = "wp_actions p"
  let ?run = "for_each (tally_action C ?l (length ?as)) (List.enumerate 0 ?as) (0, 0, 0, 0)"
  have loop: "?run = Inr (t, f, m, b) \<longleftrightarrow>
      list_all (action_ok C ?l) ?as \<and> list_all (\<lambda>a. \<not> is_terminal a) (butlast ?as)
      \<and> t = (if is_terminal (last ?as) then 1 else 0)
      \<and> unat f = frames_cost C ?as \<and> unat m = messages_cost C ?as \<and> unat b = bytes_cost C ?as"
    if "?as \<noteq> []" for t f m b
    using tally_loop_iff [of "length ?as" 0 ?as C ?l 0 0 0 0 t f m b] that by simp
  have ex: "(\<exists>x. ?run = Inr x \<and> P x) \<longleftrightarrow> (\<exists>t f m b. ?run = Inr (t, f, m, b) \<and> P (t, f, m, b))" for P
    by auto
  show ?thesis
  proof (cases "?as = []")
    case True
    then show ?thesis by (simp add: validate_def websocket_plan_ok_def one_terminal_last_def)
  next
    case False
    let ?final = "\<lambda>(terminals :: nat, frames, messages, byts).
        if terminals \<noteq> 1 then Inl (Invalid ''exactly one terminal close action is required'')
        else if max_outbound_frames ?l < frames \<or> max_outbound_messages ?l < messages
             \<or> max_outbound_bytes ?l < byts
        then Inl (Invalid ''sealed outbound actions exceed the session limits'') else Inr ()"
    let ?marks = "wp_protocol p = PROTOCOL \<and> wp_kind p = ''websocket-plan'' \<and> wp_valid p \<and> wp_exit p = 0"
    have final: "?final (t, f, m, b) = Inr u \<longleftrightarrow> t = 1 \<and> f \<le> max_outbound_frames ?l
        \<and> m \<le> max_outbound_messages ?l \<and> b \<le> max_outbound_bytes ?l" for t f m b
      by auto
    have "validate C p = Inr u \<longleftrightarrow>
        ?marks \<and> limits_ok ?l \<and> headers_ok (wp_headers p) \<and> subprotocols_ok (wp_subprotocols p)
        \<and> (\<exists>x. ?run = Inr x \<and> ?final x = Inr u)"
    proof (cases ?marks)
      case True
      then show ?thesis
        by (simp add: validate_def False and_then_Inr_iff validate_limits_iff validate_headers_iff
            validate_subprotocols_iff)
    next
      case False
      then have "validate C p = Inl (Invalid ''protocol, kind, valid, or exit marker is inconsistent'')"
        unfolding validate_def by (subst if_P) auto
      with False show ?thesis by auto
    qed
    also have "\<dots> \<longleftrightarrow> ?marks \<and> limits_ok ?l \<and> headers_ok (wp_headers p)
        \<and> subprotocols_ok (wp_subprotocols p)
        \<and> list_all (action_ok C ?l) ?as \<and> list_all (\<lambda>a. \<not> is_terminal a) (butlast ?as)
        \<and> is_terminal (last ?as)
        \<and> (\<exists>f m b :: u64. unat f = frames_cost C ?as \<and> unat m = messages_cost C ?as
            \<and> unat b = bytes_cost C ?as \<and> f \<le> max_outbound_frames ?l
            \<and> m \<le> max_outbound_messages ?l \<and> b \<le> max_outbound_bytes ?l)"
      unfolding ex final loop [OF False] by (auto split: if_splits)
    finally have "validate C p = Inr u \<longleftrightarrow> \<dots>" .
    with False show ?thesis
      unfolding cost_words_iff websocket_plan_ok_def one_terminal_last_def by auto
  qed
qed

subsection \<open>Normalization\<close>

lemma distinct_remdups_adj_sorted: "sorted xs \<Longrightarrow> distinct (remdups_adj xs)"
proof (induction xs rule: remdups_adj.induct)
  case (3 x y xs)
  then show ?case by (cases "x = y") (auto intro: order.antisym)
qed auto

lemma sort_dedup_simps [simp]:
  "set (sort_dedup xs) = set xs" "sorted (sort_dedup xs)" "distinct (sort_dedup xs)"
  by (simp_all add: sort_dedup_def distinct_remdups_adj_sorted)

lemma sort_dedup_id: "sorted xs \<Longrightarrow> distinct xs \<Longrightarrow> sort_dedup xs = xs"
  by (simp add: sort_dedup_def sorted_sort_id remdups_adj_distinct)

lemma sort_dedup_idem [simp]: "sort_dedup (sort_dedup xs) = sort_dedup xs"
  by (rule sort_dedup_id) simp_all

lemma sort_dedup_lower_idem [simp]:
  "sort_dedup (map to_ascii_lowercase (sort_dedup (map to_ascii_lowercase xs)))
     = sort_dedup (map to_ascii_lowercase xs)"
proof -
  have "map to_ascii_lowercase (sort_dedup (map to_ascii_lowercase xs))
      = sort_dedup (map to_ascii_lowercase xs)"
    by (rule map_idI) auto
  then show ?thesis by simp
qed

lemma sort_dedup_empty [simp]: "sort_dedup xs = [] \<longleftrightarrow> xs = []"
  by (metis set_empty2 sort_dedup_simps(1))

lemma normalize_action_idem [simp]: "normalize_action (normalize_action a) = normalize_action a"
  by (cases a) simp_all

lemma normalize_action_ok [simp]: "action_ok C l (normalize_action a) = action_ok C l a"
  by (cases a) (simp_all add: list_all_iff)

lemma normalize_action_cost [simp]: "outbound_cost C (normalize_action a) = outbound_cost C a"
  by (cases a) simp_all

lemma normalize_action_terminal [simp]: "is_terminal (normalize_action a) = is_terminal a"
  by (cases a) simp_all

lemma sort_key_idem: "sort_key f (sort_key f xs) = sort_key f xs"
  by (rule sort_key_id_if_sorted) (rule sorted_sort_key)

lemma normalize_idem: "normalize (normalize p) = normalize p"
  by (simp add: normalize_def comp_def sort_key_idem)

lemma headers_ok_sort_key [simp]: "headers_ok (sort_key f hs) = headers_ok hs"
proof -
  have "distinct (map g (sort_key f hs)) = distinct (map g hs)" for g :: "PlannedHeader \<Rightarrow> string"
    by (simp add: distinct_map)
  then show ?thesis by (simp add: headers_ok_def list_all_iff)
qed

lemma cost_normalize [simp]:
  "frames_cost C (map normalize_action as) = frames_cost C as"
  "messages_cost C (map normalize_action as) = messages_cost C as"
  "bytes_cost C (map normalize_action as) = bytes_cost C as"
  by (simp_all add: frames_cost_def messages_cost_def bytes_cost_def comp_def)

lemma one_terminal_last_normalize [simp]:
  "one_terminal_last (map normalize_action as) = one_terminal_last as"
  by (cases as rule: rev_cases) (simp_all add: one_terminal_last_def list_all_iff)

lemma normalize_ok_iff: "websocket_plan_ok C (normalize p) = websocket_plan_ok C p"
  by (simp add: websocket_plan_ok_def normalize_def list_all_iff)

subsection \<open>Sealing\<close>

lemma clear_simps:
  "clear_websocket_plan (p\<lparr>wp_fingerprint := f, wp_id := i\<rparr>) = clear_websocket_plan p"
  "clear_websocket_plan (clear_websocket_plan p) = clear_websocket_plan p"
  "normalize (clear_websocket_plan p) = clear_websocket_plan (normalize p)"
  "normalize (p\<lparr>wp_fingerprint := f, wp_id := i\<rparr>) = (normalize p)\<lparr>wp_fingerprint := f, wp_id := i\<rparr>"
  "websocket_plan_ok C (clear_websocket_plan p) = websocket_plan_ok C p"
  "websocket_plan_ok C (p\<lparr>wp_fingerprint := f, wp_id := i\<rparr>) = websocket_plan_ok C p"
  by (simp_all add: clear_websocket_plan_def normalize_def websocket_plan_ok_def)

lemma seal_websocket_plan_iff:
  "seal_websocket_plan C p = Inr q \<longleftrightarrow>
     websocket_plan_ok C p \<and> (\<exists>bs. ser_websocket_plan C (clear_websocket_plan (normalize p)) = Some bs
       \<and> q = (clear_websocket_plan (normalize p))
               \<lparr>wp_fingerprint := digest C bs, wp_id := short_handle C ''plan'' [as_bytes (digest C bs)]\<rparr>)"
  by (auto simp: seal_websocket_plan_def Let_def and_then_Inr_iff validate_iff normalize_ok_iff
      split: option.splits)

lemma seal_websocket_plan_idem: "seal_websocket_plan C p = Inr q \<Longrightarrow> seal_websocket_plan C q = Inr q"
  unfolding seal_websocket_plan_iff
  by (auto simp: clear_simps normalize_idem normalize_ok_iff)

subsection \<open>The sample plan\<close>

lemma sample_plan_validates: "validate sample_crates sample_plan = Inr ()"
  by code_simp

lemma sample_plan_ok: "websocket_plan_ok sample_crates sample_plan"
  using sample_plan_validates by (simp add: validate_iff)

lemma sample_plan_seals: "\<exists>q. seal_websocket_plan sample_crates sample_plan = Inr q"
  using sample_plan_ok by (simp add: seal_websocket_plan_iff sample_crates_def)

subsection \<open>Claims\<close>

text \<open>
  C9.  Validation of a WebSocket plan decides the declarative specification: \<open>validate\<close> accepts a plan
  exactly when its markers, limits, headers, subprotocols and actions are well formed, exactly one
  terminal action closes it, and the total frames, messages and bytes of its outbound actions are
  within the sealed limits.  No sum overflows 64 bits unnoticed.
\<close>

theorem validate_decides_plan_ok: "validate C p = Inr () \<longleftrightarrow> websocket_plan_ok C p"
  by (rule validate_iff)

text \<open>
  C8.  Sealing a WebSocket plan succeeds exactly on plans that meet the specification and serialize; the
  sealed plan passes \<open>verify_seal\<close>, still meets the specification, is in normal form, and sealing it
  again changes nothing.
\<close>

theorem sealed_plan_is_canonical:
  assumes "seal_websocket_plan C p = Inr q"
  shows "verify_seal_websocket_plan C q = Inr True \<and> websocket_plan_ok C p \<and> websocket_plan_ok C q
       \<and> normalize q = q \<and> seal_websocket_plan C q = Inr q"
proof -
  have "websocket_plan_ok C p \<and> websocket_plan_ok C q \<and> normalize q = q"
    using assms unfolding seal_websocket_plan_iff by (auto simp: clear_simps normalize_idem normalize_ok_iff)
  with websocket_seal.seal_verifies [OF assms] seal_websocket_plan_idem [OF assms] show ?thesis by simp
qed

theorem sealed_plan_is_canonical_witness:
  "\<exists>q. seal_websocket_plan sample_crates sample_plan = Inr q
     \<and> verify_seal_websocket_plan sample_crates q = Inr True \<and> normalize q = q"
proof -
  obtain q where "seal_websocket_plan sample_crates sample_plan = Inr q" using sample_plan_seals by blast
  with sealed_plan_is_canonical [OF this] show ?thesis by blast
qed

text \<open>
  The seal is tamper-evident: where the hash does not collide on the two serializations and the
  serializer keeps the two plans apart, a plan that differs from a sealed plan under the same
  fingerprint does not pass \<open>verify_seal\<close>.
\<close>

theorem websocket_seal_tamper_evident:
  assumes sealed: "verify_seal_websocket_plan C p = Inr True"
    and same: "wp_fingerprint q = wp_fingerprint p" and differs: "q \<noteq> p"
    and no_collision: "\<And>a b. ser_websocket_plan C (clear_websocket_plan p) = Some a
          \<Longrightarrow> ser_websocket_plan C (clear_websocket_plan q) = Some b
          \<Longrightarrow> blake3_hex C a = blake3_hex C b \<Longrightarrow> a = b"
    and ser_inj: "ser_websocket_plan C (clear_websocket_plan p) = ser_websocket_plan C (clear_websocket_plan q)
          \<Longrightarrow> clear_websocket_plan p = clear_websocket_plan q"
  shows "verify_seal_websocket_plan C q \<noteq> Inr True"
proof
  assume q: "verify_seal_websocket_plan C q = Inr True"
  have "clear_websocket_plan p = clear_websocket_plan q"
    using websocket_seal.same_fingerprint_same_material [OF sealed q same [symmetric] no_collision] ser_inj
    by blast
  moreover have "wp_id p = wp_id q"
    using websocket_seal.same_fingerprint_same_id [OF sealed q] same by simp
  ultimately have "p = q"
    using same by (cases p; cases q) (simp add: clear_websocket_plan_def)
  with differs show False by simp
qed

theorem websocket_seal_tamper_evident_witness:
  "\<exists>q. seal_websocket_plan sample_crates sample_plan = Inr q
     \<and> verify_seal_websocket_plan sample_crates (q\<lparr>wp_target := ''ws://127.0.0.1:9000/''\<rparr>) \<noteq> Inr True"
proof -
  obtain q where q: "seal_websocket_plan sample_crates sample_plan = Inr q" using sample_plan_seals by blast
  then have target: "wp_target q = ''ws://127.0.0.1:9000/feed''"
    unfolding seal_websocket_plan_iff
    by (auto simp: clear_websocket_plan_def normalize_def sample_plan_def)
  let ?q = "q\<lparr>wp_target := ''ws://127.0.0.1:9000/''\<rparr>"
  have ser: "ser_websocket_plan sample_crates (clear_websocket_plan r) = Some (as_bytes (wp_target r))" for r
    by (simp add: sample_crates_def clear_websocket_plan_def)
  have "verify_seal_websocket_plan sample_crates ?q \<noteq> Inr True"
  proof (rule websocket_seal_tamper_evident)
    show "verify_seal_websocket_plan sample_crates q = Inr True" by (rule websocket_seal.seal_verifies [OF q])
    show "wp_fingerprint ?q = wp_fingerprint q" by simp
    have "wp_target ?q \<noteq> wp_target q" using target by simp
    then show "?q \<noteq> q" by metis
    show "a = b" if "blake3_hex sample_crates a = blake3_hex sample_crates b" for a b
      using that by (auto simp: sample_crates_def intro: from_bytes_inj)
    show "clear_websocket_plan q = clear_websocket_plan ?q"
      if "ser_websocket_plan sample_crates (clear_websocket_plan q)
            = ser_websocket_plan sample_crates (clear_websocket_plan ?q)"
      using that target unfolding ser by (auto dest: as_bytes_inj)
  qed
  with q show ?thesis by blast
qed

end
