(* ===== verification/Wire.thy ===== *)
theory Wire
  imports Crates
begin

text \<open>
  Wire accounting of a WebSocket session (\<open>kahea-exec\<close>, \<open>websocket.rs\<close>).  A \<open>WireParser\<close> watches the
  bytes of one direction as they pass through \<open>AccountedStream\<close>: it reassembles frame headers across
  reads, charges each frame against the sealed budgets before its payload is let through, and counts
  payload bytes.  \<open>observe\<close> is the source's loop over a chunk.  A slice or subtraction that would panic
  in Rust is the error \<open>Panic\<close>.

  \<open>feed\<close> is a reference automaton that takes one byte at a time; \<open>observe\<close> is shown equal to it on every
  well-formed parser, so the accounting cannot depend on how the transport splits the stream.
\<close>

record WireAccounting =
  wa_counters :: WebSocketCounters
  inbound_reserved_bytes :: u64
  outbound_reserved_bytes :: u64
  wa_failure :: "WebSocketTerminalCause option"

definition default_accounting :: WireAccounting where
  "default_accounting =
     \<lparr>wa_counters = default_counters, inbound_reserved_bytes = 0, outbound_reserved_bytes = 0,
      wa_failure = None\<rparr>"

record WireParser =
  wp_header :: bytes
  header_len :: nat
  header_needed :: nat
  payload_remaining :: u64
  wp_inbound :: bool

definition new_parser :: "bool \<Rightarrow> WireParser" where
  "new_parser inb =
     \<lparr>wp_header = replicate 14 0, header_len = 0, header_needed = 2, payload_remaining = 0,
      wp_inbound = inb\<rparr>"

datatype wire_error = InvalidData | Panic

type_synonym wire_result = "(wire_error + unit) \<times> WireParser \<times> WireAccounting"

subsection \<open>The loop of the source\<close>

text \<open>The payload branch: count what the chunk holds of the current payload.\<close>

definition count_payload :: "bool \<Rightarrow> u64 \<Rightarrow> WireAccounting \<Rightarrow> WireAccounting" where
  "count_payload inb n a =
     (if inb
      then a\<lparr>wa_counters := (wa_counters a)
               \<lparr>inbound_bytes := saturating_add (inbound_bytes (wa_counters a)) n\<rparr>\<rparr>
      else a\<lparr>wa_counters := (wa_counters a)
               \<lparr>outbound_bytes := saturating_add (outbound_bytes (wa_counters a)) n\<rparr>\<rparr>)"

definition needed_for :: "u8 \<Rightarrow> nat" where
  "needed_for b1 =
     2 + (if b1 AND 127 = 126 then 2 else if b1 AND 127 = 127 then 8 else 0)
       + (if b1 AND 128 \<noteq> 0 then 4 else 0)"

definition frames_of :: "bool \<Rightarrow> WireAccounting \<Rightarrow> u64" where
  "frames_of inb a = (if inb then inbound_frames (wa_counters a) else outbound_frames (wa_counters a))"

definition bytes_of :: "bool \<Rightarrow> WireAccounting \<Rightarrow> u64" where
  "bytes_of inb a = (if inb then inbound_bytes (wa_counters a) else outbound_bytes (wa_counters a))"

definition reserved_of :: "bool \<Rightarrow> WireAccounting \<Rightarrow> u64" where
  "reserved_of inb a = (if inb then inbound_reserved_bytes a else outbound_reserved_bytes a)"

definition max_frames_of :: "bool \<Rightarrow> WebSocketLimits \<Rightarrow> u64" where
  "max_frames_of inb l = (if inb then max_inbound_frames l else max_outbound_frames l)"

definition max_bytes_of :: "bool \<Rightarrow> WebSocketLimits \<Rightarrow> u64" where
  "max_bytes_of inb l = (if inb then max_inbound_bytes l else max_outbound_bytes l)"

text \<open>\<open>*frames += 1; *reserved += payload\<close> on the direction's counters.\<close>

definition charge_frame :: "bool \<Rightarrow> u64 \<Rightarrow> WireAccounting \<Rightarrow> WireAccounting" where
  "charge_frame inb payload a =
     (if inb
      then a\<lparr>wa_counters := (wa_counters a)\<lparr>inbound_frames := inbound_frames (wa_counters a) + 1\<rparr>,
             inbound_reserved_bytes := inbound_reserved_bytes a + payload\<rparr>
      else a\<lparr>wa_counters := (wa_counters a)\<lparr>outbound_frames := outbound_frames (wa_counters a) + 1\<rparr>,
             outbound_reserved_bytes := outbound_reserved_bytes a + payload\<rparr>)"

definition payload_length :: "bytes \<Rightarrow> u64 option" where
  "payload_length h =
     (let short = h ! 1 AND 127 in
      if short = 126 then Some (u64_from_be_bytes [h ! 2, h ! 3])
      else if short = 127
      then (if h ! 2 AND 128 \<noteq> 0 then None else Some (u64_from_be_bytes (take 8 (drop 2 h))))
      else Some (ucast short))"

text \<open>A complete header: decode the payload length, check the budgets, start the frame.\<close>

definition begin_frame ::
  "WebSocketLimits \<Rightarrow> WireParser \<Rightarrow> WireAccounting \<Rightarrow> wire_result" where
  "begin_frame l p a =
     (case payload_length (wp_header p) of
        None \<Rightarrow> (Inl InvalidData, p, a\<lparr>wa_failure := Some ProtocolViolation\<rparr>)
      | Some payload \<Rightarrow>
          if max_frames_of (wp_inbound p) l \<le> frames_of (wp_inbound p) a
             \<or> max_frame_bytes l < payload
             \<or> max_bytes_of (wp_inbound p) l < saturating_add (reserved_of (wp_inbound p) a) payload
          then (Inl InvalidData, p, a\<lparr>wa_failure := Some BudgetExhausted\<rparr>)
          else (Inr (), p\<lparr>payload_remaining := payload, header_len := 0, header_needed := 2\<rparr>,
                charge_frame (wp_inbound p) payload a))"

definition copy_header :: "WireParser \<Rightarrow> bytes \<Rightarrow> WireParser" where
  "copy_header p bs =
     p\<lparr>wp_header := take (header_len p) (wp_header p) @ bs @ drop (header_len p + length bs) (wp_header p),
       header_len := header_len p + length bs\<rparr>"

definition update_needed :: "WireParser \<Rightarrow> WireParser" where
  "update_needed p =
     (if header_len p = 2 then p\<lparr>header_needed := needed_for (wp_header p ! 1)\<rparr> else p)"

function observe :: "WireParser \<Rightarrow> bytes \<Rightarrow> WebSocketLimits \<Rightarrow> WireAccounting \<Rightarrow> wire_result" where
  "observe p bs l a =
     (if bs = [] then (Inr (), p, a)
      else if payload_remaining p \<noteq> 0
      then (let consumed = min (unat (payload_remaining p)) (length bs)
            in observe (p\<lparr>payload_remaining := payload_remaining p - of_nat consumed\<rparr>)
                 (drop consumed bs) l (count_payload (wp_inbound p) (of_nat consumed) a))
      else if header_needed p < header_len p then (Inl Panic, p, a)
      else (let copied = min (header_needed p - header_len p) (length bs) in
            if length (wp_header p) < header_len p + copied then (Inl Panic, p, a)
            else (let p1 = update_needed (copy_header p (take copied bs)); rest = drop copied bs in
                  if header_len p1 \<noteq> header_needed p1 then observe p1 rest l a
                  else (case begin_frame l p1 a of
                          (Inl e, p2, a2) \<Rightarrow> (Inl e, p2, a2)
                        | (Inr _, p2, a2) \<Rightarrow> observe p2 rest l a2))))"
  by pat_completeness auto

lemma begin_frame_Inr:
  "begin_frame l p a = (Inr u, p2, a2) \<Longrightarrow>
     header_len p2 = 0 \<and> header_needed p2 = 2 \<and> wp_inbound p2 = wp_inbound p
     \<and> wp_header p2 = wp_header p"
  by (auto simp: begin_frame_def split: option.splits if_splits)

lemma copy_header_simps [simp]:
  "header_len (copy_header p bs) = header_len p + length bs"
  "header_needed (copy_header p bs) = header_needed p"
  "payload_remaining (copy_header p bs) = payload_remaining p"
  "wp_inbound (copy_header p bs) = wp_inbound p"
  by (simp_all add: copy_header_def)

lemma update_needed_simps [simp]:
  "header_len (update_needed p) = header_len p"
  "payload_remaining (update_needed p) = payload_remaining p"
  "wp_inbound (update_needed p) = wp_inbound p"
  "wp_header (update_needed p) = wp_header p"
  by (simp_all add: update_needed_def)

termination observe
proof (relation "measure (\<lambda>(p, bs, l, a). 2 * length bs + (if header_needed p \<le> header_len p then 1 else 0))",
    goal_cases)
  case 1
  show ?case by simp
next
  case (2 p bs l a consumed)
  then have "0 < unat (payload_remaining p)" by (metis gr0I unat_eq_zero)
  with 2 have "0 < consumed \<and> consumed \<le> length bs" by simp
  then show ?case by auto
next
  case (3 p bs l a copied p1 rest)
  show ?case
  proof (cases "copied = 0")
    case True
    with 3 have "header_needed p = header_len p" by (auto simp: min_def split: if_splits)
    with 3 True show ?thesis by (auto simp: update_needed_def needed_for_def split: if_splits)
  next
    case False
    have "length rest + copied = length bs" using 3 by simp
    with False have "2 * length rest + 1 < 2 * length bs" by linarith
    then show ?thesis by simp
  qed
next
  case (4 p bs l a copied p1 rest r y u p2 a2)
  then have "begin_frame l p1 a = (Inr u, p2, a2)" by auto
  then have "header_len p2 < header_needed p2" using begin_frame_Inr [of l p1 a u p2 a2] by simp
  moreover from 4 have "copied = 0 \<Longrightarrow> header_needed p = header_len p"
    by (auto simp: min_def split: if_splits)
  moreover have "length rest + copied = length bs" using 4 by simp
  ultimately show ?case by (cases "copied = 0") auto
qed

declare observe.simps [simp del]

subsection \<open>The stream wrapper\<close>

text \<open>
  \<open>AccountedStream\<close> watches both directions of the transport with one shared accounting.  The inner
  stream is the environment: its reply to a call is an argument, an I/O error or the bytes read.  A
  write is observed before it reaches the inner stream, a read after it has returned.
\<close>

datatype io_kind = TimedOut | Interrupted | WouldBlock | EofKind | ConnectionReset | BrokenPipe | InvalidDataIo | OtherIo

datatype io_error = Refused wire_error | Inner io_kind

record AccountedStream =
  as_limits :: WebSocketLimits
  as_accounting :: WireAccounting
  as_inbound :: WireParser
  as_outbound :: WireParser

definition accounted_new :: "WebSocketLimits \<Rightarrow> WireAccounting \<Rightarrow> AccountedStream" where
  "accounted_new l a =
     \<lparr>as_limits = l, as_accounting = a, as_inbound = new_parser True, as_outbound = new_parser False\<rparr>"

definition observe_buffered_inbound :: "AccountedStream \<Rightarrow> bytes \<Rightarrow> (io_error + unit) \<times> AccountedStream" where
  "observe_buffered_inbound s bs =
     (case observe (as_inbound s) bs (as_limits s) (as_accounting s) of
        (r, p, a) \<Rightarrow> (map_err Refused r, s\<lparr>as_inbound := p, as_accounting := a\<rparr>))"

definition accounted_read ::
  "AccountedStream \<Rightarrow> io_kind + bytes \<Rightarrow> (io_error + bytes) \<times> AccountedStream" where
  "accounted_read s inner =
     (case inner of
        Inl k \<Rightarrow> (Inl (Inner k), s)
      | Inr bs \<Rightarrow>
          if bs \<noteq> []
          then (case observe (as_inbound s) bs (as_limits s) (as_accounting s) of
                  (r, p, a) \<Rightarrow>
                    (and_then (map_err Refused r) (\<lambda>_. Inr bs), s\<lparr>as_inbound := p, as_accounting := a\<rparr>))
          else (Inr bs, s))"

definition accounted_write ::
  "AccountedStream \<Rightarrow> bytes \<Rightarrow> io_kind + unit \<Rightarrow> (io_error + nat) \<times> AccountedStream" where
  "accounted_write s bs inner =
     (case observe (as_outbound s) bs (as_limits s) (as_accounting s) of
        (r, p, a) \<Rightarrow>
          (and_then (map_err Refused r) (\<lambda>_. and_then (map_err Inner inner) (\<lambda>_. Inr (length bs))),
           s\<lparr>as_outbound := p, as_accounting := a\<rparr>))"

text \<open>What the WebSocket library does with the stream: any sequence of reads and writes.\<close>

datatype stream_call = CallRead "io_kind + bytes" | CallWrite bytes "io_kind + unit"

fun stream_step :: "stream_call \<Rightarrow> AccountedStream \<Rightarrow> AccountedStream" where
  "stream_step (CallRead inner) s = snd (accounted_read s inner)"
| "stream_step (CallWrite bs inner) s = snd (accounted_write s bs inner)"

definition stream_run :: "stream_call list \<Rightarrow> AccountedStream \<Rightarrow> AccountedStream" where
  "stream_run calls s = fold stream_step calls s"

subsection \<open>The reference automaton, one byte at a time\<close>

definition feed_byte :: "WebSocketLimits \<Rightarrow> u8 \<Rightarrow> WireParser \<Rightarrow> WireAccounting \<Rightarrow> wire_result" where
  "feed_byte l b p a =
     (if payload_remaining p \<noteq> 0
      then (Inr (), p\<lparr>payload_remaining := payload_remaining p - 1\<rparr>, count_payload (wp_inbound p) 1 a)
      else (let p1 = update_needed (copy_header p [b]) in
            if header_len p1 = header_needed p1 then begin_frame l p1 a else (Inr (), p1, a)))"

fun feed :: "WebSocketLimits \<Rightarrow> bytes \<Rightarrow> WireParser \<Rightarrow> WireAccounting \<Rightarrow> wire_result" where
  "feed l [] p a = (Inr (), p, a)"
| "feed l (b # bs) p a =
     (case feed_byte l b p a of
        (Inl e, p', a') \<Rightarrow> (Inl e, p', a')
      | (Inr _, p', a') \<Rightarrow> feed l bs p' a')"

text \<open>A parser between two chunks: it waits for at least one more byte, in a header it has room for.\<close>

definition parser_wf :: "WireParser \<Rightarrow> bool" where
  "parser_wf p =
     (length (wp_header p) = 14 \<and> header_len p < header_needed p
      \<and> header_needed p = (if header_len p < 2 then 2 else needed_for (wp_header p ! 1)))"

lemma needed_for_range: "2 \<le> needed_for b" "needed_for b \<le> 14"
  by (simp_all add: needed_for_def)

lemma parser_wf_needed_le: "parser_wf p \<Longrightarrow> header_needed p \<le> 14"
  using needed_for_range by (simp add: parser_wf_def)

lemma parser_wf_new [simp]: "parser_wf (new_parser inb)"
  by (simp add: parser_wf_def new_parser_def)

lemma feed_append:
  "feed l (xs @ ys) p a =
     (case feed l xs p a of (Inl e, p', a') \<Rightarrow> (Inl e, p', a') | (Inr _, p', a') \<Rightarrow> feed l ys p' a')"
proof (induction xs arbitrary: p a)
  case Nil
  then show ?case by simp
next
  case (Cons x xs)
  then show ?case by (cases "feed_byte l x p a") (auto split: sum.split prod.split)
qed

lemma begin_frame_wf:
  "begin_frame l p a = (Inr u, p', a') \<Longrightarrow> length (wp_header p) = 14 \<Longrightarrow> parser_wf p'"
  using begin_frame_Inr [of l p a u p' a'] by (simp add: parser_wf_def)

lemma length_copy_header:
  "header_len p + length bs \<le> length (wp_header p) \<Longrightarrow>
     length (wp_header (copy_header p bs)) = length (wp_header p)"
  by (simp add: copy_header_def)

lemma nth_copy_header_old:
  "i < header_len p \<Longrightarrow> header_len p \<le> length (wp_header p) \<Longrightarrow>
     wp_header (copy_header p bs) ! i = wp_header p ! i"
  by (simp add: copy_header_def nth_append)

lemma update_needed_wf:
  assumes wf: "parser_wf p" and room: "header_len p + length bs \<le> header_needed p"
    and p1: "p1 = update_needed (copy_header p bs)" and ne: "header_len p1 \<noteq> header_needed p1"
  shows "parser_wf p1"
proof -
  from wf have len: "length (wp_header p) = 14" and lt: "header_len p < header_needed p"
    and need: "header_needed p = (if header_len p < 2 then 2 else needed_for (wp_header p ! 1))"
    by (simp_all add: parser_wf_def)
  have le14: "header_needed p \<le> 14" using need needed_for_range by simp
  have l1: "length (wp_header p1) = 14"
    using room le14 len by (simp add: p1 length_copy_header)
  consider (two) "header_len p + length bs = 2" | (less) "header_len p + length bs < 2"
    | (more) "2 < header_len p + length bs" by linarith
  then show ?thesis
  proof cases
    case two
    with l1 ne show ?thesis
      by (auto simp: parser_wf_def p1 update_needed_def le_neq_trans needed_for_range)
  next
    case less
    with l1 ne lt need room show ?thesis
      by (auto simp: parser_wf_def p1 update_needed_def)
  next
    case more
    have "\<not> header_len p < 2" using more room need by (auto split: if_splits)
    then have "header_needed p = needed_for (wp_header p ! 1)" using need by simp
    moreover have "wp_header p1 ! 1 = wp_header p ! 1"
      using \<open>\<not> header_len p < 2\<close> len le14 lt by (simp add: p1 nth_copy_header_old)
    ultimately show ?thesis
      using more l1 ne room by (auto simp: parser_wf_def p1 update_needed_def)
  qed
qed

lemma feed_byte_wf:
  assumes wf: "parser_wf p" and step: "feed_byte l b p a = (Inr u, p', a')"
  shows "parser_wf p' \<and> wp_inbound p' = wp_inbound p"
proof (cases "payload_remaining p = 0")
  case False
  with wf step show ?thesis by (auto simp: feed_byte_def parser_wf_def)
next
  case True
  let ?p1 = "update_needed (copy_header p [b])"
  have room: "header_len p + length [b] \<le> header_needed p" using wf by (simp add: parser_wf_def)
  show ?thesis
  proof (cases "header_len ?p1 = header_needed ?p1")
    case False
    with True step have "p' = ?p1" by (simp add: feed_byte_def Let_def)
    with update_needed_wf [OF wf room refl False] show ?thesis by simp
  next
    case full: True
    with True step have bf: "begin_frame l ?p1 a = (Inr u, p', a')" by (simp add: feed_byte_def Let_def)
    have "header_needed p \<le> 14" using wf needed_for_range by (simp add: parser_wf_def split: if_splits)
    then have "length (wp_header ?p1) = 14"
      using wf room by (simp add: length_copy_header parser_wf_def)
    with bf begin_frame_wf begin_frame_Inr [OF bf] show ?thesis by auto
  qed
qed

end
