(* ===== verification/Wire_Props.thy ===== *)
theory Wire_Props
  imports Wire Samples
begin

text \<open>
  Properties of the wire accounting: the source's chunk loop equals the byte automaton, budgets hold
  in every reachable state, a failed parser stays failed, and feeding well-formed frames charges exactly
  their number and size.
\<close>

subsection \<open>The chunk loop equals the byte automaton\<close>

lemma saturating_add_0 [simp]: "saturating_add x 0 = x"
proof -
  have "unat x < 2 ^ 64" by (rule unat_lt_u64)
  then show ?thesis by (simp add: saturating_add_def)
qed

lemma saturating_add_assoc:
  assumes "unat y + unat z < 2 ^ 64"
  shows "saturating_add (saturating_add x y) z = saturating_add x (y + z)"
proof -
  have "unat (saturating_add (saturating_add x y) z) = unat (saturating_add x (y + z))"
    unfolding unat_saturating_add unat_add_u64 [OF assms] by (simp add: min_def)
  then show ?thesis by (simp add: word_unat_eq_iff)
qed

lemma count_payload_0 [simp]: "count_payload inb 0 a = a"
  by (simp add: count_payload_def)

lemma count_payload_add:
  "unat y + unat z < 2 ^ 64 \<Longrightarrow>
     count_payload inb z (count_payload inb y a) = count_payload inb (y + z) a"
  by (simp add: count_payload_def saturating_add_assoc)

lemma feed_payload:
  "length xs \<le> unat (payload_remaining p) \<Longrightarrow>
     feed l xs p a =
       (Inr (), p\<lparr>payload_remaining := payload_remaining p - of_nat (length xs)\<rparr>,
        count_payload (wp_inbound p) (of_nat (length xs)) a)"
proof (induction xs arbitrary: p a)
  case Nil
  then show ?case by simp
next
  case (Cons x xs)
  let ?p = "p\<lparr>payload_remaining := payload_remaining p - 1\<rparr>"
  from Cons.prems have nz: "payload_remaining p \<noteq> 0" by auto
  then have "unat (payload_remaining p - 1) = unat (payload_remaining p) - 1"
    by (simp add: unat_minus_one)
  with Cons.prems have le: "length xs \<le> unat (payload_remaining ?p)" by simp
  have lt: "Suc (length xs) < 2 ^ 64" using Cons.prems unat_lt_u64 [of "payload_remaining p"] by simp
  then have "unat (1 :: u64) + unat (of_nat (length xs) :: u64) < 2 ^ 64"
    by (simp add: unat_of_nat_u64)
  then have "count_payload (wp_inbound p) (of_nat (length xs)) (count_payload (wp_inbound p) 1 a)
      = count_payload (wp_inbound p) (of_nat (length (x # xs))) a"
    by (simp add: count_payload_add)
  with Cons.IH [OF le] nz show ?case by (simp add: feed_byte_def diff_diff_eq)
qed

lemma copy_header_append:
  "header_len p + length xs \<le> length (wp_header p) \<Longrightarrow>
     copy_header (copy_header p xs) ys = copy_header p (xs @ ys)"
  by (simp add: copy_header_def drop_append ac_simps)

lemma feed_header_part:
  assumes "parser_wf p" and "payload_remaining p = 0" and "header_len p + length xs < header_needed p"
  shows "feed l xs p a = (Inr (), copy_header p xs, a)"
  using assms
proof (induction xs arbitrary: p)
  case Nil
  then show ?case by (simp add: copy_header_def)
next
  case (Cons x xs)
  let ?p = "copy_header p [x]"
  have no_upd: "update_needed ?p = ?p"
    using Cons.prems by (auto simp: update_needed_def parser_wf_def split: if_splits)
  have step: "feed_byte l x p a = (Inr (), ?p, a)"
    using Cons.prems by (simp add: feed_byte_def no_upd Let_def)
  have le: "header_len p + length [x] \<le> length (wp_header p)"
    using Cons.prems parser_wf_needed_le [OF Cons.prems(1)] by (simp add: parser_wf_def)
  have wf: "parser_wf ?p" using feed_byte_wf [OF Cons.prems(1) step] by simp
  have "feed l xs ?p a = (Inr (), copy_header ?p xs, a)"
    using Cons.IH [OF wf] Cons.prems by simp
  then show ?case using step copy_header_append [OF le, of xs] by simp
qed

lemma feed_header_full:
  assumes "parser_wf p" and "payload_remaining p = 0" and "header_len p + length xs = header_needed p"
  shows "feed l xs p a =
     (let p1 = update_needed (copy_header p xs) in
      if header_len p1 = header_needed p1 then begin_frame l p1 a else (Inr (), p1, a))"
proof -
  have ne: "xs \<noteq> []" using assms by (auto simp: parser_wf_def)
  let ?ys = "butlast xs" and ?b = "last xs"
  have xs: "xs = ?ys @ [?b]" using ne by simp
  have "length xs = Suc (length ?ys)" using ne by simp
  then have len: "header_len p + length ?ys < header_needed p" using assms(3) by linarith
  have room: "header_len p + length ?ys \<le> length (wp_header p)"
    using len parser_wf_needed_le [OF assms(1)] assms(1) by (simp add: parser_wf_def)
  have "feed l (?ys @ [?b]) p a = feed_byte l ?b (copy_header p ?ys) a"
    unfolding feed_append feed_header_part [OF assms(1,2) len]
    by (cases "feed_byte l ?b (copy_header p ?ys) a") (auto split: sum.split)
  then show ?thesis
    using xs assms(2) copy_header_append [OF room, of "[?b]"] by (simp add: feed_byte_def)
qed

text \<open>One turn of the source's loop outside a payload: copy what the header still needs.\<close>

definition header_chunk :: "WireParser \<Rightarrow> bytes \<Rightarrow> nat" where
  "header_chunk p bs = min (header_needed p - header_len p) (length bs)"

definition header_turn :: "WireParser \<Rightarrow> bytes \<Rightarrow> WireParser" where
  "header_turn p bs = update_needed (copy_header p (take (header_chunk p bs) bs))"

lemma parser_wf_lt: "parser_wf p \<Longrightarrow> header_len p < header_needed p"
  by (simp add: parser_wf_def)

lemma header_chunk_le: "parser_wf p \<Longrightarrow> header_len p + header_chunk p bs \<le> header_needed p"
  unfolding header_chunk_def by (drule parser_wf_lt) linarith

lemma observe_header:
  assumes "parser_wf p" and "payload_remaining p = 0" and "bs \<noteq> []"
  shows "observe p bs l a =
     (if header_len (header_turn p bs) \<noteq> header_needed (header_turn p bs)
      then observe (header_turn p bs) (drop (header_chunk p bs) bs) l a
      else (case begin_frame l (header_turn p bs) a of
              (Inl e, p2, a2) \<Rightarrow> (Inl e, p2, a2)
            | (Inr _, p2, a2) \<Rightarrow> observe p2 (drop (header_chunk p bs) bs) l a2))"
proof -
  have "\<not> header_needed p < header_len p" and "\<not> length (wp_header p) < header_len p + header_chunk p bs"
    using parser_wf_lt [OF assms(1)] header_chunk_le [OF assms(1), of bs]
      parser_wf_needed_le [OF assms(1)] assms(1) by (auto simp: parser_wf_def)
  with assms(2,3) show ?thesis
    unfolding header_turn_def header_chunk_def by (simp add: observe.simps [of p bs] Let_def)
qed

lemma feed_header:
  assumes wf: "parser_wf p" and pay: "payload_remaining p = 0" and ne: "bs \<noteq> []"
  shows "feed l bs p a =
     (if header_len (header_turn p bs) \<noteq> header_needed (header_turn p bs)
      then feed l (drop (header_chunk p bs) bs) (header_turn p bs) a
      else (case begin_frame l (header_turn p bs) a of
              (Inl e, p2, a2) \<Rightarrow> (Inl e, p2, a2)
            | (Inr _, p2, a2) \<Rightarrow> feed l (drop (header_chunk p bs) bs) p2 a2))"
proof (cases "header_len p + length bs < header_needed p")
  case short: True
  then have n: "header_chunk p bs = length bs" by (simp add: header_chunk_def)
  have "update_needed (copy_header p bs) = copy_header p bs"
    using short ne wf by (cases bs) (auto simp: update_needed_def parser_wf_def split: if_splits)
  with n short show ?thesis
    by (simp add: feed_header_part [OF wf pay short] header_turn_def)
next
  case False
  let ?n = "header_chunk p bs"
  have n: "header_len p + length (take ?n bs) = header_needed p"
    using False wf by (simp add: header_chunk_def parser_wf_def)
  have "feed l bs p a =
      (case feed l (take ?n bs) p a of
         (Inl e, p', a') \<Rightarrow> (Inl e, p', a') | (Inr _, p', a') \<Rightarrow> feed l (drop ?n bs) p' a')"
    using feed_append [of l "take ?n bs" "drop ?n bs" p a] by simp
  then show ?thesis
    unfolding feed_header_full [OF wf pay n, of l a] header_turn_def by (simp add: Let_def)
qed

lemma header_turn_wf:
  assumes "parser_wf p"
  shows "header_len (header_turn p bs) \<noteq> header_needed (header_turn p bs) \<Longrightarrow> parser_wf (header_turn p bs)"
    and "begin_frame l (header_turn p bs) a = (Inr u, p2, a2) \<Longrightarrow> parser_wf p2"
proof -
  have room: "header_len p + length (take (header_chunk p bs) bs) \<le> header_needed p"
    using header_chunk_le [OF assms, of bs] by (simp add: header_chunk_def)
  show "header_len (header_turn p bs) \<noteq> header_needed (header_turn p bs) \<Longrightarrow> parser_wf (header_turn p bs)"
    unfolding header_turn_def by (rule update_needed_wf [OF assms room refl])
  have "length (wp_header (header_turn p bs)) = 14"
    using room parser_wf_needed_le [OF assms] assms
    by (simp add: header_turn_def length_copy_header parser_wf_def)
  then show "begin_frame l (header_turn p bs) a = (Inr u, p2, a2) \<Longrightarrow> parser_wf p2"
    by (auto intro: begin_frame_wf)
qed

lemma observe_payload:
  assumes "payload_remaining p \<noteq> 0" and "bs \<noteq> []"
    and "n = min (unat (payload_remaining p)) (length bs)"
    and "p' = p\<lparr>payload_remaining := payload_remaining p - of_nat n\<rparr>"
    and "a' = count_payload (wp_inbound p) (of_nat n) a"
  shows "observe p bs l a = observe p' (drop n bs) l a'" and "feed l bs p a = feed l (drop n bs) p' a'"
proof -
  show "observe p bs l a = observe p' (drop n bs) l a'"
    using assms by (simp add: observe.simps [of p bs] Let_def)
  have "feed l (take n bs @ drop n bs) p a = feed l (drop n bs) p' a'"
    unfolding feed_append using assms(3-5) by (simp add: feed_payload)
  then show "feed l bs p a = feed l (drop n bs) p' a'" by simp
qed

lemma observe_eq_feed: "parser_wf p \<Longrightarrow> observe p bs l a = feed l bs p a"
proof (induction "length bs" arbitrary: p bs a rule: less_induct)
  case less
  show ?case
  proof (cases "bs = []")
    case True
    then show ?thesis by (simp add: observe.simps)
  next
    case ne: False
    show ?thesis
    proof (cases "payload_remaining p = 0")
      case False
      define n where "n = min (unat (payload_remaining p)) (length bs)"
      define p' where "p' = p\<lparr>payload_remaining := payload_remaining p - of_nat n\<rparr>"
      have "0 < n" using False ne by (simp add: n_def unat_gt_0)
      then have "length (drop n bs) < length bs" using ne by simp
      moreover have "parser_wf p'" using less.prems by (simp add: p'_def parser_wf_def)
      ultimately show ?thesis
        using less.hyps observe_payload [OF False ne n_def p'_def refl] by metis
    next
      case True
      have "0 < header_chunk p bs" using ne less.prems by (simp add: header_chunk_def parser_wf_def)
      then have shorter: "length (drop (header_chunk p bs) bs) < length bs" using ne by simp
      show ?thesis
        unfolding observe_header [OF less.prems True ne] feed_header [OF less.prems True ne]
        using less.hyps [OF shorter] header_turn_wf [OF less.prems]
        by (auto split: prod.splits sum.splits)
    qed
  qed
qed

subsection \<open>Budgets\<close>

text \<open>
  The accounting invariant of one direction: frames and reserved bytes are within the sealed limits, and
  the payload counted so far plus what is left of the current payload is what was reserved.
\<close>

definition budget_inv :: "WebSocketLimits \<Rightarrow> WireParser \<Rightarrow> WireAccounting \<Rightarrow> bool" where
  "budget_inv l p a =
     (frames_of (wp_inbound p) a \<le> max_frames_of (wp_inbound p) l
      \<and> reserved_of (wp_inbound p) a \<le> max_bytes_of (wp_inbound p) l
      \<and> unat (bytes_of (wp_inbound p) a) + unat (payload_remaining p) = unat (reserved_of (wp_inbound p) a))"

text \<open>What an observation of one direction leaves alone in the shared accounting.\<close>

definition other_direction_same :: "bool \<Rightarrow> WireAccounting \<Rightarrow> WireAccounting \<Rightarrow> bool" where
  "other_direction_same inb a a' =
     (frames_of (\<not> inb) a' = frames_of (\<not> inb) a \<and> bytes_of (\<not> inb) a' = bytes_of (\<not> inb) a
      \<and> reserved_of (\<not> inb) a' = reserved_of (\<not> inb) a
      \<and> inbound_messages (wa_counters a') = inbound_messages (wa_counters a)
      \<and> outbound_messages (wa_counters a') = outbound_messages (wa_counters a))"

lemmas direction_defs =
  frames_of_def bytes_of_def reserved_of_def max_frames_of_def max_bytes_of_def
  count_payload_def charge_frame_def

lemma accounting_updates [simp]:
  "frames_of i (count_payload j n a) = frames_of i a"
  "reserved_of i (count_payload j n a) = reserved_of i a"
  "bytes_of i (count_payload i n a) = saturating_add (bytes_of i a) n"
  "frames_of i (charge_frame i n a) = frames_of i a + 1"
  "reserved_of i (charge_frame i n a) = reserved_of i a + n"
  "bytes_of i (charge_frame j n a) = bytes_of i a"
  "frames_of i (a\<lparr>wa_failure := f\<rparr>) = frames_of i a"
  "bytes_of i (a\<lparr>wa_failure := f\<rparr>) = bytes_of i a"
  "reserved_of i (a\<lparr>wa_failure := f\<rparr>) = reserved_of i a"
  "wa_failure (count_payload j n a) = wa_failure a"
  "wa_failure (charge_frame j n a) = wa_failure a"
  by (simp_all add: direction_defs)

lemma begin_frame_budget:
  assumes "budget_inv l p a" and "payload_remaining p = 0" and "max_bytes_of (wp_inbound p) l < u64_max"
    and "begin_frame l p a = (r, p', a')"
  shows "budget_inv l p' a'" and "wp_inbound p' = wp_inbound p"
proof -
  show "wp_inbound p' = wp_inbound p"
    using assms(4) by (auto simp: begin_frame_def split: option.splits if_splits)
  let ?i = "wp_inbound p"
  show "budget_inv l p' a'"
  proof (cases r)
    case (Inl e)
    with assms show ?thesis by (auto simp: begin_frame_def budget_inv_def split: option.splits if_splits)
  next
    case (Inr u)
    then obtain n where p': "p' = p\<lparr>payload_remaining := n, header_len := 0, header_needed := 2\<rparr>"
      and a': "a' = charge_frame ?i n a" and room: "frames_of ?i a < max_frames_of ?i l"
      and sat: "saturating_add (reserved_of ?i a) n \<le> max_bytes_of ?i l"
      using assms(4) by (auto simp: begin_frame_def not_le not_less split: option.splits if_splits)
    have "frames_of ?i a + 1 \<le> max_frames_of ?i l"
      using room unat_Suc_u64 [OF room] by (simp add: word_le_nat_alt word_less_nat_alt)
    with assms(1,2) p' a' saturating_add_exact [OF sat assms(3)] show ?thesis
      by (simp add: budget_inv_def)
  qed
qed

lemma feed_byte_budget:
  assumes inv: "budget_inv l p a" and fin: "max_bytes_of (wp_inbound p) l < u64_max"
    and step: "feed_byte l b p a = (r, p', a')"
  shows "budget_inv l p' a'" and "wp_inbound p' = wp_inbound p"
proof (atomize (full), cases "payload_remaining p = 0")
  case False
  then have "unat (payload_remaining p - 1) = unat (payload_remaining p) - 1"
    by (simp add: unat_minus_one)
  moreover have "0 < unat (payload_remaining p)" using False by (simp add: unat_gt_0)
  moreover have "unat (saturating_add (bytes_of (wp_inbound p) a) 1) = unat (bytes_of (wp_inbound p) a) + 1"
    using inv calculation(2) unat_lt_u64 [of "reserved_of (wp_inbound p) a"]
    by (simp add: unat_saturating_add budget_inv_def)
  ultimately show "budget_inv l p' a' \<and> wp_inbound p' = wp_inbound p"
    using False inv step by (auto simp: feed_byte_def budget_inv_def)
next
  case True
  let ?p1 = "update_needed (copy_header p [b])"
  have inv1: "budget_inv l ?p1 a" using inv by (simp add: budget_inv_def)
  show "budget_inv l p' a' \<and> wp_inbound p' = wp_inbound p"
  proof (cases "header_len ?p1 = header_needed ?p1")
    case False
    with True step inv1 show ?thesis by (auto simp: feed_byte_def Let_def)
  next
    case full: True
    then have "begin_frame l ?p1 a = (r, p', a')" using True step by (simp add: feed_byte_def Let_def)
    with begin_frame_budget [of l ?p1 a r p' a'] inv1 True fin show ?thesis by simp
  qed
qed

lemma feed_budget:
  assumes "budget_inv l p a" and "max_bytes_of (wp_inbound p) l < u64_max"
    and "feed l bs p a = (r, p', a')"
  shows "budget_inv l p' a' \<and> wp_inbound p' = wp_inbound p"
  using assms
proof (induction bs arbitrary: p a)
  case Nil
  then show ?case by simp
next
  case (Cons b bs)
  obtain r1 p1 a1 where step: "feed_byte l b p a = (r1, p1, a1)" by (cases "feed_byte l b p a")
  note inv1 = feed_byte_budget [OF Cons.prems(1,2) step]
  show ?case
  proof (cases r1)
    case (Inl e)
    with Cons.prems step inv1 show ?thesis by simp
  next
    case (Inr u)
    with Cons.prems(2,3) step inv1 Cons.IH [of p1 a1] show ?thesis by simp
  qed
qed

text \<open>The two parsers of a session share one accounting; each keeps the invariant of the other.\<close>

lemma other_direction_refl [simp]: "other_direction_same i a a"
  by (simp add: other_direction_same_def)

lemma other_direction_trans:
  "other_direction_same i a b \<Longrightarrow> other_direction_same i b c \<Longrightarrow> other_direction_same i a c"
  by (simp add: other_direction_same_def)

lemma other_direction_updates [simp]:
  "other_direction_same i a (count_payload i n a)"
  "other_direction_same i a (charge_frame i n a)"
  "other_direction_same i a (a\<lparr>wa_failure := f\<rparr>)"
  by (simp_all add: other_direction_same_def direction_defs)

lemma begin_frame_other: "begin_frame l p a = (r, p', a') \<Longrightarrow> other_direction_same (wp_inbound p) a a'"
  by (auto simp: begin_frame_def split: option.splits if_splits)

lemma begin_frame_inbound: "begin_frame l p a = (r, p', a') \<Longrightarrow> wp_inbound p' = wp_inbound p"
  by (auto simp: begin_frame_def split: option.splits if_splits)

lemma feed_byte_other:
  "feed_byte l b p a = (r, p', a') \<Longrightarrow>
     other_direction_same (wp_inbound p) a a' \<and> wp_inbound p' = wp_inbound p"
  using begin_frame_other [of l "update_needed (copy_header p [b])" a r p' a']
    begin_frame_inbound [of l "update_needed (copy_header p [b])" a r p' a']
  by (auto simp: feed_byte_def Let_def split: if_splits)

lemma feed_other:
  "feed l bs p a = (r, p', a') \<Longrightarrow>
     other_direction_same (wp_inbound p) a a' \<and> wp_inbound p' = wp_inbound p"
proof (induction bs arbitrary: p a)
  case Nil
  then show ?case by simp
next
  case (Cons b bs)
  obtain r1 p1 a1 where step: "feed_byte l b p a = (r1, p1, a1)" by (cases "feed_byte l b p a")
  note same = feed_byte_other [OF step]
  show ?case
  proof (cases r1)
    case (Inl e)
    with Cons.prems step same show ?thesis by simp
  next
    case (Inr u)
    then have "feed l bs p1 a1 = (r, p', a')" using Cons.prems step by simp
    from Cons.IH [OF this] same other_direction_trans [of "wp_inbound p" a a1 a'] show ?thesis by simp
  qed
qed

lemma budget_inv_other:
  "other_direction_same (\<not> wp_inbound p) a a' \<Longrightarrow> budget_inv l p a \<Longrightarrow> budget_inv l p a'"
  by (simp add: budget_inv_def other_direction_same_def)

subsection \<open>Failure\<close>

text \<open>
  A parser whose complete header was refused: asking again is refused again, since the decision only
  reads the header and what was charged in this direction.
\<close>

definition stalled :: "WebSocketLimits \<Rightarrow> WireParser \<Rightarrow> WireAccounting \<Rightarrow> bool" where
  "stalled l p a =
     (payload_remaining p = 0 \<and> header_len p = header_needed p \<and> length (wp_header p) = 14
      \<and> header_needed p = needed_for (wp_header p ! 1)
      \<and> fst (begin_frame l p a) = Inl InvalidData)"

definition failure_recorded :: "WireAccounting \<Rightarrow> bool" where
  "failure_recorded a = (wa_failure a \<in> {Some ProtocolViolation, Some BudgetExhausted})"

lemma begin_frame_refuses:
  assumes "begin_frame l p a = (Inl e, p', a')"
  shows "e = InvalidData" and "p' = p" and "fst (begin_frame l p a') = Inl InvalidData"
    and "failure_recorded a'" and "budget_inv l p a' = budget_inv l p a"
  using assms
  by (auto simp: begin_frame_def failure_recorded_def budget_inv_def split: option.splits if_splits)

lemma begin_frame_decision:
  "frames_of (wp_inbound p) a = frames_of (wp_inbound p) a' \<Longrightarrow>
   reserved_of (wp_inbound p) a = reserved_of (wp_inbound p) a' \<Longrightarrow>
     fst (begin_frame l p a) = fst (begin_frame l p a')"
  by (simp add: begin_frame_def split: option.split)

lemma stalled_other:
  "other_direction_same (\<not> wp_inbound p) a a' \<Longrightarrow> stalled l p a \<Longrightarrow> stalled l p a'"
  using begin_frame_decision [of p a a' l] by (simp add: stalled_def other_direction_same_def)

lemma copy_header_Nil: "copy_header p [] = p"
  by (simp add: copy_header_def)

lemma update_needed_idem: "update_needed (update_needed p) = update_needed p"
  by (simp add: update_needed_def)

lemma observe_stalled:
  assumes st: "stalled l p a" and ne: "bs \<noteq> []"
  shows "\<exists>a'. observe p bs l a = (Inl InvalidData, p, a') \<and> stalled l p a' \<and> failure_recorded a'
            \<and> budget_inv l p a' = budget_inv l p a \<and> other_direction_same (wp_inbound p) a a'"
proof -
  have "header_needed p \<le> 14" using st needed_for_range by (simp add: stalled_def)
  moreover have "update_needed p = p" using st by (simp add: stalled_def update_needed_def)
  moreover obtain p' a' where bf: "begin_frame l p a = (Inl InvalidData, p', a')"
    using st by (cases "begin_frame l p a") (auto simp: stalled_def)
  ultimately have "observe p bs l a = (Inl InvalidData, p', a')"
    using st ne by (simp add: observe.simps [of p bs] stalled_def copy_header_Nil)
  with begin_frame_refuses [OF bf] begin_frame_other [OF bf] st show ?thesis by (simp add: stalled_def)
qed

lemma full_header_needed:
  assumes wf: "parser_wf p" and p1: "p1 = update_needed (copy_header p [b])"
    and full: "header_len p1 = header_needed p1"
  shows "length (wp_header p1) = 14" and "header_needed p1 = needed_for (wp_header p1 ! 1)"
proof -
  have room: "header_len p + length [b] \<le> length (wp_header p)"
    using wf parser_wf_needed_le [OF wf] by (simp add: parser_wf_def)
  then show "length (wp_header p1) = 14" using wf by (simp add: p1 length_copy_header parser_wf_def)
  show "header_needed p1 = needed_for (wp_header p1 ! 1)"
  proof (cases "header_len p = 1")
    case True
    then show ?thesis by (simp add: p1 update_needed_def)
  next
    case False
    then have no: "header_len (copy_header p [b]) \<noteq> 2" by simp
    with full wf have "2 \<le> header_len p"
      by (auto simp: p1 update_needed_def parser_wf_def split: if_splits)
    with no wf room show ?thesis
      by (simp add: p1 update_needed_def parser_wf_def nth_copy_header_old)
  qed
qed

lemma feed_byte_refuses:
  assumes "parser_wf p" and "feed_byte l b p a = (Inl e, p', a')"
  shows "e = InvalidData \<and> stalled l p' a' \<and> failure_recorded a'"
proof -
  let ?p1 = "update_needed (copy_header p [b])"
  have pay: "payload_remaining p = 0" and full: "header_len ?p1 = header_needed ?p1"
    and bf: "begin_frame l ?p1 a = (Inl e, p', a')"
    using assms(2) by (auto simp: feed_byte_def Let_def split: if_splits)
  show ?thesis
    using begin_frame_refuses [OF bf] full_header_needed [OF assms(1) refl full] pay full
    by (simp add: stalled_def)
qed

lemma feed_refuses:
  "parser_wf p \<Longrightarrow> feed l bs p a = (Inl e, p', a') \<Longrightarrow>
     e = InvalidData \<and> stalled l p' a' \<and> failure_recorded a'"
proof (induction bs arbitrary: p a)
  case Nil
  then show ?case by simp
next
  case (Cons b bs)
  obtain r1 p1 a1 where step: "feed_byte l b p a = (r1, p1, a1)" by (cases "feed_byte l b p a")
  show ?case
  proof (cases r1)
    case (Inl e1)
    with Cons.prems step feed_byte_refuses [of p l b a e1 p1 a1] show ?thesis by simp
  next
    case (Inr u)
    with Cons step feed_byte_wf [of p l b a u p1 a1] show ?thesis by auto
  qed
qed

lemma feed_accepts:
  "parser_wf p \<Longrightarrow> feed l bs p a = (Inr u, p', a') \<Longrightarrow> parser_wf p' \<and> wa_failure a' = wa_failure a"
proof (induction bs arbitrary: p a)
  case Nil
  then show ?case by simp
next
  case (Cons b bs)
  obtain r1 p1 a1 where step: "feed_byte l b p a = (r1, p1, a1)" by (cases "feed_byte l b p a")
  with Cons.prems obtain v where r1: "r1 = Inr v" by (cases r1) auto
  have "wa_failure a1 = wa_failure a"
    using step r1 by (auto simp: feed_byte_def Let_def begin_frame_def split: if_splits option.splits)
  with Cons step r1 feed_byte_wf [of p l b a v p1 a1] show ?case by auto
qed

subsection \<open>Frames of the protocol\<close>

text \<open>
  A frame as RFC 6455 lays it out: the first byte (FIN bit and opcode), the payload length in its
  shortest form beside the mask bit, the masking key if there is one, the payload.  The encoder is
  outside the repository; it is the specification the parser is measured against.
\<close>

record wire_frame =
  fr_first :: u8
  fr_key :: "bytes option"
  fr_payload :: bytes

definition frame_ok :: "wire_frame \<Rightarrow> bool" where
  "frame_ok f =
     (length (fr_payload f) < 2 ^ 63 \<and> (case fr_key f of None \<Rightarrow> True | Some k \<Rightarrow> length k = 4))"

definition length_code :: "nat \<Rightarrow> u8" where
  "length_code n = (if n < 126 then of_nat n else if n < 2 ^ 16 then 126 else 127)"

definition length_ext :: "nat \<Rightarrow> bytes" where
  "length_ext n =
     (if n < 126 then [] else if n < 2 ^ 16 then drop 6 (u64_to_be_bytes (of_nat n))
      else u64_to_be_bytes (of_nat n))"

definition mask_bit :: "wire_frame \<Rightarrow> u8" where
  "mask_bit f = (if fr_key f = None then 0 else 128)"

definition frame_header :: "wire_frame \<Rightarrow> bytes" where
  "frame_header f =
     [fr_first f, mask_bit f OR length_code (length (fr_payload f))]
       @ length_ext (length (fr_payload f)) @ (case fr_key f of None \<Rightarrow> [] | Some k \<Rightarrow> k)"

definition frame_bytes :: "wire_frame \<Rightarrow> bytes" where
  "frame_bytes f = frame_header f @ fr_payload f"

lemma seven_bits:
  fixes x :: u8
  assumes "x < 128"
  shows "x AND 127 = x" and "x AND 128 = 0"
proof -
  have "x AND mask 7 = x" by (rule less_mask_eq) (use assms in simp)
  then show and7: "x AND 127 = x" by (simp add: mask_eq_exp_minus_1)
  have "x AND 128 = (x AND 127) AND 128" using and7 by simp
  also have "\<dots> = 0" by (simp add: and.assoc)
  finally show "x AND 128 = 0" .
qed

lemma length_code_lt: "length_code n < 128"
proof (cases "n < 126")
  case True
  then have "unat (of_nat n :: u8) < 128" by (simp add: unat_of_nat)
  then have "of_nat n < (128 :: u8)" by (simp add: word_less_nat_alt)
  with True show ?thesis by (simp add: length_code_def)
qed (simp add: length_code_def)

lemma mask_bit_cases: "mask_bit f = 0 \<or> mask_bit f = 128"
  by (simp add: mask_bit_def)

lemma length_byte:
  "(mask_bit f OR length_code n) AND 127 = length_code n"
  "(mask_bit f OR length_code n) AND 128 = mask_bit f"
  using mask_bit_cases [of f] seven_bits [OF length_code_lt [of n]]
  by (auto simp: bit.conj_disj_distrib2)

lemma length_code_eq:
  "length_code n = 126 \<longleftrightarrow> 126 \<le> n \<and> n < 2 ^ 16"
  "length_code n = 127 \<longleftrightarrow> 2 ^ 16 \<le> n"
proof -
  have small: "of_nat n \<noteq> (126 :: u8) \<and> of_nat n \<noteq> (127 :: u8)" if "n < 126"
  proof -
    have "unat (of_nat n :: u8) = n" using that by (simp add: unat_of_nat)
    then show ?thesis using that by auto
  qed
  then show "length_code n = 126 \<longleftrightarrow> 126 \<le> n \<and> n < 2 ^ 16" "length_code n = 127 \<longleftrightarrow> 2 ^ 16 \<le> n"
    by (auto simp: length_code_def)
qed

lemma frame_header_length:
  "frame_ok f \<Longrightarrow> length (frame_header f) = needed_for (frame_header f ! 1)"
proof -
  assume ok: "frame_ok f"
  let ?n = "length (fr_payload f)"
  have "needed_for (frame_header f ! 1) =
      2 + (if length_code ?n = 126 then 2 else if length_code ?n = 127 then 8 else 0)
        + (if mask_bit f \<noteq> 0 then 4 else 0)"
    by (simp add: frame_header_def needed_for_def length_byte)
  also have "\<dots> = 2 + length (length_ext ?n) + (if fr_key f = None then 0 else 4)"
    by (simp add: length_code_eq length_ext_def mask_bit_def)
  also have "\<dots> = length (frame_header f)"
    using ok by (auto simp: frame_header_def frame_ok_def split: option.splits)
  finally show ?thesis by simp
qed

lemma be_bytes_16:
  assumes "n < 2 ^ 16"
  shows "u64_from_be_bytes (drop 6 (u64_to_be_bytes (of_nat n))) = of_nat n"
proof -
  let ?w = "of_nat n :: u64"
  have "unat (drop_bit 16 ?w) = 0"
    using assms unat_of_nat_u64 [of n] unfolding unat_drop_bit_eq unfolding drop_bit_eq_div by simp
  then have "drop_bit 16 ?w = 0" by (simp add: unat_eq_zero)
  then have "ucast (ucast (drop_bit 8 ?w) :: u8) = drop_bit 8 ?w"
    using be_step [of 8 ?w] by simp
  with be_step [of 0 ?w] show ?thesis
    by (simp add: u64_from_be_bytes_def u64_to_be_bytes_def)
qed

lemma top_bit_clear:
  assumes "n < 2 ^ 63"
  shows "ucast (drop_bit 56 (of_nat n :: u64)) AND (128 :: u8) = 0"
proof -
  have "unat (drop_bit 56 (of_nat n :: u64)) < 128"
    using assms unat_of_nat_u64 [of n] unfolding unat_drop_bit_eq unfolding drop_bit_eq_div by simp
  then have "unat (ucast (drop_bit 56 (of_nat n :: u64)) :: u8) < 128"
    unfolding unsigned_ucast_eq by (rule le_less_trans [OF take_bit_nat_less_eq_self])
  then show ?thesis by (intro seven_bits(2)) (simp add: word_less_nat_alt)
qed

lemma frame_header_payload_length:
  assumes "frame_ok f"
  shows "payload_length (frame_header f @ rest) = Some (of_nat (length (fr_payload f)))"
proof -
  let ?n = "length (fr_payload f)" and ?h = "frame_header f @ rest"
  have short: "?h ! 1 AND 127 = length_code ?n" by (simp add: frame_header_def length_byte)
  consider (short) "?n < 126" | (medium) "126 \<le> ?n" "?n < 2 ^ 16" | (long) "2 ^ 16 \<le> ?n"
    by linarith
  then show ?thesis
  proof cases
    case short
    then have "ucast (of_nat ?n :: u8) = (of_nat ?n :: u64)"
      by (simp add: word_unat_eq_iff unsigned_ucast_eq unat_of_nat take_bit_nat_eq_self)
    with short show ?thesis
      using \<open>?h ! 1 AND 127 = length_code ?n\<close> length_code_eq [of ?n]
      by (simp add: payload_length_def length_code_def)
  next
    case medium
    then have "[?h ! 2, ?h ! 3] = drop 6 (u64_to_be_bytes (of_nat ?n))"
      by (simp add: frame_header_def length_ext_def u64_to_be_bytes_def)
    with medium short show ?thesis
      using length_code_eq(1) [of ?n] be_bytes_16 [of ?n] by (simp add: payload_length_def)
  next
    case long
    then have "take 8 (drop 2 ?h) = u64_to_be_bytes (of_nat ?n)"
      and "?h ! 2 = ucast (drop_bit 56 (of_nat ?n :: u64))"
      by (simp_all add: frame_header_def length_ext_def u64_to_be_bytes_def)
    with long short assms top_bit_clear [of ?n] show ?thesis
      using length_code_eq [of ?n] by (simp add: payload_length_def frame_ok_def)
  qed
qed

text \<open>A parser at a frame boundary.\<close>

definition at_boundary :: "WireParser \<Rightarrow> bool" where
  "at_boundary p =
     (length (wp_header p) = 14 \<and> header_len p = 0 \<and> header_needed p = 2 \<and> payload_remaining p = 0)"

lemma at_boundary_wf: "at_boundary p \<Longrightarrow> parser_wf p"
  by (simp add: at_boundary_def parser_wf_def)

lemma at_boundary_new [simp]: "at_boundary (new_parser i)"
  by (simp add: at_boundary_def new_parser_def)

lemma feed_whole_header:
  assumes b: "at_boundary p" and h: "length h = needed_for (h ! 1)"
  shows "feed l h p a = begin_frame l
     (p\<lparr>wp_header := h @ drop (length h) (wp_header p), header_len := length h,
        header_needed := length h\<rparr>) a"
proof -
  have "2 \<le> length h" using h needed_for_range(1) [of "h ! 1"] by simp
  then obtain x y t where h': "h = x # y # t" by (metis One_nat_def Suc_1 Suc_le_length_iff)
  let ?p2 = "update_needed (copy_header p [x, y])"
  have two: "feed l [x, y] p a =
      (if header_len ?p2 = header_needed ?p2 then begin_frame l ?p2 a else (Inr (), ?p2, a))"
    using feed_header_full [OF at_boundary_wf [OF b], of "[x, y]"] b
    by (simp add: at_boundary_def Let_def)
  have need: "header_needed ?p2 = length h" "header_len ?p2 = 2"
    using b h h' by (simp_all add: update_needed_def at_boundary_def copy_header_def)
  have p2: "update_needed (copy_header ?p2 t) =
      p\<lparr>wp_header := h @ drop (length h) (wp_header p), header_len := length h, header_needed := length h\<rparr>"
  proof -
    have n: "needed_for y = Suc (Suc (length t))" using h h' by simp
    obtain hd n0 n1 r i where p: "p = \<lparr>wp_header = hd, header_len = n0, header_needed = n1,
        payload_remaining = r, wp_inbound = i\<rparr>" by (cases p)
    with b have "n0 = 0" "n1 = 2" by (simp_all add: at_boundary_def)
    then show ?thesis
      using h' n by (simp add: p update_needed_def copy_header_def)
  qed
  show ?thesis
  proof (cases "t = []")
    case True
    then have "?p2 = update_needed (copy_header ?p2 t)" by (simp add: copy_header_Nil update_needed_idem)
    with two need p2 h' True show ?thesis by simp
  next
    case False
    then have ne: "header_len ?p2 \<noteq> header_needed ?p2" using need h' by simp
    have wf2: "parser_wf ?p2"
      by (rule update_needed_wf [OF at_boundary_wf [OF b] _ refl ne]) (use b in \<open>simp add: at_boundary_def\<close>)
    have "feed l t ?p2 a = begin_frame l (update_needed (copy_header ?p2 t)) a"
      using feed_header_full [OF wf2, of t l a] b need h' p2 by (simp add: at_boundary_def)
    with two ne p2 h' feed_append [of l "[x, y]" t p a] show ?thesis by simp
  qed
qed

text \<open>The accounting after one whole frame, and whether the budgets admit it.\<close>

definition charge :: "bool \<Rightarrow> wire_frame \<Rightarrow> WireAccounting \<Rightarrow> WireAccounting" where
  "charge i f a =
     count_payload i (len_u64 (fr_payload f)) (charge_frame i (len_u64 (fr_payload f)) a)"

definition admits :: "WebSocketLimits \<Rightarrow> bool \<Rightarrow> wire_frame \<Rightarrow> WireAccounting \<Rightarrow> bool" where
  "admits l i f a =
     (frames_of i a < max_frames_of i l \<and> len_u64 (fr_payload f) \<le> max_frame_bytes l
      \<and> saturating_add (reserved_of i a) (len_u64 (fr_payload f)) \<le> max_bytes_of i l)"

lemma feed_frame:
  assumes b: "at_boundary p" and ok: "frame_ok f" and adm: "admits l (wp_inbound p) f a"
  shows "\<exists>p'. feed l (frame_bytes f) p a = (Inr (), p', charge (wp_inbound p) f a)
            \<and> at_boundary p' \<and> wp_inbound p' = wp_inbound p"
proof -
  let ?h = "frame_header f" and ?n = "len_u64 (fr_payload f)" and ?i = "wp_inbound p"
  let ?p1 = "p\<lparr>wp_header := ?h @ drop (length ?h) (wp_header p), header_len := length ?h,
        header_needed := length ?h\<rparr>"
  let ?p2 = "?p1\<lparr>payload_remaining := ?n, header_len := 0, header_needed := 2\<rparr>"
  have "payload_length (wp_header ?p1) = Some ?n"
    using frame_header_payload_length [OF ok] by (simp add: len_u64_def)
  then have h: "feed l ?h p a = (Inr (), ?p2, charge_frame ?i ?n a)"
    using feed_whole_header [OF b frame_header_length [OF ok]] adm
    by (simp add: begin_frame_def admits_def not_le not_less)
  have "length (fr_payload f) < 2 ^ 64" using ok by (simp add: frame_ok_def)
  then have n: "unat ?n = length (fr_payload f)" by (rule unat_len_u64)
  then have "feed l (fr_payload f) ?p2 (charge_frame ?i ?n a) =
      (Inr (), ?p2\<lparr>payload_remaining := 0\<rparr>, charge ?i f a)"
    by (subst feed_payload) (simp_all add: charge_def len_u64_def)
  then have "feed l (frame_bytes f) p a = (Inr (), ?p2\<lparr>payload_remaining := 0\<rparr>, charge ?i f a)"
    by (simp add: frame_bytes_def feed_append h)
  moreover have "at_boundary (?p2\<lparr>payload_remaining := 0\<rparr>)"
    using b frame_header_length [OF ok] needed_for_range(2) [of "?h ! 1"] by (simp add: at_boundary_def)
  ultimately show ?thesis by auto
qed

lemma feed_frame_refused:
  assumes b: "at_boundary p" and ok: "frame_ok f" and no: "\<not> admits l (wp_inbound p) f a"
  shows "\<exists>p'. feed l (frame_bytes f) p a = (Inl InvalidData, p', a\<lparr>wa_failure := Some BudgetExhausted\<rparr>)"
proof -
  let ?h = "frame_header f"
  let ?p1 = "p\<lparr>wp_header := ?h @ drop (length ?h) (wp_header p), header_len := length ?h,
        header_needed := length ?h\<rparr>"
  have "payload_length (wp_header ?p1) = Some (len_u64 (fr_payload f))"
    using frame_header_payload_length [OF ok] by (simp add: len_u64_def)
  then have "feed l ?h p a = (Inl InvalidData, ?p1, a\<lparr>wa_failure := Some BudgetExhausted\<rparr>)"
    using feed_whole_header [OF b frame_header_length [OF ok]] no
    by (auto simp: begin_frame_def admits_def not_le not_less)
  then show ?thesis by (simp add: frame_bytes_def feed_append)
qed

fun admits_all :: "WebSocketLimits \<Rightarrow> bool \<Rightarrow> wire_frame list \<Rightarrow> WireAccounting \<Rightarrow> bool" where
  "admits_all l i [] a = True"
| "admits_all l i (f # fs) a = (admits l i f a \<and> admits_all l i fs (charge i f a))"

lemma feed_frames:
  "at_boundary p \<Longrightarrow> list_all frame_ok fs \<Longrightarrow> admits_all l (wp_inbound p) fs a \<Longrightarrow>
     \<exists>p'. feed l (concat (map frame_bytes fs)) p a = (Inr (), p', foldl (\<lambda>a f. charge (wp_inbound p) f a) a fs)
        \<and> at_boundary p' \<and> wp_inbound p' = wp_inbound p"
proof (induction fs arbitrary: p a)
  case Nil
  then show ?case by simp
next
  case (Cons f fs)
  then obtain p1 where one: "feed l (frame_bytes f) p a = (Inr (), p1, charge (wp_inbound p) f a)"
    and b1: "at_boundary p1" and i1: "wp_inbound p1 = wp_inbound p"
    using feed_frame [of p f l a] by auto
  with Cons.prems Cons.IH [OF b1, of "charge (wp_inbound p) f a"] show ?case
    by (simp add: feed_append)
qed

text \<open>What the charges add up to: frames by their number, bytes by the sum of the payloads.\<close>

definition total_payload :: "wire_frame list \<Rightarrow> nat" where
  "total_payload fs = sum_list (map (length \<circ> fr_payload) fs)"

lemma charge_measures [simp]:
  "frames_of i (charge i f a) = frames_of i a + 1"
  "reserved_of i (charge i f a) = reserved_of i a + len_u64 (fr_payload f)"
  "bytes_of i (charge i f a) = saturating_add (bytes_of i a) (len_u64 (fr_payload f))"
  "wa_failure (charge i f a) = wa_failure a"
  by (simp_all add: charge_def)

lemma admits_all_charged:
  assumes "list_all frame_ok fs" and "admits_all l i fs a" and "max_bytes_of i l < u64_max"
    and "bytes_of i a = reserved_of i a" and "a' = foldl (\<lambda>a f. charge i f a) a fs"
  shows "unat (frames_of i a') = unat (frames_of i a) + length fs
       \<and> unat (bytes_of i a') = unat (bytes_of i a) + total_payload fs
       \<and> bytes_of i a' = reserved_of i a' \<and> wa_failure a' = wa_failure a"
  using assms
proof (induction fs arbitrary: a)
  case Nil
  then show ?case by (simp add: total_payload_def)
next
  case (Cons f fs)
  let ?n = "len_u64 (fr_payload f)"
  have adm: "admits l i f a" using Cons.prems(2) by simp
  have n: "unat ?n = length (fr_payload f)"
    using Cons.prems(1) by (simp add: frame_ok_def unat_len_u64)
  have sum: "unat (reserved_of i a + ?n) = unat (reserved_of i a) + unat ?n"
    using adm Cons.prems(3) saturating_add_exact(1) by (auto simp: admits_def)
  then have "saturating_add (bytes_of i a) ?n = reserved_of i a + ?n"
    using Cons.prems(4) unat_lt_u64 [of "reserved_of i a + ?n"] by (simp add: saturating_add_def)
  moreover have "unat (frames_of i a + 1) = unat (frames_of i a) + 1"
    using adm unat_Suc_u64 by (auto simp: admits_def)
  ultimately show ?case
    using Cons.IH [of "charge i f a"] Cons.prems n sum by (auto simp: total_payload_def)
qed

subsection \<open>Sessions on the stream\<close>

text \<open>
  The state of a stream in use: a parser is either between two chunks or stalled on a refused header.
\<close>

definition parser_ok :: "WebSocketLimits \<Rightarrow> WireParser \<Rightarrow> WireAccounting \<Rightarrow> bool" where
  "parser_ok l p a = (parser_wf p \<or> stalled l p a)"

lemma parser_ok_other:
  "other_direction_same (\<not> wp_inbound p) a a' \<Longrightarrow> parser_ok l p a \<Longrightarrow> parser_ok l p a'"
  by (auto simp: parser_ok_def intro: stalled_other)

lemma observe_Nil [simp]: "observe p [] l a = (Inr (), p, a)"
  by (simp add: observe.simps)

lemma observe_ok:
  assumes ok: "parser_ok l p a" and obs: "observe p bs l a = (r, p', a')"
  shows "parser_ok l p' a' \<and> wp_inbound p' = wp_inbound p \<and> other_direction_same (wp_inbound p) a a'
       \<and> (\<forall>e. r = Inl e \<longrightarrow> e = InvalidData \<and> stalled l p' a' \<and> failure_recorded a')"
proof (cases "parser_wf p")
  case True
  then have fd: "feed l bs p a = (r, p', a')" using obs observe_eq_feed by simp
  show ?thesis
  proof (cases r)
    case (Inl e)
    with feed_refuses [of p l bs a e p' a'] feed_other [OF fd] True fd show ?thesis
      by (simp add: parser_ok_def)
  next
    case (Inr u)
    with feed_accepts [of p l bs a u p' a'] feed_other [OF fd] True fd show ?thesis
      by (simp add: parser_ok_def)
  qed
next
  case False
  then have st: "stalled l p a" using ok by (simp add: parser_ok_def)
  show ?thesis
  proof (cases "bs = []")
    case True
    with ok obs show ?thesis by auto
  next
    case False
    with observe_stalled [OF st False] obs show ?thesis by (auto simp: parser_ok_def)
  qed
qed

lemma observe_budget:
  assumes ok: "parser_ok l p a" and inv: "budget_inv l p a" and fin: "max_bytes_of (wp_inbound p) l < u64_max"
    and obs: "observe p bs l a = (r, p', a')"
  shows "budget_inv l p' a'"
proof (cases "parser_wf p")
  case True
  with obs feed_budget [OF inv fin] show ?thesis by (simp add: observe_eq_feed)
next
  case False
  then have st: "stalled l p a" using ok by (simp add: parser_ok_def)
  show ?thesis
  proof (cases "bs = []")
    case True
    with inv obs show ?thesis by auto
  next
    case False
    with observe_stalled [OF st False] obs inv show ?thesis by auto
  qed
qed

definition stream_ok :: "AccountedStream \<Rightarrow> bool" where
  "stream_ok s =
     (wp_inbound (as_inbound s) \<and> \<not> wp_inbound (as_outbound s)
      \<and> parser_ok (as_limits s) (as_inbound s) (as_accounting s)
      \<and> parser_ok (as_limits s) (as_outbound s) (as_accounting s))"

definition stream_budgets :: "AccountedStream \<Rightarrow> bool" where
  "stream_budgets s =
     (budget_inv (as_limits s) (as_inbound s) (as_accounting s)
      \<and> budget_inv (as_limits s) (as_outbound s) (as_accounting s))"

definition finite_budgets :: "WebSocketLimits \<Rightarrow> bool" where
  "finite_budgets l = (max_inbound_bytes l < u64_max \<and> max_outbound_bytes l < u64_max)"

text \<open>Both directions act on the stream through one shape of update.\<close>

lemma inbound_turn:
  assumes "stream_ok s" and "observe (as_inbound s) bs (as_limits s) (as_accounting s) = (r, p, a)"
    and "s' = s\<lparr>as_inbound := p, as_accounting := a\<rparr>"
  shows "stream_ok s'" and "finite_budgets (as_limits s) \<Longrightarrow> stream_budgets s \<Longrightarrow> stream_budgets s'"
proof -
  have ok: "parser_ok (as_limits s) (as_inbound s) (as_accounting s)" and dir: "wp_inbound (as_inbound s)"
    and out: "\<not> wp_inbound (as_outbound s)" "parser_ok (as_limits s) (as_outbound s) (as_accounting s)"
    using assms(1) by (simp_all add: stream_ok_def)
  note obs = observe_ok [OF ok assms(2)]
  show "stream_ok s'"
    using obs dir out parser_ok_other [of "as_outbound s" "as_accounting s" a] by (simp add: stream_ok_def assms(3))
  assume "finite_budgets (as_limits s)" and "stream_budgets s"
  then show "stream_budgets s'"
    using observe_budget [OF ok _ _ assms(2)] obs dir out budget_inv_other [of "as_outbound s" "as_accounting s" a]
    by (simp add: stream_budgets_def assms(3) finite_budgets_def max_bytes_of_def)
qed

lemma outbound_turn:
  assumes "stream_ok s" and "observe (as_outbound s) bs (as_limits s) (as_accounting s) = (r, p, a)"
    and "s' = s\<lparr>as_outbound := p, as_accounting := a\<rparr>"
  shows "stream_ok s'" and "finite_budgets (as_limits s) \<Longrightarrow> stream_budgets s \<Longrightarrow> stream_budgets s'"
proof -
  have ok: "parser_ok (as_limits s) (as_outbound s) (as_accounting s)" and dir: "\<not> wp_inbound (as_outbound s)"
    and inb: "wp_inbound (as_inbound s)" "parser_ok (as_limits s) (as_inbound s) (as_accounting s)"
    using assms(1) by (simp_all add: stream_ok_def)
  note obs = observe_ok [OF ok assms(2)]
  show "stream_ok s'"
    using obs dir inb parser_ok_other [of "as_inbound s" "as_accounting s" a] by (simp add: stream_ok_def assms(3))
  assume "finite_budgets (as_limits s)" and "stream_budgets s"
  then show "stream_budgets s'"
    using observe_budget [OF ok _ _ assms(2)] obs dir inb budget_inv_other [of "as_inbound s" "as_accounting s" a]
    by (simp add: stream_budgets_def assms(3) finite_budgets_def max_bytes_of_def)
qed

lemma stream_step_ok:
  assumes "stream_ok s"
  shows "stream_ok (stream_step c s) \<and> as_limits (stream_step c s) = as_limits s
       \<and> (finite_budgets (as_limits s) \<longrightarrow> stream_budgets s \<longrightarrow> stream_budgets (stream_step c s))"
proof (cases c)
  case (CallRead inner)
  then show ?thesis
    using assms inbound_turn [OF assms _ refl]
    by (auto simp: accounted_read_def split: sum.split prod.split)
next
  case (CallWrite bs inner)
  then show ?thesis
    using assms outbound_turn [OF assms _ refl] by (auto simp: accounted_write_def split: prod.split)
qed

lemma stream_run_ok:
  "stream_ok s \<Longrightarrow> stream_ok (stream_run cs s) \<and> as_limits (stream_run cs s) = as_limits s
       \<and> (finite_budgets (as_limits s) \<longrightarrow> stream_budgets s \<longrightarrow> stream_budgets (stream_run cs s))"
proof (induction cs arbitrary: s)
  case Nil
  then show ?case by (simp add: stream_run_def)
next
  case (Cons c cs)
  from stream_step_ok [OF Cons.prems, of c] Cons.IH [of "stream_step c s"] show ?case
    by (simp add: stream_run_def)
qed

lemma stream_new_ok:
  "stream_ok (accounted_new l a)" "stream_budgets (accounted_new l default_accounting)"
  by (simp_all add: stream_ok_def accounted_new_def parser_ok_def stream_budgets_def budget_inv_def
      new_parser_def parser_wf_def default_accounting_def frames_of_def bytes_of_def reserved_of_def
      default_counters_def)

lemma stalled_inbound_step:
  assumes ok: "stream_ok s" and st: "stalled (as_limits s) (as_inbound s) (as_accounting s)"
  shows "stalled (as_limits s) (as_inbound (stream_step c s)) (as_accounting (stream_step c s))"
proof (cases c)
  case (CallRead inner)
  with st observe_stalled [OF st] show ?thesis
    by (fastforce simp: accounted_read_def split: sum.split prod.split)
next
  case (CallWrite bs inner)
  obtain r p a where obs: "observe (as_outbound s) bs (as_limits s) (as_accounting s) = (r, p, a)"
    by (cases "observe (as_outbound s) bs (as_limits s) (as_accounting s)")
  with observe_ok [OF _ obs] ok have "other_direction_same False (as_accounting s) a"
    by (simp add: stream_ok_def)
  with CallWrite obs st ok stalled_other [of "as_inbound s"] show ?thesis
    by (simp add: accounted_write_def stream_ok_def)
qed

lemma stalled_outbound_step:
  assumes ok: "stream_ok s" and st: "stalled (as_limits s) (as_outbound s) (as_accounting s)"
  shows "stalled (as_limits s) (as_outbound (stream_step c s)) (as_accounting (stream_step c s))"
proof (cases c)
  case (CallWrite bs inner)
  with st observe_stalled [OF st, of bs] show ?thesis
    by (cases "bs = []") (auto simp: accounted_write_def)
next
  case (CallRead inner)
  show ?thesis
  proof (cases inner)
    case (Inr bs)
    obtain r p a where obs: "observe (as_inbound s) bs (as_limits s) (as_accounting s) = (r, p, a)"
      by (cases "observe (as_inbound s) bs (as_limits s) (as_accounting s)")
    with observe_ok [OF _ obs] ok have "other_direction_same True (as_accounting s) a"
      by (simp add: stream_ok_def)
    with CallRead Inr obs st ok stalled_other [of "as_outbound s"] show ?thesis
      by (simp add: accounted_read_def stream_ok_def)
  qed (use CallRead st in \<open>simp add: accounted_read_def\<close>)
qed

lemma stalled_run:
  assumes "stream_ok s"
  shows "stalled (as_limits s) (as_inbound s) (as_accounting s) \<Longrightarrow>
           stalled (as_limits s) (as_inbound (stream_run cs s)) (as_accounting (stream_run cs s))"
    and "stalled (as_limits s) (as_outbound s) (as_accounting s) \<Longrightarrow>
           stalled (as_limits s) (as_outbound (stream_run cs s)) (as_accounting (stream_run cs s))"
  using assms
proof (induction cs arbitrary: s)
  case Nil
  { case 1 then show ?case by (simp add: stream_run_def) }
  { case 2 then show ?case by (simp add: stream_run_def) }
next
  case (Cons c cs)
  { case 1 then show ?case
      using Cons.IH(1) [of "stream_step c s"] stream_step_ok [of s c] stalled_inbound_step [of s c]
      by (simp add: stream_run_def) }
  { case 2 then show ?case
      using Cons.IH(2) [of "stream_step c s"] stream_step_ok [of s c] stalled_outbound_step [of s c]
      by (simp add: stream_run_def) }
qed

lemma write_refused_stalls:
  assumes "stream_ok s" and "accounted_write s bs inner = (Inl (Refused e), s')"
  shows "e = InvalidData \<and> stalled (as_limits s) (as_outbound s') (as_accounting s')
       \<and> failure_recorded (as_accounting s') \<and> stream_ok s' \<and> as_limits s' = as_limits s"
proof -
  obtain r p a where obs: "observe (as_outbound s) bs (as_limits s) (as_accounting s) = (r, p, a)"
    by (cases "observe (as_outbound s) bs (as_limits s) (as_accounting s)")
  with assms(2) have r: "r = Inl e" and s': "s' = s\<lparr>as_outbound := p, as_accounting := a\<rparr>"
    by (auto simp: accounted_write_def and_then_Inl_iff map_err_def split: sum.splits)
  with observe_ok [OF _ obs] outbound_turn(1) [OF assms(1) obs s'] assms(1) show ?thesis
    by (simp add: stream_ok_def)
qed

lemma read_refused_stalls:
  assumes "stream_ok s" and "accounted_read s (Inr bs) = (Inl e, s')"
  shows "e = Refused InvalidData \<and> stalled (as_limits s) (as_inbound s') (as_accounting s')
       \<and> failure_recorded (as_accounting s') \<and> stream_ok s' \<and> as_limits s' = as_limits s"
proof -
  obtain r p a where obs: "observe (as_inbound s) bs (as_limits s) (as_accounting s) = (r, p, a)"
    by (cases "observe (as_inbound s) bs (as_limits s) (as_accounting s)")
  with assms(2) obtain e' where r: "r = Inl e'" "e = Refused e'"
    and s': "s' = s\<lparr>as_inbound := p, as_accounting := a\<rparr>"
    by (auto simp: accounted_read_def and_then_Inl_iff map_err_def split: sum.splits if_splits)
  with observe_ok [OF _ obs] inbound_turn(1) [OF assms(1) obs s'] assms(1) show ?thesis
    by (simp add: stream_ok_def)
qed

lemma stalled_refuses_more:
  "stalled (as_limits s) (as_inbound s) (as_accounting s) \<Longrightarrow> bs \<noteq> [] \<Longrightarrow>
     fst (accounted_read s (Inr bs)) = Inl (Refused InvalidData)"
  "stalled (as_limits s) (as_outbound s) (as_accounting s) \<Longrightarrow> bs \<noteq> [] \<Longrightarrow>
     fst (accounted_write s bs inner) = Inl (Refused InvalidData)"
  using observe_stalled by (fastforce simp: accounted_read_def accounted_write_def)+

subsection \<open>Frames within and beyond the budgets\<close>

lemma admits_all_within:
  assumes "list_all frame_ok fs" and "list_all (\<lambda>f. length (fr_payload f) \<le> unat (max_frame_bytes l)) fs"
    and "unat (frames_of i a) + length fs \<le> unat (max_frames_of i l)"
    and "unat (reserved_of i a) + total_payload fs \<le> unat (max_bytes_of i l)"
  shows "admits_all l i fs a"
  using assms
proof (induction fs arbitrary: a)
  case Nil
  then show ?case by simp
next
  case (Cons f fs)
  let ?n = "len_u64 (fr_payload f)"
  have n: "unat ?n = length (fr_payload f)"
    using Cons.prems(1) by (simp add: frame_ok_def unat_len_u64)
  have le: "unat (reserved_of i a) + unat ?n \<le> unat (max_bytes_of i l)"
    using Cons.prems(4) n by (simp add: total_payload_def)
  then have lt: "unat (reserved_of i a) + unat ?n < 2 ^ 64"
    using unat_lt_u64 [of "max_bytes_of i l"] by linarith
  have room: "frames_of i a < max_frames_of i l" using Cons.prems(3) by (simp add: word_less_nat_alt)
  have "admits l i f a"
    using room le lt n Cons.prems(2) by (simp add: admits_def word_le_nat_alt saturating_add_def unat_add_u64)
  moreover have "admits_all l i fs (charge i f a)"
    using Cons.IH [of "charge i f a"] Cons.prems unat_Suc_u64 [OF room] unat_add_u64 [OF lt] n
    by (simp add: total_payload_def)
  ultimately show ?case by simp
qed

fun observe_chunks :: "WireParser \<Rightarrow> bytes list \<Rightarrow> WebSocketLimits \<Rightarrow> WireAccounting \<Rightarrow> wire_result" where
  "observe_chunks p [] l a = (Inr (), p, a)"
| "observe_chunks p (c # cs) l a =
     (case observe p c l a of
        (Inl e, p', a') \<Rightarrow> (Inl e, p', a')
      | (Inr _, p', a') \<Rightarrow> observe_chunks p' cs l a')"

lemma observe_chunks_eq_feed: "parser_wf p \<Longrightarrow> observe_chunks p cs l a = feed l (concat cs) p a"
proof (induction cs arbitrary: p a)
  case Nil
  then show ?case by simp
next
  case (Cons c cs)
  obtain r p1 a1 where fd: "feed l c p a = (r, p1, a1)" by (cases "feed l c p a")
  show ?case
  proof (cases r)
    case (Inl e)
    with Cons.prems fd show ?thesis by (simp add: observe_eq_feed feed_append)
  next
    case (Inr u)
    with Cons.IH [of p1 a1] Cons.prems fd feed_accepts [of p l c a u p1 a1] show ?thesis
      by (simp add: observe_eq_feed feed_append)
  qed
qed

subsection \<open>Claims\<close>




text \<open>
  A refusal is final: once an observed frame header was refused in one direction, the error is
  \<open>InvalidData\<close>, a protocol violation or an exhausted budget is on record, and after any further calls on
  the stream every non-empty read, respectively write, in that direction is refused again.
\<close>

theorem refusal_is_final:
  assumes "s = stream_run before (accounted_new l a)"
  shows "(\<forall>bs e s'. accounted_read s (Inr bs) = (Inl e, s') \<longrightarrow>
            e = Refused InvalidData \<and> failure_recorded (as_accounting s')
            \<and> (\<forall>later more. more \<noteq> [] \<longrightarrow>
                 fst (accounted_read (stream_run later s') (Inr more)) = Inl (Refused InvalidData)))
       \<and> (\<forall>bs inner e s'. accounted_write s bs inner = (Inl (Refused e), s') \<longrightarrow>
            e = InvalidData \<and> failure_recorded (as_accounting s')
            \<and> (\<forall>later more reply. more \<noteq> [] \<longrightarrow>
                 fst (accounted_write (stream_run later s') more reply) = Inl (Refused InvalidData)))"
proof -
  have ok: "stream_ok s" using stream_run_ok [OF stream_new_ok(1)] assms by simp
  have lim: "as_limits (stream_run later s') = as_limits s'" if "stream_ok s'" for later s'
    using stream_run_ok [OF that] by simp
  show ?thesis
  proof (intro conjI allI impI)
    fix bs e s' assume "accounted_read s (Inr bs) = (Inl e, s')"
    note st = read_refused_stalls [OF ok this]
    from st show "e = Refused InvalidData" and "failure_recorded (as_accounting s')" by simp_all
    fix later and more :: bytes assume "more \<noteq> []"
    with st stalled_run(1) [of s' later] lim [of s' later]
    show "fst (accounted_read (stream_run later s') (Inr more)) = Inl (Refused InvalidData)"
      by (intro stalled_refuses_more) simp_all
  next
    fix bs inner e s' assume "accounted_write s bs inner = (Inl (Refused e), s')"
    note st = write_refused_stalls [OF ok this]
    from st show "e = InvalidData" and "failure_recorded (as_accounting s')" by simp_all
    fix later and more :: bytes and reply assume "more \<noteq> []"
    with st stalled_run(2) [of s' later] lim [of s' later]
    show "fst (accounted_write (stream_run later s') more reply) = Inl (Refused InvalidData)"
      by (intro stalled_refuses_more) simp_all
  qed
qed

theorem refusal_is_final_witness:
  "fst (accounted_write (snd (accounted_write (accounted_new sample_limits default_accounting) [130, 100] (Inr ())))
          [1] (Inr ())) = Inl (Refused InvalidData)"
proof -
  let ?s = "accounted_new sample_limits default_accounting"
  have "fst (accounted_write ?s [130, 100] (Inr ())) = Inl (Refused InvalidData)" by code_simp
  then obtain s' where w: "accounted_write ?s [130, 100] (Inr ()) = (Inl (Refused InvalidData), s')"
    by (metis prod.collapse)
  have "?s = stream_run [] ?s" by (simp add: stream_run_def)
  from refusal_is_final [OF this] w
  have "fst (accounted_write (stream_run [] s') [1] (Inr ())) = Inl (Refused InvalidData)" by blast
  with w show ?thesis by (simp add: stream_run_def)
qed

text \<open>
  Well-formed traffic is accounted exactly: feeding the RFC 6455 encoding of any list of frames
  (short, 16-bit and 64-bit lengths, masked or not) that fits the budgets is accepted, leaves the parser
  at a frame boundary, and counts as many frames as there are and as many bytes as their payloads hold.
\<close>

theorem frames_accounted_exactly:
  assumes "list_all frame_ok fs" and "list_all (\<lambda>f. length (fr_payload f) \<le> unat (max_frame_bytes l)) fs"
    and "length fs \<le> unat (max_frames_of i l)" and "total_payload fs \<le> unat (max_bytes_of i l)"
    and "max_bytes_of i l < u64_max"
  shows "\<exists>p' a'. observe (new_parser i) (concat (map frame_bytes fs)) l default_accounting = (Inr (), p', a')
       \<and> at_boundary p' \<and> wa_failure a' = None
       \<and> unat (frames_of i a') = length fs \<and> unat (bytes_of i a') = total_payload fs"
proof -
  have zero: "frames_of i default_accounting = 0" "bytes_of i default_accounting = 0"
    "reserved_of i default_accounting = 0" "wa_failure default_accounting = None"
    by (simp_all add: direction_defs default_accounting_def default_counters_def)
  have inb: "wp_inbound (new_parser i) = i" by (simp add: new_parser_def)
  have adm: "admits_all l i fs default_accounting"
    by (rule admits_all_within [OF assms(1,2)]) (use zero assms(3,4) in simp_all)
  have "\<exists>p'. feed l (concat (map frame_bytes fs)) (new_parser i) default_accounting
         = (Inr (), p', foldl (\<lambda>a f. charge i f a) default_accounting fs) \<and> at_boundary p'"
    using feed_frames [OF at_boundary_new assms(1), of l i default_accounting] adm by (auto simp: inb)
  with admits_all_charged [OF assms(1) adm assms(5) _ refl] zero show ?thesis
    by (auto simp: observe_eq_feed)
qed

theorem frames_accounted_exactly_witness:
  "\<exists>p' a'. observe (new_parser False)
       (frame_bytes \<lparr>fr_first = 129, fr_key = Some [1, 2, 3, 4], fr_payload = [7, 8]\<rparr>)
       sample_limits default_accounting = (Inr (), p', a')
     \<and> unat (frames_of False a') = 1 \<and> unat (bytes_of False a') = 2"
  using frames_accounted_exactly
    [of "[\<lparr>fr_first = 129, fr_key = Some [1, 2, 3, 4], fr_payload = [7, 8]\<rparr>]" sample_limits False]
  by (auto simp: frame_ok_def sample_limits_def max_frames_of_def max_bytes_of_def total_payload_def u64_max_def)

text \<open>
  The frame that breaks a budget is refused before its payload passes: after frames that fit, a
  well-formed frame that is one too many, or larger than the frame limit, or would take the direction over
  its byte limit, is refused with an exhausted budget, and none of it is counted.
\<close>

theorem frame_beyond_budget_refused:
  assumes "at_boundary p" and "wp_inbound p = i" and "frame_ok f"
    and "max_frames_of i l \<le> frames_of i a \<or> max_frame_bytes l < len_u64 (fr_payload f)
         \<or> (max_bytes_of i l < u64_max
             \<and> unat (max_bytes_of i l) < unat (reserved_of i a) + length (fr_payload f))"
  shows "\<exists>p'. observe p (frame_bytes f) l a
            = (Inl InvalidData, p', a\<lparr>wa_failure := Some BudgetExhausted\<rparr>)"
proof -
  have "unat (len_u64 (fr_payload f)) = length (fr_payload f)"
    using assms(3) by (simp add: frame_ok_def unat_len_u64)
  then have "\<not> admits l i f a"
    using assms(4) saturating_add_le [of "reserved_of i a" "len_u64 (fr_payload f)" "max_bytes_of i l"]
    by (auto simp: admits_def)
  with feed_frame_refused [OF assms(1,3)] assms(2) show ?thesis
    by (simp add: observe_eq_feed [OF at_boundary_wf [OF assms(1)]])
qed

theorem frame_beyond_budget_refused_witness:
  "\<exists>p'. observe (new_parser True) (frame_bytes \<lparr>fr_first = 130, fr_key = None, fr_payload = replicate 65 0\<rparr>)
        sample_limits default_accounting
      = (Inl InvalidData, p', default_accounting\<lparr>wa_failure := Some BudgetExhausted\<rparr>)"
  by (rule frame_beyond_budget_refused [where i = True])
     (simp_all add: frame_ok_def sample_limits_def len_u64_def, simp add: new_parser_def)

end
