(* ===== verification/Deadline.thy ===== *)
theory Deadline
  imports Wire Samples
begin

text \<open>
  Deadlines of a WebSocket session (\<open>kahea-exec\<close>, \<open>websocket.rs\<close>): the computation of total, phase and
  idle deadlines, the choice of the active one, and \<open>DeadlineTcpStream\<close>, which turns socket timeouts,
  spurious wake-ups and signals into at most one truthful error.

  An \<open>Instant\<close> is a number of nanoseconds on the monotonic clock; \<open>im\<close> is the largest instant the
  platform can represent, where \<open>checked_add\<close> fails.  Every reading of the clock and of the cancellation
  flag, and every reply of the operating system, is an input: one \<open>io_turn\<close> holds those of one turn of
  the retry loop.  A loop that runs out of turns is still waiting, which is the value \<open>None\<close>.
\<close>

type_synonym instant = nat
type_synonym duration = nat

definition millis :: "u64 \<Rightarrow> duration" where
  "millis ms = unat ms * 1000000"

definition instant_checked_add :: "instant \<Rightarrow> instant \<Rightarrow> duration \<Rightarrow> instant option" where
  "instant_checked_add im t d = (if t + d \<le> im then Some (t + d) else None)"

definition deadline :: "instant \<Rightarrow> instant \<Rightarrow> u64 \<Rightarrow> instant" where
  "deadline im started ms =
     (case instant_checked_add im started (millis ms) of Some t \<Rightarrow> t | None \<Rightarrow> started)"

definition bounded_total_deadline :: "instant \<Rightarrow> instant \<Rightarrow> u64 \<Rightarrow> duration \<Rightarrow> instant" where
  "bounded_total_deadline im started plan_total_timeout_ms invocation_timeout =
     (let plan_deadline = deadline im started plan_total_timeout_ms in
      case instant_checked_add im started invocation_timeout of
        None \<Rightarrow> plan_deadline
      | Some invocation_deadline \<Rightarrow> min plan_deadline invocation_deadline)"

definition select_deadline ::
  "instant \<Rightarrow> instant \<Rightarrow> instant \<Rightarrow> WebSocketTerminalCause \<Rightarrow> instant \<times> WebSocketTerminalCause" where
  "select_deadline tot phase idle phase_cause =
     (if tot \<le> phase \<and> tot \<le> idle then (tot, TotalTimeout)
      else if phase \<le> idle then (phase, phase_cause)
      else (idle, IdleTimeout))"

record DeadlineState =
  ds_active :: instant
  ds_total :: instant
  ds_phase :: instant
  ds_idle :: "duration option"
  ds_phase_cause :: WebSocketTerminalCause
  ds_cause :: WebSocketTerminalCause

definition fixed_deadline :: "instant \<Rightarrow> WebSocketTerminalCause \<Rightarrow> DeadlineState" where
  "fixed_deadline d cause =
     \<lparr>ds_active = d, ds_total = d, ds_phase = d, ds_idle = None, ds_phase_cause = cause,
      ds_cause = cause\<rparr>"

definition note_activity :: "instant \<Rightarrow> instant \<Rightarrow> DeadlineState \<Rightarrow> DeadlineState" where
  "note_activity im now st =
     (case ds_idle st of
        None \<Rightarrow> st
      | Some idle \<Rightarrow>
          (let idle_deadline = deadline im now (of_nat (idle div 1000000));
               (active, cause) = select_deadline (ds_total st) (ds_phase st) idle_deadline (ds_phase_cause st)
           in st\<lparr>ds_active := active, ds_cause := cause\<rparr>))"

definition configure_session_deadline ::
  "instant \<Rightarrow> instant \<Rightarrow> instant \<Rightarrow> WebSocketPlan \<Rightarrow> instant \<Rightarrow> WebSocketTerminalCause \<Rightarrow> DeadlineState" where
  "configure_session_deadline im now tot plan phase phase_cause =
     (let idle_deadline = deadline im now (idle_timeout_ms (wp_limits plan));
          (active, cause) = select_deadline tot phase idle_deadline phase_cause
      in \<lparr>ds_active = active, ds_total = tot, ds_phase = phase,
          ds_idle = Some (millis (idle_timeout_ms (wp_limits plan))),
          ds_phase_cause = phase_cause, ds_cause = cause\<rparr>)"

text \<open>\<open>set_deadline_after\<close> of the public connection handle.\<close>

definition set_deadline_after :: "instant \<Rightarrow> instant \<Rightarrow> instant \<Rightarrow> instant \<Rightarrow> duration \<Rightarrow> DeadlineState" where
  "set_deadline_after im now fallback_now tot d =
     (let requested = (case instant_checked_add im now d of Some t \<Rightarrow> t | None \<Rightarrow> fallback_now)
      in fixed_deadline (min requested tot) ActionTimeout)"

subsection \<open>The deadline stream\<close>

record DeadlineTcpStream =
  dst_deadline :: DeadlineState
  dst_cancellable :: bool

text \<open>A reading of the cancellation flag and of the clock.\<close>

type_synonym reading = "bool \<times> instant"

definition remaining :: "DeadlineTcpStream \<Rightarrow> reading \<Rightarrow> io_kind + duration" where
  "remaining s r =
     (case r of (cancelled, now) \<Rightarrow>
        if dst_cancellable s \<and> cancelled then Inl Interrupted
        else if ds_active (dst_deadline s) \<le> now then Inl TimedOut
        else (let left = ds_active (dst_deadline s) - now
              in Inr (if dst_cancellable s then min left 25000000 else left)))"

record io_turn =
  tn_check :: reading
  tn_set :: "io_kind + unit"
  tn_reply :: "io_kind + nat"
  tn_activity :: instant
  tn_await_before :: instant
  tn_await_first :: reading
  tn_await_elapsed :: instant
  tn_await_second :: reading
  tn_cancel :: bool
  tn_retry :: reading

definition await_deadline :: "DeadlineTcpStream \<Rightarrow> io_turn \<Rightarrow> io_kind + unit" where
  "await_deadline s t =
     and_then (remaining s (tn_await_first t)) (\<lambda>_.
     if tn_await_elapsed t - tn_await_before t < 1000000
     then and_then (remaining s (tn_await_second t)) (\<lambda>_. Inr ())
     else Inr ())"

definition interruption_is_cancellation :: "bool \<Rightarrow> bool" where
  "interruption_is_cancellation cancellation_requested = cancellation_requested"

definition normalize_timeout :: "io_kind \<Rightarrow> io_kind" where
  "normalize_timeout k = (if k = WouldBlock then TimedOut else k)"

text \<open>What a turn does after the operating system has replied: return, or go round again.\<close>

definition turn_reply ::
  "instant \<Rightarrow> DeadlineTcpStream \<Rightarrow> io_turn \<Rightarrow> ((io_kind + nat) \<times> DeadlineTcpStream) option" where
  "turn_reply im s t =
     (case map_err normalize_timeout (tn_reply t) of
        Inr n \<Rightarrow>
          Some (Inr n, if n \<noteq> 0 then s\<lparr>dst_deadline := note_activity im (tn_activity t) (dst_deadline s)\<rparr> else s)
      | Inl k \<Rightarrow>
          if k = TimedOut
          then (case await_deadline s t of Inl e \<Rightarrow> Some (Inl e, s) | Inr _ \<Rightarrow> None)
          else if k = Interrupted \<and> \<not> interruption_is_cancellation (dst_cancellable s \<and> tn_cancel t)
          then (case remaining s (tn_retry t) of Inl e \<Rightarrow> Some (Inl e, s) | Inr _ \<Rightarrow> None)
          else Some (Inl k, s))"

definition turn :: "instant \<Rightarrow> DeadlineTcpStream \<Rightarrow> io_turn \<Rightarrow> ((io_kind + nat) \<times> DeadlineTcpStream) option" where
  "turn im s t =
     (case remaining s (tn_check t) of
        Inl e \<Rightarrow> Some (Inl e, s)
      | Inr _ \<Rightarrow> (case tn_set t of Inl e \<Rightarrow> Some (Inl e, s) | Inr _ \<Rightarrow> turn_reply im s t))"

fun deadline_io ::
  "instant \<Rightarrow> DeadlineTcpStream \<Rightarrow> io_turn list
     \<Rightarrow> ((io_kind + nat) \<times> DeadlineTcpStream \<times> io_turn list) option" where
  "deadline_io im s [] = None"
| "deadline_io im s (t # ts) =
     (case turn im s t of Some (r, s') \<Rightarrow> Some (r, s', ts) | None \<Rightarrow> deadline_io im s ts)"

text \<open>The three loops of the source differ in the call they make; a flush reports no bytes.\<close>

definition deadline_read where "deadline_read = deadline_io"

definition deadline_write where "deadline_write = deadline_io"

definition deadline_flush ::
  "instant \<Rightarrow> DeadlineTcpStream \<Rightarrow> io_turn list
     \<Rightarrow> ((io_kind + unit) \<times> DeadlineTcpStream \<times> io_turn list) option" where
  "deadline_flush im s ts =
     map_option (\<lambda>(r, s', ts'). (and_then r (\<lambda>_. Inr ()), s', ts'))
       (deadline_io im s (map (\<lambda>t. t\<lparr>tn_reply := and_then (tn_reply t) (\<lambda>_. Inr 0)\<rparr>) ts))"

subsection \<open>Connecting to the pinned addresses\<close>

datatype ConnectFailure = ConnectTimedOut | ConnectRefused

text \<open>The environment gives, for each attempt, the clock before it and its result: an error, or a stream
  whose \<open>set_nodelay\<close> succeeds or not.\<close>

fun connect_pinned ::
  "'addr list \<Rightarrow> instant \<Rightarrow> (instant \<times> (io_kind + bool)) list \<Rightarrow> instant \<Rightarrow> bool \<Rightarrow> ConnectFailure + 'addr" where
  "connect_pinned (a # as) dl ((now, attempt) # env) final timed_out =
     (if dl < now then Inl ConnectTimedOut
      else (case attempt of
              Inr nodelay \<Rightarrow> if nodelay then Inr a else Inl ConnectRefused
            | Inl k \<Rightarrow> connect_pinned as dl env final (timed_out \<or> k = TimedOut)))"
| "connect_pinned _ dl _ final timed_out =
     (if timed_out \<or> dl \<le> final then Inl ConnectTimedOut else Inl ConnectRefused)"

subsection \<open>Choice of the deadline\<close>

lemma select_deadline_min: "fst (select_deadline tot phase idle c) = min tot (min phase idle)"
  by (auto simp: select_deadline_def)

lemma select_deadline_cause:
  assumes "select_deadline tot phase idle c = (active, cause)"
  shows "cause = TotalTimeout \<and> active = tot \<or> cause = c \<and> active = phase
       \<or> cause = IdleTimeout \<and> active = idle"
  using assms by (auto simp: select_deadline_def split: if_splits)

definition deadline_wf :: "DeadlineState \<Rightarrow> bool" where
  "deadline_wf st = (ds_active st \<le> ds_total st \<and> ds_active st \<le> ds_phase st)"

lemma note_activity_keeps:
  "ds_total (note_activity im now st) = ds_total st"
  "ds_phase (note_activity im now st) = ds_phase st"
  "ds_idle (note_activity im now st) = ds_idle st"
  "deadline_wf st \<Longrightarrow> deadline_wf (note_activity im now st)"
  by (auto simp: note_activity_def deadline_wf_def Let_def select_deadline_def split: option.split prod.split)

lemma deadline_wf_starts:
  "deadline_wf (fixed_deadline d c)"
  "deadline_wf (configure_session_deadline im now tot p phase c)"
  by (auto simp: fixed_deadline_def configure_session_deadline_def deadline_wf_def Let_def
      select_deadline_def split: prod.split)

lemma turn_state:
  assumes "turn im s t = Some (r, s')"
  shows "s' = s \<or> s' = s\<lparr>dst_deadline := note_activity im (tn_activity t) (dst_deadline s)\<rparr>"
  using assms by (auto simp: turn_def turn_reply_def split: sum.splits if_splits)

lemma deadline_io_state:
  "deadline_io im s ts = Some (r, s', ts') \<Longrightarrow>
     s' = s \<or> (\<exists>t \<in> set ts. s' = s\<lparr>dst_deadline := note_activity im (tn_activity t) (dst_deadline s)\<rparr>)"
proof (induction ts)
  case Nil
  then show ?case by simp
next
  case (Cons t ts)
  then show ?case using turn_state [of im s t] by (auto split: option.splits)
qed

subsection \<open>Truthful errors\<close>

text \<open>Every reading of the flag and the clock a turn may make.\<close>

definition readings :: "io_turn \<Rightarrow> reading set" where
  "readings t = {tn_check t, tn_await_first t, tn_await_second t, tn_retry t}"

definition flag_readings :: "io_turn \<Rightarrow> bool set" where
  "flag_readings t = insert (tn_cancel t) (fst ` readings t)"

lemma remaining_Inl:
  "remaining s r = Inl k \<Longrightarrow>
     (k = TimedOut \<and> ds_active (dst_deadline s) \<le> snd r)
     \<or> (k = Interrupted \<and> dst_cancellable s \<and> fst r)"
  by (cases r) (auto simp: remaining_def Let_def split: if_splits)

lemma await_Inl:
  "await_deadline s t = Inl k \<Longrightarrow>
     (k = TimedOut \<and> (\<exists>r \<in> readings t. ds_active (dst_deadline s) \<le> snd r))
     \<or> (k = Interrupted \<and> dst_cancellable s \<and> (\<exists>r \<in> readings t. fst r))"
  by (auto simp: await_deadline_def and_then_Inl_iff readings_def dest!: remaining_Inl split: if_splits)

lemma turn_truthful:
  assumes "turn im s t = Some (Inl k, s')" and "tn_set t = Inr ()"
  shows "k = TimedOut \<Longrightarrow> \<exists>r \<in> readings t. ds_active (dst_deadline s) \<le> snd r"
    and "k = Interrupted \<Longrightarrow> dst_cancellable s \<and> True \<in> flag_readings t"
proof -
  have cases: "remaining s (tn_check t) = Inl k \<or> await_deadline s t = Inl k \<or> remaining s (tn_retry t) = Inl k
      \<or> (k = Interrupted \<and> dst_cancellable s \<and> tn_cancel t) \<or> (k \<noteq> TimedOut \<and> k \<noteq> Interrupted)"
    using assms
    by (auto simp: turn_def turn_reply_def interruption_is_cancellation_def split: sum.splits if_splits)
  show "\<exists>r \<in> readings t. ds_active (dst_deadline s) \<le> snd r" if "k = TimedOut"
    using cases that remaining_Inl [of s "tn_check t" k] remaining_Inl [of s "tn_retry t" k] await_Inl [of s t k]
    by (auto simp: readings_def)
  show "dst_cancellable s \<and> True \<in> flag_readings t" if "k = Interrupted"
    using cases that remaining_Inl [of s "tn_check t" k] remaining_Inl [of s "tn_retry t" k] await_Inl [of s t k]
    by (auto simp: readings_def flag_readings_def)
qed

lemma deadline_io_truthful:
  assumes "deadline_io im s ts = Some (Inl k, s', ts')" and "\<forall>t \<in> set ts. tn_set t = Inr ()"
  shows "(k = TimedOut \<longrightarrow> (\<exists>t \<in> set ts. \<exists>r \<in> readings t. ds_active (dst_deadline s) \<le> snd r))
       \<and> (k = Interrupted \<longrightarrow> dst_cancellable s \<and> (\<exists>t \<in> set ts. True \<in> flag_readings t))"
  using assms
proof (induction ts)
  case Nil
  then show ?case by simp
next
  case (Cons t ts)
  show ?case
  proof (cases "turn im s t")
    case None
    with Cons show ?thesis by auto
  next
    case (Some x)
    then have "turn im s t = Some (Inl k, s')" using Cons.prems(1) by (cases x) simp
    with turn_truthful [OF this] Cons.prems(2) show ?thesis by auto
  qed
qed

text \<open>The first reading of a turn decides: past the deadline, or cancelled, the loop returns.\<close>

lemma deadline_io_returns:
  assumes "t \<in> set ts"
    and "ds_active (dst_deadline s) \<le> snd (tn_check t) \<or> (dst_cancellable s \<and> fst (tn_check t))
         \<or> (\<exists>n. tn_reply t = Inr n)"
  shows "\<exists>y. deadline_io im s ts = Some y"
proof -
  have "\<exists>y. turn im s t = Some y"
    using assms(2)
    by (cases "tn_check t") (auto simp: turn_def turn_reply_def remaining_def Let_def split: sum.split)
  with assms(1) show ?thesis
    by (induction ts) (auto split: option.split)
qed

subsection \<open>Claims\<close>

text \<open>
  The active deadline is the earliest of the total, phase and idle deadlines, and the recorded cause
  names the one that was chosen; on a tie the total deadline wins over the phase, the phase over idleness.
\<close>

theorem select_deadline_earliest:
  "\<exists>cause. select_deadline tot phase idle c = (min tot (min phase idle), cause)
     \<and> cause = (if tot = min tot (min phase idle) then TotalTimeout
                else if phase = min phase idle then c else IdleTimeout)"
  by (auto simp: select_deadline_def)

definition io_sequence :: "instant \<Rightarrow> io_turn list list \<Rightarrow> DeadlineTcpStream \<Rightarrow> DeadlineTcpStream" where
  "io_sequence im calls s =
     fold (\<lambda>ts s. case deadline_io im s ts of Some (_, s', _) \<Rightarrow> s' | None \<Rightarrow> s) calls s"

lemma io_sequence_bounds:
  assumes "deadline_wf (dst_deadline s)"
  shows "deadline_wf (dst_deadline (io_sequence im calls s))
       \<and> ds_total (dst_deadline (io_sequence im calls s)) = ds_total (dst_deadline s)
       \<and> ds_phase (dst_deadline (io_sequence im calls s)) = ds_phase (dst_deadline s)"
  using assms
proof (induction calls arbitrary: s)
  case Nil
  then show ?case by (simp add: io_sequence_def)
next
  case (Cons ts calls)
  let ?s1 = "case deadline_io im s ts of Some (_, s', _) \<Rightarrow> s' | None \<Rightarrow> s"
  have "deadline_wf (dst_deadline ?s1) \<and> ds_total (dst_deadline ?s1) = ds_total (dst_deadline s)
      \<and> ds_phase (dst_deadline ?s1) = ds_phase (dst_deadline s)"
    using Cons.prems
    by (auto dest!: deadline_io_state simp: note_activity_keeps split: option.split)
  with Cons.IH [of ?s1] show ?case by (simp add: io_sequence_def)
qed

text \<open>
  Activity cannot extend a session: however many reads, writes and flushes run under a configured
  session deadline, and whatever they report, the active deadline stays at or before both the total
  deadline and the phase deadline it was configured with.
\<close>

theorem activity_never_extends_session:
  assumes "s = \<lparr>dst_deadline = configure_session_deadline im now tot plan phase c, dst_cancellable = b\<rparr>"
  shows "ds_active (dst_deadline (io_sequence im calls s)) \<le> min tot phase"
proof -
  have "ds_total (dst_deadline s) = tot \<and> ds_phase (dst_deadline s) = phase"
    by (auto simp: assms configure_session_deadline_def Let_def split: prod.split)
  with io_sequence_bounds [of s im calls] deadline_wf_starts(2) [of im now tot plan phase c] show ?thesis
    by (simp add: assms deadline_wf_def)
qed

definition sample_turn :: "instant \<Rightarrow> io_kind + nat \<Rightarrow> io_turn" where
  "sample_turn now reply =
     \<lparr>tn_check = (False, now), tn_set = Inr (), tn_reply = reply, tn_activity = now,
      tn_await_before = now, tn_await_first = (False, now), tn_await_elapsed = now,
      tn_await_second = (False, now + 1000000), tn_cancel = False, tn_retry = (False, now)\<rparr>"

theorem activity_never_extends_session_witness:
  "ds_active (dst_deadline (io_sequence 10000000000
      [[sample_turn 5 (Inl WouldBlock), sample_turn 6 (Inr 4)], [sample_turn 7 (Inr 2)]]
      \<lparr>dst_deadline = configure_session_deadline 10000000000 0 5000 sample_plan 4000 ActionTimeout,
       dst_cancellable = False\<rparr>)) \<le> min 5000 4000"
  by (rule activity_never_extends_session [OF refl])



text \<open>
  A read always comes back: as soon as a turn of the loop starts at or past the active deadline, or
  finds the cancellation flag set, or the socket delivers, the loop returns.
\<close>

theorem deadline_read_returns:
  assumes "t \<in> set ts"
    and "ds_active (dst_deadline s) \<le> snd (tn_check t) \<or> (dst_cancellable s \<and> fst (tn_check t))
         \<or> (\<exists>n. tn_reply t = Inr n)"
  shows "\<exists>r s' ts'. deadline_read im s ts = Some (r, s', ts')"
  using deadline_io_returns [OF assms, of im] by (auto simp: deadline_read_def)

theorem deadline_read_returns_witness:
  "\<exists>r s' ts'. deadline_read 10000000000
      \<lparr>dst_deadline = fixed_deadline 100 ActionTimeout, dst_cancellable = False\<rparr>
      [sample_turn 5 (Inl Interrupted), sample_turn 101 (Inl Interrupted)] = Some (r, s', ts')"
  by (rule deadline_read_returns [of "sample_turn 101 (Inl Interrupted)"])
     (simp_all add: sample_turn_def fixed_deadline_def)

text \<open>
  The total deadline of a session is bounded by both the plan and the invocation: it is never later
  than the sealed total timeout allows, nor than the invocation timeout, and never before the start.
\<close>

theorem total_deadline_bounded:
  "started \<le> bounded_total_deadline im started ms d
   \<and> bounded_total_deadline im started ms d \<le> started + millis ms
   \<and> (started + d \<le> im \<longrightarrow> bounded_total_deadline im started ms d \<le> started + d)"
  by (auto simp: bounded_total_deadline_def deadline_def instant_checked_add_def Let_def)

theorem total_deadline_bounded_witness:
  "bounded_total_deadline 100000000000 7 5 2000000 \<le> 7 + 2000000"
  using total_deadline_bounded [of 7 100000000000 5 2000000] by simp

end
