(* ===== verification/Net_Boundary.thy ===== *)
theory Net_Boundary
  imports Prelude Rust_Str
begin

text \<open>
  The network boundary: which resolved addresses need an explicit \<open>net-cidr\<close> grant.  \<open>kahea-exec\<close> decides
  with \<open>unsafe_address\<close> before it connects, \<open>kahea-plan\<close> with \<open>is_unsafe_address\<close> when it lists the grants a
  literal address will need.  The predicates of \<open>std::net\<close> and the textual form of addresses are modelled
  as the standard library documents them.
\<close>

datatype IpAddr =
    V4 u8 u8 u8 u8
  | V6 u16 u16 u16 u16 u16 u16 u16 u16

fun is_loopback :: "IpAddr \<Rightarrow> bool" where
  "is_loopback (V4 a b c d) = (a = 127)"
| "is_loopback (V6 s0 s1 s2 s3 s4 s5 s6 s7) =
     (s0 = 0 \<and> s1 = 0 \<and> s2 = 0 \<and> s3 = 0 \<and> s4 = 0 \<and> s5 = 0 \<and> s6 = 0 \<and> s7 = 1)"

fun is_unspecified :: "IpAddr \<Rightarrow> bool" where
  "is_unspecified (V4 a b c d) = (a = 0 \<and> b = 0 \<and> c = 0 \<and> d = 0)"
| "is_unspecified (V6 s0 s1 s2 s3 s4 s5 s6 s7) =
     (s0 = 0 \<and> s1 = 0 \<and> s2 = 0 \<and> s3 = 0 \<and> s4 = 0 \<and> s5 = 0 \<and> s6 = 0 \<and> s7 = 0)"

fun is_multicast :: "IpAddr \<Rightarrow> bool" where
  "is_multicast (V4 a b c d) = (224 \<le> a \<and> a \<le> 239)"
| "is_multicast (V6 s0 s1 s2 s3 s4 s5 s6 s7) = (s0 AND 0xff00 = 0xff00)"

definition ipv4_is_private :: "u8 \<Rightarrow> u8 \<Rightarrow> bool" where
  "ipv4_is_private a b = (a = 10 \<or> (a = 172 \<and> 16 \<le> b \<and> b \<le> 31) \<or> (a = 192 \<and> b = 168))"

definition ipv4_is_link_local :: "u8 \<Rightarrow> u8 \<Rightarrow> bool" where
  "ipv4_is_link_local a b = (a = 169 \<and> b = 254)"

definition is_unique_local :: "u16 \<Rightarrow> bool" where
  "is_unique_local s0 = (s0 AND 0xfe00 = 0xfc00)"

definition is_unicast_link_local :: "u16 \<Rightarrow> bool" where
  "is_unicast_link_local s0 = (s0 AND 0xffc0 = 0xfe80)"

subsection \<open>The executor's boundary\<close>

definition unsafe_ipv4 :: "u8 \<Rightarrow> u8 \<Rightarrow> u8 \<Rightarrow> u8 \<Rightarrow> bool" where
  "unsafe_ipv4 a b c d =
     (ipv4_is_private a b \<or> ipv4_is_link_local a b \<or> a = 0
      \<or> (a = 100 \<and> 64 \<le> b \<and> b \<le> 127)
      \<or> (a = 192 \<and> b = 0)
      \<or> (a = 198 \<and> (b = 18 \<or> b = 19 \<or> b = 51))
      \<or> (a = 203 \<and> b = 0 \<and> c = 113)
      \<or> 240 \<le> a)"

definition unsafe_ipv6 :: "u16 \<Rightarrow> u16 \<Rightarrow> u16 list \<Rightarrow> bool" where
  "unsafe_ipv6 s0 s1 rest =
     (is_unique_local s0 \<or> is_unicast_link_local s0 \<or> (s0 = 0x2001 \<and> s1 = 0x0db8)
      \<or> (s0 = 0x0100 \<and> list_all (\<lambda>s. s = 0) (s1 # rest)))"

fun unsafe_family :: "IpAddr \<Rightarrow> bool" where
  "unsafe_family (V4 a b c d) = unsafe_ipv4 a b c d"
| "unsafe_family (V6 s0 s1 s2 s3 s4 s5 s6 s7) = unsafe_ipv6 s0 s1 [s2, s3, s4, s5, s6, s7]"

definition unsafe_address :: "IpAddr \<Rightarrow> bool" where
  "unsafe_address ip = (is_loopback ip \<or> is_unspecified ip \<or> is_multicast ip \<or> unsafe_family ip)"

subsection \<open>The planner's boundary\<close>

fun is_private :: "IpAddr \<Rightarrow> bool" where
  "is_private (V4 a b c d) = ipv4_is_private a b"
| "is_private (V6 s0 s1 s2 s3 s4 s5 s6 s7) = is_unique_local s0"

fun is_link_local :: "IpAddr \<Rightarrow> bool" where
  "is_link_local (V4 a b c d) = ipv4_is_link_local a b"
| "is_link_local (V6 s0 s1 s2 s3 s4 s5 s6 s7) = is_unicast_link_local s0"

definition is_unsafe_address :: "IpAddr \<Rightarrow> bool" where
  "is_unsafe_address ip =
     (is_loopback ip \<or> is_unspecified ip \<or> is_multicast ip \<or> is_private ip \<or> is_link_local ip)"

subsection \<open>The grant that names an address\<close>

definition hex_digit :: "nat \<Rightarrow> char" where
  "hex_digit n = (if n < 10 then char_of (48 + n) else char_of (87 + n))"

fun show_hex :: "nat \<Rightarrow> string" where
  "show_hex n = (if n < 16 then [hex_digit n] else show_hex (n div 16) @ [hex_digit (n mod 16)])"

declare show_hex.simps [simp del]

definition show_v4 :: "u8 \<Rightarrow> u8 \<Rightarrow> u8 \<Rightarrow> u8 \<Rightarrow> string" where
  "show_v4 a b c d =
     show_nat (unat a) @ ''.'' @ show_nat (unat b) @ ''.'' @ show_nat (unat c) @ ''.'' @ show_nat (unat d)"

text \<open>The longest run of zero segments, the first of equal length: current run, best run, each as start
  and length.\<close>

fun zero_run :: "nat \<Rightarrow> u16 list \<Rightarrow> nat \<times> nat \<Rightarrow> nat \<times> nat \<Rightarrow> nat \<times> nat" where
  "zero_run i [] cur best = best"
| "zero_run i (s # ss) cur best =
     (if s = 0
      then (let cur' = (if snd cur = 0 then (i, 1) else (fst cur, snd cur + 1))
            in zero_run (i + 1) ss cur' (if snd best < snd cur' then cur' else best))
      else zero_run (i + 1) ss (0, 0) best)"

definition show_segments :: "u16 list \<Rightarrow> string" where
  "show_segments ss = join '':'' (map (\<lambda>s. show_hex (unat s)) ss)"

definition show_v6 :: "u16 list \<Rightarrow> string" where
  "show_v6 ss =
     (if take 6 ss = [0, 0, 0, 0, 0, 0xffff]
      then ''::ffff:'' @ show_v4 (ucast (drop_bit 8 (ss ! 6))) (ucast (ss ! 6))
             (ucast (drop_bit 8 (ss ! 7))) (ucast (ss ! 7))
      else (case zero_run 0 ss (0, 0) (0, 0) of (start, len) \<Rightarrow>
              if 1 < len then show_segments (take start ss) @ ''::'' @ show_segments (drop (start + len) ss)
              else show_segments ss))"

fun cidr_grant :: "IpAddr \<Rightarrow> string" where
  "cidr_grant (V4 a b c d) = ''net-cidr:'' @ show_v4 a b c d @ ''/32''"
| "cidr_grant (V6 s0 s1 s2 s3 s4 s5 s6 s7) =
     ''net-cidr:'' @ show_v6 [s0, s1, s2, s3, s4, s5, s6, s7] @ ''/128''"

subsection \<open>Address blocks\<close>

definition v4_num :: "u8 \<Rightarrow> u8 \<Rightarrow> u8 \<Rightarrow> u8 \<Rightarrow> nat" where
  "v4_num a b c d = unat a * 2 ^ 24 + unat b * 2 ^ 16 + unat c * 2 ^ 8 + unat d"

text \<open>A block is written as its base address and prefix length.\<close>

definition in_block :: "nat \<Rightarrow> (nat \<times> nat \<times> nat \<times> nat) \<times> nat \<Rightarrow> bool" where
  "in_block n = (\<lambda>((a, b, c, d), len).
     n div 2 ^ (32 - len) = (a * 2 ^ 24 + b * 2 ^ 16 + c * 2 ^ 8 + d) div 2 ^ (32 - len))"

definition v4_blocks :: "((nat \<times> nat \<times> nat \<times> nat) \<times> nat) list" where
  "v4_blocks =
     [((0, 0, 0, 0), 8), ((10, 0, 0, 0), 8), ((100, 64, 0, 0), 10), ((127, 0, 0, 0), 8),
      ((169, 254, 0, 0), 16), ((172, 16, 0, 0), 12), ((192, 0, 0, 0), 16), ((192, 168, 0, 0), 16),
      ((198, 18, 0, 0), 15), ((198, 51, 0, 0), 16), ((203, 0, 113, 0), 24), ((224, 0, 0, 0), 4),
      ((240, 0, 0, 0), 4)]"

lemma unat_u8_lt: "unat (x :: u8) < 256"
  using unsigned_less [of x] by simp

lemma u8_eq_num: "(x :: u8) = numeral k \<longleftrightarrow> unat x = unat (numeral k :: u8)"
  by (simp add: word_unat_eq_iff)

lemma block_prefix_8:
  "v4_num a b c d div 16777216 = unat a"
proof -
  have "unat b * 65536 + unat c * 256 + unat d < 16777216"
    using unat_u8_lt [of b] unat_u8_lt [of c] unat_u8_lt [of d] by linarith
  moreover have "v4_num a b c d = unat a * 16777216 + (unat b * 65536 + unat c * 256 + unat d)"
    by (simp add: v4_num_def)
  ultimately show ?thesis by simp
qed

lemma block_prefix_16: "v4_num a b c d div 65536 = unat a * 256 + unat b"
proof -
  have "unat c * 256 + unat d < 65536" using unat_u8_lt [of c] unat_u8_lt [of d] by linarith
  moreover have "v4_num a b c d = (unat a * 256 + unat b) * 65536 + (unat c * 256 + unat d)"
    by (simp add: v4_num_def)
  ultimately show ?thesis by simp
qed

lemma block_prefix_24: "v4_num a b c d div 256 = (unat a * 256 + unat b) * 256 + unat c"
  using unat_u8_lt [of d] by (simp add: v4_num_def)

lemma block_prefix_shorter:
  "v4_num a b c d div 268435456 = unat a div 16"
  "v4_num a b c d div 4194304 = (unat a * 256 + unat b) div 64"
  "v4_num a b c d div 1048576 = (unat a * 256 + unat b) div 16"
  "v4_num a b c d div 131072 = (unat a * 256 + unat b) div 2"
proof -
  have shorter: "v div (m * k) = n div k" if "v div m = n" for v m n k :: nat
    using that by (simp only: div_mult2_eq)
  show "v4_num a b c d div 268435456 = unat a div 16"
    using shorter [OF block_prefix_8, of a b c d 16] by (simp only: arith_simps)
  show "v4_num a b c d div 4194304 = (unat a * 256 + unat b) div 64"
    using shorter [OF block_prefix_16, of a b c d 64] by (simp only: arith_simps)
  show "v4_num a b c d div 1048576 = (unat a * 256 + unat b) div 16"
    using shorter [OF block_prefix_16, of a b c d 16] by (simp only: arith_simps)
  show "v4_num a b c d div 131072 = (unat a * 256 + unat b) div 2"
    using shorter [OF block_prefix_16, of a b c d 2] by (simp only: arith_simps)
qed

lemma pair_inj:
  assumes "b < m" and "j < (m :: nat)"
  shows "a * m + b = k * m + j \<longleftrightarrow> a = k \<and> b = j"
proof
  assume eq: "a * m + b = k * m + j"
  have "a = (a * m + b) div m" "b = (a * m + b) mod m" using assms by simp_all
  moreover have "k = (k * m + j) div m" "j = (k * m + j) mod m" using assms by simp_all
  ultimately show "a = k \<and> b = j" using eq by metis
qed simp

lemma div_range: "0 < k \<Longrightarrow> (n :: nat) div k = q \<longleftrightarrow> q * k \<le> n \<and> n < Suc q * k"
proof -
  assume k: "0 < k"
  have "n div k = q \<longleftrightarrow> q \<le> n div k \<and> n div k < Suc q" by auto
  also have "\<dots> \<longleftrightarrow> q * k \<le> n \<and> n < Suc q * k"
    using k by (simp only: less_eq_div_iff_mult_less_eq div_less_iff_less_mult)
  finally show ?thesis .
qed

lemma prefix_div: "0 < q \<Longrightarrow> (a * (p * q) + b) div q = a * p + b div (q :: nat)"
  by (metis add.commute div_mult_self1 mult.assoc nat_less_le)

lemma in_blocks_iff:
  "list_ex (in_block (v4_num a b c d)) v4_blocks \<longleftrightarrow>
     unat a = 0 \<or> unat a = 10 \<or> (unat a = 100 \<and> 64 \<le> unat b \<and> unat b \<le> 127) \<or> unat a = 127
     \<or> (unat a = 169 \<and> unat b = 254) \<or> (unat a = 172 \<and> 16 \<le> unat b \<and> unat b \<le> 31)
     \<or> (unat a = 192 \<and> unat b = 0) \<or> (unat a = 192 \<and> unat b = 168)
     \<or> (unat a = 198 \<and> (unat b = 18 \<or> unat b = 19)) \<or> (unat a = 198 \<and> unat b = 51)
     \<or> (unat a = 203 \<and> unat b = 0 \<and> unat c = 113) \<or> 224 \<le> unat a"
proof -
  have lt: "unat a < 256" "unat b < 256" "unat c < 256" by (rule unat_u8_lt)+
  have b16: "unat a * 256 + unat b = 43518 \<longleftrightarrow> unat a = 169 \<and> unat b = 254"
    "unat a * 256 + unat b = 49152 \<longleftrightarrow> unat a = 192 \<and> unat b = 0"
    "unat a * 256 + unat b = 49320 \<longleftrightarrow> unat a = 192 \<and> unat b = 168"
    "unat a * 256 + unat b = 50739 \<longleftrightarrow> unat a = 198 \<and> unat b = 51"
    "unat a * 256 + unat b = 51968 \<longleftrightarrow> unat a = 203 \<and> unat b = 0"
    using pair_inj [OF lt(2), of 254 "unat a" 169] pair_inj [OF lt(2), of 0 "unat a" 192]
      pair_inj [OF lt(2), of 168 "unat a" 192] pair_inj [OF lt(2), of 51 "unat a" 198]
      pair_inj [OF lt(2), of 0 "unat a" 203] by simp_all
  have b24: "(unat a * 256 + unat b) * 256 + unat c = 13303921 \<longleftrightarrow> unat a = 203 \<and> unat b = 0 \<and> unat c = 113"
    using pair_inj [OF lt(3), of 113 "unat a * 256 + unat b" 51968] b16(5) by simp
  then have b24': "65536 * unat a + unat b * 256 + unat c = 13303921 \<longleftrightarrow> unat a = 203 \<and> unat b = 0 \<and> unat c = 113"
    by (simp add: algebra_simps)
  have small: "unat b div 64 < 4" "unat b div 16 < 16" "unat b div 2 < 128"
    using lt by (simp_all add: div_less_iff_less_mult)
  have b10: "(unat a * 256 + unat b) div 64 = 401 \<longleftrightarrow> unat a = 100 \<and> 64 \<le> unat b \<and> unat b \<le> 127"
    using prefix_div [of 64 "unat a" 4 "unat b"] pair_inj [OF small(1), of 1 "unat a" 100]
      div_range [of 64 "unat b" 1] by auto
  have b12: "(unat a * 256 + unat b) div 16 = 2753 \<longleftrightarrow> unat a = 172 \<and> 16 \<le> unat b \<and> unat b \<le> 31"
    using prefix_div [of 16 "unat a" 16 "unat b"] pair_inj [OF small(2), of 1 "unat a" 172]
      div_range [of 16 "unat b" 1] by auto
  have b15: "(unat a * 256 + unat b) div 2 = 25353 \<longleftrightarrow> unat a = 198 \<and> (unat b = 18 \<or> unat b = 19)"
    using prefix_div [of 2 "unat a" 128 "unat b"] pair_inj [OF small(3), of 9 "unat a" 198]
      div_range [of 2 "unat b" 9] by auto
  have b4: "unat a div 16 = 14 \<or> unat a div 16 = 15 \<longleftrightarrow> 224 \<le> unat a"
    using lt div_range [of 16 "unat a" 14] div_range [of 16 "unat a" 15] by auto
  show ?thesis
    unfolding v4_blocks_def in_block_def
    using b4 by (simp add: block_prefix_8 block_prefix_16 block_prefix_24 block_prefix_shorter b16 b10 b12 b15 b24')
qed

subsection \<open>Grants name one address\<close>

lemma until_sep_inj:
  assumes "c \<notin> set xs" and "c \<notin> set ys" and "xs @ c # r = ys @ c # s"
  shows "xs = ys \<and> r = s"
proof -
  have "takeWhile (\<lambda>x. x \<noteq> c) (xs @ c # r) = xs" "takeWhile (\<lambda>x. x \<noteq> c) (ys @ c # s) = ys"
    using assms(1,2) by (auto simp: takeWhile_append2 takeWhile_tail)
  with assms(3) show ?thesis by force
qed

lemma show_nat_no_sep: "c \<in> {CHR ''.'', CHR ''/'', CHR '':''} \<Longrightarrow> c \<notin> set (show_nat n)"
  using show_nat_digits [of c n] by (auto simp: is_ascii_digit_def char_code_def)

lemma unat_u8_inj: "unat (a :: u8) = unat b \<Longrightarrow> a = b"
  by (simp add: word_unat_eq_iff)

lemma show_nat_sep_inj:
  "show_nat m @ CHR ''.'' # r = show_nat n @ CHR ''.'' # s \<longleftrightarrow> m = n \<and> r = s"
  "show_nat m @ CHR ''/'' # r = show_nat n @ CHR ''/'' # s \<longleftrightarrow> m = n \<and> r = s"
  using until_sep_inj [OF show_nat_no_sep [of _ m] show_nat_no_sep [of _ n]] show_nat_inj [of m n] by auto

lemma show_v4_inj:
  assumes "show_v4 a b c d @ CHR ''/'' # r = show_v4 a' b' c' d' @ CHR ''/'' # r'"
  shows "a = a' \<and> b = b' \<and> c = c' \<and> d = d'"
  using assms by (simp add: show_v4_def show_nat_sep_inj unat_u8_inj)

subsection \<open>Claims\<close>

text \<open>
  The executor's boundary covers whole IPv4 blocks: an IPv4 address needs a grant exactly when it lies
  in one of thirteen blocks, among them every private, loopback, link-local, shared, multicast and
  reserved range.
\<close>

theorem unsafe_ipv4_blocks:
  "unsafe_address (V4 a b c d) \<longleftrightarrow> list_ex (in_block (v4_num a b c d)) v4_blocks"
proof -
  have eq: "x = 0 \<longleftrightarrow> unat x = 0"
    "x = 10 \<longleftrightarrow> unat x = 10"
    "x = 172 \<longleftrightarrow> unat x = 172"
    "x = 192 \<longleftrightarrow> unat x = 192"
    "x = 168 \<longleftrightarrow> unat x = 168"
    "x = 169 \<longleftrightarrow> unat x = 169"
    "x = 254 \<longleftrightarrow> unat x = 254"
    "x = 100 \<longleftrightarrow> unat x = 100"
    "x = 198 \<longleftrightarrow> unat x = 198"
    "x = 18 \<longleftrightarrow> unat x = 18"
    "x = 19 \<longleftrightarrow> unat x = 19"
    "x = 51 \<longleftrightarrow> unat x = 51"
    "x = 203 \<longleftrightarrow> unat x = 203"
    "x = 113 \<longleftrightarrow> unat x = 113"
    "x = 127 \<longleftrightarrow> unat x = 127"
    for x :: u8
    by (simp_all add: word_unat_eq_iff)
  have range: "16 \<le> x \<longleftrightarrow> 16 \<le> unat x" "x \<le> 31 \<longleftrightarrow> unat x \<le> 31"
    "64 \<le> x \<longleftrightarrow> 64 \<le> unat x" "x \<le> 127 \<longleftrightarrow> unat x \<le> 127"
    "224 \<le> x \<longleftrightarrow> 224 \<le> unat x" "x \<le> 239 \<longleftrightarrow> unat x \<le> 239"
    "240 \<le> x \<longleftrightarrow> 240 \<le> unat x" for x :: u8
    by (simp_all add: word_le_nat_alt)
  have top: "224 \<le> unat a \<longleftrightarrow> (224 \<le> unat a \<and> unat a \<le> 239) \<or> 240 \<le> unat a" by auto
  show ?thesis
    unfolding in_blocks_iff
    unfolding unsafe_address_def unsafe_family.simps unsafe_ipv4_def ipv4_is_private_def ipv4_is_link_local_def
      is_loopback.simps is_unspecified.simps is_multicast.simps eq range
    using top by argo
qed

text \<open>
  The planner never asks for a grant the executor would not: an address literal for which the planner
  lists a \<open>net-cidr\<close> grant is unsafe for the executor too.
\<close>

theorem planner_boundary_within_executor:
  "is_unsafe_address ip \<Longrightarrow> unsafe_address ip"
  by (cases ip) (auto simp: is_unsafe_address_def unsafe_address_def unsafe_ipv4_def unsafe_ipv6_def)

theorem planner_boundary_within_executor_witness: "unsafe_address (V4 192 168 1 1)"
  using planner_boundary_within_executor [of "V4 192 168 1 1"]
  by (simp add: is_unsafe_address_def ipv4_is_private_def)

text \<open>
  The converse fails: shared address space, benchmark and documentation ranges and the reserved
  class E are unsafe for the executor, but the planner does not list the grant they will need, so the
  plan does not show it.
\<close>

theorem planner_boundary_gap:
  "unsafe_address (V4 100 64 0 1) \<and> \<not> is_unsafe_address (V4 100 64 0 1)
   \<and> unsafe_address (V4 240 0 0 1) \<and> \<not> is_unsafe_address (V4 240 0 0 1)
   \<and> unsafe_address (V6 0x2001 0x0db8 0 0 0 0 0 1) \<and> \<not> is_unsafe_address (V6 0x2001 0x0db8 0 0 0 0 0 1)"
  by code_simp

text \<open>
  IPv4-mapped addresses pass the boundary: no address of \<open>::ffff:0:0/96\<close> is unsafe, for the executor
  or the planner, whatever IPv4 address it stands for, loopback and private ones included.
\<close>

theorem mapped_addresses_pass_boundary:
  "\<not> unsafe_address (V6 0 0 0 0 0 0xffff hi lo) \<and> \<not> is_unsafe_address (V6 0 0 0 0 0 0xffff hi lo)
   \<and> unsafe_address (V4 127 0 0 1)"
  by (simp add: unsafe_address_def is_unsafe_address_def unsafe_ipv6_def is_unique_local_def
      is_unicast_link_local_def)

text \<open>
  A \<open>net-cidr\<close> grant for an IPv4 address names that address alone: two IPv4 addresses with the same
  grant are equal, and no IPv6 address shares it.
\<close>

theorem cidr_grant_names_one_address:
  "cidr_grant (V4 a b c d) = cidr_grant ip \<Longrightarrow> ip = V4 a b c d"
proof (cases ip)
  case (V4 a' b' c' d')
  assume "cidr_grant (V4 a b c d) = cidr_grant ip"
  with V4 show_v4_inj [of a b c d "''32''" a' b' c' d' "''32''"] show ?thesis by simp
next
  case (V6 s0 s1 s2 s3 s4 s5 s6 s7)
  assume "cidr_grant (V4 a b c d) = cidr_grant ip"
  then have "last (cidr_grant (V4 a b c d)) = last (cidr_grant ip)" by simp
  with V6 show ?thesis by simp
qed

theorem cidr_grant_names_one_address_witness:
  "\<exists>ip. cidr_grant (V4 10 0 0 7) = cidr_grant ip \<and> ip = V4 10 0 0 7"
  using cidr_grant_names_one_address [OF refl, of 10 0 0 7] by blast

end
