(* ===== verification/Redaction.thy ===== *)
theory Redaction
  imports Samples
begin

text \<open>
  Redaction of secrets before evidence is stored (\<open>kahea-exec\<close>): the replacement of secret byte strings,
  the collection of the strings a structured secret holds, redaction by JSON Pointer, and the display of
  header maps.  \<open>from_utf8_lossy\<close> follows the standard library's chunking of invalid sequences.
\<close>

subsection \<open>UTF-8\<close>

definition is_continuation :: "bytes \<Rightarrow> nat \<Rightarrow> bool" where
  "is_continuation s i = (i < length s \<and> s ! i AND 192 = 128)"

definition byte_in :: "bytes \<Rightarrow> nat \<Rightarrow> u8 \<Rightarrow> u8 \<Rightarrow> bool" where
  "byte_in s i lo hi = (i < length s \<and> lo \<le> s ! i \<and> s ! i \<le> hi)"

text \<open>The first sequence of a non-empty slice: whether it is a character, and how many bytes it takes.\<close>

definition utf8_step :: "bytes \<Rightarrow> bool \<times> nat" where
  "utf8_step s =
     (let b = s ! 0 in
      if b < 128 then (True, 1)
      else if 0xC2 \<le> b \<and> b \<le> 0xDF then (if is_continuation s 1 then (True, 2) else (False, 1))
      else if 0xE0 \<le> b \<and> b \<le> 0xEF
      then (let second = (if b = 0xE0 then byte_in s 1 0xA0 0xBF
                          else if b = 0xED then byte_in s 1 0x80 0x9F else byte_in s 1 0x80 0xBF)
            in if \<not> second then (False, 1) else if is_continuation s 2 then (True, 3) else (False, 2))
      else if 0xF0 \<le> b \<and> b \<le> 0xF4
      then (let second = (if b = 0xF0 then byte_in s 1 0x90 0xBF
                          else if b = 0xF4 then byte_in s 1 0x80 0x8F else byte_in s 1 0x80 0xBF)
            in if \<not> second then (False, 1) else if \<not> is_continuation s 2 then (False, 2)
               else if is_continuation s 3 then (True, 4) else (False, 3))
      else (False, 1))"

lemma utf8_step_pos: "0 < snd (utf8_step s)"
  by (simp add: utf8_step_def Let_def)

function from_utf8_lossy :: "bytes \<Rightarrow> bytes" where
  "from_utf8_lossy s =
     (if s = [] then []
      else (case utf8_step s of
              (valid, n) \<Rightarrow>
                (if valid then take n s else [0xEF, 0xBF, 0xBD]) @ from_utf8_lossy (drop n s)))"
  by pat_completeness auto
termination
proof (relation "measure length", goal_cases)
  case (2 s valid n)
  then show ?case using utf8_step_pos [of s] by (cases s) (auto simp: prod_eq_iff)
qed simp

declare from_utf8_lossy.simps [simp del]

text \<open>\<open>std::str::from_utf8(..).is_ok()\<close>.\<close>

function utf8_valid :: "bytes \<Rightarrow> bool" where
  "utf8_valid s =
     (if s = [] then True
      else (case utf8_step s of (valid, n) \<Rightarrow> if valid then utf8_valid (drop n s) else False))"
  by pat_completeness auto
termination
proof (relation "measure length", goal_cases)
  case (2 s x n)
  then show ?case using utf8_step_pos [of s] by (cases s) (auto simp: prod_eq_iff)
qed simp

declare utf8_valid.simps [simp del]

lemma from_utf8_lossy_valid: "utf8_valid s \<Longrightarrow> from_utf8_lossy s = s"
proof (induction s rule: from_utf8_lossy.induct)
  case (1 s)
  show ?case
  proof (cases "s = []")
    case True
    then show ?thesis by (simp add: from_utf8_lossy.simps)
  next
    case False
    obtain n where n: "utf8_step s = (True, n)" and v: "utf8_valid (drop n s)"
      using "1.prems" False by (auto simp: utf8_valid.simps [of s] split: prod.splits if_splits)
    with "1.IH" [OF False n [symmetric] v] False show ?thesis
      by (simp add: from_utf8_lossy.simps [of s])
  qed
qed

lemma utf8_valid_ascii: "list_all (\<lambda>b. b < 128) s \<Longrightarrow> utf8_valid s"
proof (induction s)
  case (Cons b s)
  then show ?case by (subst utf8_valid.simps) (simp add: utf8_step_def)
qed (simp add: utf8_valid.simps [of "[]"])

subsection \<open>Replacing secrets\<close>

definition marker :: bytes where
  "marker = as_bytes ''[REDACTED]''"

lemma length_marker [simp]: "length marker = 10"
  by (simp add: marker_def)

function redact_loop :: "bytes \<Rightarrow> bytes \<Rightarrow> nat \<Rightarrow> bytes" where
  "redact_loop secret redacted cursor =
     (if secret = [] \<or> length redacted < cursor + length secret then redacted
      else (case position secret (drop cursor redacted) of
              None \<Rightarrow> redacted
            | Some offset \<Rightarrow>
                (let start = cursor + offset
                 in redact_loop secret (take start redacted @ marker @ drop (start + length secret) redacted)
                      (start + length marker))))"
  by pat_completeness auto
termination
proof (relation "measure (\<lambda>(secret, redacted, cursor). length redacted - cursor)", goal_cases)
  case (2 secret redacted cursor offset start)
  then have "offset + length secret \<le> length (drop cursor redacted)" using position_Some by blast
  with 2 show ?case by (cases secret) auto
qed simp

declare redact_loop.simps [simp del]

definition redact_bytes :: "bytes \<Rightarrow> bytes list \<Rightarrow> bytes" where
  "redact_bytes data secrets =
     foldl (\<lambda>redacted secret. redact_loop secret redacted 0) data (filter (\<lambda>s. s \<noteq> []) secrets)"

definition redact_text :: "string \<Rightarrow> bytes list \<Rightarrow> string" where
  "redact_text v secrets =
     from_bytes (from_utf8_lossy
       (foldl (\<lambda>redacted secret. redact_loop secret redacted 0) (as_bytes v)
          (filter (\<lambda>s. s \<noteq> []) secrets)))"

subsection \<open>What counts as a secret\<close>

fun collect_string_values :: "json \<Rightarrow> bytes list" where
  "collect_string_values (JString s) = (if s \<noteq> [] then [as_bytes s] else [])"
| "collect_string_values (JArray vs) = concat (map collect_string_values vs)"
| "collect_string_values (JObject m) = concat (map (\<lambda>(k, v). collect_string_values v) m)"
| "collect_string_values _ = []"

definition redactions_of_secret :: "crates \<Rightarrow> string \<Rightarrow> bytes list" where
  "redactions_of_secret C secret =
     (if secret \<noteq> [] then [as_bytes secret] else [])
     @ (case json_from_slice C (as_bytes secret) of None \<Rightarrow> [] | Some v \<Rightarrow> collect_string_values v)"

text \<open>\<open>options.secrets\<close> is a sorted map from profile to secret; only its values matter.\<close>

definition secret_redactions :: "crates \<Rightarrow> (string \<times> string) list \<Rightarrow> bytes list" where
  "secret_redactions C secrets = concat (map (\<lambda>(profile, secret). redactions_of_secret C secret) secrets)"

subsection \<open>Redaction by JSON Pointer\<close>

definition redact_pointer :: "crates \<Rightarrow> string \<Rightarrow> json \<times> bool \<Rightarrow> json \<times> bool" where
  "redact_pointer C pointer = (\<lambda>(v, changed).
     case json_pointer_set C v pointer (JString ''[REDACTED]'') of
       None \<Rightarrow> (v, changed) | Some v' \<Rightarrow> (v', True))"

definition redact_json_pointers :: "crates \<Rightarrow> bytes \<Rightarrow> string list \<Rightarrow> bytes" where
  "redact_json_pointers C data pointers =
     (if pointers = [] then data
      else (case json_from_slice C data of
              None \<Rightarrow> data
            | Some v \<Rightarrow>
                (case fold (redact_pointer C) pointers (v, False) of
                   (v', changed) \<Rightarrow>
                     if changed then (case json_to_vec C v' of Some bs \<Rightarrow> bs | None \<Rightarrow> data) else data)))"

subsection \<open>Header maps\<close>

text \<open>An entry of a \<open>HeaderMap\<close>: the lower-case name, the value's bytes, its sensitivity flag.\<close>

record HeaderEntry =
  he_name :: string
  he_value :: bytes
  he_sensitive :: bool

text \<open>\<open>HeaderValue::to_str\<close>: visible ASCII and tabs only.\<close>

definition header_to_str :: "bytes \<Rightarrow> string option" where
  "header_to_str v =
     (if list_all (\<lambda>b. (32 \<le> b \<and> b < 127) \<or> b = 9) v then Some (from_bytes v) else None)"

definition builtin_sensitive :: "string list" where
  "builtin_sensitive =
     [''authorization'', ''proxy-authorization'', ''cookie'', ''set-cookie'', ''x-api-key'']"

definition header_sensitive :: "string list \<Rightarrow> HeaderEntry \<Rightarrow> string \<Rightarrow> bool" where
  "header_sensitive configured h name =
     (he_sensitive h \<or> list_ex (\<lambda>c. eq_ignore_ascii_case c name) configured \<or> name \<in> set builtin_sensitive)"

definition header_text :: "HeaderEntry \<Rightarrow> string" where
  "header_text h = (case header_to_str (he_value h) of Some s \<Rightarrow> s | None \<Rightarrow> ''[NON-UTF8]'')"

definition redacted_headers :: "HeaderEntry list \<Rightarrow> string list \<Rightarrow> (string \<times> json) list" where
  "redacted_headers headers configured =
     fold (\<lambda>h result.
        map_insert (he_name h)
          (JString (if header_sensitive configured h (he_name h) then ''[REDACTED]'' else header_text h)) result)
       headers []"

definition header_display :: "string list \<Rightarrow> bytes list \<Rightarrow> bool \<Rightarrow> HeaderEntry \<Rightarrow> string" where
  "header_display configured redactions request h =
     (let normalized = to_ascii_lowercase (he_name h);
          generated = (request \<and> normalized = ''sec-websocket-key'')
                      \<or> (\<not> request \<and> normalized = ''sec-websocket-accept'')
      in if generated then ''[GENERATED]''
         else if header_sensitive configured h normalized then ''[REDACTED]''
         else redact_text (header_text h) redactions)"

definition safe_headers :: "HeaderEntry list \<Rightarrow> string list \<Rightarrow> bytes list \<Rightarrow> bool \<Rightarrow> (string \<times> json) list" where
  "safe_headers headers configured redactions request =
     fold (\<lambda>h result.
        map_insert (to_ascii_lowercase (he_name h))
          (JString (header_display configured redactions request h)) result)
       headers []"

subsection \<open>Close reasons\<close>

definition is_char_boundary :: "string \<Rightarrow> nat \<Rightarrow> bool" where
  "is_char_boundary s i =
     (i = 0 \<or> i = length s \<or> (i < length s \<and> \<not> (128 \<le> char_code (s ! i) \<and> char_code (s ! i) < 192)))"

fun boundary_at_most :: "string \<Rightarrow> nat \<Rightarrow> nat" where
  "boundary_at_most s i =
     (if is_char_boundary s i then i else case i of 0 \<Rightarrow> 0 | Suc j \<Rightarrow> boundary_at_most s j)"

declare boundary_at_most.simps [simp del]

definition bounded_text :: "string \<Rightarrow> nat \<Rightarrow> string" where
  "bounded_text v max_bytes = (if length v \<le> max_bytes then v else take (boundary_at_most v max_bytes) v)"

definition sanitize_close :: "bytes list \<Rightarrow> WebSocketCloseObservation \<Rightarrow> WebSocketCloseObservation" where
  "sanitize_close redactions close =
     close\<lparr>co_reason := bounded_text (redact_text (co_reason close) redactions) 256\<rparr>"

end
