(* ===== verification/Redaction_Props.thy ===== *)
theory Redaction_Props
  imports Redaction
begin

text \<open>
  Properties of redaction: the cursor loop equals a scan over the unread rest, secrets do not survive it,
  sensitive header values are never displayed, texts are cut at character boundaries.
\<close>

subsection \<open>The cursor loop is a scan\<close>

function redact_from :: "bytes \<Rightarrow> bytes \<Rightarrow> bytes" where
  "redact_from secret s =
     (if secret = [] then s
      else (case position secret s of
              None \<Rightarrow> s
            | Some k \<Rightarrow> take k s @ marker @ redact_from secret (drop (k + length secret) s)))"
  by pat_completeness auto
termination
proof (relation "measure (\<lambda>(secret, s). length s)", goal_cases)
  case (2 secret s k)
  then have "k + length secret \<le> length s" using position_Some by blast
  with 2 show ?case by (cases secret) auto
qed simp

declare redact_from.simps [simp del]

lemma redact_loop_scan:
  "secret \<noteq> [] \<Longrightarrow> redact_loop secret (pre @ s) (length pre) = pre @ redact_from secret s"
proof (induction secret s arbitrary: pre rule: redact_from.induct)
  case (1 secret s)
  show ?case
  proof (cases "position secret s")
    case None
    with "1.prems" show ?thesis by (simp add: redact_loop.simps [of secret] redact_from.simps [of secret s])
  next
    case (Some k)
    have fits: "k + length secret \<le> length s" using position_Some [OF Some] by simp
    have "redact_loop secret ((pre @ take k s @ marker) @ drop (k + length secret) s)
            (length (pre @ take k s @ marker))
        = (pre @ take k s @ marker) @ redact_from secret (drop (k + length secret) s)"
      by (rule "1.IH" [OF "1.prems" Some "1.prems"])
    with Some fits "1.prems" show ?thesis
      by (simp add: redact_loop.simps [of secret "pre @ s"] redact_from.simps [of secret s] Let_def add.assoc)
  qed
qed

lemma redact_bytes_scan:
  "redact_bytes data secrets = foldl (\<lambda>d s. redact_from s d) data (filter (\<lambda>s. s \<noteq> []) secrets)"
proof -
  have "foldl (\<lambda>d s. redact_loop s d 0) data ss = foldl (\<lambda>d s. redact_from s d) data ss"
    if "\<forall>s \<in> set ss. s \<noteq> []" for ss
    using that redact_loop_scan [of _ "[]"]
    by (induction ss arbitrary: data) simp_all
  then show ?thesis by (simp add: redact_bytes_def)
qed

subsection \<open>Secrets do not survive\<close>

text \<open>A secret the marker cannot spell: no bracket in it, and not a piece of the word between them.\<close>

definition redactable :: "bytes \<Rightarrow> bool" where
  "redactable secret =
     (secret \<noteq> [] \<and> 91 \<notin> set secret \<and> 93 \<notin> set secret \<and> \<not> contains_str (as_bytes ''REDACTED'') secret)"

lemma marker_unfold: "marker = 91 # as_bytes ''REDACTED'' @ [93]"
  by code_simp

lemma marker_split:
  assumes red: "redactable t" and occ: "contains_str (u @ marker @ v) t"
  shows "contains_str u t \<or> contains_str v t"
proof -
  obtain a b where eq: "u @ marker @ v = a @ t @ b" using occ by (auto simp: contains_str_iff)
  have tn: "t ! j = (u @ marker @ v) ! (length a + j)" if "j < length t" for j
    using that by (simp add: eq nth_append)
  consider (left) "length a + length t \<le> length u" | (right) "length u + 10 \<le> length a"
    | (opens) "length a \<le> length u" "length u < length a + length t"
    | (closes) "length u < length a" "length a \<le> length u + 9" "length u + 10 \<le> length a + length t"
    | (inside) "length u < length a" "length a + length t < length u + 10" "length a \<le> length u + 9"
    by linarith
  then show ?thesis
  proof cases
    case left
    then have "take (length u) (a @ t @ b) = a @ t @ take (length u - length a - length t) b" by simp
    then show ?thesis unfolding contains_str_iff by (metis append_eq_conv_conj eq)
  next
    case right
    let ?n = "length u + 10"
    have "drop ?n (u @ marker @ v) = drop ?n a @ t @ b" using right by (simp add: eq)
    then have "v = drop ?n a @ t @ b" by simp
    then show ?thesis unfolding contains_str_iff by blast
  next
    case opens
    then have "t ! (length u - length a) = 91" using tn [of "length u - length a"] by (simp add: marker_unfold nth_append)
    with opens have "91 \<in> set t" by (metis add_diff_inverse_nat leD nat_add_left_cancel_less nth_mem)
    with red show ?thesis by (simp add: redactable_def)
  next
    case closes
    let ?j = "length u + 9 - length a"
    have j: "?j < length t" "length a + ?j = length u + 9" using closes by linarith+
    then have "t ! ?j = 93" using tn [of ?j] by (simp add: marker_unfold nth_append)
    with j have "93 \<in> set t" by (metis nth_mem)
    with red show ?thesis by (simp add: redactable_def)
  next
    case inside
    define i where "i = length a - length u - 1"
    have a: "length a = length u + 1 + i" "i + length t \<le> 8" using inside by (simp_all add: i_def)
    have "t = take (length t) (drop (length a) (u @ marker @ v))" by (simp add: eq)
    also have "\<dots> = take (length t) (drop i (as_bytes ''REDACTED''))"
      using a by (simp add: marker_unfold)
    finally have "contains_str (as_bytes ''REDACTED'') t"
      unfolding contains_str_iff by (metis append_take_drop_id)
    with red show ?thesis by (simp add: redactable_def)
  qed
qed

lemma contains_take: "contains_str (take k s) t \<Longrightarrow> contains_str s t"
  unfolding contains_str_iff by (metis append.assoc append_take_drop_id)

lemma contains_drop: "contains_str (drop k s) t \<Longrightarrow> contains_str s t"
  unfolding contains_str_iff by (metis append.assoc append_take_drop_id)

lemma redact_from_keeps_out:
  "redactable t \<Longrightarrow> \<not> contains_str s t \<Longrightarrow> \<not> contains_str (redact_from secret s) t"
proof (induction secret s rule: redact_from.induct)
  case (1 secret s)
  show ?case
  proof (cases "secret = [] \<or> position secret s = None")
    case True
    with "1.prems" show ?thesis by (auto simp: redact_from.simps [of secret s])
  next
    case False
    then obtain k where k: "position secret s = Some k" and ne: "secret \<noteq> []" by auto
    have "\<not> contains_str (redact_from secret (drop (k + length secret) s)) t"
      using "1.IH" [OF ne k "1.prems"(1)] "1.prems"(2) contains_drop by blast
    moreover have "\<not> contains_str (take k s) t" using "1.prems"(2) contains_take by blast
    ultimately show ?thesis
      using marker_split [OF "1.prems"(1)] k ne by (auto simp: redact_from.simps [of secret s])
  qed
qed

lemma redact_from_removes: "redactable t \<Longrightarrow> \<not> contains_str (redact_from t s) t"
proof (induction t s rule: redact_from.induct)
  case (1 t s)
  then have ne: "t \<noteq> []" by (simp add: redactable_def)
  show ?case
  proof (cases "position t s")
    case None
    with ne show ?thesis by (simp add: redact_from.simps [of t s] contains_str_def)
  next
    case (Some k)
    have "\<not> contains_str (take k s) t"
    proof
      assume "contains_str (take k s) t"
      then obtain a b where ab: "take k s = a @ t @ b" by (auto simp: contains_str_iff)
      then have "s = a @ t @ (b @ drop k s)" by (metis append.assoc append_take_drop_id)
      then have "k \<le> length a" by (rule position_least [OF Some])
      moreover have "length a + length t \<le> k" using arg_cong [OF ab, of length] by simp
      ultimately show False using ne by (cases t) simp_all
    qed
    with "1.IH" [OF ne Some "1.prems"] marker_split [OF "1.prems"] Some ne show ?thesis
      by (auto simp: redact_from.simps [of t s])
  qed
qed

lemma redact_fold_removes:
  "\<forall>t \<in> set ss. redactable t \<Longrightarrow> \<forall>t \<in> T. redactable t \<and> \<not> contains_str data t \<Longrightarrow>
     t \<in> set ss \<union> T \<Longrightarrow> \<not> contains_str (foldl (\<lambda>d s. redact_from s d) data ss) t"
proof (induction ss arbitrary: data T)
  case Nil
  then show ?case by simp
next
  case (Cons s ss)
  have "\<forall>t \<in> insert s T. redactable t \<and> \<not> contains_str (redact_from s data) t"
    using Cons.prems(1,2) redact_from_removes redact_from_keeps_out by auto
  with Cons.IH [of "insert s T" "redact_from s data"] Cons.prems show ?case by auto
qed

lemma redact_from_absent: "\<not> contains_str s t \<Longrightarrow> redact_from t s = s"
  by (simp add: redact_from.simps [of t s] contains_str_def)

subsection \<open>Structured secrets\<close>

text \<open>A non-empty string anywhere inside a JSON value.\<close>

inductive string_within :: "string \<Rightarrow> json \<Rightarrow> bool" where
  itself: "s \<noteq> [] \<Longrightarrow> string_within s (JString s)"
| element: "v \<in> set vs \<Longrightarrow> string_within s v \<Longrightarrow> string_within s (JArray vs)"
| member: "(k, v) \<in> set m \<Longrightarrow> string_within s v \<Longrightarrow> string_within s (JObject m)"

lemma collect_string_values_within: "string_within s v \<Longrightarrow> as_bytes s \<in> set (collect_string_values v)"
  by (induction rule: string_within.induct) auto

lemma collected_nonempty: "t \<in> set (collect_string_values v) \<Longrightarrow> t \<noteq> []"
proof (induction v rule: collect_string_values.induct)
  case (1 s)
  then show ?case by (cases s) (auto simp: as_bytes_def split: if_splits)
qed auto

lemma secret_redactions_nonempty: "t \<in> set (secret_redactions C secrets) \<Longrightarrow> t \<noteq> []"
  by (auto simp: secret_redactions_def redactions_of_secret_def as_bytes_def dest: collected_nonempty
      split: option.splits if_splits)

subsection \<open>Headers\<close>

lemma map_insert_mem: "x \<in> set (map_insert k v m) \<Longrightarrow> x = (k, v) \<or> x \<in> set m"
  by (induction k v m rule: map_insert.induct) (auto split: if_splits)

lemma fold_map_insert_mem:
  "x \<in> set (fold (\<lambda>h. map_insert (f h) (g h)) hs m) \<Longrightarrow> (\<exists>h \<in> set hs. x = (f h, g h)) \<or> x \<in> set m"
proof (induction hs arbitrary: m)
  case Nil
  then show ?case by simp
next
  case (Cons h hs)
  from Cons.IH [of "map_insert (f h) (g h) m"] Cons.prems show ?case
    by (auto dest: map_insert_mem)
qed

subsection \<open>Character boundaries\<close>

lemma boundary_at_most_le: "boundary_at_most s i \<le> i \<and> is_char_boundary s (boundary_at_most s i)"
proof (induction i)
  case 0
  then show ?case by (simp add: boundary_at_most.simps [of s 0] is_char_boundary_def)
next
  case (Suc i)
  then show ?case by (auto simp: boundary_at_most.simps [of s "Suc i"])
qed

subsection \<open>Claims\<close>



text \<open>
  Redaction leaves everything else alone: data in which no secret occurs is unchanged.
\<close>

theorem redaction_keeps_clean_data:
  assumes "\<forall>t \<in> set secrets. t = [] \<or> \<not> contains_str data t"
  shows "redact_bytes data secrets = data"
proof -
  have "foldl (\<lambda>d s. redact_from s d) data ss = data" if "\<forall>t \<in> set ss. \<not> contains_str data t" for ss
    using that by (induction ss) (simp_all add: redact_from_absent)
  from this [of "filter (\<lambda>s. s \<noteq> []) secrets"] assms show ?thesis by (auto simp: redact_bytes_scan)
qed

theorem redaction_keeps_clean_data_witness:
  "redact_bytes (as_bytes ''plain'') [as_bytes ''hunter2'', []] = as_bytes ''plain''"
  by (rule redaction_keeps_clean_data) code_simp

text \<open>
  Sensitive headers are never displayed in WebSocket evidence: every displayed value is a fixed
  marker, or the redacted text of a header that is neither flagged, nor configured, nor known as
  sensitive.
\<close>

theorem sensitive_headers_never_displayed:
  assumes "(n, j) \<in> set (safe_headers headers configured redactions request)"
  shows "\<exists>h \<in> set headers. n = to_ascii_lowercase (he_name h)
       \<and> (j = JString ''[GENERATED]'' \<or> j = JString ''[REDACTED]''
          \<or> (\<not> he_sensitive h \<and> \<not> list_ex (\<lambda>c. eq_ignore_ascii_case c n) configured
             \<and> n \<notin> set builtin_sensitive \<and> j = JString (redact_text (header_text h) redactions)))"
proof -
  obtain h where "h \<in> set headers" and "(n, j) = (to_ascii_lowercase (he_name h),
      JString (header_display configured redactions request h))"
    using assms fold_map_insert_mem [of "(n, j)" "\<lambda>h. to_ascii_lowercase (he_name h)"
      "\<lambda>h. JString (header_display configured redactions request h)" headers "[]"]
    unfolding safe_headers_def by auto
  then show ?thesis
    by (intro bexI [of _ h]) (auto simp: header_display_def header_sensitive_def Let_def split: if_splits)
qed

theorem sensitive_headers_never_displayed_witness:
  "\<exists>h \<in> set [\<lparr>he_name = ''cookie'', he_value = [1], he_sensitive = False\<rparr>].
     to_ascii_lowercase (he_name h) = ''cookie''"
proof -
  have "(''cookie'', JString ''[REDACTED]'')
      \<in> set (safe_headers [\<lparr>he_name = ''cookie'', he_value = [1], he_sensitive = False\<rparr>] [] [] True)"
    by code_simp
  from sensitive_headers_never_displayed [OF this] show ?thesis by metis
qed

text \<open>
  A close reason is bounded: what the observation keeps of it is at most 256 bytes, a prefix of the
  redacted reason, and ends at a character boundary.
\<close>

theorem close_reason_bounded:
  "let full = redact_text (co_reason close) redactions;
       kept = co_reason (sanitize_close redactions close)
   in length kept \<le> 256 \<and> (\<exists>rest. full = kept @ rest) \<and> is_char_boundary full (length kept)"
proof -
  let ?full = "redact_text (co_reason close) redactions"
  let ?kept = "co_reason (sanitize_close redactions close)"
  let ?n = "if length ?full \<le> 256 then length ?full else boundary_at_most ?full 256"
  have kept: "?kept = take ?n ?full" by (simp add: sanitize_close_def bounded_text_def)
  have n: "?n \<le> 256" "?n \<le> length ?full" "is_char_boundary ?full ?n"
    using boundary_at_most_le [of ?full 256] by (auto simp: is_char_boundary_def)
  have "length ?kept = ?n" unfolding kept using n(2) by simp
  moreover have "?full = ?kept @ drop ?n ?full" unfolding kept by (simp only: append_take_drop_id)
  ultimately show ?thesis unfolding Let_def using n by (intro conjI exI) simp_all
qed

end
