(* ===== verification/Schema.thy ===== *)
theory Schema
  imports Samples
begin

text \<open>
  Response schema validation (\<open>kahea-exec\<close>, \<open>validate_schema_value\<close>), used for HTTP responses and for
  WebSocket \<open>expect-json\<close> actions.  The source recurses with a depth counter and stops at 64; the model
  recurses on the number of levels that are left, so it is total.  Where the source formats a message the
  model keeps a \<open>failure\<close> value: the path and what was wrong.

  \<open>conforms\<close> is the specification: the same keywords as a predicate, with no accumulator, no early return
  and no cap on the number of failures.  \<open>validate_schema_value\<close> leaves an empty list of failures empty
  exactly when the value conforms.
\<close>

datatype failure_kind =
    TooDeep | UnresolvedRef string | ConstMismatch | OutsideEnum | BranchMismatch string
  | TypeMismatch "string list" | TooShort | TooLong | BelowMinimum | AboveMaximum
  | MissingProperty string | DeniedProperty string

datatype failure = SchemaFailure string failure_kind

definition resolve_contract_ref :: "crates \<Rightarrow> json \<Rightarrow> json \<Rightarrow> json option" where
  "resolve_contract_ref C rt v =
     Option.bind (get_str v ''$ref'') (\<lambda>reference.
     Option.bind (strip_prefix ''#'' reference) (\<lambda>pointer. json_pointer C rt pointer))"

definition chars_count :: "string \<Rightarrow> u64" where
  "chars_count s = of_nat (length (filter (\<lambda>c. \<not> (128 \<le> char_code c \<and> char_code c < 192)) s))"

definition declared_types :: "json \<Rightarrow> string list" where
  "declared_types schema =
     (case json_get schema ''type'' of
        Some (JString kind) \<Rightarrow> [kind]
      | Some (JArray kinds) \<Rightarrow> List.map_filter as_str kinds
      | _ \<Rightarrow> [])"

definition type_matches :: "json \<Rightarrow> string \<Rightarrow> bool" where
  "type_matches v kind =
     (if kind = ''object'' then as_object v \<noteq> None
      else if kind = ''array'' then as_array v \<noteq> None
      else if kind = ''string'' then as_str v \<noteq> None
      else if kind = ''number'' then is_number v
      else if kind = ''integer'' then is_integer v
      else if kind = ''boolean'' then as_bool v \<noteq> None
      else if kind = ''null'' then v = JNull
      else True)"

definition exceeds :: "('a \<Rightarrow> bool) \<Rightarrow> 'a option \<Rightarrow> bool" where
  "exceeds p x = (case x of None \<Rightarrow> False | Some y \<Rightarrow> p y)"

definition push_if :: "bool \<Rightarrow> 'a \<Rightarrow> 'a list \<Rightarrow> 'a list" where
  "push_if b x xs = (if b then xs @ [x] else xs)"

subsection \<open>The parts of one level\<close>

definition scalar_failures :: "json \<Rightarrow> json \<Rightarrow> string \<Rightarrow> failure list \<Rightarrow> failure list" where
  "scalar_failures schema v path fs =
     (let fs = (case as_str v of
                  None \<Rightarrow> fs
                | Some text \<Rightarrow>
                    push_if (exceeds (\<lambda>maximum. maximum < chars_count text) (get_u64 schema ''maxLength''))
                      (SchemaFailure path TooLong)
                    (push_if (exceeds (\<lambda>minimum. chars_count text < minimum) (get_u64 schema ''minLength''))
                       (SchemaFailure path TooShort) fs))
      in (case as_f64 v of
            None \<Rightarrow> fs
          | Some number \<Rightarrow>
              push_if (exceeds (\<lambda>maximum. maximum < number) (get_f64 schema ''maximum''))
                (SchemaFailure path AboveMaximum)
              (push_if (exceeds (\<lambda>minimum. number < minimum) (get_f64 schema ''minimum''))
                 (SchemaFailure path BelowMinimum) fs)))"

definition required_failures :: "json \<Rightarrow> json \<Rightarrow> string \<Rightarrow> failure list \<Rightarrow> failure list" where
  "required_failures schema v path fs =
     (case (get_array schema ''required'', as_object v) of
        (Some required, Some object) \<Rightarrow>
          fold (\<lambda>name. push_if (map_of object name = None)
                  (SchemaFailure (path @ ''.'' @ name) (MissingProperty name)))
            (List.map_filter as_str required) fs
      | _ \<Rightarrow> fs)"

definition additional_failures :: "json \<Rightarrow> json \<Rightarrow> string \<Rightarrow> failure list \<Rightarrow> failure list" where
  "additional_failures schema v path fs =
     (case (json_get schema ''additionalProperties'' = Some (JBool False), as_object v) of
        (True, Some object) \<Rightarrow>
          fold (\<lambda>name. push_if (\<not> exceeds (\<lambda>properties. map_of properties name \<noteq> None)
                                     (get_object schema ''properties''))
                  (SchemaFailure (path @ ''.'' @ name) (DeniedProperty name)))
            (map fst object) fs
      | _ \<Rightarrow> fs)"

definition const_failures :: "json \<Rightarrow> json \<Rightarrow> string \<Rightarrow> failure list \<Rightarrow> failure list" where
  "const_failures schema v path fs =
     push_if (exceeds (\<lambda>values. v \<notin> set values) (get_array schema ''enum'')) (SchemaFailure path OutsideEnum)
       (push_if (exceeds (\<lambda>constant. constant \<noteq> v) (json_get schema ''const''))
          (SchemaFailure path ConstMismatch) fs)"

text \<open>The recursive parts take the validator of the next level as an argument.\<close>

type_synonym level_validator = "json \<Rightarrow> json \<Rightarrow> string \<Rightarrow> failure list \<Rightarrow> failure list"

definition all_of_failures :: "level_validator \<Rightarrow> level_validator" where
  "all_of_failures next schema v path fs =
     (case get_array schema ''allOf'' of
        None \<Rightarrow> fs | Some branches \<Rightarrow> fold (\<lambda>branch. next branch v path) branches fs)"

definition passing :: "level_validator \<Rightarrow> json list \<Rightarrow> json \<Rightarrow> string \<Rightarrow> nat" where
  "passing next branches v path = length (filter (\<lambda>branch. next branch v path [] = []) branches)"

definition branch_failures :: "string \<Rightarrow> level_validator \<Rightarrow> level_validator" where
  "branch_failures keyword next schema v path fs =
     (case get_array schema keyword of
        None \<Rightarrow> fs
      | Some branches \<Rightarrow>
          (let n = passing next branches v path
           in push_if ((keyword = ''oneOf'' \<and> n \<noteq> 1) \<or> (keyword = ''anyOf'' \<and> n = 0))
                (SchemaFailure path (BranchMismatch keyword)) fs))"

definition property_failures :: "level_validator \<Rightarrow> level_validator" where
  "property_failures next schema v path fs =
     (case (get_object schema ''properties'', as_object v) of
        (Some properties, Some object) \<Rightarrow>
          fold (\<lambda>(name, child_schema) fs.
                  case map_of object name of
                    None \<Rightarrow> fs
                  | Some child \<Rightarrow> next child_schema child (path @ ''.'' @ name) fs)
            properties fs
      | _ \<Rightarrow> fs)"

definition item_failures :: "level_validator \<Rightarrow> level_validator" where
  "item_failures next schema v path fs =
     (case (json_get schema ''items'', as_array v) of
        (Some items, Some values) \<Rightarrow>
          fold (\<lambda>(index, child). next items child (path @ ''['' @ show_nat index @ '']''))
            (List.enumerate 0 values) fs
      | _ \<Rightarrow> fs)"

definition typed_failures :: "level_validator \<Rightarrow> level_validator" where
  "typed_failures next schema v path fs =
     (let types = declared_types schema in
      if types \<noteq> [] \<and> \<not> list_ex (type_matches v) types
      then fs @ [SchemaFailure path (TypeMismatch types)]
      else item_failures next schema v path
             (additional_failures schema v path
                (property_failures next schema v path
                   (required_failures schema v path
                      (scalar_failures schema v path fs)))))"

primrec validate_levels :: "nat \<Rightarrow> crates \<Rightarrow> json \<Rightarrow> level_validator" where
  "validate_levels 0 C rt schema v path fs =
     (if 64 \<le> length fs then fs else fs @ [SchemaFailure path TooDeep])"
| "validate_levels (Suc n) C rt schema v path fs =
     (if 64 \<le> length fs then fs
      else (case get_str schema ''$ref'' of
              Some reference \<Rightarrow>
                (case resolve_contract_ref C rt schema of
                   Some resolved \<Rightarrow> validate_levels n C rt resolved v path fs
                 | None \<Rightarrow> fs @ [SchemaFailure path (UnresolvedRef reference)])
            | None \<Rightarrow>
                (let next = validate_levels n C rt
                 in typed_failures next schema v path
                      (branch_failures ''oneOf'' next schema v path
                         (branch_failures ''anyOf'' next schema v path
                            (all_of_failures next schema v path
                               (const_failures schema v path fs)))))))"

definition validate_schema_value ::
  "crates \<Rightarrow> json \<Rightarrow> json \<Rightarrow> json \<Rightarrow> string \<Rightarrow> failure list \<Rightarrow> nat \<Rightarrow> failure list" where
  "validate_schema_value C rt schema v path fs depth =
     validate_levels (64 - depth) C rt schema v path fs"

subsection \<open>The specification\<close>

definition scalars_conform :: "json \<Rightarrow> json \<Rightarrow> bool" where
  "scalars_conform schema v =
     ((\<forall>c. json_get schema ''const'' = Some c \<longrightarrow> c = v)
      \<and> (\<forall>vs. get_array schema ''enum'' = Some vs \<longrightarrow> v \<in> set vs)
      \<and> (declared_types schema = [] \<or> list_ex (type_matches v) (declared_types schema))
      \<and> (\<forall>text. as_str v = Some text \<longrightarrow>
           (\<forall>k. get_u64 schema ''minLength'' = Some k \<longrightarrow> k \<le> chars_count text)
           \<and> (\<forall>k. get_u64 schema ''maxLength'' = Some k \<longrightarrow> chars_count text \<le> k))
      \<and> (\<forall>x. as_f64 v = Some x \<longrightarrow>
           (\<forall>k. get_f64 schema ''minimum'' = Some k \<longrightarrow> k \<le> x)
           \<and> (\<forall>k. get_f64 schema ''maximum'' = Some k \<longrightarrow> x \<le> k)))"

definition object_conforms :: "json \<Rightarrow> json \<Rightarrow> bool" where
  "object_conforms schema v =
     ((\<forall>object required name. as_object v = Some object \<and> get_array schema ''required'' = Some required
         \<and> JString name \<in> set required \<longrightarrow> map_of object name \<noteq> None)
      \<and> (json_get schema ''additionalProperties'' = Some (JBool False) \<longrightarrow>
           (\<forall>object. as_object v = Some object \<longrightarrow> (\<forall>name \<in> fst ` set object.
              \<exists>properties. get_object schema ''properties'' = Some properties \<and> map_of properties name \<noteq> None))))"

primrec conforms :: "nat \<Rightarrow> crates \<Rightarrow> json \<Rightarrow> json \<Rightarrow> json \<Rightarrow> bool" where
  "conforms 0 C rt schema v = False"
| "conforms (Suc n) C rt schema v =
     (if get_str schema ''$ref'' \<noteq> None
      then (\<exists>resolved. resolve_contract_ref C rt schema = Some resolved \<and> conforms n C rt resolved v)
      else scalars_conform schema v \<and> object_conforms schema v
           \<and> (\<forall>branches. get_array schema ''allOf'' = Some branches \<longrightarrow>
                (\<forall>b \<in> set branches. conforms n C rt b v))
           \<and> (\<forall>branches. get_array schema ''anyOf'' = Some branches \<longrightarrow>
                (\<exists>b \<in> set branches. conforms n C rt b v))
           \<and> (\<forall>branches. get_array schema ''oneOf'' = Some branches \<longrightarrow>
                length (filter (\<lambda>b. conforms n C rt b v) branches) = 1)
           \<and> (\<forall>properties object name child_schema child.
                get_object schema ''properties'' = Some properties \<and> as_object v = Some object
                \<and> (name, child_schema) \<in> set properties \<and> map_of object name = Some child \<longrightarrow>
                conforms n C rt child_schema child)
           \<and> (\<forall>items values. json_get schema ''items'' = Some items \<and> as_array v = Some values \<longrightarrow>
                (\<forall>child \<in> set values. conforms n C rt items child)))"

end
