(* ===== verification/Schema_Props.thy ===== *)
theory Schema_Props
  imports Schema
begin

text \<open>
  Validation leaves no failure exactly when the value conforms.  The contract between one level of the
  recursion and the next is the locale \<open>level_contract\<close>: the validator of the next level decides a
  predicate.  Each part of a level is characterized once inside it; the induction over the levels and the
  interpretation on the model follow.
\<close>

lemma push_if_empty [simp]: "push_if b x fs = [] \<longleftrightarrow> fs = [] \<and> \<not> b"
  by (simp add: push_if_def)

lemma exceeds_iff: "exceeds p x \<longleftrightarrow> (\<exists>y. x = Some y \<and> p y)"
  by (cases x) (simp_all add: exceeds_def)

lemma fold_empty:
  assumes "\<And>x fs. x \<in> set xs \<Longrightarrow> g x fs = [] \<longleftrightarrow> fs = [] \<and> P x"
  shows "fold g xs fs = [] \<longleftrightarrow> fs = [] \<and> (\<forall>x \<in> set xs. P x)"
  using assms by (induction xs arbitrary: fs) auto

lemma map_filter_set: "set (List.map_filter f xs) = {y. \<exists>x \<in> set xs. f x = Some y}"
  by (force simp: List.map_filter_def image_iff)

lemma as_str_iff: "as_str v = Some s \<longleftrightarrow> v = JString s"
  by (cases v) auto

lemma scalar_failures_empty:
  "scalar_failures schema v path fs = [] \<longleftrightarrow>
     fs = [] \<and> (\<forall>text. as_str v = Some text \<longrightarrow>
           (\<forall>k. get_u64 schema ''minLength'' = Some k \<longrightarrow> k \<le> chars_count text)
           \<and> (\<forall>k. get_u64 schema ''maxLength'' = Some k \<longrightarrow> chars_count text \<le> k))
      \<and> (\<forall>x. as_f64 v = Some x \<longrightarrow>
           (\<forall>k. get_f64 schema ''minimum'' = Some k \<longrightarrow> k \<le> x)
           \<and> (\<forall>k. get_f64 schema ''maximum'' = Some k \<longrightarrow> x \<le> k))"
  by (auto simp: scalar_failures_def Let_def exceeds_iff not_less split: option.split)

lemma required_failures_empty:
  "required_failures schema v path fs = [] \<longleftrightarrow>
     fs = [] \<and> (\<forall>object required name. as_object v = Some object \<and> get_array schema ''required'' = Some required
        \<and> JString name \<in> set required \<longrightarrow> map_of object name \<noteq> None)"
proof -
  have "fold (\<lambda>name. push_if (map_of object name = None)
          (SchemaFailure (path @ ''.'' @ name) (MissingProperty name))) (List.map_filter as_str required) fs = []
      \<longleftrightarrow> fs = [] \<and> (\<forall>name. JString name \<in> set required \<longrightarrow> map_of object name \<noteq> None)" for object required
    by (subst fold_empty [where P = "\<lambda>name. map_of object name \<noteq> None"])
       (auto simp: map_filter_set as_str_iff)
  then show ?thesis by (auto simp: required_failures_def split: option.split)
qed

lemma additional_failures_empty:
  "additional_failures schema v path fs = [] \<longleftrightarrow>
     fs = [] \<and> (json_get schema ''additionalProperties'' = Some (JBool False) \<longrightarrow>
       (\<forall>object. as_object v = Some object \<longrightarrow> (\<forall>name \<in> fst ` set object.
          \<exists>properties. get_object schema ''properties'' = Some properties \<and> map_of properties name \<noteq> None)))"
proof -
  let ?ok = "\<lambda>name. \<exists>properties. get_object schema ''properties'' = Some properties \<and> map_of properties name \<noteq> None"
  have "fold (\<lambda>name. push_if (\<not> exceeds (\<lambda>properties. map_of properties name \<noteq> None)
              (get_object schema ''properties''))
            (SchemaFailure (path @ ''.'' @ name) (DeniedProperty name))) (map fst object) fs = []
      \<longleftrightarrow> fs = [] \<and> (\<forall>name \<in> fst ` set object. ?ok name)" for object
    by (subst fold_empty [where P = ?ok]) (auto simp: exceeds_iff)
  then show ?thesis
    by (cases "as_object v"; cases "json_get schema ''additionalProperties'' = Some (JBool False)")
       (simp_all add: additional_failures_def)
qed

lemma const_failures_empty:
  "const_failures schema v path fs = [] \<longleftrightarrow>
     fs = [] \<and> (\<forall>c. json_get schema ''const'' = Some c \<longrightarrow> c = v)
     \<and> (\<forall>vs. get_array schema ''enum'' = Some vs \<longrightarrow> v \<in> set vs)"
  by (auto simp: const_failures_def exceeds_iff)

locale level_contract =
  fixes next_level :: level_validator
    and ok :: "json \<Rightarrow> json \<Rightarrow> bool"
  assumes next_empty: "next_level schema v path fs = [] \<longleftrightarrow> fs = [] \<and> ok schema v"
begin

lemma all_of_empty:
  "all_of_failures next_level schema v path fs = [] \<longleftrightarrow>
     fs = [] \<and> (\<forall>branches. get_array schema ''allOf'' = Some branches \<longrightarrow> (\<forall>b \<in> set branches. ok b v))"
  by (cases "get_array schema ''allOf''")
     (auto simp: all_of_failures_def next_empty fold_empty [where P = "\<lambda>b. ok b v"])

lemma passing_eq: "passing next_level branches v path = length (filter (\<lambda>b. ok b v) branches)"
  by (simp add: passing_def next_empty)

lemma any_of_empty:
  "branch_failures ''anyOf'' next_level schema v path fs = [] \<longleftrightarrow>
     fs = [] \<and> (\<forall>branches. get_array schema ''anyOf'' = Some branches \<longrightarrow> (\<exists>b \<in> set branches. ok b v))"
  by (cases "get_array schema ''anyOf''")
     (auto simp: branch_failures_def passing_eq Let_def filter_empty_conv)

lemma one_of_empty:
  "branch_failures ''oneOf'' next_level schema v path fs = [] \<longleftrightarrow>
     fs = [] \<and> (\<forall>branches. get_array schema ''oneOf'' = Some branches \<longrightarrow>
       length (filter (\<lambda>b. ok b v) branches) = 1)"
  by (cases "get_array schema ''oneOf''") (auto simp: branch_failures_def passing_eq Let_def)

lemma property_failures_empty:
  "property_failures next_level schema v path fs = [] \<longleftrightarrow>
     fs = [] \<and> (\<forall>properties object name child_schema child.
        get_object schema ''properties'' = Some properties \<and> as_object v = Some object
        \<and> (name, child_schema) \<in> set properties \<and> map_of object name = Some child \<longrightarrow> ok child_schema child)"
proof -
  let ?P = "\<lambda>object (name, child_schema). \<forall>child. map_of object name = Some child \<longrightarrow> ok child_schema child"
  have "fold (\<lambda>(name, child_schema) fs. case map_of object name of None \<Rightarrow> fs
            | Some child \<Rightarrow> next_level child_schema child (path @ ''.'' @ name) fs) properties fs = []
      \<longleftrightarrow> fs = [] \<and> (\<forall>x \<in> set properties. ?P object x)" for object properties
    by (rule fold_empty) (auto simp: next_empty split: option.splits)
  then show ?thesis
    by (cases "get_object schema ''properties''"; cases "as_object v")
       (simp_all add: property_failures_def, blast)
qed

lemma item_failures_empty:
  "item_failures next_level schema v path fs = [] \<longleftrightarrow>
     fs = [] \<and> (\<forall>items vals. json_get schema ''items'' = Some items \<and> as_array v = Some vals \<longrightarrow>
        (\<forall>child \<in> set vals. ok items child))"
proof -
  have "fold (\<lambda>(index, child). next_level items child (path @ ''['' @ show_nat index @ '']''))
          (List.enumerate 0 vals) fs = []
      \<longleftrightarrow> fs = [] \<and> (\<forall>x \<in> set (List.enumerate 0 vals). ok items (snd x))" for items vals
    by (rule fold_empty) (auto simp: next_empty)
  moreover have "(\<forall>x \<in> set (List.enumerate 0 vals). ok items (snd x)) \<longleftrightarrow> (\<forall>child \<in> set vals. ok items child)"
    for items vals
  proof -
    have "set vals = snd ` set (List.enumerate 0 vals)" by (simp flip: set_map)
    then show ?thesis by (simp only: ball_simps(9))
  qed
  ultimately show ?thesis
    by (cases "json_get schema ''items''"; cases "as_array v") (simp_all add: item_failures_def)
qed

lemma typed_failures_empty:
  "typed_failures next_level schema v path fs = [] \<longleftrightarrow>
     fs = [] \<and> (declared_types schema = [] \<or> list_ex (type_matches v) (declared_types schema))
     \<and> scalar_failures schema v path [] = [] \<and> required_failures schema v path [] = []
     \<and> property_failures next_level schema v path [] = [] \<and> additional_failures schema v path [] = []
     \<and> item_failures next_level schema v path [] = []"
  by (auto simp: typed_failures_def Let_def item_failures_empty additional_failures_empty
      property_failures_empty required_failures_empty scalar_failures_empty)

end

lemma validate_levels_empty:
  "validate_levels n C rt schema v path fs = [] \<longleftrightarrow> fs = [] \<and> conforms n C rt schema v"
proof (induction n arbitrary: schema v path fs)
  case 0
  then show ?case by auto
next
  case (Suc n)
  have lc: "level_contract (validate_levels n C rt) (conforms n C rt)" by unfold_locales (rule Suc.IH)
  note parts = level_contract.typed_failures_empty [OF lc] level_contract.one_of_empty [OF lc]
    level_contract.any_of_empty [OF lc] level_contract.all_of_empty [OF lc]
    level_contract.property_failures_empty [OF lc] level_contract.item_failures_empty [OF lc]
    const_failures_empty scalar_failures_empty required_failures_empty additional_failures_empty
  show ?case
  proof (cases "get_str schema ''$ref''")
    case (Some reference)
    then show ?thesis using Suc.IH by (auto split: option.split)
  next
    case None
    have "validate_levels (Suc n) C rt schema v path fs = [] \<longleftrightarrow>
        fs = [] \<and> typed_failures (validate_levels n C rt) schema v path
          (branch_failures ''oneOf'' (validate_levels n C rt) schema v path
            (branch_failures ''anyOf'' (validate_levels n C rt) schema v path
              (all_of_failures (validate_levels n C rt) schema v path (const_failures schema v path fs)))) = []"
      using None by (auto simp: Let_def parts)
    also have "\<dots> \<longleftrightarrow> fs = [] \<and> conforms (Suc n) C rt schema v"
      unfolding parts conforms.simps scalars_conform_def object_conforms_def None simp_thms if_False
      by (rule iffI; elim conjE; intro conjI; assumption)
    finally show ?thesis .
  qed
qed

interpretation schema_level: level_contract "validate_levels n C rt" "conforms n C rt" for n C rt
  by unfold_locales (rule validate_levels_empty)

subsection \<open>Claims\<close>

text \<open>
  C16.  Schema validation decides conformance: run on an empty list of failures, the validator reports
  nothing exactly when the value conforms to the schema within the 64 levels it may descend.  Neither the
  cap on the number of failures nor the early return on a type mismatch hides a failure.
\<close>

theorem schema_validation_decides_conformance:
  "validate_schema_value C rt schema v path [] depth = [] \<longleftrightarrow> conforms (64 - depth) C rt schema v"
  by (simp add: validate_schema_value_def validate_levels_empty)

text \<open>
  A reference cycle is rejected, not followed forever: if resolving the reference of a schema leads
  back to the schema itself, validation ends with a failure for every value.
\<close>

theorem reference_cycle_rejected:
  assumes "get_str schema ''$ref'' = Some reference" and "resolve_contract_ref C rt schema = Some schema"
  shows "validate_schema_value C rt schema v path [] depth \<noteq> []"
proof -
  have "\<not> conforms n C rt schema v" for n
    by (induction n) (simp_all add: assms)
  then show ?thesis by (simp add: validate_schema_value_def validate_levels_empty)
qed

theorem reference_cycle_rejected_witness:
  "validate_schema_value sample_crates (JObject [(''$ref'', JString ''#'')]) (JObject [(''$ref'', JString ''#'')])
     JNull ''$'' [] 0 \<noteq> []"
  by (rule reference_cycle_rejected [of _ "''#''"])
     (simp_all add: get_str_def resolve_contract_ref_def sample_crates_def strip_prefix_def starts_with_def)

end
