(* ===== verification/Evidence.thy ===== *)
theory Evidence
  imports Redaction
begin

text \<open>
  The evidence store (\<open>kahea-evidence\<close>): compressed blobs named by their digest, an index from handles to
  blobs, bounded explanation of stored evidence, and export of everything an observation refers to.

  The file system is a map from relative paths to contents, the SQLite table a map from handles to rows.
  Every fallible step of the operating system or the database is an input of the operation: \<open>put_faults\<close>
  says which steps succeed, so a failure leaves behind exactly what was written before it.
\<close>

datatype EvidenceError =
    IoError | Database | EvidenceSerialization | NotFound string | DigestMismatch
  | InvalidSelector | SelectionNotFound | SelectionTooLarge

record EvidenceRow =
  row_kind :: string
  row_media_type :: string
  row_bytes :: nat
  row_blake3 :: string
  row_redacted :: bool
  row_blob_path :: string

record EvidenceStore =
  es_files :: "string \<rightharpoonup> bytes"
  es_rows :: "string \<rightharpoonup> EvidenceRow"

record EvidenceRecord =
  er_envelope :: EvidenceEnvelope
  er_data :: bytes

definition empty_store :: EvidenceStore where
  "empty_store = \<lparr>es_files = Map.empty, es_rows = Map.empty\<rparr>"

subsection \<open>Writing\<close>

function trim_start_matches :: "string \<Rightarrow> string \<Rightarrow> string" where
  "trim_start_matches p s =
     (if p \<noteq> [] \<and> starts_with s p then trim_start_matches p (drop (length p) s) else s)"
  by pat_completeness auto
termination
proof (relation "measure (\<lambda>(p, s). length s)", goal_cases)
  case (2 p s)
  then show ?case by (cases p; cases s) (auto simp: starts_with_def)
qed simp

declare trim_start_matches.simps [simp del]

definition blob_directory :: "string \<Rightarrow> string" where
  "blob_directory hex = ''blobs/'' @ take 2 hex @ ''/''"

definition blob_path :: "string \<Rightarrow> string" where
  "blob_path hex = blob_directory hex @ hex @ ''.zst''"

definition temporary_blob_path :: "string \<Rightarrow> string" where
  "temporary_blob_path hex = blob_directory hex @ ''.'' @ hex @ ''.tmp''"

record put_faults =
  pf_mkdir :: bool
  pf_encode :: bool
  pf_write :: bool
  pf_rename :: bool
  pf_insert :: bool

definition no_faults :: put_faults where
  "no_faults = \<lparr>pf_mkdir = True, pf_encode = True, pf_write = True, pf_rename = True, pf_insert = True\<rparr>"

text \<open>
  Write the compressed blob to a temporary file and rename it into place.  A rename that fails because
  another writer has put the blob in place meanwhile removes the temporary file and counts as done: the
  file is named by its digest, so that is the same outcome, and \<open>pf_rename\<close> is true of it.
\<close>

definition write_blob ::
  "crates \<Rightarrow> put_faults \<Rightarrow> string \<Rightarrow> bytes \<Rightarrow> EvidenceStore \<Rightarrow> (EvidenceError + unit) \<times> EvidenceStore" where
  "write_blob C pf hex data s =
     (if es_files s (blob_path hex) \<noteq> None then (Inr (), s)
      else if \<not> pf_mkdir pf \<or> \<not> pf_encode pf \<or> \<not> pf_write pf then (Inl IoError, s)
      else (let compressed = zstd_encode C data;
                s1 = s\<lparr>es_files := (es_files s)(temporary_blob_path hex \<mapsto> compressed)\<rparr>
            in if pf_rename pf
               then (Inr (), s1\<lparr>es_files := ((es_files s1)(blob_path hex \<mapsto> compressed))
                                              (temporary_blob_path hex := None)\<rparr>)
               else (Inl IoError, s1)))"

definition put_envelope :: "crates \<Rightarrow> string \<Rightarrow> string \<Rightarrow> bytes \<Rightarrow> bool \<Rightarrow> EvidenceEnvelope" where
  "put_envelope C kind media_type data redacted =
     \<lparr>ee_protocol = PROTOCOL, ee_kind = ''evidence'', ee_version = VERSION,
      ee_config_fingerprint = default_config_fingerprint C, ee_handle = short_handle C kind [data],
      ee_media_type = media_type, ee_bytes = len_u64 data, ee_blake3 = digest C data,
      ee_redacted = redacted, ee_exit = 0\<rparr>"

definition put_blob ::
  "crates \<Rightarrow> put_faults \<Rightarrow> string \<Rightarrow> string \<Rightarrow> bytes \<Rightarrow> bool \<Rightarrow> EvidenceStore
     \<Rightarrow> (EvidenceError + EvidenceEnvelope) \<times> EvidenceStore" where
  "put_blob C pf kind media_type data redacted s =
     (let blake3 = digest C data;
          handle = short_handle C kind [data];
          hex = trim_start_matches ''b3:'' blake3
      in case write_blob C pf hex data s of
           (Inl e, s1) \<Rightarrow> (Inl e, s1)
         | (Inr _, s1) \<Rightarrow>
             if \<not> pf_insert pf then (Inl Database, s1)
             else (let row = \<lparr>row_kind = kind, row_media_type = media_type, row_bytes = length data,
                              row_blake3 = blake3, row_redacted = redacted, row_blob_path = blob_path hex\<rparr>;
                       rows = (if es_rows s1 handle = None then (es_rows s1)(handle \<mapsto> row) else es_rows s1)
                   in (Inr (put_envelope C kind media_type data redacted), s1\<lparr>es_rows := rows\<rparr>)))"

definition put_json ::
  "crates \<Rightarrow> put_faults \<Rightarrow> string \<Rightarrow> bytes option \<Rightarrow> bool \<Rightarrow> EvidenceStore
     \<Rightarrow> (EvidenceError + EvidenceEnvelope) \<times> EvidenceStore" where
  "put_json C pf kind serialized redacted s =
     (case serialized of
        None \<Rightarrow> (Inl EvidenceSerialization, s)
      | Some data \<Rightarrow> put_blob C pf kind ''application/json'' data redacted s)"

definition replace_char :: "char \<Rightarrow> char \<Rightarrow> string \<Rightarrow> string" where
  "replace_char c d s = map (\<lambda>x. if x = c then d else x) s"

text \<open>An observation is stored as evidence and also as a file of its own, written beside its final name
  first.  The two flags say whether the write and the rename succeed.\<close>

definition persist_json_observation ::
  "crates \<Rightarrow> put_faults \<Rightarrow> bool \<Rightarrow> bool \<Rightarrow> string \<Rightarrow> bytes option \<Rightarrow> EvidenceStore
     \<Rightarrow> (EvidenceError + EvidenceEnvelope) \<times> EvidenceStore" where
  "persist_json_observation C pf write_ok rename_ok kind serialized s =
     (case put_json C pf kind serialized True s of
        (Inl e, s1) \<Rightarrow> (Inl e, s1)
      | (Inr envelope, s1) \<Rightarrow>
          (case serialized of
             None \<Rightarrow> (Inl EvidenceSerialization, s1)
           | Some data \<Rightarrow>
               (let path = ''observations/'' @ replace_char (CHR '':'') (CHR ''-'') (ee_handle envelope) @ ''.json'';
                    temporary = path @ ''.tmp''
                in if \<not> write_ok then (Inl IoError, s1)
                   else (let s2 = s1\<lparr>es_files := (es_files s1)(temporary \<mapsto> data)\<rparr>
                         in if \<not> rename_ok then (Inl IoError, s2)
                            else (Inr envelope,
                                  s2\<lparr>es_files := ((es_files s2)(path \<mapsto> data))(temporary := None)\<rparr>)))))"

definition persist_observation where
  "persist_observation C pf write_ok rename_ok obs =
     persist_json_observation C pf write_ok rename_ok ''observation'' (ser_observation C obs)"

definition persist_websocket_observation where
  "persist_websocket_observation C pf write_ok rename_ok obs =
     persist_json_observation C pf write_ok rename_ok ''websocket-observation'' (ser_websocket_observation C obs)"

subsection \<open>Reading\<close>

definition evidence_get :: "crates \<Rightarrow> EvidenceStore \<Rightarrow> string \<Rightarrow> EvidenceError + EvidenceRecord" where
  "evidence_get C s handle =
     (case es_rows s handle of
        None \<Rightarrow> Inl (NotFound handle)
      | Some row \<Rightarrow>
          (case es_files s (row_blob_path row) of
             None \<Rightarrow> Inl IoError
           | Some compressed \<Rightarrow>
               (case zstd_decode C compressed of
                  None \<Rightarrow> Inl IoError
                | Some data \<Rightarrow>
                    if digest C data \<noteq> row_blake3 row \<or> length data \<noteq> row_bytes row then Inl DigestMismatch
                    else Inr \<lparr>er_envelope =
                               \<lparr>ee_protocol = PROTOCOL, ee_kind = ''evidence'', ee_version = VERSION,
                                ee_config_fingerprint = default_config_fingerprint C, ee_handle = handle,
                                ee_media_type = row_media_type row, ee_bytes = of_nat (row_bytes row),
                                ee_blake3 = row_blake3 row, ee_redacted = row_redacted row, ee_exit = 0\<rparr>,
                              er_data = data\<rparr>)))"

subsection \<open>Selectors\<close>

definition json_nat :: "nat \<Rightarrow> json" where
  "json_nat n = JNumber (PosInt (of_nat n))"

definition bounded_selection :: "crates \<Rightarrow> json \<Rightarrow> nat \<Rightarrow> EvidenceError + json option" where
  "bounded_selection C v limit =
     (case json_to_vec C v of
        None \<Rightarrow> Inl EvidenceSerialization
      | Some bs \<Rightarrow> if limit < length bs then Inl SelectionTooLarge else Inr (Some v))"

definition parse_usize :: "string \<Rightarrow> nat option" where
  "parse_usize s = parse_uint 18446744073709551615 s"

definition select_range :: "crates \<Rightarrow> bytes \<Rightarrow> nat \<Rightarrow> nat \<Rightarrow> nat \<Rightarrow> EvidenceError + json option" where
  "select_range C data start stop limit =
     (if stop < start \<or> length data \<le> start then Inl SelectionNotFound
      else (let last = min stop (length data - 1)
            in if limit < last - start + 1 then Inl SelectionTooLarge
               else Inr (Some (JObject
                      [(''data'', JString (b64_encode C (take (last - start + 1) (drop start data)))),
                       (''encoding'', JString ''base64''), (''end'', json_nat last),
                       (''start'', json_nat start)]))))"

definition select_bytes :: "crates \<Rightarrow> bytes \<Rightarrow> string \<Rightarrow> nat \<Rightarrow> EvidenceError + json option" where
  "select_bytes C data selector limit =
     (let range = trim_start_matches ''bytes:'' selector in
      case split_once ''-'' range of
        None \<Rightarrow> Inl InvalidSelector
      | Some (a, b) \<Rightarrow>
          (case (parse_usize a, parse_usize b) of
             (Some start, Some stop) \<Rightarrow> select_range C data start stop limit
           | _ \<Rightarrow> Inl InvalidSelector))"

definition select_header :: "crates \<Rightarrow> bytes \<Rightarrow> string \<Rightarrow> nat \<Rightarrow> EvidenceError + json option" where
  "select_header C data selector limit =
     (case json_from_slice C data of
        None \<Rightarrow> Inl EvidenceSerialization
      | Some document \<Rightarrow>
          (let spec = trim_start_matches ''header:'' selector;
               (side, name) = (case split_once '':'' spec of Some p \<Rightarrow> p | None \<Rightarrow> (''response'', spec))
           in if name = [] \<or> side \<notin> {''request'', ''response''} then Inl InvalidSelector
              else (case Option.bind (json_get document side) (\<lambda>v. get_object v ''headers'') of
                      None \<Rightarrow> Inl SelectionNotFound
                    | Some headers \<Rightarrow>
                        (case List.find (\<lambda>(candidate, _). eq_ignore_ascii_case candidate name) headers of
                           None \<Rightarrow> Inl SelectionNotFound
                         | Some (_, v) \<Rightarrow> bounded_selection C v limit))))"

definition select_json :: "crates \<Rightarrow> bytes \<Rightarrow> string \<Rightarrow> nat \<Rightarrow> EvidenceError + json option" where
  "select_json C data selector limit =
     (case json_from_slice C data of
        None \<Rightarrow> Inl EvidenceSerialization
      | Some document \<Rightarrow>
          if starts_with selector ''/'' \<or> selector = []
          then and_then (ok_or (json_pointer C document selector) SelectionNotFound)
                 (\<lambda>v. bounded_selection C v limit)
          else if \<not> starts_with selector ''$'' then Inl InvalidSelector
          else (case jsonpath_query C selector document of
                  None \<Rightarrow> Inl InvalidSelector
                | Some nodes \<Rightarrow>
                    if nodes = [] then Inl SelectionNotFound
                    else if 100 < length nodes then Inl SelectionTooLarge
                    else bounded_selection C (if length nodes = 1 then hd nodes else JArray nodes) limit))"

definition select_xml :: "crates \<Rightarrow> bytes \<Rightarrow> string \<Rightarrow> EvidenceError + json option" where
  "select_xml C data selector =
     (if \<not> utf8_valid data \<or> \<not> xml_parses C data then Inl InvalidSelector
      else (case xpath_eval C data selector of
              None \<Rightarrow> Inl InvalidSelector
            | Some (XBool b) \<Rightarrow> Inr (Some (JBool b))
            | Some (XNumber n) \<Rightarrow> Inr (Some n)
            | Some (XString t) \<Rightarrow> Inr (Some (JString t))
            | Some (XNodes nodes) \<Rightarrow>
                if 100 < length nodes then Inl SelectionTooLarge
                else if nodes = [] then Inl SelectionNotFound
                else if length nodes = 1 then Inr (Some (JString (hd nodes)))
                else Inr (Some (JArray (map JString nodes)))))"

definition inline_value :: "crates \<Rightarrow> EvidenceRecord \<Rightarrow> EvidenceError + json option" where
  "inline_value C r =
     (let media = ee_media_type (er_envelope r) in
      if contains_str media ''json''
      then and_then (ok_or (json_from_slice C (er_data r)) EvidenceSerialization) (\<lambda>v. Inr (Some v))
      else if starts_with media ''text/'' \<or> contains_str media ''xml''
      then Inr (Some (JString (from_bytes (from_utf8_lossy (er_data r)))))
      else Inr (Some (JObject [(''data'', JString (b64_encode C (er_data r))), (''encoding'', JString ''base64'')])))"

definition inline_limit :: nat where "inline_limit = 4096"

definition selection_limit :: nat where "selection_limit = 65536"

definition explain_value :: "crates \<Rightarrow> EvidenceRecord \<Rightarrow> string option \<Rightarrow> EvidenceError + json option" where
  "explain_value C r selector =
     (case selector of
        Some sel \<Rightarrow>
          if 2048 < length sel then Inl SelectionTooLarge
          else if starts_with sel ''bytes:'' then select_bytes C (er_data r) sel selection_limit
          else if starts_with sel ''header:'' then select_header C (er_data r) sel selection_limit
          else if contains_str (ee_media_type (er_envelope r)) ''json''
          then select_json C (er_data r) sel selection_limit
          else if contains_str (ee_media_type (er_envelope r)) ''xml'' then select_xml C (er_data r) sel
          else Inl InvalidSelector
      | None \<Rightarrow> if length (er_data r) \<le> inline_limit then inline_value C r else Inr None)"

definition explain :: "crates \<Rightarrow> EvidenceStore \<Rightarrow> string \<Rightarrow> string option \<Rightarrow> EvidenceError + ExplanationEnvelope" where
  "explain C s handle selector =
     and_then (evidence_get C s handle) (\<lambda>r.
     and_then (explain_value C r selector) (\<lambda>v.
       Inr \<lparr>xe_protocol = PROTOCOL, xe_kind = ''explanation'', xe_version = VERSION,
            xe_config_fingerprint = default_config_fingerprint C, xe_handle = handle,
            xe_media_type = ee_media_type (er_envelope r), xe_selector = selector, xe_value = v,
            xe_bytes = len_u64 (er_data r),
            xe_truncated = (selector = None \<and> inline_limit < length (er_data r)), xe_exit = 0\<rparr>))"

subsection \<open>Export\<close>

definition handle_kinds :: "string list" where
  "handle_kinds =
     [''body'', ''trace'', ''schema-error'', ''request-derivation'', ''observation'', ''certificate'',
      ''transcript'', ''websocket-trace'', ''websocket-handshake'', ''websocket-text'', ''websocket-json'',
      ''websocket-binary'', ''websocket-control'']"

definition is_handle :: "string \<Rightarrow> bool" where
  "is_handle v =
     (case split_once '':'' v of None \<Rightarrow> False | Some (kind, i) \<Rightarrow> kind \<in> set handle_kinds \<and> 8 \<le> length i)"

text \<open>The handles of a document, in the order in which they are pushed.\<close>

fun collect_handles :: "json \<Rightarrow> string list" where
  "collect_handles (JString v) = (if is_handle v then [v] else [])"
| "collect_handles (JArray vs) = concat (map collect_handles vs)"
| "collect_handles (JObject m) = concat (map (\<lambda>(k, v). collect_handles v) m)"
| "collect_handles _ = []"

definition record_handles :: "crates \<Rightarrow> EvidenceRecord \<Rightarrow> string list" where
  "record_handles C r =
     (if contains_str (ee_media_type (er_envelope r)) ''json''
      then (case json_from_slice C (er_data r) of Some v \<Rightarrow> collect_handles v | None \<Rightarrow> [])
      else [])"

definition bundle_entry :: "crates \<Rightarrow> EvidenceRecord \<Rightarrow> json" where
  "bundle_entry C r =
     JObject [(''blake3'', JString (ee_blake3 (er_envelope r))),
              (''bytes'', JNumber (PosInt (ee_bytes (er_envelope r)))),
              (''data'', JString (b64_encode C (er_data r))), (''encoding'', JString ''base64''),
              (''media_type'', JString (ee_media_type (er_envelope r))),
              (''redacted'', JBool (ee_redacted (er_envelope r)))]"

text \<open>The stack \<open>pending\<close> has its top at the head of the list.\<close>

function export_loop ::
  "crates \<Rightarrow> EvidenceStore \<Rightarrow> string list \<Rightarrow> string list \<Rightarrow> (string \<times> json) list
     \<Rightarrow> EvidenceError + (string \<times> json) list" where
  "export_loop C s [] visited records = Inr records"
| "export_loop C s (handle # pending) visited records =
     (if handle \<in> set visited then export_loop C s pending visited records
      else if 1000 < length (handle # visited) then Inl SelectionTooLarge
      else (case evidence_get C s handle of
              Inl e \<Rightarrow> Inl e
            | Inr r \<Rightarrow> export_loop C s (rev (record_handles C r) @ pending) (handle # visited)
                         (map_insert handle (bundle_entry C r) records)))"
  by pat_completeness auto
termination
  by (relation "measures [\<lambda>(C, s, pending, visited, records). 1000 - length visited,
        \<lambda>(C, s, pending, visited, records). length pending]") auto

definition export_bundle :: "crates \<Rightarrow> EvidenceStore \<Rightarrow> string \<Rightarrow> EvidenceError + json" where
  "export_bundle C s root_handle =
     and_then (export_loop C s [root_handle] [] []) (\<lambda>records.
       Inr (JObject [(''kind'', JString ''evidence-bundle''), (''protocol'', JString PROTOCOL),
                     (''records'', JObject records), (''root'', JString root_handle),
                     (''version'', JString VERSION)]))"

end
