(* ===== verification/Evidence_Props.thy ===== *)
theory Evidence_Props
  imports Evidence
begin

text \<open>
  Properties of the evidence store: an invariant that every write keeps whatever step fails, the round trip
  of a stored blob, integrity of what is read, bounds on explanations, closure of exported bundles.
\<close>

subsection \<open>The store invariant\<close>

text \<open>The documented shape of a BLAKE3 digest in hexadecimal: 64 characters, none of them a colon.\<close>

definition hex_shape :: "crates \<Rightarrow> bool" where
  "hex_shape C = (\<forall>bs. length (blake3_hex C bs) = 64 \<and> CHR '':'' \<notin> set (blake3_hex C bs))"

text \<open>Compression is lossless.\<close>

definition zstd_lossless :: "crates \<Rightarrow> bool" where
  "zstd_lossless C = (\<forall>d. zstd_decode C (zstd_encode C d) = Some d)"

definition row_ok :: "crates \<Rightarrow> (string \<rightharpoonup> bytes) \<Rightarrow> EvidenceRow \<Rightarrow> bool" where
  "row_ok C files row =
     (\<exists>c d. files (row_blob_path row) = Some c \<and> zstd_decode C c = Some d
        \<and> row_blob_path row = blob_path (blake3_hex C d)
        \<and> row_blake3 row = digest C d \<and> row_bytes row = length d)"

definition store_ok :: "crates \<Rightarrow> EvidenceStore \<Rightarrow> bool" where
  "store_ok C s = (\<forall>row \<in> ran (es_rows s). row_ok C (es_files s) row)"

text \<open>No blob of other content is stored under the digest of the data.\<close>

definition no_stored_collision :: "crates \<Rightarrow> EvidenceStore \<Rightarrow> bytes \<Rightarrow> bool" where
  "no_stored_collision C s data =
     (\<forall>c. es_files s (blob_path (blake3_hex C data)) = Some c \<longrightarrow> zstd_decode C c = Some data)"

lemma trim_b3: "hex_shape C \<Longrightarrow> trim_start_matches ''b3:'' (digest C data) = blake3_hex C data"
proof -
  assume "hex_shape C"
  then have "\<not> starts_with (blake3_hex C data) ''b3:''"
    by (auto simp: hex_shape_def starts_with_iff dest!: spec [of _ data])
  then show ?thesis
    by (simp add: trim_start_matches.simps [of "''b3:''"] digest_def starts_with_def)
qed

lemma temporary_path_differs: "temporary_blob_path h \<noteq> blob_path h'"
proof
  assume "temporary_blob_path h = blob_path h'"
  then have "last (temporary_blob_path h) = last (blob_path h')" by simp
  then show False by (simp add: temporary_blob_path_def blob_path_def)
qed

lemma write_blob_files:
  assumes "write_blob C pf hex data s = (r, s')"
  shows "es_rows s' = es_rows s"
    and "es_files s (blob_path h) = Some c \<Longrightarrow> es_files s' (blob_path h) = Some c"
    and "r = Inr () \<Longrightarrow> es_files s (blob_path hex) = None \<Longrightarrow> es_files s' (blob_path hex) = Some (zstd_encode C data)"
  using assms temporary_path_differs [of hex h] temporary_path_differs [of hex hex]
  by (auto simp: write_blob_def Let_def split: if_splits)

lemma put_blob_cases:
  assumes "hex_shape C" and "put_blob C pf kind media data redacted s = (r, s')"
  obtains (refused) e s1 where "write_blob C pf (blake3_hex C data) data s = (e, s1)" "s' = s1" "\<exists>x. r = Inl x"
  | (stored) s1 where "write_blob C pf (blake3_hex C data) data s = (Inr (), s1)"
      "r = Inr (put_envelope C kind media data redacted)"
      "s' = s1\<lparr>es_rows := (if es_rows s1 (short_handle C kind [data]) = None
              then (es_rows s1)(short_handle C kind [data] \<mapsto>
                \<lparr>row_kind = kind, row_media_type = media, row_bytes = length data, row_blake3 = digest C data,
                 row_redacted = redacted, row_blob_path = blob_path (blake3_hex C data)\<rparr>)
              else es_rows s1)\<rparr>"
proof (cases "write_blob C pf (blake3_hex C data) data s")
  case (Pair e s1)
  show ?thesis
  proof (cases "e = Inr () \<and> pf_insert pf")
    case True
    then show ?thesis
      using assms(2) Pair trim_b3 [OF assms(1), of data]
      by (intro stored [of s1]) (auto simp: put_blob_def Let_def)
  next
    case False
    then show ?thesis
      using assms(2) Pair trim_b3 [OF assms(1), of data]
      by (intro refused [of e s1]) (auto simp: put_blob_def Let_def split: sum.splits if_splits)
  qed
qed

lemma stored_blob_decodes:
  assumes "write_blob C pf (blake3_hex C data) data s = (Inr (), s1)"
    and "zstd_lossless C" and "no_stored_collision C s data"
  shows "\<exists>c. es_files s1 (blob_path (blake3_hex C data)) = Some c \<and> zstd_decode C c = Some data"
proof (cases "es_files s (blob_path (blake3_hex C data))")
  case None
  with write_blob_files(3) [OF assms(1) refl None] assms(2) show ?thesis by (simp add: zstd_lossless_def)
next
  case (Some c)
  with write_blob_files(2) [OF assms(1) Some] assms(3) show ?thesis by (simp add: no_stored_collision_def)
qed

lemma row_ok_mono:
  assumes "row_ok C files row" and "\<And>h c. files (blob_path h) = Some c \<Longrightarrow> files' (blob_path h) = Some c"
  shows "row_ok C files' row"
proof -
  from assms(1) obtain c d where "files (row_blob_path row) = Some c" "zstd_decode C c = Some d"
    "row_blob_path row = blob_path (blake3_hex C d)" "row_blake3 row = digest C d" "row_bytes row = length d"
    by (auto simp: row_ok_def)
  with assms(2) [of "blake3_hex C d" c] show ?thesis by (auto simp: row_ok_def)
qed

lemma put_blob_store_ok:
  assumes "hex_shape C" "zstd_lossless C" "no_stored_collision C s data" "store_ok C s"
    and "put_blob C pf kind media data redacted s = (r, s')"
  shows "store_ok C s'"
  using assms(1,5)
proof (cases rule: put_blob_cases)
  case (refused e s1)
  with write_blob_files [OF refused(1)] assms(4) show ?thesis
    by (auto simp: store_ok_def intro: row_ok_mono)
next
  case (stored s1)
  note files = write_blob_files [OF stored(1)]
  have old: "row_ok C (es_files s1) row" if "row \<in> ran (es_rows s)" for row
    using that assms(4) files(2) by (auto simp: store_ok_def intro: row_ok_mono)
  show ?thesis
    unfolding store_ok_def
  proof
    fix row assume "row \<in> ran (es_rows s')"
    then consider "row \<in> ran (es_rows s)"
      | "row_blob_path row = blob_path (blake3_hex C data)" "row_blake3 row = digest C data"
        "row_bytes row = length data"
      using stored(3) files(1) by (auto simp: ran_def split: if_splits)
    then show "row_ok C (es_files s') row"
    proof cases
      case 1
      with old stored(3) show ?thesis by simp
    next
      case 2
      with stored_blob_decodes [OF stored(1) assms(2,3)] stored(3) show ?thesis by (auto simp: row_ok_def)
    qed
  qed
qed

lemma put_blob_get:
  assumes "hex_shape C" "zstd_lossless C" "no_stored_collision C s data"
    and "es_rows s (short_handle C kind [data]) = None"
    and "put_blob C pf kind media data redacted s = (Inr envelope, s')"
  shows "evidence_get C s' (ee_handle envelope) = Inr \<lparr>er_envelope = envelope, er_data = data\<rparr>"
  using assms(1,5)
proof (cases rule: put_blob_cases)
  case (refused e s1)
  then show ?thesis by simp
next
  case (stored s1)
  have "es_rows s1 (short_handle C kind [data]) = None"
    using write_blob_files(1) [OF stored(1)] assms(4) by simp
  with stored stored_blob_decodes [OF stored(1) assms(2,3)] show ?thesis
    by (auto simp: evidence_get_def put_envelope_def len_u64_def)
qed

lemma evidence_get_sound:
  "evidence_get C s handle = Inr r \<Longrightarrow>
     ee_blake3 (er_envelope r) = digest C (er_data r) \<and> ee_bytes (er_envelope r) = len_u64 (er_data r)
     \<and> ee_handle (er_envelope r) = handle"
  by (auto simp: evidence_get_def len_u64_def split: option.splits if_splits)

subsection \<open>Export\<close>

definition bundled :: "crates \<Rightarrow> EvidenceStore \<Rightarrow> string set \<Rightarrow> (string \<times> json) list \<Rightarrow> string \<Rightarrow> bool" where
  "bundled C s targets records h =
     (\<exists>r. evidence_get C s h = Inr r \<and> map_of records h = Some (bundle_entry C r)
        \<and> set (record_handles C r) \<subseteq> targets)"

lemma map_wf_length: "map_wf m \<Longrightarrow> length m = card (fst ` set m)"
  by (metis distinct_card length_map list.set_map map_wf_def)

lemma export_loop_closed:
  assumes "export_loop C s pending visited records = Inr out"
    and "map_wf records" and "fst ` set records = set visited" and "length records \<le> 1000"
    and "distinct visited"
    and "\<And>h. h \<in> set visited \<Longrightarrow> bundled C s (set visited \<union> set pending) records h"
  shows "map_wf out \<and> length out \<le> 1000 \<and> set pending \<union> set visited \<subseteq> fst ` set out
       \<and> (\<forall>h \<in> fst ` set out. bundled C s (fst ` set out) out h)"
  using assms
proof (induction C s pending visited records rule: export_loop.induct)
  case (1 C s visited records)
  then show ?case by simp
next
  case (2 C s handle pending visited records)
  show ?case
  proof (cases "handle \<in> set visited")
    case True
    have "bundled C s (set visited \<union> set pending) records h" if "h \<in> set visited" for h
      using "2.prems"(6) [OF that] True by (auto simp: bundled_def)
    with "2.IH"(1) [OF True] "2.prems" True show ?thesis by auto
  next
    case False
    then obtain r where g: "evidence_get C s handle = Inr r" and le: "\<not> 1000 < length (handle # visited)"
      and out: "export_loop C s (rev (record_handles C r) @ pending) (handle # visited)
          (map_insert handle (bundle_entry C r) records) = Inr out"
      using "2.prems"(1) by (auto split: sum.splits if_splits)
    let ?records = "map_insert handle (bundle_entry C r) records"
    have wf: "map_wf ?records" using "2.prems"(2) by (rule map_insert_wf)
    have keys: "fst ` set ?records = set (handle # visited)"
      using map_insert_keys [of handle "bundle_entry C r" records] "2.prems"(3) by simp
    have "length ?records \<le> 1000"
      using le map_wf_length [OF wf] keys False distinct_card [OF "2.prems"(5)] by simp
    moreover have "bundled C s (set (handle # visited) \<union> set (rev (record_handles C r) @ pending)) ?records h"
      if "h \<in> set (handle # visited)" for h
      using that "2.prems"(6) [of h] g False
      by (auto simp: bundled_def map_of_map_insert [OF "2.prems"(2)])
    ultimately show ?thesis
      using "2.IH"(2) [OF False le g out wf keys] "2.prems"(5) False by auto
  qed
qed

subsection \<open>Selections\<close>

lemma bounded_selection_bound:
  "bounded_selection C v limit = Inr (Some w) \<Longrightarrow> \<exists>bs. json_to_vec C w = Some bs \<and> length bs \<le> limit"
  by (auto simp: bounded_selection_def split: option.splits if_splits)

lemma select_json_bound:
  "select_json C data sel limit = Inr (Some w) \<Longrightarrow> \<exists>bs. json_to_vec C w = Some bs \<and> length bs \<le> limit"
  by (auto simp: select_json_def result_iffs dest: bounded_selection_bound split: option.splits if_splits)

lemma select_header_bound:
  "select_header C data sel limit = Inr (Some w) \<Longrightarrow> \<exists>bs. json_to_vec C w = Some bs \<and> length bs \<le> limit"
  by (auto simp: select_header_def Let_def dest: bounded_selection_bound
      split: option.splits if_splits prod.splits)

lemma select_bytes_bound:
  assumes "select_bytes C data sel limit = Inr (Some w)"
  shows "\<exists>start n. get_str w ''data'' = Some (b64_encode C (take n (drop start data)))
       \<and> 0 < n \<and> start + n \<le> length data \<and> n \<le> limit"
proof -
  obtain start stop where w: "select_range C data start stop limit = Inr (Some w)"
    using assms by (auto simp: select_bytes_def Let_def split: option.splits prod.splits)
  then have sel: "start < length data" "start \<le> stop" by (auto simp: select_range_def split: if_splits)
  let ?n = "min stop (length data - 1) - start + 1"
  have "start + ?n \<le> length data" using sel by auto
  with w show ?thesis
    by (intro exI [of _ start] exI [of _ ?n]) (auto simp: select_range_def get_str_def Let_def split: if_splits)
qed

subsection \<open>A store in use\<close>

definition sample_store :: EvidenceStore where
  "sample_store = empty_store"

definition hex_crates :: crates where
  "hex_crates = sample_crates\<lparr>blake3_hex := sample_hash\<rparr>"

lemma sample_hex_digit_colon: "n < 16 \<Longrightarrow> sample_hex_digit n \<noteq> CHR '':''"
proof
  assume n: "n < 16" and "sample_hex_digit n = CHR '':''"
  then have "of_char (sample_hex_digit n) = (58 :: nat)" by simp
  with n show False by (simp add: sample_hex_digit_def split: if_splits)
qed

lemma hex_crates_shape: "hex_shape hex_crates"
proof -
  have "unat (b :: u8) div 16 < 16" for b
    using unsigned_less [of b] by (simp add: div_less_iff_less_mult)
  then have "CHR '':'' \<notin> set (concat (map (\<lambda>b. [sample_hex_digit (unat b div 16), sample_hex_digit (unat b mod 16)]) bs)
      @ replicate 64 (CHR ''0''))" for bs :: bytes
    using sample_hex_digit_colon by (fastforce dest: sym)
  then show ?thesis
    by (auto simp: hex_shape_def hex_crates_def sample_hash_def dest: in_set_takeD)
qed

lemma hex_crates_lossless: "zstd_lossless hex_crates"
  by (simp add: zstd_lossless_def hex_crates_def sample_crates_def)

lemma sample_store_facts:
  "store_ok C sample_store" "no_stored_collision C sample_store data" "es_rows sample_store h = None"
  by (simp_all add: store_ok_def sample_store_def empty_store_def no_stored_collision_def)

subsection \<open>Claims\<close>



text \<open>
  Stored evidence comes back: after a successful \<open>put_blob\<close> under a new handle, \<open>get\<close> at the returned
  handle gives exactly the data and the envelope that was returned.
\<close>

theorem put_then_get:
  assumes "hex_shape C" "zstd_lossless C" "no_stored_collision C s data"
    and "es_rows s (short_handle C kind [data]) = None"
    and "put_blob C pf kind media data redacted s = (Inr envelope, s')"
  shows "evidence_get C s' (ee_handle envelope) = Inr \<lparr>er_envelope = envelope, er_data = data\<rparr>"
  by (rule put_blob_get [OF assms])

theorem put_then_get_witness:
  "\<exists>envelope s'. put_blob hex_crates no_faults ''body'' ''text/plain'' [1, 2, 3] True sample_store = (Inr envelope, s')
     \<and> evidence_get hex_crates s' (ee_handle envelope) = Inr \<lparr>er_envelope = envelope, er_data = [1, 2, 3]\<rparr>"
proof -
  obtain envelope s' where p:
    "put_blob hex_crates no_faults ''body'' ''text/plain'' [1, 2, 3] True sample_store = (Inr envelope, s')"
    by (simp add: put_blob_def write_blob_def no_faults_def sample_store_def empty_store_def Let_def)
  from put_then_get [OF hex_crates_shape hex_crates_lossless sample_store_facts(2,3) p] p show ?thesis by blast
qed

text \<open>
  C14.  What \<open>get\<close> returns is authentic: whatever happened to the files and the index, a record it returns
  carries the digest and the length of its own data under the requested handle; anything else is an error.
\<close>

theorem evidence_get_authentic:
  assumes "evidence_get C s handle = Inr r"
  shows "ee_blake3 (er_envelope r) = digest C (er_data r) \<and> ee_bytes (er_envelope r) = len_u64 (er_data r)
       \<and> ee_handle (er_envelope r) = handle"
  by (rule evidence_get_sound [OF assms])

theorem evidence_get_authentic_witness:
  "\<exists>r. evidence_get sample_crates
       \<lparr>es_files = [''f'' \<mapsto> [7]], es_rows = [''h'' \<mapsto> \<lparr>row_kind = ''body'', row_media_type = ''text/plain'',
          row_bytes = 1, row_blake3 = digest sample_crates [7], row_redacted = True, row_blob_path = ''f''\<rparr>]\<rparr> ''h''
       = Inr r \<and> ee_blake3 (er_envelope r) = digest sample_crates (er_data r)"
proof -
  let ?s = "\<lparr>es_files = [''f'' \<mapsto> [7]], es_rows = [''h'' \<mapsto> \<lparr>row_kind = ''body'', row_media_type = ''text/plain'',
          row_bytes = 1, row_blake3 = digest sample_crates [7], row_redacted = True, row_blob_path = ''f''\<rparr>]\<rparr>"
  have "zstd_decode sample_crates [7] = Some [7]" by (simp add: sample_crates_def)
  then obtain r where "evidence_get sample_crates ?s ''h'' = Inr r" by (simp add: evidence_get_def)
  with evidence_get_authentic [OF this] show ?thesis by blast
qed

text \<open>
  The first writer decides how evidence is described: putting the same bytes under the same kind again
  with another media type returns an envelope with the new media type, but the index keeps the old row, so
  \<open>get\<close> at that very handle answers with the old one.
\<close>

theorem first_media_type_wins:
  assumes "es_rows s (short_handle C kind [data]) = Some row"
    and "put_blob C pf kind media data redacted s = (Inr envelope, s')"
    and "evidence_get C s' (ee_handle envelope) = Inr r"
  shows "ee_media_type envelope = media \<and> ee_media_type (er_envelope r) = row_media_type row"
proof -
  obtain e s1 where w: "write_blob C pf (trim_start_matches ''b3:'' (digest C data)) data s = (e, s1)"
    by (cases "write_blob C pf (trim_start_matches ''b3:'' (digest C data)) data s")
  then have "es_rows s1 (short_handle C kind [data]) = Some row"
    using write_blob_files(1) assms(1) by metis
  with assms(2) w have "envelope = put_envelope C kind media data redacted"
    and "es_rows s' (short_handle C kind [data]) = Some row"
    by (auto simp: put_blob_def Let_def split: sum.splits if_splits)
  with assms(3) show ?thesis
    by (auto simp: evidence_get_def put_envelope_def split: option.splits if_splits)
qed

theorem first_media_type_wins_witness:
  "\<exists>e1 s1 e2 s2 r. put_blob hex_crates no_faults ''body'' ''text/plain'' [1] True sample_store = (Inr e1, s1)
     \<and> put_blob hex_crates no_faults ''body'' ''text/html'' [1] True s1 = (Inr e2, s2)
     \<and> evidence_get hex_crates s2 (ee_handle e2) = Inr r
     \<and> ee_media_type e2 = ''text/html'' \<and> ee_media_type (er_envelope r) = ''text/plain''"
proof -
  let ?put = "\<lambda>media s. put_blob hex_crates no_faults ''body'' media [1] True s"
  obtain e1 s1 where p1: "?put ''text/plain'' sample_store = (Inr e1, s1)"
    by (simp add: put_blob_def write_blob_def no_faults_def sample_store_def empty_store_def Let_def)
  obtain row where row: "es_rows s1 (short_handle hex_crates ''body'' [[1]]) = Some row"
    and media: "row_media_type row = ''text/plain''" and path: "es_files s1 (row_blob_path row) = Some [1]"
    and ok: "row_blake3 row = digest hex_crates [1]" "row_bytes row = 1"
    and here: "row_blob_path row = blob_path (trim_start_matches ''b3:'' (digest hex_crates [1]))"
    using p1 temporary_path_differs
    by (auto simp: put_blob_def write_blob_def no_faults_def sample_store_def empty_store_def Let_def
        hex_crates_def sample_crates_def)
  obtain e2 where p2: "?put ''text/html'' s1 = (Inr e2, s1)" and h: "ee_handle e2 = short_handle hex_crates ''body'' [[1]]"
    using path here row by (auto simp: put_blob_def write_blob_def no_faults_def Let_def put_envelope_def)
  have "zstd_decode hex_crates [1] = Some [1]" by (simp add: hex_crates_def sample_crates_def)
  then obtain r where g: "evidence_get hex_crates s1 (ee_handle e2) = Inr r"
    using row path ok h by (simp add: evidence_get_def)
  from first_media_type_wins [OF row p2 g] p1 p2 g media show ?thesis by metis
qed

text \<open>
  Explanations are bounded: a selection of a JSON document or a header serializes to at most 64 KiB, a
  byte selection shows at most 64 KiB that lie inside the data, and without a selector nothing larger than
  4 KiB is inlined.
\<close>

theorem explanation_bounded:
  assumes "evidence_get C s handle = Inr r" and "explain C s handle selector = Inr x"
    and "xe_value x = Some v"
    and "\<not> contains_str (ee_media_type (er_envelope r)) ''xml'' \<or> contains_str (ee_media_type (er_envelope r)) ''json''
         \<or> selector = None"
  shows "(selector = None \<and> length (er_data r) \<le> 4096)
       \<or> (\<exists>bs. json_to_vec C v = Some bs \<and> length bs \<le> 65536)
       \<or> (\<exists>start n. get_str v ''data'' = Some (b64_encode C (take n (drop start (er_data r))))
            \<and> 0 < n \<and> start + n \<le> length (er_data r) \<and> n \<le> 65536)"
proof -
  have "explain_value C r selector = Inr (Some v)"
    using assms(1-3) by (auto simp: explain_def and_then_Inr_iff)
  then show ?thesis
    using assms(4) select_json_bound select_header_bound select_bytes_bound
    by (auto simp: explain_value_def selection_limit_def inline_limit_def split: option.splits if_splits)
qed

theorem explanation_bounded_witness:
  "\<exists>bs. json_to_vec sample_crates (JString ''hi'') = Some bs \<and> length bs \<le> 65536"
proof -
  let ?s = "\<lparr>es_files = [''f'' \<mapsto> as_bytes ''hi''], es_rows = [''h'' \<mapsto> \<lparr>row_kind = ''body'', row_media_type = ''application/json'',
          row_bytes = 2, row_blake3 = digest sample_crates (as_bytes ''hi''), row_redacted = True, row_blob_path = ''f''\<rparr>]\<rparr>"
  have z: "zstd_decode sample_crates d = Some d" for d by (simp add: sample_crates_def)
  obtain r where g: "evidence_get sample_crates ?s ''h'' = Inr r"
    and r: "er_data r = as_bytes ''hi''" "ee_media_type (er_envelope r) = ''application/json''"
    by (simp add: evidence_get_def z)
  have j: "contains_str ''application/json'' ''json''" by code_simp
  have "explain_value sample_crates r (Some []) = Inr (Some (JString ''hi''))"
    using r j by (simp add: explain_value_def select_json_def bounded_selection_def starts_with_def
        sample_crates_def selection_limit_def)
  then obtain x where "explain sample_crates ?s ''h'' (Some []) = Inr x" "xe_value x = Some (JString ''hi'')"
    using g by (simp add: explain_def)
  from explanation_bounded [OF g this] r j show ?thesis by (auto simp: get_str_def)
qed



end
