(* ===== verification/Http_Checks.thy ===== *)
theory Http_Checks
  imports Schema_Props Redaction
begin

text \<open>
  The checks a request plan runs on a response (\<open>kahea-exec\<close>, \<open>validate_checks\<close> and its helpers).  Where the
  source formats a message the model keeps a \<open>check_failure\<close>.  \<open>check_holds\<close> is the meaning of one check; a
  response passes exactly when every check of the plan holds.
\<close>

datatype check_failure =
    StatusNotAllowed string | StatusMismatch string | ContentTypeMismatch string string
  | StatusUndeclared u16 | ResponseNotJson | SchemaRejects failure
  | HeaderMissing string | HeaderMismatch string string | InvalidHeaderCheck string
  | PointerNeedsJson | PointerMissing string | PointerType string string | PointerMismatch string
  | InvalidPointerCheck string
  | PathNeedsJson | PathMissing string | PathNeedsExists string | InvalidPath string
  | XPathNeedsUtf8 | XPathNeedsXml | XPathMissing string | XPathFalse string | XPathNeedsExists string
  | InvalidXPath string
  | DigestMismatches string | TooManyBytes nat nat | InvalidByteCheck string
  | TooSlow string | InvalidLatencyCheck string | UnknownCheck string

record HttpResponse =
  hr_status :: u16
  hr_headers :: "HeaderEntry list"
  hr_data :: bytes
  hr_version :: string

definition header_get_all :: "HeaderEntry list \<Rightarrow> string \<Rightarrow> HeaderEntry list" where
  "header_get_all hs name = filter (\<lambda>h. he_name h = to_ascii_lowercase name) hs"

definition validate_header_check :: "HeaderEntry list \<Rightarrow> string \<Rightarrow> check_failure list" where
  "validate_header_check hs spec =
     (case strip_suffix '':exists'' spec of
        Some name \<Rightarrow> if header_get_all hs name = [] then [HeaderMissing name] else []
      | None \<Rightarrow>
          (case split_once ''='' spec of
             None \<Rightarrow> [InvalidHeaderCheck spec]
           | Some (name, expected) \<Rightarrow>
               if expected \<in> set (List.map_filter (\<lambda>h. header_to_str (he_value h)) (header_get_all hs name)) then []
               else [HeaderMismatch name expected]))"

fun value_kind :: "json \<Rightarrow> string" where
  "value_kind JNull = ''null''"
| "value_kind (JBool _) = ''boolean''"
| "value_kind (JNumber (PosInt _)) = ''integer''"
| "value_kind (JNumber (NegInt _)) = ''integer''"
| "value_kind (JNumber (Float _)) = ''number''"
| "value_kind (JString _) = ''string''"
| "value_kind (JArray _) = ''array''"
| "value_kind (JObject _) = ''object''"

definition validate_json_pointer_check :: "crates \<Rightarrow> bytes \<Rightarrow> string \<Rightarrow> check_failure list" where
  "validate_json_pointer_check C data spec =
     (case json_from_slice C data of
        None \<Rightarrow> [PointerNeedsJson]
      | Some document \<Rightarrow>
          (case strip_suffix '':exists'' spec of
             Some pointer \<Rightarrow> if json_pointer C document pointer = None then [PointerMissing pointer] else []
           | None \<Rightarrow>
               (case split_once '':type='' spec of
                  Some (pointer, expected_type) \<Rightarrow>
                    (case json_pointer C document pointer of
                       Some v \<Rightarrow> if value_kind v = expected_type then [] else [PointerType pointer expected_type]
                     | None \<Rightarrow> [PointerMissing pointer])
                | None \<Rightarrow>
                    (case split_once ''='' spec of
                       None \<Rightarrow> [InvalidPointerCheck spec]
                     | Some (pointer, expected) \<Rightarrow>
                         (let v = (case json_from_slice C (as_bytes expected) of
                                     Some j \<Rightarrow> j | None \<Rightarrow> JString expected)
                          in if json_pointer C document pointer = Some v then []
                             else [PointerMismatch pointer])))))"

definition validate_jsonpath_check :: "crates \<Rightarrow> bytes \<Rightarrow> string \<Rightarrow> check_failure list" where
  "validate_jsonpath_check C data spec =
     (case json_from_slice C data of
        None \<Rightarrow> [PathNeedsJson]
      | Some document \<Rightarrow>
          (let query = (case strip_suffix '':exists'' spec of Some q \<Rightarrow> q | None \<Rightarrow> spec) in
           case jsonpath_query C query document of
             Some nodes \<Rightarrow>
               if nodes = [] then [PathMissing query]
               else if ends_with spec '':exists'' then [] else [PathNeedsExists spec]
           | None \<Rightarrow> [InvalidPath query]))"

fun empty_nodeset :: "xpath_value \<Rightarrow> bool" where
  "empty_nodeset (XNodes nodes) = (nodes = [])"
| "empty_nodeset _ = False"

definition validate_xpath_check :: "crates \<Rightarrow> bytes \<Rightarrow> string \<Rightarrow> check_failure list" where
  "validate_xpath_check C data spec =
     (let query = (case strip_suffix '':exists'' spec of Some q \<Rightarrow> q | None \<Rightarrow> spec) in
      if \<not> utf8_valid data then [XPathNeedsUtf8]
      else if \<not> xml_parses C data then [XPathNeedsXml]
      else (case xpath_eval C data query of
              Some v \<Rightarrow>
                if empty_nodeset v then [XPathMissing query]
                else if \<not> xpath_boolean C v then [XPathFalse query]
                else if ends_with spec '':exists'' then [] else [XPathNeedsExists spec]
            | None \<Rightarrow> [InvalidXPath query]))"

subsection \<open>The response schema\<close>

definition declared_response :: "RequestPlan \<Rightarrow> u16 \<Rightarrow> json option option" where
  "declared_response plan status =
     (case as_object (rp_response_contract plan) of
        None \<Rightarrow> None
      | Some contract \<Rightarrow>
          (let responses = (case Option.bind (map_of contract ''responses'') as_object of
                              Some r \<Rightarrow> r | None \<Rightarrow> contract);
               code = show_nat (unat status); hundreds = show_nat (unat status div 100)
           in Some (case map_of responses code of Some r \<Rightarrow> Some r | None \<Rightarrow>
                   (case map_of responses (hundreds @ ''XX'') of Some r \<Rightarrow> Some r | None \<Rightarrow>
                   (case map_of responses (hundreds @ ''xx'') of Some r \<Rightarrow> Some r | None \<Rightarrow>
                    map_of responses ''default'')))))"

definition response_media :: "crates \<Rightarrow> RequestPlan \<Rightarrow> string \<Rightarrow> json \<Rightarrow> json option" where
  "response_media C plan content_type response =
     (let response = (case resolve_contract_ref C (rp_response_contract plan) response of
                        Some r \<Rightarrow> r | None \<Rightarrow> response) in
      Option.bind (as_object response) (\<lambda>m.
      Option.bind (Option.bind (map_of m ''content'') as_object) (\<lambda>content.
      Option.bind
        (case List.find (\<lambda>(declared, _). starts_with content_type declared) content of
           Some entry \<Rightarrow> Some entry
         | None \<Rightarrow> (case content of [] \<Rightarrow> None | entry # _ \<Rightarrow> Some entry))
        (\<lambda>(_, media). json_get media ''schema''))))"

definition validate_response_schema ::
  "crates \<Rightarrow> RequestPlan \<Rightarrow> u16 \<Rightarrow> string \<Rightarrow> bytes \<Rightarrow> nat \<Rightarrow> check_failure list" where
  "validate_response_schema C plan status content_type data already =
     (case declared_response plan status of
        None \<Rightarrow> []
      | Some None \<Rightarrow> [StatusUndeclared status]
      | Some (Some response) \<Rightarrow>
          (case response_media C plan content_type response of
             None \<Rightarrow> []
           | Some schema \<Rightarrow>
               if \<not> contains_str content_type ''json'' then []
               else (case json_from_slice C data of
                       None \<Rightarrow> [ResponseNotJson]
                     | Some v \<Rightarrow>
                         map SchemaRejects
                           (drop already (validate_schema_value C (rp_response_contract plan) schema v ''$''
                              (replicate already (SchemaFailure [] TooDeep)) 0)))))"

subsection \<open>One check, all checks\<close>

definition exceeds_f64 :: "f64 \<Rightarrow> f64_parsed \<Rightarrow> bool" where
  "exceeds_f64 x m = (case m of Finite y \<Rightarrow> y < x | PosInf \<Rightarrow> False | NegInf \<Rightarrow> True | NotANumber \<Rightarrow> False)"

text \<open>The failures one check adds when \<open>already\<close> failures are on the list; \<open>latency\<close> is the elapsed time in
  milliseconds.\<close>

definition one_check ::
  "crates \<Rightarrow> RequestPlan \<Rightarrow> HttpResponse \<Rightarrow> string \<Rightarrow> f64 \<Rightarrow> nat \<Rightarrow> string \<Rightarrow> check_failure list" where
  "one_check C plan resp content_type latency already check =
     (case Option.bind (strip_prefix ''status:any('' check) (strip_suffix '')'') of
        Some vals \<Rightarrow>
          (if unat (hr_status resp) \<in> set (List.map_filter (parse_uint 65535) (split_char (CHR '','') vals))
           then [] else [StatusNotAllowed check])
      | None \<Rightarrow>
     (case strip_prefix ''status:'' check of
        Some expected \<Rightarrow>
          (if parse_uint 65535 expected = Some (unat (hr_status resp)) then [] else [StatusMismatch expected])
      | None \<Rightarrow>
     (case strip_prefix ''content-type:'' check of
        Some expected \<Rightarrow>
          (if starts_with (to_ascii_lowercase content_type) (to_ascii_lowercase expected) then []
           else [ContentTypeMismatch content_type expected])
      | None \<Rightarrow>
     (if check = ''response-schema:openapi''
      then validate_response_schema C plan (hr_status resp) content_type (hr_data resp) already
      else
     (case strip_prefix ''header:'' check of
        Some spec \<Rightarrow> validate_header_check (hr_headers resp) spec
      | None \<Rightarrow>
     (case strip_prefix ''json-pointer:'' check of
        Some spec \<Rightarrow> validate_json_pointer_check C (hr_data resp) spec
      | None \<Rightarrow>
     (case strip_prefix ''jsonpath:'' check of
        Some spec \<Rightarrow> validate_jsonpath_check C (hr_data resp) spec
      | None \<Rightarrow>
     (case strip_prefix ''xpath:'' check of
        Some spec \<Rightarrow> validate_xpath_check C (hr_data resp) spec
      | None \<Rightarrow>
     (case strip_prefix ''body-digest:'' check of
        Some expected \<Rightarrow> (if digest C (hr_data resp) = expected then [] else [DigestMismatches expected])
      | None \<Rightarrow>
     (case strip_prefix ''response-bytes:max:'' check of
        Some maximum \<Rightarrow>
          (case parse_uint 18446744073709551615 maximum of
             Some m \<Rightarrow> if m < length (hr_data resp) then [TooManyBytes (length (hr_data resp)) m] else []
           | None \<Rightarrow> [InvalidByteCheck check])
      | None \<Rightarrow>
     (case strip_prefix ''latency-ms:max:'' check of
        Some maximum \<Rightarrow>
          (case f64_parse C maximum of
             Some m \<Rightarrow> if exceeds_f64 latency m then [TooSlow maximum] else []
           | None \<Rightarrow> [InvalidLatencyCheck check])
      | None \<Rightarrow> [UnknownCheck check])))))))))))"

fun run_checks :: "(nat \<Rightarrow> string \<Rightarrow> check_failure list) \<Rightarrow> string list \<Rightarrow> check_failure list \<Rightarrow> check_failure list" where
  "run_checks f [] fs = fs"
| "run_checks f (c # cs) fs =
     (let fs' = fs @ f (length fs) c in if 20 \<le> length fs' then take 20 fs' else run_checks f cs fs')"

definition validate_checks ::
  "crates \<Rightarrow> RequestPlan \<Rightarrow> HttpResponse \<Rightarrow> string \<Rightarrow> f64 \<Rightarrow> check_failure list" where
  "validate_checks C plan resp content_type latency =
     run_checks (one_check C plan resp content_type latency) (rp_checks plan) []"

end
