(* ===== verification/Http_Checks_Props.thy ===== *)
theory Http_Checks_Props
  imports Http_Checks
begin

text \<open>
  What a response that passes the checks of its plan is known to satisfy, and the bound on reported
  failures.
\<close>

lemma run_checks_empty: "run_checks f cs fs = [] \<longleftrightarrow> fs = [] \<and> (\<forall>c \<in> set cs. f 0 c = [])"
proof (induction cs arbitrary: fs)
  case Nil
  then show ?case by simp
next
  case (Cons c cs)
  show ?case
  proof (cases "fs @ f (length fs) c = []")
    case True
    then have "fs = []" "f 0 c = []" by auto
    with Cons.IH [of "[]"] show ?thesis by (simp add: Let_def)
  next
    case False
    with Cons.IH [of "fs @ f (length fs) c"] show ?thesis by (auto simp: Let_def)
  qed
qed

lemma run_checks_bounded: "length fs \<le> 20 \<Longrightarrow> length (run_checks f cs fs) \<le> 20"
  by (induction cs arbitrary: fs) (auto simp: Let_def)

lemma parse_uint_show_nat: "parse_uint hi (show_nat n) = (if n \<le> hi then Some n else None)"
proof -
  obtain c cs where s: "show_nat n = c # cs" using show_nat_nonempty [of n] by (cases "show_nat n") auto
  then have "c \<noteq> CHR ''+''" using show_nat_digits [of c n] by (auto simp: is_ascii_digit_def char_code_def)
  with s digits_val_show_nat [of n] show ?thesis by (simp add: parse_uint_def)
qed

lemma show_nat_not_any: "\<not> starts_with (show_nat n @ r) (CHR ''a'' # rest)"
proof -
  obtain c cs where s: "show_nat n = c # cs" using show_nat_nonempty [of n] by (cases "show_nat n") auto
  then have "c \<noteq> CHR ''a''" using show_nat_digits [of c n] by (auto simp: is_ascii_digit_def char_code_def)
  with s show ?thesis by (simp add: starts_with_def)
qed

lemma strip_prefix_Cons:
  "strip_prefix (c # p) (d # s) = (if c = d then strip_prefix p s else None)"
  "strip_prefix [] s = Some s" "strip_prefix (c # p) [] = None"
  by (simp_all add: strip_prefix_def starts_with_def)

lemma unat_lt_u16: "unat (k :: u16) < 65536"
  using unsigned_less [of k] by simp

lemma one_check_status:
  "one_check C plan resp ct latency k (''status:'' @ show_nat n) = [] \<longleftrightarrow> unat (hr_status resp) = n"
proof -
  have "strip_prefix ''any('' (show_nat n) = None"
    using show_nat_not_any [of n "[]"] by (simp add: strip_prefix_def)
  moreover have "unat (hr_status resp) \<le> 65535" using unat_lt_u16 [of "hr_status resp"] by simp
  ultimately show ?thesis
    by (auto simp: one_check_def strip_prefix_Cons parse_uint_show_nat split: if_splits)
qed

lemma one_check_digest:
  "one_check C plan resp ct latency k (''body-digest:'' @ d) = [] \<longleftrightarrow> digest C (hr_data resp) = d"
  by (simp add: one_check_def strip_prefix_Cons)

lemma one_check_bytes:
  "one_check C plan resp ct latency k (''response-bytes:max:'' @ show_nat m) = [] \<longleftrightarrow>
     m \<le> 18446744073709551615 \<and> length (hr_data resp) \<le> m"
  by (auto simp: one_check_def strip_prefix_Cons parse_uint_show_nat)

lemma one_check_schema:
  "one_check C plan resp ct latency 0 ''response-schema:openapi'' = [] \<Longrightarrow>
   declared_response plan (hr_status resp) = Some (Some response) \<Longrightarrow>
   response_media C plan ct response = Some schema \<Longrightarrow> contains_str ct ''json'' \<Longrightarrow>
     \<exists>v. json_from_slice C (hr_data resp) = Some v \<and> conforms 64 C (rp_response_contract plan) schema v"
  using schema_level.next_empty [of 64 C "rp_response_contract plan" schema _ "''$''" "[]"]
  by (auto simp: one_check_def strip_prefix_Cons validate_response_schema_def validate_schema_value_def
      split: option.splits)

definition known_prefixes :: "string list" where
  "known_prefixes =
     [''status:'', ''content-type:'', ''response-schema:openapi'', ''header:'', ''json-pointer:'', ''jsonpath:'',
      ''xpath:'', ''body-digest:'', ''response-bytes:max:'', ''latency-ms:max:'']"

lemma one_check_unknown:
  "list_all (\<lambda>p. \<not> starts_with check p) known_prefixes \<Longrightarrow>
     one_check C plan resp ct latency k check = [UnknownCheck check]"
proof -
  assume un: "list_all (\<lambda>p. \<not> starts_with check p) known_prefixes"
  have "strip_prefix ''status:any('' check = None"
  proof (rule ccontr)
    assume "strip_prefix ''status:any('' check \<noteq> None"
    then obtain r where "check = ''status:'' @ ''any('' @ r" by (auto simp: strip_prefix_Some)
    then have "starts_with check ''status:''" by (simp only: starts_with_append)
    with un show False by (simp add: known_prefixes_def)
  qed
  moreover have "check \<noteq> ''response-schema:openapi''"
    using un by (auto simp: known_prefixes_def starts_with_def)
  ultimately show ?thesis
    using un by (simp add: known_prefixes_def one_check_def strip_prefix_def)
qed

subsection \<open>Claims\<close>

text \<open>
  A response passes only if it meets its checks: when no failure is reported, the status is the one a
  \<open>status:\<close> check names, the body has the digest and at most the size the checks name, a JSON body conforms
  to the schema the contract declares for its status and media type, and no check of unknown syntax was
  accepted.
\<close>

theorem passing_response_meets_checks:
  assumes "validate_checks C plan resp ct latency = []"
  shows "(\<forall>n. ''status:'' @ show_nat n \<in> set (rp_checks plan) \<longrightarrow> unat (hr_status resp) = n)
       \<and> (\<forall>d. ''body-digest:'' @ d \<in> set (rp_checks plan) \<longrightarrow> digest C (hr_data resp) = d)
       \<and> (\<forall>m. ''response-bytes:max:'' @ show_nat m \<in> set (rp_checks plan) \<longrightarrow> length (hr_data resp) \<le> m)
       \<and> (\<forall>response schema. ''response-schema:openapi'' \<in> set (rp_checks plan)
            \<and> declared_response plan (hr_status resp) = Some (Some response)
            \<and> response_media C plan ct response = Some schema \<and> contains_str ct ''json'' \<longrightarrow>
            (\<exists>v. json_from_slice C (hr_data resp) = Some v \<and> conforms 64 C (rp_response_contract plan) schema v))
       \<and> (\<forall>check \<in> set (rp_checks plan). list_ex (starts_with check) known_prefixes)"
proof -
  have ok: "one_check C plan resp ct latency 0 c = []" if "c \<in> set (rp_checks plan)" for c
    using assms that by (simp add: validate_checks_def run_checks_empty)
  have "list_ex (starts_with c) known_prefixes" if "c \<in> set (rp_checks plan)" for c
    using ok [OF that] one_check_unknown [of c C plan resp ct latency 0] by (auto simp: list_all_iff list_ex_iff)
  moreover have "unat (hr_status resp) = n" if "''status:'' @ show_nat n \<in> set (rp_checks plan)" for n
    using ok [OF that] by (simp only: one_check_status)
  moreover have "digest C (hr_data resp) = d" if "''body-digest:'' @ d \<in> set (rp_checks plan)" for d
    using ok [OF that] by (simp only: one_check_digest)
  moreover have "length (hr_data resp) \<le> m" if "''response-bytes:max:'' @ show_nat m \<in> set (rp_checks plan)" for m
    using ok [OF that] by (simp only: one_check_bytes)
  ultimately show ?thesis using ok one_check_schema by blast
qed

definition sample_request_plan :: RequestPlan where
  "sample_request_plan =
     \<lparr>rp_protocol = PROTOCOL, rp_kind = ''request-plan'', rp_version = VERSION,
      rp_config_fingerprint = ''b3:config'', rp_policy_fingerprint = ''b3:policy'', rp_source_fingerprints = [],
      rp_id = [], rp_operation = ''getPet'', rp_target = ''http://127.0.0.1:80/pets'', rp_method = ''GET'',
      rp_risk = Read, rp_required_grants = [''http:GET''], rp_secret_refs = [], rp_headers = [], rp_auth = None,
      rp_body = None, rp_checks = [''status:200''], rp_response_contract = JNull, rp_sensitive_headers = [],
      rp_redact_response_json_pointers = [], rp_derivations = [], rp_valid = True, rp_fingerprint = [],
      rp_exit = 0\<rparr>"

definition sample_response :: HttpResponse where
  "sample_response = \<lparr>hr_status = 200, hr_headers = [], hr_data = as_bytes ''ok'', hr_version = ''HTTP/1.1''\<rparr>"

lemma sample_response_passes: "validate_checks sample_crates sample_request_plan sample_response ''text/plain'' 3 = []"
proof -
  have "''status:200'' = ''status:'' @ show_nat 200" by code_simp
  then have "one_check sample_crates sample_request_plan sample_response ''text/plain'' 3 0 ''status:200'' = []"
    using one_check_status [of sample_crates sample_request_plan sample_response "''text/plain''" 3 0 200]
    by (simp add: sample_response_def)
  then show ?thesis by (simp add: validate_checks_def run_checks_empty sample_request_plan_def)
qed

theorem passing_response_meets_checks_witness: "unat (hr_status sample_response) = 200"
proof -
  have "''status:200'' = ''status:'' @ show_nat 200" by code_simp
  then have "''status:'' @ show_nat 200 \<in> set (rp_checks sample_request_plan)" by (simp add: sample_request_plan_def)
  with passing_response_meets_checks [OF sample_response_passes] show ?thesis by blast
qed

text \<open>
  Failure reports are bounded and never lost: at most twenty failures are reported, and the report is
  empty exactly when each check on its own reports nothing.
\<close>

theorem check_report_bounded:
  "length (validate_checks C plan resp ct latency) \<le> 20
   \<and> (validate_checks C plan resp ct latency = []
      \<longleftrightarrow> list_all (\<lambda>c. one_check C plan resp ct latency 0 c = []) (rp_checks plan))"
  by (simp add: validate_checks_def run_checks_bounded run_checks_empty list_all_iff)

end
