(* ===== verification/Exec_Types.thy ===== *)
theory Exec_Types
  imports Evidence Net_Boundary
begin

text \<open>
  Types the HTTP and the WebSocket executor of \<open>kahea-exec\<close> share: errors, invocation options, socket
  addresses, and the part of the network boundary they have in common.
\<close>

datatype ExecError =
    ExecSerialization | InvalidSeal | InvalidTarget | InvalidMethod | InvalidHeader
  | MissingSecret string | UnsupportedAuth string | InvalidOAuthProfile | OAuthExchange
  | InvalidClientIdentity | Transport | ResponseTooLarge u64 | ConfigurationMismatch | PolicyMismatch
  | EvidenceFailure EvidenceError

record InvokeOptions =
  opt_grants :: "string set"
  opt_secrets :: "(string \<times> string) list"
  opt_timeout :: nat
  opt_max_response_bytes :: u64
  opt_expected_config_fingerprint :: "string option"
  opt_expected_policy_fingerprint :: "string option"
  opt_additional_root_certificates_pem :: "bytes list"

definition default_options :: InvokeOptions where
  "default_options =
     \<lparr>opt_grants = {}, opt_secrets = [], opt_timeout = 30000000000, opt_max_response_bytes = 16777216,
      opt_expected_config_fingerprint = None, opt_expected_policy_fingerprint = None,
      opt_additional_root_certificates_pem = []\<rparr>"

record SocketAddr =
  sa_ip :: IpAddr
  sa_port :: u16

definition show_u16 :: "u16 \<Rightarrow> string" where
  "show_u16 p = show_nat (unat p)"

definition net_grant :: "string \<Rightarrow> u16 \<Rightarrow> string" where
  "net_grant host port = ''net:'' @ host @ '':'' @ show_u16 port"

text \<open>The loop over the resolved addresses: the first unsafe address without its grant is the one named in
  the denial.\<close>

fun ungranted_address :: "string set \<Rightarrow> SocketAddr list \<Rightarrow> SocketAddr option" where
  "ungranted_address grants [] = None"
| "ungranted_address grants (a # as) =
     (if unsafe_address (sa_ip a) \<and> cidr_grant (sa_ip a) \<notin> grants then Some a
      else ungranted_address grants as)"

definition within_boundary :: "string set \<Rightarrow> SocketAddr list \<Rightarrow> bool" where
  "within_boundary grants as = (\<forall>a \<in> set as. \<not> unsafe_address (sa_ip a) \<or> cidr_grant (sa_ip a) \<in> grants)"

lemma ungranted_address_None: "ungranted_address grants as = None \<longleftrightarrow> within_boundary grants as"
  by (induction as) (auto simp: within_boundary_def)

lemma ungranted_address_Some:
  "ungranted_address grants as = Some a \<Longrightarrow>
     a \<in> set as \<and> unsafe_address (sa_ip a) \<and> cidr_grant (sa_ip a) \<notin> grants"
  by (induction as) (auto split: if_splits)

text \<open>\<open>is_some_and(|expected| expected != actual)\<close>\<close>

definition fingerprint_mismatch :: "string option \<Rightarrow> string \<Rightarrow> bool" where
  "fingerprint_mismatch expected actual = (case expected of None \<Rightarrow> False | Some e \<Rightarrow> e \<noteq> actual)"

definition missing_grant :: "string set \<Rightarrow> string list \<Rightarrow> string option" where
  "missing_grant grants required = List.find (\<lambda>g. g \<notin> grants) required"

lemma missing_grant_None: "missing_grant grants required = None \<longleftrightarrow> set required \<subseteq> grants"
  by (auto simp: missing_grant_def find_None_iff)

subsection \<open>Header maps\<close>

definition header_of :: "string \<Rightarrow> string \<Rightarrow> bool \<Rightarrow> HeaderEntry" where
  "header_of name v sensitive =
     \<lparr>he_name = to_ascii_lowercase name, he_value = as_bytes v, he_sensitive = sensitive\<rparr>"

text \<open>\<open>HeaderMap::insert\<close> replaces every value of the name, keeping the place of the first.\<close>

fun header_insert :: "HeaderEntry \<Rightarrow> HeaderEntry list \<Rightarrow> HeaderEntry list" where
  "header_insert h [] = [h]"
| "header_insert h (x # xs) =
     (if he_name x = he_name h then h # filter (\<lambda>y. he_name y \<noteq> he_name h) xs else x # header_insert h xs)"

definition insert_sensitive_header ::
  "crates \<Rightarrow> HeaderEntry list \<Rightarrow> string \<Rightarrow> string \<Rightarrow> ExecError + HeaderEntry list" where
  "insert_sensitive_header C headers name v =
     (if \<not> header_name_ok C name \<or> \<not> header_value_ok C v then Inl InvalidHeader
      else Inr (header_insert (header_of name v True) headers))"

end
