(* ===== verification/Http_Invoke.thy ===== *)
theory Http_Invoke
  imports Exec_Types Http_Checks
begin

text \<open>
  Execution of a sealed request plan (\<open>kahea-exec\<close>, \<open>invoke\<close>): the gates before any connection, planned
  headers and authentication, the OAuth token exchange, and the observation of the response with its
  evidence.

  What the program gets from outside is the record \<open>http_env\<close>: name resolution, the HTTP client of
  \<open>reqwest\<close>, URL and form encoding, the clock, and the faults of the evidence store.  Every request handed
  to the client is recorded, in order, so that a property can speak of what was sent.
\<close>

record HttpRequest =
  rq_method :: string
  rq_url :: ParsedUrl
  rq_addresses :: "SocketAddr list"
  rq_headers :: "HeaderEntry list"
  rq_basic_auth :: "(string \<times> string) option"
  rq_identity :: "string option"
  rq_body :: bytes

record http_env =
  env_resolve :: "string \<Rightarrow> u16 \<Rightarrow> SocketAddr list option"
  env_method_ok :: "string \<Rightarrow> bool"
  env_identity_ok :: "string \<Rightarrow> bool"
  env_client_ok :: bool
  env_send :: "HttpRequest \<Rightarrow> HttpResponse option"
  env_read_ok :: "HttpRequest \<Rightarrow> bool"
  env_append_query :: "ParsedUrl \<Rightarrow> string \<Rightarrow> string \<Rightarrow> ParsedUrl"
  env_redact_query :: "ParsedUrl \<Rightarrow> ParsedUrl"
  env_form :: "(string \<times> string) list \<Rightarrow> bytes"
  env_latency_ms :: f64
  env_faults :: "nat \<Rightarrow> put_faults"
  env_write_ok :: bool
  env_rename_ok :: bool
  env_render :: "check_failure \<Rightarrow> string"
  env_derivations :: "FieldDerivation list \<Rightarrow> bytes option"
  env_runtime :: string

datatype InvocationResult = Observed Observation | InvocationDenied DenialEnvelope

fun invocation_exit :: "InvocationResult \<Rightarrow> u8" where
  "invocation_exit (Observed o') = ob_exit o'"
| "invocation_exit (InvocationDenied d) = de_exit d"

definition denial :: "crates \<Rightarrow> RequestPlan \<Rightarrow> string \<Rightarrow> string \<Rightarrow> DenialEnvelope" where
  "denial C plan reason required =
     \<lparr>de_protocol = PROTOCOL, de_kind = ''denial'', de_version = VERSION,
      de_config_fingerprint = default_config_fingerprint C, de_plan = rp_id plan, de_reason = reason,
      de_required = required, de_policy = rp_policy_fingerprint plan, de_exit = 4\<rparr>"

definition planned_body_bytes :: "crates \<Rightarrow> RequestPlan \<Rightarrow> ExecError + bytes" where
  "planned_body_bytes C plan =
     (case rp_body plan of
        None \<Rightarrow> Inr []
      | Some body \<Rightarrow>
          if pb_encoding body = ''utf-8'' then Inr (as_bytes (pb_inline body))
          else if pb_encoding body = ''base64'' then ok_or (b64_decode C (pb_inline body)) InvalidSeal
          else Inl InvalidSeal)"

definition evaluate_runtime_target ::
  "crates \<Rightarrow> http_env \<Rightarrow> RequestPlan \<Rightarrow> ParsedUrl \<Rightarrow> string \<Rightarrow> InvokeOptions
     \<Rightarrow> ExecError + (DenialEnvelope option \<times> SocketAddr list)" where
  "evaluate_runtime_target C env plan target method options =
     (if url_scheme target \<notin> {''http'', ''https''} then Inl InvalidTarget
      else if url_username target \<noteq> [] \<or> url_password target \<noteq> None then Inl InvalidTarget
      else if url_scheme target = ''http'' \<and> ''net-insecure-http'' \<notin> opt_grants options
      then Inr (Some (denial C plan ''plaintext HTTP requires an explicit grant'' ''net-insecure-http''), [])
      else
        and_then (ok_or (url_host_str target) InvalidTarget) (\<lambda>host.
        and_then (ok_or (url_port_or_known_default target) InvalidTarget) (\<lambda>port.
        case missing_grant (opt_grants options) [net_grant host port, ''http:'' @ method] of
          Some required \<Rightarrow>
            Inr (Some (denial C plan ''runtime target requires an explicit capability'' required), [])
        | None \<Rightarrow>
            and_then (ok_or (env_resolve env host port) Transport) (\<lambda>addresses.
            if addresses = [] then Inl Transport
            else (case ungranted_address (opt_grants options) addresses of
                    Some a \<Rightarrow>
                      Inr (Some (denial C plan ''resolved address is denied by the network boundary''
                                   (cidr_grant (sa_ip a))), [])
                  | None \<Rightarrow> Inr (None, addresses))))))"

definition planned_header ::
  "crates \<Rightarrow> PlannedHeader \<Rightarrow> HeaderEntry list \<Rightarrow> ExecError + HeaderEntry list" where
  "planned_header C planned headers =
     (if contains_any (ph_name planned) crlf \<or> contains_any (ph_value planned) crlf then Inl InvalidHeader
      else if \<not> header_name_ok C (ph_name planned) \<or> \<not> header_value_ok C (ph_value planned)
      then Inl InvalidHeader
      else Inr (headers @ [header_of (ph_name planned) (ph_value planned) False]))"

definition planned_headers :: "crates \<Rightarrow> RequestPlan \<Rightarrow> ExecError + HeaderEntry list" where
  "planned_headers C plan = for_each (planned_header C) (rp_headers plan) []"

definition apply_auth ::
  "crates \<Rightarrow> http_env \<Rightarrow> RequestPlan \<Rightarrow> InvokeOptions \<Rightarrow> ParsedUrl \<Rightarrow> HeaderEntry list
     \<Rightarrow> ExecError + (ParsedUrl \<times> HeaderEntry list)" where
  "apply_auth C env plan options target headers =
     (case rp_auth plan of
        None \<Rightarrow> Inr (target, headers)
      | Some auth \<Rightarrow>
          and_then (ok_or (map_of (opt_secrets options) (pa_profile auth)) (MissingSecret (pa_profile auth)))
            (\<lambda>secret.
             let parts = split_char (CHR '':'') (pa_placement auth);
                 with_header = (\<lambda>name v. and_then (insert_sensitive_header C headers name v)
                                            (\<lambda>hs. Inr (target, hs)))
             in if parts = [''header'', ''Authorization'', ''basic'']
                then with_header ''authorization'' (''Basic '' @ b64_encode C (as_bytes secret))
                else if parts \<in> {[''header'', ''Authorization'', ''bearer''], [''header'', ''Authorization'', ''Bearer'']}
                then with_header ''authorization'' (''Bearer '' @ secret)
                else (case parts of
                        [a, name] \<Rightarrow>
                          if a = ''header'' then with_header name secret
                          else if a = ''query'' then Inr (env_append_query env target name secret, headers)
                          else if a = ''cookie''
                          then (let existing = (case header_get_all headers ''cookie'' of
                                                  [] \<Rightarrow> []
                                                | h # _ \<Rightarrow> (case header_to_str (he_value h) of
                                                              Some s \<Rightarrow> s | None \<Rightarrow> []));
                                    v = (if existing = [] then name @ ''='' @ secret
                                         else existing @ ''; '' @ name @ ''='' @ secret)
                                in with_header ''cookie'' v)
                          else Inl (UnsupportedAuth (pa_placement auth))
                      | [a] \<Rightarrow>
                          if a = ''tls-client-certificate'' then Inr (target, headers)
                          else Inl (UnsupportedAuth (pa_placement auth))
                      | _ \<Rightarrow> Inl (UnsupportedAuth (pa_placement auth)))))"

definition resolve_client_identity ::
  "http_env \<Rightarrow> RequestPlan \<Rightarrow> InvokeOptions \<Rightarrow> ExecError + string option" where
  "resolve_client_identity env plan options =
     (case rp_auth plan of
        Some auth \<Rightarrow>
          if pa_placement auth = ''tls-client-certificate''
          then and_then (ok_or (map_of (opt_secrets options) (pa_profile auth)) (MissingSecret (pa_profile auth)))
                 (\<lambda>pem. if env_identity_ok env pem then Inr (Some pem) else Inl InvalidClientIdentity)
          else Inr None
      | None \<Rightarrow> Inr None)"

subsection \<open>The OAuth exchange\<close>

datatype OAuthResult = Token string | OAuthDenied DenialEnvelope

text \<open>An operation that sends requests and writes evidence: its result, the store, the requests sent.\<close>

type_synonym 'a exec = "(ExecError + 'a) \<times> EvidenceStore \<times> HttpRequest list"

definition oauth_form :: "PlannedAuth \<Rightarrow> (string \<times> json) list \<Rightarrow> ExecError + (string \<times> string) list" where
  "oauth_form auth credentials =
     and_then
       (if pa_placement auth = ''oauth2-client-credentials'' then Inr [(''grant_type'', ''client_credentials'')]
        else if pa_placement auth = ''oauth2-refresh-token''
        then and_then (ok_or (Option.bind (map_of credentials ''refresh_token'') as_str) InvalidOAuthProfile)
               (\<lambda>t. Inr [(''grant_type'', ''refresh_token''), (''refresh_token'', t)])
        else Inl (UnsupportedAuth (pa_placement auth)))
       (\<lambda>form. Inr (form @ (if pa_scopes auth = [] then [] else [(''scope'', join '' '' (pa_scopes auth))])))"

text \<open>Everything that must hold before the token endpoint is contacted, and the request to it.\<close>

definition oauth_request ::
  "crates \<Rightarrow> http_env \<Rightarrow> RequestPlan \<Rightarrow> InvokeOptions \<Rightarrow> ExecError + (DenialEnvelope + (PlannedAuth \<times> HttpRequest))" where
  "oauth_request C env plan options =
     and_then (ok_or (Option.bind (rp_auth plan) (\<lambda>a. if starts_with (pa_placement a) ''oauth2-'' then Some a else None))
                (UnsupportedAuth ''OAuth metadata is missing'')) (\<lambda>auth.
     and_then (ok_or (pa_token_url auth) InvalidOAuthProfile) (\<lambda>token_url.
     and_then (ok_or (url_parse C token_url) InvalidTarget) (\<lambda>target.
     and_then (evaluate_runtime_target C env plan target ''POST'' options) (\<lambda>(runtime_denial, addresses).
     case runtime_denial of
       Some d \<Rightarrow> Inr (Inl d)
     | None \<Rightarrow>
         and_then (ok_or (map_of (opt_secrets options) (pa_profile auth)) (MissingSecret (pa_profile auth))) (\<lambda>secret.
         and_then (ok_or (Option.bind (json_from_slice C (as_bytes secret)) as_object) InvalidOAuthProfile) (\<lambda>credentials.
         and_then (ok_or (Option.bind (map_of credentials ''client_id'') as_str) InvalidOAuthProfile) (\<lambda>client_id.
         and_then (oauth_form auth credentials) (\<lambda>form.
         and_then (ok_or (url_host_str target) InvalidTarget) (\<lambda>host.
         if \<not> env_client_ok env then Inl Transport
         else Inr (Inr (auth,
                \<lparr>rq_method = ''POST'', rq_url = target, rq_addresses = addresses,
                 rq_headers = [header_of ''content-type'' ''application/x-www-form-urlencoded'' False],
                 rq_basic_auth = (case Option.bind (map_of credentials ''client_secret'') as_str of
                                    Some client_secret \<Rightarrow> Some (client_id, client_secret) | None \<Rightarrow> None),
                 rq_identity = None, rq_body = env_form env form\<rparr>)))))))))))"

definition oauth_limit :: nat where "oauth_limit = 1048576"

definition oauth_token :: "crates \<Rightarrow> HttpResponse \<Rightarrow> bytes \<Rightarrow> string option" where
  "oauth_token C resp data =
     (if \<not> (200 \<le> hr_status resp \<and> hr_status resp < 300) \<or> oauth_limit < length data then None
      else Option.bind (json_from_slice C data) (\<lambda>v. get_str v ''access_token''))"

definition obtain_oauth_token ::
  "crates \<Rightarrow> http_env \<Rightarrow> RequestPlan \<Rightarrow> InvokeOptions \<Rightarrow> EvidenceStore \<Rightarrow> OAuthResult exec" where
  "obtain_oauth_token C env plan options s =
     (case oauth_request C env plan options of
        Inl e \<Rightarrow> (Inl e, s, [])
      | Inr (Inl d) \<Rightarrow> (Inr (OAuthDenied d), s, [])
      | Inr (Inr (auth, request)) \<Rightarrow>
          (case env_send env request of
             None \<Rightarrow> (Inl Transport, s, [request])
           | Some resp \<Rightarrow>
               if \<not> env_read_ok env request then (Inl OAuthExchange, s, [request])
               else (let data = take (oauth_limit + 1) (hr_data resp) in
                     case oauth_token C resp data of
                       None \<Rightarrow> (Inl OAuthExchange, s, [request])
                     | Some token \<Rightarrow>
                         (case put_json C (env_faults env 0) ''oauth-refresh''
                                 (json_to_vec C (JObject
                                    [(''profile'', JString (''secret://'' @ pa_profile auth)),
                                     (''response_blake3'', JString (digest C data)),
                                     (''status'', json_nat (unat (hr_status resp))),
                                     (''token_url'', JString (url_to_string (rq_url request)))])) True s of
                            (Inl e, s1) \<Rightarrow> (Inl (EvidenceFailure e), s1, [request])
                          | (Inr _, s1) \<Rightarrow> (Inr (Token token), s1, [request])))))"

subsection \<open>Observation of the response\<close>

definition redacted_request_trace :: "http_env \<Rightarrow> RequestPlan \<Rightarrow> ParsedUrl \<Rightarrow> HeaderEntry list \<Rightarrow> json" where
  "redacted_request_trace env plan target headers =
     (let safe_target = (case rp_auth plan of
                           Some auth \<Rightarrow> if starts_with (pa_placement auth) ''query:'' then env_redact_query env target
                                       else target
                         | None \<Rightarrow> target)
      in JObject [(''body_blake3'', case rp_body plan of Some b \<Rightarrow> JString (pb_blake3 b) | None \<Rightarrow> JNull),
                  (''headers'', JObject (redacted_headers headers (rp_sensitive_headers plan))),
                  (''method'', JString (rp_method plan)),
                  (''target'', JString (url_to_string safe_target))])"

definition response_content_type :: "HttpResponse \<Rightarrow> string" where
  "response_content_type resp =
     (case header_get_all (hr_headers resp) ''content-type'' of
        [] \<Rightarrow> ''application/octet-stream''
      | h # _ \<Rightarrow> (case header_to_str (he_value h) of Some s \<Rightarrow> s | None \<Rightarrow> ''application/octet-stream''))"

definition resolved_origin :: "ParsedUrl \<Rightarrow> string" where
  "resolved_origin target =
     url_scheme target @ ''://'' @ (case url_host_str target of Some h \<Rightarrow> h | None \<Rightarrow> []) @ '':''
       @ show_u16 (case url_port_or_known_default target of Some p \<Rightarrow> p | None \<Rightarrow> 0)"

definition observation_of ::
  "RequestPlan \<Rightarrow> http_env \<Rightarrow> HttpResponse \<Rightarrow> bytes \<Rightarrow> ParsedUrl \<Rightarrow> bool \<Rightarrow> string \<Rightarrow> string \<Rightarrow> Observation" where
  "observation_of plan env resp data target passed body trace =
     \<lparr>ob_protocol = PROTOCOL, ob_kind = ''observation'', ob_version = VERSION,
      ob_config_fingerprint = rp_config_fingerprint plan, ob_policy_fingerprint = rp_policy_fingerprint plan,
      ob_source_fingerprints = rp_source_fingerprints plan, ob_tool_version = VERSION, ob_plan = rp_id plan,
      ob_outcome = (if passed then Passed else Failed), ob_status = Some (hr_status resp),
      ob_response_schema = Some (if passed then ''passed'' else ''failed''),
      ob_latency_ms = Some (env_latency_ms env), ob_response_bytes = Some (len_u64 data),
      ob_body = Some body, ob_trace = Some trace, ob_resolved_origin = Some (resolved_origin target),
      ob_http_version = Some (hr_version resp), ob_secret_refs = rp_secret_refs plan,
      ob_runtime = env_runtime env, ob_exit = (if passed then 0 else 1)\<rparr>"

definition response_trace ::
  "HttpResponse \<Rightarrow> RequestPlan \<Rightarrow> bytes \<Rightarrow> json \<Rightarrow> string \<Rightarrow> string \<Rightarrow> string option \<Rightarrow> json" where
  "response_trace resp plan data request_trace derivation body schema_error =
     JObject [(''request'', request_trace), (''request_derivation'', JString derivation),
              (''response'', JObject
                 [(''body'', JString body), (''bytes'', json_nat (length data)),
                  (''headers'', JObject (redacted_headers (hr_headers resp) (rp_sensitive_headers plan))),
                  (''http_version'', JString (hr_version resp)),
                  (''status'', json_nat (unat (hr_status resp)))]),
              (''schema_error'', case schema_error of Some h \<Rightarrow> JString h | None \<Rightarrow> JNull)]"

definition observe_response ::
  "crates \<Rightarrow> http_env \<Rightarrow> RequestPlan \<Rightarrow> InvokeOptions \<Rightarrow> ParsedUrl \<Rightarrow> HttpResponse \<Rightarrow> bool \<Rightarrow> json \<Rightarrow> string
     \<Rightarrow> bytes list \<Rightarrow> EvidenceStore \<Rightarrow> (ExecError + InvocationResult) \<times> EvidenceStore" where
  "observe_response C env plan options target resp read_ok request_trace derivation redactions s =
     (let content_type = response_content_type resp;
          limit = opt_max_response_bytes options;
          data = take (unat (limit + 1)) (hr_data resp)
      in if \<not> read_ok then (Inl Transport, s)
         else if limit < len_u64 data then (Inl (ResponseTooLarge limit), s)
         else
           (let failures = validate_checks C plan (resp\<lparr>hr_data := data\<rparr>) content_type (env_latency_ms env);
                configured = redact_json_pointers C data (rp_redact_response_json_pointers plan);
                redacted_data = redact_bytes configured redactions
            in case put_blob C (env_faults env 2) ''body'' content_type redacted_data (redacted_data \<noteq> data) s of
                 (Inl e, s1) \<Rightarrow> (Inl (EvidenceFailure e), s1)
               | (Inr body, s1) \<Rightarrow>
                   (case (if failures = [] then (Inr None, s1)
                          else (case put_json C (env_faults env 3) ''schema-error''
                                       (json_to_vec C (JArray (map (\<lambda>f. JString (env_render env f)) failures))) False s1 of
                                  (Inl e, s2) \<Rightarrow> (Inl e, s2)
                                | (Inr envelope, s2) \<Rightarrow> (Inr (Some (ee_handle envelope)), s2))) of
                      (Inl e, s2) \<Rightarrow> (Inl (EvidenceFailure e), s2)
                    | (Inr schema_error, s2) \<Rightarrow>
                        (case put_json C (env_faults env 4) ''trace''
                                (json_to_vec C (response_trace resp plan data request_trace derivation
                                                  (ee_handle body) schema_error)) True s2 of
                           (Inl e, s3) \<Rightarrow> (Inl (EvidenceFailure e), s3)
                         | (Inr trace, s3) \<Rightarrow>
                             (let obs = observation_of plan env resp data target (failures = [])
                                          (ee_handle body) (ee_handle trace)
                              in case persist_observation C (env_faults env 5) (env_write_ok env) (env_rename_ok env) obs s3 of
                                   (Inl e, s4) \<Rightarrow> (Inl (EvidenceFailure e), s4)
                                 | (Inr _, s4) \<Rightarrow> (Inr (Observed obs), s4))))))"

subsection \<open>Invocation\<close>

definition response_redactions ::
  "crates \<Rightarrow> InvokeOptions \<Rightarrow> string option \<Rightarrow> HeaderEntry list \<Rightarrow> bytes list" where
  "response_redactions C options token headers =
     remdups_adj (sort_key (\<lambda>v. - int (length v))
       (secret_redactions C (opt_secrets options)
        @ (case token of Some t \<Rightarrow> [as_bytes t] | None \<Rightarrow> [])
        @ map he_value (filter he_sensitive headers)))"

text \<open>The gates that need no network: seal, fingerprints, grants.\<close>

definition invoke_gate ::
  "crates \<Rightarrow> RequestPlan \<Rightarrow> InvokeOptions \<Rightarrow> ExecError + DenialEnvelope option" where
  "invoke_gate C plan options =
     and_then (map_err (\<lambda>_. ExecSerialization) (verify_seal_request_plan C plan)) (\<lambda>sealed.
     if \<not> sealed then Inl InvalidSeal
     else if fingerprint_mismatch (opt_expected_config_fingerprint options) (rp_config_fingerprint plan)
     then Inl ConfigurationMismatch
     else if fingerprint_mismatch (opt_expected_policy_fingerprint options) (rp_policy_fingerprint plan)
     then Inl PolicyMismatch
     else (case missing_grant (opt_grants options) (rp_required_grants plan) of
             Some missing \<Rightarrow> Inr (Some (denial C plan ''invocation is missing a required capability'' missing))
           | None \<Rightarrow> Inr None))"

text \<open>Authentication: the token of an OAuth profile, or the secret at its place.\<close>

definition authenticate ::
  "crates \<Rightarrow> http_env \<Rightarrow> RequestPlan \<Rightarrow> InvokeOptions \<Rightarrow> ParsedUrl \<Rightarrow> HeaderEntry list \<Rightarrow> EvidenceStore
     \<Rightarrow> (DenialEnvelope + (ParsedUrl \<times> HeaderEntry list \<times> string option)) exec" where
  "authenticate C env plan options target headers s =
     (if (case rp_auth plan of Some a \<Rightarrow> starts_with (pa_placement a) ''oauth2-'' | None \<Rightarrow> False)
      then (case obtain_oauth_token C env plan options s of
              (Inl e, s1, sent) \<Rightarrow> (Inl e, s1, sent)
            | (Inr (OAuthDenied d), s1, sent) \<Rightarrow> (Inr (Inl d), s1, sent)
            | (Inr (Token token), s1, sent) \<Rightarrow>
                (and_then (insert_sensitive_header C headers ''authorization'' (''Bearer '' @ token))
                   (\<lambda>hs. Inr (Inr (target, hs, Some token))), s1, sent))
      else (and_then (apply_auth C env plan options target headers)
              (\<lambda>(target', hs). Inr (Inr (target', hs, None))), s, []))"

definition body_matches :: "crates \<Rightarrow> RequestPlan \<Rightarrow> bytes \<Rightarrow> bool" where
  "body_matches C plan body =
     (case rp_body plan of
        Some planned \<Rightarrow> pb_bytes planned = len_u64 body \<and> pb_blake3 planned = digest C body
      | None \<Rightarrow> True)"

definition send_request ::
  "crates \<Rightarrow> http_env \<Rightarrow> RequestPlan \<Rightarrow> InvokeOptions \<Rightarrow> HttpRequest \<Rightarrow> bytes list \<Rightarrow> EvidenceStore \<Rightarrow> InvocationResult exec" where
  "send_request C env plan options request redactions s =
     (let request_trace = redacted_request_trace env plan (rq_url request) (rq_headers request) in
      case put_json C (env_faults env 1) ''request-derivation'' (env_derivations env (rp_derivations plan)) False s of
        (Inl e, s1) \<Rightarrow> (Inl (EvidenceFailure e), s1, [])
      | (Inr derivation, s1) \<Rightarrow>
          (case env_send env request of
             None \<Rightarrow> (Inl Transport, s1, [request])
           | Some resp \<Rightarrow>
               (case observe_response C env plan options (rq_url request) resp (env_read_ok env request) request_trace
                       (ee_handle derivation) redactions s1 of
                  (r, s2) \<Rightarrow> (r, s2, [request]))))"

definition invoke_authenticated ::
  "crates \<Rightarrow> http_env \<Rightarrow> RequestPlan \<Rightarrow> InvokeOptions \<Rightarrow> SocketAddr list \<Rightarrow> string option \<Rightarrow> ParsedUrl \<Rightarrow> HeaderEntry list
     \<Rightarrow> string option \<Rightarrow> EvidenceStore \<Rightarrow> InvocationResult exec" where
  "invoke_authenticated C env plan options addresses identity target headers token s =
     (case planned_body_bytes C plan of
        Inl e \<Rightarrow> (Inl e, s, [])
      | Inr body \<Rightarrow>
          if \<not> body_matches C plan body then (Inl InvalidSeal, s, [])
          else if \<not> env_client_ok env then (Inl Transport, s, [])
          else send_request C env plan options
                 \<lparr>rq_method = rp_method plan, rq_url = target, rq_addresses = addresses, rq_headers = headers,
                  rq_basic_auth = None, rq_identity = identity, rq_body = body\<rparr>
                 (response_redactions C options token headers) s)"

definition invoke ::
  "crates \<Rightarrow> http_env \<Rightarrow> RequestPlan \<Rightarrow> InvokeOptions \<Rightarrow> EvidenceStore \<Rightarrow> InvocationResult exec" where
  "invoke C env plan options s =
     (case
        and_then (invoke_gate C plan options) (\<lambda>gate.
        case gate of
          Some d \<Rightarrow> Inr (Inl d)
        | None \<Rightarrow>
            and_then (ok_or (url_parse C (rp_target plan)) InvalidTarget) (\<lambda>target.
            and_then (evaluate_runtime_target C env plan target (rp_method plan) options) (\<lambda>(runtime_denial, addresses).
            case runtime_denial of
              Some d \<Rightarrow> Inr (Inl d)
            | None \<Rightarrow>
                if \<not> env_method_ok env (rp_method plan) then Inl InvalidMethod
                else and_then (planned_headers C plan) (\<lambda>headers.
                     and_then (resolve_client_identity env plan options) (\<lambda>identity.
                     Inr (Inr (target, addresses, headers, identity))))))) of
        Inl e \<Rightarrow> (Inl e, s, [])
      | Inr (Inl d) \<Rightarrow> (Inr (InvocationDenied d), s, [])
      | Inr (Inr (target, addresses, headers, identity)) \<Rightarrow>
          (case authenticate C env plan options target headers s of
             (Inl e, s1, sent) \<Rightarrow> (Inl e, s1, sent)
           | (Inr (Inl d), s1, sent) \<Rightarrow> (Inr (InvocationDenied d), s1, sent)
           | (Inr (Inr (target', headers', token)), s1, sent) \<Rightarrow>
               (case invoke_authenticated C env plan options addresses identity target' headers' token s1 of
                  (r, s2, sent') \<Rightarrow> (r, s2, sent @ sent'))))"

end
