(* ===== verification/Http_Invoke_Props.thy ===== *)
theory Http_Invoke_Props
  imports Http_Invoke Http_Checks_Props Redaction_Props
begin

text \<open>
  Properties of HTTP invocation: nothing is sent before every gate has passed, exit codes follow outcomes,
  responses are bounded.
\<close>

text \<open>What holds of a request when it is handed to the client.\<close>

definition request_allowed :: "http_env \<Rightarrow> InvokeOptions \<Rightarrow> HttpRequest \<Rightarrow> bool" where
  "request_allowed env options request =
     (rq_addresses request \<noteq> [] \<and> within_boundary (opt_grants options) (rq_addresses request)
      \<and> ''http:'' @ rq_method request \<in> opt_grants options
      \<and> (\<exists>host port. net_grant host port \<in> opt_grants options
           \<and> env_resolve env host port = Some (rq_addresses request)))"

lemma evaluate_runtime_target_allows:
  assumes "evaluate_runtime_target C env plan target method options = Inr (None, addresses)"
  shows "addresses \<noteq> [] \<and> within_boundary (opt_grants options) addresses
       \<and> ''http:'' @ method \<in> opt_grants options
       \<and> (\<exists>host port. net_grant host port \<in> opt_grants options \<and> env_resolve env host port = Some addresses)
       \<and> url_scheme target \<in> {''http'', ''https''}
       \<and> (url_scheme target = ''http'' \<longrightarrow> ''net-insecure-http'' \<in> opt_grants options)"
  using assms
  by (auto simp: evaluate_runtime_target_def and_then_Inr_iff ok_or_Inr_iff ungranted_address_None
      missing_grant_None split: if_splits option.splits)

lemma oauth_request_allowed:
  assumes "oauth_request C env plan options = Inr (Inr (auth, request))"
  shows "request_allowed env options request"
proof -
  obtain target where "evaluate_runtime_target C env plan target ''POST'' options = Inr (None, rq_addresses request)"
    and "rq_method request = ''POST''"
    using assms unfolding oauth_request_def
    by (auto simp: and_then_Inr_iff ok_or_Inr_iff split: option.splits prod.splits if_splits)
  with evaluate_runtime_target_allows [OF this(1)] show ?thesis by (simp add: request_allowed_def)
qed

lemma obtain_oauth_token_sent:
  assumes "obtain_oauth_token C env plan options s = (r, s', sent)" and "request \<in> set sent"
  shows "request_allowed env options request"
proof -
  obtain auth where "oauth_request C env plan options = Inr (Inr (auth, request))"
    using assms by (auto simp: obtain_oauth_token_def Let_def split: sum.splits option.splits prod.splits if_splits)
  then show ?thesis by (rule oauth_request_allowed)
qed

lemma authenticate_sent:
  assumes "authenticate C env plan options target headers s = (r, s', sent)" and "request \<in> set sent"
  shows "request_allowed env options request"
proof -
  obtain r1 s1 sent1 where "obtain_oauth_token C env plan options s = (r1, s1, sent1)" and "request \<in> set sent1"
    using assms
    by (cases "obtain_oauth_token C env plan options s")
       (auto simp: authenticate_def split: sum.splits option.splits prod.splits if_splits OAuthResult.splits)
  then show ?thesis by (rule obtain_oauth_token_sent)
qed

lemma send_request_sent:
  "send_request C env plan options request redactions s = (r, s', sent) \<Longrightarrow> x \<in> set sent \<Longrightarrow> x = request"
  by (auto simp: send_request_def Let_def split: prod.splits sum.splits option.splits)

lemma invoke_authenticated_sent:
  assumes "invoke_authenticated C env plan options addresses identity target headers token s = (r, s', sent)"
    and "x \<in> set sent"
  shows "rq_addresses x = addresses \<and> rq_method x = rp_method plan"
  using assms
  by (auto simp: invoke_authenticated_def split: sum.splits if_splits dest!: send_request_sent)

text \<open>The gates of \<open>invoke\<close>, up to authentication.\<close>

lemma invoke_gate_open:
  assumes "invoke_gate C plan options = Inr None"
  shows "verify_seal_request_plan C plan = Inr True
       \<and> (\<forall>e. opt_expected_config_fingerprint options = Some e \<longrightarrow> e = rp_config_fingerprint plan)
       \<and> (\<forall>e. opt_expected_policy_fingerprint options = Some e \<longrightarrow> e = rp_policy_fingerprint plan)
       \<and> set (rp_required_grants plan) \<subseteq> opt_grants options"
  using assms
  by (auto simp: invoke_gate_def and_then_Inr_iff map_err_Inr_iff fingerprint_mismatch_def missing_grant_None
      split: if_splits option.splits)

lemma invoke_cases:
  assumes "invoke C env plan options s = (r, s', sent)"
  obtains (closed) "sent = []" "s' = s" "\<And>obs. r \<noteq> Inr (Observed obs)"
  | (opened) target addresses headers identity ra s1 sent1 where
      "invoke_gate C plan options = Inr None" "url_parse C (rp_target plan) = Some target"
      "evaluate_runtime_target C env plan target (rp_method plan) options = Inr (None, addresses)"
      "authenticate C env plan options target headers s = (ra, s1, sent1)"
      "(\<exists>target' headers' token sent2. ra = Inr (Inr (target', headers', token))
          \<and> invoke_authenticated C env plan options addresses identity target' headers' token s1 = (r, s', sent2)
          \<and> sent = sent1 @ sent2)
       \<or> (sent = sent1 \<and> s' = s1 \<and> (\<forall>obs. r \<noteq> Inr (Observed obs)))"
proof -
  let ?pre = "and_then (invoke_gate C plan options) (\<lambda>gate.
        case gate of
          Some d \<Rightarrow> Inr (Inl d)
        | None \<Rightarrow>
            and_then (ok_or (url_parse C (rp_target plan)) InvalidTarget) (\<lambda>target.
            and_then (evaluate_runtime_target C env plan target (rp_method plan) options) (\<lambda>(runtime_denial, addresses).
            case runtime_denial of
              Some d \<Rightarrow> Inr (Inl d)
            | None \<Rightarrow>
                if \<not> env_method_ok env (rp_method plan) then Inl InvalidMethod
                else and_then (planned_headers C plan) (\<lambda>headers.
                     and_then (resolve_client_identity env plan options) (\<lambda>identity.
                     Inr (Inr (target, addresses, headers, identity)))))))"
  show ?thesis
  proof (cases "\<exists>target addresses headers identity. ?pre = Inr (Inr (target, addresses, headers, identity))")
    case False
    with assms show ?thesis by (intro closed) (auto simp: invoke_def split: sum.splits)
  next
    case True
    then obtain target addresses headers identity
      where pre: "?pre = Inr (Inr (target, addresses, headers, identity))" by blast
    then have gates: "invoke_gate C plan options = Inr None" "url_parse C (rp_target plan) = Some target"
      "evaluate_runtime_target C env plan target (rp_method plan) options = Inr (None, addresses)"
      by (auto simp: and_then_Inr_iff ok_or_Inr_iff split: option.splits if_splits prod.splits)
    obtain ra s1 sent1 where au: "authenticate C env plan options target headers s = (ra, s1, sent1)"
      by (cases "authenticate C env plan options target headers s")
    show ?thesis
      by (rule opened [OF gates au])
         (use assms pre au in \<open>auto simp: invoke_def split: sum.splits prod.splits\<close>)
  qed
qed

lemma observe_response_observed:
  assumes "observe_response C env plan options target resp read_ok rt dh redactions s = (Inr x, s')"
  shows "\<exists>data body trace failures. x = Observed (observation_of plan env resp data target (failures = []) body trace)
       \<and> data = take (unat (opt_max_response_bytes options + 1)) (hr_data resp)
       \<and> len_u64 data \<le> opt_max_response_bytes options
       \<and> failures = validate_checks C plan (resp\<lparr>hr_data := data\<rparr>) (response_content_type resp) (env_latency_ms env)"
  using assms unfolding observe_response_def
  by (auto simp: Let_def not_less split: if_splits prod.splits sum.splits)

lemma send_request_result:
  assumes "send_request C env plan options request redactions s = (Inr x, s', sent)"
  shows "\<exists>resp rt dh s1. env_send env request = Some resp \<and> sent = [request]
     \<and> observe_response C env plan options (rq_url request) resp (env_read_ok env request) rt dh redactions s1 = (Inr x, s')"
proof -
  obtain rd s1 where d: "put_json C (env_faults env 1) ''request-derivation''
      (env_derivations env (rp_derivations plan)) False s = (rd, s1)"
    by (cases "put_json C (env_faults env 1) ''request-derivation''
      (env_derivations env (rp_derivations plan)) False s")
  from assms d obtain derivation resp where "rd = Inr derivation" and resp: "env_send env request = Some resp"
    by (auto simp: send_request_def Let_def split: sum.splits option.splits)
  with assms d have "sent = [request]
      \<and> observe_response C env plan options (rq_url request) resp (env_read_ok env request)
          (redacted_request_trace env plan (rq_url request) (rq_headers request)) (ee_handle derivation) redactions s1
        = (Inr x, s')"
    by (auto simp: send_request_def Let_def split: prod.splits)
  with resp show ?thesis by blast
qed

lemma invoke_authenticated_result:
  assumes "invoke_authenticated C env plan options addresses identity target headers token s = (Inr x, s', sent)"
  shows "\<exists>request redactions. send_request C env plan options request redactions s = (Inr x, s', sent)
     \<and> rq_addresses request = addresses \<and> rq_method request = rp_method plan"
  using assms by (auto simp: invoke_authenticated_def split: sum.splits if_splits)

lemma length_le_u64:
  assumes "len_u64 (take (unat (m + 1)) xs) \<le> m" and "m < u64_max"
  shows "length (take (unat (m + 1)) xs) \<le> unat m"
proof -
  have "unat (m + 1) = unat m + 1" using unat_Suc_u64 [OF assms(2)] .
  moreover have "unat m + 1 < 2 ^ 64" using assms(2) by (simp add: word_less_nat_alt unat_u64_max)
  ultimately have "length (take (unat (m + 1)) xs) < 2 ^ 64" by simp
  then have "unat (len_u64 (take (unat (m + 1)) xs)) = length (take (unat (m + 1)) xs)" by (rule unat_len_u64)
  with assms(1) show ?thesis by (simp add: word_le_nat_alt)
qed

subsection \<open>A concrete invocation\<close>

definition http_url :: "string \<Rightarrow> ParsedUrl option" where
  "http_url s =
     (if s = ''http://127.0.0.1:80/pets''
      then Some \<lparr>url_scheme = ''http'', url_username = [], url_password = None,
                 url_host_str = Some ''127.0.0.1'', url_port = Some 80,
                 url_port_or_known_default = Some 80, url_path = ''/pets'', url_query = None,
                 url_fragment = None, url_origin_ascii = ''http://127.0.0.1:80'', url_to_string = s\<rparr>
      else None)"

definition http_crates :: crates where
  "http_crates = sample_crates\<lparr>url_parse := http_url\<rparr>"

definition sample_env :: http_env where
  "sample_env =
     \<lparr>env_resolve = (\<lambda>host port. Some [\<lparr>sa_ip = V4 127 0 0 1, sa_port = port\<rparr>]), env_method_ok = (\<lambda>_. True),
      env_identity_ok = (\<lambda>_. True), env_client_ok = True, env_send = (\<lambda>_. Some sample_response),
      env_read_ok = (\<lambda>_. True), env_append_query = (\<lambda>u n v. u), env_redact_query = id, env_form = (\<lambda>_. []),
      env_latency_ms = 3, env_faults = (\<lambda>_. no_faults), env_write_ok = True, env_rename_ok = True,
      env_render = (\<lambda>_. ''failure''), env_derivations = (\<lambda>_. Some []), env_runtime = ''linux-x86_64''\<rparr>"

definition sample_options :: InvokeOptions where
  "sample_options = default_options\<lparr>opt_grants :=
     {''http:GET'', ''net-insecure-http'', ''net:127.0.0.1:80'', ''net-cidr:127.0.0.1/32''}\<rparr>"

definition sealed_request_plan :: RequestPlan where
  "sealed_request_plan =
     (case seal_request_plan http_crates sample_request_plan of Inr p \<Rightarrow> p | Inl _ \<Rightarrow> sample_request_plan)"

lemma sealed_request_plan_verifies: "verify_seal_request_plan http_crates sealed_request_plan = Inr True"
proof -
  obtain p where p: "seal_request_plan http_crates sample_request_plan = Inr p"
    by (simp add: seal_request_plan_def http_crates_def sample_crates_def Let_def)
  with request_seal.seal_verifies [OF p] show ?thesis by (simp add: sealed_request_plan_def)
qed

lemma sealed_request_plan_fields:
  "rp_target sealed_request_plan = ''http://127.0.0.1:80/pets''" "rp_method sealed_request_plan = ''GET''"
  "rp_required_grants sealed_request_plan = [''http:GET'']" "rp_headers sealed_request_plan = []"
  "rp_auth sealed_request_plan = None" "rp_body sealed_request_plan = None"
  "rp_checks sealed_request_plan = [''status:200'']" "rp_redact_response_json_pointers sealed_request_plan = []"
  by (simp_all add: sealed_request_plan_def seal_request_plan_def clear_request_plan_def sample_request_plan_def
      http_crates_def sample_crates_def Let_def)

lemma sample_grants: "net_grant ''127.0.0.1'' 80 = ''net:127.0.0.1:80''"
  "cidr_grant (V4 127 0 0 1) = ''net-cidr:127.0.0.1/32''"
  by code_simp+

lemma sample_invocation_gate:
  "invoke_gate http_crates sealed_request_plan sample_options = Inr None"
  by (simp add: invoke_gate_def sealed_request_plan_verifies fingerprint_mismatch_def sample_options_def
      default_options_def missing_grant_def sealed_request_plan_fields)

lemma sample_invocation_target:
  "evaluate_runtime_target http_crates sample_env sealed_request_plan (the (http_url ''http://127.0.0.1:80/pets'')) ''GET'' sample_options
     = Inr (None, [\<lparr>sa_ip = V4 127 0 0 1, sa_port = 80\<rparr>])"
  by (simp add: evaluate_runtime_target_def http_url_def sample_options_def default_options_def sample_env_def
      missing_grant_def sample_grants del: cidr_grant.simps)

lemma sample_invocation:
  "\<exists>obs s' request. invoke http_crates sample_env sealed_request_plan sample_options empty_store
     = (Inr (Observed obs), s', [request])"
proof -
  have u: "url_parse http_crates ''http://127.0.0.1:80/pets'' = Some (the (http_url ''http://127.0.0.1:80/pets''))"
    by (simp add: http_crates_def http_url_def)
  have json: "json_to_vec http_crates (JObject m) = Some (as_bytes ''{}'')" for m
    by (simp add: http_crates_def sample_crates_def)
  have put: "\<exists>e s'. put_blob http_crates no_faults k m d b s = (Inr e, s')" for k m d b s
    by (auto simp: put_blob_def write_blob_def no_faults_def Let_def split: prod.split)
  have status: "''status:200'' = ''status:'' @ show_nat 200" by code_simp
  have checks: "validate_checks http_crates sealed_request_plan (sample_response\<lparr>hr_data := d\<rparr>) ct 3 = []" for d ct
    unfolding validate_checks_def run_checks_empty sealed_request_plan_fields status
    by (simp add: one_check_status del: append.simps) (simp add: sample_response_def)
  have persist: "\<exists>e s'. persist_observation http_crates no_faults True True obs s = (Inr e, s')" for obs s
    using put [of "''observation''" "''application/json''" "as_bytes (ob_plan obs)" True s]
    by (auto simp: persist_observation_def persist_json_observation_def put_json_def http_crates_def sample_crates_def
        Let_def)
  have observe: "\<exists>obs s'. observe_response http_crates sample_env sealed_request_plan sample_options t sample_response True
        rt dh red s = (Inr (Observed obs), s')" for t rt dh red s
  proof -
    let ?ct = "response_content_type sample_response"
    let ?d = "take (unat (opt_max_response_bytes sample_options + 1)) (hr_data sample_response)"
    let ?rd = "redact_bytes (redact_json_pointers http_crates ?d []) red"
    have small: "\<not> opt_max_response_bytes sample_options < len_u64 ?d"
      by (simp add: sample_options_def default_options_def sample_response_def len_u64_def)
    obtain body s1 where b: "put_blob http_crates no_faults ''body'' ?ct ?rd (?rd \<noteq> ?d) s = (Inr body, s1)"
      using put by blast
    obtain trace s2 where tr: "put_blob http_crates no_faults ''trace'' ''application/json'' (as_bytes ''{}'') True s1
        = (Inr trace, s2)" using put by blast
    let ?obs = "observation_of sealed_request_plan sample_env sample_response ?d t True (ee_handle body) (ee_handle trace)"
    obtain e s3 where "persist_observation http_crates no_faults True True ?obs s2 = (Inr e, s3)"
      using persist by blast
    with small b tr show ?thesis
      by (simp add: observe_response_def Let_def checks sealed_request_plan_fields response_trace_def put_json_def json
          sample_env_def)
  qed
  have send: "\<exists>obs s'. send_request http_crates sample_env sealed_request_plan sample_options request red s
      = (Inr (Observed obs), s', [request])" for request red s
  proof -
    obtain d s1 where d: "put_blob http_crates no_faults ''request-derivation'' ''application/json'' [] False s = (Inr d, s1)"
      using put by blast
    obtain obs s2 where "observe_response http_crates sample_env sealed_request_plan sample_options (rq_url request)
        sample_response True (redacted_request_trace sample_env sealed_request_plan (rq_url request) (rq_headers request))
        (ee_handle d) red s1 = (Inr (Observed obs), s2)" using observe by blast
    with d show ?thesis by (simp add: send_request_def put_json_def) (simp add: sample_env_def)
  qed
  have pre: "planned_headers http_crates sealed_request_plan = Inr []"
    "resolve_client_identity sample_env sealed_request_plan sample_options = Inr None"
    "authenticate http_crates sample_env sealed_request_plan sample_options t [] s = (Inr (Inr (t, [], None)), s, [])"
    "planned_body_bytes http_crates sealed_request_plan = Inr []" "body_matches http_crates sealed_request_plan []"
    "env_method_ok sample_env m" "env_client_ok sample_env" for t s m
    by (simp_all add: planned_headers_def resolve_client_identity_def authenticate_def apply_auth_def
        planned_body_bytes_def body_matches_def sealed_request_plan_fields sample_env_def)
  let ?t = "the (http_url ''http://127.0.0.1:80/pets'')"
  let ?rq = "\<lparr>rq_method = ''GET'', rq_url = ?t, rq_addresses = [\<lparr>sa_ip = V4 127 0 0 1, sa_port = 80\<rparr>], rq_headers = [],
      rq_basic_auth = None, rq_identity = None, rq_body = []\<rparr>"
  obtain obs s' where sr: "send_request http_crates sample_env sealed_request_plan sample_options ?rq
      (response_redactions http_crates sample_options None []) empty_store = (Inr (Observed obs), s', [?rq])"
    using send by blast
  have "invoke_authenticated http_crates sample_env sealed_request_plan sample_options
      [\<lparr>sa_ip = V4 127 0 0 1, sa_port = 80\<rparr>] None ?t [] None empty_store = (Inr (Observed obs), s', [?rq])"
    by (simp add: invoke_authenticated_def pre sealed_request_plan_fields sr)
  then have "invoke http_crates sample_env sealed_request_plan sample_options empty_store
      = (Inr (Observed obs), s', [?rq])"
    by (simp add: invoke_def sample_invocation_gate sealed_request_plan_fields u sample_invocation_target pre)
  then show ?thesis by blast
qed

subsection \<open>Denials\<close>

lemma gate_denial_exit: "invoke_gate C plan options = Inr (Some d) \<Longrightarrow> de_exit d = 4"
  by (auto simp: invoke_gate_def and_then_Inr_iff denial_def split: if_splits option.splits)

lemma target_denial_exit: "evaluate_runtime_target C env plan target m options = Inr (Some d, a) \<Longrightarrow> de_exit d = 4"
  by (auto simp: evaluate_runtime_target_def and_then_Inr_iff denial_def split: if_splits option.splits)

lemma oauth_request_denial_exit: "oauth_request C env plan options = Inr (Inl d) \<Longrightarrow> de_exit d = 4"
  by (auto simp: oauth_request_def and_then_Inr_iff split: if_splits option.splits prod.splits dest: target_denial_exit)

lemma oauth_denial_exit: "obtain_oauth_token C env plan options s = (Inr (OAuthDenied d), s', sent) \<Longrightarrow> de_exit d = 4"
  by (auto simp: obtain_oauth_token_def Let_def dest: oauth_request_denial_exit
      split: sum.splits option.splits prod.splits if_splits)

lemma authenticate_denial_exit:
  "authenticate C env plan options target headers s = (Inr (Inl d), s', sent) \<Longrightarrow> de_exit d = 4"
  by (auto simp: authenticate_def and_then_Inr_iff dest: oauth_denial_exit
      split: if_splits prod.splits sum.splits OAuthResult.splits)

lemma invoke_authenticated_observed:
  assumes "invoke_authenticated C env plan options addresses identity target headers token s = (Inr x, s', sent)"
  shows "\<exists>request resp data body trace t failures. request \<in> set sent \<and> env_send env request = Some resp
       \<and> x = Observed (observation_of plan env resp data t (failures = []) body trace)
       \<and> data = take (unat (opt_max_response_bytes options + 1)) (hr_data resp)
       \<and> len_u64 data \<le> opt_max_response_bytes options
       \<and> failures = validate_checks C plan (resp\<lparr>hr_data := data\<rparr>) (response_content_type resp) (env_latency_ms env)"
proof -
  obtain request redactions where "send_request C env plan options request redactions s = (Inr x, s', sent)"
    using invoke_authenticated_result [OF assms] by blast
  then obtain resp rt dh s1 where sent: "env_send env request = Some resp" "sent = [request]"
    and "observe_response C env plan options (rq_url request) resp (env_read_ok env request) rt dh redactions s1 = (Inr x, s')"
    using send_request_result by blast
  from observe_response_observed [OF this(3)] sent show ?thesis by fastforce
qed

lemma invoke_denied_exit:
  assumes "invoke C env plan options s = (Inr (InvocationDenied d), s', sent)"
  shows "de_exit d = 4"
  using assms unfolding invoke_def
  by (auto simp: and_then_Inr_iff split: sum.splits prod.splits option.splits if_splits
      dest: gate_denial_exit target_denial_exit authenticate_denial_exit invoke_authenticated_observed)

lemma invoke_sent_allowed:
  assumes "invoke C env plan options s = (r, s', sent)" and "request \<in> set sent"
  shows "request_allowed env options request"
  using assms(1)
proof (cases rule: invoke_cases)
  case closed
  with assms(2) show ?thesis by simp
next
  case (opened target addresses headers identity ra s1 sent1)
  from opened(5) show ?thesis
  proof
    assume "sent = sent1 \<and> s' = s1 \<and> (\<forall>obs. r \<noteq> Inr (Observed obs))"
    with opened(4) assms(2) authenticate_sent show ?thesis by blast
  next
    assume "\<exists>target' headers' token sent2. ra = Inr (Inr (target', headers', token))
          \<and> invoke_authenticated C env plan options addresses identity target' headers' token s1 = (r, s', sent2)
          \<and> sent = sent1 @ sent2"
    then obtain target' headers' token sent2 where
      inv: "invoke_authenticated C env plan options addresses identity target' headers' token s1 = (r, s', sent2)"
      and sent: "sent = sent1 @ sent2" by blast
    show ?thesis
    proof (cases "request \<in> set sent1")
      case True
      with opened(4) authenticate_sent show ?thesis by blast
    next
      case False
      with sent assms(2) invoke_authenticated_sent [OF inv] evaluate_runtime_target_allows [OF opened(3)]
      show ?thesis by (auto simp: request_allowed_def)
    qed
  qed
qed

subsection \<open>Claims\<close>

text \<open>
  C7.  Nothing is sent before every gate has passed: if an invocation hands any request to the HTTP client,
  the token request of OAuth included, then the plan's seal verified, the expected fingerprints match, all
  required grants were given, and the request goes to addresses that were resolved once for a granted host
  and port and that are all inside the network boundary or individually granted.
\<close>

theorem no_request_before_gates:
  assumes "invoke C env plan options s = (r, s', sent)" and "request \<in> set sent"
  shows "verify_seal_request_plan C plan = Inr True
       \<and> (\<forall>e. opt_expected_config_fingerprint options = Some e \<longrightarrow> e = rp_config_fingerprint plan)
       \<and> (\<forall>e. opt_expected_policy_fingerprint options = Some e \<longrightarrow> e = rp_policy_fingerprint plan)
       \<and> set (rp_required_grants plan) \<subseteq> opt_grants options \<and> request_allowed env options request"
  using assms(1)
proof (cases rule: invoke_cases)
  case closed
  with assms(2) show ?thesis by simp
next
  case (opened target addresses headers identity ra s1 sent1)
  with invoke_gate_open [OF opened(1)] invoke_sent_allowed [OF assms] show ?thesis by blast
qed

theorem no_request_before_gates_witness:
  "\<exists>r s' request. invoke http_crates sample_env sealed_request_plan sample_options empty_store = (r, s', [request])
     \<and> request_allowed sample_env sample_options request"
proof -
  obtain obs s' request where "invoke http_crates sample_env sealed_request_plan sample_options empty_store
      = (Inr (Observed obs), s', [request])" using sample_invocation by blast
  with no_request_before_gates [OF this] show ?thesis by simp
qed

text \<open>
  C15.  Exit codes follow outcomes: a denial exits with 4; an observation exits with 0 and is recorded as
  passed exactly when the response met every check of the plan, and exits with 1 as failed otherwise; the
  recorded size of the response is within the invocation's limit.
\<close>

theorem invocation_exit_codes:
  assumes "invoke C env plan options s = (Inr x, s', sent)"
  shows "(\<forall>d. x = InvocationDenied d \<longrightarrow> de_exit d = 4)
       \<and> (\<forall>obs. x = Observed obs \<longrightarrow> (\<exists>request resp data. request \<in> set sent \<and> env_send env request = Some resp
            \<and> data = take (unat (opt_max_response_bytes options + 1)) (hr_data resp)
            \<and> (let ok = (validate_checks C plan (resp\<lparr>hr_data := data\<rparr>) (response_content_type resp)
                           (env_latency_ms env) = [])
               in ob_exit obs = (if ok then 0 else 1) \<and> ob_outcome obs = (if ok then Passed else Failed))
            \<and> ob_response_bytes obs = Some (len_u64 data)
            \<and> (opt_max_response_bytes options < u64_max \<longrightarrow> length data \<le> unat (opt_max_response_bytes options))))"
proof (intro conjI allI impI)
  fix d assume "x = InvocationDenied d"
  with assms invoke_denied_exit show "de_exit d = 4" by blast
next
  fix obs assume obs: "x = Observed obs"
  from assms obtain addresses identity target' headers' token s1 sent1 sent2 where
    inv: "invoke_authenticated C env plan options addresses identity target' headers' token s1 = (Inr x, s', sent2)"
    and sent: "sent = sent1 @ sent2"
    by (cases rule: invoke_cases) (use obs in blast)+
  obtain request resp data body trace t failures where r: "request \<in> set sent2" "env_send env request = Some resp"
    and x: "x = Observed (observation_of plan env resp data t (failures = []) body trace)"
    and data: "data = take (unat (opt_max_response_bytes options + 1)) (hr_data resp)"
    and le: "len_u64 data \<le> opt_max_response_bytes options"
    and f: "failures = validate_checks C plan (resp\<lparr>hr_data := data\<rparr>) (response_content_type resp) (env_latency_ms env)"
    using invoke_authenticated_observed [OF inv] by blast
  have "opt_max_response_bytes options < u64_max \<longrightarrow> length data \<le> unat (opt_max_response_bytes options)"
    using le length_le_u64 unfolding data by blast
  moreover have "obs = observation_of plan env resp data t (failures = []) body trace" using obs x by simp
  moreover have "request \<in> set sent" using r sent by simp
  ultimately show "\<exists>request resp data. request \<in> set sent \<and> env_send env request = Some resp
            \<and> data = take (unat (opt_max_response_bytes options + 1)) (hr_data resp)
            \<and> (let ok = (validate_checks C plan (resp\<lparr>hr_data := data\<rparr>) (response_content_type resp)
                           (env_latency_ms env) = [])
               in ob_exit obs = (if ok then 0 else 1) \<and> ob_outcome obs = (if ok then Passed else Failed))
            \<and> ob_response_bytes obs = Some (len_u64 data)
            \<and> (opt_max_response_bytes options < u64_max \<longrightarrow> length data \<le> unat (opt_max_response_bytes options))"
    using r data f by (intro exI [of _ request] exI [of _ resp] exI [of _ data]) (simp add: observation_of_def Let_def)
qed

theorem invocation_exit_codes_witness:
  "\<exists>obs s' request. invoke http_crates sample_env sealed_request_plan sample_options empty_store
       = (Inr (Observed obs), s', [request]) \<and> ob_exit obs \<le> 1"
proof -
  obtain obs s' request where i: "invoke http_crates sample_env sealed_request_plan sample_options empty_store
      = (Inr (Observed obs), s', [request])" using sample_invocation by blast
  from invocation_exit_codes [OF i] have "ob_exit obs = 0 \<or> ob_exit obs = 1" by (auto simp: Let_def split: if_splits)
  with i show ?thesis by auto
qed

end
