(* ===== verification/Ws_Session.thy ===== *)
theory Ws_Session
  imports Deadline Schema_Props Exec_Types
begin

text \<open>
  The session state machine (\<open>kahea-exec\<close>, \<open>websocket.rs\<close>): the loop over the sealed actions, sending with
  budget checks, reading expectations with automatic control frames, the closing handshake, and the
  classification of errors into one terminal result.

  The WebSocket library is outside the repository.  One call into it is a \<open>ws_reply\<close>: the reads and writes it
  makes on the accounted stream, the instants at which the deadline stream notes activity, and its result.
  A reply also carries the clock readings the program takes before the call and the cancellation flag as
  read after it.  Operations thread the session and the remaining replies; \<open>None\<close> means that the replies ran
  out, i.e. the program is still waiting inside a call.
\<close>

subsection \<open>Messages and the environment\<close>

record close_frame =
  cf_code :: u16
  cf_reason :: string

datatype Message =
    MText string | MBinary bytes | MPing bytes | MPong bytes | MClose "close_frame option" | MFrame bytes

datatype ws_error =
    WsConnectionClosed | WsAlreadyClosed | WsIo io_kind | WsCapacity | WsWriteBufferFull | WsProtocol | WsUtf8
  | WsAttackAttempt | WsOther

record ws_reply =
  wr_action_clock :: instant
  wr_close_clock :: instant
  wr_clock :: instant
  wr_calls :: "stream_call list"
  wr_activity :: "instant list"
  wr_cancelled :: bool
  wr_result :: "ws_error + Message"

datatype TranscriptPayloadKind = TextPayload | BinaryPayload | ControlPayload

record TranscriptEntry =
  te_direction :: string
  te_kind :: string
  te_bytes :: u64
  te_action_index :: "nat option"
  te_check :: string
  te_code :: "u16 option"
  te_payload_kind :: "TranscriptPayloadKind option"
  te_payload :: "bytes option"

record SessionTerminal =
  ter_outcome :: Outcome
  ter_cause :: WebSocketTerminalCause
  ter_exit :: u8
  ter_close :: "WebSocketCloseObservation option"

definition terminal_passed :: "WebSocketCloseObservation option \<Rightarrow> SessionTerminal" where
  "terminal_passed close =
     \<lparr>ter_outcome = Passed, ter_cause = Completed, ter_exit = 0, ter_close = close\<rparr>"

definition terminal_failed :: "WebSocketTerminalCause \<Rightarrow> SessionTerminal" where
  "terminal_failed cause = \<lparr>ter_outcome = Failed, ter_cause = cause, ter_exit = 1, ter_close = None\<rparr>"

definition terminal_error :: "WebSocketTerminalCause \<Rightarrow> SessionTerminal" where
  "terminal_error cause = \<lparr>ter_outcome = OutcomeError, ter_cause = cause, ter_exit = 3, ter_close = None\<rparr>"

text \<open>The connection with the counters and the transcript of the running session.\<close>

record Session =
  ses_stream :: AccountedStream
  ses_deadline :: DeadlineState
  ses_total_deadline :: instant
  ses_cancellable :: bool
  ses_counters :: WebSocketCounters
  ses_transcript :: "TranscriptEntry list"

type_synonym 'a ses = "Session \<Rightarrow> ws_reply list \<Rightarrow> ((SessionTerminal + 'a) \<times> Session \<times> ws_reply list) option"

definition ses_return :: "'a \<Rightarrow> 'a ses" where
  "ses_return x = (\<lambda>s rs. Some (Inr x, s, rs))"

definition ses_fail :: "SessionTerminal \<Rightarrow> 'a ses" where
  "ses_fail t = (\<lambda>s rs. Some (Inl t, s, rs))"

definition ses_bind :: "'a ses \<Rightarrow> ('a \<Rightarrow> 'b ses) \<Rightarrow> 'b ses" where
  "ses_bind m f =
     (\<lambda>s rs. case m s rs of
        None \<Rightarrow> None
      | Some (Inl t, s', rs') \<Rightarrow> Some (Inl t, s', rs')
      | Some (Inr x, s', rs') \<Rightarrow> f x s' rs')"

definition ses_modify :: "(Session \<Rightarrow> Session) \<Rightarrow> unit ses" where
  "ses_modify f = (\<lambda>s rs. Some (Inr (), f s, rs))"

subsection \<open>Counters and budgets\<close>

definition close_payload_bytes :: "close_frame option \<Rightarrow> u64" where
  "close_payload_bytes f = (case f of None \<Rightarrow> 0 | Some cf \<Rightarrow> len_u64 (cf_reason cf) + 2)"

definition exceeds_outbound :: "WebSocketPlan \<Rightarrow> WebSocketCounters \<Rightarrow> bool \<Rightarrow> u64 \<Rightarrow> bool" where
  "exceeds_outbound plan c data_message byts =
     (max_outbound_frames (wp_limits plan) \<le> outbound_frames c
      \<or> max_outbound_bytes (wp_limits plan) < saturating_add (outbound_bytes c) byts
      \<or> (data_message \<and> max_outbound_messages (wp_limits plan) \<le> outbound_messages c)
      \<or> max_frame_bytes (wp_limits plan) < byts)"

definition account_automatic_control :: "WebSocketPlan \<Rightarrow> u64 \<Rightarrow> unit ses" where
  "account_automatic_control plan byts =
     (\<lambda>s rs. if exceeds_outbound plan (ses_counters s) False byts
             then Some (Inl (terminal_failed BudgetExhausted), s, rs) else Some (Inr (), s, rs))"

fun message_size :: "Message \<Rightarrow> bool \<times> u64" where
  "message_size (MText v) = (True, len_u64 v)"
| "message_size (MBinary v) = (True, len_u64 v)"
| "message_size (MPing v) = (False, len_u64 v)"
| "message_size (MPong v) = (False, len_u64 v)"
| "message_size (MClose f) = (False, close_payload_bytes f)"
| "message_size (MFrame v) = (False, len_u64 v)"

definition account_inbound :: "WebSocketPlan \<Rightarrow> Message \<Rightarrow> unit ses" where
  "account_inbound plan message =
     (\<lambda>s rs.
        let (data_message, byts) = message_size message;
            c = ses_counters s;
            c = (if data_message then c\<lparr>inbound_messages := saturating_add (inbound_messages c) 1\<rparr> else c);
            s = s\<lparr>ses_counters := c\<rparr>
        in if max_inbound_messages (wp_limits plan) < inbound_messages c
              \<or> max_message_bytes (wp_limits plan) < byts
           then Some (Inl (terminal_failed BudgetExhausted), s, rs) else Some (Inr (), s, rs))"

text \<open>A recorded wire failure becomes the terminal result.\<close>

definition wire_terminal :: "WebSocketTerminalCause \<Rightarrow> SessionTerminal" where
  "wire_terminal cause = (if cause = BudgetExhausted then terminal_failed cause else terminal_error cause)"

definition copy_wire_counters :: "Session \<Rightarrow> WebSocketCounters" where
  "copy_wire_counters s =
     (let w = wa_counters (as_accounting (ses_stream s))
      in (ses_counters s)\<lparr>inbound_frames := inbound_frames w, outbound_frames := outbound_frames w,
                         inbound_bytes := inbound_bytes w, outbound_bytes := outbound_bytes w\<rparr>)"

definition sync_wire_counters :: "unit ses" where
  "sync_wire_counters =
     (\<lambda>s rs. let s' = s\<lparr>ses_counters := copy_wire_counters s\<rparr>
             in case wa_failure (as_accounting (ses_stream s)) of
                  Some cause \<Rightarrow> Some (Inl (wire_terminal cause), s', rs)
                | None \<Rightarrow> Some (Inr (), s', rs))"

definition socket_error :: "Session \<Rightarrow> bool \<Rightarrow> ws_error \<Rightarrow> SessionTerminal" where
  "socket_error s cancelled error =
     (case wa_failure (as_accounting (ses_stream s)) of
        Some cause \<Rightarrow> wire_terminal cause
      | None \<Rightarrow>
          (case error of
             WsIo k \<Rightarrow>
               if k = Interrupted
               then (if interruption_is_cancellation (ses_cancellable s \<and> cancelled)
                     then terminal_error Cancelled else terminal_error IoFailure)
               else if k \<in> {TimedOut, WouldBlock} then terminal_error (ds_cause (ses_deadline s))
               else if k \<in> {EofKind, ConnectionReset, BrokenPipe} then terminal_error UnexpectedEof
               else terminal_error IoFailure
           | WsConnectionClosed \<Rightarrow> terminal_error UnexpectedEof
           | WsAlreadyClosed \<Rightarrow> terminal_error UnexpectedEof
           | WsCapacity \<Rightarrow> terminal_failed BudgetExhausted
           | WsWriteBufferFull \<Rightarrow> terminal_failed BudgetExhausted
           | WsProtocol \<Rightarrow> terminal_error ProtocolViolation
           | WsUtf8 \<Rightarrow> terminal_error ProtocolViolation
           | WsAttackAttempt \<Rightarrow> terminal_error ProtocolViolation
           | WsOther \<Rightarrow> terminal_error IoFailure))"

subsection \<open>Calls into the socket\<close>

definition after_reply :: "instant \<Rightarrow> ws_reply \<Rightarrow> Session \<Rightarrow> Session" where
  "after_reply im r s =
     s\<lparr>ses_stream := stream_run (wr_calls r) (ses_stream s),
       ses_deadline := fold (note_activity im) (wr_activity r) (ses_deadline s)\<rparr>"

definition socket_call :: "instant \<Rightarrow> ws_reply ses" where
  "socket_call im =
     (\<lambda>s rs. case rs of [] \<Rightarrow> None | r # rs' \<Rightarrow> Some (Inr r, after_reply im r s, rs'))"

text \<open>\<open>configure_session_deadline\<close> reads the clock just before the call.\<close>

definition configure :: "instant \<Rightarrow> WebSocketPlan \<Rightarrow> instant \<Rightarrow> WebSocketTerminalCause \<Rightarrow> unit ses" where
  "configure im plan phase phase_cause =
     (\<lambda>s rs. case rs of
        [] \<Rightarrow> None
      | r # _ \<Rightarrow>
          Some (Inr (), s\<lparr>ses_deadline := configure_session_deadline im (wr_clock r) (ses_total_deadline s)
                                            plan phase phase_cause\<rparr>, rs))"

definition fail_on_error :: "ws_reply \<Rightarrow> Message ses" where
  "fail_on_error r =
     (\<lambda>s rs. case wr_result r of
        Inl error \<Rightarrow> Some (Inl (socket_error s (wr_cancelled r) error), s, rs)
      | Inr message \<Rightarrow> Some (Inr message, s, rs))"

definition push_entry ::
  "string \<Rightarrow> string \<Rightarrow> u64 \<Rightarrow> nat \<Rightarrow> string \<Rightarrow> u16 option \<Rightarrow> TranscriptPayloadKind \<Rightarrow> bytes \<Rightarrow> unit ses" where
  "push_entry direction kind byts index check code payload_kind payload =
     ses_modify (\<lambda>s. s\<lparr>ses_transcript := ses_transcript s @
       [\<lparr>te_direction = direction, te_kind = kind, te_bytes = byts, te_action_index = Some index,
         te_check = check, te_code = code, te_payload_kind = Some payload_kind, te_payload = Some payload\<rparr>]\<rparr>)"

subsection \<open>Sending\<close>

definition is_close :: "Message \<Rightarrow> bool" where
  "is_close m = (case m of MClose _ \<Rightarrow> True | _ \<Rightarrow> False)"

definition send_within_budget :: "instant \<Rightarrow> WebSocketPlan \<Rightarrow> Message \<Rightarrow> bool \<Rightarrow> instant \<Rightarrow> unit ses" where
  "send_within_budget im plan message data_message phase_deadline =
     ses_bind (configure im plan phase_deadline (if is_close message then CloseTimeout else ActionTimeout)) (\<lambda>_.
     ses_bind (socket_call im) (\<lambda>r.
     ses_bind (fail_on_error r) (\<lambda>_.
     ses_bind sync_wire_counters (\<lambda>_.
     ses_modify (\<lambda>s. if data_message
        then s\<lparr>ses_counters := (ses_counters s)\<lparr>outbound_messages := outbound_messages (ses_counters s) + 1\<rparr>\<rparr>
        else s)))))"

definition send_message ::
  "instant \<Rightarrow> WebSocketPlan \<Rightarrow> Message \<Rightarrow> bool \<Rightarrow> u64 \<Rightarrow> instant \<Rightarrow> unit ses" where
  "send_message im plan message data_message payload_bytes phase_deadline =
     (\<lambda>s rs. if exceeds_outbound plan (ses_counters s) data_message payload_bytes
             then Some (Inl (terminal_failed BudgetExhausted), s, rs)
             else send_within_budget im plan message data_message phase_deadline s rs)"

definition send_recorded ::
  "instant \<Rightarrow> WebSocketPlan \<Rightarrow> Message \<Rightarrow> bool \<Rightarrow> bytes \<Rightarrow> instant \<Rightarrow> nat \<Rightarrow> string \<Rightarrow> TranscriptPayloadKind \<Rightarrow> unit ses" where
  "send_recorded im plan message data_message payload phase_deadline index kind payload_kind =
     ses_bind (send_message im plan message data_message (len_u64 payload) phase_deadline) (\<lambda>_.
     push_entry ''outbound'' kind (len_u64 payload) index ''sent'' None payload_kind payload)"

subsection \<open>Matching\<close>

definition decode_sealed_base64 :: "crates \<Rightarrow> string \<Rightarrow> bytes option" where
  "decode_sealed_base64 C v = b64_decode C v"

fun expectation_matches_text :: "crates \<Rightarrow> WebSocketAction \<Rightarrow> string \<Rightarrow> bool" where
  "expectation_matches_text C (ExpectText equals _) text = (text = equals)"
| "expectation_matches_text C (ExpectJson pointer equals schema _) text =
     (case json_from_slice C (as_bytes text) of
        None \<Rightarrow> False
      | Some document \<Rightarrow>
          (case (case pointer of None \<Rightarrow> Some document | Some p \<Rightarrow> json_pointer C document p) of
             None \<Rightarrow> False
           | Some v \<Rightarrow>
               if (case equals of None \<Rightarrow> False | Some expected \<Rightarrow> expected \<noteq> v) then False
               else (case schema of
                       Some sch \<Rightarrow> validate_schema_value C sch sch v ''$'' [] 0 = []
                     | None \<Rightarrow> True)))"
| "expectation_matches_text C _ text = False"

definition close_matches :: "close_frame option \<Rightarrow> u16 list \<Rightarrow> string option \<Rightarrow> bool" where
  "close_matches frame codes reason =
     ((case frame of None \<Rightarrow> 1005 | Some f \<Rightarrow> cf_code f) \<in> set codes
      \<and> (case reason of None \<Rightarrow> True
         | Some r \<Rightarrow> (case frame of None \<Rightarrow> False | Some f \<Rightarrow> cf_reason f = r)))"

definition close_observation :: "WebSocketCloseInitiator \<Rightarrow> close_frame option \<Rightarrow> WebSocketCloseObservation" where
  "close_observation initiator frame =
     \<lparr>co_initiator = initiator, co_code = (case frame of None \<Rightarrow> 1005 | Some f \<Rightarrow> cf_code f),
      co_reason = (case frame of None \<Rightarrow> [] | Some f \<Rightarrow> cf_reason f)\<rparr>"

datatype ClosePrecedence = Accepted | Rejected

definition close_precedence :: "bool \<Rightarrow> bool \<Rightarrow> ClosePrecedence" where
  "close_precedence matched acknowledged = (if matched then Accepted else Rejected)"

definition close_reason_bytes :: "close_frame option \<Rightarrow> bytes" where
  "close_reason_bytes frame = (case frame of None \<Rightarrow> [] | Some f \<Rightarrow> as_bytes (cf_reason f))"

fun is_expect_pong :: "WebSocketAction \<Rightarrow> bool" where
  "is_expect_pong (ExpectPong _ _) = True"
| "is_expect_pong _ = False"

fun is_expect_binary :: "WebSocketAction \<Rightarrow> bool" where
  "is_expect_binary (ExpectBinary _ _) = True"
| "is_expect_binary _ = False"

fun close_expected :: "WebSocketAction \<Rightarrow> close_frame option \<Rightarrow> bool" where
  "close_expected (ExpectClose codes reason _) frame = close_matches frame codes reason"
| "close_expected _ frame = False"

subsection \<open>Reading an expectation\<close>

datatype 'a turn_result = Again | Finished 'a

definition handle_ping ::
  "instant \<Rightarrow> WebSocketPlan \<Rightarrow> (instant \<times> WebSocketTerminalCause) option \<Rightarrow> nat \<Rightarrow> bytes \<Rightarrow> 'a turn_result ses" where
  "handle_ping im plan reconfigure index payload =
     ses_bind (push_entry ''inbound'' ''ping'' (len_u64 payload) index ''automatic'' None ControlPayload payload) (\<lambda>_.
     ses_bind (account_automatic_control plan (len_u64 payload)) (\<lambda>_.
     ses_bind (case reconfigure of Some (phase, cause) \<Rightarrow> configure im plan phase cause | None \<Rightarrow> ses_return ()) (\<lambda>_.
     ses_bind (socket_call im) (\<lambda>r.
     ses_bind (fail_on_error r) (\<lambda>_.
     ses_bind sync_wire_counters (\<lambda>_.
     ses_bind (push_entry ''outbound'' ''pong'' (len_u64 payload) index ''automatic'' None ControlPayload payload) (\<lambda>_.
     ses_return Again)))))))"

definition matched_or :: "string \<Rightarrow> bool \<Rightarrow> string" where
  "matched_or other matched = (if matched then ''matched'' else other)"

definition handle_close ::
  "instant \<Rightarrow> WebSocketPlan \<Rightarrow> WebSocketAction \<Rightarrow> nat \<Rightarrow> close_frame option
     \<Rightarrow> WebSocketCloseObservation option turn_result ses" where
  "handle_close im plan action index frame =
     (let close = close_observation Server frame; matched = close_expected action frame;
          reason = close_reason_bytes frame; code = map_option cf_code frame in
      ses_bind (push_entry ''inbound'' ''close'' (close_payload_bytes frame) index (matched_or ''mismatched'' matched) code
                  TextPayload reason) (\<lambda>_.
      ses_bind (account_automatic_control plan (close_payload_bytes frame)) (\<lambda>_.
      ses_bind (socket_call im) (\<lambda>r.
      let acknowledged = (case wr_result r of Inr _ \<Rightarrow> True | Inl _ \<Rightarrow> False) in
      ses_bind (if acknowledged
                then ses_bind sync_wire_counters (\<lambda>_.
                     push_entry ''outbound'' ''close'' (close_payload_bytes frame) index ''automatic'' code TextPayload reason)
                else ses_return ()) (\<lambda>_.
      case close_precedence matched acknowledged of
        Accepted \<Rightarrow> ses_return (Finished (Some close))
      | Rejected \<Rightarrow>
          ses_fail \<lparr>ter_outcome = Failed, ter_cause = ExpectationFailed, ter_exit = 1, ter_close = Some close\<rparr>)))))"

definition handle_message ::
  "crates \<Rightarrow> instant \<Rightarrow> WebSocketPlan \<Rightarrow> WebSocketAction \<Rightarrow> bytes option \<Rightarrow> instant \<Rightarrow> nat \<Rightarrow> Message
     \<Rightarrow> WebSocketCloseObservation option turn_result ses" where
  "handle_message C im plan action expected_payload phase_deadline index message =
     (case message of
        MPing payload \<Rightarrow> handle_ping im plan (Some (phase_deadline, ActionTimeout)) index payload
      | MPong payload \<Rightarrow>
          (let matched = is_expect_pong action \<and> expected_payload = Some payload in
           ses_bind (push_entry ''inbound'' ''pong'' (len_u64 payload) index (matched_or ''ignored'' matched) None ControlPayload payload)
             (\<lambda>_. ses_return (if matched then Finished None else Again)))
      | MText actual \<Rightarrow>
          (let matched = expectation_matches_text C action actual in
           ses_bind (push_entry ''inbound'' ''text'' (len_u64 actual) index (matched_or ''mismatched'' matched) None TextPayload
                       (as_bytes actual))
             (\<lambda>_. if matched then ses_return (Finished None) else ses_fail (terminal_failed ExpectationFailed)))
      | MBinary actual \<Rightarrow>
          (let matched = is_expect_binary action \<and> expected_payload = Some actual in
           ses_bind (push_entry ''inbound'' ''binary'' (len_u64 actual) index (matched_or ''mismatched'' matched) None BinaryPayload actual)
             (\<lambda>_. if matched then ses_return (Finished None) else ses_fail (terminal_failed ExpectationFailed)))
      | MClose frame \<Rightarrow> handle_close im plan action index frame
      | MFrame payload \<Rightarrow>
          ses_bind (push_entry ''inbound'' ''frame'' (len_u64 payload) index ''protocol-error'' None BinaryPayload payload)
            (\<lambda>_. ses_fail (terminal_error ProtocolViolation)))"

text \<open>One turn of the loop of \<open>read_expectation\<close>.\<close>

definition read_turn ::
  "crates \<Rightarrow> instant \<Rightarrow> WebSocketPlan \<Rightarrow> WebSocketAction \<Rightarrow> bytes option \<Rightarrow> instant \<Rightarrow> nat
     \<Rightarrow> WebSocketCloseObservation option turn_result ses" where
  "read_turn C im plan action expected_payload phase_deadline index =
     ses_bind (configure im plan phase_deadline ActionTimeout) (\<lambda>_.
     ses_bind (socket_call im) (\<lambda>r.
     ses_bind (fail_on_error r) (\<lambda>message.
     ses_bind sync_wire_counters (\<lambda>_.
     ses_bind (account_inbound plan message) (\<lambda>_.
     handle_message C im plan action expected_payload phase_deadline index message)))))"

text \<open>A loop whose turns each take at least one reply ends.\<close>

definition consuming :: "'a ses \<Rightarrow> bool" where
  "consuming m = (\<forall>s rs x s' rs'. m s rs = Some (Inr x, s', rs') \<longrightarrow> length rs' < length rs)"

function ses_loop :: "'a turn_result ses \<Rightarrow> 'a ses" where
  "ses_loop body s rs =
     (if \<not> consuming body then None
      else (case body s rs of
              None \<Rightarrow> None
            | Some (Inl t, s', rs') \<Rightarrow> Some (Inl t, s', rs')
            | Some (Inr (Finished x), s', rs') \<Rightarrow> Some (Inr x, s', rs')
            | Some (Inr Again, s', rs') \<Rightarrow> ses_loop body s' rs'))"
  by pat_completeness auto
termination
  by (relation "measure (\<lambda>(body, s, rs). length rs)") (auto simp: consuming_def)

declare ses_loop.simps [simp del]

definition read_expectation ::
  "crates \<Rightarrow> instant \<Rightarrow> WebSocketPlan \<Rightarrow> WebSocketAction \<Rightarrow> bytes option \<Rightarrow> instant \<Rightarrow> nat
     \<Rightarrow> WebSocketCloseObservation option ses" where
  "read_expectation C im plan action expected_payload phase_deadline index =
     ses_loop (read_turn C im plan action expected_payload phase_deadline index)"

subsection \<open>Closing\<close>

definition close_turn_message :: "instant \<Rightarrow> WebSocketPlan \<Rightarrow> nat \<Rightarrow> Message \<Rightarrow> unit turn_result ses" where
  "close_turn_message im plan index message =
     (case message of
        MPing payload \<Rightarrow> handle_ping im plan None index payload
      | MClose frame \<Rightarrow>
          ses_bind (push_entry ''inbound'' ''close'' (close_payload_bytes frame) index ''acknowledged'' (map_option cf_code frame)
                      TextPayload (close_reason_bytes frame))
            (\<lambda>_. ses_return (Finished ()))
      | MPong payload \<Rightarrow>
          ses_bind (push_entry ''inbound'' ''pong'' (len_u64 payload) index ''ignored'' None ControlPayload payload)
            (\<lambda>_. ses_return Again)
      | MText payload \<Rightarrow>
          ses_bind (push_entry ''inbound'' ''text'' (len_u64 payload) index ''unexpected'' None TextPayload (as_bytes payload))
            (\<lambda>_. ses_fail (terminal_failed ExpectationFailed))
      | MBinary payload \<Rightarrow>
          ses_bind (push_entry ''inbound'' ''binary'' (len_u64 payload) index ''unexpected'' None BinaryPayload payload)
            (\<lambda>_. ses_fail (terminal_failed ExpectationFailed))
      | MFrame payload \<Rightarrow>
          ses_bind (push_entry ''inbound'' ''frame'' (len_u64 payload) index ''protocol-error'' None BinaryPayload payload)
            (\<lambda>_. ses_fail (terminal_failed ExpectationFailed)))"

definition close_turn :: "instant \<Rightarrow> WebSocketPlan \<Rightarrow> instant \<Rightarrow> nat \<Rightarrow> unit turn_result ses" where
  "close_turn im plan phase_deadline index =
     ses_bind (configure im plan phase_deadline CloseTimeout) (\<lambda>_.
     ses_bind (socket_call im) (\<lambda>r.
     if wr_result r = Inl WsConnectionClosed then ses_return (Finished ())
     else ses_bind (fail_on_error r) (\<lambda>message.
          ses_bind sync_wire_counters (\<lambda>_.
          ses_bind (account_inbound plan message) (\<lambda>_.
          close_turn_message im plan index message)))))"

definition close_loop :: "instant \<Rightarrow> WebSocketPlan \<Rightarrow> instant \<Rightarrow> nat \<Rightarrow> unit ses" where
  "close_loop im plan phase_deadline index = ses_loop (close_turn im plan phase_deadline index)"

definition next_clock :: "(ws_reply \<Rightarrow> instant) \<Rightarrow> ws_reply list \<Rightarrow> instant" where
  "next_clock f rs = (case rs of [] \<Rightarrow> 0 | r # _ \<Rightarrow> f r)"

definition execute_client_close :: "instant \<Rightarrow> WebSocketPlan \<Rightarrow> u16 \<Rightarrow> string \<Rightarrow> nat \<Rightarrow> unit ses" where
  "execute_client_close im plan code reason index =
     (\<lambda>s rs.
        let phase_deadline = min (deadline im (next_clock wr_close_clock rs) (close_timeout_ms (wp_limits plan)))
                               (ses_total_deadline s)
        in ses_bind (send_message im plan (MClose (Some \<lparr>cf_code = code, cf_reason = reason\<rparr>)) False
                       (len_u64 reason + 2) phase_deadline) (\<lambda>_.
           ses_bind (push_entry ''outbound'' ''close'' (len_u64 reason + 2) index ''sent'' (Some code) TextPayload
                       (as_bytes reason)) (\<lambda>_.
           close_loop im plan phase_deadline index)) s rs)"

subsection \<open>The session\<close>

fun action_timeout :: "WebSocketPlan \<Rightarrow> WebSocketAction \<Rightarrow> u64" where
  "action_timeout plan (ExpectText _ t) = (case t of Some ms \<Rightarrow> ms | None \<Rightarrow> action_timeout_ms (wp_limits plan))"
| "action_timeout plan (ExpectBinary _ t) = (case t of Some ms \<Rightarrow> ms | None \<Rightarrow> action_timeout_ms (wp_limits plan))"
| "action_timeout plan (ExpectJson _ _ _ t) = (case t of Some ms \<Rightarrow> ms | None \<Rightarrow> action_timeout_ms (wp_limits plan))"
| "action_timeout plan (ExpectPong _ t) = (case t of Some ms \<Rightarrow> ms | None \<Rightarrow> action_timeout_ms (wp_limits plan))"
| "action_timeout plan (ExpectClose _ _ t) = (case t of Some ms \<Rightarrow> ms | None \<Rightarrow> action_timeout_ms (wp_limits plan))"
| "action_timeout plan (Close _ _) = close_timeout_ms (wp_limits plan)"
| "action_timeout plan _ = action_timeout_ms (wp_limits plan)"

definition action_deadline :: "instant \<Rightarrow> instant \<Rightarrow> WebSocketPlan \<Rightarrow> instant \<Rightarrow> WebSocketAction \<Rightarrow> instant" where
  "action_deadline im now plan tot action = min (deadline im now (action_timeout plan action)) tot"

fun expected_payload_of :: "crates \<Rightarrow> WebSocketAction \<Rightarrow> ExecError + bytes option" where
  "expected_payload_of C (ExpectBinary payload _) =
     and_then (ok_or (decode_sealed_base64 C payload) InvalidSeal) (\<lambda>bs. Inr (Some bs))"
| "expected_payload_of C (ExpectPong payload _) =
     and_then (ok_or (decode_sealed_base64 C payload) InvalidSeal) (\<lambda>bs. Inr (Some bs))"
| "expected_payload_of C _ = Inr None"

text \<open>What one action does; \<open>Some close\<close> ends the session as passed.\<close>

fun run_action ::
  "crates \<Rightarrow> instant \<Rightarrow> WebSocketPlan \<Rightarrow> nat \<Rightarrow> WebSocketAction \<Rightarrow> instant \<Rightarrow> bytes option
     \<Rightarrow> ExecError + WebSocketCloseObservation option ses" where
  "run_action C im plan index (SendText text) dl ep =
     Inr (ses_bind (send_recorded im plan (MText text) True (as_bytes text) dl index ''text'' TextPayload)
            (\<lambda>_. ses_return None))"
| "run_action C im plan index (SendBinary payload) dl ep =
     and_then (ok_or (decode_sealed_base64 C payload) InvalidSeal) (\<lambda>bs.
     Inr (ses_bind (send_recorded im plan (MBinary bs) True bs dl index ''binary'' BinaryPayload)
            (\<lambda>_. ses_return None)))"
| "run_action C im plan index (Ping payload) dl ep =
     and_then (ok_or (decode_sealed_base64 C payload) InvalidSeal) (\<lambda>bs.
     Inr (ses_bind (send_recorded im plan (MPing bs) False bs dl index ''ping'' ControlPayload)
            (\<lambda>_. ses_return None)))"
| "run_action C im plan index (Close code reason) dl ep =
     Inr (ses_bind (execute_client_close im plan code reason index)
            (\<lambda>_. ses_return (Some \<lparr>co_initiator = Client, co_code = code, co_reason = reason\<rparr>)))"
| "run_action C im plan index action dl ep = Inr (read_expectation C im plan action ep dl index)"

fun run_actions ::
  "crates \<Rightarrow> instant \<Rightarrow> WebSocketPlan \<Rightarrow> nat \<Rightarrow> WebSocketAction list \<Rightarrow> Session \<Rightarrow> ws_reply list
     \<Rightarrow> ExecError + ((SessionTerminal \<times> Session \<times> ws_reply list) option)" where
  "run_actions C im plan index [] s rs = Inr (Some (terminal_passed None, s, rs))"
| "run_actions C im plan index (action # actions) s rs =
     (let dl = action_deadline im (next_clock wr_action_clock rs) plan (ses_total_deadline s) action in
      and_then (expected_payload_of C action) (\<lambda>ep.
      and_then (run_action C im plan index action dl ep) (\<lambda>m.
      case m s rs of
        None \<Rightarrow> Inr None
      | Some (Inl t, s', rs') \<Rightarrow> Inr (Some (t, s', rs'))
      | Some (Inr (Some close), s', rs') \<Rightarrow> Inr (Some (terminal_passed (Some close), s', rs'))
      | Some (Inr None, s', rs') \<Rightarrow> run_actions C im plan (index + 1) actions s' rs')))"

definition start_session :: "WebSocketPlan \<Rightarrow> AccountedStream \<Rightarrow> instant \<Rightarrow> bool \<Rightarrow> Session" where
  "start_session plan stream tot cancellable =
     \<lparr>ses_stream = stream, ses_deadline = fixed_deadline tot TotalTimeout, ses_total_deadline = tot,
      ses_cancellable = cancellable, ses_counters = default_counters, ses_transcript = []\<rparr>"

text \<open>The terminal result and the final counters, as \<open>finish_session\<close> records them.\<close>

definition execute_session ::
  "crates \<Rightarrow> instant \<Rightarrow> WebSocketPlan \<Rightarrow> Session \<Rightarrow> ws_reply list
     \<Rightarrow> ExecError + ((SessionTerminal \<times> WebSocketCounters \<times> TranscriptEntry list) option)" where
  "execute_session C im plan s rs =
     and_then (run_actions C im plan 0 (wp_actions plan) s rs) (\<lambda>r.
       Inr (map_option (\<lambda>(t, s', rs'). (t, copy_wire_counters s', ses_transcript s')) r))"

end
