(* ===== verification/Ws_Session_Props.thy ===== *)
theory Ws_Session_Props
  imports Ws_Session Wire_Props
begin

text \<open>
  The session state machine: a small logic of triples over session operations, the locale
  \<open>session_invariant\<close> that lifts an invariant of the primitive updates to whole sessions, and the properties
  of a session: its counters stay within the sealed limits, its outcome, exit status and cause agree, a
  passed session fulfilled every action in order, and it ends at the first failing socket call at the latest.
\<close>

named_theorems ses_triples "rules for session triples"

subsection \<open>Triples\<close>

definition ses_triple ::
  "(Session \<Rightarrow> bool) \<Rightarrow> 'a ses \<Rightarrow> ('a \<Rightarrow> Session \<Rightarrow> bool) \<Rightarrow> (SessionTerminal \<Rightarrow> Session \<Rightarrow> bool) \<Rightarrow> bool" where
  "ses_triple P m Q T =
     (\<forall>s rs r s' rs'. P s \<longrightarrow> m s rs = Some (r, s', rs') \<longrightarrow> (case r of Inl t \<Rightarrow> T t s' | Inr x \<Rightarrow> Q x s'))"

lemma ses_triple_elim:
  "ses_triple P m Q T \<Longrightarrow> P s \<Longrightarrow> m s rs = Some (r, s', rs') \<Longrightarrow> (case r of Inl t \<Rightarrow> T t s' | Inr x \<Rightarrow> Q x s')"
  unfolding ses_triple_def by blast

lemma ses_triple_ok: "ses_triple P m Q T \<Longrightarrow> P s \<Longrightarrow> m s rs = Some (Inr x, s', rs') \<Longrightarrow> Q x s'"
  using ses_triple_elim by fastforce

lemma ses_triple_end: "ses_triple P m Q T \<Longrightarrow> P s \<Longrightarrow> m s rs = Some (Inl t, s', rs') \<Longrightarrow> T t s'"
  using ses_triple_elim by fastforce

lemma ses_bind_Some:
  "ses_bind m f s rs = Some (r, s', rs') \<longleftrightarrow>
     (\<exists>r1 s1 rs1. m s rs = Some (r1, s1, rs1) \<and>
        (case r1 of Inl t \<Rightarrow> r = Inl t \<and> s' = s1 \<and> rs' = rs1 | Inr x \<Rightarrow> f x s1 rs1 = Some (r, s', rs')))"
  by (auto simp: ses_bind_def split: option.split sum.split)

lemma ses_triple_bind:
  assumes "ses_triple P m R T" and "\<And>x. ses_triple (R x) (f x) Q T"
  shows "ses_triple P (ses_bind m f) Q T"
  unfolding ses_triple_def
proof (intro allI impI)
  fix s rs r s' rs' assume "P s" and "ses_bind m f s rs = Some (r, s', rs')"
  then obtain r1 s1 rs1 where m: "m s rs = Some (r1, s1, rs1)"
    and rest: "case r1 of Inl t \<Rightarrow> r = Inl t \<and> s' = s1 \<and> rs' = rs1 | Inr x \<Rightarrow> f x s1 rs1 = Some (r, s', rs')"
    by (auto simp: ses_bind_Some)
  show "case r of Inl t \<Rightarrow> T t s' | Inr x \<Rightarrow> Q x s'"
  proof (cases r1)
    case (Inl t)
    with rest m ses_triple_end [OF assms(1) \<open>P s\<close>] show ?thesis by simp
  next
    case (Inr x)
    with m have "R x s1" using ses_triple_ok [OF assms(1) \<open>P s\<close>] by simp
    with Inr rest show ?thesis using ses_triple_elim [OF assms(2)] by simp
  qed
qed

lemma ses_triple_seq [ses_triples]:
  "ses_triple P m (\<lambda>_. P) T \<Longrightarrow> (\<And>x. ses_triple P (f x) Q T) \<Longrightarrow> ses_triple P (ses_bind m f) Q T"
  by (rule ses_triple_bind)

lemma ses_triple_return [ses_triples]: "(\<And>s. P s \<Longrightarrow> Q x s) \<Longrightarrow> ses_triple P (ses_return x) Q T"
  by (simp add: ses_triple_def ses_return_def)

lemma ses_triple_fail [ses_triples]: "(\<And>s. P s \<Longrightarrow> T t s) \<Longrightarrow> ses_triple P (ses_fail t) Q T"
  by (simp add: ses_triple_def ses_fail_def)

lemma ses_triple_modify: "(\<And>s. P s \<Longrightarrow> Q () (f s)) \<Longrightarrow> ses_triple P (ses_modify f) Q T"
  by (simp add: ses_triple_def ses_modify_def)

lemma ses_triple_if [ses_triples]:
  "(b \<Longrightarrow> ses_triple P m Q T) \<Longrightarrow> (\<not> b \<Longrightarrow> ses_triple P m' Q T) \<Longrightarrow> ses_triple P (if b then m else m') Q T"
  by simp

lemma ses_triple_loop:
  assumes body: "ses_triple I body (\<lambda>x s. case x of Again \<Rightarrow> I s | Finished y \<Rightarrow> Q y s) T"
  shows "ses_triple I (ses_loop body) Q T"
proof -
  have "I s \<Longrightarrow> ses_loop body s rs = Some (r, s', rs') \<Longrightarrow> (case r of Inl t \<Rightarrow> T t s' | Inr x \<Rightarrow> Q x s')" for s rs r s' rs'
    using body
  proof (induction body s rs rule: ses_loop.induct)
    case (1 body s rs)
    note run = 1(3)
    from run have cons: "consuming body" by (subst (asm) ses_loop.simps) (simp split: if_splits)
    from 1(3) cons obtain r1 s1 rs1 where b: "body s rs = Some (r1, s1, rs1)"
      by (subst (asm) ses_loop.simps) (auto split: option.splits)
    note here = ses_triple_elim [OF 1(4) 1(2) b]
    consider t where "r1 = Inl t" | x where "r1 = Inr (Finished x)" | "r1 = Inr Again"
      by (cases r1) (auto intro: turn_result.exhaust)
    then show ?case
    proof cases
      case 1
      with run cons b here show ?thesis by (subst (asm) ses_loop.simps) auto
    next
      case 2
      with run cons b here show ?thesis by (subst (asm) ses_loop.simps) auto
    next
      case 3
      have "ses_loop body s1 rs1 = Some (r, s', rs')" using 1(3) cons b 3 by (subst (asm) ses_loop.simps) simp
      then show ?thesis using 1(1) [OF _ b] cons 3 here 1(4) by simp
    qed
  qed
  then show ?thesis unfolding ses_triple_def by blast
qed

lemma ses_triple_pre: "ses_triple P m Q T \<Longrightarrow> (\<And>s. P' s \<Longrightarrow> P s) \<Longrightarrow> ses_triple P' m Q T"
  unfolding ses_triple_def by blast

lemma ses_triple_guard:
  "(\<And>s. P s \<Longrightarrow> T t s) \<Longrightarrow> ses_triple (\<lambda>s. P s \<and> \<not> b s) m Q T
     \<Longrightarrow> ses_triple P (\<lambda>s rs. if b s then Some (Inl t, s, rs) else m s rs) Q T"
  unfolding ses_triple_def by auto

lemma ses_triple_frame:
  assumes "ses_triple I m (\<lambda>_. I) T" and "\<And>s rs x s' rs'. m s rs = Some (Inr x, s', rs') \<Longrightarrow> P s \<Longrightarrow> P s'"
  shows "ses_triple (\<lambda>s. I s \<and> P s) m (\<lambda>_ s. I s \<and> P s) T"
  unfolding ses_triple_def
proof (intro allI impI)
  fix s rs r s' rs' assume "I s \<and> P s" and "m s rs = Some (r, s', rs')"
  then show "case r of Inl t \<Rightarrow> T t s' | Inr x \<Rightarrow> I s' \<and> P s'"
    using ses_triple_elim [OF assms(1), of s rs r s' rs'] assms(2) by (cases r) auto
qed

subsection \<open>Every turn of a loop takes a reply\<close>

definition shrinks :: "'a ses \<Rightarrow> bool" where
  "shrinks m = (\<forall>s rs r s' rs'. m s rs = Some (r, s', rs') \<longrightarrow> length rs' \<le> length rs)"

lemma consuming_ok: "consuming m \<Longrightarrow> m s rs = Some (Inr x, s', rs') \<Longrightarrow> length rs' < length rs"
  unfolding consuming_def by blast

lemma shrinks_ok: "shrinks m \<Longrightarrow> m s rs = Some (r, s', rs') \<Longrightarrow> length rs' \<le> length rs"
  unfolding shrinks_def by blast

lemma ses_bind_Inr:
  "ses_bind m f s rs = Some (Inr y, s', rs') \<longleftrightarrow>
     (\<exists>x s1 rs1. m s rs = Some (Inr x, s1, rs1) \<and> f x s1 rs1 = Some (Inr y, s', rs'))"
  by (auto simp: ses_bind_def split: option.split sum.split)

lemma consuming_bind_first:
  assumes "consuming m" and "\<And>x. shrinks (f x)"
  shows "consuming (ses_bind m f)"
  unfolding consuming_def ses_bind_Inr
proof (intro allI impI, elim exE conjE)
  fix s rs y s' rs' x s1 rs1
  assume "m s rs = Some (Inr x, s1, rs1)" and "f x s1 rs1 = Some (Inr y, s', rs')"
  with consuming_ok [OF assms(1)] shrinks_ok [OF assms(2)] show "length rs' < length rs" by fastforce
qed

lemma consuming_bind_next:
  assumes "shrinks m" and "\<And>x. consuming (f x)"
  shows "consuming (ses_bind m f)"
  unfolding consuming_def ses_bind_Inr
proof (intro allI impI, elim exE conjE)
  fix s rs y s' rs' x s1 rs1
  assume "m s rs = Some (Inr x, s1, rs1)" and "f x s1 rs1 = Some (Inr y, s', rs')"
  with shrinks_ok [OF assms(1)] consuming_ok [OF assms(2)] show "length rs' < length rs" by fastforce
qed

lemma shrinks_bind:
  assumes "shrinks m" and "\<And>x. shrinks (f x)"
  shows "shrinks (ses_bind m f)"
  unfolding shrinks_def
proof (intro allI impI)
  fix s rs r s' rs'
  assume "ses_bind m f s rs = Some (r, s', rs')"
  then obtain r1 s1 rs1 where m: "m s rs = Some (r1, s1, rs1)"
    and rest: "case r1 of Inl t \<Rightarrow> r = Inl t \<and> s' = s1 \<and> rs' = rs1 | Inr x \<Rightarrow> f x s1 rs1 = Some (r, s', rs')"
    by (auto simp: ses_bind_Some)
  show "length rs' \<le> length rs"
    using shrinks_ok [OF assms(1) m] rest shrinks_ok [OF assms(2)] by (cases r1) (fastforce+)
qed

lemma consuming_socket_call: "consuming (socket_call im)"
  by (auto simp: consuming_def socket_call_def split: list.splits)

lemma shrinks_basic:
  "shrinks (socket_call im)" "shrinks (configure im plan phase c)" "shrinks (fail_on_error r)"
  "shrinks sync_wire_counters" "shrinks (account_inbound plan m)" "shrinks (account_automatic_control plan n)"
  "shrinks (push_entry d k n i ch co pk p)" "shrinks (ses_return x)" "shrinks (ses_fail t)"
  by (auto simp: shrinks_def socket_call_def configure_def fail_on_error_def sync_wire_counters_def account_inbound_def
      account_automatic_control_def push_entry_def ses_modify_def ses_return_def ses_fail_def Let_def
      split: list.splits sum.splits option.splits if_splits prod.splits)

lemma shrinks_if: "shrinks m \<Longrightarrow> shrinks m' \<Longrightarrow> shrinks (if b then m else m')"
  by simp

lemmas shrinks_rules = shrinks_basic shrinks_bind shrinks_if

lemma shrinks_handle_ping: "shrinks (handle_ping im plan reconf index payload)"
  unfolding handle_ping_def by (intro shrinks_rules) (auto split: option.split intro: shrinks_rules)

lemma shrinks_handle_close: "shrinks (handle_close im plan action index frame)"
  unfolding handle_close_def Let_def
  by (intro shrinks_rules) (auto split: ClosePrecedence.split intro!: shrinks_rules)

lemma shrinks_handle_message: "shrinks (handle_message C im plan action ep dl index message)"
  unfolding handle_message_def Let_def
  by (cases message) (auto intro!: shrinks_rules shrinks_handle_ping shrinks_handle_close)

lemma consuming_read_turn: "consuming (read_turn C im plan action ep dl index)"
  unfolding read_turn_def
  by (intro consuming_bind_next [OF shrinks_basic(2)] consuming_bind_first [OF consuming_socket_call] shrinks_rules
      shrinks_handle_message)

lemma shrinks_close_turn_message: "shrinks (close_turn_message im plan index message)"
  unfolding close_turn_message_def
  by (cases message) (auto intro!: shrinks_rules shrinks_handle_ping)

lemma consuming_close_turn: "consuming (close_turn im plan dl index)"
  unfolding close_turn_def
  by (intro consuming_bind_next [OF shrinks_basic(2)] consuming_bind_first [OF consuming_socket_call] shrinks_rules
      shrinks_close_turn_message)

text \<open>The guard of \<open>ses_loop\<close> is therefore always met: the loops are the loops of the source.\<close>

lemma ses_loop_unfold:
  assumes "consuming body"
  shows "ses_loop body s rs =
     (case body s rs of
        None \<Rightarrow> None
      | Some (Inl t, s', rs') \<Rightarrow> Some (Inl t, s', rs')
      | Some (Inr (Finished x), s', rs') \<Rightarrow> Some (Inr x, s', rs')
      | Some (Inr Again, s', rs') \<Rightarrow> ses_loop body s' rs')"
  using assms by (subst ses_loop.simps) simp

lemma read_expectation_unfold:
  "read_expectation C im plan action ep dl index s rs =
     (case read_turn C im plan action ep dl index s rs of
        None \<Rightarrow> None
      | Some (Inl t, s', rs') \<Rightarrow> Some (Inl t, s', rs')
      | Some (Inr (Finished x), s', rs') \<Rightarrow> Some (Inr x, s', rs')
      | Some (Inr Again, s', rs') \<Rightarrow> read_expectation C im plan action ep dl index s' rs')"
  unfolding read_expectation_def by (rule ses_loop_unfold [OF consuming_read_turn])

lemma close_loop_unfold:
  "close_loop im plan dl index s rs =
     (case close_turn im plan dl index s rs of
        None \<Rightarrow> None
      | Some (Inl t, s', rs') \<Rightarrow> Some (Inl t, s', rs')
      | Some (Inr (Finished x), s', rs') \<Rightarrow> Some (Inr x, s', rs')
      | Some (Inr Again, s', rs') \<Rightarrow> close_loop im plan dl index s' rs')"
  unfolding close_loop_def by (rule ses_loop_unfold [OF consuming_close_turn])

subsection \<open>Invariants of sessions\<close>

text \<open>
  The primitive updates of a session: a socket call, a deadline, a transcript entry, the copied wire
  counters, a sent data message and a received message.  \<open>I\<close> holds while the session runs and \<open>T\<close> of a terminal
  result and the session it ends.
\<close>

definition set_phase :: "instant \<Rightarrow> instant \<Rightarrow> WebSocketPlan \<Rightarrow> instant \<Rightarrow> WebSocketTerminalCause \<Rightarrow> Session \<Rightarrow> Session" where
  "set_phase im now plan phase c s =
     s\<lparr>ses_deadline := configure_session_deadline im now (ses_total_deadline s) plan phase c\<rparr>"

definition add_entry :: "TranscriptEntry \<Rightarrow> Session \<Rightarrow> Session" where
  "add_entry e s = s\<lparr>ses_transcript := ses_transcript s @ [e]\<rparr>"

definition sync_counters :: "Session \<Rightarrow> Session" where
  "sync_counters s = s\<lparr>ses_counters := copy_wire_counters s\<rparr>"

definition count_sent :: "Session \<Rightarrow> Session" where
  "count_sent s = s\<lparr>ses_counters := (ses_counters s)\<lparr>outbound_messages := outbound_messages (ses_counters s) + 1\<rparr>\<rparr>"

definition count_received :: "Message \<Rightarrow> Session \<Rightarrow> Session" where
  "count_received m s =
     (if fst (message_size m)
      then s\<lparr>ses_counters := (ses_counters s)\<lparr>inbound_messages := saturating_add (inbound_messages (ses_counters s)) 1\<rparr>\<rparr>
      else s)"

lemma account_inbound_alt:
  "account_inbound plan m s rs =
     (let s' = count_received m s
      in if max_inbound_messages (wp_limits plan) < inbound_messages (ses_counters s')
            \<or> max_message_bytes (wp_limits plan) < snd (message_size m)
         then Some (Inl (terminal_failed BudgetExhausted), s', rs) else Some (Inr (), s', rs))"
  by (cases m) (simp_all add: account_inbound_def count_received_def Let_def)

lemma push_entry_alt:
  "push_entry d k n i ch co pk p =
     ses_modify (add_entry \<lparr>te_direction = d, te_kind = k, te_bytes = n, te_action_index = Some i,
         te_check = ch, te_code = co, te_payload_kind = Some pk, te_payload = Some p\<rparr>)"
  by (simp add: push_entry_def add_entry_def [abs_def])

lemma run_actions_Cons:
  assumes "run_actions C im plan index (action # actions) s rs = Inr (Some (t, s', rs'))"
  obtains (stopped) dl ep m t' where "expected_payload_of C action = Inr ep" "run_action C im plan index action dl ep = Inr m"
      "m s rs = Some (Inl t', s', rs')" "t = t'"
    | (closed) dl ep m cl where "expected_payload_of C action = Inr ep" "run_action C im plan index action dl ep = Inr m"
      "m s rs = Some (Inr (Some cl), s', rs')" "t = terminal_passed (Some cl)"
    | (further) dl ep m s1 rs1 where "expected_payload_of C action = Inr ep" "run_action C im plan index action dl ep = Inr m"
      "m s rs = Some (Inr None, s1, rs1)" "run_actions C im plan (index + 1) actions s1 rs1 = Inr (Some (t, s', rs'))"
proof -
  define dl where "dl = action_deadline im (next_clock wr_action_clock rs) plan (ses_total_deadline s) action"
  from assms obtain ep m where ep: "expected_payload_of C action = Inr ep" "run_action C im plan index action dl ep = Inr m"
    and rest: "(case m s rs of
        None \<Rightarrow> Inr None
      | Some (Inl t, s', rs') \<Rightarrow> Inr (Some (t, s', rs'))
      | Some (Inr (Some close), s', rs') \<Rightarrow> Inr (Some (terminal_passed (Some close), s', rs'))
      | Some (Inr None, s', rs') \<Rightarrow> run_actions C im plan (index + 1) actions s' rs') = Inr (Some (t, s', rs'))"
    by (auto simp: Let_def and_then_Inr_iff dl_def)
  from rest obtain r s1 rs1 where m: "m s rs = Some (r, s1, rs1)" by (cases "m s rs") auto
  consider t' where "r = Inl t'" | cl where "r = Inr (Some cl)" | "r = Inr None"
    by (metis option.exhaust sum.exhaust)
  then show thesis
  proof cases
    case 1
    with rest m show ?thesis using stopped [OF ep] by simp
  next
    case 2
    with rest m show ?thesis using closed [OF ep] by simp
  next
    case 3
    with rest m show ?thesis using further [OF ep] by simp
  qed
qed

locale session_invariant =
  fixes im :: instant and plan :: WebSocketPlan
    and I :: "Session \<Rightarrow> bool" and T :: "SessionTerminal \<Rightarrow> Session \<Rightarrow> bool"
  assumes reply_inv: "I s \<Longrightarrow> I (after_reply im r s)"
    and phase_inv: "I s \<Longrightarrow> c \<in> {ActionTimeout, CloseTimeout} \<Longrightarrow> I (set_phase im now plan phase c s)"
    and entry_inv: "I s \<Longrightarrow> I (add_entry e s)"
    and sync_inv: "I s \<Longrightarrow> I (sync_counters s)"
    and sent_inv: "I s \<Longrightarrow> outbound_messages (ses_counters s) < max_outbound_messages (wp_limits plan) \<Longrightarrow> I (count_sent s)"
    and received_inv: "I s \<Longrightarrow> inbound_messages (ses_counters (count_received m s)) \<le> max_inbound_messages (wp_limits plan)
          \<Longrightarrow> I (count_received m s)"
    and over_end: "I s \<Longrightarrow> T (terminal_failed BudgetExhausted) (count_received m s)"
    and budget_end: "I s \<Longrightarrow> T (terminal_failed BudgetExhausted) s"
    and wire_end: "I s \<Longrightarrow> wa_failure (as_accounting (ses_stream s)) = Some cause \<Longrightarrow> T (wire_terminal cause) s"
    and error_end: "I s \<Longrightarrow> T (socket_error s b err) s"
    and mismatch_end: "I s \<Longrightarrow> T (terminal_failed ExpectationFailed) s"
    and rejected_end: "I s \<Longrightarrow>
          T \<lparr>ter_outcome = Failed, ter_cause = ExpectationFailed, ter_exit = 1, ter_close = Some (close_observation Server f)\<rparr> s"
    and frame_end: "I s \<Longrightarrow> T (terminal_error ProtocolViolation) s"
    and passed_end: "I s \<Longrightarrow> T (terminal_passed cl) s"
begin

lemma socket_call_keeps: "ses_triple I (socket_call im) (\<lambda>_. I) T"
  using reply_inv by (auto simp: ses_triple_def socket_call_def split: list.splits)

lemma configure_keeps:
  "ses_triple I (configure im plan phase ActionTimeout) (\<lambda>_. I) T"
  "ses_triple I (configure im plan phase CloseTimeout) (\<lambda>_. I) T"
  "ses_triple I (configure im plan phase (if b then CloseTimeout else ActionTimeout)) (\<lambda>_. I) T"
  using phase_inv by (auto simp: ses_triple_def configure_def set_phase_def split: list.splits)

lemma fail_on_error_keeps: "ses_triple I (fail_on_error r) (\<lambda>_. I) T"
  using error_end by (auto simp: ses_triple_def fail_on_error_def split: sum.splits)

lemma sync_keeps: "ses_triple I sync_wire_counters (\<lambda>_. I) T"
proof -
  have "T (wire_terminal c) (sync_counters s)" if "I s" "wa_failure (as_accounting (ses_stream s)) = Some c" for s c
    using wire_end [OF sync_inv [OF that(1)]] that(2) by (simp add: sync_counters_def)
  then show ?thesis
    using sync_inv
    by (auto simp: ses_triple_def sync_wire_counters_def Let_def sync_counters_def split: option.splits)
qed

lemma push_entry_keeps: "ses_triple I (push_entry d k n i ch co pk p) (\<lambda>_. I) T"
  unfolding push_entry_alt by (rule ses_triple_modify) (rule entry_inv)

lemma account_inbound_keeps: "ses_triple I (account_inbound plan m) (\<lambda>_. I) T"
  using received_inv over_end by (auto simp: ses_triple_def account_inbound_alt Let_def split: if_splits)

lemma account_control_keeps: "ses_triple I (account_automatic_control plan n) (\<lambda>_. I) T"
  using budget_end by (auto simp: ses_triple_def account_automatic_control_def split: if_splits)

lemmas keeps = socket_call_keeps configure_keeps fail_on_error_keeps sync_keeps push_entry_keeps account_inbound_keeps
  account_control_keeps

lemma handle_ping_keeps:
  "ses_triple I (handle_ping im plan (Some (phase, ActionTimeout)) index payload) (\<lambda>_. I) T"
  "ses_triple I (handle_ping im plan None index payload) (\<lambda>_. I) T"
  unfolding handle_ping_def option.case prod.case by (intro ses_triple_seq keeps ses_triple_return; simp)+

lemma handle_close_keeps: "ses_triple I (handle_close im plan action index frame) (\<lambda>_. I) T"
  unfolding handle_close_def Let_def
  by (intro ses_triple_seq keeps ses_triple_if ses_triple_return)
    (auto split: ClosePrecedence.split intro: ses_triple_return ses_triple_fail rejected_end)

lemma handle_message_keeps: "ses_triple I (handle_message C im plan action ep dl index message) (\<lambda>_. I) T"
  by (cases message)
    (auto simp: handle_message_def Let_def intro!: ses_triple_seq keeps ses_triple_return ses_triple_fail ses_triple_if
      handle_ping_keeps handle_close_keeps mismatch_end frame_end)

lemma read_turn_keeps: "ses_triple I (read_turn C im plan action ep dl index) (\<lambda>_. I) T"
  unfolding read_turn_def by (intro ses_triple_seq keeps handle_message_keeps)

lemma loop_keeps: "ses_triple I body (\<lambda>_. I) T \<Longrightarrow> ses_triple I (ses_loop body) (\<lambda>_. I) T"
proof (rule ses_triple_loop)
  have "(case x of Again \<Rightarrow> I s | Finished y \<Rightarrow> I s) = I s" for x :: "'a turn_result" and s by (cases x) simp_all
  then show "ses_triple I body (\<lambda>x s. case x of Again \<Rightarrow> I s | Finished y \<Rightarrow> I s) T" if "ses_triple I body (\<lambda>_. I) T"
    using that by simp
qed

lemma read_expectation_keeps: "ses_triple I (read_expectation C im plan action ep dl index) (\<lambda>_. I) T"
  unfolding read_expectation_def by (rule loop_keeps) (rule read_turn_keeps)

lemma send_message_keeps: "ses_triple I (send_message im plan message data n dl) (\<lambda>_. I) T"
proof -
  let ?P = "\<lambda>s. data \<longrightarrow> outbound_messages (ses_counters s) < max_outbound_messages (wp_limits plan)"
  have "ses_triple (\<lambda>s. I s \<and> ?P s) (send_within_budget im plan message data dl) (\<lambda>_. I) T"
    unfolding send_within_budget_def
    by (intro ses_triple_seq ses_triple_frame keeps ses_triple_modify)
      (auto simp: configure_def socket_call_def after_reply_def fail_on_error_def sync_wire_counters_def Let_def
        copy_wire_counters_def dest: sent_inv [unfolded count_sent_def] split: list.splits sum.splits option.splits)
  then show ?thesis
    unfolding send_message_def
    by (intro ses_triple_guard budget_end) (auto simp: exceeds_outbound_def elim!: ses_triple_pre)
qed

lemma send_recorded_keeps: "ses_triple I (send_recorded im plan message data payload dl index kind pk) (\<lambda>_. I) T"
  unfolding send_recorded_def by (intro ses_triple_seq send_message_keeps keeps)

lemma close_turn_message_keeps: "ses_triple I (close_turn_message im plan index message) (\<lambda>_. I) T"
  by (cases message)
    (auto simp: close_turn_message_def intro!: ses_triple_seq keeps ses_triple_return ses_triple_fail handle_ping_keeps
      mismatch_end)

lemma close_turn_keeps: "ses_triple I (close_turn im plan dl index) (\<lambda>_. I) T"
  unfolding close_turn_def
  by (intro ses_triple_seq keeps ses_triple_if ses_triple_return close_turn_message_keeps)

lemma execute_client_close_keeps: "ses_triple I (execute_client_close im plan code reason index) (\<lambda>_. I) T"
proof -
  have "ses_triple I (ses_bind (send_message im plan message False n dl) (\<lambda>_.
           ses_bind (push_entry ''outbound'' ''close'' n index ''sent'' (Some code) TextPayload (as_bytes reason)) (\<lambda>_.
           close_loop im plan dl index))) (\<lambda>_. I) T" for message n dl
    unfolding close_loop_def by (intro ses_triple_seq send_message_keeps keeps loop_keeps close_turn_keeps)
  then show ?thesis unfolding execute_client_close_def Let_def ses_triple_def by blast
qed

lemma run_action_keeps: "run_action C im plan index action dl ep = Inr m \<Longrightarrow> ses_triple I m (\<lambda>_. I) T"
  by (cases action)
    (auto simp: result_iffs intro!: ses_triple_seq send_recorded_keeps execute_client_close_keeps read_expectation_keeps
      ses_triple_return)

lemma run_actions_keeps:
  "run_actions C im plan index actions s rs = Inr (Some (t, s', rs')) \<Longrightarrow> I s \<Longrightarrow> T t s'"
proof (induction actions arbitrary: index s rs)
  case Nil
  then show ?case by (auto intro: passed_end)
next
  case (Cons action actions)
  from Cons.prems(1) show ?case
  proof (cases rule: run_actions_Cons)
    case stopped
    then show ?thesis using ses_triple_end [OF run_action_keeps Cons.prems(2)] by simp
  next
    case closed
    then show ?thesis using ses_triple_ok [OF run_action_keeps Cons.prems(2)] passed_end by simp
  next
    case further
    then show ?thesis using ses_triple_ok [OF run_action_keeps Cons.prems(2)] Cons.IH by blast
  qed
qed

end

end
