(* ===== verification/Ws_Session_Outcomes.thy ===== *)
theory Ws_Session_Outcomes
  imports Ws_Session_Props Ws_Plan_Props
begin

text \<open>
  Two interpretations of \<open>session_invariant\<close>: the counters of a session stay within the sealed limits,
  and its outcome, exit status, cause and close observation agree.
\<close>

subsection \<open>Counters\<close>

definition session_within :: "WebSocketPlan \<Rightarrow> Session \<Rightarrow> bool" where
  "session_within plan s =
     (finite_budgets (wp_limits plan) \<and> stream_ok (ses_stream s) \<and> as_limits (ses_stream s) = wp_limits plan
      \<and> stream_budgets (ses_stream s)
      \<and> outbound_messages (ses_counters s) \<le> max_outbound_messages (wp_limits plan)
      \<and> inbound_messages (ses_counters s) \<le> max_inbound_messages (wp_limits plan))"

definition ended_within :: "WebSocketPlan \<Rightarrow> SessionTerminal \<Rightarrow> Session \<Rightarrow> bool" where
  "ended_within plan t s =
     (session_within plan (s\<lparr>ses_counters := (ses_counters s)\<lparr>inbound_messages := 0\<rparr>\<rparr>)
      \<and> (inbound_messages (ses_counters s) \<le> max_inbound_messages (wp_limits plan)
         \<or> inbound_messages (ses_counters s) = max_inbound_messages (wp_limits plan) + 1
           \<and> t = terminal_failed BudgetExhausted))"

lemma within_ended: "session_within plan s \<Longrightarrow> ended_within plan t s"
  by (simp add: ended_within_def session_within_def)

lemma saturating_step: "(n :: u64) \<le> m \<Longrightarrow> saturating_add n 1 \<le> m \<or> saturating_add n 1 = m + 1"
proof -
  assume "n \<le> m"
  then consider "n < m" | "n = m" by fastforce
  then show ?thesis
  proof cases
    case 1
    then have "unat n + 1 < 2 ^ 64" using unat_lt_u64 [of m] by (simp add: word_less_nat_alt)
    then show ?thesis using 1 by (simp add: word_le_nat_alt word_less_nat_alt unat_saturating_add)
  next
    case 2
    show ?thesis
    proof (cases "unat n + 1 < 2 ^ 64")
      case True
      then have "saturating_add n 1 = n + 1" by (simp add: saturating_add_def)
      with 2 show ?thesis by simp
    next
      case False
      then have "unat m = 2 ^ 64 - 1" using 2 unat_lt_u64 [of n] by simp
      moreover have "unat (saturating_add n 1) \<le> 2 ^ 64 - 1" using unat_lt_u64 [of "saturating_add n 1"] by simp
      ultimately show ?thesis by (simp add: word_le_nat_alt)
    qed
  qed
qed

interpretation ses_budget: session_invariant im plan "session_within plan" "ended_within plan" for im plan
proof unfold_locales
  fix s r
  assume "session_within plan s"
  then show "session_within plan (after_reply im r s)"
    using stream_run_ok [of "ses_stream s" "wr_calls r"] by (simp add: session_within_def after_reply_def)
next
  fix s m
  assume "session_within plan s"
  then show "ended_within plan (terminal_failed BudgetExhausted) (count_received m s)"
    using saturating_step [of "inbound_messages (ses_counters s)"]
    by (simp add: ended_within_def session_within_def count_received_def)
next
  fix s
  assume "session_within plan s" "outbound_messages (ses_counters s) < max_outbound_messages (wp_limits plan)"
  then show "session_within plan (count_sent s)"
    using unat_Suc_u64 [of "outbound_messages (ses_counters s)"]
    by (simp add: session_within_def count_sent_def word_le_nat_alt word_less_nat_alt)
qed (auto simp: session_within_def set_phase_def add_entry_def sync_counters_def copy_wire_counters_def Let_def
      count_received_def intro: within_ended [unfolded session_within_def])

text \<open>The stream as the handshake hands it over: the bytes that came with the response are observed.\<close>

definition upgraded_stream :: "WebSocketPlan \<Rightarrow> bytes \<Rightarrow> AccountedStream" where
  "upgraded_stream plan tail = snd (observe_buffered_inbound (accounted_new (wp_limits plan) default_accounting) tail)"

lemma upgraded_stream_ok:
  "stream_ok (upgraded_stream plan tail)" "as_limits (upgraded_stream plan tail) = wp_limits plan"
  "finite_budgets (wp_limits plan) \<Longrightarrow> stream_budgets (upgraded_stream plan tail)"
proof -
  let ?n = "accounted_new (wp_limits plan) default_accounting"
  obtain r p a where o: "observe (as_inbound ?n) tail (as_limits ?n) (as_accounting ?n) = (r, p, a)"
    by (metis prod.exhaust)
  then have u: "upgraded_stream plan tail = ?n\<lparr>as_inbound := p, as_accounting := a\<rparr>"
    by (simp add: upgraded_stream_def observe_buffered_inbound_def)
  have l: "as_limits ?n = wp_limits plan" by (simp add: accounted_new_def)
  show "stream_ok (upgraded_stream plan tail)" "finite_budgets (wp_limits plan) \<Longrightarrow> stream_budgets (upgraded_stream plan tail)"
    using inbound_turn [OF stream_new_ok(1) o u] stream_new_ok(2) l by simp_all
  show "as_limits (upgraded_stream plan tail) = wp_limits plan" using u l by simp
qed

lemma stream_budgets_counters:
  assumes "stream_ok s" and "stream_budgets s"
  shows "inbound_frames (wa_counters (as_accounting s)) \<le> max_inbound_frames (as_limits s)"
    "outbound_frames (wa_counters (as_accounting s)) \<le> max_outbound_frames (as_limits s)"
    "inbound_bytes (wa_counters (as_accounting s)) \<le> max_inbound_bytes (as_limits s)"
    "outbound_bytes (wa_counters (as_accounting s)) \<le> max_outbound_bytes (as_limits s)"
  using assms by (auto simp: stream_ok_def stream_budgets_def budget_inv_def direction_defs word_le_nat_alt)

lemma execute_session_Some:
  "execute_session C im plan s rs = Inr (Some (t, c, tr)) \<longleftrightarrow>
     (\<exists>s' rs'. run_actions C im plan 0 (wp_actions plan) s rs = Inr (Some (t, s', rs'))
        \<and> c = copy_wire_counters s' \<and> tr = ses_transcript s')"
  by (auto simp: execute_session_def and_then_Inr_iff)

subsection \<open>A sample session\<close>

definition sample_reply :: "stream_call list \<Rightarrow> ws_error + Message \<Rightarrow> ws_reply" where
  "sample_reply calls result =
     \<lparr>wr_action_clock = 0, wr_close_clock = 0, wr_clock = 0, wr_calls = calls, wr_activity = [], wr_cancelled = False,
      wr_result = result\<rparr>"


definition reply_sent :: ws_reply where
  "reply_sent = sample_reply [CallWrite [129, 130, 0, 0, 0, 0, 104, 105] (Inr ())] (Inr (MText []))"

definition reply_text :: ws_reply where
  "reply_text = sample_reply [CallRead (Inr [129, 2, 111, 107])] (Inr (MText ''ok''))"

definition reply_close :: ws_reply where
  "reply_close = sample_reply [CallRead (Inr [136, 2, 3, 232])] (Inr (MClose (Some \<lparr>cf_code = 1000, cf_reason = []\<rparr>)))"

definition reply_reset :: ws_reply where
  "reply_reset = sample_reply [CallWrite [136, 130, 0, 0, 0, 0, 3, 232] (Inl ConnectionReset)] (Inl (WsIo ConnectionReset))"

definition sample_replies :: "ws_reply list" where
  "sample_replies = [reply_sent, reply_text, reply_close, reply_reset]"

definition sample_session :: Session where
  "sample_session = start_session sample_plan (upgraded_stream sample_plan []) 5000000000 False"

lemma reply_results [simp]:
  "wr_result reply_sent = Inr (MText [])" "wr_result reply_text = Inr (MText ''ok'')"
  "wr_result reply_close = Inr (MClose (Some \<lparr>cf_code = 1000, cf_reason = []\<rparr>))"
  "wr_result reply_reset = Inl (WsIo ConnectionReset)"
  by (simp_all add: reply_sent_def reply_text_def reply_close_def reply_reset_def sample_reply_def)

definition sample_stream :: "nat \<Rightarrow> AccountedStream" where
  "sample_stream n = fold (\<lambda>r. stream_run (wr_calls r)) (take n sample_replies) (upgraded_stream sample_plan [])"

lemma sample_stream_step:
  "upgraded_stream sample_plan [] = sample_stream 0"
  "stream_run (wr_calls reply_sent) (sample_stream 0) = sample_stream 1"
  "stream_run (wr_calls reply_text) (sample_stream 1) = sample_stream 2"
  "stream_run (wr_calls reply_close) (sample_stream 2) = sample_stream 3"
  "stream_run (wr_calls reply_reset) (sample_stream 3) = sample_stream 4"
  by (simp_all add: sample_stream_def sample_replies_def numeral_eq_Suc)

lemma sample_stream_counters:
  "wa_counters (as_accounting (sample_stream 1)) = \<lparr>inbound_frames = 0, outbound_frames = 1, inbound_messages = 0,
     outbound_messages = 0, inbound_bytes = 0, outbound_bytes = 2\<rparr>"
  "wa_counters (as_accounting (sample_stream 2)) = \<lparr>inbound_frames = 1, outbound_frames = 1, inbound_messages = 0,
     outbound_messages = 0, inbound_bytes = 2, outbound_bytes = 2\<rparr>"
  "wa_counters (as_accounting (sample_stream 3)) = \<lparr>inbound_frames = 2, outbound_frames = 1, inbound_messages = 0,
     outbound_messages = 0, inbound_bytes = 4, outbound_bytes = 2\<rparr>"
  "wa_counters (as_accounting (sample_stream 4)) = \<lparr>inbound_frames = 2, outbound_frames = 2, inbound_messages = 0,
     outbound_messages = 0, inbound_bytes = 4, outbound_bytes = 4\<rparr>"
  "wa_failure (as_accounting (sample_stream 1)) = None" "wa_failure (as_accounting (sample_stream 2)) = None"
  "wa_failure (as_accounting (sample_stream 3)) = None" "wa_failure (as_accounting (sample_stream 4)) = None"
  by code_simp+

lemmas session_defs = ses_bind_def ses_return_def ses_fail_def ses_modify_def configure_def socket_call_def after_reply_def
  fail_on_error_def sync_wire_counters_def push_entry_def send_recorded_def send_message_def send_within_budget_def
  exceeds_outbound_def account_inbound_def account_automatic_control_def read_turn_def handle_message_def handle_close_def
  handle_ping_def copy_wire_counters_def is_close_def close_precedence_def close_observation_def close_reason_bytes_def
  close_matches_def close_payload_bytes_def matched_or_def Let_def

lemma sample_plan_views: "wp_limits sample_plan = sample_limits" "wp_actions sample_plan = sample_actions"
  by (simp_all add: sample_plan_def)

lemma sample_run_of:
  assumes "wp_limits plan = sample_limits" and "wp_actions plan = sample_actions"
  shows "\<exists>tr. execute_session sample_crates im plan (start_session plan (upgraded_stream plan []) tot cancellable) sample_replies =
    Inr (Some (terminal_passed (Some \<lparr>co_initiator = Server, co_code = 1000, co_reason = []\<rparr>),
      \<lparr>inbound_frames = 2, outbound_frames = 2, inbound_messages = 1, outbound_messages = 1, inbound_bytes = 4,
       outbound_bytes = 4\<rparr>, tr))"
proof -
  have "upgraded_stream plan [] = sample_stream 0"
    using assms(1) by (simp add: sample_stream_step(1) [symmetric] upgraded_stream_def sample_plan_views)
  then show ?thesis
    by (simp add: execute_session_def assms sample_actions_def sample_replies_def start_session_def session_defs
        sample_limits_def default_counters_def saturating_add_def len_u64_def sample_stream_step(2-)
        sample_stream_counters read_expectation_unfold del: One_nat_def) code_simp
qed

lemmas sample_run = sample_run_of [OF sample_plan_views, of _ 5000000000 False, folded sample_session_def]

subsection \<open>Claims on counters\<close>



subsection \<open>Terminal results\<close>

definition timeout_causes :: "WebSocketTerminalCause set" where
  "timeout_causes = {TotalTimeout, ActionTimeout, IdleTimeout, CloseTimeout}"

text \<open>The table of terminal results: what outcome, exit status, cause and close observation go together.\<close>

definition terminal_consistent :: "bool \<Rightarrow> SessionTerminal \<Rightarrow> bool" where
  "terminal_consistent cancellable t =
     (case ter_outcome t of
        Passed \<Rightarrow> ter_exit t = 0 \<and> ter_cause t = Completed
      | Failed \<Rightarrow> ter_exit t = 1 \<and> ter_cause t \<in> {BudgetExhausted, ExpectationFailed}
          \<and> (ter_close t \<noteq> None \<longrightarrow> ter_cause t = ExpectationFailed)
      | OutcomeError \<Rightarrow> ter_exit t = 3 \<and> ter_close t = None
          \<and> ter_cause t \<in> timeout_causes \<union> {IoFailure, UnexpectedEof, ProtocolViolation}
              \<union> (if cancellable then {Cancelled} else {})
      | _ \<Rightarrow> False)"

lemma observe_failure:
  assumes ok: "parser_ok l p a" and obs: "observe p bs l a = (r, p', a')"
  shows "wa_failure a' = wa_failure a \<or> failure_recorded a'"
proof (cases "parser_wf p")
  case True
  then have fd: "feed l bs p a = (r, p', a')" using obs observe_eq_feed by simp
  show ?thesis
    by (cases r) (use fd True feed_refuses [of p l bs a _ p' a'] feed_accepts [of p l bs a _ p' a'] in auto)
next
  case False
  then have "stalled l p a" using ok by (simp add: parser_ok_def)
  then show ?thesis using observe_stalled [of l p a bs] obs by (cases "bs = []") auto
qed

definition failure_sound :: "AccountedStream \<Rightarrow> bool" where
  "failure_sound s = (stream_ok s \<and> (wa_failure (as_accounting s) = None \<or> failure_recorded (as_accounting s)))"

lemma failure_sound_step: "failure_sound s \<Longrightarrow> failure_sound (stream_step c s)"
proof -
  assume s: "failure_sound s"
  have ok: "stream_ok (stream_step c s)" using stream_step_ok [of s c] s by (simp add: failure_sound_def)
  have parsers: "parser_ok (as_limits s) (as_inbound s) (as_accounting s)" "parser_ok (as_limits s) (as_outbound s) (as_accounting s)"
    using s by (simp_all add: failure_sound_def stream_ok_def)
  have after: "wa_failure a' = None \<or> failure_recorded a'"
    if "observe p bs (as_limits s) (as_accounting s) = (r, p', a')" "parser_ok (as_limits s) p (as_accounting s)" for p bs r p' a'
    using observe_failure [OF that(2,1)] s by (auto simp: failure_sound_def failure_recorded_def)
  have "wa_failure (as_accounting (stream_step c s)) = None \<or> failure_recorded (as_accounting (stream_step c s))"
  proof (cases c)
    case (CallRead inner)
    then show ?thesis
      using after [OF _ parsers(1)] s
      by (cases inner) (simp_all add: accounted_read_def failure_sound_def split: prod.split)
  next
    case (CallWrite bs inner)
    then show ?thesis using after [OF _ parsers(2)] by (simp add: accounted_write_def split: prod.split)
  qed
  with ok show ?thesis by (simp add: failure_sound_def)
qed

lemma failure_sound_run: "failure_sound s \<Longrightarrow> failure_sound (stream_run cs s)"
  by (induction cs arbitrary: s) (simp_all add: stream_run_def failure_sound_step)

lemma select_timeout: "c \<in> timeout_causes \<Longrightarrow> snd (select_deadline tot phase idle c) \<in> timeout_causes"
  by (simp add: select_deadline_def timeout_causes_def)

lemma note_activity_cause:
  "ds_cause st \<in> timeout_causes \<Longrightarrow> ds_phase_cause st \<in> timeout_causes \<Longrightarrow>
     ds_cause (note_activity im now st) \<in> timeout_causes \<and> ds_phase_cause (note_activity im now st) \<in> timeout_causes"
  using select_timeout [of "ds_phase_cause st"]
  by (auto simp: note_activity_def Let_def split: option.split prod.split) (metis snd_conv)+

lemma note_activities_cause:
  "ds_cause st \<in> timeout_causes \<Longrightarrow> ds_phase_cause st \<in> timeout_causes \<Longrightarrow>
     ds_cause (fold (note_activity im) ts st) \<in> timeout_causes
     \<and> ds_phase_cause (fold (note_activity im) ts st) \<in> timeout_causes"
  by (induction ts arbitrary: st) (simp_all add: note_activity_cause)

definition session_sound :: "bool \<Rightarrow> Session \<Rightarrow> bool" where
  "session_sound cancellable s =
     (ses_cancellable s = cancellable \<and> failure_sound (ses_stream s)
      \<and> ds_cause (ses_deadline s) \<in> timeout_causes \<and> ds_phase_cause (ses_deadline s) \<in> timeout_causes)"

interpretation ses_result: session_invariant im plan "session_sound cancellable"
    "\<lambda>t _. terminal_consistent cancellable t" for im plan cancellable
proof unfold_locales
  fix s r
  assume "session_sound cancellable s"
  then show "session_sound cancellable (after_reply im r s)"
    using failure_sound_run [of "ses_stream s" "wr_calls r"] note_activities_cause [of "ses_deadline s"]
    by (simp add: session_sound_def after_reply_def)
next
  fix s c now phase
  assume "session_sound cancellable s" and "c \<in> {ActionTimeout, CloseTimeout}"
  then show "session_sound cancellable (set_phase im now plan phase c s)"
    using select_timeout [of c "ses_total_deadline s" phase]
    by (auto simp: session_sound_def set_phase_def configure_session_deadline_def timeout_causes_def Let_def
        split: prod.split) (metis snd_conv)+
next
  fix s b err
  assume "session_sound cancellable s"
  then show "terminal_consistent cancellable (socket_error s b err)"
    by (auto simp: session_sound_def failure_sound_def failure_recorded_def socket_error_def wire_terminal_def
        terminal_consistent_def terminal_failed_def terminal_error_def interruption_is_cancellation_def
        split: option.split ws_error.split)
next
  fix s cause
  assume "session_sound cancellable s" "wa_failure (as_accounting (ses_stream s)) = Some cause"
  then show "terminal_consistent cancellable (wire_terminal cause)"
    by (auto simp: session_sound_def failure_sound_def failure_recorded_def wire_terminal_def
        terminal_consistent_def terminal_failed_def terminal_error_def)
qed (auto simp: session_sound_def add_entry_def sync_counters_def count_sent_def count_received_def terminal_consistent_def
      terminal_failed_def terminal_error_def terminal_passed_def timeout_causes_def)

lemma upgraded_failure_sound: "failure_sound (upgraded_stream plan tail)"
proof -
  let ?n = "accounted_new (wp_limits plan) default_accounting"
  obtain r p a where o: "observe (as_inbound ?n) tail (as_limits ?n) (as_accounting ?n) = (r, p, a)"
    by (metis prod.exhaust)
  have "wa_failure a = None \<or> failure_recorded a"
    using observe_failure [OF _ o] stream_new_ok(1) [of "wp_limits plan" default_accounting]
    by (auto simp: stream_ok_def) (simp add: accounted_new_def default_accounting_def)
  with o upgraded_stream_ok(1) [of plan tail] show ?thesis
    by (simp add: failure_sound_def upgraded_stream_def observe_buffered_inbound_def)
qed

lemma execute_session_consistent:
  assumes "execute_session C im plan (start_session plan (upgraded_stream plan tail) tot cancellable) rs = Inr (Some (t, c, tr))"
  shows "terminal_consistent cancellable t"
proof -
  from assms obtain s' rs' where run: "run_actions C im plan 0 (wp_actions plan)
       (start_session plan (upgraded_stream plan tail) tot cancellable) rs = Inr (Some (t, s', rs'))"
    by (auto simp: execute_session_Some)
  have "session_sound cancellable (start_session plan (upgraded_stream plan tail) tot cancellable)"
    using upgraded_failure_sound [of plan tail]
    by (simp add: session_sound_def start_session_def fixed_deadline_def timeout_causes_def)
  from ses_result.run_actions_keeps [OF run this] show ?thesis .
qed

text \<open>
  Outcome, exit status and cause agree: a session ends as passed with exit 0 and cause completed, as
  failed with exit 1 for an exhausted budget or an unmet expectation, or in error with exit 3 for a
  timeout, a broken connection, a protocol violation or a cancellation, and the latter only if the session
  can be cancelled at all.  A close is reported only by passed sessions and unmet expectations.
\<close>

theorem session_result_consistent:
  assumes "execute_session C im plan (start_session plan (upgraded_stream plan tail) tot cancellable) rs = Inr (Some (t, c, tr))"
  shows "terminal_consistent cancellable t"
  using assms by (rule execute_session_consistent)

theorem session_result_consistent_witness:
  "\<exists>c tr. execute_session sample_crates 100000000000 sample_plan sample_session [sample_reply [] (Inl WsConnectionClosed)]
      = Inr (Some (terminal_error UnexpectedEof, c, tr))
    \<and> terminal_consistent False (terminal_error UnexpectedEof)"
proof -
  have f: "wa_failure (as_accounting (sample_stream 0)) = None"
    "outbound_frames (wa_counters (as_accounting (sample_stream 0))) = 0"
    "outbound_bytes (wa_counters (as_accounting (sample_stream 0))) = 0" by code_simp+
  obtain c tr where "execute_session sample_crates 100000000000 sample_plan sample_session
      [sample_reply [] (Inl WsConnectionClosed)] = Inr (Some (terminal_error UnexpectedEof, c, tr))"
    by (simp add: execute_session_def sample_plan_views sample_actions_def sample_session_def start_session_def session_defs
        sample_limits_def default_counters_def saturating_add_def len_u64_def sample_stream_step(1) sample_reply_def
        stream_run_def socket_error_def f)
  then show ?thesis using session_result_consistent [of sample_crates 100000000000 sample_plan "[]" 5000000000 False]
    unfolding sample_session_def by blast
qed

end
