(* ===== verification/Ws_Session_Progress.thy ===== *)
theory Ws_Session_Progress
  imports Ws_Session_Outcomes
begin

text \<open>
  Progress of sessions.  A session ends at the first failing socket call at the latest, and a session that
  passed fulfilled every action of its plan, in order, each with an entry of the transcript to show for it.
\<close>

subsection \<open>A failing socket call ends the session\<close>

definition failing :: "ws_reply list \<Rightarrow> bool" where
  "failing rs = list_ex (\<lambda>r. isl (wr_result r)) rs"

lemma failing_Cons: "failing (r # rs) \<longleftrightarrow> isl (wr_result r) \<or> failing rs"
  by (simp add: failing_def)

lemma not_failing_Nil [simp]: "\<not> failing []"
  by (simp add: failing_def)

text \<open>\<open>m\<close> returns when a failing reply lies ahead; if it goes on, the failing reply still lies ahead or the
  result is one of \<open>E\<close>.\<close>

definition stops :: "'a ses \<Rightarrow> ('a \<Rightarrow> bool) \<Rightarrow> bool" where
  "stops m E = (\<forall>s rs. failing rs \<longrightarrow>
     (\<exists>r s' rs'. m s rs = Some (r, s', rs') \<and> (\<forall>x. r = Inr x \<longrightarrow> failing rs' \<or> E x)))"

text \<open>\<open>m\<close> returns without any reply, and if it goes on, with a result of \<open>E\<close>.\<close>

definition returns :: "'a ses \<Rightarrow> ('a \<Rightarrow> bool) \<Rightarrow> bool" where
  "returns m E = (\<forall>s rs. \<exists>r s' rs'. m s rs = Some (r, s', rs') \<and> (\<forall>x. r = Inr x \<longrightarrow> E x))"

lemma stops_bind:
  assumes "stops m (\<lambda>_. False)" and "\<And>x. stops (f x) E"
  shows "stops (ses_bind m f) E"
  unfolding stops_def
proof (intro allI impI)
  fix s rs assume "failing rs"
  with assms(1) obtain r s1 rs1 where m: "m s rs = Some (r, s1, rs1)" and on: "\<forall>x. r = Inr x \<longrightarrow> failing rs1"
    by (fastforce simp: stops_def)
  show "\<exists>r s' rs'. ses_bind m f s rs = Some (r, s', rs') \<and> (\<forall>x. r = Inr x \<longrightarrow> failing rs' \<or> E x)"
  proof (cases r)
    case (Inl t)
    with m show ?thesis by (simp add: ses_bind_def)
  next
    case (Inr x)
    with on assms(2) [of x] m show ?thesis by (simp add: ses_bind_def stops_def)
  qed
qed

lemma stops_mono:
  assumes "stops m E" and "\<And>x. E x \<Longrightarrow> E' x"
  shows "stops m E'"
  unfolding stops_def
proof (intro allI impI)
  fix s rs assume "failing rs"
  with assms(1) obtain r s1 rs1 where "m s rs = Some (r, s1, rs1)" and "\<forall>x. r = Inr x \<longrightarrow> failing rs1 \<or> E x"
    unfolding stops_def by blast
  with assms(2) show "\<exists>r s' rs'. m s rs = Some (r, s', rs') \<and> (\<forall>x. r = Inr x \<longrightarrow> failing rs' \<or> E' x)" by blast
qed

lemma returns_bind:
  assumes "returns m F" and "\<And>x. F x \<Longrightarrow> returns (f x) E"
  shows "returns (ses_bind m f) E"
  unfolding returns_def
proof (intro allI)
  fix s rs
  from assms(1) obtain r s1 rs1 where m: "m s rs = Some (r, s1, rs1)" and on: "\<forall>x. r = Inr x \<longrightarrow> F x"
    by (fastforce simp: returns_def)
  show "\<exists>r s' rs'. ses_bind m f s rs = Some (r, s', rs') \<and> (\<forall>x. r = Inr x \<longrightarrow> E x)"
  proof (cases r)
    case (Inl t)
    with m show ?thesis by (simp add: ses_bind_def)
  next
    case (Inr x)
    with on assms(2) [of x] m show ?thesis by (simp add: ses_bind_def returns_def)
  qed
qed

lemma stops_socket_call:
  assumes "\<And>r. isl (wr_result r) \<Longrightarrow> returns (f r) E" and "\<And>r. \<not> isl (wr_result r) \<Longrightarrow> stops (f r) E"
  shows "stops (ses_bind (socket_call im) f) E"
  unfolding stops_def
proof (intro allI impI)
  fix s rs assume "failing rs"
  then obtain r rs1 where rs: "rs = r # rs1" by (cases rs) auto
  have call: "ses_bind (socket_call im) f s rs = f r (after_reply im r s) rs1"
    by (simp add: rs ses_bind_def socket_call_def)
  show "\<exists>r s' rs'. ses_bind (socket_call im) f s rs = Some (r, s', rs') \<and> (\<forall>x. r = Inr x \<longrightarrow> failing rs' \<or> E x)"
  proof (cases "isl (wr_result r)")
    case True
    then show ?thesis using assms(1) [of r] unfolding call returns_def by blast
  next
    case False
    with \<open>failing rs\<close> have "failing rs1" by (simp add: rs failing_Cons)
    then show ?thesis using assms(2) [OF False] unfolding call stops_def by blast
  qed
qed

lemma returns_fail_on_error: "isl (wr_result r) \<Longrightarrow> returns (ses_bind (fail_on_error r) f) E"
  by (cases "wr_result r") (simp_all add: returns_def ses_bind_def fail_on_error_def)

lemma stops_basic:
  "stops (configure im plan phase c) (\<lambda>_. False)" "stops (fail_on_error r) (\<lambda>_. False)"
  "stops sync_wire_counters (\<lambda>_. False)" "stops (account_inbound plan m) (\<lambda>_. False)"
  "stops (account_automatic_control plan n) (\<lambda>_. False)" "stops (push_entry d k n i ch co pk p) (\<lambda>_. False)"
  "stops (ses_return x) E" "stops (ses_fail t) E'" "stops (ses_modify f) E''"
  by (auto simp: stops_def failing_def configure_def fail_on_error_def sync_wire_counters_def account_inbound_alt
      account_automatic_control_def push_entry_def ses_modify_def ses_return_def ses_fail_def Let_def
      split: list.splits sum.splits option.splits)

lemma returns_basic:
  "returns (push_entry d k n i ch co pk p) (\<lambda>_. True)" "E x \<Longrightarrow> returns (ses_return x) E" "returns (ses_fail t) E'"
  by (auto simp: returns_def push_entry_def ses_modify_def ses_return_def ses_fail_def)

lemma stops_handle_ping: "stops (handle_ping im plan reconf index payload) E"
proof -
  have "stops (case reconf of Some (phase, cause) \<Rightarrow> configure im plan phase cause | None \<Rightarrow> ses_return ()) (\<lambda>_. False)"
    by (auto split: option.split intro: stops_basic)
  then show ?thesis
    unfolding handle_ping_def by (intro stops_bind stops_basic stops_socket_call returns_fail_on_error)
qed

lemma stops_handle_close: "stops (handle_close im plan action index frame) (\<lambda>x. \<exists>cl. x = Finished (Some cl))"
  unfolding handle_close_def Let_def
proof (rule stops_bind [OF stops_basic(6)], rule stops_bind [OF stops_basic(5)], rule stops_socket_call, goal_cases)
  case 1
  then show ?case
    by (auto simp: isl_def close_precedence_def intro!: returns_bind [where F = "\<lambda>_. True"] returns_basic)
next
  case 2
  then show ?case by (auto simp: close_precedence_def intro!: stops_bind stops_basic split: sum.split)
qed

lemma stops_handle_message:
  "stops (handle_message C im plan action ep dl index message) (\<lambda>x. \<exists>cl. x = Finished (Some cl))"
  by (cases message)
    (auto simp: handle_message_def Let_def intro!: stops_bind stops_basic stops_handle_ping stops_handle_close)

lemma stops_read_turn: "stops (read_turn C im plan action ep dl index) (\<lambda>x. \<exists>cl. x = Finished (Some cl))"
  unfolding read_turn_def
  by (intro stops_bind stops_basic stops_socket_call returns_fail_on_error stops_handle_message)

lemma stops_close_turn_message: "stops (close_turn_message im plan index message) E"
  by (cases message)
    (auto simp: close_turn_message_def intro!: stops_bind stops_basic stops_handle_ping)

lemma stops_close_turn: "stops (close_turn im plan dl index) (\<lambda>x. x = Finished ())"
  unfolding close_turn_def
  by (intro stops_bind stops_basic stops_socket_call)
    (auto intro!: returns_fail_on_error returns_basic stops_bind stops_basic stops_close_turn_message)

lemma stops_loop:
  assumes cons: "consuming body" and body: "stops body (\<lambda>x. \<exists>y. x = Finished y \<and> E y)"
  shows "stops (ses_loop body) E"
proof -
  have "\<exists>r s' rs'. ses_loop body s rs = Some (r, s', rs') \<and> (\<forall>x. r = Inr x \<longrightarrow> failing rs' \<or> E x)" if "failing rs" for s rs
    using that
  proof (induction "length rs" arbitrary: s rs rule: less_induct)
    case less
    from body less.prems obtain r s1 rs1 where b: "body s rs = Some (r, s1, rs1)"
      and on: "\<forall>x. r = Inr x \<longrightarrow> failing rs1 \<or> (\<exists>y. x = Finished y \<and> E y)"
      unfolding stops_def by blast
    consider t where "r = Inl t" | y where "r = Inr (Finished y)" | "r = Inr Again"
      by (cases r) (auto intro: turn_result.exhaust)
    then show ?case
    proof cases
      case 3
      with on have f: "failing rs1" by simp
      have "length rs1 < length rs" using cons b 3 by (auto intro: consuming_ok)
      from less.hyps [OF this f, of s1] show ?thesis using cons b 3 by (simp add: ses_loop_unfold)
    qed (use cons b on in \<open>simp_all add: ses_loop_unfold\<close>)
  qed
  then show ?thesis by (simp add: stops_def)
qed

lemma stops_read_expectation: "stops (read_expectation C im plan action ep dl index) (\<lambda>x. \<exists>cl. x = Some cl)"
  unfolding read_expectation_def
  by (intro stops_loop consuming_read_turn stops_mono [OF stops_read_turn]) auto

lemma stops_send_message: "stops (send_message im plan message data n dl) (\<lambda>_. False)"
proof -
  have "stops (send_within_budget im plan message data dl) (\<lambda>_. False)"
    unfolding send_within_budget_def by (intro stops_bind stops_basic stops_socket_call returns_fail_on_error)
  then show ?thesis by (auto simp: stops_def send_message_def)
qed

lemma stops_send_recorded: "stops (send_recorded im plan message data payload dl index kind pk) (\<lambda>_. False)"
  unfolding send_recorded_def by (intro stops_bind stops_basic stops_send_message)

lemma stops_close: "stops (execute_client_close im plan code reason index) (\<lambda>_. True)"
proof -
  have "stops (close_loop im plan dl index) (\<lambda>_. True)" for dl
    unfolding close_loop_def by (intro stops_loop consuming_close_turn stops_mono [OF stops_close_turn]) auto
  then have "stops (ses_bind (send_message im plan message False n dl) (\<lambda>_.
           ses_bind (push_entry ''outbound'' ''close'' n index ''sent'' (Some code) TextPayload (as_bytes reason)) (\<lambda>_.
           close_loop im plan dl index))) (\<lambda>_. True)" for message n dl
    by (intro stops_bind stops_basic stops_send_message)
  then show ?thesis by (simp add: stops_def execute_client_close_def Let_def)
qed

text \<open>Payloads of a validated plan decode.\<close>

lemma stops_run_action:
  "run_action C im plan index action dl ep = Inr m \<Longrightarrow> stops m (\<lambda>x. \<exists>cl. x = Some cl)"
proof (cases action)
  case (Close code reason)
  moreover assume "run_action C im plan index action dl ep = Inr m"
  moreover have "stops (ses_bind (execute_client_close im plan code reason index) (\<lambda>_. ses_return (Some cl))) (\<lambda>x. \<exists>cl. x = Some cl)" for cl
    using stops_close [of im plan code reason index] unfolding stops_def ses_bind_def ses_return_def
    by (fastforce split: option.splits sum.splits)
  ultimately show ?thesis by auto
qed (auto simp: result_iffs intro!: stops_bind stops_send_recorded stops_basic stops_read_expectation)

lemma run_actions_stop: "failing rs \<Longrightarrow> run_actions C im plan index actions s rs \<noteq> Inr None"
proof (induction actions arbitrary: index s rs)
  case (Cons action actions)
  define dl where "dl = action_deadline im (next_clock wr_action_clock rs) plan (ses_total_deadline s) action"
  show ?case
  proof (cases "expected_payload_of C action")
    case (Inr ep)
    show ?thesis
    proof (cases "run_action C im plan index action dl ep")
      case (Inr m)
      from stops_run_action [OF this] Cons.prems obtain r s1 rs1 where m: "m s rs = Some (r, s1, rs1)"
        and on: "\<forall>x. r = Inr x \<longrightarrow> failing rs1 \<or> (\<exists>cl. x = Some cl)" unfolding stops_def by blast
      from on Cons.IH [of rs1 "index + 1" s1] Inr m \<open>expected_payload_of C action = Inr ep\<close> show ?thesis
        by (cases r) (auto simp: Let_def dl_def split: option.split)
    qed (use Inr in \<open>simp add: Let_def dl_def\<close>)
  qed (simp add: Let_def)
qed simp

text \<open>
  C5.  A session always comes to an end: it does not outlive the first socket call that fails, be it by a
  deadline, a cancellation, a closed connection or a protocol error.  If one of the replies is a failure, the
  session has a terminal result (or its plan was not decodable in the first place).
\<close>

theorem session_ends_at_failure:
  assumes "r \<in> set rs" and "wr_result r = Inl e"
  shows "execute_session C im plan s rs \<noteq> Inr None"
proof -
  have "failing rs" using assms by (auto simp: failing_def list_ex_iff intro!: bexI [of _ r])
  from run_actions_stop [OF this, of C im plan 0 "wp_actions plan" s] show ?thesis
    by (auto simp: execute_session_def and_then_def split: sum.splits)
qed

theorem session_ends_at_failure_witness:
  "execute_session sample_crates 100000000000 sample_plan sample_session [reply_sent, sample_reply [] (Inl (WsIo TimedOut))]
     \<noteq> Inr None"
  by (rule session_ends_at_failure [of "sample_reply [] (Inl (WsIo TimedOut))" _ "WsIo TimedOut"]) (simp_all add: sample_reply_def)

subsection \<open>What a passed session did\<close>

text \<open>The transcript entry that shows an action was carried out.\<close>

fun fulfils :: "crates \<Rightarrow> WebSocketAction \<Rightarrow> TranscriptEntry \<Rightarrow> bool" where
  "fulfils C (SendText text) e =
     (te_direction e = ''outbound'' \<and> te_kind e = ''text'' \<and> te_check e = ''sent'' \<and> te_payload e = Some (as_bytes text))"
| "fulfils C (SendBinary p) e =
     (te_direction e = ''outbound'' \<and> te_kind e = ''binary'' \<and> te_check e = ''sent''
      \<and> b64_decode C p = te_payload e \<and> te_payload e \<noteq> None)"
| "fulfils C (Ping p) e =
     (te_direction e = ''outbound'' \<and> te_kind e = ''ping'' \<and> te_check e = ''sent''
      \<and> b64_decode C p = te_payload e \<and> te_payload e \<noteq> None)"
| "fulfils C (Close code reason) e =
     (te_direction e = ''outbound'' \<and> te_kind e = ''close'' \<and> te_check e = ''sent'' \<and> te_code e = Some code
      \<and> te_payload e = Some (as_bytes reason))"
| "fulfils C (ExpectBinary p _) e =
     (te_direction e = ''inbound'' \<and> te_kind e = ''binary'' \<and> te_check e = ''matched''
      \<and> b64_decode C p = te_payload e \<and> te_payload e \<noteq> None)"
| "fulfils C (ExpectPong p _) e =
     (te_direction e = ''inbound'' \<and> te_kind e = ''pong'' \<and> te_check e = ''matched''
      \<and> b64_decode C p = te_payload e \<and> te_payload e \<noteq> None)"
| "fulfils C (ExpectClose codes reason _) e =
     (te_direction e = ''inbound'' \<and> te_kind e = ''close'' \<and> te_check e = ''matched''
      \<and> (\<exists>frame. close_matches frame codes reason \<and> te_code e = map_option cf_code frame
            \<and> te_payload e = Some (close_reason_bytes frame)))"
| "fulfils C action e =
     (te_direction e = ''inbound'' \<and> te_kind e = ''text'' \<and> te_check e = ''matched''
      \<and> (\<exists>text. expectation_matches_text C action text \<and> te_payload e = Some (as_bytes text)))"

definition grown :: "TranscriptEntry list \<Rightarrow> nat \<Rightarrow> (TranscriptEntry list \<Rightarrow> bool) \<Rightarrow> Session \<Rightarrow> bool" where
  "grown xs index P s =
     (\<exists>ys. ses_transcript s = xs @ ys \<and> (\<forall>e \<in> set ys. te_action_index e = Some index) \<and> P ys)"

abbreviation not_passed :: "SessionTerminal \<Rightarrow> Session \<Rightarrow> bool" where
  "not_passed t s \<equiv> ter_outcome t \<noteq> Passed"

text \<open>Operations that leave the transcript alone and do not end the session as passed.\<close>

definition quiet :: "'a ses \<Rightarrow> bool" where
  "quiet m = (\<forall>s rs r s' rs'. m s rs = Some (r, s', rs') \<longrightarrow>
     ses_transcript s' = ses_transcript s \<and> (\<forall>t. r = Inl t \<longrightarrow> ter_outcome t \<noteq> Passed))"

lemma terminal_outcomes [simp]:
  "ter_outcome (terminal_failed c) = Failed" "ter_outcome (terminal_error c) = OutcomeError"
  "ter_outcome (terminal_passed cl) = Passed" "ter_outcome (wire_terminal c) \<noteq> Passed"
  "ter_outcome (socket_error s b e) \<noteq> Passed"
  by (auto simp: terminal_failed_def terminal_error_def terminal_passed_def wire_terminal_def socket_error_def
      split: option.split ws_error.split)

lemma quiet_basic:
  "quiet (configure im plan phase c)" "quiet (socket_call im)" "quiet (fail_on_error r)" "quiet sync_wire_counters"
  "quiet (account_inbound plan m)" "quiet (account_automatic_control plan n)" "quiet (ses_return x)"
  by (auto simp: quiet_def configure_def socket_call_def after_reply_def fail_on_error_def sync_wire_counters_def
      account_inbound_alt count_received_def account_automatic_control_def ses_return_def Let_def
      split: list.splits sum.splits option.splits if_splits)

lemma quiet_grown: "quiet m \<Longrightarrow> ses_triple (grown xs i P) m (\<lambda>_. grown xs i P) not_passed"
  by (auto simp: quiet_def ses_triple_def grown_def split: sum.split)

lemma quiet_send_within: "quiet (send_within_budget im plan message data dl)"
proof -
  have bind: "quiet (ses_bind m f)" if "quiet m" "\<And>x. quiet (f x)" for m :: "'b ses" and f :: "'b \<Rightarrow> 'c ses"
    unfolding quiet_def
  proof (intro allI impI)
    fix s rs r s' rs' assume "ses_bind m f s rs = Some (r, s', rs')"
    then obtain r1 s1 rs1 where "m s rs = Some (r1, s1, rs1)"
      and "case r1 of Inl t \<Rightarrow> r = Inl t \<and> s' = s1 \<and> rs' = rs1 | Inr x \<Rightarrow> f x s1 rs1 = Some (r, s', rs')"
      by (auto simp: ses_bind_Some)
    with that show "ses_transcript s' = ses_transcript s \<and> (\<forall>t. r = Inl t \<longrightarrow> ter_outcome t \<noteq> Passed)"
      unfolding quiet_def by (cases r1) (simp, metis)+
  qed
  have "quiet (ses_modify (\<lambda>s. if data
      then s\<lparr>ses_counters := (ses_counters s)\<lparr>outbound_messages := outbound_messages (ses_counters s) + 1\<rparr>\<rparr> else s))"
    by (auto simp: quiet_def ses_modify_def)
  then show ?thesis unfolding send_within_budget_def by (intro bind quiet_basic)
qed

lemma quiet_send_message: "quiet (send_message im plan message data n dl)"
  using quiet_send_within by (auto simp: quiet_def send_message_def split: if_splits)

lemma push_grown:
  assumes "\<And>ys. P ys \<Longrightarrow> Q (ys @ [\<lparr>te_direction = d, te_kind = k, te_bytes = n, te_action_index = Some i,
         te_check = ch, te_code = co, te_payload_kind = Some pk, te_payload = Some p\<rparr>])"
  shows "ses_triple (grown xs i P) (push_entry d k n i ch co pk p) (\<lambda>_. grown xs i Q) not_passed"
  unfolding push_entry_alt using assms by (intro ses_triple_modify) (auto simp: grown_def add_entry_def)

definition shown :: "crates \<Rightarrow> WebSocketAction \<Rightarrow> TranscriptEntry list \<Rightarrow> bool" where
  "shown C action ys = (\<exists>e \<in> set ys. fulfils C action e)"

abbreviation any_entries :: "TranscriptEntry list \<Rightarrow> bool" where
  "any_entries \<equiv> \<lambda>_. True"

text \<open>What a turn that went well leaves: more entries of the action, or the one that shows it done.\<close>

definition turn_post ::
  "crates \<Rightarrow> WebSocketAction \<Rightarrow> TranscriptEntry list \<Rightarrow> nat \<Rightarrow> WebSocketCloseObservation option turn_result \<Rightarrow> Session \<Rightarrow> bool" where
  "turn_post C action xs i x s =
     (case x of
        Again \<Rightarrow> grown xs i any_entries s
      | Finished y \<Rightarrow> grown xs i (shown C action) s \<and> (y \<noteq> None \<longleftrightarrow> is_terminal action))"

lemma grown_weaken: "grown xs i P s \<Longrightarrow> (\<And>ys. P ys \<Longrightarrow> Q ys) \<Longrightarrow> grown xs i Q s"
  by (auto simp: grown_def)

lemma handle_ping_grown:
  "ses_triple (grown xs i P) (handle_ping im plan reconf i payload) (\<lambda>x s. x = Again \<and> grown xs i any_entries s) not_passed"
proof -
  have "quiet (case reconf of Some (phase, cause) \<Rightarrow> configure im plan phase cause | None \<Rightarrow> ses_return ())"
    by (auto split: option.split intro: quiet_basic)
  then show ?thesis
    unfolding handle_ping_def
    by (intro ses_triple_bind [OF push_grown [where Q = any_entries]] ses_triple_seq quiet_grown quiet_basic ses_triple_return)
      (auto intro: push_grown grown_weaken)
qed

lemma handle_ping_turn:
  "ses_triple (grown xs i P) (handle_ping im plan reconf i payload) (turn_post C action xs i) not_passed"
  using handle_ping_grown [of xs i P im plan reconf payload] unfolding ses_triple_def turn_post_def
  by (fastforce split: sum.split turn_result.split)

text \<open>An entry that depends on a match, then the branch that depends on it.\<close>

lemma push_match:
  assumes "matched \<Longrightarrow> fulfils C action \<lparr>te_direction = d, te_kind = k, te_bytes = n, te_action_index = Some i,
         te_check = ''matched'', te_code = co, te_payload_kind = Some pk, te_payload = Some p\<rparr>"
    and "matched \<Longrightarrow> ses_triple (grown xs i (shown C action)) (f ()) Q not_passed"
    and "\<not> matched \<Longrightarrow> ses_triple (grown xs i any_entries) (f ()) Q not_passed"
  shows "ses_triple (grown xs i any_entries) (ses_bind (push_entry d k n i (matched_or other matched) co pk p) f) Q not_passed"
proof (cases matched)
  case True
  then show ?thesis
    using assms by (intro ses_triple_bind [OF push_grown [where Q = "shown C action"]]) (auto simp: matched_or_def shown_def)
next
  case False
  then show ?thesis
    using assms by (intro ses_triple_bind [OF push_grown [where Q = any_entries]]) simp_all
qed

lemma handle_close_turn:
  "ses_triple (grown xs i any_entries) (handle_close im plan action i frame) (turn_post C action xs i) not_passed"
proof -
  let ?m = "close_expected action frame"
  let ?P = "if ?m then shown C action else any_entries"
  have fulfilled: "?m \<Longrightarrow> fulfils C action \<lparr>te_direction = ''inbound'', te_kind = ''close'', te_bytes = n,
      te_action_index = Some i, te_check = ''matched'', te_code = map_option cf_code frame, te_payload_kind = Some TextPayload,
      te_payload = Some (close_reason_bytes frame)\<rparr>" for n
    by (cases action) auto
  have terminal: "?m \<Longrightarrow> is_terminal action" by (cases action) auto
  have ack: "ses_triple (grown xs i ?P) (push_entry ''outbound'' ''close'' n i ''automatic'' co TextPayload p)
      (\<lambda>_. grown xs i ?P) not_passed" for n co p
    by (rule push_grown) (auto simp: shown_def)
  have rest: "ses_triple (grown xs i ?P)
      (ses_bind (account_automatic_control plan (close_payload_bytes frame)) (\<lambda>_.
       ses_bind (socket_call im) (\<lambda>r.
       ses_bind (if (case wr_result r of Inr _ \<Rightarrow> True | Inl _ \<Rightarrow> False)
                 then ses_bind sync_wire_counters (\<lambda>_. push_entry ''outbound'' ''close'' (close_payload_bytes frame) i
                        ''automatic'' (map_option cf_code frame) TextPayload (close_reason_bytes frame))
                 else ses_return ()) (\<lambda>_.
       case close_precedence ?m (case wr_result r of Inr _ \<Rightarrow> True | Inl _ \<Rightarrow> False) of
         Accepted \<Rightarrow> ses_return (Finished (Some (close_observation Server frame)))
       | Rejected \<Rightarrow> ses_fail \<lparr>ter_outcome = Failed, ter_cause = ExpectationFailed, ter_exit = 1,
           ter_close = Some (close_observation Server frame)\<rparr>)))) (turn_post C action xs i) not_passed"
    by (intro ses_triple_seq quiet_grown quiet_basic ses_triple_if ack)
      (auto simp: close_precedence_def turn_post_def terminal intro!: ses_triple_return ses_triple_fail)
  show ?thesis
    unfolding handle_close_def Let_def
    by (rule push_match) (use fulfilled rest in auto)
qed

lemma matches_text_fulfils:
  assumes "expectation_matches_text C action text"
  shows "\<not> is_terminal action"
    and "te_direction e = ''inbound'' \<Longrightarrow> te_kind e = ''text'' \<Longrightarrow> te_check e = ''matched'' \<Longrightarrow>
         te_payload e = Some (as_bytes text) \<Longrightarrow> fulfils C action e"
proof -
  consider v t where "action = ExpectText v t" | p v c t where "action = ExpectJson p v c t"
    using assms by (cases action) auto
  note kinds = this
  then show "\<not> is_terminal action" by cases auto
  assume "te_direction e = ''inbound''" "te_kind e = ''text''" "te_check e = ''matched''" "te_payload e = Some (as_bytes text)"
  then have shown: "te_direction e = ''inbound'' \<and> te_kind e = ''text'' \<and> te_check e = ''matched''
      \<and> (\<exists>text. expectation_matches_text C action text \<and> te_payload e = Some (as_bytes text))"
    using assms by blast
  from kinds shown show "fulfils C action e" by cases (simp_all only: fulfils.simps)
qed

lemma handle_message_turn:
  assumes "expected_payload_of C action = Inr ep"
  shows "ses_triple (grown xs i any_entries) (handle_message C im plan action ep dl i message) (turn_post C action xs i) not_passed"
proof (cases message)
  case (MText actual)
  have "expectation_matches_text C action actual \<Longrightarrow> \<not> is_terminal action \<and> (\<forall>e. te_direction e = ''inbound'' \<longrightarrow>
      te_kind e = ''text'' \<longrightarrow> te_check e = ''matched'' \<longrightarrow> te_payload e = Some (as_bytes actual) \<longrightarrow> fulfils C action e)"
    using matches_text_fulfils [of C action actual] by blast
  then show ?thesis
    unfolding handle_message_def MText Message.case Let_def
    by (intro push_match) (auto simp: turn_post_def intro!: ses_triple_return ses_triple_fail)
next
  case (MBinary actual)
  have "is_expect_binary action \<and> ep = Some actual \<Longrightarrow> \<not> is_terminal action \<and> (\<forall>e. te_direction e = ''inbound'' \<longrightarrow>
      te_kind e = ''binary'' \<longrightarrow> te_check e = ''matched'' \<longrightarrow> te_payload e = Some actual \<longrightarrow> fulfils C action e)"
    using assms by (cases action) (auto simp: result_iffs decode_sealed_base64_def)
  then show ?thesis
    unfolding handle_message_def MBinary Message.case Let_def
    by (intro push_match) (auto simp: turn_post_def intro!: ses_triple_return ses_triple_fail)
next
  case (MPong payload)
  have "is_expect_pong action \<and> ep = Some payload \<Longrightarrow> \<not> is_terminal action \<and> (\<forall>e. te_direction e = ''inbound'' \<longrightarrow>
      te_kind e = ''pong'' \<longrightarrow> te_check e = ''matched'' \<longrightarrow> te_payload e = Some payload \<longrightarrow> fulfils C action e)"
    using assms by (cases action) (auto simp: result_iffs decode_sealed_base64_def)
  then show ?thesis
    unfolding handle_message_def MPong Message.case Let_def
    by (intro push_match) (auto simp: turn_post_def intro!: ses_triple_return)
next
  case (MFrame payload)
  then show ?thesis
    unfolding handle_message_def MFrame Message.case
    by (intro ses_triple_bind [OF push_grown [where Q = any_entries]] ses_triple_fail) simp_all
qed (simp_all add: handle_message_def handle_ping_turn handle_close_turn)

lemma read_expectation_fulfils:
  assumes "expected_payload_of C action = Inr ep"
  shows "ses_triple (grown xs i any_entries) (read_expectation C im plan action ep dl i)
     (\<lambda>y s. grown xs i (shown C action) s \<and> (y \<noteq> None \<longleftrightarrow> is_terminal action)) not_passed"
proof -
  have "ses_triple (grown xs i any_entries) (read_turn C im plan action ep dl i) (turn_post C action xs i) not_passed"
    unfolding read_turn_def by (intro ses_triple_seq quiet_grown quiet_basic handle_message_turn assms)
  then show ?thesis
    unfolding read_expectation_def turn_post_def by (rule ses_triple_loop)
qed

lemma send_recorded_fulfils:
  assumes "fulfils C action \<lparr>te_direction = ''outbound'', te_kind = kind, te_bytes = len_u64 payload, te_action_index = Some i,
         te_check = ''sent'', te_code = None, te_payload_kind = Some pk, te_payload = Some payload\<rparr>"
  shows "ses_triple (grown xs i any_entries)
     (ses_bind (send_recorded im plan message data payload dl i kind pk) (\<lambda>_. ses_return None))
     (\<lambda>y s. grown xs i (shown C action) s \<and> y = None) not_passed"
proof -
  have "ses_triple (grown xs i any_entries) (send_recorded im plan message data payload dl i kind pk)
     (\<lambda>_. grown xs i (shown C action)) not_passed"
    unfolding send_recorded_def
    using assms by (intro ses_triple_seq quiet_grown quiet_send_message push_grown) (auto simp: shown_def)
  then show ?thesis
    by (rule ses_triple_bind) (auto intro: ses_triple_return)
qed

lemma close_turn_grown:
  "ses_triple (grown xs i (shown C action)) (close_turn im plan dl i)
     (\<lambda>x s. case x of Again \<Rightarrow> grown xs i (shown C action) s | Finished _ \<Rightarrow> grown xs i (shown C action) s) not_passed"
proof -
  have push: "ses_triple (grown xs i (shown C action)) (push_entry d k n i ch co pk p) (\<lambda>_. grown xs i (shown C action)) not_passed"
    for d k n ch co pk p
    by (rule push_grown) (auto simp: shown_def)
  have ping: "ses_triple (grown xs i (shown C action)) (handle_ping im plan None i payload)
      (\<lambda>x :: unit turn_result. grown xs i (shown C action)) not_passed" for payload
    unfolding handle_ping_def option.case
    by (intro ses_triple_seq push quiet_grown quiet_basic ses_triple_return)
  have "ses_triple (grown xs i (shown C action)) (close_turn_message im plan i message)
      (\<lambda>_. grown xs i (shown C action)) not_passed" for message
    by (cases message) (auto simp: close_turn_message_def intro!: ses_triple_seq push ping ses_triple_return ses_triple_fail)
  then have "ses_triple (grown xs i (shown C action)) (close_turn im plan dl i) (\<lambda>_. grown xs i (shown C action)) not_passed"
    unfolding close_turn_def
    by (intro ses_triple_if ses_triple_seq [OF quiet_grown [OF quiet_basic(1)]] ses_triple_seq [OF quiet_grown [OF quiet_basic(2)]]
        ses_triple_seq [OF quiet_grown [OF quiet_basic(3)]] ses_triple_seq [OF quiet_grown [OF quiet_basic(4)]]
        ses_triple_seq [OF quiet_grown [OF quiet_basic(5)]] ses_triple_return)
  moreover have "(\<lambda>x s. case x of Again \<Rightarrow> grown xs i (shown C action) s | Finished (_ :: unit) \<Rightarrow> grown xs i (shown C action) s)
      = (\<lambda>_. grown xs i (shown C action))"
    by (auto simp: fun_eq_iff split: turn_result.split)
  ultimately show ?thesis by (simp only:)
qed

lemma execute_client_close_fulfils:
  "ses_triple (grown xs i any_entries) (execute_client_close im plan code reason i)
     (\<lambda>_. grown xs i (shown C (Close code reason))) not_passed"
proof -
  have "ses_triple (grown xs i any_entries) (ses_bind (send_message im plan message False n dl) (\<lambda>_.
           ses_bind (push_entry ''outbound'' ''close'' n i ''sent'' (Some code) TextPayload (as_bytes reason)) (\<lambda>_.
           close_loop im plan dl i))) (\<lambda>_. grown xs i (shown C (Close code reason))) not_passed" for message n dl
    unfolding close_loop_def
    by (intro ses_triple_seq quiet_grown quiet_send_message
        ses_triple_bind [OF push_grown [where Q = "shown C (Close code reason)"]] ses_triple_loop close_turn_grown)
      (simp add: shown_def)
  then show ?thesis unfolding execute_client_close_def Let_def ses_triple_def by blast
qed

lemma run_action_fulfils:
  assumes "expected_payload_of C action = Inr ep" and "run_action C im plan i action dl ep = Inr m"
  shows "ses_triple (grown xs i any_entries) m
     (\<lambda>y s. grown xs i (shown C action) s \<and> (y \<noteq> None \<longleftrightarrow> is_terminal action)) not_passed"
proof (cases action)
  case (Close code reason)
  have "ses_triple (grown xs i any_entries)
     (ses_bind (execute_client_close im plan code reason i) (\<lambda>_. ses_return (Some cl)))
     (\<lambda>y s. grown xs i (shown C (Close code reason)) s \<and> (y \<noteq> None \<longleftrightarrow> is_terminal (Close code reason))) not_passed" for cl
    by (rule ses_triple_bind [OF execute_client_close_fulfils]) (auto intro: ses_triple_return)
  with Close assms(2) show ?thesis by auto
next
  case (SendText v)
  with assms(2) show ?thesis by (auto intro!: send_recorded_fulfils)
next
  case (SendBinary payload)
  with assms(2) show ?thesis by (auto simp: result_iffs decode_sealed_base64_def intro!: send_recorded_fulfils)
next
  case (Ping payload)
  with assms(2) show ?thesis by (auto simp: result_iffs decode_sealed_base64_def intro!: send_recorded_fulfils)
qed (use assms(2) read_expectation_fulfils [OF assms(1)] in auto)

definition segment_ok :: "crates \<Rightarrow> nat \<times> WebSocketAction \<Rightarrow> TranscriptEntry list \<Rightarrow> bool" where
  "segment_ok C = (\<lambda>(i, action) seg. (\<forall>e \<in> set seg. te_action_index e = Some i) \<and> (\<exists>e \<in> set seg. fulfils C action e))"

lemma grown_segment:
  "grown (ses_transcript s) i (shown C action) s' \<Longrightarrow>
     \<exists>seg. ses_transcript s' = ses_transcript s @ seg \<and> segment_ok C (i, action) seg"
  by (auto simp: grown_def shown_def segment_ok_def)

lemma run_actions_fulfil:
  assumes "run_actions C im plan index actions s rs = Inr (Some (t, s', rs'))" and "ter_outcome t = Passed"
    and "list_all (\<lambda>a. \<not> is_terminal a) (butlast actions)" and "actions \<noteq> [] \<longrightarrow> is_terminal (last actions)"
  shows "\<exists>segs. ses_transcript s' = ses_transcript s @ concat segs
           \<and> list_all2 (segment_ok C) (List.enumerate index actions) segs \<and> (actions \<noteq> [] \<longrightarrow> ter_close t \<noteq> None)"
  using assms
proof (induction actions arbitrary: index s rs)
  case Nil
  then show ?case by auto
next
  case (Cons action actions)
  have start: "grown (ses_transcript s) index any_entries s" by (simp add: grown_def)
  from Cons.prems(1) show ?case
  proof (cases rule: run_actions_Cons)
    case stopped
    then show ?thesis using ses_triple_end [OF run_action_fulfils start] Cons.prems(2) by simp
  next
    case (closed dl ep m cl)
    note post = ses_triple_ok [OF run_action_fulfils [OF closed(1,2)] start closed(3)]
    then have "is_terminal action" by simp
    then have "actions = []" using Cons.prems(3) by (cases actions) auto
    moreover from post obtain seg where "ses_transcript s' = ses_transcript s @ seg" "segment_ok C (index, action) seg"
      using grown_segment by blast
    ultimately show ?thesis using closed(4) by (intro exI [of _ "[seg]"]) (simp add: terminal_passed_def)
  next
    case (further dl ep m s1 rs1)
    note post = ses_triple_ok [OF run_action_fulfils [OF further(1,2)] start further(3)]
    then have "\<not> is_terminal action" by simp
    then have ne: "actions \<noteq> []" using Cons.prems(4) by auto
    from post obtain seg where seg: "ses_transcript s1 = ses_transcript s @ seg" "segment_ok C (index, action) seg"
      using grown_segment by blast
    obtain segs where "ses_transcript s' = ses_transcript s1 @ concat segs"
      "list_all2 (segment_ok C) (List.enumerate (index + 1) actions) segs" "ter_close t \<noteq> None"
      using Cons.IH [OF further(4)] Cons.prems(2-4) ne by auto
    with seg show ?thesis by (intro exI [of _ "seg # segs"]) simp
  qed
qed



end
