(* ===== verification/Ws_Handshake.thy ===== *)
theory Ws_Handshake
  imports Exec_Types Http_Checks Deadline
begin

text \<open>
  The opening handshake (\<open>kahea-exec\<close>, \<open>websocket.rs\<close>): the request built from the plan, the TLS
  configuration, the bounded exchange of the HTTP heads, and the checks on the response.

  The record \<open>ws_env\<close> holds what comes from outside: name resolution, the socket, the clock, \<open>rustls\<close>,
  \<open>httparse\<close> and the request builder of \<open>tungstenite\<close>, and the faults of the evidence store.
\<close>

record ws_request =
  wq_headers :: "HeaderEntry list"
  wq_path :: "string option"

record parsed_response =
  pr_bytes :: nat
  pr_code :: "u16 option"
  pr_version :: "nat option"
  pr_headers :: "HeaderEntry list"

record ws_env =
  we_resolve :: "string \<Rightarrow> u16 \<Rightarrow> SocketAddr list option"
  we_client_request :: "string \<Rightarrow> ws_request option"
  we_native_roots :: "nat option"
  we_pem_certificates :: "bytes \<Rightarrow> nat option"
  we_roots_added :: "bytes \<Rightarrow> nat \<times> nat"
  we_client_identity_ok :: "string \<Rightarrow> bool"
  we_server_name_ok :: "string \<Rightarrow> bool"
  we_started :: instant
  we_cancelled :: bool
  we_attempts :: "(instant \<times> (io_kind + bool)) list"
  we_connect_final :: instant
  we_write :: "bytes \<Rightarrow> io_kind + unit"
  we_reads :: "(io_kind + bytes) list"
  we_parse :: "bytes \<Rightarrow> parsed_response option"
  we_response_ok :: "parsed_response \<Rightarrow> bool"
  we_latency_ms :: f64
  we_duration_ms :: f64
  we_faults :: "nat \<Rightarrow> put_faults"
  we_write_ok :: bool
  we_rename_ok :: bool
  we_tool_version :: string
  we_runtime :: string

subsection \<open>The request\<close>

definition handshake_controlled :: "string list" where
  "handshake_controlled =
     [''host'', ''upgrade'', ''connection'', ''sec-websocket-key'', ''sec-websocket-version'', ''sec-websocket-protocol'',
      ''sec-websocket-extensions'', ''content-length'', ''transfer-encoding'']"

text \<open>\<open>HeaderMap::append\<close> keeps the values of one name together, in the order of their insertion.\<close>

fun header_append :: "HeaderEntry \<Rightarrow> HeaderEntry list \<Rightarrow> HeaderEntry list" where
  "header_append h [] = [h]"
| "header_append h (x # xs) =
     (if he_name x = he_name h \<and> list_all (\<lambda>y. he_name y \<noteq> he_name h) xs then x # h # xs else x # header_append h xs)"

definition insert_header ::
  "crates \<Rightarrow> HeaderEntry list \<Rightarrow> string \<Rightarrow> string \<Rightarrow> bool \<Rightarrow> ExecError + HeaderEntry list" where
  "insert_header C headers name v sensitive =
     (if contains_any name crlf \<or> contains_any v crlf then Inl InvalidHeader
      else if \<not> header_name_ok C name then Inl InvalidHeader
      else if \<not> header_value_ok C v then Inl InvalidHeader
      else Inr (header_append (header_of name v sensitive) headers))"

definition ws_planned_header ::
  "crates \<Rightarrow> PlannedHeader \<Rightarrow> HeaderEntry list \<Rightarrow> ExecError + HeaderEntry list" where
  "ws_planned_header C planned headers =
     (if list_ex (\<lambda>owned. eq_ignore_ascii_case (ph_name planned) owned) handshake_controlled then Inl InvalidHeader
      else insert_header C headers (ph_name planned) (ph_value planned) False)"

definition ws_auth_header ::
  "crates \<Rightarrow> WebSocketPlan \<Rightarrow> InvokeOptions \<Rightarrow> HeaderEntry list \<Rightarrow> ExecError + HeaderEntry list" where
  "ws_auth_header C plan options headers =
     (case wp_auth plan of
        None \<Rightarrow> Inr headers
      | Some auth \<Rightarrow>
          if pa_placement auth = ''tls-client-certificate'' then Inr headers
          else and_then (ok_or (map_of (opt_secrets options) (pa_profile auth)) (MissingSecret (pa_profile auth))) (\<lambda>secret.
               if pa_placement auth = ''header:Authorization:basic''
               then insert_header C headers ''authorization'' (''Basic '' @ b64_encode C (as_bytes secret)) True
               else if pa_placement auth = ''header:Authorization:bearer''
               then insert_header C headers ''authorization'' (''Bearer '' @ secret) True
               else Inl (UnsupportedAuth (pa_placement auth))))"

definition websocket_request ::
  "crates \<Rightarrow> ws_env \<Rightarrow> WebSocketPlan \<Rightarrow> InvokeOptions \<Rightarrow> ExecError + (ws_request \<times> bytes list)" where
  "websocket_request C env plan options =
     and_then (ok_or (we_client_request env (wp_target plan)) InvalidTarget) (\<lambda>request.
     and_then (for_each (ws_planned_header C) (wp_headers plan) (wq_headers request)) (\<lambda>headers.
     and_then (case wp_origin plan of Some origin \<Rightarrow> insert_header C headers ''origin'' origin False | None \<Rightarrow> Inr headers) (\<lambda>headers.
     and_then (if wp_subprotocols plan \<noteq> []
               then insert_header C headers ''sec-websocket-protocol'' (join '', '' (wp_subprotocols plan)) False
               else Inr headers) (\<lambda>headers.
     and_then (ws_auth_header C plan options headers) (\<lambda>headers.
     Inr (request\<lparr>wq_headers := headers\<rparr>,
          remdups_adj (sort_key (\<lambda>v. - int (length v)) (secret_redactions C (opt_secrets options)))))))))"

subsection \<open>TLS\<close>

definition add_roots :: "ws_env \<Rightarrow> bytes \<Rightarrow> nat \<Rightarrow> ExecError + nat" where
  "add_roots env pem roots =
     (case we_pem_certificates env pem of
        None \<Rightarrow> Inl Transport
      | Some expected \<Rightarrow>
          (case we_roots_added env pem of (added, ignored) \<Rightarrow>
             if expected = 0 \<or> added \<noteq> expected \<or> ignored \<noteq> 0 then Inl Transport else Inr (roots + added)))"

text \<open>The number of trusted roots stands for the configuration; the client identity is checked.\<close>

definition build_tls_config :: "ws_env \<Rightarrow> WebSocketPlan \<Rightarrow> InvokeOptions \<Rightarrow> ExecError + nat" where
  "build_tls_config env plan options =
     and_then (ok_or (we_native_roots env) Transport) (\<lambda>native.
     and_then (for_each (add_roots env) (opt_additional_root_certificates_pem options) native) (\<lambda>roots.
     if roots = 0 then Inl Transport
     else (case wp_auth plan of
             Some auth \<Rightarrow>
               if pa_placement auth = ''tls-client-certificate''
               then and_then (ok_or (map_of (opt_secrets options) (pa_profile auth)) (MissingSecret (pa_profile auth))) (\<lambda>pem.
                    if we_client_identity_ok env pem then Inr roots else Inl InvalidClientIdentity)
               else Inr roots
           | None \<Rightarrow> Inr roots)))"

definition strip_brackets :: "string \<Rightarrow> string" where
  "strip_brackets host =
     (case (case strip_prefix ''['' host of None \<Rightarrow> None | Some h \<Rightarrow> strip_suffix '']'' h) of
        Some h \<Rightarrow> h | None \<Rightarrow> host)"

definition websocket_stream :: "ws_env \<Rightarrow> ParsedUrl \<Rightarrow> nat option \<Rightarrow> unit + unit" where
  "websocket_stream env target tls =
     (case tls of
        None \<Rightarrow> Inr ()
      | Some _ \<Rightarrow>
          (case url_host_str target of
             None \<Rightarrow> Inl ()
           | Some host \<Rightarrow> if we_server_name_ok env (strip_brackets host) then Inr () else Inl ()))"

subsection \<open>The exchange of the heads\<close>

record HandshakeFailure =
  hf_outcome :: Outcome
  hf_cause :: WebSocketTerminalCause
  hf_exit :: u8
  hf_status :: "u16 option"
  hf_response :: "parsed_response option"
  hf_counters :: WebSocketCounters

definition handshake_check_failure :: HandshakeFailure where
  "handshake_check_failure =
     \<lparr>hf_outcome = Failed, hf_cause = HandshakeCheckFailed, hf_exit = 1, hf_status = None, hf_response = None,
      hf_counters = default_counters\<rparr>"

definition handshake_error :: "WebSocketTerminalCause \<Rightarrow> HandshakeFailure" where
  "handshake_error cause =
     \<lparr>hf_outcome = OutcomeError, hf_cause = cause, hf_exit = 3, hf_status = None, hf_response = None,
      hf_counters = default_counters\<rparr>"

definition io_handshake_failure :: "io_kind \<Rightarrow> bool \<Rightarrow> HandshakeFailure" where
  "io_handshake_failure k tls =
     handshake_error
       (if k = Interrupted then Cancelled
        else if k \<in> {TimedOut, WouldBlock} then ConnectTimeout
        else if tls \<and> k = InvalidDataIo then TlsFailure
        else if k = EofKind then UnexpectedEof
        else IoFailure)"

definition max_handshake_bytes :: nat where
  "max_handshake_bytes = 64 * 1024"

definition head_end :: bytes where
  "head_end = [13, 10, 13, 10]"

fun write_headers :: "HeaderEntry list \<Rightarrow> bytes \<Rightarrow> HandshakeFailure + bytes" where
  "write_headers [] out = Inr out"
| "write_headers (h # hs) out =
     (case header_to_str (he_value h) of
        None \<Rightarrow> Inl handshake_check_failure
      | Some v \<Rightarrow>
          (let out' = out @ as_bytes (he_name h @ '': '' @ v) @ [13, 10]
           in if max_handshake_bytes < length out' then Inl handshake_check_failure else write_headers hs out'))"

definition request_head :: "ws_request \<Rightarrow> HandshakeFailure + bytes" where
  "request_head request =
     (let path = (case wq_path request of Some p \<Rightarrow> p | None \<Rightarrow> ''/'') in
      and_then (write_headers (wq_headers request) (as_bytes (''GET '' @ path @ '' HTTP/1.1'') @ [13, 10])) (\<lambda>out.
      if max_handshake_bytes < length out + 2 then Inl handshake_check_failure else Inr (out @ [13, 10])))"

text \<open>The loop that reads the response head, in chunks of at most 4 KiB.  \<open>None\<close>: the read blocks.\<close>

fun read_head :: "bool \<Rightarrow> (io_kind + bytes) list \<Rightarrow> bytes \<Rightarrow> (HandshakeFailure + (bytes \<times> nat)) option" where
  "read_head tls reads received =
     (case position head_end received of
        Some offset \<Rightarrow> Some (Inr (received, offset + 4))
      | None \<Rightarrow>
          if max_handshake_bytes \<le> length received then Some (Inl handshake_check_failure)
          else (case reads of
                  [] \<Rightarrow> None
                | Inl k # _ \<Rightarrow> Some (Inl (io_handshake_failure k tls))
                | Inr bs # rest \<Rightarrow>
                    (let chunk = take (4 * 1024) bs
                     in if chunk = [] then Some (Inl (handshake_error UnexpectedEof))
                        else if max_handshake_bytes + 4 * 1024 < length received + length chunk
                        then Some (Inl handshake_check_failure)
                        else read_head tls rest (received @ chunk))))"

declare read_head.simps [simp del]

subsection \<open>Checks on the response\<close>

definition websocket_guid :: string where
  "websocket_guid = ''258EAFA5-E914-47DA-95CA-C5AB0DC85B11''"

definition expected_accept :: "crates \<Rightarrow> string \<Rightarrow> string" where
  "expected_accept C key = b64_encode C (sha1_digest C (as_bytes key @ as_bytes websocket_guid))"

text \<open>\<open>trim\<close> on the text of a header value, which holds visible ASCII, blanks and tabs only.\<close>

definition header_blank :: "char \<Rightarrow> bool" where
  "header_blank c = (c = CHR '' '' \<or> c = char_of (9 :: nat))"

definition trim_header :: "string \<Rightarrow> string" where
  "trim_header s = rev (dropWhile header_blank (rev (dropWhile header_blank s)))"

definition header_strings :: "HeaderEntry list \<Rightarrow> string \<Rightarrow> string list" where
  "header_strings hs name = List.map_filter (\<lambda>h. header_to_str (he_value h)) (header_get_all hs name)"

definition header_strings_or_invalid :: "HeaderEntry list \<Rightarrow> string \<Rightarrow> string list" where
  "header_strings_or_invalid hs name =
     map (\<lambda>h. case header_to_str (he_value h) of Some s \<Rightarrow> s | None \<Rightarrow> char_of (0 :: nat) # ''invalid'') (header_get_all hs name)"

definition offered_subprotocols :: "ws_request \<Rightarrow> string list" where
  "offered_subprotocols request =
     (case header_get_all (wq_headers request) ''sec-websocket-protocol'' of
        [] \<Rightarrow> []
      | h # _ \<Rightarrow> (case header_to_str (he_value h) of
                    Some v \<Rightarrow> map trim_header (split_char (CHR '','') v) | None \<Rightarrow> []))"

definition upgrade_valid :: "HeaderEntry list \<Rightarrow> bool" where
  "upgrade_valid hs = list_ex (\<lambda>v. eq_ignore_ascii_case v ''websocket'') (header_strings hs ''upgrade'')"

definition connection_valid :: "HeaderEntry list \<Rightarrow> bool" where
  "connection_valid hs =
     list_ex (\<lambda>token. eq_ignore_ascii_case (trim_header token) ''upgrade'')
       (concat (map (split_char (CHR '','')) (header_strings hs ''connection'')))"

definition subprotocol_valid :: "string list \<Rightarrow> string list \<Rightarrow> bool" where
  "subprotocol_valid offered selected =
     (case selected of
        [] \<Rightarrow> offered = []
      | [s] \<Rightarrow> CHR '','' \<notin> set s \<and> list_ex (\<lambda>o'. o' = s) offered
      | _ \<Rightarrow> False)"

definition response_accepted :: "crates \<Rightarrow> string \<Rightarrow> string list \<Rightarrow> u16 \<Rightarrow> nat \<Rightarrow> HeaderEntry list \<Rightarrow> bool" where
  "response_accepted C key offered status version hs =
     (status = 101 \<and> version = 1 \<and> upgrade_valid hs \<and> connection_valid hs
      \<and> header_strings_or_invalid hs ''sec-websocket-accept'' = [expected_accept C key]
      \<and> header_get_all hs ''sec-websocket-extensions'' = []
      \<and> subprotocol_valid offered (header_strings_or_invalid hs ''sec-websocket-protocol''))"

text \<open>The bytes after the head belong to the session: they are accounted before it starts.\<close>

definition buffered_stream ::
  "WebSocketLimits \<Rightarrow> parsed_response \<Rightarrow> u16 \<Rightarrow> bytes \<Rightarrow> HandshakeFailure + AccountedStream" where
  "buffered_stream limits parsed status buffered =
     (case observe_buffered_inbound (accounted_new limits default_accounting) buffered of
        (Inr _, stream) \<Rightarrow> Inr stream
      | (Inl _, stream) \<Rightarrow>
          (let cause = (case wa_failure (as_accounting stream) of Some c \<Rightarrow> c | None \<Rightarrow> IoFailure)
           in Inl \<lparr>hf_outcome = (if cause = BudgetExhausted then Failed else OutcomeError), hf_cause = cause,
                   hf_exit = (if cause = BudgetExhausted then 1 else 3), hf_status = Some status,
                   hf_response = Some parsed, hf_counters = wa_counters (as_accounting stream)\<rparr>))"

definition check_response ::
  "crates \<Rightarrow> ws_env \<Rightarrow> WebSocketLimits \<Rightarrow> string \<Rightarrow> string list \<Rightarrow> bytes \<Rightarrow> nat
     \<Rightarrow> HandshakeFailure + (AccountedStream \<times> parsed_response)" where
  "check_response C env limits key offered received head =
     (case we_parse env (take head received) of
        None \<Rightarrow> Inl handshake_check_failure
      | Some parsed \<Rightarrow>
          if pr_bytes parsed \<noteq> head then Inl handshake_check_failure
          else if max_handshake_bytes < head then Inl handshake_check_failure
          else and_then (ok_or (pr_code parsed) handshake_check_failure) (\<lambda>status.
               and_then (case pr_version parsed of
                           Some v \<Rightarrow> if v \<le> 1 then Inr v else Inl handshake_check_failure
                         | None \<Rightarrow> Inl handshake_check_failure) (\<lambda>version.
               if \<not> we_response_ok env parsed then Inl handshake_check_failure
               else if \<not> response_accepted C key offered status version (pr_headers parsed)
               then Inl \<lparr>hf_outcome = Failed, hf_cause = HandshakeCheckFailed, hf_exit = 1, hf_status = Some status,
                         hf_response = Some parsed, hf_counters = default_counters\<rparr>
               else and_then (buffered_stream limits parsed status (drop head received)) (\<lambda>stream. Inr (stream, parsed)))))"

definition perform_upgrade ::
  "crates \<Rightarrow> ws_env \<Rightarrow> ws_request \<Rightarrow> bool \<Rightarrow> WebSocketLimits
     \<Rightarrow> (HandshakeFailure + (AccountedStream \<times> parsed_response)) option" where
  "perform_upgrade C env request tls limits =
     (case (case header_get_all (wq_headers request) ''sec-websocket-key'' of
              [] \<Rightarrow> None | h # _ \<Rightarrow> header_to_str (he_value h)) of
        None \<Rightarrow> Some (Inl handshake_check_failure)
      | Some key \<Rightarrow>
          (case request_head request of
             Inl f \<Rightarrow> Some (Inl f)
           | Inr outbound \<Rightarrow>
               (case we_write env outbound of
                  Inl k \<Rightarrow> Some (Inl (io_handshake_failure k tls))
                | Inr _ \<Rightarrow>
                    (case read_head tls (we_reads env) [] of
                       None \<Rightarrow> None
                     | Some (Inl f) \<Rightarrow> Some (Inl f)
                     | Some (Inr (received, head)) \<Rightarrow>
                         Some (check_response C env limits key (offered_subprotocols request) received head)))))"

end
