(* ===== verification/Ws_Connect.thy ===== *)
theory Ws_Connect
  imports Ws_Handshake Ws_Session
begin

text \<open>
  Executing a sealed WebSocket plan from end to end (\<open>kahea-exec\<close>, \<open>websocket.rs\<close>): the gates before any
  connection, the pinned connection, the handshake, the session, and the one terminal observation with its
  evidence.  The addresses to which a connection was attempted are part of every result.
\<close>

subsection \<open>Denials and the transport binding\<close>

definition websocket_denial :: "WebSocketPlan \<Rightarrow> string \<Rightarrow> string \<Rightarrow> DenialEnvelope" where
  "websocket_denial plan reason required =
     \<lparr>de_protocol = PROTOCOL, de_kind = ''denial'', de_version = VERSION,
      de_config_fingerprint = wp_config_fingerprint plan, de_plan = wp_id plan, de_reason = reason,
      de_required = required, de_policy = wp_policy_fingerprint plan, de_exit = 4\<rparr>"

definition is_address_dependent_grant :: "string \<Rightarrow> bool" where
  "is_address_dependent_grant grant = starts_with grant ''net-cidr:''"

definition binding_grants :: "WebSocketPlan \<Rightarrow> ParsedUrl \<Rightarrow> string \<Rightarrow> u16 \<Rightarrow> string list" where
  "binding_grants plan target host port =
     [net_grant host port, ''websocket:connect'']
     @ (if url_scheme target = ''ws'' then [''net-insecure-websocket''] else [])
     @ (case wp_auth plan of
          None \<Rightarrow> []
        | Some auth \<Rightarrow>
            (''secret:'' @ pa_profile auth)
            # (if pa_placement auth = ''tls-client-certificate'' then [''tls-client-cert:'' @ pa_profile auth] else []))"

text \<open>The sorted list of checks: \<open>extensions:none\<close>, \<open>status:101\<close>, then the subprotocol.\<close>

definition binding_checks :: "WebSocketPlan \<Rightarrow> string list" where
  "binding_checks plan =
     [''extensions:none'', ''status:101'']
     @ (case wp_subprotocols plan of
          [] \<Rightarrow> []
        | [p] \<Rightarrow> [''subprotocol:'' @ p]
        | ps \<Rightarrow> [''subprotocol:any('' @ join '','' ps @ '')''])"

definition validate_transport_binding :: "WebSocketPlan \<Rightarrow> ParsedUrl \<Rightarrow> ExecError + unit" where
  "validate_transport_binding plan target =
     and_then (ok_or (url_host_str target) InvalidSeal) (\<lambda>host.
     and_then (ok_or (url_port_or_known_default target) InvalidSeal) (\<lambda>port.
     if (case wp_auth plan of
           None \<Rightarrow> False | Some auth \<Rightarrow> (''secret://'' @ pa_profile auth) \<notin> set (wp_secret_refs plan))
     then Inl InvalidSeal
     else if list_ex (\<lambda>g. g \<notin> set (wp_required_grants plan)) (binding_grants plan target host port) then Inl InvalidSeal
     else if wp_handshake_checks plan \<noteq> binding_checks plan then Inl InvalidSeal
     else Inr ()))"

subsection \<open>The runtime target\<close>

datatype RuntimeTarget = Allowed "SocketAddr list" | RuntimeDenied DenialEnvelope

datatype RuntimeTargetError = Dns

definition evaluate_websocket_target ::
  "ws_env \<Rightarrow> WebSocketPlan \<Rightarrow> ParsedUrl \<Rightarrow> InvokeOptions \<Rightarrow> RuntimeTargetError + RuntimeTarget" where
  "evaluate_websocket_target env plan target options =
     (if url_scheme target \<notin> {''ws'', ''wss''} \<or> url_username target \<noteq> [] \<or> url_password target \<noteq> None
         \<or> url_fragment target \<noteq> None
      then Inr (RuntimeDenied (websocket_denial plan ''runtime WebSocket target is incompatible with the sealed transport''
                  ''websocket:connect''))
      else (case url_host_str target of
              None \<Rightarrow> Inr (RuntimeDenied (websocket_denial plan ''runtime WebSocket target has no host'' ''websocket:connect''))
            | Some host \<Rightarrow>
                (case url_port_or_known_default target of
                   None \<Rightarrow> Inr (RuntimeDenied (websocket_denial plan ''runtime WebSocket target has no port'' ''websocket:connect''))
                 | Some port \<Rightarrow>
                     (case missing_grant (opt_grants options) [net_grant host port, ''websocket:connect''] of
                        Some grant \<Rightarrow>
                          Inr (RuntimeDenied (websocket_denial plan ''runtime target requires an explicit capability'' grant))
                      | None \<Rightarrow>
                          if url_scheme target = ''ws'' \<and> ''net-insecure-websocket'' \<notin> opt_grants options
                          then Inr (RuntimeDenied (websocket_denial plan ''plaintext WebSocket requires an explicit grant''
                                      ''net-insecure-websocket''))
                          else (case we_resolve env (strip_brackets host) port of
                                  None \<Rightarrow> Inl Dns
                                | Some addresses \<Rightarrow>
                                    if addresses = [] \<or> list_ex (\<lambda>a. sa_port a \<noteq> port) addresses then Inl Dns
                                    else (case ungranted_address (opt_grants options) addresses of
                                            Some a \<Rightarrow>
                                              Inr (RuntimeDenied (websocket_denial plan
                                                     ''resolved address is denied by the network boundary'' (cidr_grant (sa_ip a))))
                                          | None \<Rightarrow> Inr (Allowed addresses)))))))"

subsection \<open>Evidence of a session\<close>

fun outcome_name :: "Outcome \<Rightarrow> string" where
  "outcome_name Passed = ''passed''" | "outcome_name Failed = ''failed''"
| "outcome_name Denied = ''denied''" | "outcome_name OutcomeError = ''error''"

fun cause_name :: "WebSocketTerminalCause \<Rightarrow> string" where
  "cause_name Completed = ''completed''" | "cause_name HandshakeCheckFailed = ''handshake-check-failed''"
| "cause_name ExpectationFailed = ''expectation-failed''" | "cause_name BudgetExhausted = ''budget-exhausted''"
| "cause_name DnsFailure = ''dns-failure''" | "cause_name ConnectionFailure = ''connection-failure''"
| "cause_name TlsFailure = ''tls-failure''" | "cause_name IoFailure = ''io-failure''"
| "cause_name ProtocolViolation = ''protocol-violation''" | "cause_name UnexpectedEof = ''unexpected-eof''"
| "cause_name ConnectTimeout = ''connect-timeout''" | "cause_name ActionTimeout = ''action-timeout''"
| "cause_name IdleTimeout = ''idle-timeout''" | "cause_name CloseTimeout = ''close-timeout''"
| "cause_name TotalTimeout = ''total-timeout''" | "cause_name Cancelled = ''cancelled''"

definition payload_evidence_kind :: "crates \<Rightarrow> TranscriptPayloadKind \<Rightarrow> bytes \<Rightarrow> string \<times> string" where
  "payload_evidence_kind C kind redacted =
     (case kind of
        TextPayload \<Rightarrow>
          if json_from_slice C redacted \<noteq> None then (''websocket-json'', ''application/json'')
          else (''websocket-text'', ''text/plain; charset=utf-8'')
      | BinaryPayload \<Rightarrow> (''websocket-binary'', ''application/octet-stream'')
      | ControlPayload \<Rightarrow> (''websocket-control'', ''application/octet-stream''))"

definition transcript_payload :: "crates \<Rightarrow> WebSocketPlan \<Rightarrow> string \<Rightarrow> TranscriptPayloadKind \<Rightarrow> bytes \<Rightarrow> bytes list \<Rightarrow> bytes" where
  "transcript_payload C plan direction kind payload redactions =
     redact_bytes
       (if direction = ''inbound'' \<and> kind = TextPayload
        then redact_json_pointers C payload (wp_redact_response_json_pointers plan) else payload)
       redactions"

definition store_transcript_payload ::
  "crates \<Rightarrow> put_faults \<Rightarrow> WebSocketPlan \<Rightarrow> string \<Rightarrow> TranscriptPayloadKind \<Rightarrow> bytes \<Rightarrow> bytes list \<Rightarrow> EvidenceStore
     \<Rightarrow> (EvidenceError + EvidenceEnvelope) \<times> EvidenceStore" where
  "store_transcript_payload C pf plan direction kind payload redactions s =
     (let redacted = transcript_payload C plan direction kind payload redactions in
      case payload_evidence_kind C kind redacted of
        (evidence_kind, media_type) \<Rightarrow> put_blob C pf evidence_kind media_type redacted True s)"

definition json_option :: "('a \<Rightarrow> json) \<Rightarrow> 'a option \<Rightarrow> json" where
  "json_option f v = (case v of Some x \<Rightarrow> f x | None \<Rightarrow> JNull)"

definition entry_json :: "nat \<Rightarrow> TranscriptEntry \<Rightarrow> string option \<Rightarrow> json" where
  "entry_json sequence e payload =
     JObject [(''action_index'', json_option json_nat (te_action_index e)), (''bytes'', json_nat (unat (te_bytes e))),
              (''check'', JString (te_check e)), (''code'', json_option (\<lambda>c. json_nat (unat c)) (te_code e)),
              (''direction'', JString (te_direction e)), (''kind'', JString (te_kind e)),
              (''payload'', json_option JString payload), (''sequence'', json_nat sequence)]"

fun store_entries ::
  "crates \<Rightarrow> (nat \<Rightarrow> put_faults) \<Rightarrow> WebSocketPlan \<Rightarrow> bytes list \<Rightarrow> nat \<Rightarrow> TranscriptEntry list \<Rightarrow> json list \<Rightarrow> EvidenceStore
     \<Rightarrow> (EvidenceError + json list) \<times> EvidenceStore" where
  "store_entries C faults plan redactions n [] entries s = (Inr entries, s)"
| "store_entries C faults plan redactions n (e # es) entries s =
     (case (te_payload e, te_payload_kind e) of
        (Some payload, Some kind) \<Rightarrow>
          (case store_transcript_payload C (faults (4 + n)) plan (te_direction e) kind payload redactions s of
             (Inl err, s') \<Rightarrow> (Inl err, s')
           | (Inr envelope, s') \<Rightarrow>
               store_entries C faults plan redactions (n + 1) es (entries @ [entry_json n e (Some (ee_handle envelope))]) s')
      | _ \<Rightarrow> store_entries C faults plan redactions (n + 1) es (entries @ [entry_json n e None]) s)"

definition store_transcript ::
  "crates \<Rightarrow> (nat \<Rightarrow> put_faults) \<Rightarrow> WebSocketPlan \<Rightarrow> TranscriptEntry list \<Rightarrow> bytes list \<Rightarrow> Outcome \<Rightarrow> WebSocketTerminalCause \<Rightarrow> u8
     \<Rightarrow> EvidenceStore \<Rightarrow> (EvidenceError + EvidenceEnvelope) \<times> EvidenceStore" where
  "store_transcript C faults plan transcript redactions outcome cause exit s =
     (case store_entries C faults plan redactions 0 transcript [] s of
        (Inl err, s') \<Rightarrow> (Inl err, s')
      | (Inr entries, s') \<Rightarrow>
          put_json C (faults 2) ''transcript''
            (json_to_vec C (JObject
               [(''entries'', JArray entries),
                (''terminal'', JObject [(''cause'', JString (cause_name cause)), (''exit'', json_nat (unat exit)),
                                       (''outcome'', JString (outcome_name outcome))]),
                (''version'', json_nat 1)])) True s')"

definition store_websocket_trace ::
  "crates \<Rightarrow> put_faults \<Rightarrow> WebSocketPlan \<Rightarrow> ws_request \<Rightarrow> bytes list \<Rightarrow> EvidenceStore
     \<Rightarrow> (EvidenceError + EvidenceEnvelope) \<times> EvidenceStore" where
  "store_websocket_trace C pf plan request redactions s =
     put_json C pf ''websocket-trace''
       (json_to_vec C (JObject [(''request'', JObject
          [(''headers'', JObject (safe_headers (wq_headers request) (wp_sensitive_headers plan) redactions True)),
           (''method'', JString ''GET''), (''target'', JString (redact_text (wp_target plan) redactions))])])) True s"

text \<open>\<open>check_response\<close> admits the versions 1.0 and 1.1 only.\<close>

fun http_version :: "nat option \<Rightarrow> string" where
  "http_version v = (if v = Some 0 then ''1.0'' else ''1.1'')"

definition parsed_status :: "parsed_response \<Rightarrow> u16" where
  "parsed_status r = (case pr_code r of Some c \<Rightarrow> c | None \<Rightarrow> 0)"

definition store_handshake ::
  "crates \<Rightarrow> put_faults \<Rightarrow> WebSocketPlan \<Rightarrow> parsed_response \<Rightarrow> bytes list \<Rightarrow> EvidenceStore
     \<Rightarrow> (EvidenceError + EvidenceEnvelope) \<times> EvidenceStore" where
  "store_handshake C pf plan response redactions s =
     put_json C pf ''websocket-handshake''
       (json_to_vec C (JObject [(''response'', JObject
          [(''headers'', JObject (safe_headers (pr_headers response) (wp_sensitive_headers plan) redactions False)),
           (''http_version'', JString (http_version (pr_version response))),
           (''status'', json_nat (unat (parsed_status response)))])])) True s"

definition selected_subprotocol :: "parsed_response \<Rightarrow> string option" where
  "selected_subprotocol response =
     (case header_get_all (pr_headers response) ''sec-websocket-protocol'' of
        [] \<Rightarrow> None | h # _ \<Rightarrow> header_to_str (he_value h))"

subsection \<open>Terminal observations\<close>

record FailureDetails =
  fd_status :: "u16 option"
  fd_subprotocol :: "string option"
  fd_resolved :: "SocketAddr option"
  fd_handshake :: "string option"
  fd_trace :: "string option"
  fd_http_version :: "string option"
  fd_counters :: WebSocketCounters

definition no_details :: FailureDetails where
  "no_details =
     \<lparr>fd_status = None, fd_subprotocol = None, fd_resolved = None, fd_handshake = None, fd_trace = None,
      fd_http_version = None, fd_counters = default_counters\<rparr>"

fun show_socket_addr :: "SocketAddr \<Rightarrow> string" where
  "show_socket_addr a =
     (case sa_ip a of
        V4 b0 b1 b2 b3 \<Rightarrow> show_v4 b0 b1 b2 b3 @ '':'' @ show_u16 (sa_port a)
      | V6 s0 s1 s2 s3 s4 s5 s6 s7 \<Rightarrow>
          ''['' @ show_v6 [s0, s1, s2, s3, s4, s5, s6, s7] @ '']:'' @ show_u16 (sa_port a))"

definition websocket_observation ::
  "ws_env \<Rightarrow> WebSocketPlan \<Rightarrow> Outcome \<Rightarrow> WebSocketTerminalCause \<Rightarrow> u8 \<Rightarrow> FailureDetails \<Rightarrow> f64 \<Rightarrow> f64
     \<Rightarrow> WebSocketCloseObservation option \<Rightarrow> string \<Rightarrow> WebSocketObservation" where
  "websocket_observation env plan outcome cause exit details latency elapsed close transcript =
     \<lparr>wo_protocol = PROTOCOL, wo_kind = ''websocket-observation'', wo_version = VERSION,
      wo_config_fingerprint = wp_config_fingerprint plan, wo_policy_fingerprint = wp_policy_fingerprint plan,
      wo_source_fingerprints = wp_source_fingerprints plan, wo_tool_version = we_tool_version env,
      wo_plan = wp_id plan, wo_outcome = outcome, wo_handshake_status = fd_status details,
      wo_negotiated_subprotocol = fd_subprotocol details, wo_handshake_latency_ms = Some latency,
      wo_session_duration_ms = Some elapsed, wo_transcript = Some transcript,
      wo_handshake = fd_handshake details, wo_trace = fd_trace details, wo_close = close, wo_terminal_cause = cause,
      wo_counters = fd_counters details, wo_resolved_origin = map_option show_socket_addr (fd_resolved details),
      wo_http_version = fd_http_version details, wo_secret_refs = wp_secret_refs plan, wo_runtime = we_runtime env,
      wo_exit = exit\<rparr>"

definition persist_terminal ::
  "crates \<Rightarrow> ws_env \<Rightarrow> WebSocketObservation \<Rightarrow> EvidenceStore \<Rightarrow> (ExecError + WebSocketObservation) \<times> EvidenceStore" where
  "persist_terminal C env obs s =
     (case persist_websocket_observation C (we_faults env 3) (we_write_ok env) (we_rename_ok env) obs s of
        (Inl e, s') \<Rightarrow> (Inl (EvidenceFailure e), s')
      | (Inr _, s') \<Rightarrow> (Inr obs, s'))"

definition failed_observation ::
  "crates \<Rightarrow> ws_env \<Rightarrow> WebSocketPlan \<Rightarrow> Outcome \<Rightarrow> WebSocketTerminalCause \<Rightarrow> u8 \<Rightarrow> FailureDetails \<Rightarrow> EvidenceStore
     \<Rightarrow> (ExecError + WebSocketObservation) \<times> EvidenceStore" where
  "failed_observation C env plan outcome cause exit details s =
     (case store_transcript C (we_faults env) plan [] [] outcome cause exit s of
        (Inl e, s') \<Rightarrow> (Inl (EvidenceFailure e), s')
      | (Inr transcript, s') \<Rightarrow>
          persist_terminal C env
            (websocket_observation env plan outcome cause exit details (we_latency_ms env) (we_latency_ms env) None
               (ee_handle transcript)) s')"

subsection \<open>Connecting\<close>

record WebSocketHandshakeMetadata =
  hm_status :: u16
  hm_negotiated_subprotocol :: "string option"
  hm_latency :: f64
  hm_resolved_origin :: SocketAddr
  hm_http_version :: string
  hm_handshake :: string
  hm_trace :: string

record WebSocketConnection =
  wc_metadata :: WebSocketHandshakeMetadata
  wc_stream :: AccountedStream
  wc_cancellable :: bool
  wc_deadline :: DeadlineState
  wc_total_deadline :: instant
  wc_redactions :: "bytes list"

datatype WebSocketConnectResult =
    Connected WebSocketConnection | ObservationResult WebSocketObservation | DeniedResult DenialEnvelope

fun connect_exit :: "WebSocketConnectResult \<Rightarrow> u8 option" where
  "connect_exit (Connected _) = None"
| "connect_exit (ObservationResult o') = Some (wo_exit o')"
| "connect_exit (DeniedResult d) = Some (de_exit d)"

text \<open>The addresses \<open>connect_pinned\<close> tries, in order.\<close>

fun connect_attempts :: "'addr list \<Rightarrow> instant \<Rightarrow> (instant \<times> (io_kind + bool)) list \<Rightarrow> 'addr list" where
  "connect_attempts (a # as) dl ((now, attempt) # env) =
     (if dl < now then []
      else (case attempt of Inr _ \<Rightarrow> [a] | Inl _ \<Rightarrow> a # connect_attempts as dl env))"
| "connect_attempts _ dl _ = []"

definition connect_gate :: "crates \<Rightarrow> WebSocketPlan \<Rightarrow> InvokeOptions \<Rightarrow> ExecError + DenialEnvelope option" where
  "connect_gate C plan options =
     and_then (map_err (\<lambda>_. ExecSerialization) (verify_seal_websocket_plan C plan)) (\<lambda>sealed.
     if \<not> sealed \<or> validate C plan \<noteq> Inr () then Inl InvalidSeal
     else if fingerprint_mismatch (opt_expected_config_fingerprint options) (wp_config_fingerprint plan)
     then Inl ConfigurationMismatch
     else if fingerprint_mismatch (opt_expected_policy_fingerprint options) (wp_policy_fingerprint plan)
     then Inl PolicyMismatch
     else (case missing_grant (opt_grants options)
                  (filter (\<lambda>g. \<not> is_address_dependent_grant g) (wp_required_grants plan)) of
             Some missing \<Rightarrow> Inr (Some (websocket_denial plan ''invocation is missing a required capability'' missing))
           | None \<Rightarrow> Inr None))"

text \<open>Results of one run: the result or error, the store, and the addresses contacted.\<close>

type_synonym 'a ws_exec = "(ExecError + 'a) \<times> EvidenceStore \<times> SocketAddr list"

definition observed ::
  "SocketAddr list \<Rightarrow> (ExecError + WebSocketObservation) \<times> EvidenceStore \<Rightarrow> WebSocketConnectResult ws_exec" where
  "observed contacted r = (case r of (x, s) \<Rightarrow> (and_then x (\<lambda>o'. Inr (ObservationResult o')), s, contacted))"

definition total_deadline_of :: "ws_env \<Rightarrow> instant \<Rightarrow> WebSocketPlan \<Rightarrow> InvokeOptions \<Rightarrow> instant" where
  "total_deadline_of env im plan options =
     bounded_total_deadline im (we_started env) (total_timeout_ms (wp_limits plan)) (opt_timeout options)"

text \<open>What follows a failed handshake: the response, if there was one, is stored before the observation.\<close>

definition handshake_failed ::
  "crates \<Rightarrow> ws_env \<Rightarrow> WebSocketPlan \<Rightarrow> bytes list \<Rightarrow> SocketAddr \<Rightarrow> string \<Rightarrow> HandshakeFailure \<Rightarrow> EvidenceStore
     \<Rightarrow> (ExecError + WebSocketObservation) \<times> EvidenceStore" where
  "handshake_failed C env plan redactions address trace failure s =
     (case (case hf_response failure of
              None \<Rightarrow> (Inr None, s)
            | Some response \<Rightarrow>
                (case store_handshake C (we_faults env 1) plan response redactions s of
                   (Inl e, s') \<Rightarrow> (Inl e, s')
                 | (Inr envelope, s') \<Rightarrow> (Inr (Some (ee_handle envelope)), s'))) of
        (Inl e, s') \<Rightarrow> (Inl (EvidenceFailure e), s')
      | (Inr handshake, s') \<Rightarrow>
          failed_observation C env plan (hf_outcome failure) (hf_cause failure) (hf_exit failure)
            \<lparr>fd_status = hf_status failure,
             fd_subprotocol = (case hf_response failure of Some r \<Rightarrow> selected_subprotocol r | None \<Rightarrow> None),
             fd_resolved = Some address, fd_handshake = handshake, fd_trace = Some trace,
             fd_http_version = map_option (\<lambda>r. http_version (pr_version r)) (hf_response failure),
             fd_counters = hf_counters failure\<rparr> s')"

text \<open>From the connected socket to the open session.\<close>

definition upgrade_connection ::
  "crates \<Rightarrow> ws_env \<Rightarrow> instant \<Rightarrow> WebSocketPlan \<Rightarrow> InvokeOptions \<Rightarrow> bool \<Rightarrow> ParsedUrl \<Rightarrow> ws_request \<Rightarrow> bytes list \<Rightarrow> string
     \<Rightarrow> SocketAddr \<Rightarrow> SocketAddr list \<Rightarrow> EvidenceStore \<Rightarrow> WebSocketConnectResult ws_exec option" where
  "upgrade_connection C env im plan options cancellable target request redactions trace address contacted s =
     (case perform_upgrade C env request (url_scheme target = ''wss'') (wp_limits plan) of
        None \<Rightarrow> None
      | Some (Inl failure) \<Rightarrow> Some (observed contacted (handshake_failed C env plan redactions address trace failure s))
      | Some (Inr (stream, response)) \<Rightarrow>
          Some (case store_handshake C (we_faults env 1) plan response redactions s of
                  (Inl e, s') \<Rightarrow> (Inl (EvidenceFailure e), s', contacted)
                | (Inr handshake, s') \<Rightarrow>
                    (Inr (Connected
                       \<lparr>wc_metadata =
                          \<lparr>hm_status = parsed_status response, hm_negotiated_subprotocol = selected_subprotocol response,
                           hm_latency = we_latency_ms env, hm_resolved_origin = address,
                           hm_http_version = http_version (pr_version response), hm_handshake = ee_handle handshake,
                           hm_trace = trace\<rparr>,
                        wc_stream = stream, wc_cancellable = cancellable,
                        wc_deadline = fixed_deadline (total_deadline_of env im plan options) TotalTimeout,
                        wc_total_deadline = total_deadline_of env im plan options, wc_redactions = redactions\<rparr>), s', contacted)))"

definition connect_addresses ::
  "crates \<Rightarrow> ws_env \<Rightarrow> instant \<Rightarrow> WebSocketPlan \<Rightarrow> InvokeOptions \<Rightarrow> bool \<Rightarrow> ParsedUrl \<Rightarrow> SocketAddr list \<Rightarrow> EvidenceStore
     \<Rightarrow> WebSocketConnectResult ws_exec option" where
  "connect_addresses C env im plan options cancellable target addresses s =
     (case websocket_request C env plan options of
        Inl e \<Rightarrow> Some (Inl e, s, [])
      | Inr (request, redactions) \<Rightarrow>
          (case store_websocket_trace C (we_faults env 0) plan request redactions s of
             (Inl e, s1) \<Rightarrow> Some (Inl (EvidenceFailure e), s1, [])
           | (Inr trace, s1) \<Rightarrow>
               (case (if url_scheme target = ''wss''
                      then and_then (build_tls_config env plan options) (\<lambda>n. Inr (Some n)) else Inr None) of
                  Inl e \<Rightarrow> Some (Inl e, s1, [])
                | Inr tls \<Rightarrow>
                    (let dl = min (deadline im (we_started env) (connect_timeout_ms (wp_limits plan)))
                                (total_deadline_of env im plan options);
                         contacted = connect_attempts addresses dl (we_attempts env);
                         failed = (\<lambda>cause details. Some (observed contacted
                                     (failed_observation C env plan OutcomeError cause 3 details s1)));
                         traced = no_details\<lparr>fd_trace := Some (ee_handle trace)\<rparr>
                     in case connect_pinned addresses dl (we_attempts env) (we_connect_final env) False of
                          Inl ConnectTimedOut \<Rightarrow> failed ConnectTimeout traced
                        | Inl ConnectRefused \<Rightarrow> failed ConnectionFailure traced
                        | Inr address \<Rightarrow>
                            (case websocket_stream env target tls of
                               Inl _ \<Rightarrow> failed TlsFailure (traced\<lparr>fd_resolved := Some address\<rparr>)
                             | Inr _ \<Rightarrow>
                                 upgrade_connection C env im plan options cancellable target request redactions
                                   (ee_handle trace) address contacted s1)))))"

definition connect_websocket ::
  "crates \<Rightarrow> ws_env \<Rightarrow> instant \<Rightarrow> WebSocketPlan \<Rightarrow> InvokeOptions \<Rightarrow> bool \<Rightarrow> EvidenceStore
     \<Rightarrow> WebSocketConnectResult ws_exec option" where
  "connect_websocket C env im plan options cancellable s =
     (case connect_gate C plan options of
        Inl e \<Rightarrow> Some (Inl e, s, [])
      | Inr (Some d) \<Rightarrow> Some (Inr (DeniedResult d), s, [])
      | Inr None \<Rightarrow>
          if cancellable \<and> we_cancelled env
          then Some (observed [] (failed_observation C env plan OutcomeError Cancelled 3 no_details s))
          else (case and_then (ok_or (url_parse C (wp_target plan)) InvalidTarget) (\<lambda>target.
                     and_then (validate_transport_binding plan target) (\<lambda>_. Inr target)) of
                  Inl e \<Rightarrow> Some (Inl e, s, [])
                | Inr target \<Rightarrow>
                    (case evaluate_websocket_target env plan target options of
                       Inl Dns \<Rightarrow> Some (observed [] (failed_observation C env plan OutcomeError DnsFailure 3 no_details s))
                     | Inr (RuntimeDenied d) \<Rightarrow> Some (Inr (DeniedResult d), s, [])
                     | Inr (Allowed addresses) \<Rightarrow>
                         (case missing_grant (opt_grants options) (wp_required_grants plan) of
                            Some missing \<Rightarrow>
                              Some (Inr (DeniedResult (websocket_denial plan
                                      ''invocation is missing a required capability'' missing)), s, [])
                          | None \<Rightarrow> connect_addresses C env im plan options cancellable target addresses s))))"

subsection \<open>The whole run\<close>

definition finish_session ::
  "crates \<Rightarrow> ws_env \<Rightarrow> WebSocketPlan \<Rightarrow> WebSocketConnection \<Rightarrow> WebSocketCounters \<Rightarrow> TranscriptEntry list \<Rightarrow> SessionTerminal
     \<Rightarrow> EvidenceStore \<Rightarrow> (ExecError + WebSocketObservation) \<times> EvidenceStore" where
  "finish_session C env plan connection counters transcript terminal s =
     (let close = map_option (sanitize_close (wc_redactions connection)) (ter_close terminal);
          md = wc_metadata connection in
      case store_transcript C (we_faults env) plan transcript (wc_redactions connection) (ter_outcome terminal)
             (ter_cause terminal) (ter_exit terminal) s of
        (Inl e, s') \<Rightarrow> (Inl (EvidenceFailure e), s')
      | (Inr stored, s') \<Rightarrow>
          persist_terminal C env
            (websocket_observation env plan (ter_outcome terminal) (ter_cause terminal) (ter_exit terminal)
               \<lparr>fd_status = Some (hm_status md), fd_subprotocol = hm_negotiated_subprotocol md,
                fd_resolved = Some (hm_resolved_origin md), fd_handshake = Some (hm_handshake md),
                fd_trace = Some (hm_trace md), fd_http_version = Some (hm_http_version md), fd_counters = counters\<rparr>
               (hm_latency md) (we_duration_ms env) close (ee_handle stored)) s')"

definition execute_connected_websocket ::
  "crates \<Rightarrow> ws_env \<Rightarrow> instant \<Rightarrow> WebSocketPlan \<Rightarrow> WebSocketConnection \<Rightarrow> ws_reply list \<Rightarrow> EvidenceStore
     \<Rightarrow> ((ExecError + WebSocketObservation) \<times> EvidenceStore) option" where
  "execute_connected_websocket C env im plan connection rs s =
     (case execute_session C im plan
             (start_session plan (wc_stream connection) (wc_total_deadline connection) (wc_cancellable connection)) rs of
        Inl e \<Rightarrow> Some (Inl e, s)
      | Inr None \<Rightarrow> None
      | Inr (Some (terminal, counters, transcript)) \<Rightarrow>
          Some (finish_session C env plan connection counters transcript terminal s))"

text \<open>\<open>execute_websocket\<close>, with or without a cancellation handle.\<close>

definition execute_websocket ::
  "crates \<Rightarrow> ws_env \<Rightarrow> instant \<Rightarrow> WebSocketPlan \<Rightarrow> InvokeOptions \<Rightarrow> bool \<Rightarrow> ws_reply list \<Rightarrow> EvidenceStore
     \<Rightarrow> WebSocketConnectResult ws_exec option" where
  "execute_websocket C env im plan options cancellable rs s =
     (case connect_websocket C env im plan options cancellable s of
        Some (Inr (Connected connection), s', contacted) \<Rightarrow>
          map_option (observed contacted) (execute_connected_websocket C env im plan connection rs s')
      | terminal \<Rightarrow> terminal)"

end
