(* ===== verification/Ws_Run_Sample.thy ===== *)
theory Ws_Run_Sample
  imports Ws_Connect Ws_Session_Outcomes
begin

text \<open>
  A concrete WebSocket run from the sealed plan to the persisted observation, for the witnesses of the
  properties of whole runs: the sample session over a handshake with a local server.
\<close>

definition run_plan :: WebSocketPlan where
  "run_plan =
     (case seal_websocket_plan sample_crates
             (sample_plan\<lparr>wp_required_grants := [''net-cidr:127.0.0.1/32'', ''net-insecure-websocket'', ''net:127.0.0.1:9000'',
                           ''websocket:connect''],
                          wp_handshake_checks := [''extensions:none'', ''status:101'', ''subprotocol:feed.v1'']\<rparr>) of
        Inr p \<Rightarrow> p | Inl _ \<Rightarrow> sample_plan)"

definition run_address :: SocketAddr where
  "run_address = \<lparr>sa_ip = V4 127 0 0 1, sa_port = 9000\<rparr>"

definition run_options :: InvokeOptions where
  "run_options =
     default_options\<lparr>opt_grants := set (wp_required_grants run_plan),
                      opt_expected_config_fingerprint := Some (wp_config_fingerprint run_plan),
                      opt_expected_policy_fingerprint := Some (wp_policy_fingerprint run_plan)\<rparr>"

definition run_request :: ws_request where
  "run_request = \<lparr>wq_headers = [header_of ''sec-websocket-key'' ''a2V5'' False], wq_path = Some ''/feed''\<rparr>"

definition run_response :: parsed_response where
  "run_response =
     \<lparr>pr_bytes = 4, pr_code = Some 101, pr_version = Some 1,
      pr_headers = [header_of ''upgrade'' ''websocket'' False, header_of ''connection'' ''Upgrade'' False,
        header_of ''sec-websocket-accept'' (expected_accept sample_crates ''a2V5'') False,
        header_of ''sec-websocket-protocol'' ''feed.v1'' False]\<rparr>"

definition run_env :: ws_env where
  "run_env =
     \<lparr>we_resolve = (\<lambda>_ _. Some [run_address]), we_client_request = (\<lambda>_. Some run_request), we_native_roots = None,
      we_pem_certificates = (\<lambda>_. None), we_roots_added = (\<lambda>_. (0, 0)), we_client_identity_ok = (\<lambda>_. False),
      we_server_name_ok = (\<lambda>_. True), we_started = 0, we_cancelled = False, we_attempts = [(0, Inr True)],
      we_connect_final = 0, we_write = (\<lambda>_. Inr ()), we_reads = [Inr head_end], we_parse = (\<lambda>_. Some run_response),
      we_response_ok = (\<lambda>_. True), we_latency_ms = 1, we_duration_ms = 2, we_faults = (\<lambda>_. no_faults), we_write_ok = True,
      we_rename_ok = True, we_tool_version = ''0.1.0'', we_runtime = ''linux-x86_64''\<rparr>"

lemma put_without_faults:
  "\<exists>e s'. put_blob C no_faults kind media data redacted s = (Inr e, s')"
  by (simp add: put_blob_def write_blob_def no_faults_def Let_def)

lemma put_json_without_faults:
  "\<exists>e s'. put_json sample_crates no_faults kind (json_to_vec sample_crates v) redacted s = (Inr e, s')"
  using put_without_faults [of sample_crates kind] by (simp add: put_json_def sample_crates_def)

lemma run_grant: "net_grant ''127.0.0.1'' 9000 = ''net:127.0.0.1:9000''" "cidr_grant (V4 127 0 0 1) = ''net-cidr:127.0.0.1/32''"
  by (simp add: net_grant_def show_u16_def show_nat.simps, code_simp) code_simp

lemma run_plan_seal:
  "seal_websocket_plan sample_crates
     (sample_plan\<lparr>wp_required_grants := [''net-cidr:127.0.0.1/32'', ''net-insecure-websocket'', ''net:127.0.0.1:9000'',
                   ''websocket:connect''],
                  wp_handshake_checks := [''extensions:none'', ''status:101'', ''subprotocol:feed.v1'']\<rparr>) = Inr run_plan"
proof -
  let ?p = "sample_plan\<lparr>wp_required_grants := [''net-cidr:127.0.0.1/32'', ''net-insecure-websocket'', ''net:127.0.0.1:9000'',
                   ''websocket:connect''], wp_handshake_checks := [''extensions:none'', ''status:101'', ''subprotocol:feed.v1'']\<rparr>"
  have "websocket_plan_ok sample_crates ?p" using sample_plan_ok by (simp add: websocket_plan_ok_def)
  then obtain q where "seal_websocket_plan sample_crates ?p = Inr q"
    by (simp add: seal_websocket_plan_iff sample_crates_def)
  then show ?thesis by (simp add: run_plan_def)
qed

lemma sort_dedup_sample:
  "sort_dedup [''net-cidr:127.0.0.1/32'', ''net-insecure-websocket'', ''net:127.0.0.1:9000'', ''websocket:connect'']
     = [''net-cidr:127.0.0.1/32'', ''net-insecure-websocket'', ''net:127.0.0.1:9000'', ''websocket:connect'']"
  "sort_dedup [''extensions:none'', ''status:101'', ''subprotocol:feed.v1'']
     = [''extensions:none'', ''status:101'', ''subprotocol:feed.v1'']"
  "map normalize_action sample_actions = sample_actions"
  by code_simp+

lemma run_plan_fields:
  "wp_limits run_plan = sample_limits" "wp_actions run_plan = sample_actions" "wp_target run_plan = ''ws://127.0.0.1:9000/feed''"
  "wp_required_grants run_plan = [''net-cidr:127.0.0.1/32'', ''net-insecure-websocket'', ''net:127.0.0.1:9000'', ''websocket:connect'']"
  "wp_handshake_checks run_plan = [''extensions:none'', ''status:101'', ''subprotocol:feed.v1'']"
  "wp_auth run_plan = None" "wp_headers run_plan = []" "wp_origin run_plan = None" "wp_subprotocols run_plan = [''feed.v1'']"
proof -
  from run_plan_seal obtain bs where eq: "run_plan = (clear_websocket_plan (normalize
     (sample_plan\<lparr>wp_required_grants := [''net-cidr:127.0.0.1/32'', ''net-insecure-websocket'', ''net:127.0.0.1:9000'',
                   ''websocket:connect''],
                  wp_handshake_checks := [''extensions:none'', ''status:101'', ''subprotocol:feed.v1'']\<rparr>)))
       \<lparr>wp_fingerprint := digest sample_crates bs, wp_id := short_handle sample_crates ''plan'' [as_bytes (digest sample_crates bs)]\<rparr>"
    unfolding seal_websocket_plan_iff by blast
  show "wp_limits run_plan = sample_limits" "wp_actions run_plan = sample_actions" "wp_target run_plan = ''ws://127.0.0.1:9000/feed''"
    "wp_required_grants run_plan = [''net-cidr:127.0.0.1/32'', ''net-insecure-websocket'', ''net:127.0.0.1:9000'', ''websocket:connect'']"
    "wp_handshake_checks run_plan = [''extensions:none'', ''status:101'', ''subprotocol:feed.v1'']"
    "wp_auth run_plan = None" "wp_headers run_plan = []" "wp_origin run_plan = None" "wp_subprotocols run_plan = [''feed.v1'']"
    unfolding eq by (simp_all add: clear_websocket_plan_def normalize_def sort_dedup_sample sample_plan_def)
qed

lemma run_plan_checks: "verify_seal_websocket_plan sample_crates run_plan = Inr True" "validate sample_crates run_plan = Inr ()"
proof -
  show "verify_seal_websocket_plan sample_crates run_plan = Inr True"
    by (rule websocket_seal.seal_verifies [OF run_plan_seal])
  show "validate sample_crates run_plan = Inr ()"
    using seal_websocket_plan_idem [OF run_plan_seal] by (simp add: seal_websocket_plan_iff validate_iff)
qed

lemma run_gate: "connect_gate sample_crates run_plan run_options = Inr None"
proof -
  have "missing_grant (opt_grants run_options) (filter (\<lambda>g. \<not> is_address_dependent_grant g) (wp_required_grants run_plan)) = None"
    by (auto simp: missing_grant_None run_options_def)
  then show ?thesis
    by (simp add: connect_gate_def run_plan_checks run_options_def fingerprint_mismatch_def default_options_def)
qed

definition run_url :: ParsedUrl where
  "run_url =
     \<lparr>url_scheme = ''ws'', url_username = [], url_password = None,
      url_host_str = Some ''127.0.0.1'', url_port = Some 9000,
      url_port_or_known_default = Some 9000, url_path = ''/feed'', url_query = None,
      url_fragment = None, url_origin_ascii = ''ws://127.0.0.1:9000'',
      url_to_string = ''ws://127.0.0.1:9000/feed''\<rparr>"

lemma run_target: "url_parse sample_crates (wp_target run_plan) = Some run_url"
  by (simp add: sample_crates_def run_plan_fields sample_url_def run_url_def)

lemma run_binding: "validate_transport_binding run_plan run_url = Inr ()"
  by (simp add: validate_transport_binding_def run_url_def run_plan_fields binding_grants_def binding_checks_def run_grant
      ok_or_def)

lemma run_allowed: "evaluate_websocket_target run_env run_plan run_url run_options = Inr (Allowed [run_address])"
proof -
  have "missing_grant (opt_grants run_options) [net_grant ''127.0.0.1'' 9000, ''websocket:connect''] = None"
    by (simp add: missing_grant_None run_options_def run_plan_fields run_grant)
  moreover have "ungranted_address (opt_grants run_options) [run_address] = None"
    by (simp add: ungranted_address_None within_boundary_def run_options_def run_plan_fields run_address_def run_grant
        del: cidr_grant.simps)
  ultimately show ?thesis
    by (simp add: evaluate_websocket_target_def run_url_def run_env_def run_options_def run_plan_fields run_address_def)
qed

lemma run_attempts:
  "connect_attempts [run_address] dl (we_attempts run_env) = [run_address]"
  "connect_pinned [run_address] dl (we_attempts run_env) 0 False = Inr run_address"
  by (simp_all add: run_env_def)

definition run_sent :: ws_request where
  "run_sent = run_request\<lparr>wq_headers := wq_headers run_request @ [header_of ''sec-websocket-protocol'' ''feed.v1'' False]\<rparr>"

lemma run_request_built: "websocket_request sample_crates run_env run_plan run_options = Inr (run_sent, [])"
proof -
  have "valid_token ''sec-websocket-protocol''" "\<not> contains_any ''sec-websocket-protocol'' crlf" "\<not> contains_any ''feed.v1'' crlf"
    by code_simp+
  then show ?thesis
    by (simp add: websocket_request_def run_env_def run_plan_fields ok_or_def run_request_def insert_header_def run_sent_def
        ws_auth_header_def run_options_def default_options_def secret_redactions_def sample_crates_def header_of_def
        to_ascii_lowercase_def)
qed

lemma run_read: "read_head tls [Inr head_end] [] = Some (Inr (head_end, 4))"
  by (subst read_head.simps, simp add: head_end_def max_handshake_bytes_def, subst read_head.simps, simp, code_simp)

definition head_line_size :: "HeaderEntry \<Rightarrow> nat" where
  "head_line_size h = length (he_name h) + length (he_value h) + 4"

lemma write_headers_Inr:
  "list_all (\<lambda>h. header_to_str (he_value h) \<noteq> None) hs \<Longrightarrow> length out + sum_list (map head_line_size hs) \<le> max_handshake_bytes
     \<Longrightarrow> \<exists>out'. write_headers hs out = Inr out' \<and> length out' = length out + sum_list (map head_line_size hs)"
proof (induction hs arbitrary: out)
  case Nil
  then show ?case by simp
next
  case (Cons h hs)
  then obtain v where v: "header_to_str (he_value h) = Some v" by auto
  then have l: "length v = length (he_value h)" by (auto simp: header_to_str_def from_bytes_def split: if_splits)
  define line where "line = out @ as_bytes (he_name h @ '': '' @ v) @ [13, 10]"
  have "length line = length out + head_line_size h"
    by (simp add: line_def l head_line_size_def as_bytes_def)
  with Cons.IH [of line] Cons.prems v show ?case
    by (simp add: Let_def add.assoc line_def [symmetric] del: append.simps append_Cons)
qed

lemma run_head: "\<exists>out. request_head run_sent = Inr out"
proof -
  have strs: "list_all (\<lambda>h. header_to_str (he_value h) \<noteq> None) (wq_headers run_sent)" by code_simp
  have len: "length (as_bytes (''GET '' @ ''/feed'' @ '' HTTP/1.1'') @ [13, 10]) + sum_list (map head_line_size (wq_headers run_sent)) = 78"
    by code_simp
  from write_headers_Inr [OF strs, of "as_bytes (''GET '' @ ''/feed'' @ '' HTTP/1.1'') @ [13, 10]"]
  obtain out' where "write_headers (wq_headers run_sent) (as_bytes (''GET '' @ ''/feed'' @ '' HTTP/1.1'') @ [13, 10]) = Inr out'"
    "length out' = 78"
    unfolding len by (auto simp: max_handshake_bytes_def)
  moreover have "wq_path run_sent = Some ''/feed''" by (simp add: run_sent_def run_request_def)
  ultimately show ?thesis by (simp add: request_head_def max_handshake_bytes_def)
qed

lemma run_key:
  "map (\<lambda>h. header_to_str (he_value h)) (header_get_all (wq_headers run_sent) ''sec-websocket-key'') = [Some ''a2V5'']"
  by code_simp

lemma run_accepted: "response_accepted sample_crates ''a2V5'' (offered_subprotocols run_sent) 101 1 (pr_headers run_response)"
  by code_simp

lemma run_checked:
  "check_response sample_crates run_env sample_limits ''a2V5'' (offered_subprotocols run_sent) head_end 4
     = Inr (upgraded_stream run_plan [], run_response)"
proof -
  have fields: "we_parse run_env x = Some run_response" "we_response_ok run_env y" "pr_bytes run_response = 4"
    "pr_code run_response = Some 101" "pr_version run_response = Some 1" for x y
    by (simp_all add: run_env_def run_response_def)
  have "buffered_stream (wp_limits run_plan) run_response 101 [] = Inr (upgraded_stream run_plan [])"
    unfolding run_plan_fields upgraded_stream_def by code_simp
  with run_accepted fields show ?thesis
    by (simp add: check_response_def max_handshake_bytes_def run_plan_fields ok_or_def head_end_def)
qed

lemma run_upgrade:
  "perform_upgrade sample_crates run_env run_sent tls sample_limits = Some (Inr (upgraded_stream run_plan [], run_response))"
proof -
  obtain h where "header_get_all (wq_headers run_sent) ''sec-websocket-key'' = [h]" "header_to_str (he_value h) = Some ''a2V5''"
    using run_key by auto
  moreover obtain out where "request_head run_sent = Inr out" using run_head by blast
  moreover have "we_write run_env out = Inr ()" "we_reads run_env = [Inr head_end]" for out by (simp_all add: run_env_def)
  ultimately show ?thesis by (simp add: perform_upgrade_def run_read run_checked)
qed

subsection \<open>The run\<close>

lemma run_env_fields [simp]:
  "we_faults run_env n = no_faults" "we_write_ok run_env" "we_rename_ok run_env" "we_connect_final run_env = 0"
  by (simp_all add: run_env_def)

lemma run_connects:
  "\<exists>connection s'. connect_websocket sample_crates run_env im run_plan run_options False s = Some (Inr (Connected connection), s', [run_address])
     \<and> wc_stream connection = upgraded_stream run_plan []"
proof -
  obtain trace s1 where trace: "store_websocket_trace sample_crates no_faults run_plan run_sent [] s = (Inr trace, s1)"
    using put_json_without_faults unfolding store_websocket_trace_def by blast
  obtain handshake s2 where "store_handshake sample_crates no_faults run_plan run_response [] s1 = (Inr handshake, s2)"
    using put_json_without_faults unfolding store_handshake_def by blast
  then have "\<exists>connection s'. upgrade_connection sample_crates run_env im run_plan run_options False run_url run_sent [] (ee_handle trace)
       run_address [run_address] s1 = Some (Inr (Connected connection), s', [run_address])
     \<and> wc_stream connection = upgraded_stream run_plan []"
    by (simp add: upgrade_connection_def run_plan_fields run_upgrade)
  moreover have "url_scheme run_url = ''ws''" by (simp add: run_url_def)
  moreover have "missing_grant (opt_grants run_options) (wp_required_grants run_plan) = None"
    by (simp add: missing_grant_None run_options_def)
  ultimately show ?thesis
    by (simp add: connect_websocket_def run_gate run_target ok_or_def run_binding run_allowed connect_addresses_def run_request_built
        trace run_attempts websocket_stream_def)
qed

lemma store_entries_total: "\<exists>es' s'. store_entries C (\<lambda>_. no_faults) plan redactions n es acc s = (Inr es', s')"
proof (induction es arbitrary: n acc s)
  case Nil
  then show ?case by simp
next
  case (Cons e es)
  have "\<exists>x s'. store_transcript_payload C no_faults plan d k p redactions s = (Inr x, s')" for d k p s
    using put_without_faults by (simp add: store_transcript_payload_def Let_def split: prod.splits)
  then obtain x s1 where "store_transcript_payload C no_faults plan (te_direction e) (the (te_payload_kind e)) (the (te_payload e))
       redactions s = (Inr x, s1)" by blast
  with Cons.IH [of "n + 1"] show ?case
    by (auto simp del: One_nat_def split: option.splits)
qed

lemma run_finishes:
  "\<exists>o' s'. finish_session sample_crates run_env run_plan connection counters transcript terminal s = (Inr o', s')
     \<and> wo_outcome o' = ter_outcome terminal \<and> wo_exit o' = ter_exit terminal"
proof -
  have faults: "we_faults run_env = (\<lambda>_. no_faults)" by (rule ext) simp
  obtain es s1 where "store_entries sample_crates (\<lambda>_. no_faults) run_plan (wc_redactions connection) 0 transcript [] s = (Inr es, s1)"
    using store_entries_total by blast
  moreover obtain x s2 where "store_transcript sample_crates (\<lambda>_. no_faults) run_plan transcript (wc_redactions connection)
       (ter_outcome terminal) (ter_cause terminal) (ter_exit terminal) s = (Inr x, s2)"
    unfolding store_transcript_def calculation using put_json_without_faults by fastforce
  moreover have "\<exists>s'. persist_terminal sample_crates run_env o' s2 = (Inr o', s')" (is "\<exists>s'. ?persisted o' s'") for o'
  proof -
    have ser: "ser_websocket_observation sample_crates o' = Some (as_bytes (wo_plan o'))" by (simp add: sample_crates_def)
    obtain e s3 where "put_blob sample_crates no_faults ''websocket-observation'' ''application/json'' (as_bytes (wo_plan o')) True s2
        = (Inr e, s3)" using put_without_faults by blast
    then show ?thesis
      by (simp add: persist_terminal_def persist_websocket_observation_def persist_json_observation_def put_json_def ser Let_def)
  qed
  then obtain f where "\<And>o'. ?persisted o' (f o')" by metis
  ultimately show ?thesis
    by (simp add: finish_session_def faults websocket_observation_def Let_def)
qed

lemma websocket_sample_run:
  "\<exists>o' s'. execute_websocket sample_crates run_env im run_plan run_options False sample_replies s
       = Some (Inr (ObservationResult o'), s', [run_address]) \<and> wo_outcome o' = Passed \<and> wo_exit o' = 0"
proof -
  obtain connection s1 where con: "connect_websocket sample_crates run_env im run_plan run_options False s
      = Some (Inr (Connected connection), s1, [run_address])" "wc_stream connection = upgraded_stream run_plan []"
    using run_connects by blast
  obtain cs tr where "execute_session sample_crates im run_plan (start_session run_plan (upgraded_stream run_plan [])
       (wc_total_deadline connection) (wc_cancellable connection)) sample_replies =
     Inr (Some (terminal_passed (Some \<lparr>co_initiator = Server, co_code = 1000, co_reason = []\<rparr>), cs, tr))"
    using sample_run_of [OF run_plan_fields(1,2)] by blast
  moreover obtain o' s' where "finish_session sample_crates run_env run_plan connection cs tr
      (terminal_passed (Some \<lparr>co_initiator = Server, co_code = 1000, co_reason = []\<rparr>)) s1 = (Inr o', s')"
      "wo_outcome o' = Passed" "wo_exit o' = 0"
    using run_finishes [of connection cs tr "terminal_passed (Some \<lparr>co_initiator = Server, co_code = 1000, co_reason = []\<rparr>)" s1]
    by (auto simp: terminal_passed_def)
  ultimately show ?thesis
    using con by (simp add: execute_websocket_def execute_connected_websocket_def observed_def)
qed

end
