(* ===== verification/Ws_Connect_Props.thy ===== *)
theory Ws_Connect_Props
  imports Ws_Run_Sample
begin

text \<open>
  Properties of whole WebSocket runs: no address is contacted before every gate has passed, a session is
  opened only over an authentic handshake, and a run ends with exactly one persisted observation or a denial.
\<close>

subsection \<open>Gates\<close>

lemma connect_attempts_subset: "set (connect_attempts addresses dl env) \<subseteq> set addresses"
  by (induction addresses dl env rule: connect_attempts.induct) (auto split: sum.splits)

lemma connect_gate_open:
  assumes "connect_gate C plan options = Inr None"
  shows "verify_seal_websocket_plan C plan = Inr True" and "validate C plan = Inr ()"
    and "\<not> fingerprint_mismatch (opt_expected_config_fingerprint options) (wp_config_fingerprint plan)"
    and "\<not> fingerprint_mismatch (opt_expected_policy_fingerprint options) (wp_policy_fingerprint plan)"
proof -
  from assms obtain sealed where "verify_seal_websocket_plan C plan = Inr sealed"
    and "\<not> (\<not> sealed \<or> validate C plan \<noteq> Inr ())"
    and "\<not> fingerprint_mismatch (opt_expected_config_fingerprint options) (wp_config_fingerprint plan)"
    and "\<not> fingerprint_mismatch (opt_expected_policy_fingerprint options) (wp_policy_fingerprint plan)"
    unfolding connect_gate_def and_then_Inr_iff map_err_Inr_iff by (metis Inl_Inr_False)
  then show "verify_seal_websocket_plan C plan = Inr True" and "validate C plan = Inr ()"
    and "\<not> fingerprint_mismatch (opt_expected_config_fingerprint options) (wp_config_fingerprint plan)"
    and "\<not> fingerprint_mismatch (opt_expected_policy_fingerprint options) (wp_policy_fingerprint plan)"
    by simp_all
qed

definition target_allowed :: "ws_env \<Rightarrow> ParsedUrl \<Rightarrow> InvokeOptions \<Rightarrow> SocketAddr list \<Rightarrow> bool" where
  "target_allowed env target options addresses =
     (url_scheme target \<in> {''ws'', ''wss''}
      \<and> (url_scheme target = ''ws'' \<longrightarrow> ''net-insecure-websocket'' \<in> opt_grants options)
      \<and> ''websocket:connect'' \<in> opt_grants options
      \<and> (\<exists>host port. url_host_str target = Some host \<and> url_port_or_known_default target = Some port
           \<and> net_grant host port \<in> opt_grants options \<and> we_resolve env (strip_brackets host) port = Some addresses
           \<and> (\<forall>a \<in> set addresses. sa_port a = port))
      \<and> within_boundary (opt_grants options) addresses)"

lemma evaluate_websocket_target_allowed:
  "evaluate_websocket_target env plan target options = Inr (Allowed addresses) \<Longrightarrow> target_allowed env target options addresses"
  by (auto simp: evaluate_websocket_target_def target_allowed_def ungranted_address_None missing_grant_None list_ex_iff
      split: if_splits option.splits)

lemma observed_contacted: "observed contacted x = (r, s', c) \<Longrightarrow> c = contacted"
  by (cases x) (simp add: observed_def)

lemma upgrade_contacted:
  "upgrade_connection C env im plan options cancellable target request redactions trace address contacted s
     = Some (r, s', c) \<Longrightarrow> c = contacted"
  unfolding upgrade_connection_def
  by (auto dest: observed_contacted split: option.splits sum.splits prod.splits)

lemma connect_addresses_contacted:
  assumes "connect_addresses C env im plan options cancellable target addresses s = Some (r, s', c)"
  shows "set c \<subseteq> set addresses"
proof -
  have "c = [] \<or> (\<exists>dl. c = connect_attempts addresses dl (we_attempts env))"
    using assms unfolding connect_addresses_def Let_def
    by (auto dest!: observed_contacted upgrade_contacted
        split: sum.splits prod.splits ConnectFailure.splits)
  then show ?thesis using connect_attempts_subset [of addresses] by auto
qed

lemma gate_denial: "connect_gate C plan options = Inr (Some d) \<Longrightarrow> de_exit d = 4"
  unfolding connect_gate_def and_then_Inr_iff
  by (auto simp: websocket_denial_def split: if_splits option.splits)

lemma target_denial: "evaluate_websocket_target env plan target options = Inr (RuntimeDenied d) \<Longrightarrow> de_exit d = 4"
  unfolding evaluate_websocket_target_def
  by (auto simp: websocket_denial_def split: if_splits option.splits)

lemma connect_websocket_cases:
  assumes "connect_websocket C env im plan options cancellable s = Some (r, s', c)"
  obtains (failed) e where "r = Inl e" "s' = s" "c = []"
    | (denied) d where "r = Inr (DeniedResult d)" "de_exit d = 4" "s' = s" "c = []"
    | (observed) cause where "(r, s', c) = observed [] (failed_observation C env plan OutcomeError cause 3 no_details s)"
        "cause = Cancelled \<and> cancellable \<or> cause = DnsFailure"
    | (opened) target addresses where "connect_gate C plan options = Inr None"
        "url_parse C (wp_target plan) = Some target" "validate_transport_binding plan target = Inr ()"
        "evaluate_websocket_target env plan target options = Inr (Allowed addresses)"
        "set (wp_required_grants plan) \<subseteq> opt_grants options"
        "connect_addresses C env im plan options cancellable target addresses s = Some (r, s', c)"
proof (cases "connect_gate C plan options")
  case (Inl e)
  with assms show ?thesis by (intro failed [of e]) (simp_all add: connect_websocket_def)
next
  case (Inr gate)
  show ?thesis
  proof (cases gate)
    case (Some d)
    with assms Inr gate_denial [of C plan options d] show ?thesis by (intro denied [of d]) (simp_all add: connect_websocket_def)
  next
    case None
    note gate_open = Inr [unfolded None]
    show ?thesis
    proof (cases "cancellable \<and> we_cancelled env")
      case True
      with assms gate_open show ?thesis by (intro observed [of Cancelled]) (simp_all add: connect_websocket_def)
    next
      case False
      show ?thesis
      proof (cases "and_then (ok_or (url_parse C (wp_target plan)) InvalidTarget) (\<lambda>target.
                     and_then (validate_transport_binding plan target) (\<lambda>_. Inr target))")
        case (Inl e)
        with assms gate_open False show ?thesis by (intro failed [of e]) (simp_all add: connect_websocket_def)
      next
        case (Inr target)
        then have t: "url_parse C (wp_target plan) = Some target" "validate_transport_binding plan target = Inr ()"
          by (auto simp: result_iffs)
        note run = assms [unfolded connect_websocket_def gate_open sum.case option.case if_not_P [OF False] Inr]
        consider (dns) "evaluate_websocket_target env plan target options = Inl Dns"
          | (den) d where "evaluate_websocket_target env plan target options = Inr (RuntimeDenied d)"
          | (al) addresses where "evaluate_websocket_target env plan target options = Inr (Allowed addresses)"
          by (metis RuntimeTarget.exhaust RuntimeTargetError.exhaust sum.exhaust)
        then show ?thesis
        proof cases
          case dns
          with run show ?thesis by (intro observed [of DnsFailure]) simp_all
        next
          case (den d)
          with run target_denial [OF den] show ?thesis by (intro denied [of d]) simp_all
        next
          case (al addresses)
          show ?thesis
          proof (cases "missing_grant (opt_grants options) (wp_required_grants plan)")
            case None
            with run al t gate_open show ?thesis by (intro opened [of target addresses]) (simp_all add: missing_grant_None)
          next
            case (Some m)
            with run al show ?thesis by (intro denied [of "websocket_denial plan ''invocation is missing a required capability'' m"])
                (simp_all add: websocket_denial_def)
          qed
        qed
      qed
    qed
  qed
qed

lemma execute_contacted:
  assumes "execute_websocket C env im plan options cancellable rs s = Some (r, s', c)"
  shows "\<exists>r1 s1. connect_websocket C env im plan options cancellable s = Some (r1, s1, c)"
  using assms unfolding execute_websocket_def
  by (auto dest!: observed_contacted split: option.splits prod.splits sum.splits WebSocketConnectResult.splits)

lemma execute_contacted_allowed:
  assumes "execute_websocket C env im plan options cancellable rs s = Some (r, s', contacted)" and "contacted \<noteq> []"
  shows "\<exists>target addresses. url_parse C (wp_target plan) = Some target
            \<and> target_allowed env target options addresses \<and> set contacted \<subseteq> set addresses"
proof -
  from execute_contacted [OF assms(1)] obtain r1 s1
    where con: "connect_websocket C env im plan options cancellable s = Some (r1, s1, contacted)" by blast
  from con show ?thesis
  proof (cases rule: connect_websocket_cases)
    case (observed cause)
    then show ?thesis using assms(2) observed_contacted by metis
  next
    case (opened target addresses)
    with evaluate_websocket_target_allowed [OF opened(4)] connect_addresses_contacted [OF opened(6)] show ?thesis by blast
  qed (use assms(2) in simp_all)
qed

text \<open>
  C1.  No address is contacted before every gate has passed: if a run attempts any connection, the plan's
  seal verified and the plan is valid, the expected fingerprints match, all required grants were given, and
  every address contacted is one that was resolved for the sealed, granted host and port and is inside the
  network boundary or individually granted.
\<close>

theorem no_contact_before_gates:
  assumes "execute_websocket C env im plan options cancellable rs s = Some (r, s', contacted)" and "contacted \<noteq> []"
  shows "verify_seal_websocket_plan C plan = Inr True \<and> validate C plan = Inr ()
       \<and> \<not> fingerprint_mismatch (opt_expected_config_fingerprint options) (wp_config_fingerprint plan)
       \<and> \<not> fingerprint_mismatch (opt_expected_policy_fingerprint options) (wp_policy_fingerprint plan)
       \<and> set (wp_required_grants plan) \<subseteq> opt_grants options
       \<and> (\<exists>target addresses. url_parse C (wp_target plan) = Some target
            \<and> target_allowed env target options addresses \<and> set contacted \<subseteq> set addresses)"
proof -
  from execute_contacted [OF assms(1)] obtain r1 s1
    where con: "connect_websocket C env im plan options cancellable s = Some (r1, s1, contacted)" by blast
  from con show ?thesis
  proof (cases rule: connect_websocket_cases)
    case (observed cause)
    then show ?thesis using assms(2) observed_contacted by metis
  next
    case (opened target addresses)
    with connect_gate_open [OF opened(1)] execute_contacted_allowed [OF assms] show ?thesis by blast
  qed (use assms(2) in simp_all)
qed

theorem no_contact_before_gates_witness:
  "\<exists>r s'. execute_websocket sample_crates run_env 100000000000 run_plan run_options False sample_replies empty_store
       = Some (r, s', [run_address])
     \<and> (\<exists>target addresses. target_allowed run_env target run_options addresses \<and> run_address \<in> set addresses)"
proof -
  obtain o' s' where run: "execute_websocket sample_crates run_env 100000000000 run_plan run_options False sample_replies empty_store
      = Some (Inr (ObservationResult o'), s', [run_address])"
    using websocket_sample_run by blast
  from no_contact_before_gates [OF run] run show ?thesis by auto
qed

subsection \<open>Results\<close>

definition run_consistent :: "WebSocketObservation \<Rightarrow> bool" where
  "run_consistent o' =
     (case wo_outcome o' of
        Passed \<Rightarrow> wo_exit o' = 0 \<and> wo_terminal_cause o' = Completed
      | Failed \<Rightarrow> wo_exit o' = 1 \<and> wo_terminal_cause o' \<in> {HandshakeCheckFailed, BudgetExhausted, ExpectationFailed}
      | OutcomeError \<Rightarrow> wo_exit o' = 3
          \<and> wo_terminal_cause o' \<notin> {Completed, HandshakeCheckFailed, BudgetExhausted, ExpectationFailed}
      | Denied \<Rightarrow> False)"

definition persisted :: "crates \<Rightarrow> WebSocketObservation \<Rightarrow> EvidenceStore \<Rightarrow> bool" where
  "persisted C o' s =
     (\<exists>data. ser_websocket_observation C o' = Some data
        \<and> (let handle = short_handle C ''websocket-observation'' [data] in
           es_rows s handle \<noteq> None
           \<and> es_files s (''observations/'' @ replace_char (CHR '':'') (CHR ''-'') handle @ ''.json'') = Some data))"

lemma put_blob_row: "put_blob C pf kind media data redacted s = (Inr e, s') \<Longrightarrow>
     ee_handle e = short_handle C kind [data] \<and> es_rows s' (short_handle C kind [data]) \<noteq> None"
  by (auto simp: put_blob_def Let_def put_envelope_def split: sum.splits prod.splits if_splits)

lemma persist_terminal_persists:
  assumes "persist_terminal C env obs s = (Inr o', s')"
  shows "o' = obs \<and> persisted C obs s'"
proof -
  from assms obtain e where "persist_websocket_observation C (we_faults env 3) (we_write_ok env) (we_rename_ok env) obs s = (Inr e, s')"
    and o: "o' = obs" by (auto simp: persist_terminal_def split: sum.splits prod.splits)
  then obtain data s1 where "ser_websocket_observation C obs = Some data"
    "put_blob C (we_faults env 3) ''websocket-observation'' ''application/json'' data True s = (Inr e, s1)"
    "s' = s1\<lparr>es_files := ((es_files s1)(''observations/'' @ replace_char (CHR '':'') (CHR ''-'') (ee_handle e) @ ''.json.tmp'' \<mapsto> data,
          ''observations/'' @ replace_char (CHR '':'') (CHR ''-'') (ee_handle e) @ ''.json'' \<mapsto> data))
        (''observations/'' @ replace_char (CHR '':'') (CHR ''-'') (ee_handle e) @ ''.json.tmp'' := None)\<rparr>"
    by (auto simp: persist_websocket_observation_def persist_json_observation_def put_json_def Let_def
        split: option.splits sum.splits prod.splits if_splits)
  with o put_blob_row show ?thesis by (auto simp: persisted_def Let_def)
qed

lemma failed_observation_persists:
  "failed_observation C env plan outcome cause exit details s = (Inr o', s') \<Longrightarrow>
     wo_outcome o' = outcome \<and> wo_terminal_cause o' = cause \<and> wo_exit o' = exit \<and> persisted C o' s'"
  by (auto simp: failed_observation_def websocket_observation_def dest!: persist_terminal_persists split: sum.splits prod.splits)

lemma finish_session_persists:
  "finish_session C env plan connection counters transcript terminal s = (Inr o', s') \<Longrightarrow>
     wo_outcome o' = ter_outcome terminal \<and> wo_terminal_cause o' = ter_cause terminal \<and> wo_exit o' = ter_exit terminal
     \<and> wo_counters o' = counters \<and> persisted C o' s'"
  by (auto simp: finish_session_def Let_def websocket_observation_def dest!: persist_terminal_persists split: sum.splits prod.splits)

subsection \<open>The handshake\<close>

definition failure_consistent :: "HandshakeFailure \<Rightarrow> bool" where
  "failure_consistent f =
     (hf_outcome f = Failed \<and> hf_exit f = 1 \<and> hf_cause f \<in> {HandshakeCheckFailed, BudgetExhausted}
      \<or> hf_outcome f = OutcomeError \<and> hf_exit f = 3
        \<and> hf_cause f \<notin> {Completed, HandshakeCheckFailed, BudgetExhausted, ExpectationFailed})"

lemma basic_failures_consistent [simp]:
  "failure_consistent handshake_check_failure" "failure_consistent (io_handshake_failure k tls)"
  "failure_consistent (handshake_error UnexpectedEof)"
  by (auto simp: failure_consistent_def handshake_check_failure_def io_handshake_failure_def handshake_error_def)

lemma write_headers_failure: "write_headers hs out = Inl f \<Longrightarrow> f = handshake_check_failure"
  by (induction hs out rule: write_headers.induct) (auto simp: Let_def split: option.splits if_splits)

lemma request_head_failure: "request_head request = Inl f \<Longrightarrow> f = handshake_check_failure"
  by (auto simp: request_head_def and_then_Inl_iff Let_def dest: write_headers_failure split: if_splits)

lemma read_head_failure: "read_head tls reads received = Some (Inl f) \<Longrightarrow> failure_consistent f"
proof (induction tls reads received rule: read_head.induct)
  case (1 tls reads received)
  from 1(2) show ?case
    by (subst (asm) read_head.simps)
      (auto simp: Let_def split: option.splits if_splits list.splits sum.splits dest!: 1(1) [rotated -1])
qed

lemma read_head_Inr:
  "read_head tls reads received = Some (Inr (data, head)) \<Longrightarrow> \<exists>k. position head_end data = Some k \<and> head = k + 4"
proof (induction tls reads received rule: read_head.induct)
  case (1 tls reads received)
  from 1(2) show ?case
    by (subst (asm) read_head.simps)
      (auto simp: Let_def split: option.splits if_splits list.splits sum.splits dest!: 1(1) [rotated -1])
qed

lemma buffered_stream_Inr:
  "buffered_stream (wp_limits plan) parsed status buffered = Inr stream \<Longrightarrow> stream = upgraded_stream plan buffered"
  by (auto simp: buffered_stream_def upgraded_stream_def Let_def split: prod.splits sum.splits)

lemma buffered_stream_failure:
  fixes plan :: WebSocketPlan
  assumes "buffered_stream (wp_limits plan) parsed status buffered = Inl f"
  shows "failure_consistent f"
proof -
  have "wa_failure (as_accounting (upgraded_stream plan buffered)) \<in> {None, Some ProtocolViolation, Some BudgetExhausted}"
    using upgraded_failure_sound [of plan buffered] by (auto simp: failure_sound_def failure_recorded_def)
  with assms show ?thesis
    by (auto simp: buffered_stream_def upgraded_stream_def failure_consistent_def Let_def split: prod.splits sum.splits)
qed

lemma check_response_failure:
  fixes plan :: WebSocketPlan
  assumes "check_response C env (wp_limits plan) key offered received head = Inl f"
  shows "failure_consistent f"
proof -
  have rejected: "failure_consistent \<lparr>hf_outcome = Failed, hf_cause = HandshakeCheckFailed, hf_exit = 1, hf_status = status,
      hf_response = response, hf_counters = default_counters\<rparr>" for status response
    by (simp add: failure_consistent_def)
  show ?thesis
    using assms unfolding check_response_def
    by (auto simp: and_then_Inl_iff ok_or_def rejected dest: buffered_stream_failure split: option.splits if_splits)
qed

lemma perform_upgrade_failure:
  fixes plan :: WebSocketPlan
  shows "perform_upgrade C env request tls (wp_limits plan) = Some (Inl f) \<Longrightarrow> failure_consistent f"
  unfolding perform_upgrade_def
  by (auto dest: request_head_failure read_head_failure check_response_failure split: option.splits sum.splits list.splits)

lemma check_response_Inr:
  fixes plan :: WebSocketPlan
  assumes "check_response C env (wp_limits plan) key offered received head = Inr (stream, parsed)"
  shows "we_parse env (take head received) = Some parsed" "head \<le> max_handshake_bytes"
    "\<exists>status version. pr_code parsed = Some status \<and> pr_version parsed = Some version
        \<and> response_accepted C key offered status version (pr_headers parsed)"
    "stream = upgraded_stream plan (drop head received)"
  using assms unfolding check_response_def
  by (auto simp: result_iffs not_less dest!: buffered_stream_Inr split: option.splits if_splits)

lemma request_head_bounded: "request_head request = Inr out \<Longrightarrow> length out \<le> max_handshake_bytes"
  by (auto simp: request_head_def and_then_Inr_iff Let_def split: if_splits)

lemma perform_upgrade_Inr:
  fixes plan :: WebSocketPlan
  assumes "perform_upgrade C env request tls (wp_limits plan) = Some (Inr (stream, response))"
  obtains key h hs outbound received head where
    "header_get_all (wq_headers request) ''sec-websocket-key'' = h # hs" "header_to_str (he_value h) = Some key"
    "request_head request = Inr outbound" "we_write env outbound = Inr ()"
    "read_head tls (we_reads env) [] = Some (Inr (received, head))"
    "check_response C env (wp_limits plan) key (offered_subprotocols request) received head = Inr (stream, response)"
  using assms unfolding perform_upgrade_def by (auto split: option.splits sum.splits list.splits prod.splits)

lemma perform_upgrade_stream:
  fixes plan :: WebSocketPlan
  assumes "perform_upgrade C env request tls (wp_limits plan) = Some (Inr (stream, response))"
  shows "\<exists>buffered. stream = upgraded_stream plan buffered"
  using assms by (rule perform_upgrade_Inr) (auto dest: check_response_Inr(4))

text \<open>
  C2.  A session opens only over an authentic handshake: the request sent and the response head are at most
  64 KiB, the response is an HTTP/1.1 101 that upgrades the connection to a WebSocket, carries exactly one accept
  token, the one computed from the key of this request, negotiates no extension and no subprotocol that was not
  offered, and the session starts with exactly the bytes that follow the head, already accounted.
\<close>

theorem upgrade_is_authentic:
  fixes plan :: WebSocketPlan
  assumes "perform_upgrade C env request tls (wp_limits plan) = Some (Inr (stream, response))"
  shows "\<exists>key h hs outbound received head.
       header_get_all (wq_headers request) ''sec-websocket-key'' = h # hs \<and> header_to_str (he_value h) = Some key
     \<and> request_head request = Inr outbound \<and> we_write env outbound = Inr () \<and> length outbound \<le> 65536
     \<and> read_head tls (we_reads env) [] = Some (Inr (received, head)) \<and> head \<le> 65536
     \<and> we_parse env (take head received) = Some response
     \<and> pr_code response = Some 101 \<and> pr_version response = Some 1
     \<and> upgrade_valid (pr_headers response) \<and> connection_valid (pr_headers response)
     \<and> header_strings_or_invalid (pr_headers response) ''sec-websocket-accept'' = [expected_accept C key]
     \<and> header_get_all (pr_headers response) ''sec-websocket-extensions'' = []
     \<and> (case header_strings_or_invalid (pr_headers response) ''sec-websocket-protocol'' of
          [] \<Rightarrow> offered_subprotocols request = []
        | p # ps \<Rightarrow> ps = [] \<and> p \<in> set (offered_subprotocols request))
     \<and> stream = snd (observe_buffered_inbound (accounted_new (wp_limits plan) default_accounting) (drop head received))"
  using assms
proof (rule perform_upgrade_Inr)
  fix key h hs outbound received head
  assume key: "header_get_all (wq_headers request) ''sec-websocket-key'' = h # hs" "header_to_str (he_value h) = Some key"
    and out: "request_head request = Inr outbound" "we_write env outbound = Inr ()"
    and head: "read_head tls (we_reads env) [] = Some (Inr (received, head))"
    and ok: "check_response C env (wp_limits plan) key (offered_subprotocols request) received head = Inr (stream, response)"
  note parts = check_response_Inr [OF ok]
  from parts(3) have acc: "response_accepted C key (offered_subprotocols request) 101 1 (pr_headers response)"
    "pr_code response = Some 101" "pr_version response = Some 1"
    by (auto simp: response_accepted_def)
  have "length outbound \<le> 65536" "head \<le> 65536"
    using request_head_bounded [OF out(1)] parts(2) by (simp_all add: max_handshake_bytes_def)
  moreover have "case header_strings_or_invalid (pr_headers response) ''sec-websocket-protocol'' of
          [] \<Rightarrow> offered_subprotocols request = []
        | p # ps \<Rightarrow> ps = [] \<and> p \<in> set (offered_subprotocols request)"
    using acc(1) by (auto simp: response_accepted_def subprotocol_valid_def list_ex_iff split: list.splits)
  ultimately show ?thesis
    using key out head acc parts(1,4) by (simp add: response_accepted_def upgraded_stream_def)
qed

theorem upgrade_is_authentic_witness:
  "pr_code run_response = Some 101
   \<and> header_strings_or_invalid (pr_headers run_response) ''sec-websocket-accept'' = [expected_accept sample_crates ''a2V5'']"
proof -
  obtain h where key: "header_get_all (wq_headers run_sent) ''sec-websocket-key'' = [h]" "header_to_str (he_value h) = Some ''a2V5''"
    using run_key by auto
  from upgrade_is_authentic [OF run_upgrade [folded run_plan_fields(1)]] key show ?thesis by auto
qed

subsection \<open>Whole runs\<close>

lemma observed_Inr:
  "observed contacted x = (Inr result, s', c) \<Longrightarrow> \<exists>o'. result = ObservationResult o' \<and> x = (Inr o', s')"
  by (cases x) (auto simp: observed_def and_then_Inr_iff)

lemma failure_run_consistent:
  assumes "handshake_failed C env plan redactions address trace failure s = (Inr o', s')" and "failure_consistent failure"
  shows "run_consistent o' \<and> persisted C o' s'"
proof -
  from assms(1) obtain details s1
    where "failed_observation C env plan (hf_outcome failure) (hf_cause failure) (hf_exit failure) details s1 = (Inr o', s')"
    by (auto simp: handshake_failed_def split: option.splits sum.splits prod.splits)
  from failed_observation_persists [OF this] assms(2) show ?thesis
    by (auto simp: failure_consistent_def run_consistent_def)
qed

definition run_result_ok :: "crates \<Rightarrow> WebSocketPlan \<Rightarrow> WebSocketConnectResult \<Rightarrow> EvidenceStore \<Rightarrow> bool" where
  "run_result_ok C plan result s' =
     (case result of
        Connected connection \<Rightarrow> \<exists>buffered. wc_stream connection = upgraded_stream plan buffered
      | ObservationResult o' \<Rightarrow> run_consistent o' \<and> persisted C o' s'
      | DeniedResult d \<Rightarrow> de_exit d = 4)"

lemma observed_failed_ok:
  assumes "observed contacted (failed_observation C env plan OutcomeError cause 3 details s) = (Inr result, s', c)"
    and "cause \<notin> {Completed, HandshakeCheckFailed, BudgetExhausted, ExpectationFailed}"
  shows "run_result_ok C plan result s'"
proof -
  from observed_Inr [OF assms(1)] obtain o' where "result = ObservationResult o'"
    "failed_observation C env plan OutcomeError cause 3 details s = (Inr o', s')" by blast
  with failed_observation_persists [OF this(2)] assms(2) show ?thesis by (simp add: run_result_ok_def run_consistent_def)
qed

lemma upgrade_connection_ok:
  assumes "upgrade_connection C env im plan options cancellable target request redactions trace address contacted s
     = Some (Inr result, s', c)"
  shows "run_result_ok C plan result s'"
proof (cases "perform_upgrade C env request (url_scheme target = ''wss'') (wp_limits plan)")
  case None
  with assms show ?thesis by (simp add: upgrade_connection_def)
next
  case (Some r)
  show ?thesis
  proof (cases r)
    case (Inl failure)
    with assms Some have "observed contacted (handshake_failed C env plan redactions address trace failure s) = (Inr result, s', c)"
      by (simp add: upgrade_connection_def)
    from observed_Inr [OF this] obtain o' where o: "result = ObservationResult o'"
      "handshake_failed C env plan redactions address trace failure s = (Inr o', s')" by blast
    have "failure_consistent failure" using perform_upgrade_failure Some Inl by blast
    from failure_run_consistent [OF o(2) this] o(1) show ?thesis by (simp add: run_result_ok_def)
  next
    case (Inr p)
    obtain stream response where p: "p = (stream, response)" by (cases p)
    obtain buffered where "stream = upgraded_stream plan buffered" using perform_upgrade_stream Some Inr p by blast
    with assms Some Inr p show ?thesis
      by (auto simp: upgrade_connection_def run_result_ok_def split: prod.splits sum.splits)
  qed
qed

lemma connect_addresses_ok:
  assumes "connect_addresses C env im plan options cancellable target addresses s = Some (Inr result, s', c)"
  shows "run_result_ok C plan result s'"
proof -
  have timeouts: "ConnectTimeout \<notin> {Completed, HandshakeCheckFailed, BudgetExhausted, ExpectationFailed}"
    "ConnectionFailure \<notin> {Completed, HandshakeCheckFailed, BudgetExhausted, ExpectationFailed}"
    "TlsFailure \<notin> {Completed, HandshakeCheckFailed, BudgetExhausted, ExpectationFailed}" by simp_all
  show ?thesis
    using assms unfolding connect_addresses_def Let_def
    by (auto dest: observed_failed_ok [OF _ timeouts(1)] observed_failed_ok [OF _ timeouts(2)] observed_failed_ok [OF _ timeouts(3)]
        upgrade_connection_ok split: sum.splits prod.splits ConnectFailure.splits)
qed

lemma connect_websocket_ok:
  assumes "connect_websocket C env im plan options cancellable s = Some (Inr result, s', c)"
  shows "run_result_ok C plan result s'"
  using assms
proof (cases rule: connect_websocket_cases)
  case (observed cause)
  then show ?thesis using observed_failed_ok [OF observed(1) [symmetric]] by auto
next
  case (opened target addresses)
  then show ?thesis using connect_addresses_ok by blast
qed (auto simp: run_result_ok_def)

lemma denied_untouched:
  assumes "connect_websocket C env im plan options cancellable s = Some (Inr (DeniedResult d), s', c)"
  shows "s' = s \<and> c = []"
  using assms
proof (cases rule: connect_websocket_cases)
  case (observed cause)
  then show ?thesis using observed_Inr [OF observed(1) [symmetric]] by simp
next
  case (opened target addresses)
  have "c = [] \<and> s' = s"
    using opened(6) unfolding connect_addresses_def Let_def upgrade_connection_def
    by (auto dest!: observed_Inr split: sum.splits prod.splits ConnectFailure.splits option.splits)
  then show ?thesis by simp
qed auto

text \<open>
  C6.  A run ends with one terminal result: a denial, which exits with 4, contacts nobody and leaves the store
  alone; or an observation whose outcome, exit status and cause agree, and which is in the store, as evidence
  and as a file of its own.  No run ends with an open connection.
\<close>

theorem websocket_run_result:
  assumes "execute_websocket C env im plan options cancellable rs s = Some (Inr result, s', contacted)"
  shows "case result of
       Connected _ \<Rightarrow> False
     | ObservationResult o' \<Rightarrow> run_consistent o' \<and> persisted C o' s'
     | DeniedResult d \<Rightarrow> de_exit d = 4 \<and> contacted = [] \<and> s' = s"
proof (cases "\<exists>connection s1 c. connect_websocket C env im plan options cancellable s = Some (Inr (Connected connection), s1, c)")
  case True
  then obtain connection s1 c
    where con: "connect_websocket C env im plan options cancellable s = Some (Inr (Connected connection), s1, c)" by blast
  then obtain buffered where stream: "wc_stream connection = upgraded_stream plan buffered"
    using connect_websocket_ok by (fastforce simp: run_result_ok_def)
  from assms con obtain x where run: "execute_connected_websocket C env im plan connection rs s1 = Some x"
    "observed c x = (Inr result, s', contacted)"
    by (auto simp: execute_websocket_def)
  from observed_Inr [OF run(2)] obtain o' where o: "result = ObservationResult o'" "x = (Inr o', s')" by blast
  with run(1) obtain t cs tr where
    session: "execute_session C im plan (start_session plan (upgraded_stream plan buffered) (wc_total_deadline connection)
        (wc_cancellable connection)) rs = Inr (Some (t, cs, tr))"
    and fin: "finish_session C env plan connection cs tr t s1 = (Inr o', s')"
    by (auto simp: execute_connected_websocket_def stream split: sum.splits option.splits prod.splits)
  from execute_session_consistent [OF session] finish_session_persists [OF fin] o show ?thesis
    by (auto simp: terminal_consistent_def run_consistent_def timeout_causes_def split: Outcome.splits if_splits)
next
  case False
  with assms have con: "connect_websocket C env im plan options cancellable s = Some (Inr result, s', contacted)"
    by (auto simp: execute_websocket_def split: option.splits prod.splits sum.splits WebSocketConnectResult.splits)
  with False connect_websocket_ok [OF con] denied_untouched show ?thesis
    by (cases result) (auto simp: run_result_ok_def)
qed

theorem websocket_run_result_witness:
  "\<exists>o' s'. execute_websocket sample_crates run_env 100000000000 run_plan run_options False sample_replies empty_store
       = Some (Inr (ObservationResult o'), s', [run_address])
     \<and> wo_outcome o' = Passed \<and> wo_exit o' = 0 \<and> persisted sample_crates o' s'"
proof -
  obtain o' s' where run: "execute_websocket sample_crates run_env 100000000000 run_plan run_options False sample_replies empty_store
      = Some (Inr (ObservationResult o'), s', [run_address])" "wo_outcome o' = Passed"
    using websocket_sample_run by blast
  from websocket_run_result [OF run(1)] run show ?thesis by (auto simp: run_consistent_def)
qed

end
