(* ===== verification/Plan_Store.thy ===== *)
theory Plan_Store
  imports Evidence Samples
begin

text \<open>
  Storing and loading sealed plans: \<open>store_plan\<close>, \<open>store_websocket_plan\<close> and their loaders in \<open>kahea-plan\<close>,
  \<open>store_workflow_plan\<close> in \<open>kahea-workflow\<close>, \<open>store_conformance_plan\<close> in \<open>kahea-conformance\<close>.  A file system maps
  paths relative to the store's root to contents.  Every call on it may fail; a failed write leaves some content
  under the temporary name.  \<open>StoreError\<close> stands for the three cases each crate's own error type has here.
\<close>

datatype StoreError = SealBroken | StoreIo | StoreSerialization | InvalidCase string | CasePlan StoreError

type_synonym files = "string \<Rightarrow> bytes option"

record store_faults =
  sf_mkdir :: bool
  sf_write :: bool
  sf_partial :: bytes
  sf_rename :: bool

definition plan_path :: "string \<Rightarrow> string" where
  "plan_path reference = ''store/plans/'' @ replace_char (CHR '':'') (CHR ''-'') reference @ ''.json''"

definition hidden_temporary :: "string \<Rightarrow> string" where
  "hidden_temporary reference = ''store/plans/.'' @ replace_char (CHR '':'') (CHR ''-'') reference @ ''.tmp''"

definition extended_temporary :: "string \<Rightarrow> string" where
  "extended_temporary reference = plan_path reference @ ''.tmp''"

text \<open>Create the directory, serialize, write under the temporary name, rename.\<close>

definition write_plan ::
  "store_faults \<Rightarrow> string \<Rightarrow> string \<Rightarrow> bytes option \<Rightarrow> files \<Rightarrow> (StoreError + string) \<times> files" where
  "write_plan f path temporary serialized s =
     (if \<not> sf_mkdir f then (Inl StoreIo, s)
      else (case serialized of
              None \<Rightarrow> (Inl StoreSerialization, s)
            | Some data \<Rightarrow>
                if \<not> sf_write f then (Inl StoreIo, s(temporary \<mapsto> sf_partial f))
                else if \<not> sf_rename f then (Inl StoreIo, s(temporary \<mapsto> data))
                else (Inr path, (s(path \<mapsto> data))(temporary := None))))"

definition require_seal :: "SerdeError + bool \<Rightarrow> StoreError + unit" where
  "require_seal verified =
     (case verified of Inl _ \<Rightarrow> Inl StoreSerialization | Inr ok \<Rightarrow> if ok then Inr () else Inl SealBroken)"

definition store_sealed ::
  "SerdeError + bool \<Rightarrow> store_faults \<Rightarrow> string \<Rightarrow> string \<Rightarrow> bytes option \<Rightarrow> files \<Rightarrow> (StoreError + string) \<times> files" where
  "store_sealed verified f path temporary serialized s =
     (case require_seal verified of
        Inl e \<Rightarrow> (Inl e, s)
      | Inr _ \<Rightarrow> write_plan f path temporary serialized s)"

definition reference_path :: "string \<Rightarrow> string \<Rightarrow> string" where
  "reference_path kind reference = (if starts_with reference kind then plan_path reference else reference)"

definition load_sealed ::
  "(bytes \<Rightarrow> 'p option) \<Rightarrow> ('p \<Rightarrow> SerdeError + bool) \<Rightarrow> string \<Rightarrow> string \<Rightarrow> files \<Rightarrow> StoreError + 'p" where
  "load_sealed de verify kind reference s =
     and_then (ok_or (s (reference_path kind reference)) StoreIo) (\<lambda>data.
     and_then (ok_or (de data) StoreSerialization) (\<lambda>plan.
     and_then (require_seal (verify plan)) (\<lambda>_. Inr plan)))"

subsection \<open>The four kinds of plan\<close>

definition store_plan :: "crates \<Rightarrow> store_faults \<Rightarrow> RequestPlan \<Rightarrow> files \<Rightarrow> (StoreError + string) \<times> files" where
  "store_plan C f plan =
     store_sealed (verify_seal_request_plan C plan) f (plan_path (rp_id plan)) (hidden_temporary (rp_id plan))
       (ser_request_plan C plan)"

definition load_plan :: "crates \<Rightarrow> (bytes \<Rightarrow> RequestPlan option) \<Rightarrow> string \<Rightarrow> files \<Rightarrow> StoreError + RequestPlan" where
  "load_plan C de = load_sealed de (verify_seal_request_plan C) ''plan:''"

definition store_websocket_plan :: "crates \<Rightarrow> store_faults \<Rightarrow> WebSocketPlan \<Rightarrow> files \<Rightarrow> (StoreError + string) \<times> files" where
  "store_websocket_plan C f plan =
     store_sealed (verify_seal_websocket_plan C plan) f (plan_path (wp_id plan)) (hidden_temporary (wp_id plan))
       (ser_websocket_plan C plan)"

definition load_websocket_plan :: "crates \<Rightarrow> (bytes \<Rightarrow> WebSocketPlan option) \<Rightarrow> string \<Rightarrow> files \<Rightarrow> StoreError + WebSocketPlan" where
  "load_websocket_plan C de = load_sealed de (verify_seal_websocket_plan C) ''plan:''"

definition store_workflow_plan :: "crates \<Rightarrow> store_faults \<Rightarrow> WorkflowPlan \<Rightarrow> files \<Rightarrow> (StoreError + string) \<times> files" where
  "store_workflow_plan C f plan =
     store_sealed (verify_seal_workflow_plan C plan) f (plan_path (wf_id plan)) (extended_temporary (wf_id plan))
       (ser_workflow_plan C plan)"

definition load_workflow_plan :: "crates \<Rightarrow> (bytes \<Rightarrow> WorkflowPlan option) \<Rightarrow> string \<Rightarrow> files \<Rightarrow> StoreError + WorkflowPlan" where
  "load_workflow_plan C de = load_sealed de (verify_seal_workflow_plan C) ''workflow-plan:''"

text \<open>A conformance plan is stored after the request plans of its cases, each checked against its case.\<close>

fun store_cases ::
  "crates \<Rightarrow> (nat \<Rightarrow> store_faults) \<Rightarrow> (string \<Rightarrow> RequestPlan option) \<Rightarrow> nat \<Rightarrow> ConformanceCasePlan list \<Rightarrow> files
     \<Rightarrow> (StoreError + unit) \<times> files" where
  "store_cases C faults by_id n [] s = (Inr (), s)"
| "store_cases C faults by_id n (c # cs) s =
     (case by_id (cc_plan c) of
        None \<Rightarrow> (Inl (InvalidCase (cc_plan c)), s)
      | Some request \<Rightarrow>
          if rp_fingerprint request \<noteq> cc_plan_fingerprint c then (Inl (InvalidCase (cc_plan c)), s)
          else (case verify_seal_request_plan C request of
                  Inl _ \<Rightarrow> (Inl StoreSerialization, s)
                | Inr ok \<Rightarrow>
                    if \<not> ok then (Inl (InvalidCase (cc_plan c)), s)
                    else (case store_plan C (faults n) request s of
                            (Inl e, s') \<Rightarrow> (Inl (CasePlan e), s')
                          | (Inr _, s') \<Rightarrow> store_cases C faults by_id (n + 1) cs s')))"

definition store_conformance_plan ::
  "crates \<Rightarrow> (nat \<Rightarrow> store_faults) \<Rightarrow> ConformancePlan \<Rightarrow> RequestPlan list \<Rightarrow> files \<Rightarrow> (StoreError + string) \<times> files" where
  "store_conformance_plan C faults plan requests s =
     (case require_seal (verify_seal_conformance_plan C plan) of
        Inl e \<Rightarrow> (Inl e, s)
      | Inr _ \<Rightarrow>
          (case store_cases C faults (map_of (rev (map (\<lambda>r. (rp_id r, r)) requests))) 0 (cp_cases plan) s of
             (Inl e, s') \<Rightarrow> (Inl e, s')
           | (Inr _, s') \<Rightarrow>
               write_plan (faults (length (cp_cases plan))) (plan_path (cp_id plan)) (extended_temporary (cp_id plan))
                 (ser_conformance_plan C plan) s'))"

definition load_conformance_plan ::
  "crates \<Rightarrow> (bytes \<Rightarrow> ConformancePlan option) \<Rightarrow> string \<Rightarrow> files \<Rightarrow> StoreError + ConformancePlan" where
  "load_conformance_plan C de = load_sealed de (verify_seal_conformance_plan C) ''conformance-plan:''"

end
