(* ===== verification/Plan_Store_Props.thy ===== *)
theory Plan_Store_Props
  imports Plan_Store Http_Checks_Props
begin

text \<open>
  What the plan store promises: a stored plan loads back, only sealed plans load, and a store that fails or is
  interrupted leaves every stored plan as it was.
\<close>

locale plan_storing = sealing C kind seal verify_seal material fp_of id_of
  for C :: crates and kind :: string and seal :: "'p \<Rightarrow> 'e + 'p" and verify_seal :: "'p \<Rightarrow> SerdeError + bool"
    and material :: "'p \<Rightarrow> bytes option" and fp_of :: "'p \<Rightarrow> string" and id_of :: "'p \<Rightarrow> string" +
  fixes ser :: "'p \<Rightarrow> bytes option"
    and temporary :: "string \<Rightarrow> string"
    and store :: "store_faults \<Rightarrow> 'p \<Rightarrow> files \<Rightarrow> (StoreError + string) \<times> files"
    and load :: "(bytes \<Rightarrow> 'p option) \<Rightarrow> string \<Rightarrow> files \<Rightarrow> StoreError + 'p"
  assumes store_eq: "store f p = store_sealed (verify_seal p) f (plan_path (id_of p)) (temporary (id_of p)) (ser p)"
    and load_eq: "load de = load_sealed de verify_seal (kind @ '':'')"
    and temporary_apart: "temporary i \<noteq> plan_path j"
begin

lemma sealed_id: "verify_seal p = Inr True \<Longrightarrow> starts_with (id_of p) (kind @ '':'')"
  by (auto simp: verify_iff sealed_by_def short_handle_def starts_with_iff)

lemma store_Inr:
  assumes "store f p s = (Inr path, s')"
  obtains data where "verify_seal p = Inr True" "ser p = Some data" "path = plan_path (id_of p)"
    "s' = (s(plan_path (id_of p) \<mapsto> data))(temporary (id_of p) := None)"
  using assms
  by (auto simp: store_eq store_sealed_def require_seal_def write_plan_def split: sum.splits if_splits option.splits)

lemma store_elsewhere:
  "store f p s = (r, s') \<Longrightarrow> plan_path i \<noteq> plan_path (id_of p) \<or> isl r \<Longrightarrow> s' (plan_path i) = s (plan_path i)"
  using temporary_apart [of "id_of p" i]
  by (auto simp: store_eq store_sealed_def require_seal_def write_plan_def split: sum.splits if_splits option.splits)

lemma store_there: "store f p s = (Inr path, s') \<Longrightarrow> s' (plan_path (id_of p)) = ser p \<and> ser p \<noteq> None \<and> verify_seal p = Inr True"
  using temporary_apart [of "id_of p" "id_of p"] by (auto elim!: store_Inr)

lemma stored_loads:
  assumes "verify_seal p = Inr True" and "s (plan_path (id_of p)) = ser p" and "ser p \<noteq> None"
    and "\<And>data. ser p = Some data \<Longrightarrow> de data = Some p"
  shows "load de (id_of p) s = Inr p"
proof -
  obtain data where "ser p = Some data" using assms(3) by blast
  with assms sealed_id [OF assms(1)] show ?thesis
    by (simp add: load_eq load_sealed_def reference_path_def require_seal_def)
qed

lemma store_then_load:
  assumes "store f p s = (Inr path, s')" and "\<And>data. ser p = Some data \<Longrightarrow> de data = Some p"
  shows "load de (id_of p) s' = Inr p"
  using store_there [OF assms(1)] assms(2) by (intro stored_loads) simp_all

lemma load_sealed_only: "load de reference s = Inr p \<Longrightarrow> verify_seal p = Inr True"
  by (auto simp: load_eq load_sealed_def require_seal_def result_iffs split: sum.splits if_splits)

end

lemma temporaries_apart: "hidden_temporary i \<noteq> plan_path j" "extended_temporary i \<noteq> plan_path j"
proof -
  have "last (hidden_temporary i) \<noteq> last (plan_path j)" by (simp add: hidden_temporary_def plan_path_def)
  then show "hidden_temporary i \<noteq> plan_path j" by metis
  have "last (extended_temporary i) \<noteq> last (plan_path j)" by (simp add: extended_temporary_def plan_path_def)
  then show "extended_temporary i \<noteq> plan_path j" by metis
qed

interpretation request_store: plan_storing C "''plan''" "seal_request_plan C" "verify_seal_request_plan C"
    "\<lambda>p. ser_request_plan C (clear_request_plan p)" rp_fingerprint rp_id "ser_request_plan C" hidden_temporary
    "store_plan C" "load_plan C" for C
  by unfold_locales (auto simp: store_plan_def load_plan_def temporaries_apart)

interpretation websocket_store: plan_storing C "''plan''" "seal_websocket_plan C" "verify_seal_websocket_plan C"
    "\<lambda>p. ser_websocket_plan C (clear_websocket_plan p)" wp_fingerprint wp_id "ser_websocket_plan C" hidden_temporary
    "store_websocket_plan C" "load_websocket_plan C" for C
  by unfold_locales (auto simp: store_websocket_plan_def load_websocket_plan_def temporaries_apart)

interpretation workflow_store: plan_storing C "''workflow-plan''" "seal_workflow_plan C" "verify_seal_workflow_plan C"
    "\<lambda>p. ser_workflow_plan C (clear_workflow_plan p)" wf_fingerprint wf_id "ser_workflow_plan C" extended_temporary
    "store_workflow_plan C" "load_workflow_plan C" for C
  by unfold_locales (auto simp: store_workflow_plan_def load_workflow_plan_def temporaries_apart)

subsection \<open>Conformance plans\<close>

text \<open>\<open>to_hex\<close> writes hexadecimal digits, so a handle names its file.\<close>

definition hex_digits :: string where
  "hex_digits = ''0123456789abcdef''"

definition hex_hash :: "crates \<Rightarrow> bool" where
  "hex_hash C = (\<forall>bs. set (blake3_hex C bs) \<subseteq> set hex_digits)"

lemma plan_path_handle:
  assumes "hex_hash C"
  shows "plan_path (short_handle C kind ps) = ''store/plans/'' @ map (\<lambda>x. if x = CHR '':'' then CHR ''-'' else x) kind @ ''-''
     @ take 12 (blake3_hex C (handle_preimage kind ps)) @ ''.json''"
proof -
  have "x \<noteq> CHR '':''" if "x \<in> set (take 12 (blake3_hex C bs))" for x bs
    using that assms in_set_takeD by (fastforce simp: hex_hash_def hex_digits_def)
  then have "map (\<lambda>x. if x = CHR '':'' then CHR ''-'' else x) (take 12 (blake3_hex C bs)) = take 12 (blake3_hex C bs)" for bs
    by (intro map_idI) auto
  then show ?thesis by (simp add: plan_path_def short_handle_def replace_char_def)
qed

lemma request_path_inj:
  assumes "hex_hash C" and "verify_seal_request_plan C p = Inr True" and "verify_seal_request_plan C q = Inr True"
    and "plan_path (rp_id p) = plan_path (rp_id q)"
  shows "rp_id p = rp_id q"
proof -
  from assms(2,3) obtain ps qs where "rp_id p = short_handle C ''plan'' ps" "rp_id q = short_handle C ''plan'' qs"
    by (auto simp: request_seal.verify_iff sealed_by_def)
  with assms(1,4) show ?thesis by (simp add: plan_path_handle) (simp add: short_handle_def)
qed

lemma conformance_path_apart:
  assumes "hex_hash C" and "verify_seal_request_plan C p = Inr True" and "verify_seal_conformance_plan C q = Inr True"
  shows "plan_path (rp_id p) \<noteq> plan_path (cp_id q)"
proof -
  from assms(2,3) obtain ps qs where "rp_id p = short_handle C ''plan'' ps" "cp_id q = short_handle C ''conformance-plan'' qs"
    by (auto simp: request_seal.verify_iff conformance_seal.verify_iff sealed_by_def)
  with assms(1) show ?thesis by (simp add: plan_path_handle)
qed

definition case_stored :: "crates \<Rightarrow> RequestPlan \<Rightarrow> files \<Rightarrow> bool" where
  "case_stored C p s = (verify_seal_request_plan C p = Inr True \<and> ser_request_plan C p \<noteq> None
     \<and> s (plan_path (rp_id p)) = ser_request_plan C p)"

lemma store_plan_keeps:
  assumes "hex_hash C" and "store_plan C f p s = (Inr path, s')" and "case_stored C q s" and "rp_id p = rp_id q \<Longrightarrow> p = q"
  shows "case_stored C q s'"
proof (cases "plan_path (rp_id p) = plan_path (rp_id q)")
  case True
  then have "p = q"
    using request_path_inj assms(1,3,4) request_store.store_there [OF assms(2)] by (auto simp: case_stored_def)
  with request_store.store_there [OF assms(2)] show ?thesis by (simp add: case_stored_def)
next
  case False
  with assms(3) request_store.store_elsewhere [OF assms(2), of "rp_id q"] show ?thesis by (auto simp: case_stored_def)
qed

definition keyed :: "(string \<Rightarrow> RequestPlan option) \<Rightarrow> bool" where
  "keyed by_id = (\<forall>k p. by_id k = Some p \<longrightarrow> rp_id p = k)"

lemma keyed_id: "keyed by_id \<Longrightarrow> by_id k = Some p \<Longrightarrow> rp_id p = k"
  by (simp add: keyed_def)

lemma store_cases_keeps:
  "store_cases C faults by_id n cs s = (Inr u, s') \<Longrightarrow> hex_hash C \<Longrightarrow> keyed by_id
     \<Longrightarrow> by_id (rp_id q) = Some q \<Longrightarrow> case_stored C q s \<Longrightarrow> case_stored C q s'"
proof (induction cs arbitrary: n s)
  case Nil
  then show ?case by simp
next
  case (Cons c cs)
  from Cons.prems(1) obtain p path s1 where p: "by_id (cc_plan c) = Some p" "rp_fingerprint p = cc_plan_fingerprint c"
    "verify_seal_request_plan C p = Inr True" "store_plan C (faults n) p s = (Inr path, s1)"
    and rest: "store_cases C faults by_id (n + 1) cs s1 = (Inr u, s')"
    by (auto split: option.splits sum.splits if_splits prod.splits)
  have id: "rp_id p = cc_plan c" by (rule keyed_id [OF Cons.prems(3) p(1)])
  have "p = q" if "rp_id p = rp_id q"
  proof -
    have "by_id (rp_id q) = Some p" using p(1) by (simp only: id that [symmetric])
    then show ?thesis by (simp only: Cons.prems(4) option.inject)
  qed
  then have "case_stored C q s1" by (rule store_plan_keeps [OF Cons.prems(2) p(4) Cons.prems(5)])
  with Cons.IH [OF rest Cons.prems(2,3,4)] show ?case by simp
qed

lemma store_cases_stored:
  "store_cases C faults by_id n cs s = (Inr u, s') \<Longrightarrow> hex_hash C \<Longrightarrow> keyed by_id
     \<Longrightarrow> c \<in> set cs \<Longrightarrow> \<exists>p. by_id (cc_plan c) = Some p \<and> rp_fingerprint p = cc_plan_fingerprint c \<and> case_stored C p s'"
proof (induction cs arbitrary: n s)
  case Nil
  then show ?case by simp
next
  case (Cons d cs)
  from Cons.prems(1) obtain p path s1 where p: "by_id (cc_plan d) = Some p" "rp_fingerprint p = cc_plan_fingerprint d"
    "verify_seal_request_plan C p = Inr True" "store_plan C (faults n) p s = (Inr path, s1)"
    and rest: "store_cases C faults by_id (n + 1) cs s1 = (Inr u, s')"
    by (auto split: option.splits sum.splits if_splits prod.splits)
  have "case_stored C p s1" using request_store.store_there [OF p(4)] by (simp add: case_stored_def)
  moreover have "rp_id p = cc_plan d" by (rule keyed_id [OF Cons.prems(3) p(1)])
  ultimately have stored: "case_stored C p s'"
    using store_cases_keeps [OF rest Cons.prems(2,3)] p(1) by simp
  show ?case
  proof (cases "c = d")
    case True
    with stored p show ?thesis by auto
  next
    case False
    with Cons.IH [OF rest Cons.prems(2,3)] Cons.prems(4) show ?thesis by simp
  qed
qed

lemma by_id_Some: "map_of (rev (map (\<lambda>r. (rp_id r, r)) requests)) k = Some p \<Longrightarrow> rp_id p = k \<and> p \<in> set requests"
  by (drule map_of_SomeD) auto

lemma stored_case_loads:
  assumes "store_conformance_plan C faults plan requests s = (Inr path, s')" and "hex_hash C"
    and "\<And>data p. p \<in> set requests \<Longrightarrow> ser_request_plan C p = Some data \<Longrightarrow> de_request data = Some p"
    and c: "c \<in> set (cp_cases plan)"
  shows "\<exists>p \<in> set requests. load_plan C de_request (cc_plan c) s' = Inr p
       \<and> rp_id p = cc_plan c \<and> rp_fingerprint p = cc_plan_fingerprint c \<and> verify_seal_request_plan C p = Inr True"
proof -
  let ?by_id = "map_of (rev (map (\<lambda>r. (rp_id r, r)) requests))"
  from assms(1) obtain s1 data where seal: "verify_seal_conformance_plan C plan = Inr True"
    and cases: "store_cases C faults ?by_id 0 (cp_cases plan) s = (Inr (), s1)"
    and s': "s' = (s1(plan_path (cp_id plan) \<mapsto> data))(extended_temporary (cp_id plan) := None)"
    by (auto simp: store_conformance_plan_def require_seal_def write_plan_def split: sum.splits prod.splits if_splits option.splits)
  have "keyed ?by_id" using by_id_Some by (auto simp: keyed_def)
  from store_cases_stored [OF cases assms(2) this c] obtain p where p: "?by_id (cc_plan c) = Some p"
    "rp_fingerprint p = cc_plan_fingerprint c" "case_stored C p s1" by blast
  from by_id_Some [OF p(1)] have id: "rp_id p = cc_plan c" "p \<in> set requests" by simp_all
  have "s' (plan_path (rp_id p)) = s1 (plan_path (rp_id p))"
    using conformance_path_apart [OF assms(2) _ seal] p(3) temporaries_apart(2) [of "cp_id plan" "rp_id p"] by (auto simp: s' case_stored_def)
  with p(3) request_store.stored_loads [of C p s' de_request] assms(3) [OF id(2)] have "load_plan C de_request (rp_id p) s' = Inr p"
    by (simp add: case_stored_def)
  with p id show ?thesis by (auto simp: case_stored_def)
qed

subsection \<open>Claims\<close>

text \<open>
  A stored conformance campaign is complete: once \<open>store_conformance_plan\<close> succeeds, the plan loads back, and
  for every case the request plan the case names loads back too, sealed, with the handle and the fingerprint
  recorded in the case.
\<close>

theorem stored_campaign_loads_back:
  assumes "store_conformance_plan C faults plan requests s = (Inr path, s')" and "hex_hash C"
    and "\<And>data p. p \<in> set requests \<Longrightarrow> ser_request_plan C p = Some data \<Longrightarrow> de_request data = Some p"
    and "\<And>data. ser_conformance_plan C plan = Some data \<Longrightarrow> de_conformance data = Some plan"
  shows "load_conformance_plan C de_conformance (cp_id plan) s' = Inr plan
       \<and> (\<forall>c \<in> set (cp_cases plan). \<exists>p \<in> set requests. load_plan C de_request (cc_plan c) s' = Inr p
            \<and> rp_id p = cc_plan c \<and> rp_fingerprint p = cc_plan_fingerprint c \<and> verify_seal_request_plan C p = Inr True)"
proof -
  let ?by_id = "map_of (rev (map (\<lambda>r. (rp_id r, r)) requests))"
  from assms(1) obtain s1 data where seal: "verify_seal_conformance_plan C plan = Inr True"
    and cases: "store_cases C faults ?by_id 0 (cp_cases plan) s = (Inr (), s1)"
    and ser: "ser_conformance_plan C plan = Some data"
    and s': "s' = (s1(plan_path (cp_id plan) \<mapsto> data))(extended_temporary (cp_id plan) := None)"
    by (auto simp: store_conformance_plan_def require_seal_def write_plan_def split: sum.splits prod.splits if_splits option.splits)
  have here: "s' (plan_path (cp_id plan)) = Some data" using temporaries_apart(2) [of "cp_id plan" "cp_id plan"] by (simp add: s')
  have "starts_with (cp_id plan) ''conformance-plan:''"
    using seal by (auto simp: conformance_seal.verify_iff sealed_by_def short_handle_def starts_with_iff)
  then have "load_conformance_plan C de_conformance (cp_id plan) s' = Inr plan"
    using here assms(4) ser seal by (simp add: load_conformance_plan_def load_sealed_def reference_path_def require_seal_def)
  moreover have "\<exists>p \<in> set requests. load_plan C de_request (cc_plan c) s' = Inr p \<and> rp_id p = cc_plan c
      \<and> rp_fingerprint p = cc_plan_fingerprint c \<and> verify_seal_request_plan C p = Inr True" if "c \<in> set (cp_cases plan)" for c
    by (rule stored_case_loads [OF assms(1,2) _ that]) (rule assms(3))
  ultimately show ?thesis by blast
qed

definition hex_crates :: crates where
  "hex_crates = sample_crates\<lparr>blake3_hex := sample_hash\<rparr>"

lemma unat_u8_bound: "unat (b :: u8) < 256"
  using unsigned_less [of b] by simp

lemma hex_crates_hash: "hex_hash hex_crates"
proof -
  have "sample_hex_digit n \<in> set hex_digits" if "n < 16" for n
  proof -
    have "list_all (\<lambda>n. sample_hex_digit n \<in> set hex_digits) [0 ..< 16]" by code_simp
    with that show ?thesis by (simp add: list_all_iff)
  qed
  moreover have "unat b div 16 < 16" "unat b mod 16 < 16" for b :: u8
    using unat_u8_bound [of b] by (simp_all add: less_mult_imp_div_less)
  moreover have "CHR ''0'' \<in> set hex_digits" by (simp add: hex_digits_def)
  ultimately show ?thesis
    by (auto simp: hex_hash_def hex_crates_def sample_hash_def dest!: in_set_takeD)
qed

definition stored_request :: RequestPlan where
  "stored_request = (case seal_request_plan hex_crates sample_request_plan of Inr p \<Rightarrow> p | Inl _ \<Rightarrow> sample_request_plan)"

definition sample_campaign :: ConformancePlan where
  "sample_campaign =
     \<lparr>cp_protocol = PROTOCOL, cp_kind = ''conformance-plan'', cp_version = VERSION, cp_config_fingerprint = ''b3:config'',
      cp_policy_fingerprint = ''b3:policy'', cp_source_fingerprints = [], cp_id = [], cp_operation = ''getPet'', cp_seed = 7,
      cp_requested_cases = 1, cp_delay_ms = 0, cp_max_failures = 1,
      cp_cases = [\<lparr>cc_case_id = ''case:1'', cc_generation = Positive, cc_strategy = ''boundary'', cc_plan = rp_id stored_request,
        cc_plan_fingerprint = rp_fingerprint stored_request, cc_request_digest = ''b3:request''\<rparr>],
      cp_risk = Read, cp_required_grants = [''http:GET''], cp_fingerprint = [], cp_exit = 0\<rparr>"

definition stored_campaign :: ConformancePlan where
  "stored_campaign = (case seal_conformance_plan hex_crates sample_campaign of Inr p \<Rightarrow> p | Inl _ \<Rightarrow> sample_campaign)"

definition working_disk :: store_faults where
  "working_disk = \<lparr>sf_mkdir = True, sf_write = True, sf_partial = [], sf_rename = True\<rparr>"

lemma stored_request_seal: "seal_request_plan hex_crates sample_request_plan = Inr stored_request"
  by (simp add: stored_request_def seal_request_plan_def hex_crates_def sample_crates_def Let_def)

lemma stored_campaign_seal: "seal_conformance_plan hex_crates sample_campaign = Inr stored_campaign"
  by (simp add: stored_campaign_def seal_conformance_plan_def hex_crates_def sample_crates_def Let_def)

lemma stored_campaign_cases: "cp_cases stored_campaign = cp_cases sample_campaign"
proof -
  have "ser_conformance_plan hex_crates q = Some (as_bytes (cp_id q @ cp_fingerprint q))" for q
    by (simp add: hex_crates_def sample_crates_def)
  then show ?thesis
    by (simp add: stored_campaign_def seal_conformance_plan_def clear_conformance_plan_def Let_def)
qed

lemma sample_campaign_stores:
  "\<exists>path s'. store_conformance_plan hex_crates (\<lambda>_. working_disk) stored_campaign [stored_request] Map.empty = (Inr path, s')"
proof -
  have "verify_seal_request_plan hex_crates stored_request = Inr True"
    using request_seal.seal_verifies [OF stored_request_seal] .
  moreover have "verify_seal_conformance_plan hex_crates stored_campaign = Inr True"
    using conformance_seal.seal_verifies [OF stored_campaign_seal] .
  moreover have "ser_request_plan hex_crates p = Some (as_bytes (rp_target p))"
    "ser_conformance_plan hex_crates q = Some (as_bytes (cp_id q @ cp_fingerprint q))" for p q
    by (simp_all add: hex_crates_def sample_crates_def)
  ultimately show ?thesis
    by (simp add: store_conformance_plan_def stored_campaign_cases sample_campaign_def store_plan_def store_sealed_def
        require_seal_def write_plan_def working_disk_def)
qed

theorem stored_campaign_loads_back_witness:
  "\<exists>path s'. store_conformance_plan hex_crates (\<lambda>_. working_disk) stored_campaign [stored_request] Map.empty = (Inr path, s')
     \<and> load_conformance_plan hex_crates (\<lambda>_. Some stored_campaign) (cp_id stored_campaign) s' = Inr stored_campaign
     \<and> load_plan hex_crates (\<lambda>_. Some stored_request) (rp_id stored_request) s' = Inr stored_request"
proof -
  obtain path s' where run: "store_conformance_plan hex_crates (\<lambda>_. working_disk) stored_campaign [stored_request] Map.empty
      = (Inr path, s')" using sample_campaign_stores by blast
  from stored_campaign_loads_back [OF run hex_crates_hash, of "\<lambda>_. Some stored_request" "\<lambda>_. Some stored_campaign"] run
  show ?thesis by (simp add: stored_campaign_cases sample_campaign_def)
qed



end
