(* ===== verification/Ip_Parse.thy ===== *)
theory Ip_Parse
  imports Net_Boundary
begin

text \<open>
  \<open>str::parse::<IpAddr>\<close> of the standard library, which the planner applies to the host of a target: the
  parser of IPv4 and IPv6 literals, each step returning what it read and the rest of the input.
\<close>

subsection \<open>Numbers\<close>

definition hex_value :: "char \<Rightarrow> nat option" where
  "hex_value c =
     (let n = char_code c in
      if is_ascii_digit c then Some (n - 48)
      else if 97 \<le> n \<and> n \<le> 102 then Some (n - 87)
      else if 65 \<le> n \<and> n \<le> 70 then Some (n - 55) else None)"

definition digit_value :: "nat \<Rightarrow> char \<Rightarrow> nat option" where
  "digit_value radix c = (case hex_value c of Some d \<Rightarrow> if d < radix then Some d else None | None \<Rightarrow> None)"

definition number_of :: "nat \<Rightarrow> string \<Rightarrow> nat" where
  "number_of radix ds = foldl (\<lambda>acc c. acc * radix + the (digit_value radix c)) 0 ds"

definition read_number :: "nat \<Rightarrow> nat \<Rightarrow> bool \<Rightarrow> nat \<Rightarrow> string \<Rightarrow> (nat \<times> string) option" where
  "read_number radix max_digits allow_zero_prefix hi s =
     (let ds = takeWhile (\<lambda>c. digit_value radix c \<noteq> None) s;
          n = number_of radix ds
      in if ds = [] \<or> max_digits < length ds then None
         else if \<not> allow_zero_prefix \<and> hd ds = CHR ''0'' \<and> 1 < length ds then None
         else if hi < n then None else Some (n, drop (length ds) s))"

definition read_separator :: "char \<Rightarrow> nat \<Rightarrow> string \<Rightarrow> string option" where
  "read_separator sep index s =
     (if index = 0 then Some s else (case s of c # cs \<Rightarrow> if c = sep then Some cs else None | [] \<Rightarrow> None))"

subsection \<open>Addresses\<close>

definition read_octet :: "nat \<Rightarrow> string \<Rightarrow> (u8 \<times> string) option" where
  "read_octet index s =
     (case read_separator (CHR ''.'') index s of
        None \<Rightarrow> None
      | Some s' \<Rightarrow> map_option (\<lambda>(n, r). (of_nat n, r)) (read_number 10 3 False 255 s'))"

definition read_ipv4 :: "string \<Rightarrow> ((u8 \<times> u8 \<times> u8 \<times> u8) \<times> string) option" where
  "read_ipv4 s =
     Option.bind (read_octet 0 s) (\<lambda>(a, s).
     Option.bind (read_octet 1 s) (\<lambda>(b, s).
     Option.bind (read_octet 2 s) (\<lambda>(c, s).
     map_option (\<lambda>(d, s). ((a, b, c, d), s)) (read_octet 3 s))))"

text \<open>\<open>read_groups\<close>: at most \<open>n\<close> further groups, the last two of which may be an embedded IPv4 address.\<close>

definition pair_of :: "u8 \<Rightarrow> u8 \<Rightarrow> u16" where
  "pair_of hi lo = push_bit 8 (ucast hi) OR ucast lo"

fun read_groups :: "nat \<Rightarrow> nat \<Rightarrow> string \<Rightarrow> u16 list \<times> bool \<times> string" where
  "read_groups 0 i s = ([], False, s)"
| "read_groups (Suc n) i s =
     (case (if n = 0 then None else Option.bind (read_separator (CHR '':'') i s) read_ipv4) of
        Some ((a, b, c, d), rest) \<Rightarrow> ([pair_of a b, pair_of c d], True, rest)
      | None \<Rightarrow>
          (case Option.bind (read_separator (CHR '':'') i s) (read_number 16 4 True 65535) of
             None \<Rightarrow> ([], False, s)
           | Some (g, rest) \<Rightarrow>
               (case read_groups n (i + 1) rest of (gs, v4, rest') \<Rightarrow> (of_nat g # gs, v4, rest'))))"

definition v6_of :: "u16 list \<Rightarrow> IpAddr" where
  "v6_of g = V6 (g ! 0) (g ! 1) (g ! 2) (g ! 3) (g ! 4) (g ! 5) (g ! 6) (g ! 7)"

definition read_ipv6 :: "string \<Rightarrow> (IpAddr \<times> string) option" where
  "read_ipv6 s =
     (case read_groups 8 0 s of
        (head, v4, rest) \<Rightarrow>
          if length head = 8 then Some (v6_of head, rest)
          else if v4 then None
          else (case strip_prefix ''::'' rest of
                  None \<Rightarrow> None
                | Some rest \<Rightarrow>
                    (case read_groups (8 - (length head + 1)) 0 rest of
                       (tail, _, rest') \<Rightarrow>
                         Some (v6_of (head @ replicate (8 - length head - length tail) 0 @ tail), rest'))))"

definition parse_ip :: "string \<Rightarrow> IpAddr option" where
  "parse_ip s =
     (case (case read_ipv4 s of
              Some ((a, b, c, d), rest) \<Rightarrow> Some (V4 a b c d, rest)
            | None \<Rightarrow> read_ipv6 s) of
        Some (ip, []) \<Rightarrow> Some ip
      | _ \<Rightarrow> None)"

subsection \<open>Round trip of IPv4 literals\<close>

lemma digit_value_10: "digit_value 10 c = (if is_ascii_digit c then Some (char_code c - 48) else None)"
  by (auto simp: digit_value_def hex_value_def is_ascii_digit_def Let_def)

lemma number_of_snoc: "number_of 10 (ds @ [c]) = number_of 10 ds * 10 + the (digit_value 10 c)"
  by (simp add: number_of_def)

lemma number_of_show_nat: "number_of 10 (show_nat n) = n"
proof (induction n rule: show_nat.induct)
  case (1 n)
  then show ?case
    by (cases "n < 10")
      (simp_all add: show_nat.simps [of n] number_of_snoc digit_value_10 is_ascii_digit_char_of char_code_digit,
       simp add: number_of_def digit_value_10 is_ascii_digit_char_of char_code_digit)
qed

lemma length_show_nat_u8: "length (show_nat (unat (a :: u8))) \<le> 3"
proof -
  have "unat a < 256" by (rule unat_u8_lt)
  then show ?thesis by (simp add: show_nat.simps [of "unat a"] show_nat.simps [of "unat a div 10"] show_nat.simps [of "unat a div 10 div 10"])
qed

lemma show_nat_no_leading_zero: "hd (show_nat n) = CHR ''0'' \<Longrightarrow> length (show_nat n) = 1"
proof (induction n rule: show_nat.induct)
  case (1 n)
  show ?case
  proof (cases "n < 10")
    case True
    then show ?thesis by (simp add: show_nat.simps [of n])
  next
    case False
    then have "hd (show_nat n) = hd (show_nat (n div 10))"
      by (simp add: show_nat.simps [of n] show_nat_nonempty)
    with 1 False have "length (show_nat (n div 10)) = 1" and z: "hd (show_nat (n div 10)) = CHR ''0''" by simp_all
    then have one: "n div 10 < 10"
      by (auto simp: show_nat.simps [of "n div 10"] show_nat_nonempty split: if_splits)
    with z have "char_of (48 + n div 10) = CHR ''0''" by (simp add: show_nat.simps [of "n div 10"])
    then have "char_code (char_of (48 + n div 10)) = 48" by (simp add: char_code_def)
    with one have "n div 10 = 0" using char_code_digit [of "n div 10"] by simp
    with False show ?thesis by simp
  qed
qed

lemma read_number_show:
  assumes "rest = [] \<or> \<not> is_ascii_digit (hd rest)"
  shows "read_number 10 3 False 255 (show_nat (unat (a :: u8)) @ rest) = Some (unat a, rest)"
proof -
  let ?ds = "show_nat (unat a)"
  have "takeWhile (\<lambda>c. digit_value 10 c \<noteq> None) (?ds @ rest) = ?ds"
    using assms by (cases rest) (auto simp: takeWhile_append digit_value_10 dest: show_nat_digits)
  moreover have "\<not> 255 < unat a" using unat_u8_lt [of a] by simp
  moreover have "\<not> (hd ?ds = CHR ''0'' \<and> 1 < length ?ds)" using show_nat_no_leading_zero [of "unat a"] by auto
  ultimately show ?thesis
    using length_show_nat_u8 [of a]
    by (simp add: read_number_def Let_def number_of_show_nat show_nat_nonempty)
qed

lemma read_octet_show:
  assumes "rest = [] \<or> \<not> is_ascii_digit (hd rest)"
  shows "read_octet 0 (show_nat (unat a) @ rest) = Some (a, rest)"
    and "0 < i \<Longrightarrow> read_octet i (CHR ''.'' # show_nat (unat a) @ rest) = Some (a, rest)"
  using read_number_show [OF assms, of a] by (simp_all add: read_octet_def read_separator_def)

lemma dot_not_digit: "\<not> is_ascii_digit (CHR ''.'')"
  by code_simp

text \<open>Reading back the textual form of an IPv4 address gives that address.\<close>

theorem parse_shown_ipv4: "parse_ip (show_v4 a b c d) = Some (V4 a b c d)"
proof -
  have "read_ipv4 (show_v4 a b c d) = Some ((a, b, c, d), [])"
    using read_octet_show(1) [of "CHR ''.'' # show_nat (unat b) @ CHR ''.'' # show_nat (unat c) @ CHR ''.'' # show_nat (unat d)" a]
      read_octet_show(2) [of "CHR ''.'' # show_nat (unat c) @ CHR ''.'' # show_nat (unat d)" 1 b]
      read_octet_show(2) [of "CHR ''.'' # show_nat (unat d)" 2 c] read_octet_show(2) [of "[]" 3 d]
    by (simp add: read_ipv4_def show_v4_def dot_not_digit)
  then show ?thesis by (simp add: parse_ip_def)
qed

end
