(* ===== verification/Plan_Config.thy ===== *)
theory Plan_Config
  imports Ip_Parse Ws_Plan
begin

text \<open>
  Configuration and policy of the planner (\<open>kahea-plan\<close>): the project configuration with its servers,
  credentials by reference and policy, how it is loaded, and the fingerprints that bind a plan to it.  A
  \<open>BTreeMap\<close> is an association list in key order.  Free-text reasons of errors are left out.
\<close>

datatype PlanError =
    MissingServer | AmbiguousServer | UnknownServer string | InvalidServer | UnsafeTarget
  | MissingParameter string string | UnknownInput string | InvalidInput string | MissingBody | UnexpectedBody
  | UnknownContentType string | MissingAuth | UnknownSecurityScheme string | UnsupportedSecurityScheme string
  | InvalidExplicitField string | PlanSerialization | PlanStore | PlanInvalidSeal | BlockingAbsence string string
  | Configuration | PolicyDenied | InvalidWebSocketSource

record PlanOptions =
  po_server :: "string option"
  po_auth :: "string option"
  po_content_type :: "string option"
  po_input :: "json option"
  po_explicit :: "(string \<times> json) list"
  po_checks :: "string list"

record ConfigurationDefaults =
  cd_source :: "string option"
  cd_server :: "string option"
  cd_auth :: "string option"
  cd_policy :: "string option"

record ConfiguredServer =
  cs_url :: string
  cs_classification :: "string option"

record ConfiguredAuth =
  ca_type :: string
  ca_token :: "string option"
  ca_username :: "string option"
  ca_password :: "string option"
  ca_client_id :: "string option"
  ca_client_secret :: "string option"
  ca_refresh_token :: "string option"
  ca_certificate :: "string option"

text \<open>\<open>WebSocketPolicyLimits\<close> has the fields of \<open>WebSocketLimits\<close>.\<close>

type_synonym WebSocketPolicyLimits = WebSocketLimits

definition default_policy_limits :: WebSocketPolicyLimits where
  "default_policy_limits =
     \<lparr>connect_timeout_ms = 30000, action_timeout_ms = 30000, idle_timeout_ms = 30000, close_timeout_ms = 10000,
      total_timeout_ms = 120000, max_frame_bytes = 4 * 1024 * 1024, max_message_bytes = 16 * 1024 * 1024,
      max_inbound_frames = 4096, max_outbound_frames = 4096, max_inbound_messages = 2048, max_outbound_messages = 2048,
      max_inbound_bytes = 64 * 1024 * 1024, max_outbound_bytes = 64 * 1024 * 1024\<rparr>"

record WebSocketPolicy =
  wsp_allowed_origins :: "string list"
  wsp_allowed_subprotocols :: "string list"
  wsp_max_limits :: WebSocketPolicyLimits

definition default_websocket_policy :: WebSocketPolicy where
  "default_websocket_policy =
     \<lparr>wsp_allowed_origins = [], wsp_allowed_subprotocols = [], wsp_max_limits = default_policy_limits\<rparr>"

record ConfigurationPolicy =
  pol_denied_hosts :: "string list"
  pol_allowed_hosts :: "string list"
  pol_max_request_bytes :: u64
  pol_require_production_write_approval :: bool
  pol_sensitive_headers :: "string list"
  pol_redact_response_json_pointers :: "string list"
  pol_websocket :: WebSocketPolicy

definition default_policy :: ConfigurationPolicy where
  "default_policy =
     \<lparr>pol_denied_hosts = [], pol_allowed_hosts = [], pol_max_request_bytes = 16 * 1024 * 1024,
      pol_require_production_write_approval = True, pol_sensitive_headers = [], pol_redact_response_json_pointers = [],
      pol_websocket = default_websocket_policy\<rparr>"

record ProjectConfiguration =
  cfg_version :: u32
  cfg_defaults :: ConfigurationDefaults
  cfg_servers :: "(string \<times> ConfiguredServer) list"
  cfg_auth :: "(string \<times> ConfiguredAuth) list"
  cfg_risk :: "(string \<times> RiskClass) list"
  cfg_policy :: ConfigurationPolicy

definition default_configuration :: ProjectConfiguration where
  "default_configuration =
     \<lparr>cfg_version = 0, cfg_defaults = \<lparr>cd_source = None, cd_server = None, cd_auth = None, cd_policy = None\<rparr>,
      cfg_servers = [], cfg_auth = [], cfg_risk = [], cfg_policy = default_policy\<rparr>"

text \<open>What the planner takes from outside: files, \<open>toml\<close>, and the conversions of \<open>url\<close> and \<open>percent_encoding\<close>.\<close>

record plan_env =
  pe_read :: "string \<Rightarrow> bytes option"
  pe_policy_path :: "string \<Rightarrow> string \<Rightarrow> string"
  pe_file_name :: "string \<Rightarrow> string option"
  pe_toml_config :: "string \<Rightarrow> ProjectConfiguration option"
  pe_toml_policy :: "string \<Rightarrow> ConfigurationPolicy option"
  pe_toml_policy_wrapper :: "string \<Rightarrow> ConfigurationPolicy option"
  pe_config_value :: "ProjectConfiguration \<Rightarrow> json option"
  pe_percent_encode :: "char set \<Rightarrow> string \<Rightarrow> string"
  pe_append_pairs :: "ParsedUrl \<Rightarrow> (string \<times> string) list \<Rightarrow> ParsedUrl"
  pe_form_encode :: "(string \<times> string) list \<Rightarrow> string"
  pe_number_text :: "json_number \<Rightarrow> string"

subsection \<open>Loading\<close>

definition continuation :: "u8 \<Rightarrow> bool" where
  "continuation b = (0x80 \<le> b \<and> b \<le> 0xBF)"

fun valid_utf8 :: "bytes \<Rightarrow> bool" where
  "valid_utf8 [] = True"
| "valid_utf8 (a # bs) =
     (if a < 0x80 then valid_utf8 bs
      else (case bs of
              [] \<Rightarrow> False
            | b # cs \<Rightarrow>
                if 0xC2 \<le> a \<and> a \<le> 0xDF then continuation b \<and> valid_utf8 cs
                else (case cs of
                        [] \<Rightarrow> False
                      | c # ds \<Rightarrow>
                          if 0xE0 \<le> a \<and> a \<le> 0xEF
                          then continuation b \<and> (a = 0xE0 \<longrightarrow> 0xA0 \<le> b) \<and> (a = 0xED \<longrightarrow> b \<le> 0x9F) \<and> continuation c
                            \<and> valid_utf8 ds
                          else (case ds of
                                  [] \<Rightarrow> False
                                | d # es \<Rightarrow>
                                    0xF0 \<le> a \<and> a \<le> 0xF4 \<and> continuation b \<and> (a = 0xF0 \<longrightarrow> 0x90 \<le> b)
                                    \<and> (a = 0xF4 \<longrightarrow> b \<le> 0x8F) \<and> continuation c \<and> continuation d \<and> valid_utf8 es))))"

declare valid_utf8.simps [simp del]

definition from_utf8 :: "bytes \<Rightarrow> string option" where
  "from_utf8 bs = (if valid_utf8 bs then Some (from_bytes bs) else None)"

definition credential_references :: "ConfiguredAuth \<Rightarrow> string list" where
  "credential_references a =
     List.map_filter id
       [ca_token a, ca_username a, ca_password a, ca_client_id a, ca_client_secret a, ca_refresh_token a, ca_certificate a]"

definition inline_credential :: "ConfiguredAuth \<Rightarrow> bool" where
  "inline_credential a = list_ex (\<lambda>r. \<not> starts_with r ''secret://'') (credential_references a)"

definition config_load :: "plan_env \<Rightarrow> string \<Rightarrow> PlanError + ProjectConfiguration" where
  "config_load E path =
     and_then (ok_or (pe_read E path) PlanStore) (\<lambda>byts.
     and_then (ok_or (from_utf8 byts) Configuration) (\<lambda>txt.
     and_then (ok_or (pe_toml_config E txt) Configuration) (\<lambda>configuration.
     if cfg_version configuration \<noteq> 1 then Inl Configuration
     else if list_ex (\<lambda>(name, auth). inline_credential auth) (cfg_auth configuration) then Inl Configuration
     else (case cd_policy (cfg_defaults configuration) of
             None \<Rightarrow> Inr configuration
           | Some policy_path \<Rightarrow>
               and_then (ok_or (Option.bind (pe_read E (pe_policy_path E path policy_path)) from_utf8) PlanStore) (\<lambda>txt.
               and_then (ok_or (case pe_toml_policy E txt of Some p \<Rightarrow> Some p | None \<Rightarrow> pe_toml_policy_wrapper E txt)
                           Configuration) (\<lambda>policy.
               Inr (configuration\<lparr>cfg_policy := policy\<rparr>)))))))"

subsection \<open>Fingerprints\<close>

definition config_fingerprint :: "crates \<Rightarrow> plan_env \<Rightarrow> ProjectConfiguration \<Rightarrow> PlanError + string" where
  "config_fingerprint C E configuration =
     (if cfg_version configuration = 0 then Inr (default_config_fingerprint C)
      else and_then (ok_or (pe_config_value E configuration) Configuration) (\<lambda>v.
           and_then (ok_or (json_to_vec C v) PlanSerialization) (\<lambda>byts. Inr (digest C byts))))"

definition json_strings :: "string list \<Rightarrow> json" where
  "json_strings ss = JArray (map JString ss)"

definition json_u64 :: "u64 \<Rightarrow> json" where
  "json_u64 n = JNumber (PosInt n)"

definition policy_fingerprint :: "crates \<Rightarrow> ProjectConfiguration \<Rightarrow> PlanError + string" where
  "policy_fingerprint C configuration =
     (let p = cfg_policy configuration;
          v = JObject
            [(''builtin'', JString ''kahea/builtin-policy/v1''),
             (''policy'', JObject
                [(''allowed_hosts'', json_strings (pol_allowed_hosts p)), (''denied_hosts'', json_strings (pol_denied_hosts p)),
                 (''max_request_bytes'', json_u64 (pol_max_request_bytes p)),
                 (''redact_response_json_pointers'', json_strings (pol_redact_response_json_pointers p)),
                 (''require_production_write_approval'', JBool (pol_require_production_write_approval p)),
                 (''sensitive_headers'', json_strings (pol_sensitive_headers p))])]
      in and_then (ok_or (json_to_vec C v) PlanSerialization) (\<lambda>byts. Inr (digest C byts)))"

definition limits_json :: "WebSocketPolicyLimits \<Rightarrow> json" where
  "limits_json l = JObject
     [(''action_timeout_ms'', json_u64 (action_timeout_ms l)), (''close_timeout_ms'', json_u64 (close_timeout_ms l)),
      (''connect_timeout_ms'', json_u64 (connect_timeout_ms l)), (''idle_timeout_ms'', json_u64 (idle_timeout_ms l)),
      (''max_frame_bytes'', json_u64 (max_frame_bytes l)), (''max_inbound_bytes'', json_u64 (max_inbound_bytes l)),
      (''max_inbound_frames'', json_u64 (max_inbound_frames l)), (''max_inbound_messages'', json_u64 (max_inbound_messages l)),
      (''max_message_bytes'', json_u64 (max_message_bytes l)), (''max_outbound_bytes'', json_u64 (max_outbound_bytes l)),
      (''max_outbound_frames'', json_u64 (max_outbound_frames l)),
      (''max_outbound_messages'', json_u64 (max_outbound_messages l)), (''total_timeout_ms'', json_u64 (total_timeout_ms l))]"

definition websocket_policy_fingerprint :: "crates \<Rightarrow> ProjectConfiguration \<Rightarrow> PlanError + string" where
  "websocket_policy_fingerprint C configuration =
     (let p = cfg_policy configuration;
          w = pol_websocket p;
          v = JObject
            [(''builtin'', JString ''kahea/builtin-websocket-policy/v1''),
             (''policy'', JObject
                [(''allowed_hosts'', json_strings (pol_allowed_hosts p)), (''denied_hosts'', json_strings (pol_denied_hosts p)),
                 (''redact_response_json_pointers'', json_strings (pol_redact_response_json_pointers p)),
                 (''require_production_write_approval'', JBool (pol_require_production_write_approval p)),
                 (''sensitive_headers'', json_strings (pol_sensitive_headers p)),
                 (''websocket'', JObject
                    [(''allowed_origins'', json_strings (wsp_allowed_origins w)),
                     (''allowed_subprotocols'', json_strings (wsp_allowed_subprotocols w)),
                     (''max_limits'', limits_json (wsp_max_limits w))])])]
      in and_then (ok_or (json_to_vec C v) PlanSerialization) (\<lambda>byts. Inr (digest C byts)))"

subsection \<open>Policy on redaction\<close>

definition validate_redaction_policy :: "ProjectConfiguration \<Rightarrow> PlanError + unit" where
  "validate_redaction_policy configuration =
     (if list_ex (\<lambda>p. \<not> starts_with p ''/'' \<or> 2048 < length p) (pol_redact_response_json_pointers (cfg_policy configuration))
      then Inl Configuration
      else if list_ex (\<lambda>h. h = [] \<or> contains_any h crlf) (pol_sensitive_headers (cfg_policy configuration))
      then Inl Configuration
      else Inr ())"

subsection \<open>Hosts\<close>

definition enforce_host_policy :: "string \<Rightarrow> ProjectConfiguration \<Rightarrow> PlanError + unit" where
  "enforce_host_policy host configuration =
     (if list_ex (\<lambda>d. eq_ignore_ascii_case d host) (pol_denied_hosts (cfg_policy configuration)) then Inl PolicyDenied
      else if pol_allowed_hosts (cfg_policy configuration) \<noteq> []
              \<and> \<not> list_ex (\<lambda>a. eq_ignore_ascii_case a host) (pol_allowed_hosts (cfg_policy configuration))
      then Inl PolicyDenied
      else Inr ())"

definition host_allowed :: "string \<Rightarrow> ProjectConfiguration \<Rightarrow> bool" where
  "host_allowed host configuration =
     ((\<forall>d \<in> set (pol_denied_hosts (cfg_policy configuration)). \<not> eq_ignore_ascii_case d host)
      \<and> (pol_allowed_hosts (cfg_policy configuration) = []
         \<or> (\<exists>a \<in> set (pol_allowed_hosts (cfg_policy configuration)). eq_ignore_ascii_case a host)))"

lemma enforce_host_policy_Inr: "enforce_host_policy host configuration = Inr u \<longleftrightarrow> host_allowed host configuration"
  by (auto simp: enforce_host_policy_def host_allowed_def list_ex_iff)

lemma valid_utf8_ascii: "list_all (\<lambda>b. b < 0x80) bs \<Longrightarrow> valid_utf8 bs"
  by (induction bs) (simp_all add: valid_utf8.simps)

end
