(* ===== verification/Ws_Planner.thy ===== *)
theory Ws_Planner
  imports Plan_Config Exec_Types
begin

text \<open>
  Planning WebSocket sessions (\<open>kahea-plan\<close>): a session source and the project's configuration give a sealed
  plan, or an error.  The parsed document and \<open>serde\<close>'s reading of it as a session source are arguments.
\<close>

subsection \<open>The source\<close>

text \<open>\<open>char::is_control\<close> on UTF-8 text: U+0000 to U+001F, U+007F, and U+0080 to U+009F as two bytes.\<close>

fun contains_control :: "string \<Rightarrow> bool" where
  "contains_control [] = False"
| "contains_control (c # s) =
     (char_code c < 32 \<or> char_code c = 127
      \<or> (char_code c = 0xC2 \<and> (case s of [] \<Rightarrow> False | d # _ \<Rightarrow> char_code d < 0xA0)) \<or> contains_control s)"

definition validate_websocket_source_identity :: "WebSocketSessionSource \<Rightarrow> PlanError + unit" where
  "validate_websocket_source_identity source =
     (if ss_kind source \<noteq> ''websocket-session'' \<or> ss_version source \<noteq> 1 then Inl InvalidWebSocketSource
      else if ss_operation_id source = [] \<or> 256 < length (ss_operation_id source) \<or> contains_control (ss_operation_id source)
      then Inl InvalidWebSocketSource
      else Inr ())"

definition is_websocket_session :: "json \<Rightarrow> bool" where
  "is_websocket_session document = (get_str document ''kind'' = Some ''websocket-session'')"

definition websocket_target :: "crates \<Rightarrow> string \<Rightarrow> PlanError + ParsedUrl" where
  "websocket_target C v =
     (if 8192 < length v then Inl InvalidWebSocketSource
      else and_then (ok_or (url_parse C v) InvalidWebSocketSource) (\<lambda>url.
           if url_scheme url \<notin> {''ws'', ''wss''} then Inl UnsafeTarget
           else if url_username url \<noteq> [] \<or> url_password url \<noteq> None then Inl UnsafeTarget
           else if url_fragment url \<noteq> None then Inl UnsafeTarget
           else if url_host_str url = None then Inl InvalidWebSocketSource
           else Inr url))"

subsection \<open>Origins and subprotocols\<close>

definition normalize_origin :: "crates \<Rightarrow> string \<Rightarrow> PlanError + string" where
  "normalize_origin C v =
     and_then (ok_or (url_parse C v) InvalidWebSocketSource) (\<lambda>origin.
     if url_scheme origin \<notin> {''http'', ''https''} \<or> url_host_str origin = None \<or> url_username origin \<noteq> []
        \<or> url_password origin \<noteq> None \<or> url_path origin \<noteq> ''/'' \<or> url_query origin \<noteq> None \<or> url_fragment origin \<noteq> None
     then Inl InvalidWebSocketSource
     else Inr (url_origin_ascii origin))"

definition collect_origin :: "crates \<Rightarrow> string \<Rightarrow> string list \<Rightarrow> PlanError + string list" where
  "collect_origin C configured allowed =
     and_then (map_err (\<lambda>_. Configuration) (normalize_origin C configured)) (\<lambda>o'. Inr (allowed @ [o']))"

definition enforce_websocket_origin_policy :: "crates \<Rightarrow> string option \<Rightarrow> ProjectConfiguration \<Rightarrow> PlanError + unit" where
  "enforce_websocket_origin_policy C origin configuration =
     and_then (for_each (collect_origin C) (wsp_allowed_origins (pol_websocket (cfg_policy configuration))) []) (\<lambda>allowed.
     case origin of
       None \<Rightarrow> Inr ()
     | Some o' \<Rightarrow> if allowed \<noteq> [] \<and> o' \<notin> set allowed then Inl PolicyDenied else Inr ())"

definition websocket_token_byte :: "char \<Rightarrow> bool" where
  "websocket_token_byte c =
     (is_ascii_alphanumeric c \<or> c \<in> set ''!#$%&*+-.^_`|~'' \<or> char_code c = 39)"

definition valid_websocket_token :: "string \<Rightarrow> bool" where
  "valid_websocket_token v = (v \<noteq> [] \<and> list_all websocket_token_byte v)"

text \<open>\<open>!valid || !set.insert(x)\<close> holds for no element: all are tokens and none repeats.\<close>

definition unique_tokens :: "string list \<Rightarrow> bool" where
  "unique_tokens ps = (list_all valid_websocket_token ps \<and> distinct ps)"

definition enforce_websocket_subprotocol_policy :: "string list \<Rightarrow> ProjectConfiguration \<Rightarrow> PlanError + unit" where
  "enforce_websocket_subprotocol_policy subprotocols configuration =
     (let configured = wsp_allowed_subprotocols (pol_websocket (cfg_policy configuration)) in
      if \<not> unique_tokens configured then Inl Configuration
      else if \<not> unique_tokens subprotocols then Inl InvalidWebSocketSource
      else if configured \<noteq> [] \<and> list_ex (\<lambda>p. p \<notin> set configured) subprotocols then Inl PolicyDenied
      else Inr ())"

subsection \<open>Headers and credentials\<close>

definition forbidden_headers :: "string list" where
  "forbidden_headers =
     [''authorization'', ''proxy-authorization'', ''cookie'', ''set-cookie'', ''host'', ''upgrade'', ''connection'',
      ''sec-websocket-key'', ''sec-websocket-version'', ''sec-websocket-protocol'', ''sec-websocket-extensions'',
      ''content-length'', ''transfer-encoding'']"

definition websocket_header ::
  "ProjectConfiguration \<Rightarrow> string \<times> string \<Rightarrow> string set \<times> PlannedHeader list
     \<Rightarrow> PlanError + string set \<times> PlannedHeader list" where
  "websocket_header configuration = (\<lambda>(name, v) (names, headers).
     let normalized = to_ascii_lowercase name in
     if \<not> valid_websocket_token name then Inl InvalidWebSocketSource
     else if contains_any v crlf then Inl InvalidWebSocketSource
     else if normalized \<in> set forbidden_headers
             \<or> list_ex (\<lambda>s. eq_ignore_ascii_case s name) (pol_sensitive_headers (cfg_policy configuration))
     then Inl InvalidWebSocketSource
     else if normalized \<in> names then Inl InvalidWebSocketSource
     else Inr (insert normalized names, headers @ [\<lparr>ph_name = name, ph_value = v\<rparr>]))"

definition websocket_headers :: "(string \<times> string) list \<Rightarrow> ProjectConfiguration \<Rightarrow> PlanError + PlannedHeader list" where
  "websocket_headers source configuration =
     and_then (for_each (websocket_header configuration) source ({}, [])) (\<lambda>(names, headers). Inr headers)"

definition auth_kind :: "string \<Rightarrow> PlanError + (string \<times> string \<times> string)" where
  "auth_kind t =
     (if t = ''bearer'' then Inr (''bearer'', ''http'', ''header:Authorization:bearer'')
      else if t = ''basic'' then Inr (''basic'', ''http'', ''header:Authorization:basic'')
      else if t = ''mtls'' then Inr (''mtls'', ''mutualTLS'', ''tls-client-certificate'')
      else Inl (UnsupportedSecurityScheme t))"

definition bind_websocket_configured_auth ::
  "string option \<Rightarrow> ProjectConfiguration \<Rightarrow> PlanError + (PlannedAuth option \<times> string list)" where
  "bind_websocket_configured_auth requested configuration =
     (case requested of
        None \<Rightarrow> Inr (None, [])
      | Some profile \<Rightarrow>
          and_then (ok_or (map_of (cfg_auth configuration) profile) (UnknownSecurityScheme profile)) (\<lambda>configured.
          if inline_credential configured then Inl Configuration
          else and_then (auth_kind (ca_type configured)) (\<lambda>(scheme, kind, placement).
               Inr (Some \<lparr>pa_scheme = scheme, pa_kind = kind, pa_profile = profile, pa_placement = placement,
                          pa_token_url = None, pa_scopes = []\<rparr>,
                    [''secret://'' @ profile]))))"

subsection \<open>Limits\<close>

definition limit_values :: "WebSocketLimits \<Rightarrow> u64 list" where
  "limit_values l =
     [connect_timeout_ms l, action_timeout_ms l, idle_timeout_ms l, close_timeout_ms l, total_timeout_ms l,
      max_frame_bytes l, max_message_bytes l, max_inbound_frames l, max_outbound_frames l, max_inbound_messages l,
      max_outbound_messages l, max_inbound_bytes l, max_outbound_bytes l]"

definition limits_contradict :: "WebSocketLimits \<Rightarrow> bool" where
  "limits_contradict l =
     (max_message_bytes l < max_frame_bytes l \<or> total_timeout_ms l < connect_timeout_ms l
      \<or> total_timeout_ms l < action_timeout_ms l \<or> total_timeout_ms l < idle_timeout_ms l
      \<or> total_timeout_ms l < close_timeout_ms l)"

definition effective_websocket_limits :: "WebSocketLimits \<Rightarrow> ProjectConfiguration \<Rightarrow> PlanError + WebSocketLimits" where
  "effective_websocket_limits requested configuration =
     (let maximum = wsp_max_limits (pol_websocket (cfg_policy configuration)) in
      if 0 \<in> set (limit_values maximum) then Inl Configuration
      else if limits_contradict maximum then Inl Configuration
      else if 0 \<in> set (limit_values requested) then Inl InvalidWebSocketSource
      else if limits_contradict requested then Inl InvalidWebSocketSource
      else Inr
        \<lparr>connect_timeout_ms = min (connect_timeout_ms requested) (connect_timeout_ms maximum),
         action_timeout_ms = min (action_timeout_ms requested) (action_timeout_ms maximum),
         idle_timeout_ms = min (idle_timeout_ms requested) (idle_timeout_ms maximum),
         close_timeout_ms = min (close_timeout_ms requested) (close_timeout_ms maximum),
         total_timeout_ms = min (total_timeout_ms requested) (total_timeout_ms maximum),
         max_frame_bytes = min (max_frame_bytes requested) (max_frame_bytes maximum),
         max_message_bytes = min (max_message_bytes requested) (max_message_bytes maximum),
         max_inbound_frames = min (max_inbound_frames requested) (max_inbound_frames maximum),
         max_outbound_frames = min (max_outbound_frames requested) (max_outbound_frames maximum),
         max_inbound_messages = min (max_inbound_messages requested) (max_inbound_messages maximum),
         max_outbound_messages = min (max_outbound_messages requested) (max_outbound_messages maximum),
         max_inbound_bytes = min (max_inbound_bytes requested) (max_inbound_bytes maximum),
         max_outbound_bytes = min (max_outbound_bytes requested) (max_outbound_bytes maximum)\<rparr>)"

definition tightened :: "u64 \<Rightarrow> u64 option \<Rightarrow> u64 option" where
  "tightened maximum timeout = Some (case timeout of None \<Rightarrow> maximum | Some v \<Rightarrow> min v maximum)"

fun tighten_action :: "u64 \<Rightarrow> WebSocketAction \<Rightarrow> WebSocketAction" where
  "tighten_action m (ExpectText equals timeout) = ExpectText equals (tightened m timeout)"
| "tighten_action m (ExpectBinary payload timeout) = ExpectBinary payload (tightened m timeout)"
| "tighten_action m (ExpectJson pointer equals schema timeout) = ExpectJson pointer equals schema (tightened m timeout)"
| "tighten_action m (ExpectPong payload timeout) = ExpectPong payload (tightened m timeout)"
| "tighten_action m (ExpectClose codes reason timeout) = ExpectClose codes reason (tightened m timeout)"
| "tighten_action m action = action"

definition tighten_websocket_action_timeouts :: "WebSocketAction list \<Rightarrow> u64 \<Rightarrow> WebSocketAction list" where
  "tighten_websocket_action_timeouts actions maximum = map (tighten_action maximum) actions"

definition websocket_limits_from_policy :: "WebSocketPolicyLimits \<Rightarrow> WebSocketLimits" where
  "websocket_limits_from_policy limits = limits"

subsection \<open>Risk and production servers\<close>

fun sends_data :: "WebSocketAction \<Rightarrow> bool" where
  "sends_data (SendText _) = True" | "sends_data (SendBinary _) = True" | "sends_data _ = False"

definition declared_risk :: "WebSocketSessionSource \<Rightarrow> RiskClass" where
  "declared_risk source =
     (let sends = list_ex sends_data (ss_actions source) in
      case ss_risk source of
        Some risk \<Rightarrow> if risk \<in> {Read, Unknown} \<and> sends then Write else risk
      | None \<Rightarrow> if sends then Write else Unknown)"

definition planned_risk :: "WebSocketSessionSource \<Rightarrow> ProjectConfiguration \<Rightarrow> RiskClass" where
  "planned_risk source configuration =
     (case map_of (cfg_risk configuration) (''WEBSOCKET '' @ ss_operation_id source) of
        Some risk \<Rightarrow> risk
      | None \<Rightarrow> (case map_of (cfg_risk configuration) (ss_operation_id source) of
                   Some risk \<Rightarrow> risk | None \<Rightarrow> declared_risk source))"

definition origin_transport_scheme :: "string \<Rightarrow> string" where
  "origin_transport_scheme scheme = (if scheme = ''wss'' then ''https'' else if scheme = ''ws'' then ''http'' else scheme)"

definition configured_server_matches_target :: "crates \<Rightarrow> ConfiguredServer \<Rightarrow> ParsedUrl \<Rightarrow> bool" where
  "configured_server_matches_target C server target =
     (cs_classification server = Some ''production''
      \<and> (case url_parse C (cs_url server) of
           None \<Rightarrow> False
         | Some configured \<Rightarrow>
             origin_transport_scheme (url_scheme configured) = origin_transport_scheme (url_scheme target)
             \<and> (case (url_host_str configured, url_host_str target) of
                  (Some l, Some r) \<Rightarrow> eq_ignore_ascii_case l r | _ \<Rightarrow> False)
             \<and> url_port_or_known_default configured = url_port_or_known_default target))"

definition production_target :: "crates \<Rightarrow> ProjectConfiguration \<Rightarrow> ParsedUrl \<Rightarrow> bool" where
  "production_target C configuration target =
     list_ex (\<lambda>(name, server). configured_server_matches_target C server target) (cfg_servers configuration)"

subsection \<open>The plan\<close>

definition inner_host :: "string \<Rightarrow> string" where
  "inner_host host =
     (case (case strip_prefix ''['' host of None \<Rightarrow> None | Some h \<Rightarrow> strip_suffix '']'' h) of
        Some h \<Rightarrow> h | None \<Rightarrow> host)"

definition literal_grant :: "string \<Rightarrow> string list" where
  "literal_grant literal =
     (case parse_ip literal of
        Some ip \<Rightarrow> if is_unsafe_address ip then [cidr_grant ip] else []
      | None \<Rightarrow> [])"

definition websocket_grants ::
  "crates \<Rightarrow> ProjectConfiguration \<Rightarrow> ParsedUrl \<Rightarrow> string \<Rightarrow> u16 \<Rightarrow> RiskClass \<Rightarrow> PlannedAuth option \<Rightarrow> string list" where
  "websocket_grants C configuration target host port risk auth =
     sort_dedup
       ([net_grant host port, ''websocket:connect'']
        @ (if url_scheme target = ''ws'' then [''net-insecure-websocket''] else [])
        @ literal_grant (inner_host host)
        @ (if risk = Destructive then [''approve:destructive''] else [])
        @ (if pol_require_production_write_approval (cfg_policy configuration) \<and> risk \<in> {Write, Destructive}
              \<and> production_target C configuration target
           then [''approve:production-write''] else [])
        @ (case auth of
             None \<Rightarrow> []
           | Some a \<Rightarrow> (''secret:'' @ pa_profile a)
               # (if pa_placement a = ''tls-client-certificate'' then [''tls-client-cert:'' @ pa_profile a] else [])))"

definition handshake_checks_of :: "string list \<Rightarrow> string list" where
  "handshake_checks_of subprotocols =
     [''extensions:none'', ''status:101'']
     @ (case subprotocols of
          [] \<Rightarrow> []
        | [p] \<Rightarrow> [''subprotocol:'' @ p]
        | ps \<Rightarrow> [''subprotocol:any('' @ join '','' ps @ '')''])"

definition seal_websocket_source ::
  "crates \<Rightarrow> plan_env \<Rightarrow> WebSocketSessionSource \<Rightarrow> string list \<Rightarrow> string \<Rightarrow> ProjectConfiguration
     \<Rightarrow> PlanError + WebSocketPlan" where
  "seal_websocket_source C E source source_fingerprints operation configuration =
     and_then (validate_websocket_source_identity source) (\<lambda>_.
     and_then (websocket_target C (ss_url source)) (\<lambda>target.
     and_then (ok_or (url_host_str target) InvalidWebSocketSource) (\<lambda>host.
     and_then (ok_or (url_port_or_known_default target) InvalidWebSocketSource) (\<lambda>port.
     and_then (enforce_host_policy host configuration) (\<lambda>_.
     and_then (case ss_origin source of
                 None \<Rightarrow> Inr None | Some o' \<Rightarrow> and_then (normalize_origin C o') (\<lambda>n. Inr (Some n))) (\<lambda>origin.
     and_then (enforce_websocket_origin_policy C origin configuration) (\<lambda>_.
     and_then (enforce_websocket_subprotocol_policy (ss_subprotocols source) configuration) (\<lambda>_.
     and_then (websocket_headers (ss_headers source) configuration) (\<lambda>headers.
     and_then (bind_websocket_configured_auth
                 (case ss_auth source of Some a \<Rightarrow> Some a | None \<Rightarrow> cd_auth (cfg_defaults configuration)) configuration)
       (\<lambda>(auth, secret_refs).
     and_then (effective_websocket_limits (ss_limits source) configuration) (\<lambda>limits.
     let actions = tighten_websocket_action_timeouts (ss_actions source) (action_timeout_ms limits);
         risk = planned_risk (source\<lparr>ss_actions := actions\<rparr>) configuration in
     and_then (validate_redaction_policy configuration) (\<lambda>_.
     and_then (config_fingerprint C E configuration) (\<lambda>config_fp.
     and_then (websocket_policy_fingerprint C configuration) (\<lambda>policy_fp.
     map_err (\<lambda>_. InvalidWebSocketSource) (seal_websocket_plan C
       \<lparr>wp_protocol = PROTOCOL, wp_kind = ''websocket-plan'', wp_version = VERSION,
        wp_config_fingerprint = config_fp, wp_policy_fingerprint = policy_fp,
        wp_source_fingerprints = source_fingerprints, wp_id = [], wp_operation = operation,
        wp_target = url_to_string target, wp_risk = risk,
        wp_required_grants = websocket_grants C configuration target host port risk auth,
        wp_secret_refs = secret_refs, wp_headers = headers, wp_auth = auth, wp_origin = origin,
        wp_subprotocols = ss_subprotocols source,
        wp_handshake_checks = handshake_checks_of (ss_subprotocols source),
        wp_limits = limits, wp_actions = actions,
        wp_sensitive_headers =
          [''authorization'', ''cookie'', ''proxy-authorization'', ''set-cookie'']
          @ pol_sensitive_headers (cfg_policy configuration),
        wp_redact_response_json_pointers = pol_redact_response_json_pointers (cfg_policy configuration),
        wp_valid = True, wp_fingerprint = [], wp_exit = 0\<rparr>)))))))))))))))"

definition session_operation :: "crates \<Rightarrow> bytes \<Rightarrow> WebSocketSessionSource \<Rightarrow> string" where
  "session_operation C byts source = short_handle C ''op'' [as_bytes (digest C byts), as_bytes (ss_operation_id source)]"

text \<open>\<open>source\<close>: what \<open>parse_data_document\<close> and \<open>serde\<close> make of the bytes.\<close>

definition build_websocket_plan_with_configuration ::
  "crates \<Rightarrow> plan_env \<Rightarrow> WebSocketSessionSource option \<Rightarrow> bytes \<Rightarrow> ProjectConfiguration \<Rightarrow> PlanError + WebSocketPlan" where
  "build_websocket_plan_with_configuration C E source byts configuration =
     and_then (ok_or source InvalidWebSocketSource) (\<lambda>source.
     and_then (validate_websocket_source_identity source) (\<lambda>_.
     seal_websocket_source C E source [digest C byts] (session_operation C byts source) configuration))"

definition build_websocket_plan ::
  "crates \<Rightarrow> plan_env \<Rightarrow> WebSocketSessionSource option \<Rightarrow> bytes \<Rightarrow> PlanError + WebSocketPlan" where
  "build_websocket_plan C E source byts = build_websocket_plan_with_configuration C E source byts default_configuration"

subsection \<open>Inspection\<close>

text \<open>\<open>str::trim\<close>: the White_Space code points as UTF-8.\<close>

definition white_spaces :: "string list" where
  "white_spaces =
     map (map (\<lambda>n. char_of (n :: nat)))
       ([[9], [10], [11], [12], [13], [32], [0xC2, 0x85], [0xC2, 0xA0], [0xE1, 0x9A, 0x80]]
        @ map (\<lambda>n. [0xE2, 0x80, n]) ([0x80 ..< 0x8B] @ [0xA8, 0xA9, 0xAF]) @ [[0xE2, 0x81, 0x9F], [0xE3, 0x80, 0x80]])"

fun trim_prefixes :: "nat \<Rightarrow> string list \<Rightarrow> string \<Rightarrow> string" where
  "trim_prefixes 0 ps s = s"
| "trim_prefixes (Suc n) ps s =
     (case List.find (\<lambda>p. starts_with s p) ps of
        None \<Rightarrow> s | Some p \<Rightarrow> trim_prefixes n ps (drop (length p) s))"

text \<open>Each round removes a non-empty prefix, so the length of the string is fuel enough.\<close>

definition trim :: "string \<Rightarrow> string" where
  "trim s =
     (let t = trim_prefixes (length s) white_spaces s
      in rev (trim_prefixes (length t) (map rev white_spaces) (rev t)))"

definition matches_query :: "string \<Rightarrow> string \<Rightarrow> WebSocketSessionSource \<Rightarrow> ParsedUrl \<Rightarrow> bool" where
  "matches_query query operation source target =
     (query = [] \<or> contains_str (to_ascii_lowercase operation) query
      \<or> contains_str (to_ascii_lowercase (ss_operation_id source)) query
      \<or> contains_str (to_ascii_lowercase (url_to_string target)) query \<or> contains_str ''websocket'' query)"

definition inspect_websocket_session ::
  "crates \<Rightarrow> WebSocketSessionSource option \<Rightarrow> bytes \<Rightarrow> string option \<Rightarrow> nat \<Rightarrow> nat
     \<Rightarrow> PlanError + OperationIndexEnvelope" where
  "inspect_websocket_session C source byts query limit cursor =
     and_then (ok_or source InvalidWebSocketSource) (\<lambda>source.
     and_then (validate_websocket_source_identity source) (\<lambda>_.
     and_then (websocket_target C (ss_url source)) (\<lambda>target.
     let operation = session_operation C byts source;
         risk = declared_risk source;
         query = to_ascii_lowercase (trim (case query of Some q \<Rightarrow> q | None \<Rightarrow> []));
         operations = (if matches_query query operation source target
                       then [OperationSummary operation ''WEBSOCKET'' (url_to_string target) (ss_operation_id source) risk]
                       else [])
     in if length operations < cursor then Inl InvalidWebSocketSource
        else Inr
          \<lparr>oi_protocol = PROTOCOL, oi_kind = ''operation-index'', oi_version = VERSION,
           oi_config_fingerprint = default_config_fingerprint C, oi_source_fingerprints = [digest C byts],
           oi_source = short_handle C ''src'' [byts], oi_operations = take limit (drop cursor operations),
           oi_next = None, oi_absent = [], oi_exit = 0\<rparr>)))"

end
