(* ===== verification/Ws_Planner_Props.thy ===== *)
theory Ws_Planner_Props
  imports Ws_Planner Ws_Connect_Props
begin

text \<open>
  Properties of planned WebSocket sessions: a plan obeys the policy of the configuration that made it, and the
  executor accepts every plan the planner makes.
\<close>

subsection \<open>The parts\<close>

lemma websocket_target_Inr:
  "websocket_target C v = Inr url \<Longrightarrow> url_parse C v = Some url \<and> url_scheme url \<in> {''ws'', ''wss''} \<and> url_username url = []
     \<and> url_password url = None \<and> url_fragment url = None"
  by (auto simp: websocket_target_def result_iffs split: if_splits)

lemma collect_origin_Inr: "collect_origin C o' acc = Inr b \<longleftrightarrow> (\<exists>n. normalize_origin C o' = Inr n \<and> b = acc @ [n])"
  by (auto simp: collect_origin_def result_iffs)

lemma collect_origins_Inr:
  "for_each (collect_origin C) os acc = Inr allowed
     \<Longrightarrow> \<exists>ns. allowed = acc @ ns \<and> list_all2 (\<lambda>o' n. normalize_origin C o' = Inr n) os ns"
proof (induction os arbitrary: acc)
  case Nil
  then show ?case by simp
next
  case (Cons o' os)
  then obtain n where "normalize_origin C o' = Inr n" "for_each (collect_origin C) os (acc @ [n]) = Inr allowed"
    by (auto simp: collect_origin_Inr split: sum.splits)
  with Cons.IH [of "acc @ [n]"] show ?case by (fastforce intro: exI [of _ "n # _"])
qed

definition origin_allowed :: "crates \<Rightarrow> string option \<Rightarrow> ProjectConfiguration \<Rightarrow> bool" where
  "origin_allowed C origin configuration =
     (let allowed = wsp_allowed_origins (pol_websocket (cfg_policy configuration)) in
      case origin of
        None \<Rightarrow> True
      | Some o' \<Rightarrow> allowed = [] \<or> (\<exists>a \<in> set allowed. normalize_origin C a = Inr o'))"

lemma list_all2_member: "list_all2 P xs ys \<Longrightarrow> y \<in> set ys \<Longrightarrow> \<exists>x \<in> set xs. P x y"
  by (induction xs ys rule: list_all2_induct) auto

lemma enforce_origin_Inr:
  assumes "enforce_websocket_origin_policy C origin configuration = Inr u"
  shows "origin_allowed C origin configuration"
proof (cases origin)
  case (Some o')
  let ?configured = "wsp_allowed_origins (pol_websocket (cfg_policy configuration))"
  from assms Some obtain allowed where all: "for_each (collect_origin C) ?configured [] = Inr allowed"
    and "allowed = [] \<or> o' \<in> set allowed"
    by (auto simp: enforce_websocket_origin_policy_def and_then_Inr_iff split: if_splits)
  moreover from collect_origins_Inr [OF all] have two: "list_all2 (\<lambda>a n. normalize_origin C a = Inr n) ?configured allowed"
    by simp
  ultimately show ?thesis using list_all2_member [OF two, of o'] Some by (auto simp: origin_allowed_def Let_def)
qed (simp add: origin_allowed_def Let_def)

definition subprotocols_allowed :: "string list \<Rightarrow> ProjectConfiguration \<Rightarrow> bool" where
  "subprotocols_allowed ps configuration =
     (let allowed = wsp_allowed_subprotocols (pol_websocket (cfg_policy configuration))
      in distinct ps \<and> (allowed = [] \<or> set ps \<subseteq> set allowed))"

lemma enforce_subprotocol_Inr:
  "enforce_websocket_subprotocol_policy ps configuration = Inr u \<Longrightarrow> subprotocols_allowed ps configuration"
  by (auto simp: enforce_websocket_subprotocol_policy_def subprotocols_allowed_def unique_tokens_def Let_def list_ex_iff
      split: if_splits)

definition header_allowed :: "ProjectConfiguration \<Rightarrow> PlannedHeader \<Rightarrow> bool" where
  "header_allowed configuration h =
     (to_ascii_lowercase (ph_name h) \<notin> set forbidden_headers
      \<and> (\<forall>s \<in> set (pol_sensitive_headers (cfg_policy configuration)). \<not> eq_ignore_ascii_case s (ph_name h)))"

lemma websocket_headers_Inr:
  "for_each (websocket_header configuration) source (names, headers) = Inr (names', headers')
     \<Longrightarrow> list_all (header_allowed configuration) headers \<Longrightarrow> list_all (header_allowed configuration) headers'"
proof (induction source arbitrary: names headers)
  case Nil
  then show ?case by simp
next
  case (Cons h source)
  then show ?case
    by (auto simp: websocket_header_def header_allowed_def Let_def list_ex_iff split: prod.splits sum.splits if_splits)
qed

definition limits_within :: "WebSocketLimits \<Rightarrow> WebSocketLimits \<Rightarrow> bool" where
  "limits_within l m = list_all2 (\<le>) (limit_values l) (limit_values m)"

lemma effective_limits_Inr:
  "effective_websocket_limits requested configuration = Inr l
     \<Longrightarrow> limits_within l requested \<and> limits_within l (wsp_max_limits (pol_websocket (cfg_policy configuration)))"
  by (auto simp: effective_websocket_limits_def limits_within_def limit_values_def Let_def split: if_splits)

fun action_timeout_of :: "WebSocketAction \<Rightarrow> u64 option option" where
  "action_timeout_of (ExpectText _ t) = Some t" | "action_timeout_of (ExpectBinary _ t) = Some t"
| "action_timeout_of (ExpectJson _ _ _ t) = Some t" | "action_timeout_of (ExpectPong _ t) = Some t"
| "action_timeout_of (ExpectClose _ _ t) = Some t" | "action_timeout_of _ = None"

definition timeout_bounded :: "u64 \<Rightarrow> WebSocketAction \<Rightarrow> bool" where
  "timeout_bounded m a = (case action_timeout_of a of None \<Rightarrow> True | Some None \<Rightarrow> False | Some (Some t) \<Rightarrow> t \<le> m)"

lemma tighten_bounded: "timeout_bounded m (normalize_action (tighten_action m a))"
  by (cases "(m, a)" rule: tighten_action.cases) (auto simp: timeout_bounded_def tightened_def split: option.splits)

subsection \<open>The sealed plan\<close>

lemma seal_websocket_source_Inr:
  assumes "seal_websocket_source C E source fps operation configuration = Inr plan"
  obtains target host port headers auth secret_refs limits material where
    "seal_websocket_plan C material = Inr plan"
    "websocket_target C (ss_url source) = Inr target" "url_host_str target = Some host"
    "url_port_or_known_default target = Some port" "host_allowed host configuration"
    "origin_allowed C (wp_origin plan) configuration" "subprotocols_allowed (ss_subprotocols source) configuration"
    "list_all (header_allowed configuration) headers"
    "bind_websocket_configured_auth
       (case ss_auth source of Some a \<Rightarrow> Some a | None \<Rightarrow> cd_auth (cfg_defaults configuration)) configuration
       = Inr (auth, secret_refs)"
    "effective_websocket_limits (ss_limits source) configuration = Inr limits"
    "wp_risk material = planned_risk
       (source\<lparr>ss_actions := tighten_websocket_action_timeouts (ss_actions source) (action_timeout_ms limits)\<rparr>) configuration"
    "wp_required_grants material = websocket_grants C configuration target host port (wp_risk material) auth"
    "wp_secret_refs material = secret_refs" "wp_headers material = headers" "wp_auth material = auth"
    "wp_target material = url_to_string target" "wp_origin material = wp_origin plan"
    "wp_subprotocols material = ss_subprotocols source"
    "wp_handshake_checks material = handshake_checks_of (ss_subprotocols source)" "wp_limits material = limits"
    "wp_actions material = tighten_websocket_action_timeouts (ss_actions source) (action_timeout_ms limits)"
proof -
  have origin: "seal_websocket_plan C m = Inr p \<Longrightarrow> wp_origin p = wp_origin m" for m p
    by (auto simp: seal_websocket_plan_iff normalize_def clear_websocket_plan_def)
  from assms show ?thesis
    unfolding seal_websocket_source_def Let_def and_then_Inr_iff map_err_Inr_iff ok_or_Inr_iff split_paired_Ex prod.case
  proof (elim exE conjE, goal_cases)
    case (1 u target host port u2 origin u3 u4 headers auth secret_refs limits u5 config_fp policy_fp)
    then have "list_all (header_allowed configuration) headers"
      by (auto simp: websocket_headers_def and_then_Inr_iff dest!: websocket_headers_Inr)
    with 1 show ?thesis
      by (intro that [OF 1(15)]) (simp_all add: origin [OF 1(15)] enforce_host_policy_Inr enforce_origin_Inr enforce_subprotocol_Inr)
  qed
qed

lemma sealed_websocket_fields:
  assumes "seal_websocket_plan C m = Inr p"
  shows "wp_target p = wp_target m" "wp_risk p = wp_risk m" "wp_auth p = wp_auth m" "wp_limits p = wp_limits m"
    "wp_subprotocols p = wp_subprotocols m" "wp_handshake_checks p = sort_dedup (wp_handshake_checks m)"
    "set (wp_required_grants p) = set (wp_required_grants m)" "set (wp_secret_refs p) = set (wp_secret_refs m)"
    "set (wp_headers p) = set (wp_headers m)" "wp_actions p = map normalize_action (wp_actions m)"
  using assms by (auto simp: seal_websocket_plan_iff normalize_def clear_websocket_plan_def)

lemma websocket_grants_members:
  "net_grant host port \<in> set (websocket_grants C configuration target host port risk auth)"
  "''websocket:connect'' \<in> set (websocket_grants C configuration target host port risk auth)"
  "url_scheme target = ''ws'' \<Longrightarrow> ''net-insecure-websocket'' \<in> set (websocket_grants C configuration target host port risk auth)"
  "risk = Destructive \<Longrightarrow> ''approve:destructive'' \<in> set (websocket_grants C configuration target host port risk auth)"
  "pol_require_production_write_approval (cfg_policy configuration) \<Longrightarrow> risk \<in> {Write, Destructive} \<Longrightarrow>
     production_target C configuration target \<Longrightarrow>
     ''approve:production-write'' \<in> set (websocket_grants C configuration target host port risk auth)"
  "auth = Some a \<Longrightarrow> ''secret:'' @ pa_profile a \<in> set (websocket_grants C configuration target host port risk auth)"
  "auth = Some a \<Longrightarrow> pa_placement a = ''tls-client-certificate'' \<Longrightarrow>
     ''tls-client-cert:'' @ pa_profile a \<in> set (websocket_grants C configuration target host port risk auth)"
  "parse_ip (inner_host host) = Some ip \<Longrightarrow> is_unsafe_address ip \<Longrightarrow>
     cidr_grant ip \<in> set (websocket_grants C configuration target host port risk auth)"
  by (simp_all add: websocket_grants_def literal_grant_def del: cidr_grant.simps)

subsection \<open>A sample source\<close>

definition sample_source :: WebSocketSessionSource where
  "sample_source =
     \<lparr>ss_kind = ''websocket-session'', ss_version = 1, ss_operation_id = ''feed'', ss_url = ''ws://127.0.0.1:9000/feed'',
      ss_risk = None, ss_headers = [], ss_auth = None, ss_origin = None, ss_subprotocols = [''feed.v1''],
      ss_limits = sample_limits, ss_actions = sample_actions\<rparr>"

definition sample_plan_env :: plan_env where
  "sample_plan_env =
     \<lparr>pe_read = (\<lambda>_. None), pe_policy_path = (\<lambda>_ p. p), pe_file_name = (\<lambda>_. None), pe_toml_config = (\<lambda>_. None),
      pe_toml_policy = (\<lambda>_. None), pe_toml_policy_wrapper = (\<lambda>_. None), pe_config_value = (\<lambda>_. None),
      pe_percent_encode = (\<lambda>_ s. s), pe_append_pairs = (\<lambda>u _. u), pe_form_encode = (\<lambda>_. []), pe_number_text = (\<lambda>_. [])\<rparr>"

lemma sample_target: "websocket_target sample_crates ''ws://127.0.0.1:9000/feed'' = Inr run_url"
  by (simp add: websocket_target_def sample_crates_def sample_url_def run_url_def)

lemma sample_effective: "effective_websocket_limits sample_limits default_configuration = Inr sample_limits"
  by code_simp

lemma sample_source_parts:
  "validate_websocket_source_identity sample_source = Inr ()"
  "enforce_websocket_subprotocol_policy [''feed.v1''] default_configuration = Inr ()"
  "validate_redaction_policy default_configuration = Inr ()"
  "tighten_websocket_action_timeouts sample_actions (action_timeout_ms sample_limits)
     = [SendText ''hi'', ExpectText ''ok'' (Some 1000), ExpectClose [1000] None (Some 1000)]"
  by code_simp+

definition tight_plan :: WebSocketPlan where
  "tight_plan = sample_plan\<lparr>wp_actions := [SendText ''hi'', ExpectText ''ok'' (Some 1000), ExpectClose [1000] None (Some 1000)]\<rparr>"

lemma tight_plan_validates: "validate sample_crates tight_plan = Inr ()"
  by code_simp

lemma sample_source_fields:
  "ss_url sample_source = ''ws://127.0.0.1:9000/feed''" "ss_headers sample_source = []" "ss_auth sample_source = None"
  "ss_origin sample_source = None" "ss_subprotocols sample_source = [''feed.v1'']" "ss_limits sample_source = sample_limits"
  "ss_actions sample_source = sample_actions"
  by (simp_all add: sample_source_def)

lemma run_url_fields: "url_host_str run_url = Some ''127.0.0.1''" "url_port_or_known_default run_url = Some 9000"
  by (simp_all add: run_url_def)

lemma sample_configuration:
  "cfg_version default_configuration = 0" "cd_auth (cfg_defaults default_configuration) = None"
  "wsp_allowed_origins (pol_websocket (cfg_policy default_configuration)) = []"
  "pol_denied_hosts (cfg_policy default_configuration) = []" "pol_allowed_hosts (cfg_policy default_configuration) = []"
  by (simp_all add: default_configuration_def default_policy_def default_websocket_policy_def)

lemma sample_host: "enforce_host_policy host default_configuration = Inr ()"
  by (simp add: enforce_host_policy_def sample_configuration)

lemma sample_source_plans:
  "\<exists>plan. seal_websocket_source sample_crates E sample_source fps operation default_configuration = Inr plan"
proof -
  have ok: "websocket_plan_ok sample_crates tight_plan" using tight_plan_validates by (simp add: validate_iff)
  have total: "json_to_vec sample_crates v \<noteq> None" "ser_websocket_plan sample_crates p \<noteq> None" for v p
    by (simp_all add: sample_crates_def)
  have f: "json_to_vec sample_crates v = Some (as_bytes (case v of JString s \<Rightarrow> s | _ \<Rightarrow> ''{}''))" for v
    by (simp add: sample_crates_def split: json.splits)
  have seals: "\<exists>q. seal_websocket_plan sample_crates p = Inr q"
    if "wp_protocol p = PROTOCOL" "wp_kind p = ''websocket-plan''" "wp_valid p" "wp_exit p = 0"
      "wp_limits p = sample_limits" "wp_headers p = []" "wp_subprotocols p = [''feed.v1'']" "wp_actions p = wp_actions tight_plan" for p
  proof -
    have "websocket_plan_ok sample_crates p"
      using ok that by (simp add: websocket_plan_ok_def tight_plan_def sample_plan_def)
    with total show ?thesis by (auto simp: seal_websocket_plan_iff)
  qed
  show ?thesis
    by (simp add: seal_websocket_source_def sample_source_parts Let_def map_err_Inr_iff f sample_source_parts(1) sample_source_fields
        sample_target run_url_fields sample_configuration sample_effective enforce_websocket_origin_policy_def
        websocket_headers_def bind_websocket_configured_auth_def config_fingerprint_def websocket_policy_fingerprint_def
        sample_host)
      (rule seals, simp_all add: tight_plan_def)
qed

subsection \<open>Claims\<close>



lemma handshake_checks_sorted: "sort_dedup (handshake_checks_of ps) = handshake_checks_of ps"
proof -
  have "CHR ''e'' < CHR ''s''" "CHR ''t'' < CHR ''u''" by code_simp+
  then have "''extensions:none'' < ''status:101''" "''status:101'' < ''subprotocol:'' @ p" for p
    by simp_all
  then have "sorted (handshake_checks_of ps)" "distinct (handshake_checks_of ps)"
    by (auto simp: handshake_checks_of_def less_imp_le split: list.splits)
  then show ?thesis by (rule sort_dedup_id)
qed

lemma binding_checks_planned: "binding_checks plan = handshake_checks_of (wp_subprotocols plan)"
  by (simp add: binding_checks_def handshake_checks_of_def)

lemma configured_auth_refs:
  "bind_websocket_configured_auth requested configuration = Inr (auth, refs)
     \<Longrightarrow> (case auth of None \<Rightarrow> refs = [] | Some a \<Rightarrow> refs = [''secret://'' @ pa_profile a])"
  by (auto simp: bind_websocket_configured_auth_def and_then_Inr_iff ok_or_Inr_iff split: option.splits if_splits)

lemma planned_session_binds:
  assumes "seal_websocket_source C E source fps operation configuration = Inr plan"
  obtains target host port where "url_parse C (ss_url source) = Some target" "wp_target plan = url_to_string target"
    "url_scheme target \<in> {''ws'', ''wss''}" "url_username target = []" "url_password target = None" "url_fragment target = None"
    "url_host_str target = Some host" "url_port_or_known_default target = Some port"
    "set (binding_grants plan target host port) \<subseteq> set (wp_required_grants plan)"
    "validate_transport_binding plan target = Inr ()"
  using assms
proof (rule seal_websocket_source_Inr)
  fix target host port headers auth secret_refs limits material
  assume sealed: "seal_websocket_plan C material = Inr plan"
    and target: "websocket_target C (ss_url source) = Inr target"
    and url: "url_host_str target = Some host" "url_port_or_known_default target = Some port"
    and bind: "bind_websocket_configured_auth
       (case ss_auth source of Some a \<Rightarrow> Some a | None \<Rightarrow> cd_auth (cfg_defaults configuration)) configuration
       = Inr (auth, secret_refs)"
    and grants: "wp_required_grants material = websocket_grants C configuration target host port (wp_risk material) auth"
    and m: "wp_secret_refs material = secret_refs" "wp_auth material = auth" "wp_target material = url_to_string target"
      "wp_subprotocols material = ss_subprotocols source"
      "wp_handshake_checks material = handshake_checks_of (ss_subprotocols source)"
  note fields = sealed_websocket_fields [OF sealed]
  have required: "set (wp_required_grants plan) = set (websocket_grants C configuration target host port (wp_risk material) auth)"
    by (simp add: fields grants)
  have sub: "set (binding_grants plan target host port) \<subseteq> set (wp_required_grants plan)"
    unfolding required binding_grants_def
    by (auto simp: fields m websocket_grants_def split: option.splits)
  moreover have "case wp_auth plan of None \<Rightarrow> True | Some a \<Rightarrow> (''secret://'' @ pa_profile a) \<in> set (wp_secret_refs plan)"
    using configured_auth_refs [OF bind] by (simp add: fields m split: option.splits)
  moreover have "wp_handshake_checks plan = binding_checks plan"
    by (simp add: fields m binding_checks_planned handshake_checks_sorted)
  ultimately have "validate_transport_binding plan target = Inr ()"
    by (auto simp: validate_transport_binding_def url list_ex_iff split: option.splits)
  with sub websocket_target_Inr [OF target] url show ?thesis
    by (intro that [of target host port]) (simp_all add: fields m)
qed

text \<open>
  The executor accepts what the planner makes: given the grants a planned session lists, and no other
  fingerprints expected than its own, the run passes its gate, the plan's transport binding holds, and the only
  denial its target can meet is a resolved address outside the network boundary that was not granted.
  \<open>Url::parse\<close> is assumed to read back the text of a URL it made.
\<close>

theorem executor_accepts_planned_session:
  assumes "seal_websocket_source C E source fps operation configuration = Inr plan"
    and "\<And>s u. url_parse C s = Some u \<Longrightarrow> url_parse C (url_to_string u) = Some u"
    and "set (wp_required_grants plan) \<subseteq> opt_grants options"
    and "opt_expected_config_fingerprint options \<in> {None, Some (wp_config_fingerprint plan)}"
    and "opt_expected_policy_fingerprint options \<in> {None, Some (wp_policy_fingerprint plan)}"
  shows "connect_gate C plan options = Inr None
       \<and> (\<exists>target. url_parse C (wp_target plan) = Some target \<and> validate_transport_binding plan target = Inr ()
            \<and> (\<forall>d. evaluate_websocket_target env plan target options = Inr (RuntimeDenied d)
                 \<longrightarrow> de_reason d = ''resolved address is denied by the network boundary''))"
  using assms(1)
proof (rule planned_session_binds)
  fix target host port
  assume t: "url_parse C (ss_url source) = Some target" "wp_target plan = url_to_string target"
    "url_scheme target \<in> {''ws'', ''wss''}" "url_username target = []" "url_password target = None" "url_fragment target = None"
    "url_host_str target = Some host" "url_port_or_known_default target = Some port"
    and sub: "set (binding_grants plan target host port) \<subseteq> set (wp_required_grants plan)"
    and binding: "validate_transport_binding plan target = Inr ()"
  from assms(1) obtain material where sealed: "seal_websocket_plan C material = Inr plan" by (rule seal_websocket_source_Inr)
  have "verify_seal_websocket_plan C plan = Inr True" by (rule websocket_seal.seal_verifies [OF sealed])
  moreover have "validate C plan = Inr ()"
    using seal_websocket_plan_idem [OF sealed] by (simp add: seal_websocket_plan_iff validate_iff)
  moreover have "missing_grant (opt_grants options) (filter (\<lambda>g. \<not> is_address_dependent_grant g) (wp_required_grants plan)) = None"
    using assms(3) by (auto simp: missing_grant_None)
  ultimately have gate: "connect_gate C plan options = Inr None"
    using assms(4,5) by (auto simp: connect_gate_def fingerprint_mismatch_def)
  have grants: "set (binding_grants plan target host port) \<subseteq> opt_grants options" using sub assms(3) by blast
  then have "missing_grant (opt_grants options) [net_grant host port, ''websocket:connect''] = None"
    "url_scheme target = ''ws'' \<Longrightarrow> ''net-insecure-websocket'' \<in> opt_grants options"
    by (auto simp: missing_grant_None binding_grants_def)
  with t have "de_reason d = ''resolved address is denied by the network boundary''"
    if "evaluate_websocket_target env plan target options = Inr (RuntimeDenied d)" for d
    using that by (auto simp: evaluate_websocket_target_def websocket_denial_def split: if_splits option.splits)
  with gate binding assms(2) [OF t(1)] t(2) show ?thesis by auto
qed

theorem executor_accepts_planned_session_witness:
  "\<exists>plan. seal_websocket_source sample_crates sample_plan_env sample_source [''b3:source''] ''op:1'' default_configuration = Inr plan
     \<and> connect_gate sample_crates plan (default_options\<lparr>opt_grants := set (wp_required_grants plan)\<rparr>) = Inr None"
proof -
  obtain plan where run: "seal_websocket_source sample_crates sample_plan_env sample_source [''b3:source''] ''op:1''
      default_configuration = Inr plan" using sample_source_plans by blast
  have "url_parse sample_crates (url_to_string u) = Some u" if "url_parse sample_crates s = Some u" for s u
    using that by (auto simp: sample_crates_def sample_url_def split: if_splits)
  from executor_accepts_planned_session [OF run this, where options = "default_options\<lparr>opt_grants := set (wp_required_grants plan)\<rparr>"] run
  show ?thesis by (simp add: default_options_def)
qed

end
