(* ===== verification/Openapi_Index.thy ===== *)
theory Openapi_Index
  imports Ws_Planner
begin

text \<open>
  Ingestion of OpenAPI documents (\<open>kahea-ingest\<close>, \<open>lib.rs\<close>): the conversion of YAML under complexity limits,
  the version check, the index of operations with its filter and pages, and the resolution of a selector to one
  operation.  What the YAML and JSON parsers return is an argument; \<open>lowercase\<close> is \<open>str::to_lowercase\<close>, whose
  Unicode tables are not modelled.
\<close>

datatype IngestError =
    IngestRead | Parse | UnsupportedVersion | MissingPaths | InvalidCursor nat nat | UnknownOperation string
  | AmbiguousOperation string | InvalidAsyncApi

definition HTTP_METHODS :: "string list" where
  "HTTP_METHODS = [''get'', ''head'', ''options'', ''post'', ''put'', ''patch'', ''delete'', ''trace'', ''query'']"

record OpenApiSource =
  os_document :: json
  os_source_fingerprint :: string
  os_source_handle :: string

record OperationDefinition =
  od_handle :: string
  od_method :: string
  od_path :: string
  od_operation_id :: string
  od_risk :: RiskClass
  od_path_item :: "(string \<times> json) list"
  od_operation :: "(string \<times> json) list"

record IndexedOperation =
  io_handle :: string
  io_method :: string
  io_path :: string
  io_operation_id :: string
  io_summary :: string
  io_tags :: "string list"
  io_risk :: RiskClass

subsection \<open>YAML\<close>

text \<open>The nodes of \<open>yaml_rust2::Yaml\<close>; a real keeps its text.\<close>

datatype Yaml =
    YReal string | YInteger int | YString string | YBoolean bool | YArray "Yaml list" | YHash "(Yaml \<times> Yaml) list"
  | YAlias nat | YNull | YBad

definition max_document_depth :: nat where "max_document_depth = 128"

definition max_document_nodes :: nat where "max_document_nodes = 1000000"

definition real_text :: "string \<Rightarrow> bool" where
  "real_text s = contains_any s ''.eE''"

definition number_of_int :: "int \<Rightarrow> json" where
  "number_of_int i = JNumber (if 0 \<le> i then PosInt (of_int i) else NegInt i)"

fun yaml_mapping_key_to_string :: "crates \<Rightarrow> Yaml \<Rightarrow> IngestError + string" where
  "yaml_mapping_key_to_string C (YString v) = Inr v"
| "yaml_mapping_key_to_string C (YInteger v) = Inr (if v < 0 then ''-'' @ show_nat (nat (- v)) else show_nat (nat v))"
| "yaml_mapping_key_to_string C (YReal v) =
     (if \<not> real_text v then Inr v
      else (case f64_parse C v of Some (Finite _) \<Rightarrow> Inr v | _ \<Rightarrow> Inl Parse))"
| "yaml_mapping_key_to_string C _ = Inl Parse"

definition count_node :: "nat \<Rightarrow> nat \<Rightarrow> IngestError + nat" where
  "count_node depth nodes =
     (if max_document_depth < depth \<or> max_document_nodes < nodes + 1 then Inl Parse else Inr (nodes + 1))"

fun yaml_to_json :: "crates \<Rightarrow> Yaml \<Rightarrow> nat \<Rightarrow> nat \<Rightarrow> IngestError + (json \<times> nat)"
  and yaml_items :: "crates \<Rightarrow> Yaml list \<Rightarrow> nat \<Rightarrow> nat \<Rightarrow> IngestError + (json list \<times> nat)"
  and yaml_entries :: "crates \<Rightarrow> (Yaml \<times> Yaml) list \<Rightarrow> nat \<Rightarrow> nat \<Rightarrow> (string \<times> json) list \<Rightarrow> IngestError + ((string \<times> json) list \<times> nat)"
where
  "yaml_to_json C v depth nodes =
     and_then (count_node depth nodes) (\<lambda>nodes.
     case v of
       YNull \<Rightarrow> Inr (JNull, nodes)
     | YBoolean b \<Rightarrow> Inr (JBool b, nodes)
     | YInteger i \<Rightarrow> Inr (number_of_int i, nodes)
     | YReal r \<Rightarrow>
         if \<not> real_text r then Inr (JString r, nodes)
         else (case f64_parse C r of Some (Finite x) \<Rightarrow> Inr (JNumber (Float x), nodes) | _ \<Rightarrow> Inl Parse)
     | YString s \<Rightarrow> Inr (JString s, nodes)
     | YArray vs \<Rightarrow> and_then (yaml_items C vs (depth + 1) nodes) (\<lambda>(js, nodes). Inr (JArray js, nodes))
     | YHash es \<Rightarrow> and_then (yaml_entries C es (depth + 1) nodes []) (\<lambda>(m, nodes). Inr (JObject m, nodes))
     | YAlias _ \<Rightarrow> Inl Parse
     | YBad \<Rightarrow> Inl Parse)"
| "yaml_items C [] depth nodes = Inr ([], nodes)"
| "yaml_items C (v # vs) depth nodes =
     and_then (yaml_to_json C v depth nodes) (\<lambda>(j, nodes).
     and_then (yaml_items C vs depth nodes) (\<lambda>(js, nodes). Inr (j # js, nodes)))"
| "yaml_entries C [] depth nodes m = Inr (m, nodes)"
| "yaml_entries C ((k, v) # es) depth nodes m =
     and_then (yaml_mapping_key_to_string C k) (\<lambda>key.
     and_then (yaml_to_json C v depth nodes) (\<lambda>(j, nodes).
     yaml_entries C es depth nodes (map_insert key j m)))"

declare yaml_to_json.simps [simp del] yaml_items.simps [simp del] yaml_entries.simps [simp del]

definition parse_yaml_document :: "crates \<Rightarrow> Yaml list option \<Rightarrow> IngestError + json" where
  "parse_yaml_document C documents =
     (case documents of
        Some [d] \<Rightarrow> and_then (yaml_to_json C d 0 0) (\<lambda>(j, _). Inr j)
      | _ \<Rightarrow> Inl Parse)"

definition max_source_bytes :: nat where "max_source_bytes = 64 * 1024 * 1024"

definition trim_start :: "string \<Rightarrow> string" where
  "trim_start s = trim_prefixes (length s) white_spaces s"

definition parse_document ::
  "crates \<Rightarrow> (string \<Rightarrow> json option) \<Rightarrow> (string \<Rightarrow> Yaml list option) \<Rightarrow> string \<Rightarrow> bytes \<Rightarrow> IngestError + json" where
  "parse_document C json_from_str yaml_load extension byts =
     (if max_source_bytes < length byts then Inl Parse
      else and_then (ok_or (from_utf8 byts) Parse) (\<lambda>txt.
           if to_ascii_lowercase extension = ''json'' \<or> starts_with (trim_start txt) ''{''
           then ok_or (json_from_str txt) Parse
           else parse_yaml_document C (yaml_load txt)))"

subsection \<open>The document\<close>

definition validate_openapi_version :: "json \<Rightarrow> IngestError + unit" where
  "validate_openapi_version document =
     (case get_str document ''openapi'' of
        None \<Rightarrow> Inl UnsupportedVersion
      | Some version \<Rightarrow>
          if starts_with version ''3.0.'' \<or> starts_with version ''3.1.'' \<or> starts_with version ''3.2.'' then Inr ()
          else Inl UnsupportedVersion)"

definition imported_source :: "crates \<Rightarrow> json \<Rightarrow> bytes \<Rightarrow> OpenApiSource" where
  "imported_source C document byts =
     \<lparr>os_document = document, os_source_fingerprint = digest C byts, os_source_handle = short_handle C ''src'' [byts]\<rparr>"

definition load_openapi :: "crates \<Rightarrow> (IngestError + json) \<Rightarrow> bytes \<Rightarrow> IngestError + OpenApiSource" where
  "load_openapi C parsed byts =
     and_then parsed (\<lambda>document.
     and_then (validate_openapi_version document) (\<lambda>_. Inr (imported_source C document byts)))"

text \<open>\<open>import\<close> is \<open>imports::import_document\<close>, before and after the document is parsed.\<close>

definition load_source ::
  "crates \<Rightarrow> (json option \<Rightarrow> IngestError + json option) \<Rightarrow> (IngestError + json) \<Rightarrow> bytes \<Rightarrow> IngestError + OpenApiSource" where
  "load_source C import parsed byts =
     and_then (import None) (\<lambda>first.
     case first of
       Some document \<Rightarrow> Inr (imported_source C document byts)
     | None \<Rightarrow>
         and_then parsed (\<lambda>document.
         if validate_openapi_version document = Inr () then Inr (imported_source C document byts)
         else and_then (import (Some document)) (\<lambda>second.
              case second of
                Some converted \<Rightarrow> Inr (imported_source C converted byts)
              | None \<Rightarrow> Inl UnsupportedVersion)))"

definition string_array :: "(string \<times> json) list \<Rightarrow> string \<Rightarrow> string list" where
  "string_array m key =
     (case Option.bind (map_of m key) as_array of None \<Rightarrow> [] | Some xs \<Rightarrow> List.map_filter as_str xs)"

definition normalize_path :: "string \<Rightarrow> string" where
  "normalize_path path = (let trimmed = trim path in if starts_with trimmed ''/'' then trimmed else ''/'' @ trimmed)"

definition escape_pointer :: "string \<Rightarrow> string" where
  "escape_pointer v =
     concat (map (\<lambda>c. if c = CHR ''~'' then ''~0'' else if c = CHR ''/'' then ''~1'' else [c]) v)"

definition ascii_upper :: "char \<Rightarrow> char" where
  "ascii_upper c = (if 97 \<le> char_code c \<and> char_code c \<le> 122 then char_of (char_code c - 32) else c)"

definition to_ascii_uppercase :: "string \<Rightarrow> string" where
  "to_ascii_uppercase s = map ascii_upper s"

definition operation_handle :: "crates \<Rightarrow> string \<Rightarrow> string \<Rightarrow> string \<Rightarrow> string \<Rightarrow> string" where
  "operation_handle C source_fingerprint method path operation_id =
     short_handle C ''op'' [as_bytes source_fingerprint, as_bytes method, as_bytes path, as_bytes operation_id]"

subsection \<open>Resolution\<close>

text \<open>The loops over paths and methods: every operation object, with its path as written and its path item.\<close>

definition operation_sites :: "json \<Rightarrow> (string \<times> (string \<times> json) list \<times> string \<times> (string \<times> json) list) list option" where
  "operation_sites document =
     map_option (\<lambda>paths.
       concat (map (\<lambda>(path, item).
         case as_object item of
           None \<Rightarrow> []
         | Some path_item \<Rightarrow>
             List.map_filter (\<lambda>method.
               map_option (\<lambda>operation. (path, path_item, method, operation))
                 (Option.bind (map_of path_item method) as_object)) HTTP_METHODS) paths))
       (get_object document ''paths'')"

definition operation_id_of :: "(string \<times> json) list \<Rightarrow> string" where
  "operation_id_of operation = (case Option.bind (map_of operation ''operationId'') as_str of Some s \<Rightarrow> s | None \<Rightarrow> [])"

definition definition_of ::
  "crates \<Rightarrow> string \<Rightarrow> string \<times> (string \<times> json) list \<times> string \<times> (string \<times> json) list \<Rightarrow> OperationDefinition" where
  "definition_of C fp = (\<lambda>(path, path_item, method, operation).
     \<lparr>od_handle = operation_handle C fp (to_ascii_uppercase method) path (operation_id_of operation),
      od_method = to_ascii_uppercase method, od_path = normalize_path path, od_operation_id = operation_id_of operation,
      od_risk = for_http_method (to_ascii_uppercase method), od_path_item = path_item, od_operation = operation\<rparr>)"

definition selects :: "string \<Rightarrow> OperationDefinition \<Rightarrow> bool" where
  "selects selector d =
     (od_handle d = selector \<or> (od_operation_id d \<noteq> [] \<and> od_operation_id d = selector)
      \<or> eq_ignore_ascii_case (od_method d @ '' '' @ od_path d) selector)"

definition resolve_operation :: "crates \<Rightarrow> OpenApiSource \<Rightarrow> string \<Rightarrow> IngestError + OperationDefinition" where
  "resolve_operation C source selector =
     and_then (ok_or (operation_sites (os_document source)) MissingPaths) (\<lambda>sites.
     case filter (selects (trim selector)) (map (definition_of C (os_source_fingerprint source)) sites) of
       [] \<Rightarrow> Inl (UnknownOperation selector)
     | [d] \<Rightarrow> Inr d
     | _ \<Rightarrow> Inl (AmbiguousOperation selector))"

subsection \<open>The index\<close>

definition declared_absent :: "(json \<Rightarrow> AbsentCapability option) \<Rightarrow> json option \<Rightarrow> AbsentCapability list" where
  "declared_absent de v = (case Option.bind v as_array of None \<Rightarrow> [] | Some xs \<Rightarrow> List.map_filter de xs)"

definition collect_absent :: "(json \<Rightarrow> AbsentCapability option) \<Rightarrow> json \<Rightarrow> AbsentCapability list" where
  "collect_absent de document =
     (if json_get document ''webhooks'' \<noteq> None
      then [\<lparr>ac_capability = ''openapi-webhooks'', ac_reason = ''webhooks are not indexed in release 0'',
             ac_location = ''#/webhooks'', ac_severity = Warning, ac_blocking = False\<rparr>]
      else [])
     @ declared_absent de (json_get document ''x-kahea-absent'')"

definition duplicate_absent ::
  "string \<Rightarrow> string \<Rightarrow> (string \<Rightarrow> string option) \<Rightarrow> string \<Rightarrow> AbsentCapability list" where
  "duplicate_absent path method ids operation_id =
     (case (if operation_id = [] then None else ids operation_id) of
        None \<Rightarrow> []
      | Some first \<Rightarrow>
          [\<lparr>ac_capability = ''unique-operation-id'',
            ac_reason = ''operationId '' @ debug_token operation_id @ '' is also used by '' @ first,
            ac_location = ''#/paths/'' @ escape_pointer path @ ''/'' @ method, ac_severity = SeverityError,
            ac_blocking = True\<rparr>])"

definition callbacks_absent :: "string \<Rightarrow> string \<Rightarrow> (string \<times> json) list \<Rightarrow> AbsentCapability list" where
  "callbacks_absent path method operation =
     (if map_of operation ''callbacks'' \<noteq> None
      then [\<lparr>ac_capability = ''openapi-callbacks'', ac_reason = ''callbacks are not supported in release 0'',
             ac_location = ''#/paths/'' @ escape_pointer path @ ''/'' @ method @ ''/callbacks'',
             ac_severity = Warning, ac_blocking = False\<rparr>]
      else [])"

definition indexed_of ::
  "crates \<Rightarrow> string \<Rightarrow> string \<times> (string \<times> json) list \<times> string \<times> (string \<times> json) list \<Rightarrow> IndexedOperation" where
  "indexed_of C fp = (\<lambda>(path, path_item, method, operation).
     \<lparr>io_handle = operation_handle C fp (to_ascii_uppercase method) path (operation_id_of operation),
      io_method = to_ascii_uppercase method, io_path = normalize_path path, io_operation_id = operation_id_of operation,
      io_summary = (case Option.bind (map_of operation ''summary'') as_str of Some s \<Rightarrow> s | None \<Rightarrow> []),
      io_tags = string_array operation ''tags'', io_risk = for_http_method (to_ascii_uppercase method)\<rparr>)"

type_synonym index_state = "(string \<Rightarrow> string option) \<times> AbsentCapability list \<times> IndexedOperation list"

definition index_operation ::
  "crates \<Rightarrow> (json \<Rightarrow> AbsentCapability option) \<Rightarrow> string \<Rightarrow> string \<times> (string \<times> json) list \<times> string \<times> (string \<times> json) list
     \<Rightarrow> index_state \<Rightarrow> index_state" where
  "index_operation C de fp site = (\<lambda>(ids, absent, operations).
     case site of (path, path_item, method, operation) \<Rightarrow>
       let indexed = indexed_of C fp site; id = io_operation_id indexed in
       (if id = [] then ids else ids(id \<mapsto> io_handle indexed),
        absent @ duplicate_absent path method ids id @ callbacks_absent path method operation
          @ declared_absent de (map_of operation ''x-kahea-absent''),
        operations @ [indexed]))"

definition collect_operations ::
  "crates \<Rightarrow> (json \<Rightarrow> AbsentCapability option) \<Rightarrow> json \<Rightarrow> string \<Rightarrow> AbsentCapability list
     \<Rightarrow> IngestError + (IndexedOperation list \<times> AbsentCapability list)" where
  "collect_operations C de document fp absent =
     (case operation_sites document of
        None \<Rightarrow>
          if json_get document ''webhooks'' \<noteq> None \<or> json_get document ''components'' \<noteq> None then Inr ([], absent)
          else Inl MissingPaths
      | Some sites \<Rightarrow>
          (case fold (index_operation C de fp) sites (Map.empty, absent, []) of
             (_, absent, operations) \<Rightarrow> Inr (operations, absent)))"

definition matches :: "(string \<Rightarrow> string) \<Rightarrow> string \<Rightarrow> IndexedOperation \<Rightarrow> bool" where
  "matches lowercase query operation =
     (query = []
      \<or> list_ex (\<lambda>field. contains_str (lowercase field) (lowercase query))
          ([io_handle operation, io_method operation, io_path operation, io_operation_id operation, io_summary operation]
           @ io_tags operation))"

definition summary_of :: "IndexedOperation \<Rightarrow> OperationSummary" where
  "summary_of i = OperationSummary (io_handle i) (io_method i) (io_path i) (io_operation_id i) (io_risk i)"

definition index_key :: "IndexedOperation \<Rightarrow> string list" where
  "index_key i = [io_path i, io_method i, io_operation_id i, io_handle i]"

definition inspect_source ::
  "crates \<Rightarrow> (json \<Rightarrow> AbsentCapability option) \<Rightarrow> (string \<Rightarrow> string) \<Rightarrow> OpenApiSource \<Rightarrow> string option \<Rightarrow> nat \<Rightarrow> nat
     \<Rightarrow> IngestError + OperationIndexEnvelope" where
  "inspect_source C de lowercase source query limit cursor =
     and_then (collect_operations C de (os_document source) (os_source_fingerprint source)
                 (collect_absent de (os_document source))) (\<lambda>(operations, absent).
     let query = trim (case query of Some q \<Rightarrow> q | None \<Rightarrow> []);
         filtered = filter (matches lowercase query) (sort_key index_key operations);
         stop = min (cursor + limit) (length filtered)
     in if length filtered < cursor then Inl (InvalidCursor cursor (length filtered))
        else Inr
          \<lparr>oi_protocol = PROTOCOL, oi_kind = ''operation-index'', oi_version = VERSION,
           oi_config_fingerprint = default_config_fingerprint C, oi_source_fingerprints = [os_source_fingerprint source],
           oi_source = os_source_handle source, oi_operations = map summary_of (take limit (drop cursor filtered)),
           oi_next = (if stop < length filtered then Some (show_nat stop) else None),
           oi_absent = sort_key (\<lambda>a. [ac_location a, ac_capability a]) absent, oi_exit = 0\<rparr>)"

end
