(* ===== verification/Openapi_Index_Props.thy ===== *)
theory Openapi_Index_Props
  imports Openapi_Index Plan_Store_Props
begin

text \<open>
  Properties of ingestion: what the conversion of YAML accepts is bounded and well formed, and every operation
  of the index resolves by its handle.
\<close>

subsection \<open>YAML\<close>

fun yaml_nodes :: "Yaml \<Rightarrow> nat" where
  "yaml_nodes (YArray vs) = Suc (sum_list (map yaml_nodes vs))"
| "yaml_nodes (YHash es) = Suc (sum_list (map (\<lambda>(k, v). yaml_nodes v) es))"
| "yaml_nodes _ = 1"

text \<open>A JSON value of depth at most \<open>n\<close> whose objects are maps in key order.\<close>

fun json_typed :: "nat \<Rightarrow> json \<Rightarrow> bool" where
  "json_typed n (JArray js) = (case n of 0 \<Rightarrow> js = [] | Suc m \<Rightarrow> list_all (json_typed m) js)"
| "json_typed n (JObject m) = (map_wf m \<and> (case n of 0 \<Rightarrow> m = [] | Suc k \<Rightarrow> list_all (\<lambda>(key, v). json_typed k v) m))"
| "json_typed n _ = True"

lemma map_insert_all:
  "list_all (\<lambda>(k, v). P v) m \<Longrightarrow> P v \<Longrightarrow> list_all (\<lambda>(k, v). P v) (map_insert k v m)"
  by (induction k v m rule: map_insert.induct) auto

lemma count_node_Inr: "count_node depth nodes = Inr n \<longleftrightarrow> n = nodes + 1 \<and> depth \<le> max_document_depth \<and> n \<le> max_document_nodes"
  by (auto simp: count_node_def)

lemma json_typed_array: "d \<le> m \<Longrightarrow> (js \<noteq> [] \<longrightarrow> d + 1 \<le> m \<and> list_all (json_typed (m - (d + 1))) js) \<Longrightarrow> json_typed (m - d) (JArray js)"
  by (cases "m - d") (auto simp: diff_Suc split: nat.splits)

lemma json_typed_object:
  "map_wf es \<Longrightarrow> d \<le> m \<Longrightarrow> (es \<noteq> [] \<longrightarrow> d + 1 \<le> m \<and> list_all (\<lambda>(k, v). json_typed (m - (d + 1)) v) es)
     \<Longrightarrow> json_typed (m - d) (JObject es)"
  by (cases "m - d") (auto simp: diff_Suc split: nat.splits)

lemma yaml_conversion:
  shows "yaml_to_json C v depth nodes = Inr (j, n) \<Longrightarrow> n = nodes + yaml_nodes v \<and> n \<le> max_document_nodes
           \<and> depth \<le> max_document_depth \<and> json_typed (max_document_depth - depth) j"
    and "yaml_items C vs depth nodes = Inr (js, n) \<Longrightarrow> nodes \<le> max_document_nodes \<Longrightarrow> n = nodes + sum_list (map yaml_nodes vs)
           \<and> n \<le> max_document_nodes \<and> (vs \<noteq> [] \<longrightarrow> depth \<le> max_document_depth) \<and> length js = length vs
           \<and> list_all (json_typed (max_document_depth - depth)) js"
    and "yaml_entries C es depth nodes m = Inr (m', n) \<Longrightarrow> nodes \<le> max_document_nodes \<Longrightarrow> map_wf m \<Longrightarrow>
           list_all (\<lambda>(k, v). json_typed (max_document_depth - depth) v) m \<Longrightarrow>
           n = nodes + sum_list (map (\<lambda>(k, v). yaml_nodes v) es) \<and> n \<le> max_document_nodes
           \<and> (es \<noteq> [] \<longrightarrow> depth \<le> max_document_depth) \<and> map_wf m' \<and> (es = [] \<longrightarrow> m' = m)
           \<and> list_all (\<lambda>(k, v). json_typed (max_document_depth - depth) v) m'"
proof (induction C v depth nodes and C vs depth nodes and C es depth nodes m
    arbitrary: j n and js n and m' n rule: yaml_to_json_yaml_items_yaml_entries.induct)
  case (1 C v depth nodes)
  from "1.prems" have c: "count_node depth nodes = Inr (nodes + 1)" and d: "depth \<le> max_document_depth" "nodes + 1 \<le> max_document_nodes"
    by (auto simp: yaml_to_json.simps and_then_Inr_iff count_node_Inr)
  show ?case
  proof (cases v)
    case (YArray vs)
    with "1.prems" c obtain js where js: "yaml_items C vs (depth + 1) (nodes + 1) = Inr (js, n)" "j = JArray js"
      by (auto simp: yaml_to_json.simps and_then_Inr_iff)
    from "1.IH"(1) [OF YArray js(1) d(2)] have "json_typed (max_document_depth - depth) j"
      unfolding js(2) by (intro json_typed_array d(1)) auto
    with "1.IH"(1) [OF YArray js(1) d(2)] d YArray show ?thesis by simp
  next
    case (YHash es)
    with "1.prems" c obtain m where m: "yaml_entries C es (depth + 1) (nodes + 1) [] = Inr (m, n)" "j = JObject m"
      by (auto simp: yaml_to_json.simps and_then_Inr_iff)
    have empty: "map_wf ([] :: (string \<times> json) list)" by (simp add: map_wf_def)
    note sub = "1.IH"(2) [OF YHash m(1) d(2) empty, simplified]
    have "json_typed (max_document_depth - depth) j"
      unfolding m(2) using sub by (intro json_typed_object d(1)) auto
    with sub d YHash show ?thesis by simp
  qed (use "1.prems" c d in \<open>auto simp: yaml_to_json.simps number_of_int_def split: option.splits f64_parsed.splits if_splits\<close>)
next
  case (2 C depth nodes)
  then show ?case by (simp add: yaml_items.simps)
next
  case (3 C v vs depth nodes)
  from "3.prems"(1) obtain j k js' where first: "yaml_to_json C v depth nodes = Inr (j, k)"
    and rest: "yaml_items C vs depth k = Inr (js', n)" and js: "js = j # js'"
    by (auto simp: yaml_items.simps and_then_Inr_iff)
  note head = "3.IH"(1) [OF first]
  with "3.IH"(2) [OF rest] js show ?case by simp
next
  case (4 C depth nodes m)
  then show ?case by (simp add: yaml_entries.simps)
next
  case (5 C k v es depth nodes m)
  from "5.prems"(1) obtain key j i where key: "yaml_mapping_key_to_string C k = Inr key"
    and first: "yaml_to_json C v depth nodes = Inr (j, i)" and rest: "yaml_entries C es depth i (map_insert key j m) = Inr (m', n)"
    by (auto simp: yaml_entries.simps and_then_Inr_iff)
  note head = "5.IH"(1) [OF first]
  have "list_all (\<lambda>(k, v). json_typed (max_document_depth - depth) v) (map_insert key j m)"
    using head "5.prems"(4) by (intro map_insert_all) simp_all
  from "5.IH"(2) [OF rest _ map_insert_wf [OF "5.prems"(3)] this] head show ?case by simp
qed

text \<open>
  A YAML document that is accepted is bounded and its JSON is well typed: it has at most a million nodes, its
  JSON is at most 128 levels deep, and every object is a map in key order without repeated keys.
\<close>

theorem accepted_yaml_is_bounded:
  assumes "parse_yaml_document C documents = Inr j"
  shows "\<exists>d. documents = Some [d] \<and> yaml_nodes d \<le> 1000000 \<and> json_typed 128 j"
proof -
  from assms obtain d n where d: "documents = Some [d]" and run: "yaml_to_json C d 0 0 = Inr (j, n)"
    by (auto simp: parse_yaml_document_def and_then_Inr_iff split: option.splits list.splits)
  from yaml_conversion(1) [OF run] d show ?thesis
    by (simp add: max_document_depth_def max_document_nodes_def)
qed

theorem accepted_yaml_is_bounded_witness:
  "\<exists>j. parse_yaml_document sample_crates (Some [YHash [(YString ''b'', YArray [YInteger 1, YNull]), (YString ''a'', YBoolean True)]]) = Inr j
     \<and> json_typed 128 j"
proof -
  have "parse_yaml_document sample_crates (Some [YHash [(YString ''b'', YArray [YInteger 1, YNull]), (YString ''a'', YBoolean True)]])
      = Inr (JObject [(''a'', JBool True), (''b'', JArray [JNumber (PosInt 1), JNull])])"
    by (simp add: parse_yaml_document_def yaml_to_json.simps yaml_items.simps yaml_entries.simps count_node_def
        max_document_depth_def max_document_nodes_def number_of_int_def less_char_def)
  with accepted_yaml_is_bounded [OF this] show ?thesis by blast
qed

subsection \<open>Handles\<close>

lemma trim_prefixes_id: "List.find (\<lambda>p. starts_with s p) ps = None \<Longrightarrow> trim_prefixes n ps s = s"
  by (cases n) simp_all

definition handle_chars :: string where
  "handle_chars = ''op:0123456789abcdef''"

lemma starts_with_hd: "starts_with s p \<Longrightarrow> p \<noteq> [] \<Longrightarrow> s \<noteq> [] \<and> hd s = hd p"
  by (cases p) (auto simp: starts_with_iff)

definition visible :: "string \<Rightarrow> bool" where
  "visible cs = list_all (\<lambda>p. p \<noteq> [] \<and> hd p \<notin> set cs \<and> last p \<notin> set cs) white_spaces"

lemma trim_visible:
  assumes "visible cs" and "s \<noteq> []" and "set s \<subseteq> set cs"
  shows "trim s = s"
proof -
  have none: "List.find (\<lambda>p. starts_with t p) ps = None"
    if "t \<noteq> []" "set t \<subseteq> set cs" "ps \<in> {white_spaces, map rev white_spaces}" for t ps
  proof -
    have "hd t \<in> set cs" using that(1,2) by (cases t) simp_all
    moreover have "\<forall>p \<in> set ps. p \<noteq> [] \<and> hd p \<notin> set cs"
      using that(3) assms(1) by (auto simp: visible_def list_all_iff hd_rev)
    ultimately show ?thesis using starts_with_hd [of t] by (fastforce simp: find_None_iff)
  qed
  from none [of s white_spaces] none [of "rev s" "map rev white_spaces"] assms show ?thesis
    by (simp add: trim_def Let_def trim_prefixes_id)
qed

lemma trim_handle:
  assumes "s \<noteq> []" and "set s \<subseteq> set handle_chars"
  shows "trim s = s"
  by (rule trim_visible [OF _ assms]) code_simp

lemma trim_operation_handle:
  assumes "hex_hash C"
  shows "trim (operation_handle C fp m p i) = operation_handle C fp m p i"
proof (rule trim_handle)
  show "operation_handle C fp m p i \<noteq> []" by (simp add: operation_handle_def short_handle_def)
  have "set (take 12 (blake3_hex C bs)) \<subseteq> set hex_digits" for bs
    using assms set_take_subset [of 12 "blake3_hex C bs"] unfolding hex_hash_def by blast
  moreover have "set hex_digits \<subseteq> set handle_chars" "set ''op:'' \<subseteq> set handle_chars" by code_simp+
  ultimately show "set (operation_handle C fp m p i) \<subseteq> set handle_chars"
    by (auto simp: operation_handle_def short_handle_def)
qed

subsection \<open>The index\<close>

lemma fold_index_operations:
  "fold (index_operation C de fp) sites (ids, absent, operations) = (ids', absent', operations')
     \<Longrightarrow> operations' = operations @ map (indexed_of C fp) sites"
proof (induction sites arbitrary: ids absent operations)
  case Nil
  then show ?case by simp
next
  case (Cons s sites)
  obtain ids1 absent1 where "index_operation C de fp s (ids, absent, operations) = (ids1, absent1, operations @ [indexed_of C fp s])"
    by (cases s) (simp add: index_operation_def Let_def)
  with Cons.IH [of ids1 absent1 "operations @ [indexed_of C fp s]"] Cons.prems show ?case by simp
qed

lemma indexed_operations:
  assumes "inspect_source C de lowercase source query limit cursor = Inr index" and "summary \<in> set (oi_operations index)"
  obtains sites site where "operation_sites (os_document source) = Some sites" "site \<in> set sites"
    "summary = summary_of (indexed_of C (os_source_fingerprint source) site)"
proof -
  from assms(1) obtain operations absent where col: "collect_operations C de (os_document source) (os_source_fingerprint source)
      (collect_absent de (os_document source)) = Inr (operations, absent)"
    and index: "oi_operations index = map summary_of (take limit (drop cursor
       (filter (matches lowercase (trim (case query of Some q \<Rightarrow> q | None \<Rightarrow> []))) (sort_key index_key operations))))"
    by (auto simp: inspect_source_def and_then_Inr_iff Let_def split: if_splits)
  from index assms(2) obtain i where i: "i \<in> set operations" "summary = summary_of i"
    by (auto dest!: in_set_takeD in_set_dropD)
  with col obtain sites where sites: "operation_sites (os_document source) = Some sites"
    and "operations = map (indexed_of C (os_source_fingerprint source)) sites"
    by (auto simp: collect_operations_def split: option.splits if_splits prod.splits dest!: fold_index_operations)
  with i that show ?thesis by auto
qed

text \<open>
  The index resolves: the handle of every operation that inspection lists selects an operation with the
  listed handle, method, path, identifier and risk, unless the selection is ambiguous, which is reported; it is
  never unknown.
\<close>

theorem indexed_operations_resolve:
  assumes "inspect_source C de lowercase source query limit cursor = Inr index"
    and "OperationSummary handle method path operation_id risk \<in> set (oi_operations index)" and "hex_hash C"
  shows "resolve_operation C source handle = Inl (AmbiguousOperation handle)
       \<or> (\<exists>d. resolve_operation C source handle = Inr d \<and> od_handle d = handle \<and> od_method d = method \<and> od_path d = path
            \<and> od_operation_id d = operation_id \<and> od_risk d = risk)"
  using assms(1,2)
proof (rule indexed_operations)
  fix sites site
  assume sites: "operation_sites (os_document source) = Some sites" "site \<in> set sites"
    and s: "OperationSummary handle method path operation_id risk = summary_of (indexed_of C (os_source_fingerprint source) site)"
  let ?d = "definition_of C (os_source_fingerprint source) site"
  let ?found = "filter (selects (trim handle)) (map (definition_of C (os_source_fingerprint source)) sites)"
  from s have d: "od_handle ?d = handle" "od_method ?d = method" "od_path ?d = path" "od_operation_id ?d = operation_id"
    "od_risk ?d = risk"
    by (simp_all add: summary_of_def indexed_of_def definition_of_def split: prod.splits)
  have "trim handle = handle"
    using s trim_operation_handle [OF assms(3)] by (simp add: summary_of_def indexed_of_def split: prod.splits)
  with d(1) sites(2) have "?d \<in> set ?found" by (auto simp: selects_def)
  then consider "?found = [?d]" | x y zs where "?found = x # y # zs"
    by (metis empty_iff empty_set list.exhaust set_ConsD)
  then show ?thesis
    by cases (use d sites in \<open>simp_all add: resolve_operation_def\<close>)
qed

definition pets_operation :: "(string \<times> json) list" where
  "pets_operation = [(''operationId'', JString ''listPets'')]"

definition pets_source :: OpenApiSource where
  "pets_source =
     \<lparr>os_document = JObject [(''paths'', JObject [(''/pets'', JObject [(''get'', JObject pets_operation)])])],
      os_source_fingerprint = ''b3:pets'', os_source_handle = ''src:pets''\<rparr>"

lemma pets_sites: "operation_sites (os_document pets_source) = Some [(''/pets'', [(''get'', JObject pets_operation)], ''get'', pets_operation)]"
  by (simp add: operation_sites_def pets_source_def get_object_def HTTP_METHODS_def map_filter_simps)

lemma pets_site: "definition_of hex_crates fp (''/pets'', item, ''get'', pets_operation)
   = \<lparr>od_handle = operation_handle hex_crates fp ''GET'' ''/pets'' ''listPets'', od_method = ''GET'', od_path = ''/pets'',
      od_operation_id = ''listPets'', od_risk = Read, od_path_item = item, od_operation = pets_operation\<rparr>"
proof -
  have "to_ascii_uppercase ''get'' = ''GET''" "normalize_path ''/pets'' = ''/pets''" "for_http_method ''GET'' = Read" by code_simp+
  then show ?thesis by (simp add: definition_of_def operation_id_of_def pets_operation_def)
qed

lemma pets_index:
  "\<exists>index. inspect_source hex_crates (\<lambda>_. None) id pets_source None 10 0 = Inr index
     \<and> OperationSummary (operation_handle hex_crates ''b3:pets'' ''GET'' ''/pets'' ''listPets'') ''GET'' ''/pets'' ''listPets'' Read
         \<in> set (oi_operations index)"
proof -
  have "to_ascii_uppercase ''get'' = ''GET''" "normalize_path ''/pets'' = ''/pets''" "for_http_method ''GET'' = Read" by code_simp+
  then have i: "summary_of (indexed_of hex_crates (os_source_fingerprint pets_source) (''/pets'', item, ''get'', pets_operation))
      = OperationSummary (operation_handle hex_crates ''b3:pets'' ''GET'' ''/pets'' ''listPets'') ''GET'' ''/pets'' ''listPets'' Read" for item
    by (simp add: indexed_of_def summary_of_def operation_id_of_def pets_operation_def pets_source_def)
  have "trim [] = []" by (simp add: trim_def)
  then show ?thesis
    by (simp add: inspect_source_def collect_operations_def pets_sites index_operation_def Let_def matches_def i)
qed

theorem indexed_operations_resolve_witness:
  "\<exists>index. inspect_source hex_crates (\<lambda>_. None) id pets_source None 10 0 = Inr index
     \<and> (\<exists>handle. resolve_operation hex_crates pets_source handle = Inl (AmbiguousOperation handle)
          \<or> (\<exists>d. resolve_operation hex_crates pets_source handle = Inr d \<and> od_path d = ''/pets''))"
proof -
  obtain index where run: "inspect_source hex_crates (\<lambda>_. None) id pets_source None 10 0 = Inr index"
    and op: "OperationSummary (operation_handle hex_crates ''b3:pets'' ''GET'' ''/pets'' ''listPets'') ''GET'' ''/pets'' ''listPets'' Read
         \<in> set (oi_operations index)" using pets_index by blast
  from indexed_operations_resolve [OF run op hex_crates_hash] run show ?thesis by blast
qed

end
