(* ===== verification/Plan_Inputs.thy ===== *)
theory Plan_Inputs
  imports Openapi_Index
begin

text \<open>
  The inputs of a request plan (\<open>kahea-plan\<close>): the input document and the explicit fields, which are matched
  against the parameters of the operation, and the validation of values against the schemas of the source.
\<close>

subsection \<open>Explicit fields\<close>

definition parse_explicit_field :: "crates \<Rightarrow> string \<Rightarrow> PlanError + (string \<times> json)" where
  "parse_explicit_field C v =
     (case split_once ''='' v of
        None \<Rightarrow> Inl (InvalidExplicitField v)
      | Some (key, raw) \<Rightarrow>
          if \<not> contains_str key ''.'' \<or> ends_with key ''.'' then Inl (InvalidExplicitField v)
          else Inr (key, case json_from_slice C (as_bytes raw) of Some j \<Rightarrow> j | None \<Rightarrow> JString raw))"

text \<open>The \<open>BTreeSet\<close>s of declared and used inputs are lists in order without repetition.\<close>

record Inputs =
  in_path :: "(string \<times> json) list"
  in_query :: "(string \<times> json) list"
  in_header :: "(string \<times> json) list"
  in_cookie :: "(string \<times> json) list"
  in_body :: "json option"
  in_declared :: "string list"
  in_used :: "string list"

definition no_inputs :: Inputs where
  "no_inputs =
     \<lparr>in_path = [], in_query = [], in_header = [], in_cookie = [], in_body = None, in_declared = [], in_used = []\<rparr>"

definition declare_input :: "string \<Rightarrow> Inputs \<Rightarrow> Inputs" where
  "declare_input key i = i\<lparr>in_declared := insort_insert key (in_declared i)\<rparr>"

definition use_input :: "string \<Rightarrow> Inputs \<Rightarrow> Inputs" where
  "use_input key i = i\<lparr>in_used := insort_insert key (in_used i)\<rparr>"

fun insert_path :: "json \<Rightarrow> string list \<Rightarrow> json \<Rightarrow> json option" where
  "insert_path (JObject m) [s] v = Some (JObject (map_insert s v m))"
| "insert_path (JObject m) (s # t # ss) v =
     map_option (\<lambda>c. JObject (map_insert s c m))
       (insert_path (case map_of m s of Some c \<Rightarrow> c | None \<Rightarrow> JObject []) (t # ss) v)"
| "insert_path _ _ v = None"

definition insert_body_value :: "json option \<Rightarrow> string \<Rightarrow> json \<Rightarrow> PlanError + json" where
  "insert_body_value body path v =
     ok_or (insert_path (case body of Some b \<Rightarrow> b | None \<Rightarrow> JObject []) (split_char (CHR ''.'') path) v)
       (InvalidInput (''body.'' @ path))"

text \<open>The four maps, under the names an explicit field may use.\<close>

definition input_map :: "string \<Rightarrow> Inputs \<Rightarrow> (string \<times> json) list option" where
  "input_map location i =
     (if location = ''path'' then Some (in_path i)
      else if location = ''query'' then Some (in_query i)
      else if location \<in> {''header'', ''headers''} then Some (in_header i)
      else if location \<in> {''cookie'', ''cookies''} then Some (in_cookie i) else None)"

definition set_input_map :: "string \<Rightarrow> (string \<times> json) list \<Rightarrow> Inputs \<Rightarrow> Inputs" where
  "set_input_map location m i =
     (if location = ''path'' then i\<lparr>in_path := m\<rparr>
      else if location = ''query'' then i\<lparr>in_query := m\<rparr>
      else if location \<in> {''header'', ''headers''} then i\<lparr>in_header := m\<rparr>
      else i\<lparr>in_cookie := m\<rparr>)"

definition insert_input :: "string \<Rightarrow> json \<Rightarrow> bool \<Rightarrow> Inputs \<Rightarrow> PlanError + Inputs" where
  "insert_input key v override_existing i =
     (case split_once ''.'' key of
        None \<Rightarrow> Inl (InvalidExplicitField key)
      | Some (location, name) \<Rightarrow>
          if location = ''body''
          then and_then (insert_body_value (in_body i) name v) (\<lambda>b.
               Inr (declare_input (''body.'' @ name) (i\<lparr>in_body := Some b\<rparr>)))
          else (case input_map location i of
                  None \<Rightarrow> Inl (InvalidExplicitField key)
                | Some m \<Rightarrow>
                    Inr (declare_input (location @ ''.'' @ name)
                           (if override_existing \<or> map_of m name = None
                            then set_input_map location (map_insert name v m) i else i))))"

definition structured_sections :: "string list" where
  "structured_sections = [''path'', ''query'', ''header'', ''headers'', ''cookie'', ''cookies'', ''body'']"

definition apply_section :: "string \<times> json \<Rightarrow> Inputs \<Rightarrow> PlanError + Inputs" where
  "apply_section = (\<lambda>(sec, v) i.
     if sec = ''body'' then Inr (declare_input ''body'' (i\<lparr>in_body := Some v\<rparr>))
     else if sec \<in> set structured_sections
     then (let canonical = (if sec = ''headers'' then ''header'' else if sec = ''cookies'' then ''cookie'' else sec) in
           case as_object v of
             None \<Rightarrow> Inl (InvalidInput sec)
           | Some vs \<Rightarrow> for_each (\<lambda>(name, w). insert_input (canonical @ ''.'' @ name) w False) vs i)
     else Inl (UnknownInput sec))"

definition apply_document :: "json \<Rightarrow> Inputs \<Rightarrow> PlanError + Inputs" where
  "apply_document input i =
     (case as_object input of
        None \<Rightarrow> Inr (declare_input ''body'' (i\<lparr>in_body := Some input\<rparr>))
      | Some object \<Rightarrow>
          if \<not> list_ex (\<lambda>(k, v). k \<in> set structured_sections) object
          then Inr (declare_input ''body'' (i\<lparr>in_body := Some input\<rparr>))
          else for_each apply_section object i)"

definition inputs_from_options :: "json option \<Rightarrow> (string \<times> json) list \<Rightarrow> PlanError + Inputs" where
  "inputs_from_options input explicit =
     and_then (case input of None \<Rightarrow> Inr no_inputs | Some v \<Rightarrow> apply_document v no_inputs) (\<lambda>i.
     for_each (\<lambda>(key, v). insert_input key v True) explicit i)"

definition take_input :: "string \<Rightarrow> string \<Rightarrow> Inputs \<Rightarrow> (json \<times> string) option \<times> Inputs" where
  "take_input location name i =
     (case (if location \<in> {''path'', ''query'', ''header'', ''cookie''} then Option.bind (input_map location i) (\<lambda>m. map_of m name)
            else None) of
        None \<Rightarrow> (None, i)
      | Some v \<Rightarrow> (Some (v, ''explicit-input''), use_input (location @ ''.'' @ name) i))"

definition reject_unused :: "Inputs \<Rightarrow> PlanError + unit" where
  "reject_unused i =
     (case List.find (\<lambda>k. k \<notin> set (in_used i) \<and> k \<noteq> ''body'' \<and> \<not> starts_with k ''body.'') (in_declared i) of
        Some k \<Rightarrow> Inl (UnknownInput k)
      | None \<Rightarrow> Inr ())"

subsection \<open>References\<close>

definition resolve_ref :: "crates \<Rightarrow> json \<Rightarrow> string \<Rightarrow> json option" where
  "resolve_ref C document reference = Option.bind (strip_prefix ''#'' reference) (json_pointer C document)"

definition resolve_value :: "crates \<Rightarrow> json \<Rightarrow> json \<Rightarrow> string \<Rightarrow> PlanError + json" where
  "resolve_value C document v field =
     (case get_str v ''$ref'' of
        None \<Rightarrow> Inr v
      | Some reference \<Rightarrow> ok_or (resolve_ref C document reference) (InvalidInput field))"

definition resolve_object :: "crates \<Rightarrow> json \<Rightarrow> json \<Rightarrow> string \<Rightarrow> PlanError + (string \<times> json) list" where
  "resolve_object C document v field =
     and_then (resolve_value C document v field) (\<lambda>v. ok_or (as_object v) (InvalidInput field))"

definition string_field :: "(string \<times> json) list \<Rightarrow> string \<Rightarrow> string option" where
  "string_field m key = Option.bind (map_of m key) as_str"

definition field_text :: "(string \<times> json) list \<Rightarrow> string \<Rightarrow> string" where
  "field_text m key = (case string_field m key of Some s \<Rightarrow> s | None \<Rightarrow> [])"

subsection \<open>Validation of values\<close>

text \<open>
  \<open>validate_value\<close> follows references without a bound, so it may recurse forever: \<open>None\<close> is a recursion deeper
  than the fuel.
\<close>

type_synonym check = "(PlanError + unit) option"

definition then_check :: "check \<Rightarrow> check \<Rightarrow> check" where
  "then_check a b = (case a of Some (Inr _) \<Rightarrow> b | _ \<Rightarrow> a)"

fun check_all :: "('a \<Rightarrow> check) \<Rightarrow> 'a list \<Rightarrow> check" where
  "check_all f [] = Some (Inr ())"
| "check_all f (x # xs) = then_check (f x) (check_all f xs)"

definition check_that :: "bool \<Rightarrow> PlanError \<Rightarrow> check" where
  "check_that b e = Some (if b then Inr () else Inl e)"

definition upload_descriptor :: "json \<Rightarrow> json \<Rightarrow> (string \<times> json) list option" where
  "upload_descriptor schema v =
     (if get_str schema ''type'' = Some ''string'' \<and> get_str schema ''format'' = Some ''binary''
      then (case as_object v of
              Some file \<Rightarrow> if map_of file ''$file'' \<noteq> None then Some file else None
            | None \<Rightarrow> None)
      else None)"

definition is_string :: "json \<Rightarrow> bool" where
  "is_string v = (as_str v \<noteq> None)"

definition check_upload :: "(string \<times> json) list \<Rightarrow> string \<Rightarrow> PlanError + unit" where
  "check_upload file field =
     (case List.find (\<lambda>(k, v). k \<notin> {''$file'', ''filename'', ''content_type''}) file of
        Some (k, _) \<Rightarrow> Inl (UnknownInput (field @ ''.'' @ k))
      | None \<Rightarrow>
          if (case map_of file ''$file'' of Some v \<Rightarrow> \<not> is_string v | None \<Rightarrow> True)
             \<or> (case map_of file ''filename'' of Some v \<Rightarrow> \<not> is_string v | None \<Rightarrow> False)
             \<or> (case map_of file ''content_type'' of Some v \<Rightarrow> \<not> is_string v | None \<Rightarrow> False)
          then Inl (InvalidInput field) else Inr ())"

definition plan_type_matches :: "string \<Rightarrow> json \<Rightarrow> bool" where
  "plan_type_matches kind v =
     (if kind = ''null'' then v = JNull
      else if kind = ''boolean'' then as_bool v \<noteq> None
      else if kind = ''integer'' then is_integer v
      else if kind = ''number'' then is_number v
      else if kind = ''string'' then is_string v
      else if kind = ''array'' then as_array v \<noteq> None
      else if kind = ''object'' then as_object v \<noteq> None
      else True)"

definition plan_declared_types :: "json \<Rightarrow> string list" where
  "plan_declared_types schema =
     (case json_get schema ''type'' of
        Some (JString t) \<Rightarrow> [t]
      | Some (JArray ts) \<Rightarrow> List.map_filter as_str ts
      | _ \<Rightarrow> [])"

definition flag :: "json \<Rightarrow> string \<Rightarrow> bool" where
  "flag v key = (Option.bind (json_get v key) as_bool = Some True)"

definition missing_required :: "json \<Rightarrow> (string \<times> json) list \<Rightarrow> string option" where
  "missing_required schema object =
     (let properties = get_object schema ''properties'' in
      case get_array schema ''required'' of
        None \<Rightarrow> None
      | Some required \<Rightarrow>
          List.find (\<lambda>name.
            \<not> (case Option.bind properties (\<lambda>ps. map_of ps name) of Some p \<Rightarrow> flag p ''readOnly'' | None \<Rightarrow> False)
            \<and> map_of object name = None) (List.map_filter as_str required))"

definition check_types :: "json \<Rightarrow> json \<Rightarrow> string \<Rightarrow> check" where
  "check_types schema v field =
     (let types = plan_declared_types schema
      in check_that (types = [] \<or> list_ex (\<lambda>k. plan_type_matches k v) types) (InvalidInput field))"

definition check_enum :: "json \<Rightarrow> json \<Rightarrow> string \<Rightarrow> check" where
  "check_enum schema v field =
     (case get_array schema ''enum'' of
        None \<Rightarrow> Some (Inr ())
      | Some values \<Rightarrow> check_that (v \<in> set values) (InvalidInput field))"

fun validate_value :: "crates \<Rightarrow> json \<Rightarrow> nat \<Rightarrow> json \<Rightarrow> json \<Rightarrow> string \<Rightarrow> check" where
  "validate_value C document 0 schema v field = None"
| "validate_value C document (Suc n) schema v field =
     (case resolve_value C document schema field of
        Inl e \<Rightarrow> Some (Inl e)
      | Inr schema \<Rightarrow>
          (case upload_descriptor schema v of
             Some file \<Rightarrow> Some (check_upload file field)
           | None \<Rightarrow>
               if v = JNull \<and> flag schema ''nullable'' then Some (Inr ())
               else
                 then_check (case get_array schema ''allOf'' of
                               None \<Rightarrow> Some (Inr ())
                             | Some children \<Rightarrow> check_all (\<lambda>child. validate_value C document n child v field) children)
                (then_check (check_enum schema v field)
                (then_check (check_types schema v field)
                (then_check
                   (case as_object v of
                      None \<Rightarrow> Some (Inr ())
                    | Some object \<Rightarrow>
                        (case missing_required schema object of
                           Some name \<Rightarrow> Some (Inl (InvalidInput (field @ ''.'' @ name)))
                         | None \<Rightarrow>
                             check_all (\<lambda>(name, child).
                               case Option.bind (get_object schema ''properties'') (\<lambda>ps. map_of ps name) of
                                 Some child_schema \<Rightarrow> validate_value C document n child_schema child (field @ ''.'' @ name)
                               | None \<Rightarrow>
                                   check_that (json_get schema ''additionalProperties'' \<noteq> Some (JBool False))
                                     (UnknownInput (field @ ''.'' @ name))) object))
                   (case (as_array v, json_get schema ''items'') of
                      (Some values, Some items) \<Rightarrow>
                        check_all (\<lambda>(index, item).
                          validate_value C document n items item (field @ ''['' @ show_nat index @ '']''))
                          (List.enumerate 0 values)
                    | _ \<Rightarrow> Some (Inr ())))))))"

subsection \<open>Values on the wire\<close>

fun scalar_wire :: "plan_env \<Rightarrow> json \<Rightarrow> PlanError + string" where
  "scalar_wire E JNull = Inr []"
| "scalar_wire E (JBool b) = Inr (if b then ''true'' else ''false'')"
| "scalar_wire E (JNumber n) = Inr (pe_number_text E n)"
| "scalar_wire E (JString s) = Inr s"
| "scalar_wire E _ = Inl (InvalidInput ''parameter'')"

definition scalar_wires :: "plan_env \<Rightarrow> json list \<Rightarrow> PlanError + string list" where
  "scalar_wires E vs = for_each (\<lambda>v acc. and_then (scalar_wire E v) (\<lambda>w. Inr (acc @ [w]))) vs []"

definition wire_values :: "plan_env \<Rightarrow> json \<Rightarrow> (string \<times> json) list \<Rightarrow> PlanError + string list" where
  "wire_values E v parameter =
     (let explode = (case Option.bind (map_of parameter ''explode'') as_bool of Some b \<Rightarrow> b | None \<Rightarrow> True) in
      case as_array v of
        Some vs \<Rightarrow>
          if explode then scalar_wires E vs
          else and_then (scalar_wires E vs) (\<lambda>ws. Inr [join '','' ws])
      | None \<Rightarrow> and_then (scalar_wire E v) (\<lambda>w. Inr [w]))"

end
