(* ===== verification/Http_Planner.thy ===== *)
theory Http_Planner
  imports Plan_Inputs
begin

text \<open>
  Planning of an HTTP request (\<open>kahea-plan\<close>, \<open>build_plan_with_configuration\<close>): the server and the target, the
  parameters at their places, the body in its media type, credentials by reference, risk, grants and checks, and
  the sealed plan.  A result is \<open>None\<close> when the validation of a value recurses deeper than the fuel; every other
  error is a value of \<open>PlanError\<close>.
\<close>

type_synonym 'a fuelled = "(PlanError + 'a) option"

definition then_do :: "'a fuelled \<Rightarrow> ('a \<Rightarrow> 'b fuelled) \<Rightarrow> 'b fuelled" where
  "then_do r f = (case r of None \<Rightarrow> None | Some (Inl e) \<Rightarrow> Some (Inl e) | Some (Inr x) \<Rightarrow> f x)"

lemma then_do_simps [simp]:
  "then_do None f = None" "then_do (Some (Inl e)) f = Some (Inl e)" "then_do (Some (Inr x)) f = f x"
  by (simp_all add: then_do_def)

lemma then_do_Inr_iff: "then_do r f = Some (Inr y) \<longleftrightarrow> (\<exists>x. r = Some (Inr x) \<and> f x = Some (Inr y))"
  by (auto simp: then_do_def split: option.splits sum.splits)

lemma then_do_None_iff: "then_do r f = None \<longleftrightarrow> r = None \<or> (\<exists>x. r = Some (Inr x) \<and> f x = None)"
  by (auto simp: then_do_def split: option.splits sum.splits)

fun each_do :: "('a \<Rightarrow> 's \<Rightarrow> 's fuelled) \<Rightarrow> 'a list \<Rightarrow> 's \<Rightarrow> 's fuelled" where
  "each_do f [] s = Some (Inr s)"
| "each_do f (x # xs) s = then_do (f x s) (each_do f xs)"

subsection \<open>Strings\<close>

text \<open>\<open>str::replace\<close> with a non-empty pattern.\<close>

function replace_str :: "string \<Rightarrow> string \<Rightarrow> string \<Rightarrow> string" where
  "replace_str pat by [] = []"
| "replace_str pat by (c # s) =
     (if pat \<noteq> [] \<and> starts_with (c # s) pat then by @ replace_str pat by (drop (length pat) (c # s))
      else c # replace_str pat by s)"
  by pat_completeness auto
termination
proof (relation "measure (\<lambda>(pat, by, s). length s)")
  show "wf (measure (\<lambda>(pat, by, s). length s))" by simp
qed (auto simp: neq_Nil_conv)

definition trim_end_slashes :: "string \<Rightarrow> string" where
  "trim_end_slashes s = rev (dropWhile (\<lambda>c. c = CHR ''/'') (rev s))"

definition braced :: "string \<Rightarrow> string" where
  "braced name = ''{'' @ name @ ''}''"

definition PATH_SEGMENT :: "char set" where
  "PATH_SEGMENT =
     {c. char_code c < 32 \<or> char_code c = 127}
     \<union> {CHR '' '', CHR 0x22, CHR ''#'', CHR ''%'', CHR ''/'', CHR ''<'', CHR ''>'', CHR ''?'', CHR ''['', CHR 0x5C,
        CHR '']'', CHR ''^'', CHR 0x60, CHR ''{'', CHR ''|'', CHR ''}''}"

subsection \<open>The server\<close>

definition resolve_server_variable :: "plan_env \<Rightarrow> string \<times> json \<Rightarrow> string \<Rightarrow> PlanError + string" where
  "resolve_server_variable E = (\<lambda>(name, variable) result.
     and_then (ok_or (json_get variable ''default'') InvalidServer) (\<lambda>default.
     and_then (scalar_wire E default) (\<lambda>wire.
     Inr (replace_str (braced name) wire result))))"

definition resolve_server_variables :: "plan_env \<Rightarrow> string \<Rightarrow> (string \<times> json) list option \<Rightarrow> PlanError + string" where
  "resolve_server_variables E template variables =
     and_then (for_each (resolve_server_variable E) (case variables of None \<Rightarrow> [] | Some m \<Rightarrow> m) template) (\<lambda>result.
     if CHR ''{'' \<in> set result then Inl InvalidServer else Inr result)"

definition declared_servers :: "OpenApiSource \<Rightarrow> OperationDefinition \<Rightarrow> json list" where
  "declared_servers source operation =
     (case Option.bind
        (case map_of (od_operation operation) ''servers'' of
           Some v \<Rightarrow> Some v
         | None \<Rightarrow> (case map_of (od_path_item operation) ''servers'' of
                      Some v \<Rightarrow> Some v | None \<Rightarrow> json_get (os_document source) ''servers'')) as_array of
        Some servers \<Rightarrow> servers
      | None \<Rightarrow> [])"

definition selected_server :: "json list \<Rightarrow> string option \<Rightarrow> PlanError + json" where
  "selected_server servers selector =
     (case selector of
        Some s \<Rightarrow>
          ok_or (List.find (\<lambda>server. get_str server ''url'' = Some s \<or> get_str server ''description'' = Some s) servers)
            (UnknownServer s)
      | None \<Rightarrow> (case servers of [server] \<Rightarrow> Inr server | _ \<Rightarrow> Inl AmbiguousServer))"

definition select_server ::
  "crates \<Rightarrow> plan_env \<Rightarrow> OpenApiSource \<Rightarrow> OperationDefinition \<Rightarrow> string option \<Rightarrow> ProjectConfiguration
     \<Rightarrow> PlanError + string" where
  "select_server C E source operation selector configuration =
     (if (case selector of Some s \<Rightarrow> url_parse C s \<noteq> None | None \<Rightarrow> False)
      then resolve_server_variables E (the selector) None
      else (case Option.bind selector (map_of (cfg_servers configuration)) of
              Some configured \<Rightarrow> resolve_server_variables E (cs_url configured) None
            | None \<Rightarrow>
                let servers = declared_servers source operation in
                if servers = [] then Inl MissingServer
                else and_then (selected_server servers selector) (\<lambda>selected.
                     and_then (ok_or (get_str selected ''url'') InvalidServer) (\<lambda>url.
                     resolve_server_variables E url (get_object selected ''variables'')))))"

definition server_origin :: "ParsedUrl \<Rightarrow> string" where
  "server_origin url =
     url_scheme url @ ''://'' @ (case url_host_str url of Some h \<Rightarrow> h | None \<Rightarrow> [])
     @ (case url_port url of Some p \<Rightarrow> '':'' @ show_u16 p | None \<Rightarrow> [])"

definition build_target :: "crates \<Rightarrow> string \<Rightarrow> string \<Rightarrow> PlanError + ParsedUrl" where
  "build_target C server path =
     and_then (ok_or (url_parse C (trim_end_slashes server @ path)) InvalidServer) (\<lambda>url.
     if url_scheme url \<notin> {''http'', ''https''} then Inl UnsafeTarget
     else if url_username url \<noteq> [] \<or> url_password url \<noteq> None then Inl UnsafeTarget
     else Inr url)"

subsection \<open>Parameters\<close>

text \<open>The parameters of the path item, overridden by those of the operation, in the order of (location, name).\<close>

definition add_parameter ::
  "crates \<Rightarrow> json \<Rightarrow> json \<Rightarrow> ((string \<times> string) \<times> (string \<times> json) list) list
     \<Rightarrow> PlanError + ((string \<times> string) \<times> (string \<times> json) list) list" where
  "add_parameter C document parameter m =
     and_then (resolve_object C document parameter ''parameter'') (\<lambda>p.
     Inr (map_insert (field_text p ''in'', field_text p ''name'') p m))"

definition array_field :: "(string \<times> json) list \<Rightarrow> string \<Rightarrow> json list" where
  "array_field m key = (case Option.bind (map_of m key) as_array of Some xs \<Rightarrow> xs | None \<Rightarrow> [])"

definition parameters ::
  "crates \<Rightarrow> OpenApiSource \<Rightarrow> OperationDefinition \<Rightarrow> PlanError + (string \<times> json) list list" where
  "parameters C source operation =
     and_then (for_each (add_parameter C (os_document source))
                 (array_field (od_path_item operation) ''parameters'' @ array_field (od_operation operation) ''parameters'') [])
       (\<lambda>m. Inr (map snd m))"

definition derivation :: "string \<Rightarrow> json \<Rightarrow> string \<Rightarrow> string option \<Rightarrow> string \<Rightarrow> FieldDerivation" where
  "derivation field logical_value source wire_value transformation =
     \<lparr>fd_field = field, fd_source = source, fd_source_location = ''input:/'' @ field, fd_logical_value = logical_value,
      fd_wire_value = wire_value, fd_transformations = [transformation]\<rparr>"

text \<open>What the loop over the parameters and the body builds up.\<close>

record Draft =
  dr_inputs :: Inputs
  dr_path :: string
  dr_query :: "(string \<times> string) list"
  dr_headers :: "PlannedHeader list"
  dr_cookies :: "(string \<times> string) list"
  dr_derivations :: "FieldDerivation list"

definition parameter_value ::
  "(string \<times> json) list \<Rightarrow> string \<Rightarrow> string \<Rightarrow> Inputs \<Rightarrow> (json \<times> string) option \<times> Inputs" where
  "parameter_value parameter location name i =
     (case take_input location name i of
        (Some taken, i') \<Rightarrow> (Some taken, i')
      | (None, i') \<Rightarrow>
          (map_option (\<lambda>v. (v, ''schema-default''))
             (Option.bind (map_of parameter ''schema'') (\<lambda>schema. json_get schema ''default'')), i'))"

definition place_parameter ::
  "plan_env \<Rightarrow> string \<Rightarrow> string \<Rightarrow> json \<Rightarrow> string \<Rightarrow> string list \<Rightarrow> Draft \<Rightarrow> PlanError + Draft" where
  "place_parameter E location name v provenance wires d =
     (let key = location @ ''.'' @ name; wire = join '','' wires;
          derive = (\<lambda>wire transformation. dr_derivations d @ [derivation key v provenance (Some wire) transformation]) in
      if location = ''path''
      then (let encoded = pe_percent_encode E PATH_SEGMENT (case wires of w # _ \<Rightarrow> w | [] \<Rightarrow> []) in
            Inr (d\<lparr>dr_path := replace_str (braced name) encoded (dr_path d),
                   dr_derivations := derive encoded ''path-segment''\<rparr>))
      else if location = ''query''
      then Inr (d\<lparr>dr_query := dr_query d @ map (Pair name) wires, dr_derivations := derive wire ''query-form''\<rparr>)
      else if location = ''header''
      then Inr (d\<lparr>dr_headers := dr_headers d @ [\<lparr>ph_name = name, ph_value = wire\<rparr>],
                  dr_derivations := derive wire ''header''\<rparr>)
      else if location = ''cookie''
      then Inr (d\<lparr>dr_cookies := dr_cookies d @ [(name, wire)], dr_derivations := derive wire ''cookie''\<rparr>)
      else Inl (InvalidInput key))"

definition bind_parameter ::
  "crates \<Rightarrow> plan_env \<Rightarrow> json \<Rightarrow> nat \<Rightarrow> (string \<times> json) list \<Rightarrow> Draft \<Rightarrow> Draft fuelled" where
  "bind_parameter C E document n parameter d =
     (let name = field_text parameter ''name''; location = field_text parameter ''in'' in
      if name = [] \<or> location = [] then Some (Inr d)
      else (case parameter_value parameter location name (dr_inputs d) of
              (None, i) \<Rightarrow>
                if Option.bind (map_of parameter ''required'') as_bool = Some True \<or> location = ''path''
                then Some (Inl (MissingParameter location name))
                else Some (Inr (d\<lparr>dr_inputs := i\<rparr>))
            | (Some (v, provenance), i) \<Rightarrow>
                then_do (case map_of parameter ''schema'' of
                           None \<Rightarrow> Some (Inr ())
                         | Some schema \<Rightarrow> validate_value C document n schema v (location @ ''.'' @ name)) (\<lambda>_.
                Some (and_then (wire_values E v parameter) (\<lambda>wires.
                      place_parameter E location name v provenance wires (d\<lparr>dr_inputs := i\<rparr>))))))"

subsection \<open>The body\<close>

definition select_content_type :: "(string \<times> json) list \<Rightarrow> string option \<Rightarrow> PlanError + string" where
  "select_content_type content requested =
     (case requested of
        Some r \<Rightarrow> if map_of content r \<noteq> None then Inr r else Inl (UnknownContentType r)
      | None \<Rightarrow>
          if map_of content ''application/json'' \<noteq> None then Inr ''application/json''
          else (case content of [(key, _)] \<Rightarrow> Inr key | _ \<Rightarrow> Inl (InvalidInput ''requestBody.content'')))"

definition reject_multipart_token :: "string \<Rightarrow> string \<Rightarrow> PlanError + unit" where
  "reject_multipart_token v field =
     (if contains_any v (crlf @ [CHR 0x22]) then Inl (InvalidInput field) else Inr ())"

definition form_pair :: "plan_env \<Rightarrow> string \<Rightarrow> json \<Rightarrow> (string \<times> string) list \<Rightarrow> PlanError + (string \<times> string) list" where
  "form_pair E name v pairs = and_then (scalar_wire E v) (\<lambda>wire. Inr (pairs @ [(name, wire)]))"

definition form_field :: "plan_env \<Rightarrow> string \<times> json \<Rightarrow> (string \<times> string) list \<Rightarrow> PlanError + (string \<times> string) list" where
  "form_field E = (\<lambda>(name, v) pairs.
     case as_array v of
       Some vs \<Rightarrow> for_each (form_pair E name) vs pairs
     | None \<Rightarrow> form_pair E name v pairs)"

definition quoted :: "string \<Rightarrow> string" where
  "quoted s = [CHR 0x22] @ s @ [CHR 0x22]"

definition file_descriptor :: "json \<Rightarrow> (string \<times> json) list option" where
  "file_descriptor v =
     (case as_object v of Some file \<Rightarrow> if map_of file ''$file'' \<noteq> None then Some file else None | None \<Rightarrow> None)"

text \<open>The part of an uploaded file: its headers and the bytes of the file.\<close>

definition upload_part :: "plan_env \<Rightarrow> string \<Rightarrow> (string \<times> json) list \<Rightarrow> PlanError + bytes" where
  "upload_part E name file =
     and_then (ok_or (string_field file ''$file'') (InvalidInput (''body.'' @ name @ ''.$file''))) (\<lambda>path.
     let filename = (case string_field file ''filename'' of
                       Some f \<Rightarrow> f
                     | None \<Rightarrow> (case pe_file_name E path of Some f \<Rightarrow> f | None \<Rightarrow> ''upload.bin''));
         content_type = (case string_field file ''content_type'' of
                           Some t \<Rightarrow> t | None \<Rightarrow> ''application/octet-stream'') in
     and_then (reject_multipart_token filename ''filename'') (\<lambda>_.
     and_then (reject_multipart_token content_type ''file content type'') (\<lambda>_.
     and_then (ok_or (pe_read E path) (InvalidInput (''body.'' @ name @ ''.$file''))) (\<lambda>file_bytes.
     Inr (as_bytes (''Content-Disposition: form-data; name='' @ quoted name @ ''; filename='' @ quoted filename @ crlf
                    @ ''Content-Type: '' @ content_type @ crlf @ crlf)
          @ file_bytes)))))"

definition multipart_field :: "plan_env \<Rightarrow> string \<Rightarrow> string \<times> json \<Rightarrow> bytes \<Rightarrow> PlanError + bytes" where
  "multipart_field E boundary = (\<lambda>(name, v) byts.
     and_then (reject_multipart_token name ''field name'') (\<lambda>_.
     and_then (case file_descriptor v of
                 Some file \<Rightarrow> upload_part E name file
               | None \<Rightarrow>
                   and_then (scalar_wire E v) (\<lambda>wire.
                   Inr (as_bytes (''Content-Disposition: form-data; name='' @ quoted name @ crlf @ crlf @ wire)))) (\<lambda>part.
     Inr (byts @ as_bytes (''--'' @ boundary @ crlf) @ part @ as_bytes crlf))))"

record SerializedBody =
  sb_media_type :: string
  sb_data :: bytes
  sb_encoding :: string
  sb_inline :: string
  sb_transformation :: string

definition serialize_body :: "crates \<Rightarrow> plan_env \<Rightarrow> string \<Rightarrow> json \<Rightarrow> PlanError + SerializedBody" where
  "serialize_body C E media_type body =
     (if media_type = ''application/json'' \<or> ends_with media_type ''+json''
      then and_then (ok_or (json_to_vec C body) PlanSerialization) (\<lambda>data.
           Inr \<lparr>sb_media_type = media_type, sb_data = data, sb_encoding = ''utf-8'', sb_inline = from_bytes data,
                sb_transformation = ''canonical-json''\<rparr>)
      else if starts_with media_type ''text/'' \<or> contains_str media_type ''xml''
      then and_then (ok_or (as_str body) (InvalidInput ''body'')) (\<lambda>txt.
           Inr \<lparr>sb_media_type = media_type, sb_data = as_bytes txt, sb_encoding = ''utf-8'', sb_inline = txt,
                sb_transformation = ''text-utf8''\<rparr>)
      else if media_type = ''application/x-www-form-urlencoded''
      then (case as_str body of
              Some captured \<Rightarrow>
                Inr \<lparr>sb_media_type = media_type, sb_data = as_bytes captured, sb_encoding = ''utf-8'',
                     sb_inline = captured, sb_transformation = ''captured-form''\<rparr>
            | None \<Rightarrow>
                and_then (ok_or (as_object body) (InvalidInput ''body'')) (\<lambda>object.
                and_then (for_each (form_field E) object []) (\<lambda>pairs.
                let encoded = pe_form_encode E pairs in
                Inr \<lparr>sb_media_type = media_type, sb_data = as_bytes encoded, sb_encoding = ''utf-8'',
                     sb_inline = encoded, sb_transformation = ''form-urlencoded''\<rparr>)))
      else if media_type = ''multipart/form-data''
      then and_then (ok_or (as_object body) (InvalidInput ''body'')) (\<lambda>object.
           and_then (ok_or (json_to_vec C body) PlanSerialization) (\<lambda>logical.
           let boundary = ''kahea-'' @ take 16 (drop 3 (digest C logical)) in
           and_then (for_each (multipart_field E boundary) object []) (\<lambda>parts.
           let data = parts @ as_bytes (''--'' @ boundary @ ''--'' @ crlf) in
           Inr \<lparr>sb_media_type = ''multipart/form-data; boundary='' @ boundary, sb_data = data, sb_encoding = ''base64'',
                sb_inline = b64_encode C data, sb_transformation = ''multipart-deterministic''\<rparr>)))
      else and_then (ok_or (as_str body) (InvalidInput ''body'')) (\<lambda>encoded.
           let encoded = (case strip_prefix ''base64:'' encoded of Some e \<Rightarrow> e | None \<Rightarrow> encoded) in
           and_then (ok_or (b64_decode C encoded) (InvalidInput ''body'')) (\<lambda>data.
           Inr \<lparr>sb_media_type = media_type, sb_data = data, sb_encoding = ''base64'', sb_inline = encoded,
                sb_transformation = ''base64-decode''\<rparr>)))"

definition use_body :: "Inputs \<Rightarrow> Inputs" where
  "use_body i = fold use_input (''body'' # filter (\<lambda>k. starts_with k ''body.'') (in_declared i)) (i\<lparr>in_body := None\<rparr>)"

definition body_value :: "OperationDefinition \<Rightarrow> Inputs \<Rightarrow> (json \<times> string) option \<times> Inputs" where
  "body_value operation i =
     (case in_body i of
        Some body \<Rightarrow> (Some (body, ''explicit-input''), use_body i)
      | None \<Rightarrow> (map_option (\<lambda>body. (body, ''captured-source''))
                   (map_of (od_operation operation) ''x-kahea-captured-body''), i))"

definition bind_body ::
  "crates \<Rightarrow> plan_env \<Rightarrow> OpenApiSource \<Rightarrow> OperationDefinition \<Rightarrow> string option \<Rightarrow> nat \<Rightarrow> Draft
     \<Rightarrow> (PlannedBody option \<times> Draft) fuelled" where
  "bind_body C E source operation requested n d =
     (case map_of (od_operation operation) ''requestBody'' of
        None \<Rightarrow> Some (if in_body (dr_inputs d) \<noteq> None then Inl UnexpectedBody else Inr (None, d))
      | Some request_body_value \<Rightarrow>
          then_do (Some (resolve_object C (os_document source) request_body_value ''requestBody'')) (\<lambda>request_body.
          case body_value operation (dr_inputs d) of
            (None, i) \<Rightarrow>
              Some (if Option.bind (map_of request_body ''required'') as_bool = Some True then Inl MissingBody
                    else Inr (None, d))
          | (Some (body, provenance), i) \<Rightarrow>
              then_do (Some (ok_or (Option.bind (map_of request_body ''content'') as_object)
                               (InvalidInput ''requestBody.content''))) (\<lambda>content.
              then_do (Some (select_content_type content requested)) (\<lambda>media_type.
              then_do (Some (ok_or (Option.bind (map_of content media_type) as_object) (UnknownContentType media_type))) (\<lambda>media.
              then_do (case map_of media ''schema'' of
                         None \<Rightarrow> Some (Inr ())
                       | Some schema \<Rightarrow> validate_value C (os_document source) n schema body ''body'') (\<lambda>_.
              then_do (Some (serialize_body C E media_type body)) (\<lambda>s.
              Some (Inr (Some \<lparr>pb_media_type = sb_media_type s, pb_bytes = len_u64 (sb_data s),
                               pb_blake3 = digest C (sb_data s), pb_encoding = sb_encoding s, pb_inline = sb_inline s\<rparr>,
                         d\<lparr>dr_inputs := i,
                           dr_headers := dr_headers d @ [\<lparr>ph_name = ''Content-Type'', ph_value = sb_media_type s\<rparr>],
                           dr_derivations := dr_derivations d
                             @ [derivation ''body'' body provenance (Some (sb_inline s)) (sb_transformation s)]\<rparr>)))))))))"

subsection \<open>Credentials\<close>

definition security_requirements :: "OpenApiSource \<Rightarrow> OperationDefinition \<Rightarrow> (string \<times> json) list list" where
  "security_requirements source operation =
     (case Option.bind (case map_of (od_operation operation) ''security'' of
                          Some v \<Rightarrow> Some v | None \<Rightarrow> json_get (os_document source) ''security'') as_array of
        None \<Rightarrow> []
      | Some security \<Rightarrow> List.map_filter as_object security)"

definition http_placement :: "string \<Rightarrow> (string \<times> json) list \<Rightarrow> PlanError + (string \<times> string option)" where
  "http_placement scheme scheme_object =
     (let kind = field_text scheme_object ''type'' in
      if kind = ''apiKey''
      then Inr (field_text scheme_object ''in'' @ '':'' @ field_text scheme_object ''name'', None)
      else if kind = ''http'' then Inr (''header:Authorization:'' @ field_text scheme_object ''scheme'', None)
      else if kind = ''oauth2''
      then and_then (ok_or (Option.bind (map_of scheme_object ''flows'') as_object) (UnsupportedSecurityScheme scheme)) (\<lambda>flows.
           case Option.bind (map_of flows ''clientCredentials'') as_object of
             Some flow \<Rightarrow>
               and_then (ok_or (string_field flow ''tokenUrl'') (UnsupportedSecurityScheme scheme)) (\<lambda>token_url.
               Inr (''oauth2-client-credentials'', Some token_url))
           | None \<Rightarrow>
               (case Option.bind (map_of flows ''authorizationCode'') as_object of
                  Some flow \<Rightarrow>
                    and_then (ok_or (string_field flow ''tokenUrl'') (UnsupportedSecurityScheme scheme)) (\<lambda>token_url.
                    Inr (''oauth2-refresh-token'', Some token_url))
                | None \<Rightarrow> Inl (UnsupportedSecurityScheme scheme)))
      else if kind = ''openIdConnect'' then Inr (''header:Authorization:bearer'', None)
      else if kind = ''mutualTLS'' then Inr (''tls-client-certificate'', None)
      else Inl (UnsupportedSecurityScheme scheme))"

definition scheme_scopes :: "(string \<times> json) list list \<Rightarrow> string \<Rightarrow> string list" where
  "scheme_scopes requirements scheme =
     (case List.map_filter (\<lambda>r. map_of r scheme) requirements of
        [] \<Rightarrow> []
      | v # _ \<Rightarrow> (case as_array v of None \<Rightarrow> [] | Some scopes \<Rightarrow> List.map_filter as_str scopes))"

definition bind_auth ::
  "crates \<Rightarrow> OpenApiSource \<Rightarrow> OperationDefinition \<Rightarrow> string option \<Rightarrow> PlanError + (PlannedAuth option \<times> string list)" where
  "bind_auth C source operation requested =
     (let requirements = security_requirements source operation;
          required_schemes = concat (map (map fst) requirements) in
      if required_schemes = [] \<and> requested = None then Inr (None, [])
      else
        and_then (ok_or requested MissingAuth) (\<lambda>requested.
        let (scheme, profile) = (case split_once ''='' requested of
                                   Some (scheme, profile) \<Rightarrow> (scheme, profile)
                                 | None \<Rightarrow> ((case required_schemes of s # _ \<Rightarrow> s | [] \<Rightarrow> ''bearer''), requested)) in
        if required_schemes \<noteq> [] \<and> scheme \<notin> set required_schemes then Inl (UnknownSecurityScheme scheme)
        else
          and_then (ok_or (json_pointer C (os_document source) (''/components/securitySchemes/'' @ escape_pointer scheme))
                      (UnknownSecurityScheme scheme)) (\<lambda>scheme_value.
          and_then (resolve_object C (os_document source) scheme_value ''securityScheme'') (\<lambda>scheme_object.
          and_then (http_placement scheme scheme_object) (\<lambda>(placement, token_url).
          Inr (Some \<lparr>pa_scheme = scheme, pa_kind = field_text scheme_object ''type'', pa_profile = profile,
                     pa_placement = placement, pa_token_url = token_url, pa_scopes = scheme_scopes requirements scheme\<rparr>,
               [''secret://'' @ profile]))))))"

subsection \<open>Grants and checks\<close>

definition production_origin :: "ProjectConfiguration \<Rightarrow> ParsedUrl \<Rightarrow> bool" where
  "production_origin configuration target =
     list_ex (\<lambda>(name, server). trim_end_slashes (cs_url server) = server_origin target
                                 \<and> cs_classification server = Some ''production'') (cfg_servers configuration)"

definition token_grants :: "crates \<Rightarrow> PlannedAuth option \<Rightarrow> PlanError + string list" where
  "token_grants C auth =
     (case Option.bind auth pa_token_url of
        None \<Rightarrow> Inr []
      | Some token_url \<Rightarrow>
          and_then (ok_or (url_parse C token_url) InvalidServer) (\<lambda>token_url.
          and_then (ok_or (url_host_str token_url) InvalidServer) (\<lambda>host.
          and_then (ok_or (url_port_or_known_default token_url) InvalidServer) (\<lambda>port.
          Inr ([net_grant host port, ''http:POST'']
               @ (if url_scheme token_url = ''http'' then [''net-insecure-http''] else []))))))"

definition http_grants ::
  "crates \<Rightarrow> ProjectConfiguration \<Rightarrow> string \<Rightarrow> ParsedUrl \<Rightarrow> string \<Rightarrow> u16 \<Rightarrow> RiskClass \<Rightarrow> PlannedAuth option
     \<Rightarrow> PlanError + string list" where
  "http_grants C configuration method target host port risk auth =
     and_then (token_grants C auth) (\<lambda>for_token.
     Inr (sort
       ([net_grant host port, ''http:'' @ method]
        @ (if url_scheme target = ''http'' then [''net-insecure-http''] else [])
        @ literal_grant host
        @ (if risk = Destructive then [''approve:destructive''] else [])
        @ (if production_origin configuration target
              \<and> pol_require_production_write_approval (cfg_policy configuration) \<and> risk \<in> {Write, Destructive}
           then [''approve:production-write''] else [])
        @ (case auth of
             None \<Rightarrow> []
           | Some a \<Rightarrow> (''secret:'' @ pa_profile a)
               # (if pa_placement a = ''tls-client-certificate'' then [''tls-client-cert:'' @ pa_profile a] else []))
        @ for_token)))"

definition default_checks :: "OperationDefinition \<Rightarrow> string list" where
  "default_checks operation =
     (let statuses = sort (filter (list_all is_ascii_digit)
            (case Option.bind (map_of (od_operation operation) ''responses'') as_object of
               None \<Rightarrow> [] | Some responses \<Rightarrow> map fst responses))
      in sort_dedup
           ((if statuses \<noteq> [] then [''status:any('' @ join '','' statuses @ '')''] else [])
            @ [''response-schema:openapi'']
            @ List.map_filter as_str (array_field (od_operation operation) ''x-kahea-checks'')))"

subsection \<open>The plan\<close>

definition json_text_or :: "json \<Rightarrow> string \<Rightarrow> string \<Rightarrow> string" where
  "json_text_or v key fallback = (case get_str v key of Some s \<Rightarrow> s | None \<Rightarrow> fallback)"

definition blocking_absence :: "OpenApiSource \<Rightarrow> OperationDefinition \<Rightarrow> json option" where
  "blocking_absence source operation =
     List.find (\<lambda>absence. Option.bind (json_get absence ''blocking'') as_bool = Some True)
       ((case get_array (os_document source) ''x-kahea-absent'' of Some xs \<Rightarrow> xs | None \<Rightarrow> [])
        @ array_field (od_operation operation) ''x-kahea-absent'')"

definition or_default :: "'a option \<Rightarrow> 'a option \<Rightarrow> 'a option" where
  "or_default a b = (case a of Some x \<Rightarrow> Some x | None \<Rightarrow> b)"

definition object_field_or_empty :: "json option \<Rightarrow> json" where
  "object_field_or_empty v = (case v of Some j \<Rightarrow> j | None \<Rightarrow> JObject [])"

text \<open>The request before risk and grants: its target, the draft with its headers, the body, the credentials.\<close>

record RequestParts =
  rq_target :: ParsedUrl
  rq_draft :: Draft
  rq_planned_body :: "PlannedBody option"
  rq_auth :: "PlannedAuth option"
  rq_secret_refs :: "string list"

definition cookie_header :: "(string \<times> string) list \<Rightarrow> PlannedHeader list" where
  "cookie_header cookies =
     (if cookies = [] then []
      else [\<lparr>ph_name = ''Cookie'', ph_value = join ''; '' (map (\<lambda>(name, v). name @ ''='' @ v) (sort cookies))\<rparr>])"

definition request_parts ::
  "crates \<Rightarrow> plan_env \<Rightarrow> nat \<Rightarrow> OpenApiSource \<Rightarrow> OperationDefinition \<Rightarrow> PlanOptions \<Rightarrow> ProjectConfiguration
     \<Rightarrow> RequestParts fuelled" where
  "request_parts C E n source operation options configuration =
     then_do (Some (inputs_from_options (po_input options) (po_explicit options))) (\<lambda>inputs.
     let selector = or_default (po_server options) (cd_server (cfg_defaults configuration));
         credential = or_default (po_auth options) (cd_auth (cfg_defaults configuration)) in
     then_do (Some (select_server C E source operation selector configuration)) (\<lambda>server.
     then_do (Some (parameters C source operation)) (\<lambda>ps.
     then_do (each_do (bind_parameter C E (os_document source) n) ps
                \<lparr>dr_inputs = inputs, dr_path = od_path operation, dr_query = [], dr_headers = [], dr_cookies = [],
                 dr_derivations = []\<rparr>) (\<lambda>d.
     if CHR ''{'' \<in> set (dr_path d) then Some (Inl (InvalidInput ''target.path''))
     else
       then_do (Some (build_target C server (dr_path d))) (\<lambda>url.
       let target = (if dr_query d = [] then url else pe_append_pairs E url (dr_query d)) in
       then_do (bind_body C E source operation (po_content_type options) n
                  (d\<lparr>dr_headers := dr_headers d @ cookie_header (dr_cookies d)\<rparr>)) (\<lambda>(body, d).
       then_do (Some (bind_auth C source operation credential)) (\<lambda>(auth, secret_refs).
       then_do (Some (reject_unused (dr_inputs d))) (\<lambda>_.
       Some (Inr \<lparr>rq_target = target, rq_draft = d, rq_planned_body = body, rq_auth = auth,
                  rq_secret_refs = secret_refs\<rparr>)))))))))"

definition operation_risk :: "OperationDefinition \<Rightarrow> ProjectConfiguration \<Rightarrow> RiskClass" where
  "operation_risk operation configuration =
     (case map_of (cfg_risk configuration) (od_method operation @ '' '' @ od_path operation) of
        Some risk \<Rightarrow> risk | None \<Rightarrow> od_risk operation)"

definition exceeds_body_limit :: "ProjectConfiguration \<Rightarrow> PlannedBody option \<Rightarrow> bool" where
  "exceeds_body_limit configuration body =
     (case body of None \<Rightarrow> False | Some b \<Rightarrow> pol_max_request_bytes (cfg_policy configuration) < pb_bytes b)"

definition seal_request ::
  "crates \<Rightarrow> plan_env \<Rightarrow> OpenApiSource \<Rightarrow> OperationDefinition \<Rightarrow> PlanOptions \<Rightarrow> ProjectConfiguration \<Rightarrow> RequestParts
     \<Rightarrow> PlanError + RequestPlan" where
  "seal_request C E source operation options configuration r =
     and_then (ok_or (url_host_str (rq_target r)) InvalidServer) (\<lambda>host.
     and_then (ok_or (url_port_or_known_default (rq_target r)) InvalidServer) (\<lambda>port.
     and_then (enforce_host_policy host configuration) (\<lambda>_.
     let risk = operation_risk operation configuration in
     and_then (http_grants C configuration (od_method operation) (rq_target r) host port risk (rq_auth r)) (\<lambda>grants.
     and_then (ensure (\<not> exceeds_body_limit configuration (rq_planned_body r)) PolicyDenied) (\<lambda>_.
     and_then (policy_fingerprint C configuration) (\<lambda>policy_fp.
     and_then (validate_redaction_policy configuration) (\<lambda>_.
     and_then (config_fingerprint C E configuration) (\<lambda>config_fp.
     map_err (\<lambda>_. PlanSerialization) (seal_request_plan C
       \<lparr>rp_protocol = PROTOCOL, rp_kind = ''plan'', rp_version = VERSION, rp_config_fingerprint = config_fp,
        rp_policy_fingerprint = policy_fp, rp_source_fingerprints = [os_source_fingerprint source], rp_id = [],
        rp_operation = od_handle operation, rp_target = url_to_string (rq_target r), rp_method = od_method operation,
        rp_risk = risk, rp_required_grants = grants, rp_secret_refs = rq_secret_refs r,
        rp_headers = sort_key (\<lambda>h. to_ascii_lowercase (ph_name h)) (dr_headers (rq_draft r)), rp_auth = rq_auth r,
        rp_body = rq_planned_body r,
        rp_checks = (if po_checks options = [] then default_checks operation else po_checks options),
        rp_response_contract = JObject
          [(''components'', object_field_or_empty (json_get (os_document source) ''components'')),
           (''responses'', object_field_or_empty (map_of (od_operation operation) ''responses''))],
        rp_sensitive_headers = pol_sensitive_headers (cfg_policy configuration),
        rp_redact_response_json_pointers = pol_redact_response_json_pointers (cfg_policy configuration),
        rp_derivations = dr_derivations (rq_draft r), rp_valid = True, rp_fingerprint = [], rp_exit = 0\<rparr>)))))))))"

definition build_plan_with_configuration ::
  "crates \<Rightarrow> plan_env \<Rightarrow> nat \<Rightarrow> OpenApiSource \<Rightarrow> OperationDefinition \<Rightarrow> PlanOptions \<Rightarrow> ProjectConfiguration
     \<Rightarrow> RequestPlan fuelled" where
  "build_plan_with_configuration C E n source operation options configuration =
     (case blocking_absence source operation of
        Some absence \<Rightarrow>
          Some (Inl (BlockingAbsence (json_text_or absence ''location'' ''unknown'')
                       (json_text_or absence ''reason'' ''unsupported imported behavior'')))
      | None \<Rightarrow>
          then_do (request_parts C E n source operation options configuration) (\<lambda>r.
          Some (seal_request C E source operation options configuration r)))"

definition build_plan ::
  "crates \<Rightarrow> plan_env \<Rightarrow> nat \<Rightarrow> OpenApiSource \<Rightarrow> OperationDefinition \<Rightarrow> PlanOptions \<Rightarrow> RequestPlan fuelled" where
  "build_plan C E n source operation options =
     build_plan_with_configuration C E n source operation options default_configuration"

end
