(* ===== verification/Http_Planner_Props.thy ===== *)
theory Http_Planner_Props
  imports Http_Planner Http_Invoke_Props Ws_Planner_Props
begin

text \<open>
  Properties of planned requests: explicit inputs reach the request, the plan obeys the policy, the executor
  accepts it and rebuilds the body that was planned, and what bounds the validation of values.
\<close>

subsection \<open>Strings\<close>

lemma split_once_join: "c \<notin> set a \<Longrightarrow> split_once [c] (a @ [c] @ b) = Some (a, b)"
proof -
  assume "c \<notin> set a"
  then have "position [c] (a @ c # b) = Some (length a)"
    by (induction a) (auto simp: starts_with_def)
  then show ?thesis by (simp add: split_once_def)
qed

subsection \<open>Inputs\<close>

definition canonical :: "string set" where
  "canonical = {''path'', ''query'', ''header'', ''cookie''}"

definition alias_key :: "string \<Rightarrow> bool" where
  "alias_key k = (starts_with k ''headers.'' \<or> starts_with k ''cookies.'')"

definition canon :: "string \<Rightarrow> string" where
  "canon l = (if l = ''headers'' then ''header'' else if l = ''cookies'' then ''cookie'' else l)"

definition inputs_wf :: "Inputs \<Rightarrow> bool" where
  "inputs_wf i = (\<forall>l m. input_map l i = Some m \<longrightarrow> map_wf m)"

lemma input_map_cases:
  assumes "input_map l i = Some m"
  obtains "l = ''path''" "m = in_path i" | "l = ''query''" "m = in_query i"
    | "l = ''header''" "m = in_header i" | "l = ''headers''" "m = in_header i"
    | "l = ''cookie''" "m = in_cookie i" | "l = ''cookies''" "m = in_cookie i"
    using assms unfolding input_map_def insert_iff empty_iff by (metis option.inject option.distinct(1))

lemma set_input_map_other [simp]:
  "in_used (set_input_map l m i) = in_used i" "in_declared (set_input_map l m i) = in_declared i"
  "in_body (set_input_map l m i) = in_body i"
  by (simp_all add: set_input_map_def)

lemma input_map_set:
  assumes "input_map l i = Some n"
  shows "input_map l' (set_input_map l m i) = (if canon l' = canon l then Some m else input_map l' i)"
  using assms by (cases rule: input_map_cases) (simp_all add: input_map_def set_input_map_def canon_def)

lemma canonical_canon: "l \<in> canonical \<Longrightarrow> canon l = l"
  by (auto simp: canonical_def canon_def)

lemma insort_insert_set [simp]: "set (insort_insert x xs) = insert x (set xs)"
  by (simp add: insort_insert_key_def set_insort_key insert_absorb)

lemma declare_input_fields [simp]:
  "in_path (declare_input k i) = in_path i" "in_query (declare_input k i) = in_query i"
  "in_header (declare_input k i) = in_header i" "in_cookie (declare_input k i) = in_cookie i"
  "in_body (declare_input k i) = in_body i" "in_used (declare_input k i) = in_used i"
  "set (in_declared (declare_input k i)) = insert k (set (in_declared i))"
  "input_map l (declare_input k i) = input_map l i"
  by (simp_all add: declare_input_def input_map_def)

lemma use_input_fields [simp]:
  "in_path (use_input k i) = in_path i" "in_query (use_input k i) = in_query i"
  "in_header (use_input k i) = in_header i" "in_cookie (use_input k i) = in_cookie i"
  "in_body (use_input k i) = in_body i" "in_declared (use_input k i) = in_declared i"
  "set (in_used (use_input k i)) = insert k (set (in_used i))" "input_map l (use_input k i) = input_map l i"
  by (simp_all add: use_input_def input_map_def)

text \<open>What an insertion does: it changes one entry of one map, or the body.\<close>

lemma insert_input_Inr:
  assumes "insert_input k v override i = Inr i'"
  obtains location name where "split_once ''.'' k = Some (location, name)"
    and "in_used i' = in_used i" "set (in_declared i') = insert (location @ ''.'' @ name) (set (in_declared i))"
    and "location = ''body'' \<and> (\<forall>l. input_map l i' = input_map l i)
         \<or> (\<exists>m. input_map location i = Some m
              \<and> (\<forall>l. input_map l i' = (if canon l = canon location \<and> (override \<or> map_of m name = None)
                                       then Some (map_insert name v m) else input_map l i)))"
proof -
  from assms obtain location name where k: "split_once ''.'' k = Some (location, name)"
    by (auto simp: insert_input_def split: option.splits)
  show ?thesis
  proof (cases "location = ''body''")
    case True
    with assms k obtain b where "i' = declare_input (''body.'' @ name) (i\<lparr>in_body := Some b\<rparr>)"
      by (auto simp: insert_input_def and_then_Inr_iff)
    with True show ?thesis by (intro that [OF k]) (simp_all add: input_map_def)
  next
    case False
    with assms k obtain m where m: "input_map location i = Some m"
      and i': "i' = declare_input (location @ ''.'' @ name)
                 (if override \<or> map_of m name = None then set_input_map location (map_insert name v m) i else i)"
      by (auto simp: insert_input_def split: option.splits)
    from m have "input_map l i' = (if canon l = canon location \<and> (override \<or> map_of m name = None)
                                     then Some (map_insert name v m) else input_map l i)" for l
      by (simp add: i' input_map_set [OF m])
    with m show ?thesis by (intro that [OF k]) (auto simp: i')
  qed
qed

lemma insert_input_wf: "insert_input k v override i = Inr i' \<Longrightarrow> inputs_wf i \<Longrightarrow> inputs_wf i'"
  unfolding inputs_wf_def by (erule insert_input_Inr) (metis map_insert_wf option.inject)

text \<open>The inputs hold the value of a key, or an alias was declared, which \<open>reject_unused\<close> will refuse.\<close>

definition holds_input :: "string \<Rightarrow> string \<Rightarrow> json \<Rightarrow> Inputs \<Rightarrow> bool" where
  "holds_input location name v i =
     (location @ ''.'' @ name \<in> set (in_declared i)
      \<and> ((\<exists>m. input_map location i = Some m \<and> map_of m name = Some v) \<or> (\<exists>k \<in> set (in_declared i). alias_key k)))"

lemma canonical_dot: "location \<in> canonical \<Longrightarrow> split_once ''.'' (location @ ''.'' @ name) = Some (location, name)"
  by (rule split_once_join) (auto simp: canonical_def)

lemma inserted_input_held:
  assumes "insert_input (location @ ''.'' @ name) v True i = Inr i'" and "location \<in> canonical" and "inputs_wf i"
  shows "holds_input location name v i'"
  using assms(1)
proof (rule insert_input_Inr)
  fix l nm
  assume k: "split_once ''.'' (location @ ''.'' @ name) = Some (l, nm)"
    and d: "set (in_declared i') = insert (l @ ''.'' @ nm) (set (in_declared i))"
    and m: "l = ''body'' \<and> (\<forall>l. input_map l i' = input_map l i)
         \<or> (\<exists>m. input_map l i = Some m
              \<and> (\<forall>l'. input_map l' i' = (if canon l' = canon l \<and> (True \<or> map_of m nm = None)
                                       then Some (map_insert nm v m) else input_map l' i)))"
  from k canonical_dot [OF assms(2)] have l: "l = location" "nm = name" by auto
  then have "l \<noteq> ''body''" using assms(2) by (auto simp: canonical_def)
  with m l obtain n where "input_map location i = Some n" "input_map location i' = Some (map_insert name v n)" by auto
  then show ?thesis using d l assms(3) by (simp add: holds_input_def inputs_wf_def map_of_map_insert)
qed

lemma held_input_kept:
  assumes "insert_input k w override i = Inr i'" and "k \<noteq> location @ ''.'' @ name" and "location \<in> canonical"
    and "inputs_wf i" and "holds_input location name v i"
  shows "holds_input location name v i'"
  using assms(1)
proof (rule insert_input_Inr)
  fix l nm
  assume k: "split_once ''.'' k = Some (l, nm)"
    and declared: "set (in_declared i') = insert (l @ ''.'' @ nm) (set (in_declared i))"
    and changed: "l = ''body'' \<and> (\<forall>l. input_map l i' = input_map l i)
         \<or> (\<exists>m. input_map l i = Some m
              \<and> (\<forall>l'. input_map l' i' = (if canon l' = canon l \<and> (override \<or> map_of m nm = None)
                                       then Some (map_insert nm w m) else input_map l' i)))"
  show ?thesis
  proof (cases "alias_key (l @ ''.'' @ nm) \<or> (\<exists>k \<in> set (in_declared i). alias_key k)")
    case True
    with assms(5) declared show ?thesis by (auto simp: holds_input_def)
  next
    case False
    then have l: "l \<noteq> ''headers''" "l \<noteq> ''cookies''" by (auto simp: alias_key_def starts_with_def)
    have other: "\<not> (l = location \<and> nm = name)" using assms(2) split_once_Some [OF k] by auto
    from assms(5) False obtain m where m: "input_map location i = Some m" "map_of m name = Some v"
      and d: "location @ ''.'' @ name \<in> set (in_declared i)"
      by (auto simp: holds_input_def)
    have "\<exists>m. input_map location i' = Some m \<and> map_of m name = Some v"
    proof (cases "canon location = canon l")
      case True
      then have "location = l" using l canonical_canon [OF assms(3)] by (simp add: canon_def)
      moreover have "map_wf m" using m assms(4) by (auto simp: inputs_wf_def)
      ultimately show ?thesis using changed m other by (auto simp: map_of_map_insert)
    next
      case False
      with changed m show ?thesis by auto
    qed
    with d declared show ?thesis by (simp add: holds_input_def)
  qed
qed

lemma for_each_keeps:
  assumes "\<And>x s s'. f x s = Inr s' \<Longrightarrow> P s \<Longrightarrow> P s'" and "for_each f xs s = Inr s'" and "P s"
  shows "P s'"
  using assms(2,3) by (induction xs arbitrary: s) (auto split: sum.splits intro: assms(1))

definition fresh_inputs :: "Inputs \<Rightarrow> bool" where
  "fresh_inputs i = (inputs_wf i \<and> in_used i = [])"

lemma insert_input_fresh: "insert_input k v override i = Inr i' \<Longrightarrow> fresh_inputs i \<Longrightarrow> fresh_inputs i'"
  using insert_input_wf [of k v override i i'] by (auto simp: fresh_inputs_def elim: insert_input_Inr)

lemma input_map_body [simp]: "input_map l (i\<lparr>in_body := b\<rparr>) = input_map l i"
  by (simp add: input_map_def)

lemma body_input_fresh: "fresh_inputs i \<Longrightarrow> fresh_inputs (declare_input k (i\<lparr>in_body := b\<rparr>))"
  by (simp add: fresh_inputs_def inputs_wf_def)

lemma section_entries_fresh:
  assumes "for_each (\<lambda>(name, w). insert_input (f name) w False) vs i = Inr i'" and "fresh_inputs i"
  shows "fresh_inputs i'"
  by (rule for_each_keeps [where P = fresh_inputs, OF _ assms]) (auto dest: insert_input_fresh)

lemma apply_section_fresh:
  assumes "apply_section x i = Inr i'" and "fresh_inputs i"
  shows "fresh_inputs i'"
  using assms body_input_fresh [OF assms(2)]
  by (auto simp: apply_section_def Let_def split: if_splits option.splits prod.splits elim: section_entries_fresh)

lemma no_inputs_fresh: "fresh_inputs no_inputs"
  by (auto simp: fresh_inputs_def inputs_wf_def no_inputs_def input_map_def map_wf_def split: if_splits)

lemma apply_document_fresh: "apply_document input i = Inr i' \<Longrightarrow> fresh_inputs i \<Longrightarrow> fresh_inputs i'"
  using for_each_keeps [where P = fresh_inputs and f = apply_section, OF apply_section_fresh] body_input_fresh
  by (auto simp: apply_document_def split: option.splits if_splits)

lemma explicit_fresh: "for_each (\<lambda>(k, v). insert_input k v True) xs i = Inr i' \<Longrightarrow> fresh_inputs i \<Longrightarrow> fresh_inputs i'"
  by (rule for_each_keeps [where P = fresh_inputs]) (auto dest: insert_input_fresh)

lemma explicit_held:
  assumes "for_each (\<lambda>(k, v). insert_input k v True) xs i = Inr i'" and "fresh_inputs i" and "location \<in> canonical"
    and "map_of (rev xs) (location @ ''.'' @ name) = Some v"
  shows "holds_input location name v i'"
  using assms(1,4)
proof (induction xs arbitrary: i' rule: rev_induct)
  case Nil
  then show ?case by simp
next
  case (snoc x xs)
  obtain k w where x: "x = (k, w)" by (cases x)
  from snoc.prems(1) x obtain j where j: "for_each (\<lambda>(k, v). insert_input k v True) xs i = Inr j" "insert_input k w True j = Inr i'"
    unfolding for_each_append and_then_Inr_iff for_each_single x prod.case by blast
  have wf: "inputs_wf j" using explicit_fresh [OF j(1) assms(2)] by (simp add: fresh_inputs_def)
  show ?case
  proof (cases "k = location @ ''.'' @ name")
    case True
    with snoc.prems(2) x have "v = w" by simp
    with True j(2) wf assms(3) show ?thesis by (auto intro: inserted_input_held)
  next
    case False
    with snoc x j(1) have "holds_input location name v j" by simp
    with held_input_kept [OF j(2) False assms(3) wf] show ?thesis .
  qed
qed

lemma inputs_from_options_held:
  assumes "inputs_from_options input explicit = Inr i" and "location \<in> canonical"
    and "map_of (rev explicit) (location @ ''.'' @ name) = Some v"
  shows "fresh_inputs i \<and> holds_input location name v i"
proof -
  from assms(1) obtain j where "fresh_inputs j" "for_each (\<lambda>(k, v). insert_input k v True) explicit j = Inr i"
    using no_inputs_fresh apply_document_fresh by (auto simp: inputs_from_options_def and_then_Inr_iff split: option.splits)
  with explicit_held explicit_fresh assms(2,3) show ?thesis by blast
qed

subsection \<open>Traces of inputs in the draft\<close>

text \<open>An input that was used is derived in the plan, with its value; a header is also among the headers.\<close>

definition derived :: "Inputs \<Rightarrow> Draft \<Rightarrow> string \<Rightarrow> string \<Rightarrow> bool" where
  "derived i0 d location name =
     (\<exists>m der. der \<in> set (dr_derivations d) \<and> fd_field der = location @ ''.'' @ name \<and> fd_source der = ''explicit-input''
        \<and> input_map location i0 = Some m \<and> map_of m name = Some (fd_logical_value der)
        \<and> (location = ''header'' \<longrightarrow>
             (\<exists>w. fd_wire_value der = Some w \<and> \<lparr>ph_name = name, ph_value = w\<rparr> \<in> set (dr_headers d))))"

definition traced :: "Inputs \<Rightarrow> Draft \<Rightarrow> bool" where
  "traced i0 d =
     ((\<forall>l. input_map l (dr_inputs d) = input_map l i0) \<and> set (in_declared (dr_inputs d)) = set (in_declared i0)
      \<and> (\<forall>k \<in> set (in_used (dr_inputs d)). \<not> alias_key k
           \<and> (\<forall>location \<in> canonical. \<forall>name. k = location @ ''.'' @ name \<longrightarrow> derived i0 d location name)))"

lemma derived_mono:
  "derived i0 d location name \<Longrightarrow> set (dr_derivations d) \<subseteq> set (dr_derivations d') \<Longrightarrow> set (dr_headers d) \<subseteq> set (dr_headers d')
     \<Longrightarrow> derived i0 d' location name"
  unfolding derived_def by blast

lemma canonical_key_inj:
  "location \<in> canonical \<Longrightarrow> location' \<in> canonical \<Longrightarrow> location @ ''.'' @ name = location' @ ''.'' @ name'
     \<Longrightarrow> location = location' \<and> name = name'"
  using canonical_dot [of location name] canonical_dot [of location' name'] by simp

lemma place_parameter_grows:
  assumes "place_parameter E location name v provenance wires d = Inr d'"
  shows "dr_inputs d' = dr_inputs d \<and> set (dr_derivations d) \<subseteq> set (dr_derivations d')
       \<and> set (dr_headers d) \<subseteq> set (dr_headers d')
       \<and> (\<exists>w t. derivation (location @ ''.'' @ name) v provenance (Some w) t \<in> set (dr_derivations d')
            \<and> (location = ''header'' \<longrightarrow> \<lparr>ph_name = name, ph_value = w\<rparr> \<in> set (dr_headers d')))"
  using assms by (auto simp: place_parameter_def Let_def split: if_splits) blast+

lemma take_input_Some:
  assumes "take_input location name i = (Some (v, provenance), i')"
  shows "location \<in> canonical \<and> (\<exists>m. input_map location i = Some m \<and> map_of m name = Some v)
       \<and> provenance = ''explicit-input'' \<and> i' = use_input (location @ ''.'' @ name) i"
  using assms by (auto simp: take_input_def canonical_def bind_eq_Some_conv split: option.splits if_splits)

lemma take_input_None: "take_input location name i = (None, i') \<Longrightarrow> i' = i"
  by (auto simp: take_input_def split: option.splits if_splits)

lemma parameter_value_Some:
  assumes "parameter_value p location name i = (Some (v, provenance), i')"
  shows "take_input location name i = (Some (v, provenance), i') \<or> (i' = i \<and> provenance = ''schema-default'')"
  using assms by (auto simp: parameter_value_def dest: take_input_None split: prod.splits option.splits)

lemma parameter_value_None: "parameter_value p location name i = (None, i') \<Longrightarrow> i' = i"
  by (auto simp: parameter_value_def dest: take_input_None split: prod.splits option.splits)

lemma canonical_not_alias: "location \<in> canonical \<Longrightarrow> \<not> alias_key (location @ ''.'' @ name)"
  by (auto simp: canonical_def alias_key_def starts_with_def)

lemma bind_parameter_traced:
  assumes "bind_parameter C E document n p d = Some (Inr d')" and "traced i0 d"
  shows "traced i0 d'"
proof -
  let ?name = "field_text p ''name''" let ?location = "field_text p ''in''"
  obtain found i where pv: "parameter_value p ?location ?name (dr_inputs d) = (found, i)" by (cases "parameter_value p ?location ?name (dr_inputs d)")
  show ?thesis
  proof (cases "?name = [] \<or> ?location = []")
    case True
    with assms show ?thesis by (auto simp: bind_parameter_def Let_def)
  next
    case False
    show ?thesis
    proof (cases found)
      case None
      with False assms pv parameter_value_None [of p ?location ?name "dr_inputs d" i] show ?thesis
        by (auto simp: bind_parameter_def Let_def split: if_splits)
    next
      case (Some vp)
      obtain v provenance where vp: "vp = (v, provenance)" by (cases vp)
      from False assms(1) pv Some vp obtain wires where
        place: "place_parameter E ?location ?name v provenance wires (d\<lparr>dr_inputs := i\<rparr>) = Inr d'"
        by (auto simp: bind_parameter_def Let_def then_do_Inr_iff and_then_Inr_iff)
      note grows = place_parameter_grows [OF place]
      have mono: "derived i0 d l nm \<Longrightarrow> derived i0 d' l nm" for l nm
        using grows by (intro derived_mono [of i0 d l nm d']) simp_all
      from parameter_value_Some [OF pv [unfolded Some vp]] show ?thesis
      proof
        assume "take_input ?location ?name (dr_inputs d) = (Some (v, provenance), i)"
        note taken = take_input_Some [OF this]
        have new: "derived i0 d' ?location ?name"
        proof -
          from grows obtain w t where der: "derivation (?location @ ''.'' @ ?name) v provenance (Some w) t \<in> set (dr_derivations d')"
            "?location = ''header'' \<longrightarrow> \<lparr>ph_name = ?name, ph_value = w\<rparr> \<in> set (dr_headers d')" by blast
          from taken assms(2) obtain m where "input_map ?location i0 = Some m" "map_of m ?name = Some v" by (auto simp: traced_def)
          with der taken show ?thesis unfolding derived_def
            by (intro exI [of _ m] exI [of _ "derivation (?location @ ''.'' @ ?name) v provenance (Some w) t"])
              (simp add: derivation_def)
        qed
        show ?thesis
          unfolding traced_def
        proof (intro conjI ballI allI impI)
          fix k l nm
          assume k: "k \<in> set (in_used (dr_inputs d'))" "l \<in> canonical" "k = l @ ''.'' @ nm"
          show "derived i0 d' l nm"
          proof (cases "k = ?location @ ''.'' @ ?name")
            case True
            with k have "l @ ''.'' @ nm = ?location @ ''.'' @ ?name" by simp
            with k(2) taken have "l = ?location \<and> nm = ?name" by (intro canonical_key_inj) simp_all
            with new show ?thesis by simp
          next
            case False
            with k taken grows have "k \<in> set (in_used (dr_inputs d))" by simp
            with k(2,3) assms(2) have "derived i0 d l nm" by (simp add: traced_def)
            then show ?thesis by (rule mono)
          qed
        qed (use taken grows assms(2) canonical_not_alias in \<open>auto simp: traced_def\<close>)
      next
        assume "i = dr_inputs d \<and> provenance = ''schema-default''"
        with grows assms(2) mono show ?thesis by (simp add: traced_def)
      qed
    qed
  qed
qed

lemma each_do_keeps:
  assumes "\<And>x s s'. f x s = Some (Inr s') \<Longrightarrow> P s \<Longrightarrow> P s'" and "each_do f xs s = Some (Inr s')" and "P s"
  shows "P s'"
  using assms(2,3) by (induction xs arbitrary: s) (auto simp: then_do_Inr_iff intro: assms(1))

lemma traced_more_headers:
  assumes "traced i0 d"
  shows "traced i0 (d\<lparr>dr_headers := dr_headers d @ hs\<rparr>)"
proof -
  have "derived i0 d l nm \<Longrightarrow> derived i0 (d\<lparr>dr_headers := dr_headers d @ hs\<rparr>) l nm" for l nm
    by (rule derived_mono [of i0 d l nm]) auto
  with assms show ?thesis by (simp add: traced_def)
qed

lemma fold_use_input:
  "set (in_used (fold use_input ks i)) = set ks \<union> set (in_used i)"
  "in_declared (fold use_input ks i) = in_declared i" "input_map l (fold use_input ks i) = input_map l i"
  by (induction ks arbitrary: i) simp_all

lemma use_body_fields:
  "set (in_used (use_body i)) = insert ''body'' {k \<in> set (in_declared i). starts_with k ''body.''} \<union> set (in_used i)"
  "in_declared (use_body i) = in_declared i" "input_map l (use_body i) = input_map l i"
  by (auto simp: use_body_def fold_use_input)

lemma body_key_plain: "k = ''body'' \<or> starts_with k ''body.'' \<Longrightarrow> \<not> alias_key k \<and> (location \<in> canonical \<longrightarrow> k \<noteq> location @ ''.'' @ name)"
  by (auto simp: alias_key_def canonical_def starts_with_iff)

lemma body_value_inputs:
  assumes "body_value operation i = (b, i')"
  shows "i' = i \<or> i' = use_body i"
  using assms by (auto simp: body_value_def split: option.splits)

lemma bind_body_Inr:
  assumes "bind_body C E source operation requested n d = Some (Inr (body, d'))"
  obtains "body = None" "d' = d"
  | i s v provenance where "i = dr_inputs d \<or> i = use_body (dr_inputs d)"
      "d' = d\<lparr>dr_inputs := i,
              dr_headers := dr_headers d @ [\<lparr>ph_name = ''Content-Type'', ph_value = sb_media_type s\<rparr>],
              dr_derivations := dr_derivations d
                @ [derivation ''body'' v provenance (Some (sb_inline s)) (sb_transformation s)]\<rparr>"
      "body = Some \<lparr>pb_media_type = sb_media_type s, pb_bytes = len_u64 (sb_data s),
                    pb_blake3 = digest C (sb_data s), pb_encoding = sb_encoding s, pb_inline = sb_inline s\<rparr>"
      "\<exists>media_type. serialize_body C E media_type v = Inr s"
proof (cases "map_of (od_operation operation) ''requestBody''")
  case None
  with assms that(1) show ?thesis by (auto simp: bind_body_def split: if_splits)
next
  case (Some b)
  obtain found i where bv: "body_value operation (dr_inputs d) = (found, i)" by (cases "body_value operation (dr_inputs d)")
  show ?thesis
  proof (cases found)
    case None
    with Some assms bv that(1) show ?thesis by (auto simp: bind_body_def then_do_Inr_iff split: if_splits)
  next
    case (Some vp)
    obtain v provenance where vp: "vp = (v, provenance)" by (cases vp)
    from Some vp \<open>map_of (od_operation operation) ''requestBody'' = Some b\<close> assms bv obtain media_type s where
      s: "serialize_body C E media_type v = Inr s"
      and rest: "d' = d\<lparr>dr_inputs := i,
              dr_headers := dr_headers d @ [\<lparr>ph_name = ''Content-Type'', ph_value = sb_media_type s\<rparr>],
              dr_derivations := dr_derivations d
                @ [derivation ''body'' v provenance (Some (sb_inline s)) (sb_transformation s)]\<rparr>"
        "body = Some \<lparr>pb_media_type = sb_media_type s, pb_bytes = len_u64 (sb_data s),
                    pb_blake3 = digest C (sb_data s), pb_encoding = sb_encoding s, pb_inline = sb_inline s\<rparr>"
      by (auto simp: bind_body_def then_do_Inr_iff)
    from body_value_inputs [OF bv] s rest show ?thesis by (intro that(2) [where i = i and s = s and v = v and provenance = provenance]) auto
  qed
qed

lemma bind_body_traced:
  assumes "bind_body C E source operation requested n d = Some (Inr (body, d'))" and "traced i0 d"
  shows "traced i0 d'"
  using assms(1)
proof (cases rule: bind_body_Inr)
  case 1
  with assms(2) show ?thesis by simp
next
  case (2 i s v provenance)
  have mono: "derived i0 d l nm \<Longrightarrow> derived i0 d' l nm" for l nm
    by (rule derived_mono [of i0 d l nm d']) (auto simp: 2(2))
  show ?thesis
    unfolding traced_def
  proof (intro conjI ballI allI impI)
    fix k l nm
    assume k: "k \<in> set (in_used (dr_inputs d'))" "l \<in> canonical" "k = l @ ''.'' @ nm"
    have "k \<in> set (in_used (dr_inputs d)) \<or> k = ''body'' \<or> starts_with k ''body.''"
      using k(1) 2(1,2) by (auto simp: use_body_fields)
    with k(2,3) body_key_plain [of k l nm] have "k \<in> set (in_used (dr_inputs d))" by blast
    with k(2,3) assms(2) show "derived i0 d' l nm" by (intro mono) (simp add: traced_def)
  next
    fix k
    assume k: "k \<in> set (in_used (dr_inputs d'))"
    have "k \<in> set (in_used (dr_inputs d)) \<or> k = ''body'' \<or> starts_with k ''body.''"
      using k 2(1,2) by (auto simp: use_body_fields)
    with assms(2) body_key_plain [of k] show "\<not> alias_key k" by (auto simp: traced_def)
  qed (use 2(1,2) assms(2) in \<open>auto simp: traced_def use_body_fields\<close>)
qed

lemma request_parts_Inr:
  assumes "request_parts C E n source operation options configuration = Some (Inr r)"
  obtains inputs server ps url d where
    "inputs_from_options (po_input options) (po_explicit options) = Inr inputs"
    "parameters C source operation = Inr ps"
    "each_do (bind_parameter C E (os_document source) n) ps
       \<lparr>dr_inputs = inputs, dr_path = od_path operation, dr_query = [], dr_headers = [], dr_cookies = [], dr_derivations = []\<rparr>
       = Some (Inr d)"
    "CHR ''{'' \<notin> set (dr_path d)" "build_target C server (dr_path d) = Inr url"
    "rq_target r = (if dr_query d = [] then url else pe_append_pairs E url (dr_query d))"
    "bind_body C E source operation (po_content_type options) n (d\<lparr>dr_headers := dr_headers d @ cookie_header (dr_cookies d)\<rparr>)
       = Some (Inr (rq_planned_body r, rq_draft r))"
    "bind_auth C source operation (or_default (po_auth options) (cd_auth (cfg_defaults configuration)))
       = Inr (rq_auth r, rq_secret_refs r)"
    "reject_unused (dr_inputs (rq_draft r)) = Inr ()"
  using assms unfolding request_parts_def Let_def then_do_Inr_iff option.inject
  by (auto simp: then_do_Inr_iff split: if_splits prod.splits)

lemma reject_unused_Inr:
  "reject_unused i = Inr u \<Longrightarrow> k \<in> set (in_declared i) \<Longrightarrow> k \<in> set (in_used i) \<or> k = ''body'' \<or> starts_with k ''body.''"
  by (auto simp: reject_unused_def find_None_iff split: option.splits)

lemma request_parts_trace:
  assumes "request_parts C E n source operation options configuration = Some (Inr r)" and "location \<in> canonical"
    and "map_of (rev (po_explicit options)) (location @ ''.'' @ name) = Some v"
  obtains i0 m where "derived i0 (rq_draft r) location name" "input_map location i0 = Some m" "map_of m name = Some v"
  using assms(1)
proof (rule request_parts_Inr)
  fix inputs server ps url d
  assume inputs: "inputs_from_options (po_input options) (po_explicit options) = Inr inputs"
    and ps: "each_do (bind_parameter C E (os_document source) n) ps
       \<lparr>dr_inputs = inputs, dr_path = od_path operation, dr_query = [], dr_headers = [], dr_cookies = [], dr_derivations = []\<rparr>
       = Some (Inr d)"
    and body: "bind_body C E source operation (po_content_type options) n (d\<lparr>dr_headers := dr_headers d @ cookie_header (dr_cookies d)\<rparr>)
       = Some (Inr (rq_planned_body r, rq_draft r))"
    and unused: "reject_unused (dr_inputs (rq_draft r)) = Inr ()"
  from inputs_from_options_held [OF inputs assms(2,3)] have held: "fresh_inputs inputs" "holds_input location name v inputs" by simp_all
  then have "traced inputs
       \<lparr>dr_inputs = inputs, dr_path = od_path operation, dr_query = [], dr_headers = [], dr_cookies = [], dr_derivations = []\<rparr>"
    by (simp add: traced_def fresh_inputs_def)
  from each_do_keeps [where P = "traced inputs" and f = "bind_parameter C E (os_document source) n", OF _ ps this]
  have "traced inputs d" using bind_parameter_traced by blast
  then have "traced inputs (d\<lparr>dr_headers := dr_headers d @ cookie_header (dr_cookies d)\<rparr>)"
    by (rule traced_more_headers)
  from bind_body_traced [OF body this] have traced: "traced inputs (rq_draft r)" .
  have used: "k \<in> set (in_used (dr_inputs (rq_draft r)))"
    if "k \<in> set (in_declared inputs)" "\<not> (k = ''body'' \<or> starts_with k ''body.'')" for k
    using reject_unused_Inr [OF unused, of k] that traced by (auto simp: traced_def)
  have "\<not> alias_key k" if k: "k \<in> set (in_declared inputs)" for k
  proof
    assume "alias_key k"
    with body_key_plain [of k] used [OF k] traced show False by (auto simp: traced_def)
  qed
  with held(2) obtain m where m: "input_map location inputs = Some m" "map_of m name = Some v"
    and "location @ ''.'' @ name \<in> set (in_declared inputs)" by (auto simp: holds_input_def)
  moreover have "\<not> (location @ ''.'' @ name = ''body'' \<or> starts_with (location @ ''.'' @ name) ''body.'')"
    using assms(2) by (auto simp: canonical_def starts_with_iff)
  ultimately have "location @ ''.'' @ name \<in> set (in_used (dr_inputs (rq_draft r)))" by (intro used)
  with traced assms(2) have "derived inputs (rq_draft r) location name" unfolding traced_def by blast
  with m that show thesis by blast
qed

lemma derived_value:
  assumes "derived i0 d location name" and "input_map location i0 = Some m" and "map_of m name = Some v"
  obtains der where "der \<in> set (dr_derivations d)" "fd_field der = location @ ''.'' @ name" "fd_source der = ''explicit-input''"
    "fd_logical_value der = v"
    "location = ''header'' \<longrightarrow> (\<exists>w. fd_wire_value der = Some w \<and> \<lparr>ph_name = name, ph_value = w\<rparr> \<in> set (dr_headers d))"
  using assms unfolding derived_def by auto

lemma seal_request_Inr:
  assumes "seal_request C E source operation options configuration r = Inr plan"
  obtains host port grants material where
    "seal_request_plan C material = Inr plan" "url_host_str (rq_target r) = Some host"
    "url_port_or_known_default (rq_target r) = Some port" "host_allowed host configuration"
    "http_grants C configuration (od_method operation) (rq_target r) host port (operation_risk operation configuration) (rq_auth r)
       = Inr grants"
    "\<not> exceeds_body_limit configuration (rq_planned_body r)"
    "rp_target material = url_to_string (rq_target r)" "rp_method material = od_method operation"
    "rp_risk material = operation_risk operation configuration" "rp_required_grants material = grants"
    "rp_secret_refs material = rq_secret_refs r" "rp_auth material = rq_auth r" "rp_body material = rq_planned_body r"
    "rp_headers material = sort_key (\<lambda>h. to_ascii_lowercase (ph_name h)) (dr_headers (rq_draft r))"
    "rp_derivations material = dr_derivations (rq_draft r)"
  using assms unfolding seal_request_def Let_def and_then_Inr_iff ok_or_Inr_iff ensure_Inr_iff map_err_Inr_iff
  by (elim exE conjE) (rule that, assumption, simp_all add: enforce_host_policy_Inr)

lemma sealed_request_fields:
  assumes "seal_request_plan C m = Inr p"
  shows "rp_target p = rp_target m" "rp_method p = rp_method m" "rp_risk p = rp_risk m"
    "rp_required_grants p = rp_required_grants m" "rp_secret_refs p = rp_secret_refs m" "rp_auth p = rp_auth m"
    "rp_body p = rp_body m" "rp_headers p = rp_headers m" "rp_derivations p = rp_derivations m"
  using assms by (auto simp: seal_request_plan_def clear_request_plan_def Let_def split: option.splits)

lemma build_plan_Inr:
  assumes "build_plan_with_configuration C E n source operation options configuration = Some (Inr plan)"
  obtains r where "request_parts C E n source operation options configuration = Some (Inr r)"
    "seal_request C E source operation options configuration r = Inr plan"
  using assms by (auto simp: build_plan_with_configuration_def then_do_Inr_iff split: option.splits)

subsection \<open>Bodies\<close>

lemma serialize_body_decodes:
  assumes "serialize_body C E media_type v = Inr s" and "\<And>b. b64_decode C (b64_encode C b) = Some b"
  shows "sb_encoding s = ''utf-8'' \<and> as_bytes (sb_inline s) = sb_data s
       \<or> sb_encoding s = ''base64'' \<and> b64_decode C (sb_inline s) = Some (sb_data s)"
  using assms(1) unfolding serialize_body_def
  by (auto simp: Let_def result_iffs assms(2) split: if_splits option.splits)

subsection \<open>Grants\<close>

lemma http_grants_Inr:
  assumes "http_grants C configuration mth target host port risk auth = Inr grants"
  obtains for_token where "token_grants C auth = Inr for_token"
    "set grants = set ([net_grant host port, ''http:'' @ mth]
        @ (if url_scheme target = ''http'' then [''net-insecure-http''] else [])
        @ literal_grant host
        @ (if risk = Destructive then [''approve:destructive''] else [])
        @ (if production_origin configuration target
              \<and> pol_require_production_write_approval (cfg_policy configuration) \<and> risk \<in> {Write, Destructive}
           then [''approve:production-write''] else [])
        @ (case auth of
             None \<Rightarrow> []
           | Some a \<Rightarrow> (''secret:'' @ pa_profile a)
               # (if pa_placement a = ''tls-client-certificate'' then [''tls-client-cert:'' @ pa_profile a] else []))
        @ for_token)"
  using assms unfolding http_grants_def and_then_Inr_iff sum.inject
  by (elim exE conjE) (rule that, assumption, hypsubst, rule set_sort)

lemma http_grants_members:
  assumes "http_grants C configuration mth target host port risk auth = Inr grants"
  shows "net_grant host port \<in> set grants \<and> ''http:'' @ mth \<in> set grants
       \<and> (url_scheme target = ''http'' \<longrightarrow> ''net-insecure-http'' \<in> set grants)
       \<and> (risk = Destructive \<longrightarrow> ''approve:destructive'' \<in> set grants)
       \<and> (pol_require_production_write_approval (cfg_policy configuration) \<and> risk \<in> {Write, Destructive}
            \<and> production_origin configuration target \<longrightarrow> ''approve:production-write'' \<in> set grants)
       \<and> (\<forall>a. auth = Some a \<longrightarrow> ''secret:'' @ pa_profile a \<in> set grants)"
  using assms
proof (rule http_grants_Inr)
  fix ft
  assume set: "set grants = set ([net_grant host port, ''http:'' @ mth]
        @ (if url_scheme target = ''http'' then [''net-insecure-http''] else [])
        @ literal_grant host
        @ (if risk = Destructive then [''approve:destructive''] else [])
        @ (if production_origin configuration target
              \<and> pol_require_production_write_approval (cfg_policy configuration) \<and> risk \<in> {Write, Destructive}
           then [''approve:production-write''] else [])
        @ (case auth of
             None \<Rightarrow> []
           | Some a \<Rightarrow> (''secret:'' @ pa_profile a)
               # (if pa_placement a = ''tls-client-certificate'' then [''tls-client-cert:'' @ pa_profile a] else []))
        @ ft)"
  show ?thesis by (intro conjI allI impI) (simp_all add: set)
qed

lemma http_grants_token:
  assumes "token_grants C auth = Inr for_token" and "Option.bind auth pa_token_url = Some t"
  obtains u h p where "url_parse C t = Some u" "url_host_str u = Some h" "url_port_or_known_default u = Some p"
    "net_grant h p \<in> set for_token" "''http:POST'' \<in> set for_token"
    "url_scheme u = ''http'' \<longrightarrow> ''net-insecure-http'' \<in> set for_token"
proof -
  from assms obtain u h p where "url_parse C t = Some u" "url_host_str u = Some h" "url_port_or_known_default u = Some p"
    "for_token = [net_grant h p, ''http:POST''] @ (if url_scheme u = ''http'' then [''net-insecure-http''] else [])"
    unfolding token_grants_def by (simp add: and_then_Inr_iff ok_or_Inr_iff) blast
  then show ?thesis by (intro that [of u h p]) auto
qed

text \<open>Given the grants of a target, the only denial it can meet is about a resolved address.\<close>

lemma target_denied_by_address_only:
  assumes "evaluate_runtime_target C env plan target mth options = Inr (Some d, addresses)"
    and "url_host_str target = Some host" and "url_port_or_known_default target = Some port"
    and "net_grant host port \<in> opt_grants options" and "''http:'' @ mth \<in> opt_grants options"
    and "url_scheme target = ''http'' \<Longrightarrow> ''net-insecure-http'' \<in> opt_grants options"
  shows "de_reason d = ''resolved address is denied by the network boundary''"
proof -
  have "missing_grant (opt_grants options) [net_grant host port, ''http:'' @ mth] = None"
    using assms(4,5) by (simp add: missing_grant_None)
  with assms show ?thesis
    by (auto simp: evaluate_runtime_target_def denial_def and_then_Inr_iff ok_or_Inr_iff split: if_splits option.splits)
qed

lemma build_target_Inr:
  "build_target C server path = Inr url \<Longrightarrow>
     (\<exists>s. url_parse C s = Some url) \<and> url_scheme url \<in> {''http'', ''https''} \<and> url_username url = [] \<and> url_password url = None"
  by (auto simp: build_target_def result_iffs split: if_splits)

lemma planned_target:
  assumes "request_parts C E n source operation options configuration = Some (Inr r)"
    and "\<And>u pairs. pe_append_pairs E u pairs
           = u\<lparr>url_query := url_query (pe_append_pairs E u pairs), url_to_string := url_to_string (pe_append_pairs E u pairs)\<rparr>"
  obtains url s pairs where "url_parse C s = Some url" "rq_target r = url \<or> rq_target r = pe_append_pairs E url pairs"
    "url_scheme (rq_target r) \<in> {''http'', ''https''}" "url_username (rq_target r) = []" "url_password (rq_target r) = None"
  using assms(1)
proof (rule request_parts_Inr)
  fix server url d
  assume url: "build_target C server (dr_path d) = Inr url"
    and r: "rq_target r = (if dr_query d = [] then url else pe_append_pairs E url (dr_query d))"
  have same: "url_scheme (pe_append_pairs E url ps) = url_scheme url" "url_username (pe_append_pairs E url ps) = url_username url"
    "url_password (pe_append_pairs E url ps) = url_password url" for ps
    by (subst assms(2), simp)+
  from build_target_Inr [OF url] obtain s where "url_parse C s = Some url" by blast
  with r build_target_Inr [OF url] show thesis
    by (intro that [of s url "dr_query d"]) (simp_all add: same split: if_splits)
qed

subsection \<open>How deep validation goes\<close>

text \<open>A schema of depth at most \<open>n\<close> without references.\<close>

fun ref_free :: "nat \<Rightarrow> json \<Rightarrow> bool" where
  "ref_free n (JArray js) = (case n of 0 \<Rightarrow> js = [] | Suc m \<Rightarrow> list_all (ref_free m) js)"
| "ref_free n (JObject m) =
     (get_str (JObject m) ''$ref'' = None
      \<and> (case n of 0 \<Rightarrow> m = [] | Suc k \<Rightarrow> list_all (\<lambda>(key, v). ref_free k v) m))"
| "ref_free n _ = True"

lemma ref_free_get:
  assumes "ref_free n j" and "json_get j k = Some v"
  obtains m where "n = Suc m" "ref_free m v"
proof (cases j)
  case (JObject es)
  with assms(2) have "(k, v) \<in> set es" by (simp add: map_of_SomeD)
  with assms(1) JObject that show ?thesis by (cases n) (auto simp: list_all_iff)
qed (use assms in simp_all)

lemma ref_free_array:
  assumes "ref_free n j" and "get_array j k = Some vs" and "v \<in> set vs"
  obtains m where "n = Suc (Suc m)" "ref_free m v"
proof -
  from assms(2) have "json_get j k = Some (JArray vs)" by (auto simp: get_array_def bind_eq_Some_conv elim!: as_array.elims)
  with assms(1) obtain m where "n = Suc m" "ref_free m (JArray vs)" by (rule ref_free_get)
  with assms(3) that show ?thesis by (cases m) (auto simp: list_all_iff)
qed

lemma ref_free_object:
  assumes "ref_free n j" and "get_object j k = Some vs" and "map_of vs key = Some v"
  obtains m where "n = Suc (Suc m)" "ref_free m v"
proof -
  from assms(2) have "json_get j k = Some (JObject vs)" by (auto simp: get_object_def bind_eq_Some_conv elim!: as_object.elims)
  with assms(1) obtain m where "n = Suc m" "ref_free m (JObject vs)" by (rule ref_free_get)
  with assms(3) that show ?thesis by (cases m) (auto simp: list_all_iff dest: map_of_SomeD)
qed

lemma ref_free_resolve: "ref_free n schema \<Longrightarrow> resolve_value C document schema field = Inr schema"
  by (cases schema) (simp_all add: resolve_value_def get_str_def)

lemma then_check_Some: "a \<noteq> None \<Longrightarrow> b \<noteq> None \<Longrightarrow> then_check a b \<noteq> None"
  by (auto simp: then_check_def split: option.splits sum.splits)

lemma check_all_Some: "(\<And>x. x \<in> set xs \<Longrightarrow> f x \<noteq> None) \<Longrightarrow> check_all f xs \<noteq> None"
  by (induction xs) (simp_all add: then_check_Some)

lemma check_parts_Some: "check_that b e \<noteq> None" "check_enum schema v field \<noteq> None" "check_types schema v field \<noteq> None"
  by (auto simp: check_that_def check_enum_def check_types_def Let_def split: option.splits)

lemma ref_free_validates:
  "ref_free d schema \<Longrightarrow> d < n \<Longrightarrow> validate_value C document n schema v field \<noteq> None"
proof (induction n arbitrary: d schema v field)
  case 0
  then show ?case by simp
next
  case (Suc n)
  have all_of: "validate_value C document n child w f \<noteq> None"
    if "get_array schema ''allOf'' = Some children" "child \<in> set children" for children child w f
    by (rule ref_free_array [OF Suc.prems(1) that(1,2)]) (rule Suc.IH, assumption, insert Suc.prems(2), simp)
  have property: "validate_value C document n child w f \<noteq> None"
    if "get_object schema ''properties'' = Some ps" "map_of ps name = Some child" for ps name child w f
    by (rule ref_free_object [OF Suc.prems(1) that(1,2)]) (rule Suc.IH, assumption, insert Suc.prems(2), simp)
  have items: "validate_value C document n items w f \<noteq> None" if "json_get schema ''items'' = Some items" for items w f
    by (rule ref_free_get [OF Suc.prems(1) that]) (rule Suc.IH, assumption, insert Suc.prems(2), simp)
  have parts: "(case get_array schema ''allOf'' of None \<Rightarrow> Some (Inr ())
      | Some children \<Rightarrow> check_all (\<lambda>child. validate_value C document n child v field) children) \<noteq> None"
  proof (cases "get_array schema ''allOf''")
    case (Some children)
    show ?thesis unfolding Some option.case by (rule check_all_Some) (rule all_of [OF Some])
  qed simp
  have entries: "check_all (\<lambda>(name, child).
      case Option.bind (get_object schema ''properties'') (\<lambda>ps. map_of ps name) of
        Some child_schema \<Rightarrow> validate_value C document n child_schema child (field @ ''.'' @ name)
      | None \<Rightarrow> check_that (json_get schema ''additionalProperties'' \<noteq> Some (JBool False))
                  (UnknownInput (field @ ''.'' @ name))) object \<noteq> None" for object
  proof (rule check_all_Some, unfold split_paired_all prod.case)
    fix name child
    show "(case Option.bind (get_object schema ''properties'') (\<lambda>ps. map_of ps name) of
        Some child_schema \<Rightarrow> validate_value C document n child_schema child (field @ ''.'' @ name)
      | None \<Rightarrow> check_that (json_get schema ''additionalProperties'' \<noteq> Some (JBool False))
                  (UnknownInput (field @ ''.'' @ name))) \<noteq> None"
    proof (cases "Option.bind (get_object schema ''properties'') (\<lambda>ps. map_of ps name)")
      case None
      show ?thesis unfolding None option.case by (rule check_parts_Some)
    next
      case (Some child_schema)
      then obtain ps where "get_object schema ''properties'' = Some ps" "map_of ps name = Some child_schema"
        by (auto simp: bind_eq_Some_conv)
      then show ?thesis unfolding Some option.case by (rule property)
    qed
  qed
  have elements: "check_all (\<lambda>(index, item).
      validate_value C document n schema_items item (field @ ''['' @ show_nat index @ '']'')) xs \<noteq> None"
    if "json_get schema ''items'' = Some schema_items" for schema_items xs
    by (rule check_all_Some, unfold split_paired_all prod.case) (rule items [OF that])
  have objects: "(case as_object v of None \<Rightarrow> Some (Inr ()) | Some object \<Rightarrow>
      (case missing_required schema object of
         Some name \<Rightarrow> Some (Inl (InvalidInput (field @ ''.'' @ name)))
       | None \<Rightarrow> check_all (\<lambda>(name, child).
           case Option.bind (get_object schema ''properties'') (\<lambda>ps. map_of ps name) of
             Some child_schema \<Rightarrow> validate_value C document n child_schema child (field @ ''.'' @ name)
           | None \<Rightarrow> check_that (json_get schema ''additionalProperties'' \<noteq> Some (JBool False))
                       (UnknownInput (field @ ''.'' @ name))) object)) \<noteq> None"
    using entries by (simp del: not_None_eq append.simps split: option.split)
  have arrays: "(case (as_array v, json_get schema ''items'') of
      (Some values, Some items) \<Rightarrow>
        check_all (\<lambda>(index, item).
          validate_value C document n items item (field @ ''['' @ show_nat index @ '']''))
          (List.enumerate 0 values)
    | _ \<Rightarrow> Some (Inr ())) \<noteq> None"
    using elements by (simp del: not_None_eq append.simps split: option.split)
  note whole = then_check_Some [OF parts then_check_Some [OF check_parts_Some(2) then_check_Some [OF check_parts_Some(3)
    then_check_Some [OF objects arrays]]]]
  show ?case
  proof (cases "upload_descriptor schema v")
    case None
    show ?thesis
    proof (cases "v = JNull \<and> flag schema ''nullable''")
      case True
      show ?thesis
        unfolding validate_value.simps ref_free_resolve [OF Suc.prems(1)] sum.case None option.case if_P [OF True] by simp
    next
      case False
      show ?thesis
        unfolding validate_value.simps ref_free_resolve [OF Suc.prems(1)] sum.case None option.case if_not_P [OF False]
        by (rule whole)
    qed
  next
    case (Some descriptor)
    show ?thesis
      unfolding validate_value.simps ref_free_resolve [OF Suc.prems(1)] sum.case Some option.case by simp
  qed
qed

text \<open>A schema that includes itself through \<open>allOf\<close> is never done.\<close>

lemma self_including_schema_diverges:
  assumes "get_str schema ''$ref'' = Some (''#'' @ p)" and "json_pointer C document p = Some target"
    and "get_array target ''allOf'' = Some (schema # rest)" and "get_str target ''type'' = None" and "v \<noteq> JNull"
  shows "validate_value C document n schema v field = None"
proof (induction n arbitrary: field)
  case 0
  then show ?case by simp
next
  case (Suc n)
  have "resolve_value C document schema field = Inr target"
    using assms(1,2) by (simp add: resolve_value_def resolve_ref_def strip_prefix_def starts_with_def)
  moreover have "upload_descriptor target v = None" using assms(4) by (simp add: upload_descriptor_def)
  ultimately show ?case using assms(3,5) Suc by (simp add: then_check_def)
qed

subsection \<open>A sample request\<close>

definition pets_create :: OperationDefinition where
  "pets_create =
     \<lparr>od_handle = ''op:pets'', od_method = ''GET'', od_path = ''/pets'', od_operation_id = ''pets'', od_risk = Read,
      od_path_item = [],
      od_operation =
        [(''parameters'', JArray [JObject [(''in'', JString ''header''), (''name'', JString ''X-Trace''),
                                          (''schema'', JObject [(''type'', JString ''string'')])]]),
         (''requestBody'', JObject [(''content'', JObject [(''text/plain'', JObject [])])]),
         (''servers'', JArray [JObject [(''url'', JString ''http://127.0.0.1:80'')]])]\<rparr>"

definition pets_document :: OpenApiSource where
  "pets_document = \<lparr>os_document = JObject [], os_source_fingerprint = ''b3:pets'', os_source_handle = ''src:pets''\<rparr>"

definition pets_options :: PlanOptions where
  "pets_options =
     \<lparr>po_server = None, po_auth = None, po_content_type = None,
      po_input = Some (JObject [(''body'', JString ''hi''), (''header'', JObject [(''X-Trace'', JString ''a'')])]),
      po_explicit = [(''header.X-Trace'', JString ''b'')], po_checks = []\<rparr>"

definition pets_parts :: RequestParts where
  "pets_parts =
     \<lparr>rq_target = the (http_url ''http://127.0.0.1:80/pets''),
      rq_draft =
        \<lparr>dr_inputs = \<lparr>in_path = [], in_query = [], in_header = [(''X-Trace'', JString ''b'')], in_cookie = [], in_body = None,
                      in_declared = [''body'', ''header.X-Trace''], in_used = [''body'', ''header.X-Trace'']\<rparr>,
         dr_path = ''/pets'', dr_query = [],
         dr_headers = [\<lparr>ph_name = ''X-Trace'', ph_value = ''b''\<rparr>, \<lparr>ph_name = ''Content-Type'', ph_value = ''text/plain''\<rparr>],
         dr_cookies = [],
         dr_derivations = [derivation ''header.X-Trace'' (JString ''b'') ''explicit-input'' (Some ''b'') ''header'',
                           derivation ''body'' (JString ''hi'') ''explicit-input'' (Some ''hi'') ''text-utf8'']\<rparr>,
      rq_planned_body = Some \<lparr>pb_media_type = ''text/plain'', pb_bytes = 2, pb_blake3 = ''b3:hi'', pb_encoding = ''utf-8'',
                              pb_inline = ''hi''\<rparr>,
      rq_auth = None, rq_secret_refs = []\<rparr>"

lemma pets_request_parts:
  "request_parts http_crates sample_plan_env 3 pets_document pets_create pets_options default_configuration
     = Some (Inr pets_parts)"
  by code_simp

lemma sample_json_to_vec: "json_to_vec http_crates v = Some (as_bytes (case v of JString s \<Rightarrow> s | _ \<Rightarrow> ''{}''))"
  by (simp add: http_crates_def sample_crates_def split: json.splits)

lemma pets_plan:
  obtains plan where
    "build_plan_with_configuration http_crates sample_plan_env 3 pets_document pets_create pets_options default_configuration
       = Some (Inr plan)"
proof -
  have fp: "\<exists>f. policy_fingerprint http_crates default_configuration = Inr f"
    by (simp add: policy_fingerprint_def sample_json_to_vec Let_def)
  have grants: "\<exists>g. http_grants http_crates default_configuration mth t h p risk None = Inr g" for mth t h p risk
    by (simp add: http_grants_def token_grants_def)
  have seals: "\<exists>q. seal_request_plan http_crates m = Inr q" for m
    by (simp add: seal_request_plan_def http_crates_def sample_crates_def Let_def)
  from fp obtain f where "policy_fingerprint http_crates default_configuration = Inr f" ..
  moreover from grants obtain g where
    "http_grants http_crates default_configuration (od_method pets_create) (rq_target pets_parts) ''127.0.0.1'' 80
       (operation_risk pets_create default_configuration) None = Inr g" by blast
  moreover have "url_host_str (rq_target pets_parts) = Some ''127.0.0.1''" "url_port_or_known_default (rq_target pets_parts) = Some 80"
    "rq_auth pets_parts = None" "exceeds_body_limit default_configuration (rq_planned_body pets_parts) = False"
    "validate_redaction_policy default_configuration = Inr ()"
    by code_simp+
  ultimately have "\<exists>plan. seal_request http_crates sample_plan_env pets_document pets_create pets_options default_configuration pets_parts
      = Inr plan"
    using seals by (simp add: seal_request_def sample_host config_fingerprint_def sample_configuration Let_def map_err_Inr_iff)
  then obtain plan where "seal_request http_crates sample_plan_env pets_document pets_create pets_options default_configuration pets_parts
      = Inr plan" ..
  moreover have "blocking_absence pets_document pets_create = None" by code_simp
  ultimately show ?thesis by (intro that) (simp add: build_plan_with_configuration_def pets_request_parts)
qed

lemma http_url_laws:
  "http_url s = Some u \<Longrightarrow> http_url (url_to_string u) = Some u"
  by (auto simp: http_url_def split: if_splits)

lemma http_crates_laws:
  "url_parse http_crates = http_url" "b64_decode http_crates (b64_encode http_crates b) = Some b"
  by (simp_all add: http_crates_def sample_crates_def)

subsection \<open>Claims\<close>

text \<open>
  No explicit input is dropped: when planning succeeds, every explicit field of the path, the query, the headers
  or the cookies is derived in the plan from the value given last, over the input document; a header also stands
  among the headers to send.
\<close>

theorem explicit_inputs_are_planned:
  assumes "build_plan_with_configuration C E n source operation options configuration = Some (Inr plan)"
    and "location \<in> {''path'', ''query'', ''header'', ''cookie''}"
    and "map_of (rev (po_explicit options)) (location @ ''.'' @ name) = Some v"
  shows "\<exists>d \<in> set (rp_derivations plan). fd_field d = location @ ''.'' @ name \<and> fd_source d = ''explicit-input''
       \<and> fd_logical_value d = v
       \<and> (location = ''header'' \<longrightarrow>
            (\<exists>w. fd_wire_value d = Some w \<and> \<lparr>ph_name = name, ph_value = w\<rparr> \<in> set (rp_headers plan)))"
  using assms(1)
proof (rule build_plan_Inr)
  fix r
  assume parts: "request_parts C E n source operation options configuration = Some (Inr r)"
    and sealed: "seal_request C E source operation options configuration r = Inr plan"
  from assms(2) have "location \<in> canonical" by (simp add: canonical_def)
  from request_parts_trace [OF parts this assms(3)] obtain i0 m where
    "derived i0 (rq_draft r) location name" "input_map location i0 = Some m" "map_of m name = Some v" .
  then obtain der where "der \<in> set (dr_derivations (rq_draft r))" "fd_field der = location @ ''.'' @ name"
    "fd_source der = ''explicit-input''" "fd_logical_value der = v"
    "location = ''header'' \<longrightarrow> (\<exists>w. fd_wire_value der = Some w \<and> \<lparr>ph_name = name, ph_value = w\<rparr> \<in> set (dr_headers (rq_draft r)))"
    by (rule derived_value)
  with sealed show ?thesis
    by (elim seal_request_Inr) (rule bexI [of _ der], simp_all add: sealed_request_fields)
qed

theorem explicit_inputs_are_planned_witness:
  "\<exists>plan d. build_plan_with_configuration http_crates sample_plan_env 3 pets_document pets_create pets_options default_configuration
       = Some (Inr plan) \<and> d \<in> set (rp_derivations plan) \<and> fd_field d = ''header.X-Trace'' \<and> fd_logical_value d = JString ''b''"
proof -
  obtain plan where plan:
    "build_plan_with_configuration http_crates sample_plan_env 3 pets_document pets_create pets_options default_configuration
       = Some (Inr plan)" by (rule pets_plan)
  have "map_of (rev (po_explicit pets_options)) (''header'' @ ''.'' @ ''X-Trace'') = Some (JString ''b'')"
    by (simp add: pets_options_def)
  from explicit_inputs_are_planned [OF plan _ this] plan show ?thesis by auto
qed



text \<open>
  C20.  The executor accepts what the planner makes: given the grants a planned request lists, and no other fingerprints
  expected than its own, the invocation passes its gate, and the only denial its target or its OAuth token endpoint can
  meet is a resolved address outside the network boundary that was not granted.  \<open>Url::parse\<close> is assumed to read back
  the text of a URL, also after query pairs were appended, which is assumed to change nothing but the query.
\<close>

theorem executor_accepts_planned_request:
  assumes "build_plan_with_configuration C E n source operation options configuration = Some (Inr plan)"
    and "\<And>s u pairs. url_parse C s = Some u \<Longrightarrow> url_parse C (url_to_string u) = Some u
           \<and> url_parse C (url_to_string (pe_append_pairs E u pairs)) = Some (pe_append_pairs E u pairs)"
    and "\<And>u pairs. pe_append_pairs E u pairs
           = u\<lparr>url_query := url_query (pe_append_pairs E u pairs), url_to_string := url_to_string (pe_append_pairs E u pairs)\<rparr>"
    and "set (rp_required_grants plan) \<subseteq> opt_grants opts"
    and "opt_expected_config_fingerprint opts \<in> {None, Some (rp_config_fingerprint plan)}"
    and "opt_expected_policy_fingerprint opts \<in> {None, Some (rp_policy_fingerprint plan)}"
  shows "invoke_gate C plan opts = Inr None
       \<and> (\<exists>target. url_parse C (rp_target plan) = Some target
            \<and> (\<forall>d as. evaluate_runtime_target C env plan target (rp_method plan) opts = Inr (Some d, as)
                 \<longrightarrow> de_reason d = ''resolved address is denied by the network boundary''))
       \<and> (\<forall>d. oauth_request C env plan opts = Inr (Inl d)
            \<longrightarrow> de_reason d = ''resolved address is denied by the network boundary'')"
  using assms(1)
proof (rule build_plan_Inr)
  fix r
  assume parts: "request_parts C E n source operation options configuration = Some (Inr r)"
    and sealed: "seal_request C E source operation options configuration r = Inr plan"
  have parses: "url_parse C (url_to_string (rq_target r)) = Some (rq_target r)"
  proof (rule planned_target [OF parts assms(3)])
    fix url s pairs
    assume "url_parse C s = Some url" "rq_target r = url \<or> rq_target r = pe_append_pairs E url pairs"
    with assms(2) [of s url pairs] show ?thesis by auto
  qed
  from sealed show ?thesis
  proof (rule seal_request_Inr)
    fix host port grants material
    assume m: "seal_request_plan C material = Inr plan" "url_host_str (rq_target r) = Some host"
      "url_port_or_known_default (rq_target r) = Some port"
      "rp_target material = url_to_string (rq_target r)" "rp_method material = od_method operation"
      "rp_required_grants material = grants" "rp_auth material = rq_auth r"
      and grants: "http_grants C configuration (od_method operation) (rq_target r) host port
        (operation_risk operation configuration) (rq_auth r) = Inr grants"
    note fields = sealed_request_fields [OF m(1)]
    have "missing_grant (opt_grants opts) (rp_required_grants plan) = None" using assms(4) by (simp add: missing_grant_None)
    then have gate: "invoke_gate C plan opts = Inr None"
      using request_seal.seal_verifies [OF m(1)] assms(5,6) by (auto simp: invoke_gate_def fingerprint_mismatch_def)
    have target: "de_reason d = ''resolved address is denied by the network boundary''"
      if "evaluate_runtime_target C env plan (rq_target r) (rp_method plan) opts = Inr (Some d, as)" for d as
    proof (rule target_denied_by_address_only [OF that m(2,3)])
      from http_grants_members [OF grants] assms(4)
      show "net_grant host port \<in> opt_grants opts" "''http:'' @ rp_method plan \<in> opt_grants opts"
        "url_scheme (rq_target r) = ''http'' \<Longrightarrow> ''net-insecure-http'' \<in> opt_grants opts"
        by (auto simp: fields m(4-7))
    qed
    have token: "de_reason d = ''resolved address is denied by the network boundary''"
      if "oauth_request C env plan opts = Inr (Inl d)" for d
    proof -
      from that obtain auth t u as where auth: "rp_auth plan = Some auth" "pa_token_url auth = Some t" "url_parse C t = Some u"
        and denied: "evaluate_runtime_target C env plan u ''POST'' opts = Inr (Some d, as)"
        by (auto simp: oauth_request_def result_iffs bind_eq_Some_conv split: if_splits option.splits)
      from grants show ?thesis
      proof (rule http_grants_Inr)
        fix ft
        assume ft: "token_grants C (rq_auth r) = Inr ft"
          and set: "set grants = set ([net_grant host port, ''http:'' @ od_method operation]
            @ (if url_scheme (rq_target r) = ''http'' then [''net-insecure-http''] else [])
            @ literal_grant host
            @ (if operation_risk operation configuration = Destructive then [''approve:destructive''] else [])
            @ (if production_origin configuration (rq_target r) \<and> pol_require_production_write_approval (cfg_policy configuration)
                  \<and> operation_risk operation configuration \<in> {Write, Destructive}
               then [''approve:production-write''] else [])
            @ (case rq_auth r of
                 None \<Rightarrow> []
               | Some a \<Rightarrow> (''secret:'' @ pa_profile a)
                   # (if pa_placement a = ''tls-client-certificate'' then [''tls-client-cert:'' @ pa_profile a] else []))
            @ ft)"
        have sub: "set ft \<subseteq> opt_grants opts" using set assms(4) by (auto simp: fields m(4-7))
        have "Option.bind (rq_auth r) pa_token_url = Some t" using auth by (simp add: fields m(4-7))
        with ft show ?thesis
          by (rule http_grants_token)
            (rule target_denied_by_address_only [OF denied], use auth(3) sub in auto)
      qed
    qed
    show ?thesis using gate parses target token by (auto simp: fields m(4-7))
  qed
qed

theorem executor_accepts_planned_request_witness:
  "\<exists>plan. build_plan_with_configuration http_crates sample_plan_env 3 pets_document pets_create pets_options
       default_configuration = Some (Inr plan)
     \<and> invoke_gate http_crates plan (default_options\<lparr>opt_grants := set (rp_required_grants plan)\<rparr>) = Inr None"
proof -
  obtain plan where plan:
    "build_plan_with_configuration http_crates sample_plan_env 3 pets_document pets_create pets_options default_configuration
       = Some (Inr plan)" by (rule pets_plan)
  let ?opts = "default_options\<lparr>opt_grants := set (rp_required_grants plan)\<rparr>"
  have parse: "url_parse http_crates (url_to_string u) = Some u
      \<and> url_parse http_crates (url_to_string (pe_append_pairs sample_plan_env u pairs)) = Some (pe_append_pairs sample_plan_env u pairs)"
    if "url_parse http_crates s = Some u" for s u pairs
    using that by (auto simp: sample_plan_env_def http_crates_laws intro: http_url_laws)
  have append: "pe_append_pairs sample_plan_env u pairs = u\<lparr>url_query := url_query (pe_append_pairs sample_plan_env u pairs),
      url_to_string := url_to_string (pe_append_pairs sample_plan_env u pairs)\<rparr>" for u pairs
    by (simp add: sample_plan_env_def)
  have opts: "set (rp_required_grants plan) \<subseteq> opt_grants ?opts"
    "opt_expected_config_fingerprint ?opts \<in> {None, Some (rp_config_fingerprint plan)}"
    "opt_expected_policy_fingerprint ?opts \<in> {None, Some (rp_policy_fingerprint plan)}"
    by (simp_all add: default_options_def)
  have "invoke_gate http_crates plan ?opts = Inr None"
    by (rule executor_accepts_planned_request [THEN conjunct1, OF plan parse append opts]) assumption
  with plan show ?thesis by blast
qed

text \<open>
  C39.  The executor sends the body that was planned: from every planned request it rebuilds exactly the bytes whose
  length and digest the plan sealed, for each media type the planner serializes.  Base 64 decoding is assumed to invert
  encoding.
\<close>

theorem planned_body_is_rebuilt:
  assumes "build_plan_with_configuration C E n source operation options configuration = Some (Inr plan)"
    and "\<And>b. b64_decode C (b64_encode C b) = Some b"
  shows "\<exists>data. planned_body_bytes C plan = Inr data \<and> body_matches C plan data"
  using assms(1)
proof (rule build_plan_Inr)
  fix r
  assume parts: "request_parts C E n source operation options configuration = Some (Inr r)"
    and sealed: "seal_request C E source operation options configuration r = Inr plan"
  from sealed have body: "rp_body plan = rq_planned_body r" by (elim seal_request_Inr) (simp add: sealed_request_fields)
  from parts show ?thesis
  proof (rule request_parts_Inr)
    fix d
    assume "bind_body C E source operation (po_content_type options) n (d\<lparr>dr_headers := dr_headers d @ cookie_header (dr_cookies d)\<rparr>)
       = Some (Inr (rq_planned_body r, rq_draft r))"
    then show ?thesis
    proof (cases rule: bind_body_Inr)
      case 1
      then show ?thesis by (simp add: planned_body_bytes_def body_matches_def body)
    next
      case (2 i s v provenance)
      then have "sb_encoding s = ''utf-8'' \<and> as_bytes (sb_inline s) = sb_data s
          \<or> sb_encoding s = ''base64'' \<and> b64_decode C (sb_inline s) = Some (sb_data s)"
        using serialize_body_decodes assms(2) by blast
      then have "planned_body_bytes C plan = Inr (sb_data s)"
        by (auto simp: planned_body_bytes_def body 2)
      then show ?thesis by (simp add: body_matches_def body 2)
    qed
  qed
qed

theorem planned_body_is_rebuilt_witness:
  "\<exists>plan data. build_plan_with_configuration http_crates sample_plan_env 3 pets_document pets_create pets_options
       default_configuration = Some (Inr plan) \<and> planned_body_bytes http_crates plan = Inr data"
proof -
  obtain plan where plan:
    "build_plan_with_configuration http_crates sample_plan_env 3 pets_document pets_create pets_options default_configuration
       = Some (Inr plan)" by (rule pets_plan)
  from planned_body_is_rebuilt [OF plan http_crates_laws(2)] plan show ?thesis by blast
qed

text \<open>
  Validating a value against a schema without references comes to an end within one step per level of the
  schema: no fuel beyond its depth is ever needed.
\<close>

theorem reference_free_schema_validates:
  assumes "ref_free depth schema" and "depth < n"
  shows "\<exists>result. validate_value C document n schema v field = Some result"
  using ref_free_validates [OF assms, of C document v field] by auto

theorem reference_free_schema_validates_witness:
  "\<exists>result. validate_value http_crates JNull 4
     (JObject [(''properties'', JObject [(''a'', JObject [(''type'', JString ''string'')])])])
     (JObject [(''a'', JNull)]) ''body'' = Some result"
proof -
  have "ref_free 3 (JObject [(''properties'', JObject [(''a'', JObject [(''type'', JString ''string'')])])])" by code_simp
  from reference_free_schema_validates [OF this, of 4] show ?thesis by simp
qed

end
