(* ===== verification/Workflow_Lang.thy ===== *)
theory Workflow_Lang
  imports Http_Planner Http_Invoke
begin

text \<open>
  The expression language of Arazzo workflows (\<open>kahea-workflow\<close>): runtime expressions in inputs, outputs of HTTP and
  WebSocket steps, success criteria as checks, the criteria of retry and end actions.  Free-text reasons of errors
  are left out.
\<close>

datatype WorkflowError =
    Invalid | UnknownWorkflow string | Source | StepPlan string | WorkflowSealBroken | WorkflowStore
  | WorkflowSerialization | WorkflowEvidence EvidenceError

definition value_array :: "json \<Rightarrow> string \<Rightarrow> json list" where
  "value_array v key = (case get_array v key of Some xs \<Rightarrow> xs | None \<Rightarrow> [])"

text \<open>\<open>trim_start_matches\<close> removes the prefix as often as it occurs.\<close>

definition trim_start_matches :: "string \<Rightarrow> string \<Rightarrow> string" where
  "trim_start_matches p s = trim_prefixes (length s) [p] s"

subsection \<open>Runtime expressions\<close>

type_synonym step_outputs = "(string \<times> (string \<times> json) list) list"

definition resolve_input_expression :: "crates \<Rightarrow> string \<Rightarrow> json \<Rightarrow> WorkflowError + json" where
  "resolve_input_expression C expression inputs =
     ok_or (json_pointer C inputs (''/'' @ replace_char (CHR ''.'') (CHR ''/'') (trim_start_matches ''$inputs.'' expression)))
       Invalid"

definition resolve_step_expression :: "crates \<Rightarrow> string \<Rightarrow> step_outputs \<Rightarrow> WorkflowError + json" where
  "resolve_step_expression C expression outs =
     and_then (ok_or (split_once ''.outputs.'' (trim_start_matches ''$steps.'' expression)) Invalid) (\<lambda>(step, rest).
     let (output, pointer) = (case split_once ''#'' rest of Some parts \<Rightarrow> parts | None \<Rightarrow> (rest, [])) in
     and_then (ok_or (Option.bind (map_of outs step) (\<lambda>m. map_of m output)) Invalid) (\<lambda>v.
     if pointer = [] then Inr v else ok_or (json_pointer C v pointer) Invalid))"

definition resolve_text :: "crates \<Rightarrow> string \<Rightarrow> json \<Rightarrow> step_outputs \<Rightarrow> WorkflowError + json" where
  "resolve_text C s inputs outs =
     (if starts_with s ''$inputs.'' then resolve_input_expression C s inputs
      else if starts_with s ''$steps.'' then resolve_step_expression C s outs
      else Inr (JString s))"

fun materialize_with :: "(string \<Rightarrow> WorkflowError + json) \<Rightarrow> json \<Rightarrow> WorkflowError + json"
  and materialize_items :: "(string \<Rightarrow> WorkflowError + json) \<Rightarrow> json list \<Rightarrow> WorkflowError + json list"
  and materialize_entries :: "(string \<Rightarrow> WorkflowError + json) \<Rightarrow> (string \<times> json) list \<Rightarrow> WorkflowError + (string \<times> json) list"
where
  "materialize_with f v =
     (case v of
        JString s \<Rightarrow> f s
      | JArray vs \<Rightarrow> and_then (materialize_items f vs) (\<lambda>ws. Inr (JArray ws))
      | JObject m \<Rightarrow> and_then (materialize_entries f m) (\<lambda>m'. Inr (JObject m'))
      | _ \<Rightarrow> Inr v)"
| "materialize_items f [] = Inr []"
| "materialize_items f (v # vs) =
     and_then (materialize_with f v) (\<lambda>w. and_then (materialize_items f vs) (\<lambda>ws. Inr (w # ws)))"
| "materialize_entries f [] = Inr []"
| "materialize_entries f ((k, v) # m) =
     and_then (materialize_with f v) (\<lambda>w. and_then (materialize_entries f m) (\<lambda>m'. Inr ((k, w) # m')))"

declare materialize_with.simps [simp del]

definition materialize :: "crates \<Rightarrow> json \<Rightarrow> json \<Rightarrow> step_outputs \<Rightarrow> WorkflowError + json" where
  "materialize C v inputs outs = materialize_with (\<lambda>s. resolve_text C s inputs outs) v"

fun collect_runtime_expressions :: "json \<Rightarrow> string list" where
  "collect_runtime_expressions (JString s) = (if starts_with s ''$'' then [s] else [])"
| "collect_runtime_expressions (JArray vs) = concat (map collect_runtime_expressions vs)"
| "collect_runtime_expressions (JObject m) = concat (map (\<lambda>(k, v). collect_runtime_expressions v) m)"
| "collect_runtime_expressions _ = []"

definition validate_workflow_inputs :: "json option \<Rightarrow> json \<Rightarrow> WorkflowError + unit" where
  "validate_workflow_inputs schema input =
     (case schema of
        None \<Rightarrow> Inr ()
      | Some schema \<Rightarrow>
          and_then (ok_or (as_object input) Invalid) (\<lambda>object.
          ensure (list_all (\<lambda>name. map_of object name \<noteq> None) (List.map_filter as_str (value_array schema ''required'')))
            Invalid))"

subsection \<open>Outputs\<close>

definition json_u16 :: "u16 \<Rightarrow> json" where
  "json_u16 n = JNumber (PosInt (ucast n))"

definition nullable :: "('a \<Rightarrow> json) \<Rightarrow> 'a option \<Rightarrow> json" where
  "nullable f x = (case x of None \<Rightarrow> JNull | Some y \<Rightarrow> f y)"

definition status_value :: "u16 option \<Rightarrow> json" where
  "status_value status = json_u16 (case status of Some n \<Rightarrow> n | None \<Rightarrow> 0)"

definition evaluate_output :: "crates \<Rightarrow> json \<Rightarrow> Observation \<Rightarrow> json option \<Rightarrow> WorkflowError + json" where
  "evaluate_output C expression obs body =
     (case as_str expression of
        None \<Rightarrow> Inr expression
      | Some e \<Rightarrow>
          if e = ''$statusCode'' then Inr (status_value (ob_status obs))
          else (case strip_prefix ''$response.body#'' e of
                  Some pointer \<Rightarrow>
                    and_then (ok_or body Invalid) (\<lambda>b. ok_or (json_pointer C b pointer) Invalid)
                | None \<Rightarrow>
                    if e = ''$response.body'' then Inr (nullable id body) else Inl Invalid))"

definition observed_body :: "crates \<Rightarrow> EvidenceStore \<Rightarrow> Observation \<Rightarrow> WorkflowError + json option" where
  "observed_body C s obs =
     (case ob_body obs of
        None \<Rightarrow> Inr None
      | Some handle \<Rightarrow>
          and_then (map_err WorkflowEvidence (evidence_get C s handle)) (\<lambda>record.
          Inr (json_from_slice C (er_data record))))"

definition websocket_expressions :: "string list" where
  "websocket_expressions =
     [''$websocket.handshake.status'', ''$websocket.handshake.subprotocol'', ''$websocket.close.code'',
      ''$websocket.close.reason'', ''$websocket.close.initiator'', ''$websocket.evidence.transcript'',
      ''$websocket.evidence.handshake'', ''$websocket.evidence.trace'']"

definition validate_websocket_output_expression :: "json \<Rightarrow> WorkflowError + unit" where
  "validate_websocket_output_expression expression =
     (case as_str expression of
        None \<Rightarrow> Inr ()
      | Some e \<Rightarrow>
          if e \<in> set websocket_expressions then Inr ()
          else
            and_then (ok_or (strip_prefix ''$websocket.message.'' e) Invalid) (\<lambda>rest.
            and_then (ok_or (split_once ''.'' rest) Invalid) (\<lambda>(index, selector).
            and_then (ok_or (parse_usize index) Invalid) (\<lambda>_.
            ensure (selector \<in> {''text'', ''json'', ''evidence'', ''base64''} \<or> starts_with selector ''json#/'') Invalid))))"

fun initiator_name :: "WebSocketCloseInitiator \<Rightarrow> string" where
  "initiator_name Client = ''client''"
| "initiator_name Server = ''server''"

text \<open>The inbound payload the transcript records for an action.\<close>

definition inbound_payload :: "json \<Rightarrow> nat \<Rightarrow> string option" where
  "inbound_payload transcript index =
     Option.bind (List.find (\<lambda>entry. get_str entry ''direction'' = Some ''inbound''
                                        \<and> map_option unat (get_u64 entry ''action_index'') = Some index)
                    (value_array transcript ''entries''))
       (\<lambda>entry. get_str entry ''payload'')"

definition message_output ::
  "crates \<Rightarrow> string \<Rightarrow> string \<Rightarrow> WebSocketObservation \<Rightarrow> EvidenceStore \<Rightarrow> WorkflowError + json" where
  "message_output C index selector obs s =
     and_then (ok_or (parse_uint 18446744073709551615 index) Invalid) (\<lambda>i.
     and_then (ok_or (wo_transcript obs) Invalid) (\<lambda>handle.
     and_then (map_err WorkflowEvidence (evidence_get C s handle)) (\<lambda>record.
     and_then (ok_or (json_from_slice C (er_data record)) WorkflowSerialization) (\<lambda>transcript.
     and_then (ok_or (inbound_payload transcript i) Invalid) (\<lambda>payload_handle.
     if selector = ''evidence'' then Inr (JString payload_handle)
     else
       and_then (map_err WorkflowEvidence (evidence_get C s payload_handle)) (\<lambda>payload.
       if selector = ''base64'' then Inr (JString (b64_encode C (er_data payload)))
       else
         and_then (ok_or (from_utf8 (er_data payload)) Invalid) (\<lambda>txt.
         if selector = ''text'' then Inr (JString txt)
         else
           and_then (ok_or (json_from_slice C (er_data payload)) Invalid) (\<lambda>j.
           if selector = ''json'' then Inr j
           else and_then (ok_or (strip_prefix ''json#'' selector) Invalid) (\<lambda>pointer.
                ok_or (json_pointer C j pointer) Invalid)))))))))"

definition evaluate_websocket_output ::
  "crates \<Rightarrow> json \<Rightarrow> WebSocketObservation \<Rightarrow> EvidenceStore \<Rightarrow> WorkflowError + json" where
  "evaluate_websocket_output C expression obs s =
     (case as_str expression of
        None \<Rightarrow> Inr expression
      | Some e \<Rightarrow>
          if e = ''$websocket.handshake.status'' then Inr (nullable json_u16 (wo_handshake_status obs))
          else if e = ''$websocket.handshake.subprotocol'' then Inr (nullable JString (wo_negotiated_subprotocol obs))
          else if e = ''$websocket.close.code'' then Inr (nullable (\<lambda>c. json_u16 (co_code c)) (wo_close obs))
          else if e = ''$websocket.close.reason'' then Inr (nullable (\<lambda>c. JString (co_reason c)) (wo_close obs))
          else if e = ''$websocket.close.initiator''
          then Inr (nullable (\<lambda>c. JString (initiator_name (co_initiator c))) (wo_close obs))
          else if e = ''$websocket.evidence.transcript'' then Inr (nullable JString (wo_transcript obs))
          else if e = ''$websocket.evidence.handshake'' then Inr (nullable JString (wo_handshake obs))
          else if e = ''$websocket.evidence.trace'' then Inr (nullable JString (wo_trace obs))
          else
            and_then (ok_or (strip_prefix ''$websocket.message.'' e) Invalid) (\<lambda>rest.
            and_then (ok_or (split_once ''.'' rest) Invalid) (\<lambda>(index, selector).
            message_output C index selector obs s)))"

subsection \<open>Criteria\<close>

definition condition_operators :: "string list" where
  "condition_operators = [''<='', ''>='', ''=='', ''!='', ''<'', ''>'']"

text \<open>The first operator that occurs decides, even when it leaves an empty side.\<close>

fun first_condition :: "string list \<Rightarrow> string \<Rightarrow> (string \<times> string \<times> string) option" where
  "first_condition [] condition = None"
| "first_condition (operator # operators) condition =
     (case split_once operator condition of
        None \<Rightarrow> first_condition operators condition
      | Some (left, right) \<Rightarrow>
          if trim left = [] \<or> trim right = [] then None else Some (trim left, operator, trim right))"

definition parse_simple_condition :: "string \<Rightarrow> WorkflowError + (string \<times> string \<times> string)" where
  "parse_simple_condition condition = ok_or (first_condition condition_operators condition) Invalid"

definition apostrophe :: char where "apostrophe = CHR 0x27"

definition parse_literal :: "crates \<Rightarrow> string \<Rightarrow> WorkflowError + json" where
  "parse_literal C literal =
     (if starts_with literal [apostrophe] \<and> ends_with literal [apostrophe] \<and> 2 \<le> length literal
      then Inr (JString (replace_str [apostrophe, apostrophe] [apostrophe] (butlast (tl literal))))
      else ok_or (json_from_slice C (as_bytes literal)) Invalid)"

definition response_body_pointer :: "string \<Rightarrow> string option" where
  "response_body_pointer expression =
     (case strip_prefix ''$response.body#'' expression of
        Some pointer \<Rightarrow> Some pointer
      | None \<Rightarrow>
          map_option (\<lambda>path. ''/'' @ join ''/'' (map escape_pointer (split_char (CHR ''.'') path)))
            (strip_prefix ''$response.body.'' expression))"

definition criterion_to_check :: "crates \<Rightarrow> json \<Rightarrow> WorkflowError + string" where
  "criterion_to_check C criterion =
     and_then (ok_or (get_str criterion ''condition'') Invalid) (\<lambda>condition.
     let kind = json_text_or criterion ''type'' ''simple''; of_body = (get_str criterion ''context'' = Some ''$response.body'') in
     if kind = ''simple''
     then and_then (parse_simple_condition condition) (\<lambda>(left, operator, right).
          if operator \<noteq> ''=='' then Inl Invalid
          else
            and_then (parse_literal C right) (\<lambda>expected.
            if left = ''$statusCode''
            then (case as_u64 expected of
                    Some status \<Rightarrow> if status \<le> 65535 then Inr (''status:'' @ show_nat (unat status)) else Inl Invalid
                  | None \<Rightarrow> Inl Invalid)
            else (case response_body_pointer left of
                    Some pointer \<Rightarrow>
                      and_then (ok_or (json_to_vec C expected) WorkflowSerialization) (\<lambda>byts.
                      Inr (''json-pointer:'' @ pointer @ ''='' @ from_bytes byts))
                  | None \<Rightarrow> Inl Invalid)))
     else if kind = ''jsonpath'' \<and> of_body then Inr (''jsonpath:'' @ condition @ '':exists'')
     else if kind = ''xpath'' \<and> of_body then Inr (''xpath:'' @ condition @ '':exists'')
     else Inl Invalid)"

definition values_equal :: "json \<Rightarrow> json \<Rightarrow> bool" where
  "values_equal actual expected =
     (case (as_str actual, as_str expected) of
        (Some l, Some r) \<Rightarrow> eq_ignore_ascii_case l r
      | _ \<Rightarrow> actual = expected)"

definition compare_values :: "json \<Rightarrow> string \<Rightarrow> json \<Rightarrow> bool" where
  "compare_values actual operator expected =
     (if operator = ''=='' then values_equal actual expected
      else if operator = ''!='' then \<not> values_equal actual expected
      else (case (as_f64 actual, as_f64 expected) of
              (Some l, Some r) \<Rightarrow>
                if operator = ''<'' then l < r
                else if operator = ''<='' then l \<le> r
                else if operator = ''>'' then r < l
                else if operator = ''>='' then r \<le> l else False
            | _ \<Rightarrow> False))"

definition criterion_holds :: "crates \<Rightarrow> Observation \<Rightarrow> json option \<Rightarrow> json \<Rightarrow> WorkflowError + bool" where
  "criterion_holds C obs body criterion =
     and_then (ok_or (get_str criterion ''condition'') Invalid) (\<lambda>condition.
     and_then (parse_simple_condition condition) (\<lambda>(left, operator, right).
     and_then (parse_literal C right) (\<lambda>expected.
     if left = ''$statusCode'' then Inr (compare_values (status_value (ob_status obs)) operator expected)
     else (case response_body_pointer left of
             Some pointer \<Rightarrow>
               Inr (compare_values (nullable id (Option.bind body (\<lambda>b. json_pointer C b pointer))) operator expected)
           | None \<Rightarrow> Inl Invalid))))"

fun all_criteria :: "crates \<Rightarrow> Observation \<Rightarrow> json option \<Rightarrow> json list \<Rightarrow> WorkflowError + bool" where
  "all_criteria C obs body [] = Inr True"
| "all_criteria C obs body (c # cs) =
     and_then (criterion_holds C obs body c) (\<lambda>holds. if holds then all_criteria C obs body cs else Inr False)"

definition criteria_match :: "crates \<Rightarrow> json list \<Rightarrow> InvocationResult \<Rightarrow> EvidenceStore \<Rightarrow> WorkflowError + bool" where
  "criteria_match C criteria result s =
     (case result of
        InvocationDenied _ \<Rightarrow> Inr False
      | Observed obs \<Rightarrow> and_then (observed_body C s obs) (\<lambda>body. all_criteria C obs body criteria))"

fun select_action :: "crates \<Rightarrow> json list \<Rightarrow> InvocationResult \<Rightarrow> EvidenceStore \<Rightarrow> WorkflowError + json option" where
  "select_action C [] result s = Inr None"
| "select_action C (action # actions) result s =
     (if value_array action ''criteria'' = [] then Inr (Some action)
      else and_then (criteria_match C (value_array action ''criteria'') result s) (\<lambda>m.
           if m then Inr (Some action) else select_action C actions result s))"

definition is_kind :: "string \<Rightarrow> json \<Rightarrow> bool" where
  "is_kind kind action = (get_str action ''type'' = Some kind)"

definition unconditional_retry :: "json list \<Rightarrow> json option" where
  "unconditional_retry actions = List.find (\<lambda>a. is_kind ''retry'' a \<and> value_array a ''criteria'' = []) actions"

definition retry_limit :: "json \<Rightarrow> nat" where
  "retry_limit action = (case get_u64 action ''retryLimit'' of Some n \<Rightarrow> unat n | None \<Rightarrow> 1)"

definition retry_after :: "json \<Rightarrow> f64" where
  "retry_after action = (case get_f64 action ''retryAfter'' of Some x \<Rightarrow> x | None \<Rightarrow> 0)"

text \<open>
  \<open>Duration::from_secs_f64\<close>: the nearest number of nanoseconds, ties to even; it panics on a negative or too large
  number of seconds.
\<close>

definition retry_delay :: "json \<Rightarrow> nat option" where
  "retry_delay action =
     (let x = retry_after action; (n, d) = quotient_of (x * 1000000000); nanos = round_half_even n d
      in if x < 0 \<or> 18446744073709551616 * 1000000000 \<le> nanos then None else Some (nat nanos))"

definition validate_action :: "bool \<Rightarrow> json \<Rightarrow> WorkflowError + unit" where
  "validate_action success action =
     and_then (ensure (json_get action ''reference'' = None) Invalid) (\<lambda>_.
     and_then (ok_or (get_str action ''type'') Invalid) (\<lambda>kind.
     and_then (ensure (if success then kind = ''end'' else kind \<in> {''retry'', ''end''}) Invalid) (\<lambda>_.
     and_then (ensure (kind = ''retry'' \<longrightarrow> retry_limit action \<le> 10 \<and> 0 \<le> retry_after action \<and> retry_after action \<le> 60) Invalid) (\<lambda>_.
     for_each (\<lambda>criterion _.
       and_then (ensure (case get_str criterion ''type'' of Some k \<Rightarrow> k = ''simple'' | None \<Rightarrow> True) Invalid) (\<lambda>_.
       and_then (ok_or (get_str criterion ''condition'') Invalid) (\<lambda>condition.
       and_then (parse_simple_condition condition) (\<lambda>_. Inr ())))) (value_array action ''criteria'') ()))))"

definition validate_actions :: "json list \<Rightarrow> bool \<Rightarrow> WorkflowError + unit" where
  "validate_actions actions success = for_each (\<lambda>action _. validate_action success action) actions ()"

fun risk_rank :: "RiskClass \<Rightarrow> nat" where
  "risk_rank Read = 0" | "risk_rank Write = 1" | "risk_rank Destructive = 2" | "risk_rank Unknown = 3"

definition maximum_risk :: "RiskClass \<Rightarrow> RiskClass \<Rightarrow> RiskClass" where
  "maximum_risk l r = (if risk_rank r \<le> risk_rank l then l else r)"

definition parameter_location :: "crates \<Rightarrow> OperationDefinition \<Rightarrow> OpenApiSource \<Rightarrow> string \<Rightarrow> string option" where
  "parameter_location C operation source name =
     Option.bind
       (List.find (\<lambda>p. get_str p ''name'' = Some name)
          (List.map_filter (\<lambda>p. case get_str p ''$ref'' of
                                  Some reference \<Rightarrow> resolve_ref C (os_document source) reference
                                | None \<Rightarrow> Some p)
             (array_field (od_path_item operation) ''parameters'' @ array_field (od_operation operation) ''parameters'')))
       (\<lambda>p. get_str p ''in'')"

end
