(* ===== verification/Workflow_Plan.thy ===== *)
theory Workflow_Plan
  imports Workflow_Lang
begin

text \<open>
  Planning of Arazzo workflows (\<open>kahea-workflow\<close>): the index of workflows, the sources a document describes, the
  operation a step selects, the grants its run will need, and the sealed workflow plan.  A file is read relative to
  the Arazzo document; \<open>source_env\<close> holds the parsers of JSON and YAML, the importers, and the conversion of a
  document to a WebSocket session.
\<close>

record source_env =
  so_plan :: plan_env
  so_json_from_str :: "string \<Rightarrow> json option"
  so_yaml_load :: "string \<Rightarrow> Yaml list option"
  so_extension :: "string \<Rightarrow> string"
  so_import :: "string \<Rightarrow> bytes \<Rightarrow> json option \<Rightarrow> IngestError + json option"
  so_session :: "json \<Rightarrow> WebSocketSessionSource option"

definition parse_data_document :: "crates \<Rightarrow> source_env \<Rightarrow> string \<Rightarrow> bytes \<Rightarrow> IngestError + json" where
  "parse_data_document C W path byts = parse_document C (so_json_from_str W) (so_yaml_load W) (so_extension W path) byts"

definition session_source :: "crates \<Rightarrow> source_env \<Rightarrow> string \<Rightarrow> bytes \<Rightarrow> WebSocketSessionSource option" where
  "session_source C W path byts = (case parse_data_document C W path byts of Inl _ \<Rightarrow> None | Inr j \<Rightarrow> so_session W j)"

definition is_arazzo :: "json \<Rightarrow> bool" where
  "is_arazzo document = (case get_str document ''arazzo'' of Some v \<Rightarrow> starts_with v ''1.1.'' | None \<Rightarrow> False)"

subsection \<open>Inspection\<close>

definition workflow_summary :: "crates \<Rightarrow> string \<Rightarrow> string \<Rightarrow> json \<Rightarrow> OperationSummary option" where
  "workflow_summary C fp query workflow =
     Option.bind (get_str workflow ''workflowId'') (\<lambda>id.
     let summary = (case Option.bind (case json_get workflow ''summary'' of
                                        Some v \<Rightarrow> Some v | None \<Rightarrow> json_get workflow ''description'') as_str of
                      Some s \<Rightarrow> s | None \<Rightarrow> []) in
     if query \<noteq> [] \<and> \<not> contains_str (to_ascii_lowercase id) query \<and> \<not> contains_str (to_ascii_lowercase summary) query
     then None
     else Some (OperationSummary (short_handle C ''workflow'' [as_bytes fp, as_bytes id]) ''WORKFLOW'' (''workflow/'' @ id) id
                  Unknown))"

fun summary_operation :: "OperationSummary \<Rightarrow> string" where
  "summary_operation (OperationSummary handle method path operation_id risk) = operation_id"

definition inspect_workflows ::
  "crates \<Rightarrow> json \<Rightarrow> bytes \<Rightarrow> string option \<Rightarrow> nat \<Rightarrow> nat \<Rightarrow> WorkflowError + OperationIndexEnvelope" where
  "inspect_workflows C document byts query limit cursor =
     (if \<not> is_arazzo document then Inl Invalid
      else
        let fp = digest C byts; query = to_ascii_lowercase (trim (case query of Some q \<Rightarrow> q | None \<Rightarrow> []));
            operations = sort_key summary_operation
                           (List.map_filter (workflow_summary C fp query) (value_array document ''workflows'')) in
        if length operations < cursor then Inl Invalid
        else
          let stop = min (cursor + limit) (length operations) in
          Inr \<lparr>oi_protocol = PROTOCOL, oi_kind = ''operation-index'', oi_version = VERSION,
               oi_config_fingerprint = default_config_fingerprint C, oi_source_fingerprints = [fp],
               oi_source = short_handle C ''src'' [byts], oi_operations = take limit (drop cursor operations),
               oi_next = (if stop < length operations then Some (show_nat stop) else None), oi_absent = [], oi_exit = 0\<rparr>)"

subsection \<open>Sources\<close>

datatype WorkflowSource = HttpSource OpenApiSource | WebSocketSource string bytes json string

fun source_document :: "WorkflowSource \<Rightarrow> json" where
  "source_document (HttpSource source) = os_document source"
| "source_document (WebSocketSource path byts document fp) = document"

fun source_fingerprint :: "WorkflowSource \<Rightarrow> string" where
  "source_fingerprint (HttpSource source) = os_source_fingerprint source"
| "source_fingerprint (WebSocketSource path byts document fp) = fp"

definition read_source :: "crates \<Rightarrow> source_env \<Rightarrow> bool \<Rightarrow> string \<Rightarrow> bytes \<Rightarrow> WorkflowError + WorkflowSource" where
  "read_source C W websocket path byts =
     (if websocket
      then and_then (map_err (\<lambda>_. Source) (parse_data_document C W path byts)) (\<lambda>document.
           if \<not> is_websocket_session document then Inl Invalid
           else Inr (WebSocketSource path byts document (digest C byts)))
      else and_then (map_err (\<lambda>_. Source)
             (load_source C (so_import W path byts) (parse_data_document C W path byts) byts)) (\<lambda>source.
           Inr (HttpSource source)))"

definition load_described_source ::
  "crates \<Rightarrow> source_env \<Rightarrow> string \<Rightarrow> json \<Rightarrow> (string \<times> WorkflowSource) list \<Rightarrow> WorkflowError + (string \<times> WorkflowSource) list" where
  "load_described_source C W arazzo_path description sources =
     and_then (ok_or (get_str description ''name'') Invalid) (\<lambda>name.
     let source_type = get_str description ''type''; extension_kind = get_str description ''x-kahea-source-kind'';
         websocket = (extension_kind = Some ''websocket-session'') in
     if extension_kind \<noteq> None \<and> \<not> websocket then Inl Invalid
     else if websocket \<and> source_type \<noteq> None then Inl Invalid
     else if \<not> websocket \<and> source_type \<noteq> None \<and> source_type \<noteq> Some ''openapi'' then Inl Invalid
     else
       and_then (ok_or (get_str description ''url'') Invalid) (\<lambda>url.
       if url_parse C url \<noteq> None then Inl Invalid
       else
         let path = pe_policy_path (so_plan W) arazzo_path url in
         and_then (ok_or (pe_read (so_plan W) path) Source) (\<lambda>byts.
         and_then (read_source C W websocket path byts) (\<lambda>source.
         Inr (map_insert name source sources)))))"

definition load_sources ::
  "crates \<Rightarrow> source_env \<Rightarrow> string \<Rightarrow> json \<Rightarrow> WorkflowError + (string \<times> WorkflowSource) list" where
  "load_sources C W arazzo_path document =
     and_then (ok_or (get_array document ''sourceDescriptions'') Invalid) (\<lambda>descriptions.
     for_each (load_described_source C W arazzo_path) descriptions [])"

subsection \<open>The operation of a step\<close>

definition path_operation ::
  "crates \<Rightarrow> (string \<times> WorkflowSource) list \<Rightarrow> string \<Rightarrow> WorkflowError + (string \<times> string)" where
  "path_operation C sources expression =
     and_then (ok_or
       (case Option.bind (strip_prefix ''{$sourceDescriptions.'' expression) (split_once ''.url}#'') of
          Some parts \<Rightarrow> Some parts
        | None \<Rightarrow> Option.bind (strip_prefix ''$sourceDescriptions.'' expression) (split_once ''.url#'')) Invalid)
       (\<lambda>(source_name, pointer).
     and_then (ok_or (map_of sources source_name) Invalid) (\<lambda>source.
     case source of
       WebSocketSource _ _ _ _ \<Rightarrow> Inl Invalid
     | HttpSource source \<Rightarrow>
         and_then (ok_or (json_pointer C (os_document source) pointer) Invalid) (\<lambda>operation.
         if as_object operation = None then Inl Invalid
         else
           let (method, encoded_path) = (case rev (split_char (CHR ''/'') pointer) of
                                           m # p # _ \<Rightarrow> (m, p) | [m] \<Rightarrow> (m, []) | [] \<Rightarrow> ([], [])) in
           if method \<notin> set HTTP_METHODS then Inl Invalid
           else Inr (source_name, to_ascii_uppercase method @ '' ''
                       @ replace_str ''~0'' ''~'' (replace_str ''~1'' ''/'' encoded_path)))))"

definition step_operation ::
  "crates \<Rightarrow> json \<Rightarrow> (string \<times> WorkflowSource) list \<Rightarrow> WorkflowError + (string \<times> string)" where
  "step_operation C step sources =
     (let by_path = (case get_str step ''operationPath'' of
                       Some expression \<Rightarrow> path_operation C sources expression | None \<Rightarrow> Inl Invalid) in
      case get_str step ''operationId'' of
        None \<Rightarrow> by_path
      | Some expression \<Rightarrow>
          (case strip_prefix ''$sourceDescriptions.'' expression of
             Some rest \<Rightarrow>
               and_then (ok_or (split_once ''.'' rest) Invalid) (\<lambda>(source, operation).
               if map_of sources source = None then Inl Invalid else Inr (source, operation))
           | None \<Rightarrow> (case sources of [(name, _)] \<Rightarrow> Inr (name, expression) | _ \<Rightarrow> by_path)))"

subsection \<open>Bindings of WebSocket steps\<close>

definition validate_websocket_binding_pointer :: "string \<Rightarrow> WorkflowError + unit" where
  "validate_websocket_binding_pointer pointer =
     (case split_char (CHR ''/'') pointer of
        [a, b, c, d] \<Rightarrow>
          ensure (a = [] \<and> b = ''actions'' \<and> parse_usize c \<noteq> None \<and> d \<in> {''text'', ''payload_base64'', ''equals'', ''reason''})
            Invalid
      | _ \<Rightarrow> Inl Invalid)"

definition parse_websocket_binding ::
  "crates \<Rightarrow> json \<Rightarrow> json \<Rightarrow> WorkflowWebSocketBinding list \<Rightarrow> WorkflowError + WorkflowWebSocketBinding list" where
  "parse_websocket_binding C source binding parsed =
     and_then (ok_or (get_str binding ''pointer'') Invalid) (\<lambda>pointer.
     and_then (validate_websocket_binding_pointer pointer) (\<lambda>_.
     and_then (ensure (json_pointer C source pointer \<noteq> None) Invalid) (\<lambda>_.
     and_then (ensure (pointer \<notin> set (map wbind_pointer parsed)) Invalid) (\<lambda>_.
     and_then (ok_or (json_get binding ''value'') Invalid) (\<lambda>v.
     Inr (parsed @ [\<lparr>wbind_pointer = pointer, wbind_value = v\<rparr>]))))))"

definition parse_websocket_bindings :: "crates \<Rightarrow> json \<Rightarrow> json \<Rightarrow> WorkflowError + WorkflowWebSocketBinding list" where
  "parse_websocket_bindings C step source =
     (case json_get step ''x-kahea-websocket-bindings'' of
        None \<Rightarrow> Inr []
      | Some v \<Rightarrow>
          and_then (ok_or (as_array v) Invalid) (\<lambda>bindings.
          if 64 < length bindings then Inl Invalid
          else for_each (parse_websocket_binding C source) bindings []))"

subsection \<open>Preview of grants\<close>

definition preview_unsafe :: "IpAddr \<Rightarrow> bool" where
  "preview_unsafe ip = (is_loopback ip \<or> is_private ip \<or> is_link_local ip)"

definition preview_literal_grant :: "string \<Rightarrow> string list" where
  "preview_literal_grant host =
     (case parse_ip host of
        Some ip \<Rightarrow> if preview_unsafe ip then [cidr_grant ip] else []
      | None \<Rightarrow> [])"

definition preview_url_grants :: "crates \<Rightarrow> string \<Rightarrow> WorkflowError + string list" where
  "preview_url_grants C url =
     and_then (ok_or (url_parse C url) Invalid) (\<lambda>url.
     and_then (ok_or (url_host_str url) Invalid) (\<lambda>host.
     and_then (ok_or (url_port_or_known_default url) Invalid) (\<lambda>port.
     Inr ([net_grant host port] @ (if url_scheme url = ''http'' then [''net-insecure-http''] else [])
          @ preview_literal_grant host))))"

definition operation_servers :: "OpenApiSource \<Rightarrow> OperationDefinition \<Rightarrow> json list option" where
  "operation_servers source operation =
     Option.bind
       (case map_of (od_operation operation) ''servers'' of
          Some v \<Rightarrow> Some v
        | None \<Rightarrow> (case map_of (od_path_item operation) ''servers'' of
                     Some v \<Rightarrow> Some v | None \<Rightarrow> json_get (os_document source) ''servers'')) as_array"

definition resolve_preview_server_variables ::
  "string \<Rightarrow> OpenApiSource \<Rightarrow> OperationDefinition \<Rightarrow> WorkflowError + string" where
  "resolve_preview_server_variables server source operation =
     (if CHR ''{'' \<notin> set server then Inr server
      else
        and_then (ok_or (List.find (\<lambda>s. get_str s ''url'' = Some server)
                           (case operation_servers source operation of Some xs \<Rightarrow> xs | None \<Rightarrow> [])) Invalid) (\<lambda>server_object.
        and_then (for_each (\<lambda>(name, variable) resolved.
                    and_then (ok_or (get_str variable ''default'') Invalid) (\<lambda>default.
                    Inr (replace_str (braced name) default resolved)))
                    (case get_object server_object ''variables'' of Some m \<Rightarrow> m | None \<Rightarrow> []) server) (\<lambda>resolved.
        if CHR ''{'' \<in> set resolved then Inl Invalid else Inr resolved)))"

definition resolve_security_scheme :: "crates \<Rightarrow> json \<Rightarrow> string \<Rightarrow> json option" where
  "resolve_security_scheme C document name =
     Option.bind (json_pointer C document (''/components/securitySchemes/'' @ escape_pointer name)) (\<lambda>scheme.
     case get_str scheme ''$ref'' of
       Some reference \<Rightarrow> resolve_ref C document reference
     | None \<Rightarrow> Some scheme)"

definition preview_auth_grants :: "crates \<Rightarrow> json \<Rightarrow> string option \<Rightarrow> WorkflowError + string list" where
  "preview_auth_grants C document auth =
     (case auth of
        None \<Rightarrow> Inr []
      | Some auth \<Rightarrow>
          let (scheme_name, profile) = (case split_once ''='' auth of Some parts \<Rightarrow> parts | None \<Rightarrow> (auth, auth)) in
          (case resolve_security_scheme C document scheme_name of
             None \<Rightarrow> Inr [''secret:'' @ profile]
           | Some scheme \<Rightarrow>
               let mtls = (if get_str scheme ''type'' = Some ''mutualTLS'' then [''tls-client-cert:'' @ profile] else []);
                   token_url = Option.bind
                     (case json_pointer C scheme ''/flows/clientCredentials/tokenUrl'' of
                        Some v \<Rightarrow> Some v | None \<Rightarrow> json_pointer C scheme ''/flows/authorizationCode/tokenUrl'') as_str in
               and_then (case token_url of
                           None \<Rightarrow> Inr []
                         | Some url \<Rightarrow> and_then (preview_url_grants C url) (\<lambda>gs. Inr (gs @ [''http:POST'']))) (\<lambda>gs.
               Inr ([''secret:'' @ profile] @ mtls @ gs))))"

definition preview_server ::
  "OpenApiSource \<Rightarrow> OperationDefinition \<Rightarrow> string option \<Rightarrow> ProjectConfiguration \<Rightarrow> WorkflowError + string" where
  "preview_server source operation requested configuration =
     (case requested of
        Some r \<Rightarrow> Inr (case map_of (cfg_servers configuration) r of Some configured \<Rightarrow> cs_url configured | None \<Rightarrow> r)
      | None \<Rightarrow>
          and_then (ok_or (operation_servers source operation) Invalid) (\<lambda>servers.
          case servers of [server] \<Rightarrow> ok_or (get_str server ''url'') Invalid | _ \<Rightarrow> Inl Invalid))"

definition preview_grants ::
  "crates \<Rightarrow> OpenApiSource \<Rightarrow> OperationDefinition \<Rightarrow> string option \<Rightarrow> string option \<Rightarrow> ProjectConfiguration
     \<Rightarrow> WorkflowError + string list" where
  "preview_grants C source operation requested_server auth configuration =
     and_then (preview_server source operation requested_server configuration) (\<lambda>server.
     and_then (resolve_preview_server_variables server source operation) (\<lambda>server.
     and_then (ok_or (url_parse C server) Invalid) (\<lambda>url.
     and_then (ok_or (url_host_str url) Invalid) (\<lambda>host.
     and_then (ok_or (url_port_or_known_default url) Invalid) (\<lambda>port.
     and_then (map_err (\<lambda>_. Invalid) (enforce_host_policy host configuration)) (\<lambda>_.
     let risk = operation_risk operation configuration in
     and_then (preview_auth_grants C (os_document source) auth) (\<lambda>for_auth.
     Inr ([net_grant host port, ''http:'' @ od_method operation]
          @ (if url_scheme url = ''http'' then [''net-insecure-http''] else [])
          @ preview_literal_grant host
          @ (if risk = Destructive then [''approve:destructive''] else [])
          @ (if production_origin configuration url \<and> pol_require_production_write_approval (cfg_policy configuration)
                \<and> risk \<in> {Write, Destructive}
             then [''approve:production-write''] else [])
          @ for_auth))))))))"

subsection \<open>The plan\<close>

record WorkflowDraft =
  wd_steps :: "WorkflowStepTemplate list"
  wd_grants :: "string list"
  wd_risk :: RiskClass

definition draft_step_ids :: "WorkflowDraft \<Rightarrow> string list" where
  "draft_step_ids d = map st_step_id (wd_steps d)"

definition step_dependencies :: "json \<Rightarrow> string list \<Rightarrow> WorkflowError + string list" where
  "step_dependencies step earlier =
     (let dependencies = value_array step ''dependsOn'' in
      if list_all (\<lambda>v. as_str v \<noteq> None) dependencies
      then (let names = List.map_filter as_str dependencies in
            if set names \<subseteq> set earlier then Inr names else Inl Invalid)
      else Inl Invalid)"

definition step_target ::
  "crates \<Rightarrow> source_env \<Rightarrow> string option \<Rightarrow> string option \<Rightarrow> ProjectConfiguration \<Rightarrow> string \<Rightarrow> WorkflowSource \<Rightarrow> string
     \<Rightarrow> WorkflowError + (RiskClass \<times> string list \<times> WebSocketPlan option)" where
  "step_target C W auth server configuration step_id source selector =
     (case source of
        HttpSource source \<Rightarrow>
          and_then (map_err (\<lambda>_. Source) (resolve_operation C source selector)) (\<lambda>operation.
          and_then (preview_grants C source operation server auth configuration) (\<lambda>grants.
          Inr (operation_risk operation configuration, grants, None)))
      | WebSocketSource path byts document fp \<Rightarrow>
          and_then (map_err (\<lambda>_. StepPlan step_id)
            (build_websocket_plan_with_configuration C (so_plan W) (session_source C W path byts) byts configuration)) (\<lambda>plan.
          and_then (ok_or (get_str document ''operationId'') Invalid) (\<lambda>operation_id.
          if selector \<noteq> operation_id \<and> selector \<noteq> wp_operation plan then Inl Invalid
          else Inr (wp_risk plan, wp_required_grants plan, Some plan))))"

definition step_parameter :: "json \<Rightarrow> WorkflowParameterBinding list \<Rightarrow> WorkflowError + WorkflowParameterBinding list" where
  "step_parameter parameter bound =
     and_then (ok_or (get_str parameter ''name'') Invalid) (\<lambda>name.
     and_then (ok_or (json_get parameter ''value'') Invalid) (\<lambda>v.
     Inr (bound @ [\<lparr>pbind_name = name, pbind_location = get_str parameter ''in'', pbind_value = v\<rparr>])))"

definition step_bindings ::
  "crates \<Rightarrow> json \<Rightarrow> json \<Rightarrow> bool \<Rightarrow> bool \<Rightarrow> WorkflowError + WorkflowWebSocketBinding list" where
  "step_bindings C step document websocket has_http_inputs =
     (if websocket
      then (if has_http_inputs then Inl Invalid else parse_websocket_bindings C step document)
      else if json_get step ''x-kahea-websocket-bindings'' \<noteq> None then Inl Invalid else Inr [])"

definition step_actions :: "crates \<Rightarrow> json \<Rightarrow> bool \<Rightarrow> (string \<times> json) list \<Rightarrow> WorkflowError + unit" where
  "step_actions C step websocket outs =
     (let criteria = value_array step ''successCriteria''; on_success = value_array step ''onSuccess'';
          on_failure = value_array step ''onFailure'' in
      and_then (if websocket then for_each (\<lambda>(name, e) _. validate_websocket_output_expression e) outs () else Inr ()) (\<lambda>_.
      and_then (if websocket \<and> criteria \<noteq> [] then Inl Invalid
                else for_each (\<lambda>c _. and_then (criterion_to_check C c) (\<lambda>_. Inr ())) criteria ()) (\<lambda>_.
      and_then (validate_actions on_success True) (\<lambda>_.
      and_then (validate_actions on_failure False) (\<lambda>_.
      ensure (\<not> (websocket \<and> list_ex (\<lambda>a. value_array a ''criteria'' \<noteq> []) (on_success @ on_failure))) Invalid)))))"

definition plan_step ::
  "crates \<Rightarrow> source_env \<Rightarrow> string option \<Rightarrow> string option \<Rightarrow> ProjectConfiguration \<Rightarrow> (string \<times> WorkflowSource) list
     \<Rightarrow> json \<Rightarrow> WorkflowDraft \<Rightarrow> WorkflowError + WorkflowDraft" where
  "plan_step C W auth server configuration sources step d =
     and_then (ok_or (get_str step ''stepId'') Invalid) (\<lambda>step_id.
     and_then (ensure (step_id \<notin> set (draft_step_ids d)) Invalid) (\<lambda>_.
     and_then (step_dependencies step (draft_step_ids d)) (\<lambda>depends_on.
     and_then (step_operation C step sources) (\<lambda>(source_name, selector).
     and_then (ok_or (map_of sources source_name) Invalid) (\<lambda>source.
     and_then (step_target C W auth server configuration step_id source selector) (\<lambda>(step_risk, grants, websocket_plan).
     let websocket = (websocket_plan \<noteq> None) in
     and_then (for_each step_parameter (value_array step ''parameters'') []) (\<lambda>params.
     let request_body = Option.bind (json_get step ''requestBody'') (\<lambda>body.
           case json_get body ''payload'' of Some v \<Rightarrow> Some v | None \<Rightarrow> json_get body ''content'');
         outs = (case get_object step ''outputs'' of Some m \<Rightarrow> m | None \<Rightarrow> []) in
     and_then (step_bindings C step (source_document source) websocket (params \<noteq> [] \<or> request_body \<noteq> None)) (\<lambda>bindings.
     and_then (step_actions C step websocket outs) (\<lambda>_.
     Inr \<lparr>wd_steps = wd_steps d @
            [\<lparr>st_step_id = step_id, st_source_name = source_name, st_source_document = source_document source,
              st_source_fingerprint = source_fingerprint source, st_operation = selector, st_parameters = params,
              st_request_body = request_body, st_outputs = outs,
              st_deferred_bindings = sort_dedup (collect_runtime_expressions step), st_depends_on = depends_on,
              st_success_criteria = value_array step ''successCriteria'', st_on_success = value_array step ''onSuccess'',
              st_on_failure = value_array step ''onFailure'', st_timeout_ms = get_u64 step ''timeout'',
              st_transport = (if websocket then WebSocket else Http), st_websocket_plan = websocket_plan,
              st_websocket_bindings = bindings\<rparr>],
          wd_grants = wd_grants d @ grants, wd_risk = maximum_risk (wd_risk d) step_risk\<rparr>)))))))))"

definition seal_workflow ::
  "crates \<Rightarrow> plan_env \<Rightarrow> json \<Rightarrow> string \<Rightarrow> json \<Rightarrow> string option \<Rightarrow> string option \<Rightarrow> string list \<Rightarrow> ProjectConfiguration
     \<Rightarrow> (string \<times> WorkflowSource) list \<Rightarrow> WorkflowDraft \<Rightarrow> WorkflowError + WorkflowPlan" where
  "seal_workflow C E document workflow_id input auth server checks configuration sources d =
     and_then (ok_or (json_to_vec C document) WorkflowSerialization) (\<lambda>byts.
     and_then (if list_ex (\<lambda>s. st_transport s = WebSocket) (wd_steps d)
               then map_err (\<lambda>_. Invalid) (and_then (websocket_policy_fingerprint C configuration) (\<lambda>fp. Inr (Some fp)))
               else Inr None) (\<lambda>websocket_fp.
     and_then (map_err (\<lambda>_. Invalid) (config_fingerprint C E configuration)) (\<lambda>config_fp.
     and_then (map_err (\<lambda>_. Invalid) (policy_fingerprint C configuration)) (\<lambda>policy_fp.
     map_err (\<lambda>_. WorkflowSerialization) (seal_workflow_plan C
       \<lparr>wf_protocol = PROTOCOL, wf_kind = ''workflow-plan'', wf_version = VERSION, wf_config_fingerprint = config_fp,
        wf_policy_fingerprint = policy_fp,
        wf_source_fingerprints = sort (map (\<lambda>(name, source). source_fingerprint source) sources @ [digest C byts]),
        wf_id = [], wf_workflow = workflow_id, wf_input = input, wf_steps = wd_steps d, wf_risk = wd_risk d,
        wf_required_grants = sort_dedup (wd_grants d), wf_auth = auth, wf_server = server, wf_checks = checks,
        wf_websocket_policy_fingerprint = websocket_fp, wf_fingerprint = [], wf_exit = 0\<rparr>)))))"

definition build_workflow_plan ::
  "crates \<Rightarrow> source_env \<Rightarrow> string \<Rightarrow> json \<Rightarrow> string \<Rightarrow> json \<Rightarrow> string option \<Rightarrow> string option \<Rightarrow> string list
     \<Rightarrow> ProjectConfiguration \<Rightarrow> WorkflowError + WorkflowPlan" where
  "build_workflow_plan C W arazzo_path document workflow_id input auth server checks configuration =
     (if \<not> is_arazzo document then Inl Invalid
      else
        and_then (ok_or (get_array document ''workflows'') Invalid) (\<lambda>workflows.
        and_then (ok_or (List.find (\<lambda>w. get_str w ''workflowId'' = Some workflow_id) workflows) (UnknownWorkflow workflow_id)) (\<lambda>workflow.
        and_then (validate_workflow_inputs (json_get workflow ''inputs'') input) (\<lambda>_.
        and_then (load_sources C W arazzo_path document) (\<lambda>sources.
        and_then (ok_or (get_array workflow ''steps'') Invalid) (\<lambda>step_values.
        if step_values = [] \<or> 100 < length step_values then Inl Invalid
        else
          and_then (for_each (plan_step C W auth server configuration sources) step_values
                      \<lparr>wd_steps = [], wd_grants = [], wd_risk = Read\<rparr>) (\<lambda>d.
          seal_workflow C (so_plan W) document workflow_id input auth server checks configuration sources d)))))))"

end
