(* ===== verification/Workflow_Run.thy ===== *)
theory Workflow_Run
  imports Workflow_Plan Plan_Store Ws_Connect
begin

text \<open>
  Running a sealed workflow plan (\<open>kahea-workflow\<close>, \<open>invoke_workflow\<close>): the gates, the steps in order, each planned
  from the outputs of the steps before it, the attempts of a step with their retries and delays, and the observation.

  The environment gives, for every step and attempt, what the executors get from outside, and the time elapsed since
  the run began.  The state is the evidence store, the plan store, and a record of every request sent and every
  address contacted.  A result is \<open>None\<close> when a step does not return (see \<open>Http_Planner\<close> and \<open>Ws_Connect\<close>) or panics.
\<close>

record WorkflowStepObservation =
  so_step_id :: string
  so_step_plan :: "string option"
  so_attempts :: "json list"
  so_result :: json

record WorkflowObservation =
  wfo_protocol :: string
  wfo_kind :: string
  wfo_version :: string
  wfo_config_fingerprint :: string
  wfo_policy_fingerprint :: string
  wfo_source_fingerprints :: "string list"
  wfo_workflow_plan :: string
  wfo_outcome :: Outcome
  wfo_steps :: "WorkflowStepObservation list"
  wfo_outputs :: "(string \<times> json) list"
  wfo_exit :: u8

record workflow_env =
  en_source :: source_env
  en_fuel :: nat
  en_store_faults :: "nat \<Rightarrow> store_faults"
  en_http :: "nat \<Rightarrow> nat \<Rightarrow> http_env"
  en_websocket :: "nat \<Rightarrow> nat \<Rightarrow> ws_env \<times> instant \<times> ws_reply list"
  \<comment> \<open>\<open>workflow_started.elapsed()\<close> before an attempt and before a delay, in nanoseconds\<close>
  en_elapsed :: "nat \<Rightarrow> nat \<Rightarrow> nat"
  en_elapsed_at_retry :: "nat \<Rightarrow> nat \<Rightarrow> nat"
  \<comment> \<open>\<open>serde_json::to_value\<close> and \<open>Display\<close>\<close>
  en_observation_value :: "Observation \<Rightarrow> json option"
  en_websocket_value :: "WebSocketObservation \<Rightarrow> json option"
  en_denial_value :: "DenialEnvelope \<Rightarrow> json option"
  en_error_text :: "ExecError \<Rightarrow> string"

record run_state =
  rs_evidence :: EvidenceStore
  rs_files :: files
  rs_sent :: "HttpRequest list"
  rs_contacted :: "SocketAddr list"

subsection \<open>Time\<close>

definition remaining_step_timeout :: "nat \<Rightarrow> nat \<Rightarrow> u64 option \<Rightarrow> WorkflowError + nat" where
  "remaining_step_timeout elapsed workflow_timeout step_timeout_ms =
     (if workflow_timeout \<le> elapsed then Inl Invalid
      else Inr (case step_timeout_ms of
                  Some ms \<Rightarrow> min (unat ms * 1000000) (workflow_timeout - elapsed)
                | None \<Rightarrow> workflow_timeout - elapsed))"

definition sleep_retry_delay :: "nat \<Rightarrow> nat \<Rightarrow> nat \<Rightarrow> WorkflowError + unit" where
  "sleep_retry_delay elapsed workflow_timeout delay =
     (if workflow_timeout < elapsed then Inl Invalid
      else if workflow_timeout - elapsed \<le> delay then Inl Invalid
      else Inr ())"

subsection \<open>Observations\<close>

definition workflow_observation ::
  "WorkflowPlan \<Rightarrow> Outcome \<Rightarrow> WorkflowStepObservation list \<Rightarrow> (string \<times> json) list \<Rightarrow> u8 \<Rightarrow> WorkflowObservation" where
  "workflow_observation plan outcome steps outs exit =
     \<lparr>wfo_protocol = PROTOCOL, wfo_kind = ''workflow-observation'', wfo_version = VERSION,
      wfo_config_fingerprint = wf_config_fingerprint plan, wfo_policy_fingerprint = wf_policy_fingerprint plan,
      wfo_source_fingerprints = wf_source_fingerprints plan, wfo_workflow_plan = wf_id plan, wfo_outcome = outcome,
      wfo_steps = steps, wfo_outputs = outs, wfo_exit = exit\<rparr>"

definition failed_workflow_observation :: "WorkflowPlan \<Rightarrow> WorkflowStepObservation list \<Rightarrow> u8 \<Rightarrow> WorkflowObservation" where
  "failed_workflow_observation plan steps exit = workflow_observation plan (if exit = 4 then Denied else Failed) steps [] exit"

definition workflow_denial :: "WorkflowPlan \<Rightarrow> string \<Rightarrow> WorkflowObservation" where
  "workflow_denial plan missing =
     workflow_observation plan Denied
       [\<lparr>so_step_id = ''policy'', so_step_plan = None, so_attempts = [],
         so_result = JObject [(''exit'', json_nat 4),
                              (''reason'', JString ''workflow invocation is missing a required capability''),
                              (''required'', JString missing)]\<rparr>] [] 4"

definition attempt_error :: "workflow_env \<Rightarrow> ExecError \<Rightarrow> json" where
  "attempt_error W e =
     JObject [(''exit'', json_nat 3), (''kind'', JString ''workflow-attempt-error''), (''message'', JString (en_error_text W e)),
              (''protocol'', JString PROTOCOL)]"

subsection \<open>Attempts\<close>

text \<open>How one turn of the loop over attempts ends: with \<open>continue\<close>, \<open>break\<close>, an error that leaves the function, or not.\<close>

datatype 'r attempt_end = Repeat json | Stop json 'r | Abort WorkflowError | NoReturn

text \<open>The delay before the next attempt.\<close>

definition delay_turn :: "nat \<Rightarrow> nat \<Rightarrow> json \<Rightarrow> json \<Rightarrow> 'r attempt_end" where
  "delay_turn elapsed workflow_timeout action attempt =
     (case retry_delay action of
        None \<Rightarrow> NoReturn
      | Some delay \<Rightarrow>
          if delay = 0 then Repeat attempt
          else (case sleep_retry_delay elapsed workflow_timeout delay of
                  Inl e \<Rightarrow> Abort e | Inr _ \<Rightarrow> Repeat attempt))"

definition failed_attempt ::
  "workflow_env \<Rightarrow> nat \<Rightarrow> nat \<Rightarrow> WorkflowStepTemplate \<Rightarrow> nat \<Rightarrow> ExecError \<Rightarrow> 'r attempt_end" where
  "failed_attempt W elapsed workflow_timeout step retries e =
     (case unconditional_retry (st_on_failure step) of
        Some action \<Rightarrow>
          if retries < retry_limit action then delay_turn elapsed workflow_timeout action (attempt_error W e)
          else Abort (StepPlan (st_step_id step))
      | None \<Rightarrow> Abort (StepPlan (st_step_id step)))"

definition invocation_value :: "workflow_env \<Rightarrow> InvocationResult \<Rightarrow> json option" where
  "invocation_value W result =
     (case result of Observed obs \<Rightarrow> en_observation_value W obs | InvocationDenied d \<Rightarrow> en_denial_value W d)"

definition http_turn ::
  "crates \<Rightarrow> workflow_env \<Rightarrow> nat \<Rightarrow> nat \<Rightarrow> WorkflowStepTemplate \<Rightarrow> nat \<Rightarrow> ExecError + InvocationResult \<Rightarrow> EvidenceStore
     \<Rightarrow> InvocationResult attempt_end" where
  "http_turn C W elapsed workflow_timeout step retries r s =
     (case r of
        Inl e \<Rightarrow> failed_attempt W elapsed workflow_timeout step retries e
      | Inr result \<Rightarrow>
          (case invocation_value W result of
             None \<Rightarrow> Abort WorkflowSerialization
           | Some attempt \<Rightarrow>
               if invocation_exit result = 0 then Stop attempt result
               else (case select_action C (st_on_failure step) result s of
                       Inl e \<Rightarrow> Abort e
                     | Inr (Some action) \<Rightarrow>
                         if is_kind ''retry'' action \<and> retries < retry_limit action
                         then delay_turn elapsed workflow_timeout action attempt
                         else Stop attempt result
                     | Inr None \<Rightarrow> Stop attempt result)))"

definition websocket_turn ::
  "workflow_env \<Rightarrow> nat \<Rightarrow> nat \<Rightarrow> WorkflowStepTemplate \<Rightarrow> nat \<Rightarrow> ExecError + WebSocketConnectResult
     \<Rightarrow> (DenialEnvelope + WebSocketObservation) attempt_end" where
  "websocket_turn W elapsed workflow_timeout step retries r =
     (case r of
        Inl e \<Rightarrow> failed_attempt W elapsed workflow_timeout step retries e
      | Inr (Connected _) \<Rightarrow> Abort (StepPlan (st_step_id step))
      | Inr (DeniedResult d) \<Rightarrow>
          (case en_denial_value W d of None \<Rightarrow> Abort WorkflowSerialization | Some v \<Rightarrow> Stop v (Inl d))
      | Inr (ObservationResult obs) \<Rightarrow>
          (case en_websocket_value W obs of
             None \<Rightarrow> Abort WorkflowSerialization
           | Some v \<Rightarrow>
               if wo_exit obs = 0 then Stop v (Inr obs)
               else (case unconditional_retry (st_on_failure step) of
                       Some action \<Rightarrow>
                         if retries < retry_limit action then delay_turn elapsed workflow_timeout action v else Stop v (Inr obs)
                     | None \<Rightarrow> Stop v (Inr obs))))"

text \<open>The bound that makes both loops end: no retry goes beyond the largest limit of the step's retry actions.\<close>

definition retry_budget :: "WorkflowStepTemplate \<Rightarrow> nat" where
  "retry_budget step = fold max (map retry_limit (filter (is_kind ''retry'') (st_on_failure step))) 0"

lemma fold_max_upper: "x \<in> set xs \<or> x \<le> a \<Longrightarrow> x \<le> fold max xs (a :: nat)"
proof (induction xs arbitrary: a)
  case (Cons y ys)
  from Cons.prems have "x \<in> set ys \<or> x \<le> max y a" by auto
  from Cons.IH [OF this] show ?case by simp
qed simp

lemma within_budget:
  assumes "action \<in> set (st_on_failure step)" and "is_kind ''retry'' action" and "k < retry_limit action"
  shows "k < retry_budget step"
proof -
  from assms have "retry_limit action \<le> retry_budget step" unfolding retry_budget_def by (intro fold_max_upper) simp
  with assms(3) show ?thesis by simp
qed

lemma unconditional_retry_member: "unconditional_retry actions = Some a \<Longrightarrow> a \<in> set actions \<and> is_kind ''retry'' a"
  by (auto simp: unconditional_retry_def find_Some_iff)

lemma select_action_member: "select_action C actions result s = Inr (Some a) \<Longrightarrow> a \<in> set actions"
  by (induction actions) (auto simp: and_then_Inr_iff split: if_splits)

lemma failed_attempt_again: "failed_attempt W el t step k e = Repeat j \<Longrightarrow> k < retry_budget step"
  by (auto simp: failed_attempt_def split: option.splits if_splits intro: within_budget dest: unconditional_retry_member)

lemma http_turn_again: "http_turn C W el t step k r s = Repeat j \<Longrightarrow> k < retry_budget step"
  by (auto simp: http_turn_def split: sum.splits option.splits if_splits
      intro: within_budget failed_attempt_again dest: select_action_member)

lemma websocket_turn_again: "websocket_turn W el t step k r = Repeat j \<Longrightarrow> k < retry_budget step"
  by (auto simp: websocket_turn_def split: sum.splits option.splits if_splits WebSocketConnectResult.splits
      intro: within_budget failed_attempt_again dest: unconditional_retry_member)

text \<open>The loops: the attempts made, and how the last one ended.\<close>

function http_attempts ::
  "crates \<Rightarrow> workflow_env \<Rightarrow> nat \<Rightarrow> WorkflowStepTemplate \<Rightarrow> nat \<Rightarrow> RequestPlan \<Rightarrow> InvokeOptions \<Rightarrow> nat \<Rightarrow> json list \<Rightarrow> run_state
     \<Rightarrow> ((WorkflowError + (json list \<times> InvocationResult)) \<times> run_state) option" where
  "http_attempts C W i step workflow_timeout plan opts retries attempts st =
     (case invoke C (en_http W i retries) plan opts (rs_evidence st) of
        (r, s, sent) \<Rightarrow>
          (let st' = st\<lparr>rs_evidence := s, rs_sent := rs_sent st @ sent\<rparr> in
           case http_turn C W (en_elapsed_at_retry W i retries) workflow_timeout step retries r s of
             Repeat attempt \<Rightarrow> http_attempts C W i step workflow_timeout plan opts (retries + 1) (attempts @ [attempt]) st'
           | Stop attempt result \<Rightarrow> Some (Inr (attempts @ [attempt], result), st')
           | Abort e \<Rightarrow> Some (Inl e, st')
           | NoReturn \<Rightarrow> None))"
  by pat_completeness auto
termination
  by (relation "measure (\<lambda>(C, W, i, step, t, plan, opts, retries, attempts, st). retry_budget step - retries)")
    (auto dest!: http_turn_again)

declare http_attempts.simps [simp del]

definition websocket_options ::
  "WorkflowStepTemplate \<Rightarrow> InvokeOptions \<Rightarrow> nat \<Rightarrow> WebSocketPlan \<Rightarrow> InvokeOptions" where
  "websocket_options step options timeout plan =
     options\<lparr>opt_timeout := timeout, opt_expected_config_fingerprint := Some (wp_config_fingerprint plan),
             opt_expected_policy_fingerprint := Some (wp_policy_fingerprint plan)\<rparr>"

function websocket_attempts ::
  "crates \<Rightarrow> workflow_env \<Rightarrow> nat \<Rightarrow> WorkflowStepTemplate \<Rightarrow> InvokeOptions \<Rightarrow> WebSocketPlan \<Rightarrow> nat \<Rightarrow> json list \<Rightarrow> run_state
     \<Rightarrow> ((WorkflowError + (json list \<times> (DenialEnvelope + WebSocketObservation))) \<times> run_state) option" where
  "websocket_attempts C W i step options plan retries attempts st =
     (case remaining_step_timeout (en_elapsed W i retries) (opt_timeout options) (st_timeout_ms step) of
        Inl e \<Rightarrow> Some (Inl e, st)
      | Inr timeout \<Rightarrow>
          (case en_websocket W i retries of
             (env, im, rs) \<Rightarrow>
               (case execute_websocket C env im plan (websocket_options step options timeout plan) False rs (rs_evidence st) of
                  None \<Rightarrow> None
                | Some (r, s, contacted) \<Rightarrow>
                    (let st' = st\<lparr>rs_evidence := s, rs_contacted := rs_contacted st @ contacted\<rparr> in
                     case websocket_turn W (en_elapsed_at_retry W i retries) (opt_timeout options) step retries r of
                       Repeat attempt \<Rightarrow> websocket_attempts C W i step options plan (retries + 1) (attempts @ [attempt]) st'
                     | Stop attempt result \<Rightarrow> Some (Inr (attempts @ [attempt], result), st')
                     | Abort e \<Rightarrow> Some (Inl e, st')
                     | NoReturn \<Rightarrow> None))))"
  by pat_completeness auto
termination
  by (relation "measure (\<lambda>(C, W, i, step, options, plan, retries, attempts, st). retry_budget step - retries)")
    (auto dest!: websocket_turn_again)

declare websocket_attempts.simps [simp del]

subsection \<open>HTTP steps\<close>

definition step_source :: "crates \<Rightarrow> WorkflowStepTemplate \<Rightarrow> WorkflowError + OpenApiSource" where
  "step_source C step =
     and_then (ok_or (json_to_vec C (st_source_document step)) WorkflowSerialization) (\<lambda>byts.
     Inr \<lparr>os_document = st_source_document step, os_source_fingerprint = st_source_fingerprint step,
          os_source_handle = short_handle C ''src'' [byts]\<rparr>)"

definition step_explicit ::
  "crates \<Rightarrow> OperationDefinition \<Rightarrow> OpenApiSource \<Rightarrow> json \<Rightarrow> step_outputs \<Rightarrow> WorkflowParameterBinding
     \<Rightarrow> (string \<times> json) list \<Rightarrow> WorkflowError + (string \<times> json) list" where
  "step_explicit C operation source inputs outs parameter explicit =
     and_then (ok_or (case pbind_location parameter of
                        Some l \<Rightarrow> Some l | None \<Rightarrow> parameter_location C operation source (pbind_name parameter)) Invalid) (\<lambda>location.
     and_then (materialize C (pbind_value parameter) inputs outs) (\<lambda>v.
     Inr (explicit @ [(location @ ''.'' @ pbind_name parameter, v)])))"

definition step_checks :: "crates \<Rightarrow> WorkflowPlan \<Rightarrow> WorkflowStepTemplate \<Rightarrow> WorkflowError + string list" where
  "step_checks C plan step =
     for_each (\<lambda>criterion checks. and_then (criterion_to_check C criterion) (\<lambda>c. Inr (checks @ [c])))
       (st_success_criteria step) (wf_checks plan)"

text \<open>What is planned for an HTTP step, before the request itself.\<close>

definition step_options ::
  "crates \<Rightarrow> WorkflowPlan \<Rightarrow> WorkflowStepTemplate \<Rightarrow> step_outputs
     \<Rightarrow> WorkflowError + (OpenApiSource \<times> OperationDefinition \<times> PlanOptions)" where
  "step_options C plan step outs =
     and_then (step_source C step) (\<lambda>source.
     and_then (map_err (\<lambda>_. Source) (resolve_operation C source (st_operation step))) (\<lambda>operation.
     and_then (for_each (step_explicit C operation source (wf_input plan) outs) (st_parameters step) []) (\<lambda>explicit.
     and_then (case st_request_body step of
                 None \<Rightarrow> Inr None
               | Some body \<Rightarrow>
                   and_then (materialize C body (wf_input plan) outs) (\<lambda>b. Inr (Some (JObject [(''body'', b)])))) (\<lambda>input.
     and_then (step_checks C plan step) (\<lambda>checks.
     Inr (source, operation,
          \<lparr>po_server = wf_server plan, po_auth = wf_auth plan, po_content_type = None, po_input = input,
           po_explicit = explicit, po_checks = checks\<rparr>))))))"

text \<open>What a step leaves: its observation, its exit, its outputs, whether the workflow ends after it.\<close>

record StepRun =
  sr_observation :: WorkflowStepObservation
  sr_exit :: u8
  sr_outputs :: "(string \<times> json) list"
  sr_ends :: bool

definition output_entry ::
  "(json \<Rightarrow> WorkflowError + json) \<Rightarrow> string \<times> json \<Rightarrow> (string \<times> json) list \<Rightarrow> WorkflowError + (string \<times> json) list" where
  "output_entry evaluate = (\<lambda>(name, expression) outs.
     and_then (evaluate expression) (\<lambda>v. Inr (map_insert name v outs)))"

definition http_step_run ::
  "crates \<Rightarrow> workflow_env \<Rightarrow> WorkflowStepTemplate \<Rightarrow> RequestPlan \<Rightarrow> json list \<Rightarrow> InvocationResult \<Rightarrow> EvidenceStore
     \<Rightarrow> WorkflowError + StepRun" where
  "http_step_run C W step request attempts result s =
     and_then (ok_or (invocation_value W result) WorkflowSerialization) (\<lambda>v.
     let obs = \<lparr>so_step_id = st_step_id step, so_step_plan = Some (rp_id request), so_attempts = attempts, so_result = v\<rparr>;
         failed = (\<lambda>exit. Inr \<lparr>sr_observation = obs, sr_exit = exit, sr_outputs = [], sr_ends = False\<rparr>) in
     case result of
       InvocationDenied d \<Rightarrow> failed (de_exit d)
     | Observed observation \<Rightarrow>
         if ob_exit observation \<noteq> 0 then failed (ob_exit observation)
         else
           and_then (observed_body C s observation) (\<lambda>body.
           and_then (for_each (output_entry (\<lambda>e. evaluate_output C e observation body)) (st_outputs step) []) (\<lambda>outs.
           and_then (select_action C (st_on_success step) (Observed observation) s) (\<lambda>action.
           Inr \<lparr>sr_observation = obs, sr_exit = 0, sr_outputs = outs,
                sr_ends = (case action of Some a \<Rightarrow> is_kind ''end'' a | None \<Rightarrow> False)\<rparr>))))"

definition run_http_step ::
  "crates \<Rightarrow> workflow_env \<Rightarrow> nat \<Rightarrow> WorkflowPlan \<Rightarrow> InvokeOptions \<Rightarrow> ProjectConfiguration \<Rightarrow> WorkflowStepTemplate
     \<Rightarrow> step_outputs \<Rightarrow> run_state \<Rightarrow> ((WorkflowError + StepRun) \<times> run_state) option" where
  "run_http_step C W i plan options configuration step outs st =
     (case step_options C plan step outs of
        Inl e \<Rightarrow> Some (Inl e, st)
      | Inr (source, operation, plan_options) \<Rightarrow>
          (case build_plan_with_configuration C (so_plan (en_source W)) (en_fuel W) source operation plan_options configuration of
             None \<Rightarrow> None
           | Some (Inl _) \<Rightarrow> Some (Inl (StepPlan (st_step_id step)), st)
           | Some (Inr request) \<Rightarrow>
               (case store_plan C (en_store_faults W i) request (rs_files st) of
                  (Inl _, fs) \<Rightarrow> Some (Inl (StepPlan (st_step_id step)), st\<lparr>rs_files := fs\<rparr>)
                | (Inr _, fs) \<Rightarrow>
                    (case remaining_step_timeout (en_elapsed W i 0) (opt_timeout options) (st_timeout_ms step) of
                       Inl e \<Rightarrow> Some (Inl e, st\<lparr>rs_files := fs\<rparr>)
                     | Inr timeout \<Rightarrow>
                         (case http_attempts C W i step (opt_timeout options) request (options\<lparr>opt_timeout := timeout\<rparr>) 0 []
                                 (st\<lparr>rs_files := fs\<rparr>) of
                            None \<Rightarrow> None
                          | Some (Inl e, st') \<Rightarrow> Some (Inl e, st')
                          | Some (Inr (attempts, result), st') \<Rightarrow>
                              Some (http_step_run C W step request attempts result (rs_evidence st'), st'))))))"

subsection \<open>WebSocket steps\<close>

definition validate_rebuilt_websocket_plan ::
  "string \<Rightarrow> string \<Rightarrow> json \<Rightarrow> WebSocketPlan \<Rightarrow> WebSocketPlan \<Rightarrow> WorkflowError + unit" where
  "validate_rebuilt_websocket_plan step_id operation source sealed rebuilt =
     (if wp_operation rebuilt \<noteq> operation \<and> get_str source ''operationId'' \<noteq> Some operation then Inl (StepPlan step_id)
      else if wp_risk rebuilt \<noteq> wp_risk sealed then Inl (StepPlan step_id)
      else if wp_required_grants rebuilt \<noteq> wp_required_grants sealed then Inl (StepPlan step_id)
      else Inr ())"

definition bind_value ::
  "crates \<Rightarrow> json \<Rightarrow> step_outputs \<Rightarrow> WorkflowWebSocketBinding \<Rightarrow> json \<Rightarrow> WorkflowError + json" where
  "bind_value C inputs outs binding source =
     and_then (materialize C (wbind_value binding) inputs outs) (\<lambda>v.
     and_then (ensure (json_pointer C source (wbind_pointer binding) \<noteq> None) Invalid) (\<lambda>_.
     ok_or (json_pointer_set C source (wbind_pointer binding) v) Invalid))"

text \<open>The plan a WebSocket step runs: the sealed one, or one rebuilt from the source with its bindings.\<close>

definition step_websocket_plan ::
  "crates \<Rightarrow> workflow_env \<Rightarrow> ProjectConfiguration \<Rightarrow> WorkflowStepTemplate \<Rightarrow> json \<Rightarrow> step_outputs
     \<Rightarrow> WorkflowError + WebSocketPlan" where
  "step_websocket_plan C W configuration step inputs outs =
     and_then (ok_or (st_websocket_plan step) Invalid) (\<lambda>sealed.
     if st_websocket_bindings step = [] then Inr sealed
     else
       and_then (for_each (bind_value C inputs outs) (st_websocket_bindings step) (st_source_document step)) (\<lambda>source.
       and_then (ok_or (json_to_vec C source) WorkflowSerialization) (\<lambda>byts.
       and_then (map_err (\<lambda>_. StepPlan (st_step_id step))
         (build_websocket_plan_with_configuration C (so_plan (en_source W))
            (session_source C (en_source W) ''workflow-websocket-session.json'' byts) byts configuration)) (\<lambda>rebuilt.
       and_then (validate_rebuilt_websocket_plan (st_step_id step) (st_operation step) source sealed rebuilt) (\<lambda>_.
       Inr rebuilt)))))"

definition websocket_step_run ::
  "crates \<Rightarrow> workflow_env \<Rightarrow> WorkflowStepTemplate \<Rightarrow> WebSocketPlan \<Rightarrow> json list \<Rightarrow> DenialEnvelope + WebSocketObservation
     \<Rightarrow> EvidenceStore \<Rightarrow> WorkflowError + StepRun" where
  "websocket_step_run C W step plan attempts result s =
     (let observation = (\<lambda>v. \<lparr>so_step_id = st_step_id step, so_step_plan = Some (wp_id plan), so_attempts = attempts,
                              so_result = v\<rparr>);
          ends = list_ex (is_kind ''end'') (st_on_success step) in
      case result of
        Inl d \<Rightarrow>
          and_then (ok_or (en_denial_value W d) WorkflowSerialization) (\<lambda>v.
          Inr \<lparr>sr_observation = observation v, sr_exit = de_exit d, sr_outputs = [], sr_ends = ends\<rparr>)
      | Inr obs \<Rightarrow>
          and_then (if wo_exit obs = 0
                    then for_each (output_entry (\<lambda>e. evaluate_websocket_output C e obs s)) (st_outputs step) []
                    else Inr []) (\<lambda>outs.
          and_then (ok_or (en_websocket_value W obs) WorkflowSerialization) (\<lambda>v.
          Inr \<lparr>sr_observation = observation v, sr_exit = wo_exit obs, sr_outputs = outs, sr_ends = ends\<rparr>)))"

definition invoke_websocket_workflow_step ::
  "crates \<Rightarrow> workflow_env \<Rightarrow> nat \<Rightarrow> WorkflowStepTemplate \<Rightarrow> json \<Rightarrow> step_outputs \<Rightarrow> InvokeOptions \<Rightarrow> ProjectConfiguration
     \<Rightarrow> run_state \<Rightarrow> ((WorkflowError + StepRun) \<times> run_state) option" where
  "invoke_websocket_workflow_step C W i step inputs outs options configuration st =
     (case step_websocket_plan C W configuration step inputs outs of
        Inl e \<Rightarrow> Some (Inl e, st)
      | Inr plan \<Rightarrow>
          (case store_websocket_plan C (en_store_faults W i) plan (rs_files st) of
             (Inl _, fs) \<Rightarrow> Some (Inl (StepPlan (st_step_id step)), st\<lparr>rs_files := fs\<rparr>)
           | (Inr _, fs) \<Rightarrow>
               (case websocket_attempts C W i step options plan 0 [] (st\<lparr>rs_files := fs\<rparr>) of
                  None \<Rightarrow> None
                | Some (Inl e, st') \<Rightarrow> Some (Inl e, st')
                | Some (Inr (attempts, result), st') \<Rightarrow>
                    Some (websocket_step_run C W step plan attempts result (rs_evidence st'), st'))))"

subsection \<open>The workflow\<close>

definition run_step ::
  "crates \<Rightarrow> workflow_env \<Rightarrow> nat \<Rightarrow> WorkflowPlan \<Rightarrow> InvokeOptions \<Rightarrow> ProjectConfiguration \<Rightarrow> WorkflowStepTemplate
     \<Rightarrow> step_outputs \<Rightarrow> run_state \<Rightarrow> ((WorkflowError + StepRun) \<times> run_state) option" where
  "run_step C W i plan options configuration step outs st =
     (if st_transport step = WebSocket
      then invoke_websocket_workflow_step C W i step (wf_input plan) outs options configuration st
      else run_http_step C W i plan options configuration step outs st)"

text \<open>The loop over the steps: the observations, and \<open>Inl\<close> the exit of the step that failed or \<open>Inr\<close> the outputs.\<close>

fun run_steps ::
  "crates \<Rightarrow> workflow_env \<Rightarrow> nat \<Rightarrow> WorkflowPlan \<Rightarrow> InvokeOptions \<Rightarrow> ProjectConfiguration \<Rightarrow> WorkflowStepTemplate list
     \<Rightarrow> step_outputs \<Rightarrow> WorkflowStepObservation list \<Rightarrow> run_state
     \<Rightarrow> ((WorkflowError + (WorkflowStepObservation list \<times> (u8 + step_outputs))) \<times> run_state) option" where
  "run_steps C W i plan options configuration [] outs observations st = Some (Inr (observations, Inr outs), st)"
| "run_steps C W i plan options configuration (step # steps) outs observations st =
     (case run_step C W i plan options configuration step outs st of
        None \<Rightarrow> None
      | Some (Inl e, st') \<Rightarrow> Some (Inl e, st')
      | Some (Inr r, st') \<Rightarrow>
          (let observations' = observations @ [sr_observation r];
               outs' = map_insert (st_step_id step) (sr_outputs r) outs in
           if sr_exit r \<noteq> 0 then Some (Inr (observations', Inl (sr_exit r)), st')
           else if sr_ends r then Some (Inr (observations', Inr outs'), st')
           else run_steps C W (i + 1) plan options configuration steps outs' observations' st'))"

definition workflow_outputs :: "step_outputs \<Rightarrow> (string \<times> json) list" where
  "workflow_outputs outs =
     fold (\<lambda>(k, v). map_insert k v) (concat (map (\<lambda>(step, m). map (\<lambda>(name, v). (step @ ''.'' @ name, v)) m) outs)) []"

definition invoke_workflow_gate ::
  "crates \<Rightarrow> WorkflowPlan \<Rightarrow> InvokeOptions \<Rightarrow> ProjectConfiguration \<Rightarrow> WorkflowError + string option" where
  "invoke_workflow_gate C plan options configuration =
     and_then (map_err (\<lambda>_. WorkflowSerialization) (verify_seal_workflow_plan C plan)) (\<lambda>sealed.
     if \<not> sealed then Inl WorkflowSealBroken
     else if fingerprint_mismatch (opt_expected_config_fingerprint options) (wf_config_fingerprint plan)
             \<or> fingerprint_mismatch (opt_expected_policy_fingerprint options) (wf_policy_fingerprint plan)
     then Inl Invalid
     else
       and_then (case wf_websocket_policy_fingerprint plan of
                   None \<Rightarrow> Inr ()
                 | Some expected \<Rightarrow>
                     and_then (map_err (\<lambda>_. Invalid) (websocket_policy_fingerprint C configuration)) (\<lambda>fp.
                     ensure (fp = expected) Invalid)) (\<lambda>_.
       Inr (missing_grant (opt_grants options) (wf_required_grants plan))))"

definition invoke_workflow ::
  "crates \<Rightarrow> workflow_env \<Rightarrow> WorkflowPlan \<Rightarrow> InvokeOptions \<Rightarrow> ProjectConfiguration \<Rightarrow> run_state
     \<Rightarrow> ((WorkflowError + WorkflowObservation) \<times> run_state) option" where
  "invoke_workflow C W plan options configuration st =
     (case invoke_workflow_gate C plan options configuration of
        Inl e \<Rightarrow> Some (Inl e, st)
      | Inr (Some missing) \<Rightarrow> Some (Inr (workflow_denial plan missing), st)
      | Inr None \<Rightarrow>
          (case run_steps C W 0 plan options configuration (wf_steps plan) [] [] st of
             None \<Rightarrow> None
           | Some (Inl e, st') \<Rightarrow> Some (Inl e, st')
           | Some (Inr (observations, Inl exit), st') \<Rightarrow> Some (Inr (failed_workflow_observation plan observations exit), st')
           | Some (Inr (observations, Inr outs), st') \<Rightarrow>
               Some (Inr (workflow_observation plan Passed observations (workflow_outputs outs) 0), st')))"

end
