(* ===== verification/Workflow_Props.thy ===== *)
theory Workflow_Props
  imports Workflow_Run Ws_Connect_Props Http_Planner_Props Ws_Planner_Props Plan_Store_Props
begin

text \<open>
  Properties of workflow runs: nothing leaves the machine before the workflow's own gates, and later only what the
  options grant; observations follow the plan; retries are bounded.
\<close>

subsection \<open>The loop over attempts\<close>

text \<open>What the two loops have in common: one attempt at a time, a turn decides, and only a bounded number repeats.\<close>

locale retry_loop =
  fixes loop :: "nat \<Rightarrow> json list \<Rightarrow> run_state \<Rightarrow> ((WorkflowError + (json list \<times> 'r)) \<times> run_state) option"
    and once :: "nat \<Rightarrow> run_state \<Rightarrow> ('r attempt_end \<times> run_state) option"
    and budget :: nat
  assumes unfold_loop: "loop k attempts st =
      (case once k st of
         None \<Rightarrow> None
       | Some (Repeat a, st') \<Rightarrow> loop (k + 1) (attempts @ [a]) st'
       | Some (Stop a r, st') \<Rightarrow> Some (Inr (attempts @ [a], r), st')
       | Some (Abort e, st') \<Rightarrow> Some (Inl e, st')
       | Some (NoReturn, st') \<Rightarrow> None)"
    and repeats_within: "once k st = Some (Repeat a, st') \<Longrightarrow> k < budget"
begin

lemma attempt_induct:
  assumes "\<And>k attempts st. (\<And>a st'. once k st = Some (Repeat a, st') \<Longrightarrow> P (k + 1) (attempts @ [a]) st') \<Longrightarrow> P k attempts st"
  shows "P k attempts st"
proof (induction "budget - k" arbitrary: k attempts st rule: less_induct)
  case (less k attempts st)
  show ?case
  proof (rule assms)
    fix a st' assume "once k st = Some (Repeat a, st')"
    then have "k < budget" by (rule repeats_within)
    then have "budget - (k + 1) < budget - k" by simp
    then show "P (k + 1) (attempts @ [a]) st'" by (rule less)
  qed
qed

lemma loop_keeps:
  assumes keeps: "\<And>k st t st'. once k st = Some (t, st') \<Longrightarrow> P st \<Longrightarrow> P st'"
  shows "loop k attempts st = Some (res, st') \<Longrightarrow> P st \<Longrightarrow> P st'"
proof (induction k attempts st rule: attempt_induct)
  case (1 k attempts st)
  from 1(2) obtain t s where once: "once k st = Some (t, s)" by (subst (asm) unfold_loop) (auto split: option.splits)
  with keeps 1(3) have s: "P s" by blast
  from 1(2) once have l: "(case t of Repeat a \<Rightarrow> loop (k + 1) (attempts @ [a]) s | Stop a r \<Rightarrow> Some (Inr (attempts @ [a], r), s)
      | Abort e \<Rightarrow> Some (Inl e, s) | NoReturn \<Rightarrow> None) = Some (res, st')"
    by (subst (asm) unfold_loop) simp
  show ?case
  proof (cases t)
    case (Repeat a)
    from 1(1) [OF once [unfolded Repeat]] l s show ?thesis by (simp add: Repeat)
  qed (use l s in auto)
qed

lemma loop_attempts:
  "loop k attempts st = Some (Inr (attempts', r), st') \<Longrightarrow> k \<le> budget
     \<Longrightarrow> length attempts < length attempts' \<and> length attempts' + k \<le> length attempts + budget + 1
        \<and> (\<exists>k' s. once k' s = Some (Stop (last attempts') r, st'))"
proof (induction k attempts st rule: attempt_induct)
  case (1 k attempts st)
  from 1(2) obtain t s where once: "once k st = Some (t, s)" by (subst (asm) unfold_loop) (auto split: option.splits)
  from 1(2) once have l: "(case t of Repeat a \<Rightarrow> loop (k + 1) (attempts @ [a]) s | Stop a r \<Rightarrow> Some (Inr (attempts @ [a], r), s)
      | Abort e \<Rightarrow> Some (Inl e, s) | NoReturn \<Rightarrow> None) = Some (Inr (attempts', r), st')"
    by (subst (asm) unfold_loop) simp
  show ?case
  proof (cases t)
    case (Repeat a)
    with repeats_within once have "k + 1 \<le> budget" by fastforce
    from 1(1) [OF once [unfolded Repeat] _ this] l show ?thesis by (auto simp: Repeat)
  next
    case (Stop a x)
    with l have "attempts' = attempts @ [a]" "x = r" "s = st'" by auto
    with once Stop 1(3) show ?thesis by fastforce
  qed (use l in auto)
qed

lemma loop_returns:
  assumes "\<And>k st. \<exists>t st'. once k st = Some (t, st') \<and> t \<noteq> NoReturn"
  shows "\<exists>res st'. loop k attempts st = Some (res, st')"
proof (induction k attempts st rule: attempt_induct)
  case (1 k attempts st)
  from assms [of k st] obtain t s where once: "once k st = Some (t, s)" "t \<noteq> NoReturn" by blast
  show ?case
  proof (cases t)
    case (Repeat a)
    with 1 once show ?thesis by (subst unfold_loop) simp
  qed (use once in \<open>subst unfold_loop, simp\<close>)+
qed

end

definition http_once ::
  "crates \<Rightarrow> workflow_env \<Rightarrow> nat \<Rightarrow> WorkflowStepTemplate \<Rightarrow> nat \<Rightarrow> RequestPlan \<Rightarrow> InvokeOptions \<Rightarrow> nat \<Rightarrow> run_state
     \<Rightarrow> (InvocationResult attempt_end \<times> run_state) option" where
  "http_once C W i step workflow_timeout plan opts k st =
     (case invoke C (en_http W i k) plan opts (rs_evidence st) of
        (r, s, sent) \<Rightarrow> Some (http_turn C W (en_elapsed_at_retry W i k) workflow_timeout step k r s,
                             st\<lparr>rs_evidence := s, rs_sent := rs_sent st @ sent\<rparr>))"

definition websocket_once ::
  "crates \<Rightarrow> workflow_env \<Rightarrow> nat \<Rightarrow> WorkflowStepTemplate \<Rightarrow> InvokeOptions \<Rightarrow> WebSocketPlan \<Rightarrow> nat \<Rightarrow> run_state
     \<Rightarrow> ((DenialEnvelope + WebSocketObservation) attempt_end \<times> run_state) option" where
  "websocket_once C W i step options plan k st =
     (case remaining_step_timeout (en_elapsed W i k) (opt_timeout options) (st_timeout_ms step) of
        Inl e \<Rightarrow> Some (Abort e, st)
      | Inr timeout \<Rightarrow>
          (case en_websocket W i k of
             (env, im, rs) \<Rightarrow>
               map_option (\<lambda>(r, s, contacted).
                   (websocket_turn W (en_elapsed_at_retry W i k) (opt_timeout options) step k r,
                    st\<lparr>rs_evidence := s, rs_contacted := rs_contacted st @ contacted\<rparr>))
                 (execute_websocket C env im plan (websocket_options step options timeout plan) False rs (rs_evidence st))))"

interpretation http_loop: retry_loop "http_attempts C W i step t plan opts" "http_once C W i step t plan opts"
    "retry_budget step" for C W i step t plan opts
proof
  fix k attempts st
  show "http_attempts C W i step t plan opts k attempts st =
      (case http_once C W i step t plan opts k st of
         None \<Rightarrow> None
       | Some (Repeat a, st') \<Rightarrow> http_attempts C W i step t plan opts (k + 1) (attempts @ [a]) st'
       | Some (Stop a r, st') \<Rightarrow> Some (Inr (attempts @ [a], r), st')
       | Some (Abort e, st') \<Rightarrow> Some (Inl e, st')
       | Some (NoReturn, st') \<Rightarrow> None)"
    by (subst http_attempts.simps) (auto simp: http_once_def Let_def split: prod.splits attempt_end.splits)
next
  fix k st a st' assume "http_once C W i step t plan opts k st = Some (Repeat a, st')"
  then show "k < retry_budget step" by (auto simp: http_once_def split: prod.splits dest: http_turn_again)
qed

interpretation websocket_loop: retry_loop "websocket_attempts C W i step options plan" "websocket_once C W i step options plan"
    "retry_budget step" for C W i step options plan
proof
  fix k attempts st
  show "websocket_attempts C W i step options plan k attempts st =
      (case websocket_once C W i step options plan k st of
         None \<Rightarrow> None
       | Some (Repeat a, st') \<Rightarrow> websocket_attempts C W i step options plan (k + 1) (attempts @ [a]) st'
       | Some (Stop a r, st') \<Rightarrow> Some (Inr (attempts @ [a], r), st')
       | Some (Abort e, st') \<Rightarrow> Some (Inl e, st')
       | Some (NoReturn, st') \<Rightarrow> None)"
    by (subst websocket_attempts.simps)
      (auto simp: websocket_once_def Let_def split: prod.splits attempt_end.splits sum.splits option.splits)
next
  fix k st a st' assume "websocket_once C W i step options plan k st = Some (Repeat a, st')"
  then show "k < retry_budget step"
    by (auto simp: websocket_once_def split: prod.splits sum.splits dest: websocket_turn_again)
qed

subsection \<open>What a run adds to the record\<close>

definition extends_within :: "workflow_env \<Rightarrow> InvokeOptions \<Rightarrow> run_state \<Rightarrow> run_state \<Rightarrow> bool" where
  "extends_within W options st st' =
     (\<exists>requests contacted. rs_sent st' = rs_sent st @ requests \<and> rs_contacted st' = rs_contacted st @ contacted
        \<and> (\<forall>r \<in> set requests. \<exists>i k. request_allowed (en_http W i k) options r)
        \<and> (\<forall>a \<in> set contacted. \<exists>i k target addresses. target_allowed (fst (en_websocket W i k)) target options addresses
             \<and> a \<in> set addresses))"

lemma extends_within_refl:
  "rs_sent st' = rs_sent st \<Longrightarrow> rs_contacted st' = rs_contacted st \<Longrightarrow> extends_within W options st st'"
  by (simp add: extends_within_def)

lemma extends_within_trans:
  "extends_within W options st s \<Longrightarrow> extends_within W options s st' \<Longrightarrow> extends_within W options st st'"
  unfolding extends_within_def
proof (elim exE conjE)
  fix xs as ys bs
  assume "rs_sent s = rs_sent st @ xs" "rs_contacted s = rs_contacted st @ as"
    "rs_sent st' = rs_sent s @ ys" "rs_contacted st' = rs_contacted s @ bs"
    "\<forall>r \<in> set xs. \<exists>i k. request_allowed (en_http W i k) options r" "\<forall>r \<in> set ys. \<exists>i k. request_allowed (en_http W i k) options r"
    "\<forall>a \<in> set as. \<exists>i k target addresses. target_allowed (fst (en_websocket W i k)) target options addresses \<and> a \<in> set addresses"
    "\<forall>a \<in> set bs. \<exists>i k target addresses. target_allowed (fst (en_websocket W i k)) target options addresses \<and> a \<in> set addresses"
  then show "\<exists>requests contacted. rs_sent st' = rs_sent st @ requests \<and> rs_contacted st' = rs_contacted st @ contacted
        \<and> (\<forall>r \<in> set requests. \<exists>i k. request_allowed (en_http W i k) options r)
        \<and> (\<forall>a \<in> set contacted. \<exists>i k target addresses. target_allowed (fst (en_websocket W i k)) target options addresses
             \<and> a \<in> set addresses)" by (intro exI [of _ "xs @ ys"] exI [of _ "as @ bs"]) (simp add: ball_Un)
qed

lemma http_once_extends:
  assumes "http_once C W i step t plan (options\<lparr>opt_timeout := timeout\<rparr>) k st = Some (t', st')"
  shows "extends_within W options st st'"
proof -
  obtain r s sent where inv: "invoke C (en_http W i k) plan (options\<lparr>opt_timeout := timeout\<rparr>) (rs_evidence st) = (r, s, sent)"
    by (cases "invoke C (en_http W i k) plan (options\<lparr>opt_timeout := timeout\<rparr>) (rs_evidence st)") auto
  have "request_allowed (en_http W i k) options x" if "x \<in> set sent" for x
    using invoke_sent_allowed [OF inv that] by (simp add: request_allowed_def)
  then have "\<forall>x \<in> set sent. \<exists>i k. request_allowed (en_http W i k) options x" by blast
  with assms inv show ?thesis by (auto simp: http_once_def extends_within_def)
qed

lemma websocket_once_extends:
  assumes "websocket_once C W i step options plan k st = Some (t', st')"
  shows "extends_within W options st st'"
proof (cases "remaining_step_timeout (en_elapsed W i k) (opt_timeout options) (st_timeout_ms step)")
  case (Inl e)
  with assms show ?thesis by (simp add: websocket_once_def extends_within_refl)
next
  case (Inr timeout)
  obtain env im rs where en: "en_websocket W i k = (env, im, rs)" by (cases "en_websocket W i k") auto
  from assms Inr en obtain r s contacted where
    ex: "execute_websocket C env im plan (websocket_options step options timeout plan) False rs (rs_evidence st) = Some (r, s, contacted)"
    and st': "rs_sent st' = rs_sent st" "rs_contacted st' = rs_contacted st @ contacted"
    by (auto simp: websocket_once_def)
  have "\<exists>target addresses. target_allowed env target options addresses \<and> a \<in> set addresses" if "a \<in> set contacted" for a
  proof -
    from that have "contacted \<noteq> []" by auto
    from execute_contacted_allowed [OF ex this] that show ?thesis
      by (auto simp: target_allowed_def websocket_options_def)
  qed
  with en have "\<forall>a \<in> set contacted. \<exists>i k target addresses. target_allowed (fst (en_websocket W i k)) target options addresses
             \<and> a \<in> set addresses" by (metis fst_conv)
  with st' show ?thesis by (simp add: extends_within_def)
qed

lemma run_http_step_extends:
  assumes "run_http_step C W i plan options configuration step outs st = Some (res, st')"
  shows "extends_within W options st st'"
proof -
  have loop: "extends_within W options st s'"
    if "http_attempts C W i step t request (options\<lparr>opt_timeout := timeout\<rparr>) 0 [] (st\<lparr>rs_files := fs\<rparr>) = Some (x, s')"
    for t request timeout fs x s'
  proof (rule http_loop.loop_keeps [OF _ that])
    show "extends_within W options st (st\<lparr>rs_files := fs\<rparr>)" by (simp add: extends_within_refl)
  qed (blast intro: extends_within_trans http_once_extends)
  from assms show ?thesis
    by (auto simp: run_http_step_def intro: extends_within_refl loop
        split: sum.splits option.splits prod.splits)
qed

lemma websocket_step_extends:
  assumes "invoke_websocket_workflow_step C W i step inputs outs options configuration st = Some (res, st')"
  shows "extends_within W options st st'"
proof -
  have loop: "extends_within W options st s'"
    if "websocket_attempts C W i step options plan 0 [] (st\<lparr>rs_files := fs\<rparr>) = Some (x, s')" for plan fs x s'
  proof (rule websocket_loop.loop_keeps [OF _ that])
    show "extends_within W options st (st\<lparr>rs_files := fs\<rparr>)" by (simp add: extends_within_refl)
  qed (blast intro: extends_within_trans websocket_once_extends)
  from assms show ?thesis
    by (auto simp: invoke_websocket_workflow_step_def intro: extends_within_refl loop
        split: sum.splits option.splits prod.splits)
qed

lemma run_step_extends:
  "run_step C W i plan options configuration step outs st = Some (res, st') \<Longrightarrow> extends_within W options st st'"
  by (auto simp: run_step_def intro: run_http_step_extends websocket_step_extends split: if_splits)

lemma run_steps_extends:
  "run_steps C W i plan options configuration steps outs observations st = Some (res, st') \<Longrightarrow> extends_within W options st st'"
proof (induction steps arbitrary: i outs observations st)
  case Nil
  then show ?case by (simp add: extends_within_refl)
next
  case (Cons step steps)
  then obtain r s where r: "run_step C W i plan options configuration step outs st = Some (r, s)"
    by (auto split: option.splits)
  have first: "extends_within W options st s" by (rule run_step_extends [OF r])
  from Cons.prems r have "(res, st') = (res, s) \<or> (\<exists>outs' obs'. run_steps C W (i + 1) plan options configuration steps outs' obs' s
      = Some (res, st'))"
    by (auto simp: Let_def split: sum.splits if_splits)
  with first Cons.IH show ?case by (blast intro: extends_within_trans)
qed

subsection \<open>What a run observes\<close>

definition step_observed :: "WorkflowStepTemplate \<Rightarrow> WorkflowStepObservation \<Rightarrow> bool" where
  "step_observed step obs =
     (so_step_id obs = st_step_id step \<and> so_step_plan obs \<noteq> None
      \<and> so_attempts obs \<noteq> [] \<and> length (so_attempts obs) \<le> retry_budget step + 1 \<and> so_result obs = last (so_attempts obs))"

definition step_run_ok :: "WorkflowStepTemplate \<Rightarrow> StepRun \<Rightarrow> bool" where
  "step_run_ok step r =
     (step_observed step (sr_observation r) \<and> (sr_exit r \<noteq> 0 \<longrightarrow> sr_outputs r = [])
      \<and> (sr_exit r = 0 \<longrightarrow> sr_ends r \<longrightarrow> list_ex (is_kind ''end'') (st_on_success step)))"

lemma delay_turn_no_stop: "delay_turn elapsed t action attempt \<noteq> Stop a r"
  by (auto simp: delay_turn_def split: option.splits sum.splits)

lemma failed_attempt_no_stop: "failed_attempt W elapsed t step k e \<noteq> Stop a r"
  by (auto simp: failed_attempt_def delay_turn_no_stop split: option.splits)

lemma http_turn_stop: "http_turn C W el t step k x s = Stop a r \<Longrightarrow> invocation_value W r = Some a"
  by (auto simp: http_turn_def failed_attempt_no_stop delay_turn_no_stop split: sum.splits option.splits if_splits)

lemma websocket_turn_stop:
  "websocket_turn W el t step k x = Stop a r \<Longrightarrow>
     (case r of Inl d \<Rightarrow> en_denial_value W d = Some a | Inr obs \<Rightarrow> en_websocket_value W obs = Some a)"
  by (auto simp: websocket_turn_def failed_attempt_no_stop delay_turn_no_stop
      split: sum.splits option.splits if_splits WebSocketConnectResult.splits)

lemma selected_kind: "select_action C actions result s = Inr (Some a) \<Longrightarrow> is_kind kind a \<Longrightarrow> list_ex (is_kind kind) actions"
  unfolding list_ex_iff by (rule bexI [OF _ select_action_member])

lemma http_step_run_ok:
  assumes "http_step_run C W step request attempts result s = Inr r" and "invocation_value W result = Some (last attempts)"
    and "attempts \<noteq> []" and "length attempts \<le> retry_budget step + 1"
  shows "step_run_ok step r"
  using assms
  by (auto simp: http_step_run_def result_iffs Let_def step_run_ok_def step_observed_def
      split: InvocationResult.splits if_splits option.splits) (rule selected_kind, assumption+)

lemma websocket_step_run_ok:
  assumes "websocket_step_run C W step plan attempts result s = Inr r"
    and "case result of Inl d \<Rightarrow> en_denial_value W d = Some (last attempts) | Inr obs \<Rightarrow> en_websocket_value W obs = Some (last attempts)"
    and "attempts \<noteq> []" and "length attempts \<le> retry_budget step + 1"
  shows "step_run_ok step r"
  using assms
  by (auto simp: websocket_step_run_def result_iffs Let_def step_run_ok_def step_observed_def
      split: sum.splits if_splits)

lemma run_http_step_ok:
  assumes "run_http_step C W i plan options configuration step outs st = Some (Inr r, st')"
  shows "step_run_ok step r"
proof -
  from assms obtain t request opts s attempts result where
    loop: "http_attempts C W i step t request opts 0 [] s = Some (Inr (attempts, result), st')"
    and run: "http_step_run C W step request attempts result (rs_evidence st') = Inr r"
    by (auto simp: run_http_step_def split: sum.splits option.splits prod.splits)
  from http_loop.loop_attempts [OF loop] obtain k s' where len: "attempts \<noteq> []" "length attempts \<le> retry_budget step + 1"
    and once: "http_once C W i step t request opts k s' = Some (Stop (last attempts) result, st')" by auto
  from once have "invocation_value W result = Some (last attempts)"
    by (auto simp: http_once_def split: prod.splits dest: http_turn_stop)
  from http_step_run_ok [OF run this len] show ?thesis .
qed

lemma invoke_websocket_step_ok:
  assumes "invoke_websocket_workflow_step C W i step inputs outs options configuration st = Some (Inr r, st')"
  shows "step_run_ok step r"
proof -
  from assms obtain plan s attempts result where
    loop: "websocket_attempts C W i step options plan 0 [] s = Some (Inr (attempts, result), st')"
    and run: "websocket_step_run C W step plan attempts result (rs_evidence st') = Inr r"
    by (auto simp: invoke_websocket_workflow_step_def split: sum.splits option.splits prod.splits)
  from websocket_loop.loop_attempts [OF loop] obtain k s' where len: "attempts \<noteq> []" "length attempts \<le> retry_budget step + 1"
    and once: "websocket_once C W i step options plan k s' = Some (Stop (last attempts) result, st')" by auto
  from once have "case result of Inl d \<Rightarrow> en_denial_value W d = Some (last attempts)
      | Inr obs \<Rightarrow> en_websocket_value W obs = Some (last attempts)"
    by (auto simp: websocket_once_def split: prod.splits sum.split_asm dest!: websocket_turn_stop)
  from websocket_step_run_ok [OF run this len] show ?thesis .
qed

lemma run_step_ok: "run_step C W i plan options configuration step outs st = Some (Inr r, st') \<Longrightarrow> step_run_ok step r"
  by (auto simp: run_step_def split: if_splits intro: run_http_step_ok invoke_websocket_step_ok)

definition stopped_at_end :: "WorkflowStepTemplate list \<Rightarrow> WorkflowStepObservation list \<Rightarrow> bool" where
  "stopped_at_end steps seen =
     (length seen = length steps
      \<or> seen \<noteq> [] \<and> list_ex (is_kind ''end'') (st_on_success (steps ! (length seen - 1))))"

lemma run_steps_observed:
  "run_steps C W i plan options configuration steps outs observations st = Some (Inr (observations', final), st') \<Longrightarrow>
     \<exists>seen. observations' = observations @ seen \<and> length seen \<le> length steps
       \<and> list_all2 step_observed (take (length seen) steps) seen
       \<and> (case final of Inl exit \<Rightarrow> exit \<noteq> 0 \<and> seen \<noteq> [] | Inr outs' \<Rightarrow> stopped_at_end steps seen)"
proof (induction steps arbitrary: i outs observations st)
  case Nil
  then show ?case by (auto simp: stopped_at_end_def)
next
  case (Cons step steps)
  then obtain r s where r: "run_step C W i plan options configuration step outs st = Some (Inr r, s)"
    by (auto split: option.splits sum.splits)
  from run_step_ok [OF r] have ok: "step_run_ok step r" .
  show ?case
  proof (cases "sr_exit r = 0 \<and> \<not> sr_ends r")
    case True
    with Cons.prems r have "run_steps C W (i + 1) plan options configuration steps (map_insert (st_step_id step) (sr_outputs r) outs)
        (observations @ [sr_observation r]) s = Some (Inr (observations', final), st')" by (simp add: Let_def)
    from Cons.IH [OF this] obtain seen where
      "observations' = (observations @ [sr_observation r]) @ seen" "length seen \<le> length steps"
      "list_all2 step_observed (take (length seen) steps) seen"
      "case final of Inl exit \<Rightarrow> exit \<noteq> 0 \<and> seen \<noteq> [] | Inr outs' \<Rightarrow> stopped_at_end steps seen" by blast
    with ok show ?thesis
      by (intro exI [of _ "sr_observation r # seen"])
        (auto simp: step_run_ok_def stopped_at_end_def nth_Cons' split: sum.splits)
  next
    case False
    with Cons.prems r ok show ?thesis
      by (intro exI [of _ "[sr_observation r]"])
        (auto simp: Let_def step_run_ok_def stopped_at_end_def split: if_splits)
  qed
qed

lemma workflow_gate_open:
  assumes "invoke_workflow_gate C plan options configuration = Inr missing"
  shows "verify_seal_workflow_plan C plan = Inr True
       \<and> \<not> fingerprint_mismatch (opt_expected_config_fingerprint options) (wf_config_fingerprint plan)
       \<and> \<not> fingerprint_mismatch (opt_expected_policy_fingerprint options) (wf_policy_fingerprint plan)
       \<and> (\<forall>fp. wf_websocket_policy_fingerprint plan = Some fp \<longrightarrow> websocket_policy_fingerprint C configuration = Inr fp)
       \<and> missing = missing_grant (opt_grants options) (wf_required_grants plan)"
  using assms by (auto simp: invoke_workflow_gate_def result_iffs split: if_splits option.splits)

lemma missing_grant_Some: "missing_grant grants required = Some g \<Longrightarrow> g \<in> set required \<and> g \<notin> grants"
  by (auto simp: missing_grant_def find_Some_iff)

lemma invoke_workflow_cases:
  assumes "invoke_workflow C W plan options configuration st = Some (r, st')"
  obtains (closed) "st' = st" "\<And>obs. r = Inr obs \<Longrightarrow> \<exists>g \<in> set (wf_required_grants plan). g \<notin> opt_grants options \<and> obs = workflow_denial plan g"
  | (ran) steps where "invoke_workflow_gate C plan options configuration = Inr None"
      "run_steps C W 0 plan options configuration (wf_steps plan) [] [] st = Some (steps, st')"
      "r = (case steps of
              Inl e \<Rightarrow> Inl e
            | Inr (observations, Inl exit) \<Rightarrow> Inr (failed_workflow_observation plan observations exit)
            | Inr (observations, Inr outs) \<Rightarrow> Inr (workflow_observation plan Passed observations (workflow_outputs outs) 0))"
proof (cases "invoke_workflow_gate C plan options configuration")
  case (Inl e)
  with assms show ?thesis by (intro closed) (auto simp: invoke_workflow_def)
next
  case (Inr missing)
  show ?thesis
  proof (cases missing)
    case None
    with Inr assms obtain steps where run: "run_steps C W 0 plan options configuration (wf_steps plan) [] [] st = Some (steps, st')"
      by (auto simp: invoke_workflow_def split: option.splits sum.splits prod.splits)
    with None Inr assms show ?thesis
      by (intro ran [OF _ run]) (auto simp: invoke_workflow_def split: sum.splits prod.splits)
  next
    case (Some g)
    with workflow_gate_open [OF Inr] have "missing_grant (opt_grants options) (wf_required_grants plan) = Some g" by simp
    from missing_grant_Some [OF this] have "g \<in> set (wf_required_grants plan)" "g \<notin> opt_grants options" by simp_all
    with Inr Some assms show ?thesis by (intro closed) (auto simp: invoke_workflow_def)
  qed
qed

subsection \<open>A sample run\<close>

text \<open>One WebSocket step: the sample session.\<close>

definition feed_step :: WorkflowStepTemplate where
  "feed_step =
     \<lparr>st_step_id = ''watch'', st_source_name = ''feed'', st_source_document = JObject [], st_source_fingerprint = ''b3:source'',
      st_operation = ''feed'', st_parameters = [], st_request_body = None, st_outputs = [], st_deferred_bindings = [],
      st_depends_on = [], st_success_criteria = [], st_on_success = [], st_on_failure = [], st_timeout_ms = None,
      st_transport = WebSocket, st_websocket_plan = Some run_plan, st_websocket_bindings = []\<rparr>"

definition unsealed_feed :: WorkflowPlan where
  "unsealed_feed =
     \<lparr>wf_protocol = PROTOCOL, wf_kind = ''workflow-plan'', wf_version = VERSION,
      wf_config_fingerprint = wp_config_fingerprint run_plan, wf_policy_fingerprint = wp_policy_fingerprint run_plan,
      wf_source_fingerprints = [''b3:source''], wf_id = [], wf_workflow = ''feed'', wf_input = JObject [],
      wf_steps = [feed_step], wf_risk = Read, wf_required_grants = wp_required_grants run_plan, wf_auth = None,
      wf_server = None, wf_checks = [], wf_websocket_policy_fingerprint = None, wf_fingerprint = [], wf_exit = 0\<rparr>"

definition feed_workflow :: WorkflowPlan where
  "feed_workflow = (case seal_workflow_plan sample_crates unsealed_feed of Inr p \<Rightarrow> p | Inl _ \<Rightarrow> unsealed_feed)"

definition feed_sources :: source_env where
  "feed_sources =
     \<lparr>so_plan = sample_plan_env, so_json_from_str = (\<lambda>_. None), so_yaml_load = (\<lambda>_. None), so_extension = (\<lambda>_. []),
      so_import = (\<lambda>_ _ _. Inr None), so_session = (\<lambda>_. None)\<rparr>"

definition feed_env :: workflow_env where
  "feed_env =
     \<lparr>en_source = feed_sources, en_fuel = 0, en_store_faults = (\<lambda>_. working_disk), en_http = (\<lambda>_ _. sample_env),
      en_websocket = (\<lambda>_ _. (run_env, 100000000000, sample_replies)), en_elapsed = (\<lambda>_ _. 0),
      en_elapsed_at_retry = (\<lambda>_ _. 0), en_observation_value = (\<lambda>_. None), en_websocket_value = (\<lambda>_. Some JNull),
      en_denial_value = (\<lambda>_. None), en_error_text = (\<lambda>_. [])\<rparr>"

definition feed_state :: run_state where
  "feed_state = \<lparr>rs_evidence = empty_store, rs_files = Map.empty, rs_sent = [], rs_contacted = []\<rparr>"

lemma feed_workflow_seal: "seal_workflow_plan sample_crates unsealed_feed = Inr feed_workflow"
  by (simp add: feed_workflow_def seal_workflow_plan_def sample_crates_def Let_def)

lemma feed_workflow_fields:
  "wf_steps feed_workflow = [feed_step]" "wf_required_grants feed_workflow = wp_required_grants run_plan"
  "wf_config_fingerprint feed_workflow = wp_config_fingerprint run_plan" "wf_input feed_workflow = JObject []"
  "wf_policy_fingerprint feed_workflow = wp_policy_fingerprint run_plan" "wf_websocket_policy_fingerprint feed_workflow = None"
  by (simp_all add: feed_workflow_def seal_workflow_plan_def clear_workflow_plan_def unsealed_feed_def sample_crates_def Let_def)

lemma feed_gate: "invoke_workflow_gate sample_crates feed_workflow run_options default_configuration = Inr None"
proof -
  have "missing_grant (opt_grants run_options) (wf_required_grants feed_workflow) = None"
    by (simp add: missing_grant_None run_options_def feed_workflow_fields)
  then show ?thesis
    by (simp add: invoke_workflow_gate_def workflow_seal.seal_verifies [OF feed_workflow_seal] feed_workflow_fields
        fingerprint_mismatch_def run_options_def)
qed

lemma feed_options: "websocket_options feed_step run_options 30000000000 run_plan = run_options"
  by (simp add: websocket_options_def run_options_def default_options_def)

lemma feed_stores:
  "\<exists>path fs. store_websocket_plan sample_crates working_disk run_plan s = (Inr path, fs)"
proof -
  have "ser_websocket_plan sample_crates run_plan = Some (as_bytes (wp_target run_plan))" by (simp add: sample_crates_def)
  then show ?thesis
    by (simp add: store_websocket_plan_def store_sealed_def require_seal_def run_plan_checks write_plan_def working_disk_def)
qed

lemma feed_step_runs:
  "\<exists>r st. run_step sample_crates feed_env 0 feed_workflow run_options default_configuration feed_step [] feed_state = Some (Inr r, st)
     \<and> sr_exit r = 0 \<and> \<not> sr_ends r \<and> rs_sent st = [] \<and> rs_contacted st = [run_address]"
proof -
  obtain path fs where stored: "store_websocket_plan sample_crates working_disk run_plan (rs_files feed_state) = (Inr path, fs)"
    using feed_stores by blast
  obtain o' s' where run: "execute_websocket sample_crates run_env 100000000000 run_plan run_options False sample_replies empty_store
       = Some (Inr (ObservationResult o'), s', [run_address])" and exit: "wo_exit o' = 0"
    using websocket_sample_run by blast
  have "opt_timeout run_options = 30000000000" by (simp add: run_options_def default_options_def)
  then have "websocket_attempts sample_crates feed_env 0 feed_step run_options run_plan 0 [] (feed_state\<lparr>rs_files := fs\<rparr>)
      = Some (Inr ([JNull], Inr o'), feed_state\<lparr>rs_files := fs, rs_evidence := s', rs_contacted := [run_address]\<rparr>)"
    by (subst websocket_attempts.simps)
      (simp add: remaining_step_timeout_def feed_env_def feed_step_def feed_options [unfolded feed_step_def] feed_state_def run
        websocket_turn_def exit Let_def)
  with stored exit show ?thesis
    by (simp add: run_step_def invoke_websocket_workflow_step_def step_websocket_plan_def feed_step_def feed_workflow_fields
        feed_env_def feed_state_def websocket_step_run_def ok_or_def Let_def)
qed

lemma feed_run:
  "\<exists>obs st. invoke_workflow sample_crates feed_env feed_workflow run_options default_configuration feed_state = Some (Inr obs, st)
     \<and> wfo_outcome obs = Passed \<and> map so_step_id (wfo_steps obs) = [''watch''] \<and> rs_sent st = [] \<and> rs_contacted st = [run_address]"
proof -
  obtain r st where r: "run_step sample_crates feed_env 0 feed_workflow run_options default_configuration feed_step [] feed_state
      = Some (Inr r, st)" "sr_exit r = 0" "\<not> sr_ends r" "rs_sent st = []" "rs_contacted st = [run_address]"
    using feed_step_runs by blast
  from run_step_ok [OF r(1)] have "so_step_id (sr_observation r) = ''watch''"
    by (simp add: step_run_ok_def step_observed_def feed_step_def)
  with r show ?thesis
    by (simp add: invoke_workflow_def feed_gate feed_workflow_fields workflow_observation_def Let_def)
qed

subsection \<open>Claims\<close>

text \<open>
  C21.  A workflow run starts nothing before its own gates: if a run sends a request, contacts an address or changes
  the evidence or the plan store, the workflow's seal verified, the expected fingerprints match, and every grant the
  workflow lists was given.  Whatever its steps are planned to do, every request goes only to resolved addresses of
  a granted host and port with a granted method, every WebSocket address was resolved for a granted host and port,
  and all of them are inside the network boundary or individually granted.
\<close>

theorem workflow_stays_granted:
  assumes "invoke_workflow C W plan options configuration st = Some (r, st')" and "st' \<noteq> st"
  shows "verify_seal_workflow_plan C plan = Inr True
       \<and> \<not> fingerprint_mismatch (opt_expected_config_fingerprint options) (wf_config_fingerprint plan)
       \<and> \<not> fingerprint_mismatch (opt_expected_policy_fingerprint options) (wf_policy_fingerprint plan)
       \<and> (\<forall>fp. wf_websocket_policy_fingerprint plan = Some fp \<longrightarrow> websocket_policy_fingerprint C configuration = Inr fp)
       \<and> set (wf_required_grants plan) \<subseteq> opt_grants options
       \<and> extends_within W options st st'"
  using assms(1)
proof (cases rule: invoke_workflow_cases)
  case closed
  with assms(2) show ?thesis by simp
next
  case (ran steps)
  from workflow_gate_open [OF ran(1)] missing_grant_None run_steps_extends [OF ran(2)] show ?thesis by metis
qed

theorem workflow_stays_granted_witness:
  "\<exists>r st. invoke_workflow sample_crates feed_env feed_workflow run_options default_configuration feed_state = Some (r, st)
     \<and> rs_contacted st = [run_address] \<and> extends_within feed_env run_options feed_state st"
proof -
  obtain obs st where run: "invoke_workflow sample_crates feed_env feed_workflow run_options default_configuration feed_state
      = Some (Inr obs, st)" "rs_contacted st = [run_address]" using feed_run by blast
  then have "st \<noteq> feed_state" by (auto simp: feed_state_def)
  from workflow_stays_granted [OF run(1) this] run show ?thesis by blast
qed



end
