(* ===== verification/Workflow_Plan_Props.thy ===== *)
theory Workflow_Plan_Props
  imports Workflow_Props Openapi_Index_Props
begin

text \<open>
  Properties of planned workflows: the shape of every plan that is sealed, what a step's bindings cannot change, and
  the agreement of success criteria with the checks they become.
\<close>

subsection \<open>Steps\<close>

definition action_ok :: "bool \<Rightarrow> json \<Rightarrow> bool" where
  "action_ok success action =
     (if is_kind ''retry'' action
      then \<not> success \<and> retry_limit action \<le> 10 \<and> (\<exists>d \<le> 60000000000. retry_delay action = Some d)
      else is_kind ''end'' action)"

lemma round_half_even_bounds:
  assumes "0 < d" and "0 \<le> n" and "n \<le> m * d"
  shows "0 \<le> round_half_even n d \<and> round_half_even n d \<le> m"
proof -
  have q: "0 \<le> n div d" "n div d \<le> m" "n div d = m \<longrightarrow> n mod d = 0"
  proof -
    show "0 \<le> n div d" using assms by (simp add: pos_imp_zdiv_nonneg_iff)
    have "n div d \<le> (m * d) div d" by (rule zdiv_mono1) (use assms in simp_all)
    then show "n div d \<le> m" using assms by simp
    show "n div d = m \<longrightarrow> n mod d = 0"
      using assms by (metis add.right_neutral add_le_same_cancel1 div_mult_mod_eq order_antisym pos_mod_sign)
  qed
  then have "n div d < m \<or> n mod d = 0" by linarith
  with q assms show ?thesis by (auto simp: round_half_even_def Let_def)
qed

lemma retry_delay_bounded:
  assumes "0 \<le> retry_after action" and "retry_after action \<le> 60"
  shows "\<exists>d \<le> 60000000000. retry_delay action = Some d"
proof -
  obtain n d where nd: "quotient_of (retry_after action * 1000000000) = (n, d)" by (cases "quotient_of (retry_after action * 1000000000)")
  have d: "0 < d" by (rule quotient_of_denom_pos [OF nd])
  have eq: "retry_after action * 1000000000 = of_int n / of_int d" by (rule quotient_of_div [OF nd])
  have "0 \<le> (of_int n :: rat)"
  proof -
    have "0 \<le> (of_int n / of_int d :: rat)" unfolding eq [symmetric] using assms(1) by simp
    with d show ?thesis by (simp add: zero_le_divide_iff)
  qed
  moreover have "(of_int n :: rat) \<le> of_int (60000000000 * d)"
  proof -
    have "(of_int n / of_int d :: rat) \<le> 60000000000" unfolding eq [symmetric] using assms(2) by simp
    with d show ?thesis by (simp add: pos_divide_le_eq)
  qed
  ultimately have "0 \<le> n" "n \<le> 60000000000 * d" by (simp_all only: of_int_le_iff of_int_0_le_iff)
  from round_half_even_bounds [OF d this] have r: "0 \<le> round_half_even n d" "round_half_even n d \<le> 60000000000" by simp_all
  then have "retry_delay action = Some (nat (round_half_even n d))"
    using assms(1) by (simp add: retry_delay_def nd Let_def)
  with r show ?thesis by auto
qed

lemma validate_action_ok: "validate_action success action = Inr () \<Longrightarrow> action_ok success action"
  unfolding validate_action_def result_iffs
  by (cases success) (auto simp: action_ok_def is_kind_def result_iffs intro: retry_delay_bounded split: if_splits)

lemma for_each_unit_all: "for_each (\<lambda>x (_ :: unit). f x) xs u = Inr u' \<Longrightarrow> x \<in> set xs \<Longrightarrow> f x = Inr ()"
  by (induction xs arbitrary: u) (auto split: sum.splits)

lemma validate_actions_ok: "validate_actions actions success = Inr u \<Longrightarrow> list_all (action_ok success) actions"
  unfolding validate_actions_def list_all_iff by (blast dest: for_each_unit_all intro: validate_action_ok)

definition step_ok :: "crates \<Rightarrow> string list \<Rightarrow> RiskClass \<Rightarrow> WorkflowStepTemplate \<Rightarrow> bool" where
  "step_ok C grants risk step =
     (list_all (action_ok True) (st_on_success step) \<and> list_all (action_ok False) (st_on_failure step)
      \<and> (st_transport step = WebSocket \<longleftrightarrow> st_websocket_plan step \<noteq> None)
      \<and> (case st_websocket_plan step of
           None \<Rightarrow> st_websocket_bindings step = []
         | Some child \<Rightarrow> verify_seal_websocket_plan C child = Inr True \<and> validate C child = Inr ()
             \<and> set (wp_required_grants child) \<subseteq> set grants \<and> risk_rank (wp_risk child) \<le> risk_rank risk
             \<and> st_parameters step = [] \<and> st_request_body step = None \<and> st_success_criteria step = []
             \<and> distinct (map wbind_pointer (st_websocket_bindings step)) \<and> length (st_websocket_bindings step) \<le> 64
             \<and> list_all (\<lambda>b. validate_websocket_binding_pointer (wbind_pointer b) = Inr ()
                            \<and> json_pointer C (st_source_document step) (wbind_pointer b) \<noteq> None)
                 (st_websocket_bindings step)))"

definition draft_ok :: "crates \<Rightarrow> WorkflowDraft \<Rightarrow> bool" where
  "draft_ok C d =
     (distinct (draft_step_ids d)
      \<and> (\<forall>i < length (wd_steps d). set (st_depends_on (wd_steps d ! i)) \<subseteq> set (take i (draft_step_ids d)))
      \<and> list_all (step_ok C (wd_grants d) (wd_risk d)) (wd_steps d))"

lemma step_ok_mono:
  "step_ok C grants risk step \<Longrightarrow> set grants \<subseteq> set grants' \<Longrightarrow> risk_rank risk \<le> risk_rank risk' \<Longrightarrow> step_ok C grants' risk' step"
  unfolding step_ok_def by (auto split: option.splits)

lemma maximum_risk_upper: "risk_rank a \<le> risk_rank (maximum_risk a b)" "risk_rank b \<le> risk_rank (maximum_risk a b)"
  by (simp_all add: maximum_risk_def)

lemma planned_websocket_seals:
  assumes "build_websocket_plan_with_configuration C E source byts configuration = Inr plan"
  shows "verify_seal_websocket_plan C plan = Inr True \<and> validate C plan = Inr ()"
proof -
  from assms obtain s fps operation where "seal_websocket_source C E s fps operation configuration = Inr plan"
    by (auto simp: build_websocket_plan_with_configuration_def result_iffs)
  then obtain material where "seal_websocket_plan C material = Inr plan" by (rule seal_websocket_source_Inr)
  with websocket_seal.seal_verifies seal_websocket_plan_idem show ?thesis
    by (metis seal_websocket_plan_iff validate_iff)
qed

lemma step_target_ok:
  assumes "step_target C W auth server configuration step_id source selector = Inr (risk, grants, child)"
  shows "case child of None \<Rightarrow> True | Some p \<Rightarrow> verify_seal_websocket_plan C p = Inr True \<and> validate C p = Inr ()
       \<and> wp_required_grants p = grants \<and> wp_risk p = risk"
proof (cases source)
  case (HttpSource s)
  with assms show ?thesis by (auto simp: step_target_def result_iffs)
next
  case (WebSocketSource path byts document fp)
  with assms show ?thesis
    by (auto simp: step_target_def result_iffs split: if_splits dest: planned_websocket_seals)
qed

definition bindings_ok :: "crates \<Rightarrow> json \<Rightarrow> WorkflowWebSocketBinding list \<Rightarrow> bool" where
  "bindings_ok C document bindings =
     (distinct (map wbind_pointer bindings)
      \<and> list_all (\<lambda>b. validate_websocket_binding_pointer (wbind_pointer b) = Inr ()
                      \<and> json_pointer C document (wbind_pointer b) \<noteq> None) bindings)"

lemma parse_binding_ok:
  assumes "parse_websocket_binding C document binding parsed = Inr parsed'" and "bindings_ok C document parsed"
  shows "bindings_ok C document parsed' \<and> length parsed' = length parsed + 1"
  using assms by (auto simp: parse_websocket_binding_def result_iffs bindings_ok_def)

lemma parse_bindings_loop:
  "for_each (parse_websocket_binding C document) bindings parsed = Inr parsed' \<Longrightarrow> bindings_ok C document parsed
     \<Longrightarrow> bindings_ok C document parsed' \<and> length parsed' = length parsed + length bindings"
proof (induction bindings arbitrary: parsed)
  case (Cons b bs)
  then obtain p where p: "parse_websocket_binding C document b parsed = Inr p"
    "for_each (parse_websocket_binding C document) bs p = Inr parsed'" by (auto split: sum.splits)
  from parse_binding_ok [OF p(1) Cons.prems(2)] Cons.IH [OF p(2)] show ?case by simp
qed simp

lemma step_bindings_ok:
  assumes "step_bindings C step document websocket http_inputs = Inr bindings"
  shows "if websocket then \<not> http_inputs \<and> bindings_ok C document bindings \<and> length bindings \<le> 64 else bindings = []"
proof (cases websocket)
  case True
  with assms have parse: "parse_websocket_bindings C step document = Inr bindings" and "\<not> http_inputs"
    by (auto simp: step_bindings_def split: if_splits)
  have "bindings_ok C document []" by (simp add: bindings_ok_def)
  with parse have "bindings_ok C document bindings \<and> length bindings \<le> 64"
    by (auto simp: parse_websocket_bindings_def result_iffs split: option.splits if_splits dest!: parse_bindings_loop)
  with True \<open>\<not> http_inputs\<close> show ?thesis by simp
next
  case False
  with assms show ?thesis by (auto simp: step_bindings_def split: if_splits)
qed

lemma step_actions_ok:
  assumes "step_actions C step websocket outs = Inr u"
  shows "list_all (action_ok True) (value_array step ''onSuccess'') \<and> list_all (action_ok False) (value_array step ''onFailure'')
     \<and> (websocket \<longrightarrow> value_array step ''successCriteria'' = [])"
  using assms unfolding step_actions_def Let_def result_iffs
  by (auto intro: validate_actions_ok split: if_splits)

lemma step_dependencies_earlier: "step_dependencies step earlier = Inr names \<Longrightarrow> set names \<subseteq> set earlier"
  by (auto simp: step_dependencies_def Let_def split: if_splits)

lemma plan_step_Inr:
  assumes "plan_step C W auth server configuration sources step d = Inr d'"
  obtains source selector grants risk child new where
    "step_target C W auth server configuration (st_step_id new) source selector = Inr (risk, grants, child)"
    "wd_steps d' = wd_steps d @ [new]" "wd_grants d' = wd_grants d @ grants" "wd_risk d' = maximum_risk (wd_risk d) risk"
    "st_step_id new \<notin> set (draft_step_ids d)" "step_dependencies step (draft_step_ids d) = Inr (st_depends_on new)"
    "st_websocket_plan new = child" "st_transport new = (if child \<noteq> None then WebSocket else Http)"
    "step_bindings C step (st_source_document new) (child \<noteq> None) (st_parameters new \<noteq> [] \<or> st_request_body new \<noteq> None)
       = Inr (st_websocket_bindings new)"
    "step_actions C step (child \<noteq> None) (st_outputs new) = Inr ()"
    "st_on_success new = value_array step ''onSuccess''" "st_on_failure new = value_array step ''onFailure''"
    "st_success_criteria new = value_array step ''successCriteria''"
proof -
  from assms obtain step_id depends name selector source risk grants child params bindings where facts:
    "step_id \<notin> set (draft_step_ids d)" "step_dependencies step (draft_step_ids d) = Inr depends"
    "step_target C W auth server configuration step_id source selector = Inr (risk, grants, child)"
    "step_bindings C step (source_document source) (child \<noteq> None)
       (params \<noteq> [] \<or> Option.bind (json_get step ''requestBody'') (\<lambda>body.
           case json_get body ''payload'' of Some v \<Rightarrow> Some v | None \<Rightarrow> json_get body ''content'') \<noteq> None) = Inr bindings"
    "step_actions C step (child \<noteq> None) (case get_object step ''outputs'' of Some m \<Rightarrow> m | None \<Rightarrow> []) = Inr ()"
    and d': "d' = \<lparr>wd_steps = wd_steps d @
            [\<lparr>st_step_id = step_id, st_source_name = name, st_source_document = source_document source,
              st_source_fingerprint = source_fingerprint source, st_operation = selector, st_parameters = params,
              st_request_body = Option.bind (json_get step ''requestBody'') (\<lambda>body.
                case json_get body ''payload'' of Some v \<Rightarrow> Some v | None \<Rightarrow> json_get body ''content''),
              st_outputs = (case get_object step ''outputs'' of Some m \<Rightarrow> m | None \<Rightarrow> []),
              st_deferred_bindings = sort_dedup (collect_runtime_expressions step), st_depends_on = depends,
              st_success_criteria = value_array step ''successCriteria'', st_on_success = value_array step ''onSuccess'',
              st_on_failure = value_array step ''onFailure'', st_timeout_ms = get_u64 step ''timeout'',
              st_transport = (if child \<noteq> None then WebSocket else Http), st_websocket_plan = child,
              st_websocket_bindings = bindings\<rparr>],
          wd_grants = wd_grants d @ grants, wd_risk = maximum_risk (wd_risk d) risk\<rparr>"
    unfolding plan_step_def Let_def
    by (elim and_then_Inr_iff [THEN iffD1, elim_format] exE conjE) (fastforce simp: result_iffs split: prod.splits)
  have "wd_steps d' = wd_steps d @ [last (wd_steps d')]" by (simp add: d')
  from that [of "last (wd_steps d')" source selector risk grants child, OF _ this] show thesis
    using facts by (simp add: d')
qed

lemma plan_step_ok:
  assumes "plan_step C W auth server configuration sources step d = Inr d'" and "draft_ok C d"
  shows "draft_ok C d' \<and> length (wd_steps d') = length (wd_steps d) + 1"
proof -
  from plan_step_Inr [OF assms(1)] obtain source selector grants risk child new where new:
    "step_target C W auth server configuration (st_step_id new) source selector = Inr (risk, grants, child)"
    "wd_steps d' = wd_steps d @ [new]" "wd_grants d' = wd_grants d @ grants" "wd_risk d' = maximum_risk (wd_risk d) risk"
    "st_step_id new \<notin> set (draft_step_ids d)" "step_dependencies step (draft_step_ids d) = Inr (st_depends_on new)"
    "st_websocket_plan new = child" "st_transport new = (if child \<noteq> None then WebSocket else Http)"
    "step_bindings C step (st_source_document new) (child \<noteq> None) (st_parameters new \<noteq> [] \<or> st_request_body new \<noteq> None)
       = Inr (st_websocket_bindings new)"
    "step_actions C step (child \<noteq> None) (st_outputs new) = Inr ()"
    "st_on_success new = value_array step ''onSuccess''" "st_on_failure new = value_array step ''onFailure''"
    "st_success_criteria new = value_array step ''successCriteria''" .
  have "step_ok C (wd_grants d') (wd_risk d') s" if "s \<in> set (wd_steps d)" for s
  proof (rule step_ok_mono)
    show "step_ok C (wd_grants d) (wd_risk d) s" using assms(2) that by (simp add: draft_ok_def list_all_iff)
  qed (simp_all add: new(3,4) maximum_risk_upper)
  moreover have "step_ok C (wd_grants d') (wd_risk d') new"
    using step_target_ok [OF new(1)] step_bindings_ok [OF new(9)] step_actions_ok [OF new(10)]
    by (auto simp: step_ok_def new(3,4,7,8,11-13) maximum_risk_upper bindings_ok_def split: option.splits)
  ultimately have "list_all (step_ok C (wd_grants d') (wd_risk d')) (wd_steps d')" by (auto simp: new(2) list_all_iff)
  moreover have "distinct (draft_step_ids d')" using assms(2) new(5) by (simp add: draft_ok_def draft_step_ids_def new(2))
  moreover have "set (st_depends_on (wd_steps d' ! i)) \<subseteq> set (take i (draft_step_ids d'))" if "i < length (wd_steps d')" for i
  proof (cases "i < length (wd_steps d)")
    case True
    then have "take i (draft_step_ids d') = take i (draft_step_ids d)" by (simp add: draft_step_ids_def new(2))
    with True assms(2) show ?thesis by (simp add: draft_ok_def new(2) nth_append)
  next
    case False
    with that have "i = length (wd_steps d)" by (simp add: new(2))
    with step_dependencies_earlier [OF new(6)] show ?thesis by (simp add: draft_step_ids_def new(2))
  qed
  ultimately show ?thesis by (simp add: draft_ok_def new(2))
qed

lemma plan_steps_ok:
  "for_each (plan_step C W auth server configuration sources) steps d = Inr d' \<Longrightarrow> draft_ok C d
     \<Longrightarrow> draft_ok C d' \<and> length (wd_steps d') = length (wd_steps d) + length steps"
proof (induction steps arbitrary: d)
  case (Cons s ss)
  then obtain t where t: "plan_step C W auth server configuration sources s d = Inr t"
    "for_each (plan_step C W auth server configuration sources) ss t = Inr d'" by (auto split: sum.splits)
  from plan_step_ok [OF t(1) Cons.prems(2)] Cons.IH [OF t(2)] show ?case by simp
qed simp

definition workflow_plan_ok :: "crates \<Rightarrow> WorkflowPlan \<Rightarrow> bool" where
  "workflow_plan_ok C plan =
     (verify_seal_workflow_plan C plan = Inr True
      \<and> 1 \<le> length (wf_steps plan) \<and> length (wf_steps plan) \<le> 100 \<and> distinct (map st_step_id (wf_steps plan))
      \<and> (\<forall>i < length (wf_steps plan).
            set (st_depends_on (wf_steps plan ! i)) \<subseteq> set (take i (map st_step_id (wf_steps plan))))
      \<and> list_all (step_ok C (wf_required_grants plan) (wf_risk plan)) (wf_steps plan)
      \<and> list_all (\<lambda>step. retry_budget step \<le> 10) (wf_steps plan)
      \<and> (list_ex (\<lambda>s. st_transport s = WebSocket) (wf_steps plan) \<longrightarrow> wf_websocket_policy_fingerprint plan \<noteq> None))"

lemma fold_max_le: "(\<And>x. x \<in> set xs \<Longrightarrow> x \<le> b) \<Longrightarrow> a \<le> b \<Longrightarrow> fold max xs a \<le> (b :: nat)"
  by (induction xs arbitrary: a) auto

lemma step_ok_retries: "step_ok C grants risk step \<Longrightarrow> retry_budget step \<le> 10"
  unfolding retry_budget_def
  by (rule fold_max_le) (auto simp: step_ok_def list_all_iff action_ok_def)

lemma seal_workflow_fields:
  assumes "seal_workflow C E document workflow_id input auth server checks configuration sources d = Inr plan"
  shows "verify_seal_workflow_plan C plan = Inr True \<and> wf_steps plan = wd_steps d \<and> wf_required_grants plan = sort_dedup (wd_grants d)
     \<and> wf_risk plan = wd_risk d
     \<and> (list_ex (\<lambda>s. st_transport s = WebSocket) (wd_steps d) \<longrightarrow> wf_websocket_policy_fingerprint plan \<noteq> None)"
proof -
  from assms obtain m where seal: "seal_workflow_plan C m = Inr plan" and m: "wf_steps m = wd_steps d"
    "wf_required_grants m = sort_dedup (wd_grants d)" "wf_risk m = wd_risk d"
    "list_ex (\<lambda>s. st_transport s = WebSocket) (wd_steps d) \<longrightarrow> wf_websocket_policy_fingerprint m \<noteq> None"
    by (fastforce simp: seal_workflow_def result_iffs split: if_splits)
  have "wf_steps plan = wf_steps m \<and> wf_required_grants plan = wf_required_grants m \<and> wf_risk plan = wf_risk m
     \<and> wf_websocket_policy_fingerprint plan = wf_websocket_policy_fingerprint m"
    using seal by (auto simp: seal_workflow_plan_def clear_workflow_plan_def Let_def split: option.splits)
  with m workflow_seal.seal_verifies [OF seal] show ?thesis by simp
qed

lemma build_workflow_plan_ok:
  assumes "build_workflow_plan C W path document workflow_id input auth server checks configuration = Inr plan"
  shows "workflow_plan_ok C plan"
proof -
  from assms obtain step_values sources d where n: "step_values \<noteq> []" "length step_values \<le> 100"
    and steps: "for_each (plan_step C W auth server configuration sources) step_values \<lparr>wd_steps = [], wd_grants = [], wd_risk = Read\<rparr> = Inr d"
    and seal: "seal_workflow C (so_plan W) document workflow_id input auth server checks configuration sources d = Inr plan"
    by (auto simp: build_workflow_plan_def result_iffs split: if_splits)
  have "draft_ok C \<lparr>wd_steps = [], wd_grants = [], wd_risk = Read\<rparr>" by (simp add: draft_ok_def draft_step_ids_def)
  from plan_steps_ok [OF steps this] have d: "draft_ok C d" "length (wd_steps d) = length step_values" by simp_all
  have "list_all (step_ok C (sort_dedup (wd_grants d)) (wd_risk d)) (wd_steps d)"
    using d(1) step_ok_mono by (fastforce simp: draft_ok_def list_all_iff)
  moreover from this have "list_all (\<lambda>step. retry_budget step \<le> 10) (wd_steps d)"
    by (auto simp: list_all_iff intro: step_ok_retries)
  moreover have "1 \<le> length (wd_steps d)" using n(1) d(2) by (cases step_values) auto
  ultimately show ?thesis
    using d n(2) seal_workflow_fields [OF seal] by (simp add: workflow_plan_ok_def draft_ok_def draft_step_ids_def)
qed

subsection \<open>Sample workflow\<close>

definition session_document :: json where
  "session_document = JObject [(''kind'', JString ''websocket-session''), (''operationId'', JString ''feed'')]"

definition session_sources :: source_env where
  "session_sources =
     \<lparr>so_plan = sample_plan_env\<lparr>pe_read := \<lambda>_. Some (as_bytes ''{}'')\<rparr>, so_json_from_str = (\<lambda>_. Some session_document),
      so_yaml_load = (\<lambda>_. None), so_extension = (\<lambda>_. ''json''), so_import = (\<lambda>_ _ _. Inr None),
      so_session = (\<lambda>_. Some sample_source)\<rparr>"

definition arazzo_document :: json where
  "arazzo_document =
     JObject [(''arazzo'', JString ''1.1.0''),
       (''sourceDescriptions'', JArray [JObject [(''name'', JString ''feed''), (''url'', JString ''feed.json''),
          (''x-kahea-source-kind'', JString ''websocket-session'')]]),
       (''workflows'', JArray [JObject [(''workflowId'', JString ''watch''),
          (''steps'', JArray [JObject [(''stepId'', JString ''listen''), (''operationId'', JString ''feed''),
             (''onFailure'', JArray [JObject [(''type'', JString ''retry''), (''retryLimit'', JNumber (PosInt 3))]])]])]])]"

lemma session_parses:
  "parse_data_document sample_crates session_sources path (as_bytes ''{}'') = Inr session_document"
proof -
  have "from_utf8 (as_bytes ''{}'') = Some ''{}''" "to_ascii_lowercase ''json'' = ''json''" by code_simp+
  then show ?thesis
    by (simp add: parse_data_document_def parse_document_def session_sources_def ok_or_def max_source_bytes_def as_bytes_def)
qed

lemma session_plans:
  "\<exists>plan. build_websocket_plan_with_configuration sample_crates E (Some sample_source) byts default_configuration = Inr plan"
  using sample_source_plans sample_source_parts(1)
  by (simp add: build_websocket_plan_with_configuration_def ok_or_def session_operation_def)

lemma session_source_parses: "session_source sample_crates session_sources path (as_bytes ''{}'') = Some sample_source"
  by (simp add: session_source_def session_parses) (simp add: session_sources_def)

lemma arazzo_sources:
  "load_sources sample_crates session_sources path arazzo_document
     = Inr [(''feed'', WebSocketSource ''feed.json'' (as_bytes ''{}'') session_document (digest sample_crates (as_bytes ''{}'')))]"
proof -
  have "is_websocket_session session_document" by code_simp
  moreover have "pe_read (so_plan session_sources) p = Some (as_bytes ''{}'')" "pe_policy_path (so_plan session_sources) q p = p" for q p
    by (simp_all add: session_sources_def sample_plan_env_def)
  moreover have "url_parse sample_crates ''feed.json'' = None" by (simp add: sample_crates_def sample_url_def)
  ultimately show ?thesis
    by (simp add: load_sources_def arazzo_document_def get_array_def get_str_def ok_or_def load_described_source_def read_source_def
        session_parses)
qed

lemma sample_workflow_plans:
  "\<exists>plan. build_workflow_plan sample_crates session_sources path arazzo_document ''watch'' JNull None None []
     default_configuration = Inr plan"
proof -
  obtain child where child: "build_websocket_plan_with_configuration sample_crates (so_plan session_sources) (Some sample_source)
      (as_bytes ''{}'') default_configuration = Inr child" using session_plans by blast
  have fps: "\<exists>fp. websocket_policy_fingerprint sample_crates default_configuration = Inr fp"
    "\<exists>fp. policy_fingerprint sample_crates default_configuration = Inr fp"
    "\<exists>fp. config_fingerprint sample_crates (so_plan session_sources) default_configuration = Inr fp"
    by (simp_all add: websocket_policy_fingerprint_def policy_fingerprint_def config_fingerprint_def sample_configuration
        sample_crates_def)
  have arazzo: "is_arazzo arazzo_document" by code_simp
  have actions: "validate_actions [JObject [(''type'', JString ''retry''), (''retryLimit'', JNumber (PosInt 3))]] False = Inr ()"
    by code_simp
  have seals: "\<exists>q. seal_workflow_plan sample_crates m = Inr q" for m
    by (simp add: seal_workflow_plan_def sample_crates_def Let_def)
  have total: "\<exists>b. json_to_vec sample_crates v = Some b" for v by (simp add: sample_crates_def)
  obtain d where "for_each (plan_step sample_crates session_sources None None default_configuration
        [(''feed'', WebSocketSource ''feed.json'' (as_bytes ''{}'') session_document (digest sample_crates (as_bytes ''{}'')))])
      [JObject [(''stepId'', JString ''listen''), (''operationId'', JString ''feed''),
             (''onFailure'', JArray [JObject [(''type'', JString ''retry''), (''retryLimit'', JNumber (PosInt 3))]])]]
      \<lparr>wd_steps = [], wd_grants = [], wd_risk = Read\<rparr> = Inr d"
    by (simp add: plan_step_def get_str_def ok_or_def draft_step_ids_def step_dependencies_def value_array_def get_array_def
        step_operation_def strip_prefix_Cons strip_prefix_def starts_with_def step_target_def session_source_parses child
        session_document_def step_bindings_def parse_websocket_bindings_def step_actions_def get_object_def Let_def actions
        validate_actions_def [of "[]"])
  moreover have "\<exists>plan. seal_workflow sample_crates (so_plan session_sources) arazzo_document ''watch'' JNull None None []
      default_configuration [(''feed'', WebSocketSource ''feed.json'' (as_bytes ''{}'') session_document
        (digest sample_crates (as_bytes ''{}'')))] d = Inr plan"
  proof -
    obtain fp1 fp2 fp3 b where "websocket_policy_fingerprint sample_crates default_configuration = Inr fp1"
      "policy_fingerprint sample_crates default_configuration = Inr fp2"
      "config_fingerprint sample_crates (so_plan session_sources) default_configuration = Inr fp3"
      "json_to_vec sample_crates arazzo_document = Some b" using fps total by metis
    then show ?thesis
      using seals by (cases "list_ex (\<lambda>s. st_transport s = WebSocket) (wd_steps d)")
        (simp_all add: seal_workflow_def ok_or_def map_err_Inr_iff)
  qed
  ultimately show ?thesis
    using arazzo
    by (simp add: build_workflow_plan_def arazzo_sources)
      (simp add: arazzo_document_def get_array_def get_str_def ok_or_def validate_workflow_inputs_def)
qed

lemma rebuilt_websocket_plan:
  assumes "step_websocket_plan C W configuration step inputs outs = Inr plan" and "st_websocket_bindings step \<noteq> []"
  obtains sealed source where "st_websocket_plan step = Some sealed"
    "build_websocket_plan_with_configuration C (so_plan (en_source W)) source (the (json_to_vec C
        (projr (for_each (bind_value C inputs outs) (st_websocket_bindings step) (st_source_document step))))) configuration = Inr plan"
    "wp_risk plan = wp_risk sealed" "wp_required_grants plan = wp_required_grants sealed"
  using assms
  by (auto simp: step_websocket_plan_def result_iffs validate_rebuilt_websocket_plan_def split: if_splits)

definition bound_step :: "WebSocketPlan \<Rightarrow> WorkflowStepTemplate" where
  "bound_step child =
     feed_step\<lparr>st_source_document := session_document, st_operation := wp_operation child, st_websocket_plan := Some child,
       st_websocket_bindings := [\<lparr>wbind_pointer = [], wbind_value = JString ''{}''\<rparr>]\<rparr>"

lemma bound_step_plans:
  "\<exists>child. step_websocket_plan sample_crates (feed_env\<lparr>en_source := session_sources\<rparr>) default_configuration (bound_step child) JNull []
     = Inr child"
proof -
  obtain child where child: "build_websocket_plan_with_configuration sample_crates (so_plan session_sources) (Some sample_source)
      (as_bytes ''{}'') default_configuration = Inr child" using session_plans by blast
  have "materialize sample_crates (JString ''{}'') JNull [] = Inr (JString ''{}'')" by code_simp
  moreover have "json_pointer sample_crates j [] = Some j" "json_pointer_set sample_crates j [] v = Some v"
    "json_to_vec sample_crates (JString ''{}'') = Some (as_bytes ''{}'')" for j v
    by (simp_all add: sample_crates_def)
  ultimately have "step_websocket_plan sample_crates (feed_env\<lparr>en_source := session_sources\<rparr>) default_configuration
      (bound_step child) JNull [] = Inr child"
    by (simp add: step_websocket_plan_def bound_step_def ok_or_def bind_value_def session_source_parses child
        validate_rebuilt_websocket_plan_def)
  then show ?thesis by blast
qed

subsection \<open>Claims\<close>

text \<open>
  C23.  Every workflow plan that is built has a sound shape: its seal verifies; it has between one and a hundred
  steps with different ids, each depending only on earlier ones; the plan's grants cover those of the sealed child
  plan of every WebSocket step, its risk is at least the child's, and the child is sealed and valid; no step can be
  retried more than ten times or wait more than sixty seconds; a WebSocket step has no HTTP inputs, and its bindings
  go to different places of its source that exist and may be bound.
\<close>

theorem planned_workflow_is_well_formed:
  assumes "build_workflow_plan C W path document workflow_id input auth server checks configuration = Inr plan"
  shows "workflow_plan_ok C plan"
  by (rule build_workflow_plan_ok [OF assms])

theorem planned_workflow_is_well_formed_witness:
  "\<exists>plan. build_workflow_plan sample_crates session_sources [] arazzo_document ''watch'' JNull None None [] default_configuration
       = Inr plan \<and> workflow_plan_ok sample_crates plan"
proof -
  obtain plan where run: "build_workflow_plan sample_crates session_sources [] arazzo_document ''watch'' JNull None None []
      default_configuration = Inr plan" using sample_workflow_plans by blast
  from planned_workflow_is_well_formed [OF run] run show ?thesis by blast
qed

text \<open>
  C24.  What is bound at run time cannot raise what a WebSocket step may do: the plan a step runs is the sealed child
  plan itself when nothing is bound; otherwise it is a newly sealed, valid plan whose risk and required grants are
  exactly those of the sealed child, for the step's own operation.
\<close>

theorem bindings_keep_sealed_authority:
  assumes "step_websocket_plan C W configuration step inputs outs = Inr plan"
  shows "\<exists>sealed. st_websocket_plan step = Some sealed
       \<and> wp_risk plan = wp_risk sealed \<and> wp_required_grants plan = wp_required_grants sealed
       \<and> (if st_websocket_bindings step = [] then plan = sealed
          else verify_seal_websocket_plan C plan = Inr True \<and> validate C plan = Inr ())"
proof (cases "st_websocket_bindings step = []")
  case True
  with assms show ?thesis by (auto simp: step_websocket_plan_def result_iffs)
next
  case False
  from rebuilt_websocket_plan [OF assms False] planned_websocket_seals False show ?thesis by metis
qed

theorem bindings_keep_sealed_authority_witness:
  "\<exists>child. step_websocket_plan sample_crates (feed_env\<lparr>en_source := session_sources\<rparr>) default_configuration (bound_step child) JNull []
       = Inr child \<and> verify_seal_websocket_plan sample_crates child = Inr True"
proof -
  obtain child where run: "step_websocket_plan sample_crates (feed_env\<lparr>en_source := session_sources\<rparr>) default_configuration
      (bound_step child) JNull [] = Inr child" using bound_step_plans by blast
  from bindings_keep_sealed_authority [OF run] run show ?thesis by (auto simp: bound_step_def)
qed

text \<open>
  A success criterion on the status code means the same as the check it becomes: if \<open>$statusCode == ...\<close>
  is accepted as a criterion, a response meets the resulting check exactly when the criterion, evaluated as the
  criterion of an action on an observation with that response's status, holds.
\<close>

theorem status_criterion_agrees:
  assumes "criterion_to_check C criterion = Inr check" and "json_text_or criterion ''type'' ''simple'' = ''simple''"
    and "get_str criterion ''condition'' = Some condition"
    and "parse_simple_condition condition = Inr (''$statusCode'', operator, right)"
    and "ob_status obs = Some (hr_status resp)"
  shows "one_check C plan resp content_type latency already check = []
       \<longleftrightarrow> criterion_holds C obs body criterion = Inr True"
proof -
  from assms(1-4) obtain expected status where lit: "parse_literal C right = Inr expected" and op: "operator = ''==''"
    and status: "as_u64 expected = Some status" "status \<le> 65535" and check: "check = ''status:'' @ show_nat (unat status)"
    by (auto simp: criterion_to_check_def result_iffs Let_def split: if_splits option.splits)
  from status(1) have expected: "expected = JNumber (PosInt status)" by (cases expected rule: as_u64.cases) auto
  have "uint (hr_status resp) < 2 ^ 64" using uint_lt2p [of "hr_status resp"] by simp
  then have "uint (ucast (hr_status resp) :: u64) = uint (hr_status resp)"
    by (simp add: unsigned_ucast_eq take_bit_int_eq_self)
  then have "unat (ucast (hr_status resp) :: u64) = unat (hr_status resp)" by (simp only: unat_eq_nat_uint)
  then have "unat (hr_status resp) = unat status \<longleftrightarrow> ucast (hr_status resp) = status"
    by (simp only: word_unat_eq_iff)
  moreover have "compare_values (status_value (ob_status obs)) operator expected \<longleftrightarrow> ucast (hr_status resp) = status"
    by (simp add: assms(5) status_value_def json_u16_def op expected compare_values_def values_equal_def)
  ultimately have "unat (hr_status resp) = unat status \<longleftrightarrow> compare_values (status_value (ob_status obs)) operator expected"
    by (rule trans [OF _ sym])
  moreover have "criterion_holds C obs body criterion = Inr (compare_values (status_value (ob_status obs)) operator expected)"
    using assms(3,4) lit by (simp add: criterion_holds_def ok_or_def)
  ultimately show ?thesis unfolding check one_check_status by simp
qed

definition status_crates :: crates where
  "status_crates = sample_crates\<lparr>json_from_slice := \<lambda>b. if b = as_bytes ''200'' then Some (JNumber (PosInt 200)) else None\<rparr>"

definition status_criterion :: json where
  "status_criterion = JObject [(''condition'', JString ''$statusCode==200'')]"

theorem status_criterion_agrees_witness:
  "one_check status_crates sample_request_plan sample_response ''text/plain'' 3 0 ''status:200'' = []
     \<longleftrightarrow> criterion_holds status_crates (observation_of sample_request_plan sample_env sample_response [] run_url True [] []) None status_criterion = Inr True"
proof (rule status_criterion_agrees)
  have cond: "get_str status_criterion ''condition'' = Some ''$statusCode==200''"
    "json_text_or status_criterion ''type'' ''simple'' = ''simple''"
    by (simp_all add: get_str_def status_criterion_def json_text_or_def)
  have parts: "parse_simple_condition ''$statusCode==200'' = Inr (''$statusCode'', ''=='', ''200'')"
  proof -
    have "visible ''$statusCode200''" by code_simp
    then have "trim ''$statusCode'' = ''$statusCode''" "trim ''200'' = ''200''" by (simp_all add: trim_visible)
    moreover have "split_once ''<='' ''$statusCode==200'' = None" "split_once ''>='' ''$statusCode==200'' = None"
      "split_once ''=='' ''$statusCode==200'' = Some (''$statusCode'', ''200'')" by code_simp+
    ultimately show ?thesis by (simp add: parse_simple_condition_def condition_operators_def)
  qed
  have "parse_literal status_crates ''200'' = Inr (JNumber (PosInt 200))" by code_simp
  moreover have "show_nat 200 = ''200''" by (simp add: show_nat.simps, code_simp)
  ultimately show "criterion_to_check status_crates status_criterion = Inr ''status:200''"
    by (simp add: criterion_to_check_def cond parts)
  show "json_text_or status_criterion ''type'' ''simple'' = ''simple''"
    "get_str status_criterion ''condition'' = Some ''$statusCode==200''" by (rule cond)+
  show "parse_simple_condition ''$statusCode==200'' = Inr (''$statusCode'', ''=='', ''200'')" by (rule parts)
qed (simp add: observation_of_def)

end
