(* ===== verification/Conf_Generate.thy ===== *)
theory Conf_Generate
  imports Http_Planner Schema
begin

text \<open>
  Generation of request inputs from schemas (\<open>kahea-conformance\<close>).  A variant is a 64-bit hash; every choice is
  made by arithmetic on it, in release mode, where addition wraps.  The recursion of \<open>generate_value\<close> is by levels,
  as its source bounds the depth by 32: the generator of one level takes that of the next as an argument.
\<close>

datatype ConformanceError =
    InvalidOption | Generation string | NoCases string | CampaignPlan | CampaignSealBroken | InvalidCampaignCase string
  | CampaignStore | CampaignSerialization | CampaignEvidence EvidenceError

definition MAX_CASES :: nat where "MAX_CASES = 256"
definition MAX_FAILURES :: nat where "MAX_FAILURES = 256"
definition MAX_DELAY_MS :: u64 where "MAX_DELAY_MS = 60000"
definition MAX_GENERATION_DEPTH :: nat where "MAX_GENERATION_DEPTH = 32"
definition MAX_GENERATED_STRING :: nat where "MAX_GENERATED_STRING = 1024"
definition MAX_GENERATED_ARRAY :: nat where "MAX_GENERATED_ARRAY = 16"

definition usize_max :: nat where "usize_max = 18446744073709551615"

subsection \<open>Variants\<close>

definition hex_digit_value :: "char \<Rightarrow> nat" where
  "hex_digit_value c = (if is_ascii_digit c then char_code c - 48 else char_code c - 87)"

text \<open>The first eight bytes of a hash, from its hexadecimal form.\<close>

definition hash_u64 :: "string \<Rightarrow> u64" where
  "hash_u64 hex = of_nat (foldl (\<lambda>n c. n * 16 + hex_digit_value c) 0 (take 16 hex))"

definition variant_of :: "crates \<Rightarrow> u64 \<Rightarrow> u64 \<Rightarrow> string \<Rightarrow> u64" where
  "variant_of C seed index domain =
     hash_u64 (blake3_hex C (as_bytes ''kahea/conformance/v1'' @ [0] @ u64_to_be_bytes seed @ u64_to_be_bytes index
                             @ as_bytes domain))"

definition variant_for :: "crates \<Rightarrow> u64 \<Rightarrow> string \<Rightarrow> u64" where
  "variant_for C parent field = variant_of C parent (len_u64 field) field"

definition pick :: "'a list \<Rightarrow> u64 \<Rightarrow> 'a" where
  "pick xs variant = xs ! (unat variant mod length xs)"

definition multiple_of :: "nat \<Rightarrow> u64 \<Rightarrow> bool" where
  "multiple_of n variant = (unat variant mod n = 0)"

definition conf_resolve :: "crates \<Rightarrow> json \<Rightarrow> json \<Rightarrow> string \<Rightarrow> ConformanceError + json" where
  "conf_resolve C document v path =
     (case get_str v ''$ref'' of
        None \<Rightarrow> Inr v
      | Some reference \<Rightarrow>
          ok_or (Option.bind (strip_prefix ''#'' reference) (json_pointer C document)) (Generation path))"

subsection \<open>Integers\<close>

definition i64_min :: int where "i64_min = - 9223372036854775808"
definition i64_max :: int where "i64_max = 9223372036854775807"

text \<open>\<open>NegInt\<close> holds the negative values of an \<open>i64\<close>.\<close>

fun as_i64 :: "json \<Rightarrow> int option" where
  "as_i64 (JNumber (PosInt n)) = (if uint n \<le> i64_max then Some (uint n) else None)"
| "as_i64 (JNumber (NegInt i)) = (if i64_min \<le> i \<and> i < 0 then Some i else None)"
| "as_i64 _ = None"

definition get_i64 :: "json \<Rightarrow> string \<Rightarrow> int option" where
  "get_i64 v key = Option.bind (json_get v key) as_i64"

definition saturate_i64 :: "int \<Rightarrow> int" where
  "saturate_i64 i = max i64_min (min i64_max i)"

definition wrap_i64 :: "int \<Rightarrow> int" where
  "wrap_i64 i = (i - i64_min) mod 18446744073709551616 + i64_min"

definition json_i64 :: "int \<Rightarrow> json" where
  "json_i64 i = JNumber (if i < 0 then NegInt i else PosInt (of_int i))"

definition integer_minimum :: "json \<Rightarrow> int" where
  "integer_minimum schema =
     (let m = (case get_i64 schema ''minimum'' of Some m \<Rightarrow> m | None \<Rightarrow> -100) in
      case get_i64 schema ''exclusiveMinimum'' of
        Some e \<Rightarrow> max m (saturate_i64 (e + 1))
      | None \<Rightarrow> if json_get schema ''exclusiveMinimum'' = Some (JBool True) then saturate_i64 (m + 1) else m)"

definition integer_maximum :: "json \<Rightarrow> int" where
  "integer_maximum schema =
     (let m = (case get_i64 schema ''maximum'' of Some m \<Rightarrow> m | None \<Rightarrow> 100) in
      case get_i64 schema ''exclusiveMaximum'' of
        Some e \<Rightarrow> min m (saturate_i64 (e - 1))
      | None \<Rightarrow> if json_get schema ''exclusiveMaximum'' = Some (JBool True) then saturate_i64 (m - 1) else m)"

definition generate_integer :: "json \<Rightarrow> u64 \<Rightarrow> string \<Rightarrow> ConformanceError + json" where
  "generate_integer schema variant path =
     (let minimum = integer_minimum schema; maximum = integer_maximum schema in
      if maximum < minimum then Inl (Generation path)
      else
        let selected = pick [minimum, maximum, max minimum (min maximum 0)] variant in
        case get_i64 schema ''multipleOf'' of
          None \<Rightarrow> Inr (json_i64 selected)
        | Some multiple \<Rightarrow>
            if multiple \<le> 0 then Inl (Generation path)
            else
              let selected = wrap_i64 (selected div multiple * multiple);
                  selected = (if selected < minimum then saturate_i64 (selected + multiple) else selected) in
              if maximum < selected then Inl (Generation path) else Inr (json_i64 selected))"

subsection \<open>Doubles\<close>

text \<open>The double nearest to a rational, ties to even; \<open>None\<close> when it is infinite.\<close>

definition scaled_round :: "int \<Rightarrow> int \<Rightarrow> int \<Rightarrow> f64" where
  "scaled_round n d e =
     (if 0 \<le> e then of_int (round_half_even n (d * 2 ^ nat e) * 2 ^ nat e)
      else of_int (round_half_even (n * 2 ^ nat (- e)) d) / of_int (2 ^ nat (- e)))"

definition round_f64 :: "rat \<Rightarrow> f64 option" where
  "round_f64 x =
     (let (n, d) = quotient_of \<bar>x\<bar>;
          e = max (- 1074) (int (bit_length n) - int (bit_length d) - 53);
          e = (if (if 0 \<le> e then d * 2 ^ 53 * 2 ^ nat e \<le> n else d * 2 ^ 53 \<le> n * 2 ^ nat (- e)) then e + 1 else e);
          r = scaled_round n d e in
      if 2 ^ 1024 \<le> r then None else Some (sgn x * r))"

definition epsilon_f64 :: f64 where "epsilon_f64 = 1 / 4503599627370496"

text \<open>\<open>f64::round\<close>: half away from zero.\<close>

definition round_away :: "f64 \<Rightarrow> f64" where
  "round_away x = sgn x * of_int \<lfloor>\<bar>x\<bar> + 1 / 2\<rfloor>"

definition nudge :: "f64 \<Rightarrow> f64 \<Rightarrow> f64 option" where
  "nudge sign x = Option.bind (round_f64 (epsilon_f64 * max \<bar>x\<bar> 1)) (\<lambda>e. round_f64 (x + sign * e))"

definition number_minimum :: "json \<Rightarrow> f64 option" where
  "number_minimum schema =
     (let m = (case get_f64 schema ''minimum'' of Some m \<Rightarrow> m | None \<Rightarrow> -100) in
      case get_f64 schema ''exclusiveMinimum'' of
        None \<Rightarrow> Some m | Some e \<Rightarrow> map_option (max m) (nudge 1 e))"

definition number_maximum :: "json \<Rightarrow> f64 option" where
  "number_maximum schema =
     (let m = (case get_f64 schema ''maximum'' of Some m \<Rightarrow> m | None \<Rightarrow> 100) in
      case get_f64 schema ''exclusiveMaximum'' of
        None \<Rightarrow> Some m | Some e \<Rightarrow> map_option (min m) (nudge (-1) e))"

text \<open>An infinite bound or result is out of the bounds of every number, so \<open>None\<close> is an error like theirs.\<close>

definition generate_number :: "json \<Rightarrow> u64 \<Rightarrow> string \<Rightarrow> ConformanceError + json" where
  "generate_number schema variant path =
     and_then (ok_or (number_minimum schema) (Generation path)) (\<lambda>minimum.
     and_then (ok_or (number_maximum schema) (Generation path)) (\<lambda>maximum.
     if maximum < minimum then Inl (Generation path)
     else
       let selected = pick [minimum, maximum, max minimum (min maximum 0)] variant in
       case get_f64 schema ''multipleOf'' of
         None \<Rightarrow> Inr (JNumber (Float selected))
       | Some multiple \<Rightarrow>
           if multiple \<le> 0 then Inl (Generation path)
           else
             and_then (ok_or (Option.bind (round_f64 (selected / multiple)) (\<lambda>q. round_f64 (round_away q * multiple)))
                         (Generation path)) (\<lambda>selected.
             if selected < minimum \<or> maximum < selected then Inl (Generation path)
             else Inr (JNumber (Float selected)))))"

subsection \<open>Strings\<close>

definition formatted_string :: "string \<Rightarrow> string option" where
  "formatted_string format =
     map_of [(''date'', ''2026-08-05''), (''date-time'', ''2026-08-05T00:00:00Z''), (''email'', ''kahea@example.test''),
       (''uuid'', ''00000000-0000-4000-8000-000000000001''), (''uri'', ''https://example.test/resource''),
       (''url'', ''https://example.test/resource''), (''hostname'', ''example.test''), (''ipv4'', ''192.0.2.1''),
       (''ipv6'', ''2001:db8::1''), (''byte'', ''a2FoZWE='')] format"

definition simple_pattern_value :: "string \<Rightarrow> nat \<Rightarrow> string option" where
  "simple_pattern_value pattern minimum =
     (let n = max minimum 1 in
      if contains_str pattern [CHR 0x5C, CHR ''d''] \<or> contains_str pattern ''0-9'' then Some (replicate n (CHR ''7''))
      else if contains_str pattern ''A-Z'' then Some (replicate n (CHR ''A''))
      else if contains_str pattern ''a-z'' \<or> contains_str pattern ''A-Za-z'' then Some (replicate n (CHR ''a''))
      else None)"

definition example_or_default :: "json \<Rightarrow> json option" where
  "example_or_default schema =
     (case json_get schema ''example'' of Some v \<Rightarrow> Some v | None \<Rightarrow> json_get schema ''default'')"

definition length_bound :: "json \<Rightarrow> string \<Rightarrow> nat option" where
  "length_bound schema key = map_option unat (get_u64 schema key)"

definition generate_string :: "json \<Rightarrow> u64 \<Rightarrow> string \<Rightarrow> ConformanceError + string" where
  "generate_string schema variant path =
     (case Option.bind (get_str schema ''format'') (\<lambda>f. if f = ''binary'' then Some None
                                                       else map_option Some (formatted_string f)) of
        Some None \<Rightarrow> Inl (Generation path)
      | Some (Some formatted) \<Rightarrow> Inr formatted
      | None \<Rightarrow>
          let minimum = (case length_bound schema ''minLength'' of Some n \<Rightarrow> n | None \<Rightarrow> 0);
              maximum = (case length_bound schema ''maxLength'' of Some n \<Rightarrow> n | None \<Rightarrow> min (minimum + 16) usize_max) in
          if maximum < minimum \<or> MAX_GENERATED_STRING < minimum then Inl (Generation path)
          else
            (case get_str schema ''pattern'' of
               Some pattern \<Rightarrow>
                 (case Option.bind (simple_pattern_value pattern minimum) (\<lambda>v. if length v \<le> maximum then Some v else None) of
                    Some v \<Rightarrow> Inr v
                  | None \<Rightarrow> ok_or (Option.bind (example_or_default schema) as_str) (Generation path))
             | None \<Rightarrow>
                 let upper = min maximum MAX_GENERATED_STRING;
                     n = pick [minimum, upper, min (minimum + 1) upper] variant in
                 Inr (replicate n (pick ''aZ7'' variant))))"

subsection \<open>Values\<close>

type_synonym generator = "json \<Rightarrow> u64 \<Rightarrow> string \<Rightarrow> ConformanceError + json"

definition unsupported_keywords :: "string list" where
  "unsupported_keywords =
     [''not'', ''if'', ''then'', ''else'', ''dependentRequired'', ''dependentSchemas'', ''patternProperties'',
      ''propertyNames'', ''contains'', ''prefixItems'', ''unevaluatedProperties'', ''unevaluatedItems'']"

definition chosen_example :: "json \<Rightarrow> u64 \<Rightarrow> json option" where
  "chosen_example schema variant =
     (if multiple_of 5 variant
      then (case example_or_default schema of
              Some v \<Rightarrow> Some v
            | None \<Rightarrow>
                Option.bind (get_array schema ''examples'') (\<lambda>vs. if vs = [] then None else Some (pick vs variant)))
      else None)"

definition alternative_branches :: "json \<Rightarrow> json list" where
  "alternative_branches schema =
     (case Option.bind (case json_get schema ''oneOf'' of Some v \<Rightarrow> Some v | None \<Rightarrow> json_get schema ''anyOf'') as_array of
        Some branches \<Rightarrow> branches | None \<Rightarrow> [])"

text \<open>\<open>allOf\<close> merges the objects of its branches; the first value that is no object is the result.\<close>

fun generate_all_of :: "crates \<Rightarrow> generator \<Rightarrow> json list \<Rightarrow> nat \<Rightarrow> u64 \<Rightarrow> string \<Rightarrow> (string \<times> json) list \<Rightarrow> ConformanceError + json" where
  "generate_all_of C gen [] index variant path combined = Inr (JObject combined)"
| "generate_all_of C gen (branch # branches) index variant path combined =
     and_then (gen branch (variant_for C variant (show_nat index)) path) (\<lambda>v.
     case v of
       JObject m \<Rightarrow> generate_all_of C gen branches (index + 1) variant path (fold (\<lambda>(k, x). map_insert k x) m combined)
     | _ \<Rightarrow> Inr v)"

definition schema_kind :: "json \<Rightarrow> u64 \<Rightarrow> string" where
  "schema_kind schema variant =
     (let types = plan_declared_types schema in
      if types \<noteq> [] then pick types variant
      else if json_get schema ''properties'' \<noteq> None then ''object''
      else if json_get schema ''items'' \<noteq> None then ''array'' else ''string'')"

fun unique_item ::
  "crates \<Rightarrow> generator \<Rightarrow> json \<Rightarrow> u64 \<Rightarrow> nat \<Rightarrow> string \<Rightarrow> bool \<Rightarrow> json list \<Rightarrow> u64 list \<Rightarrow> ConformanceError + json" where
  "unique_item C gen schema variant index path unique earlier [] = Inl (Generation path)"
| "unique_item C gen schema variant index path unique earlier (attempt # attempts) =
     and_then (gen schema (variant_for C (variant + attempt) (show_nat index)) (path @ ''['' @ show_nat index @ '']'')) (\<lambda>candidate.
     if \<not> unique \<or> candidate \<notin> set earlier then Inr candidate
     else unique_item C gen schema variant index path unique earlier attempts)"

definition array_attempts :: "u64 list" where
  "array_attempts = [0, 1, 2, 3, 4, 5, 6, 7, 8, 9, 10, 11, 12, 13, 14, 15]"

definition generate_array :: "crates \<Rightarrow> generator \<Rightarrow> generator" where
  "generate_array C gen schema variant path =
     (let minimum = (case length_bound schema ''minItems'' of Some n \<Rightarrow> n | None \<Rightarrow> 0);
          maximum = (case length_bound schema ''maxItems'' of Some n \<Rightarrow> n | None \<Rightarrow> min (minimum + 3) usize_max) in
      if maximum < minimum \<or> MAX_GENERATED_ARRAY < minimum then Inl (Generation path)
      else
        let upper = min maximum MAX_GENERATED_ARRAY;
            n = (if upper = minimum then minimum else minimum + unat variant mod (upper - minimum + 1));
            items = (case json_get schema ''items'' of Some i \<Rightarrow> i | None \<Rightarrow> JNull) in
        and_then (for_each (\<lambda>index vs.
                    and_then (unique_item C gen items variant index path (flag schema ''uniqueItems'') vs array_attempts) (\<lambda>v.
                    Inr (vs @ [v]))) [0 ..< n] []) (\<lambda>vs. Inr (JArray vs)))"

definition required_names :: "json \<Rightarrow> string list" where
  "required_names schema = (case get_array schema ''required'' of Some vs \<Rightarrow> List.map_filter as_str vs | None \<Rightarrow> [])"

definition schema_properties :: "json \<Rightarrow> (string \<times> json) list" where
  "schema_properties schema = (case get_object schema ''properties'' of Some m \<Rightarrow> m | None \<Rightarrow> [])"

definition insert_generated ::
  "crates \<Rightarrow> generator \<Rightarrow> u64 \<Rightarrow> string \<Rightarrow> string \<Rightarrow> json \<Rightarrow> (string \<times> json) list \<Rightarrow> ConformanceError + (string \<times> json) list" where
  "insert_generated C gen variant path name child m =
     and_then (gen child (variant_for C variant name) (path @ ''.'' @ name)) (\<lambda>v. Inr (map_insert name v m))"

definition generate_object :: "crates \<Rightarrow> generator \<Rightarrow> generator" where
  "generate_object C gen schema variant path =
     (let properties = schema_properties schema; required = required_names schema;
          minimum = (case length_bound schema ''minProperties'' of Some n \<Rightarrow> n | None \<Rightarrow> 0) in
      and_then (for_each (\<lambda>(index, name, child) m.
                  if \<not> flag child ''readOnly'' \<and> (name \<in> set required \<or> multiple_of 3 (variant + of_nat index))
                  then insert_generated C gen variant path name child m else Inr m) (List.enumerate 0 properties) []) (\<lambda>m.
      and_then (for_each (\<lambda>(name, child) m.
                  if length m < minimum \<and> map_of m name = None \<and> \<not> flag child ''readOnly''
                  then insert_generated C gen variant path name child m else Inr m) properties m) (\<lambda>m.
      if length m < minimum then Inl (Generation path)
      else if exceeds (\<lambda>maximum. maximum < length m) (length_bound schema ''maxProperties'') then Inl (Generation path)
      else Inr (JObject m))))"

definition generate_kind :: "crates \<Rightarrow> generator \<Rightarrow> generator" where
  "generate_kind C gen schema variant path =
     (let kind = schema_kind schema variant in
      if kind = ''null'' then Inr JNull
      else if kind = ''boolean'' then Inr (JBool (multiple_of 2 variant))
      else if kind = ''integer'' then generate_integer schema variant path
      else if kind = ''number'' then generate_number schema variant path
      else if kind = ''string'' then and_then (generate_string schema variant path) (\<lambda>s. Inr (JString s))
      else if kind = ''array'' then generate_array C gen schema variant path
      else if kind = ''object'' then generate_object C gen schema variant path
      else Inl (Generation path))"

definition generate_level :: "crates \<Rightarrow> json \<Rightarrow> generator \<Rightarrow> generator" where
  "generate_level C document gen schema variant path =
     and_then (conf_resolve C document schema path) (\<lambda>schema.
     if list_ex (\<lambda>k. json_get schema k \<noteq> None) unsupported_keywords then Inl (Generation path)
     else (case json_get schema ''const'' of
             Some v \<Rightarrow> Inr v
           | None \<Rightarrow>
     (case get_array schema ''enum'' of
        Some vs \<Rightarrow> if vs = [] then Inl (Generation path) else Inr (pick vs variant)
      | None \<Rightarrow>
     (case chosen_example schema variant of
        Some v \<Rightarrow> Inr v
      | None \<Rightarrow>
          if alternative_branches schema \<noteq> []
          then gen (pick (alternative_branches schema) variant) (word_rotl 7 variant) path
          else (case get_array schema ''allOf'' of
                  Some branches \<Rightarrow> generate_all_of C gen branches 0 variant path []
                | None \<Rightarrow> generate_kind C gen schema variant path)))))"

primrec generate_value :: "nat \<Rightarrow> crates \<Rightarrow> json \<Rightarrow> generator" where
  "generate_value 0 C document schema variant path = Inl (Generation path)"
| "generate_value (Suc levels) C document schema variant path =
     generate_level C document (generate_value levels C document) schema variant path"

text \<open>A value under a given baseline: what the baseline has stays, its objects are completed.\<close>

definition complete_property ::
  "crates \<Rightarrow> generator \<Rightarrow> (json \<Rightarrow> u64 \<Rightarrow> string \<Rightarrow> json \<Rightarrow> ConformanceError + json) \<Rightarrow> u64 \<Rightarrow> string \<Rightarrow> string list
     \<Rightarrow> (string \<times> json) list \<Rightarrow> nat \<times> string \<times> json \<Rightarrow> (string \<times> json) list \<Rightarrow> ConformanceError + (string \<times> json) list" where
  "complete_property C gen completes variant path required existing = (\<lambda>(index, name, child) m.
     if flag child ''readOnly'' then Inr m
     else (case map_of existing name of
             Some v \<Rightarrow>
               and_then (completes child (variant_for C variant name) (path @ ''.'' @ name) v) (\<lambda>v'. Inr (map_insert name v' m))
           | None \<Rightarrow>
               if name \<in> set required \<or> multiple_of 3 (variant + of_nat index)
               then insert_generated C gen variant path name child m else Inr m))"

primrec complete_value :: "nat \<Rightarrow> crates \<Rightarrow> json \<Rightarrow> json \<Rightarrow> u64 \<Rightarrow> string \<Rightarrow> json \<Rightarrow> ConformanceError + json" where
  "complete_value 0 C document schema variant path existing = Inl (Generation path)"
| "complete_value (Suc levels) C document schema variant path existing =
     and_then (conf_resolve C document schema path) (\<lambda>schema.
     case as_object existing of
       None \<Rightarrow> Inr existing
     | Some object \<Rightarrow>
         if json_get schema ''properties'' = None then Inr existing
         else
           and_then (for_each (complete_property C (generate_value levels C document) (complete_value levels C document)
                       variant path (required_names schema) object)
                      (List.enumerate 0 (schema_properties schema)) object) (\<lambda>m. Inr (JObject m)))"

subsection \<open>Inputs\<close>

definition conf_parameters :: "crates \<Rightarrow> OpenApiSource \<Rightarrow> OperationDefinition \<Rightarrow> ConformanceError + json list" where
  "conf_parameters C source operation =
     (let all = array_field (od_path_item operation) ''parameters'' @ array_field (od_operation operation) ''parameters'' in
      and_then (for_each (\<lambda>v _. and_then (conf_resolve C (os_document source) v ''parameter'') (\<lambda>_. Inr ())) all ()) (\<lambda>_. Inr all))"

definition json_first :: "(string \<times> 'a) list \<Rightarrow> (string \<times> 'a) option" where
  "json_first content =
     (case List.find (\<lambda>(name, _). contains_str name ''json'') content of
        Some x \<Rightarrow> Some x | None \<Rightarrow> (case content of [] \<Rightarrow> None | x # _ \<Rightarrow> Some x))"

definition request_body_schema ::
  "crates \<Rightarrow> OpenApiSource \<Rightarrow> OperationDefinition \<Rightarrow> string option \<Rightarrow> ConformanceError + (json \<times> bool) option" where
  "request_body_schema C source operation media_type =
     (case map_of (od_operation operation) ''requestBody'' of
        None \<Rightarrow> Inr None
      | Some body \<Rightarrow>
          and_then (conf_resolve C (os_document source) body ''requestBody'') (\<lambda>body.
          and_then (ok_or (get_object body ''content'') (Generation ''body'')) (\<lambda>content.
          and_then (ok_or (case media_type of Some t \<Rightarrow> map_of content t | None \<Rightarrow> map_option snd (json_first content))
                      (Generation ''body'')) (\<lambda>media.
          and_then (ok_or (json_get media ''schema'') (Generation ''body'')) (\<lambda>schema.
          Inr (Some (schema, flag body ''required'')))))))"

definition selected_content_type ::
  "crates \<Rightarrow> OpenApiSource \<Rightarrow> OperationDefinition \<Rightarrow> string option \<Rightarrow> ConformanceError + string option" where
  "selected_content_type C source operation requested =
     (case map_of (od_operation operation) ''requestBody'' of
        None \<Rightarrow> Inr None
      | Some body \<Rightarrow>
          and_then (conf_resolve C (os_document source) body ''requestBody'') (\<lambda>body.
          and_then (ok_or (get_object body ''content'') (Generation ''body'')) (\<lambda>content.
          case requested of
            Some r \<Rightarrow> if map_of content r = None then Inl (Generation ''body'') else Inr (Some r)
          | None \<Rightarrow> Inr (map_option fst (json_first content)))))"

definition input_sections :: "string list" where
  "input_sections = [''path'', ''query'', ''header'', ''headers'', ''cookie'', ''cookies'', ''body'']"

definition structured_input :: "json \<Rightarrow> bool" where
  "structured_input v = (case as_object v of None \<Rightarrow> False | Some m \<Rightarrow> list_ex (\<lambda>k. map_of m k \<noteq> None) input_sections)"

definition wrap_body :: "json \<Rightarrow> json" where
  "wrap_body v = JObject [(''body'', v)]"

text \<open>\<open>entry(..).or_insert_with(Map::new)\<close>\<close>

definition section_or_empty :: "string \<Rightarrow> (string \<times> json) list \<Rightarrow> (string \<times> json) list" where
  "section_or_empty name m = (if map_of m name = None then map_insert name (JObject []) m else m)"

definition insert_in_section ::
  "string \<Rightarrow> string \<Rightarrow> json \<Rightarrow> (string \<times> json) list \<Rightarrow> ConformanceError + (string \<times> json) list" where
  "insert_in_section section_name name v m =
     (let m = section_or_empty section_name m in
      and_then (ok_or (Option.bind (map_of m section_name) as_object) (Generation section_name)) (\<lambda>entries.
      Inr (map_insert section_name (JObject (map_insert name v entries)) m)))"

definition explicit_location :: "string \<Rightarrow> string" where
  "explicit_location l = (if l = ''headers'' then ''header'' else if l = ''cookies'' then ''cookie'' else l)"

definition insert_explicit_field ::
  "string \<times> json \<Rightarrow> (string \<times> json) list \<Rightarrow> ConformanceError + (string \<times> json) list" where
  "insert_explicit_field = (\<lambda>(key, v) m.
     and_then (ok_or (split_once ''.'' key) (Generation key)) (\<lambda>(location, name).
     let location = explicit_location location in
     if location = ''body''
     then
       let m = section_or_empty ''body'' m in
       and_then (ok_or (Option.bind (map_of m ''body'') (\<lambda>body. insert_path body (split_char (CHR ''.'') name) v))
                   (Generation name)) (\<lambda>body.
       Inr (map_insert ''body'' body m))
     else if location \<in> {''path'', ''query'', ''header'', ''cookie''} then insert_in_section location name v m
     else Inl (Generation key)))"

definition baseline_with_explicit :: "json option \<Rightarrow> (string \<times> json) list \<Rightarrow> ConformanceError + json option" where
  "baseline_with_explicit baseline explicit =
     (if baseline = None \<and> explicit = [] then Inr None
      else
        let start = (case baseline of Some b \<Rightarrow> b | None \<Rightarrow> JObject []);
            start = (if \<not> structured_input start \<and> baseline \<noteq> None then wrap_body start else start) in
        and_then (ok_or (as_object start) (Generation ''input'')) (\<lambda>m.
        and_then (for_each insert_explicit_field explicit m) (\<lambda>m. Inr (Some (JObject m)))))"

definition generate_parameter ::
  "crates \<Rightarrow> OpenApiSource \<Rightarrow> u64 \<Rightarrow> json \<Rightarrow> (string \<times> json) list \<Rightarrow> ConformanceError + (string \<times> json) list" where
  "generate_parameter C source variant parameter input =
     and_then (conf_resolve C (os_document source) parameter ''parameter'') (\<lambda>parameter.
     and_then (ok_or (get_str parameter ''name'') (Generation ''parameters'')) (\<lambda>name.
     and_then (ok_or (get_str parameter ''in'') (Generation name)) (\<lambda>location.
     let required = (flag parameter ''required'' \<or> location = ''path'') in
     if location \<notin> {''path'', ''query'', ''header'', ''cookie''} then Inl (Generation name)
     else
       let input = section_or_empty location input in
       and_then (ok_or (Option.bind (map_of input location) as_object) (Generation location)) (\<lambda>entries.
       if map_of entries name \<noteq> None then Inr input
       else if required \<or> \<not> multiple_of 3 variant
       then
         and_then (generate_value MAX_GENERATION_DEPTH C (os_document source)
                     (case json_get parameter ''schema'' of Some s \<Rightarrow> s | None \<Rightarrow> JNull) (variant_for C variant name) name) (\<lambda>v.
         insert_in_section location name v input)
       else Inr input))))"

definition generated_input ::
  "crates \<Rightarrow> OpenApiSource \<Rightarrow> OperationDefinition \<Rightarrow> json option \<Rightarrow> string option \<Rightarrow> u64 \<Rightarrow> ConformanceError + json" where
  "generated_input C source operation baseline content_type variant =
     (let start = (case baseline of Some b \<Rightarrow> b | None \<Rightarrow> JObject []);
          start = (if as_object start = None then wrap_body start else start);
          start = (if \<not> structured_input start \<and> baseline \<noteq> None then wrap_body start else start) in
      and_then (conf_parameters C source operation) (\<lambda>ps.
      and_then (for_each (generate_parameter C source variant) ps (the (as_object start))) (\<lambda>input.
      and_then (request_body_schema C source operation content_type) (\<lambda>body.
      case body of
        None \<Rightarrow> Inr (JObject input)
      | Some (schema, required) \<Rightarrow>
          (case map_of input ''body'' of
             Some existing \<Rightarrow>
               and_then (complete_value MAX_GENERATION_DEPTH C (os_document source) schema (variant_for C variant ''body'') ''body''
                           existing) (\<lambda>v. Inr (JObject (map_insert ''body'' v input)))
           | None \<Rightarrow>
               if required \<or> multiple_of 2 variant
               then and_then (generate_value MAX_GENERATION_DEPTH C (os_document source) schema (variant_for C variant ''body'')
                                ''body'') (\<lambda>v. Inr (JObject (map_insert ''body'' v input)))
               else Inr (JObject input))))))"

end
