(* ===== verification/Conf_Mutate.thy ===== *)
theory Conf_Mutate
  imports Conf_Generate Exec_Types
begin

text \<open>
  Negative cases (\<open>kahea-conformance\<close>): mutations of a planned request that its schemas do not allow.  What
  \<open>url::Url\<close> does to queries and path segments is a parameter.
\<close>

record conf_env =
  ce_plan :: plan_env
  ce_fuel :: nat
  \<comment> \<open>\<open>query_pairs\<close>, \<open>set_query(None)\<close>, \<open>path_segments\<close>, and replacing the segments through \<open>path_segments_mut\<close>\<close>
  ce_query_pairs :: "ParsedUrl \<Rightarrow> (string \<times> string) list"
  ce_clear_query :: "ParsedUrl \<Rightarrow> ParsedUrl"
  ce_path_segments :: "ParsedUrl \<Rightarrow> string list option"
  ce_set_path_segments :: "ParsedUrl \<Rightarrow> string list \<Rightarrow> ParsedUrl option"

subsection \<open>Invalid values\<close>

definition outside_enum :: string where "outside_enum = ''__kahea_outside_enum__''"

definition invalid_of_type :: "json \<Rightarrow> json \<Rightarrow> json option" where
  "invalid_of_type schema v =
     (case get_str schema ''type'' of
        Some kind \<Rightarrow>
          if kind = ''string''
          then (if exceeds (\<lambda>m. 0 < m) (get_u64 schema ''minLength'') then Some (JString [])
                else (case get_u64 schema ''maxLength'' of
                        Some m \<Rightarrow> if unat m < MAX_GENERATED_STRING then Some (JString (replicate (unat m + 1) (CHR ''x'')))
                                  else Some (JBool False)
                      | None \<Rightarrow> Some (JBool False)))
          else if kind \<in> {''integer'', ''number''} then Some (JString ''not-a-number'')
          else if kind = ''boolean'' then Some (JString ''not-a-boolean'')
          else if kind = ''array'' then Some (JObject [(''not'', JString ''an-array'')])
          else if kind = ''object'' then Some (JArray [JString ''not-an-object''])
          else if kind = ''null'' then Some (JBool True)
          else if is_string v then Some (JBool False) else None
      | None \<Rightarrow> if is_string v then Some (JBool False) else None)"

definition invalid_value :: "json \<Rightarrow> json \<Rightarrow> json option" where
  "invalid_value schema v =
     (case get_array schema ''enum'' of
        Some vs \<Rightarrow> if JString outside_enum \<notin> set vs then Some (JString outside_enum) else invalid_of_type schema v
      | None \<Rightarrow> invalid_of_type schema v)"

definition map_remove :: "string \<Rightarrow> (string \<times> json) list \<Rightarrow> (string \<times> json) list" where
  "map_remove name m = filter (\<lambda>(k, v). k \<noteq> name) m"

definition omitted_properties :: "json \<Rightarrow> json \<Rightarrow> string \<Rightarrow> (string \<times> json) list" where
  "omitted_properties schema v path =
     (case (get_array schema ''required'', as_object v) of
        (Some required, Some m) \<Rightarrow>
          map (\<lambda>name. (''omit-required-body:'' @ path @ ''.'' @ name, JObject (map_remove name m)))
            (filter (\<lambda>name. map_of m name \<noteq> None) (List.map_filter as_str required))
      | _ \<Rightarrow> [])"

definition unknown_property :: "json \<Rightarrow> json \<Rightarrow> string \<Rightarrow> (string \<times> json) list" where
  "unknown_property schema v path =
     (case (json_get schema ''additionalProperties'' = Some (JBool False), as_object v) of
        (True, Some m) \<Rightarrow> [(''unknown-body-property:'' @ path, JObject (map_insert ''__kahea_unknown'' (JBool True) m))]
      | _ \<Rightarrow> [])"

type_synonym mutator = "json \<Rightarrow> json \<Rightarrow> string \<Rightarrow> ConformanceError + (string \<times> json) list"

definition invalid_properties :: "mutator \<Rightarrow> mutator" where
  "invalid_properties mutate schema v path =
     (case (get_object schema ''properties'', as_object v) of
        (Some properties, Some m) \<Rightarrow>
          for_each (\<lambda>(name, child_schema) cs.
            case map_of m name of
              None \<Rightarrow> Inr cs
            | Some child \<Rightarrow>
                and_then (mutate child_schema child (path @ ''.'' @ name)) (\<lambda>invalid.
                Inr (cs @ map (\<lambda>(strategy, w). (strategy, JObject (map_insert name w m))) invalid))) properties []
      | _ \<Rightarrow> Inr [])"

definition invalid_items :: "mutator \<Rightarrow> mutator" where
  "invalid_items mutate schema v path =
     (case (json_get schema ''items'', as_array v) of
        (Some items, Some vs) \<Rightarrow>
          for_each (\<lambda>(index, child) cs.
            and_then (mutate items child (path @ ''['' @ show_nat index @ '']'')) (\<lambda>invalid.
            Inr (cs @ map (\<lambda>(strategy, w). (strategy, JArray (vs[index := w]))) invalid))) (List.enumerate 0 vs) []
      | _ \<Rightarrow> Inr [])"

primrec invalid_json_values :: "nat \<Rightarrow> crates \<Rightarrow> json \<Rightarrow> mutator" where
  "invalid_json_values 0 C document schema v path = Inr []"
| "invalid_json_values (Suc levels) C document schema v path =
     and_then (conf_resolve C document schema path) (\<lambda>schema.
     and_then (invalid_properties (invalid_json_values levels C document) schema v path) (\<lambda>properties.
     and_then (invalid_items (invalid_json_values levels C document) schema v path) (\<lambda>items.
     Inr (omitted_properties schema v path @ unknown_property schema v path @ properties @ items
          @ (case invalid_value schema v of Some w \<Rightarrow> [(''invalid-body-value:'' @ path, w)] | None \<Rightarrow> [])))))"

definition invalid_scalar :: "json \<Rightarrow> string option" where
  "invalid_scalar schema =
     (if get_array schema ''enum'' \<noteq> None then Some outside_enum
      else (case get_str schema ''type'' of
              None \<Rightarrow> None
            | Some kind \<Rightarrow>
                if kind \<in> {''integer'', ''number''} then Some ''not-a-number''
                else if kind = ''boolean'' then Some ''not-a-boolean''
                else if kind = ''string'' \<and> exceeds (\<lambda>m. 0 < m) (get_u64 schema ''minLength'') then Some []
                else None))"

subsection \<open>Requests\<close>

text \<open>\<open>None\<close> when there is nothing to change.\<close>

definition mutate_cookie :: "RequestPlan \<Rightarrow> string \<Rightarrow> string option \<Rightarrow> RequestPlan option" where
  "mutate_cookie plan name replacement =
     (case List.extract (\<lambda>h. eq_ignore_ascii_case (ph_name h) ''cookie'') (rp_headers plan) of
        None \<Rightarrow> None
      | Some (before, header, after) \<Rightarrow>
          let parts = List.map_filter (\<lambda>part. split_once ''='' (trim part)) (split_char (CHR '';'') (ph_value header));
              changed = list_ex (\<lambda>(key, old). key = name) parts;
              cookies = concat (map (\<lambda>(key, old).
                          if key = name then (case replacement of Some v \<Rightarrow> [key @ ''='' @ v] | None \<Rightarrow> [])
                          else [key @ ''='' @ old]) parts) in
          if changed
          then Some (plan\<lparr>rp_headers := before @ header\<lparr>ph_value := concat (case cookies of [] \<Rightarrow> [] | c # cs \<Rightarrow>
                                         c # map (\<lambda>x. ''; '' @ x) cs)\<rparr> # after\<rparr>)
          else None)"

definition remove_parameter ::
  "crates \<Rightarrow> conf_env \<Rightarrow> RequestPlan \<Rightarrow> string \<Rightarrow> string \<Rightarrow> ConformanceError + RequestPlan option" where
  "remove_parameter C E plan location name =
     (if location = ''query''
      then
        and_then (ok_or (url_parse C (rp_target plan)) CampaignPlan) (\<lambda>url.
        let retained = filter (\<lambda>(key, v). key \<noteq> name) (ce_query_pairs E url) in
        if length retained = length (ce_query_pairs E url) then Inr None
        else
          let url = ce_clear_query E url;
              url = (if retained = [] then url else pe_append_pairs (ce_plan E) url retained) in
          Inr (Some (plan\<lparr>rp_target := url_to_string url\<rparr>)))
      else if location = ''header''
      then
        let retained = filter (\<lambda>h. \<not> eq_ignore_ascii_case (ph_name h) name) (rp_headers plan) in
        Inr (if length retained = length (rp_headers plan) then None else Some (plan\<lparr>rp_headers := retained\<rparr>))
      else if location = ''cookie'' then Inr (mutate_cookie plan name None)
      else Inr None)"

definition replace_path_segment ::
  "crates \<Rightarrow> conf_env \<Rightarrow> RequestPlan \<Rightarrow> string \<Rightarrow> string \<Rightarrow> ConformanceError + RequestPlan option" where
  "replace_path_segment C E plan name v =
     (case Option.bind (List.find (\<lambda>d. fd_field d = ''path.'' @ name) (rp_derivations plan)) fd_wire_value of
        None \<Rightarrow> Inr None
      | Some old \<Rightarrow>
          and_then (ok_or (url_parse C (rp_target plan)) CampaignPlan) (\<lambda>url.
          case Option.bind (ce_path_segments E url) (List.extract (\<lambda>segment. segment = old)) of
            None \<Rightarrow> Inr None
          | Some (before, _, after) \<Rightarrow>
              and_then (ok_or (ce_set_path_segments E url (before @ v # after)) CampaignPlan) (\<lambda>url.
              Inr (Some (plan\<lparr>rp_target := url_to_string url\<rparr>)))))"

definition replace_parameter ::
  "crates \<Rightarrow> conf_env \<Rightarrow> RequestPlan \<Rightarrow> string \<Rightarrow> string \<Rightarrow> string \<Rightarrow> ConformanceError + RequestPlan option" where
  "replace_parameter C E plan location name v =
     (if location = ''query''
      then
        and_then (ok_or (url_parse C (rp_target plan)) CampaignPlan) (\<lambda>url.
        if list_ex (\<lambda>(key, old). key = name) (ce_query_pairs E url)
        then Inr (Some (plan\<lparr>rp_target := url_to_string (pe_append_pairs (ce_plan E) (ce_clear_query E url)
                              (map (\<lambda>(key, old). if key = name then (key, v) else (key, old)) (ce_query_pairs E url)))\<rparr>))
        else Inr None)
      else if location = ''header''
      then (case List.extract (\<lambda>h. eq_ignore_ascii_case (ph_name h) name) (rp_headers plan) of
              None \<Rightarrow> Inr None
            | Some (before, header, after) \<Rightarrow>
                Inr (Some (plan\<lparr>rp_headers := before @ header\<lparr>ph_value := v\<rparr> # after\<rparr>)))
      else if location = ''cookie'' then Inr (mutate_cookie plan name (Some v))
      else if location = ''path'' then replace_path_segment C E plan name v
      else Inr None)"

definition conformance_derivation :: "string \<Rightarrow> json \<Rightarrow> string option \<Rightarrow> FieldDerivation" where
  "conformance_derivation strategy logical wire =
     \<lparr>fd_field = ''conformance.mutation'', fd_source = ''conformance-generator'', fd_source_location = strategy,
      fd_logical_value = logical, fd_wire_value = wire, fd_transformations = [''schema-negative-mutation'']\<rparr>"

definition seal_negative :: "crates \<Rightarrow> RequestPlan \<Rightarrow> ConformanceError + RequestPlan" where
  "seal_negative C plan =
     map_err (\<lambda>_. CampaignSerialization)
       (seal_request_plan C (plan\<lparr>rp_required_grants := sort_dedup (rp_required_grants plan @ [''conformance:negative''])\<rparr>))"

definition invalidated :: "crates \<Rightarrow> RequestPlan \<Rightarrow> string \<Rightarrow> json \<Rightarrow> string option \<Rightarrow> ConformanceError + (string \<times> RequestPlan)" where
  "invalidated C plan strategy logical wire =
     and_then (seal_negative C (plan\<lparr>rp_valid := False,
                 rp_derivations := rp_derivations plan @ [conformance_derivation strategy logical wire]\<rparr>)) (\<lambda>p.
     Inr (strategy, p))"

definition body_mutation ::
  "crates \<Rightarrow> RequestPlan \<Rightarrow> PlannedBody \<Rightarrow> string \<times> json \<Rightarrow> (string \<times> RequestPlan) list
     \<Rightarrow> ConformanceError + (string \<times> RequestPlan) list" where
  "body_mutation C plan body = (\<lambda>(strategy, mutated) variants.
     and_then (ok_or (json_to_vec C mutated) CampaignSerialization) (\<lambda>byts.
     let body = body\<lparr>pb_bytes := len_u64 byts, pb_blake3 := digest C byts, pb_encoding := ''utf-8'',
                     pb_inline := from_bytes byts\<rparr> in
     and_then (invalidated C (plan\<lparr>rp_body := Some body\<rparr>) strategy mutated (Some (pb_inline body))) (\<lambda>v.
     Inr (variants @ [v]))))"

definition negative_bodies ::
  "crates \<Rightarrow> OpenApiSource \<Rightarrow> OperationDefinition \<Rightarrow> RequestPlan \<Rightarrow> ConformanceError + (string \<times> RequestPlan) list" where
  "negative_bodies C source operation plan =
     (case rp_body plan of
        None \<Rightarrow> Inr []
      | Some body \<Rightarrow>
          if \<not> contains_str (pb_media_type body) ''json'' then Inr []
          else (case json_from_slice C (as_bytes (pb_inline body)) of
                  None \<Rightarrow> Inr []
                | Some v \<Rightarrow>
                    and_then (request_body_schema C source operation (Some (pb_media_type body))) (\<lambda>schema.
                    case schema of
                      None \<Rightarrow> Inr []
                    | Some (schema, _) \<Rightarrow>
                        and_then (invalid_json_values MAX_GENERATION_DEPTH C (os_document source) schema v ''body'') (\<lambda>mutations.
                        for_each (body_mutation C plan body) mutations []))))"

definition negative_parameter ::
  "crates \<Rightarrow> conf_env \<Rightarrow> OpenApiSource \<Rightarrow> RequestPlan \<Rightarrow> json \<Rightarrow> (string \<times> RequestPlan) list
     \<Rightarrow> ConformanceError + (string \<times> RequestPlan) list" where
  "negative_parameter C E source plan parameter variants =
     and_then (conf_resolve C (os_document source) parameter ''parameter'') (\<lambda>parameter.
     case (get_str parameter ''name'', get_str parameter ''in'') of
       (Some name, Some location) \<Rightarrow>
         and_then (if flag parameter ''required'' \<and> location \<noteq> ''path''
                   then
                     and_then (remove_parameter C E plan location name) (\<lambda>candidate.
                     case candidate of
                       None \<Rightarrow> Inr variants
                     | Some p \<Rightarrow>
                         and_then (invalidated C p (''omit-required-'' @ location @ '':'' @ name) JNull None) (\<lambda>v.
                         Inr (variants @ [v])))
                   else Inr variants) (\<lambda>variants.
         case invalid_scalar (case json_get parameter ''schema'' of Some s \<Rightarrow> s | None \<Rightarrow> JNull) of
           None \<Rightarrow> Inr variants
         | Some invalid \<Rightarrow>
             and_then (replace_parameter C E plan location name invalid) (\<lambda>candidate.
             case candidate of
               None \<Rightarrow> Inr variants
             | Some p \<Rightarrow>
                 and_then (invalidated C p (''invalid-'' @ location @ '':'' @ name) (JString invalid) None) (\<lambda>v.
                 Inr (variants @ [v]))))
     | _ \<Rightarrow> Inr variants)"

definition negative_plans ::
  "crates \<Rightarrow> conf_env \<Rightarrow> OpenApiSource \<Rightarrow> OperationDefinition \<Rightarrow> RequestPlan
     \<Rightarrow> ConformanceError + (string \<times> RequestPlan) list" where
  "negative_plans C E source operation plan =
     and_then (negative_bodies C source operation plan) (\<lambda>variants.
     and_then (conf_parameters C source operation) (\<lambda>ps.
     for_each (negative_parameter C E source plan) ps variants))"

end
