(* ===== verification/Conf_Run.thy ===== *)
theory Conf_Run
  imports Conf_Mutate Http_Invoke Plan_Store
begin

text \<open>
  Conformance campaigns (\<open>kahea-conformance\<close>): the plan of a campaign with the request plans of its cases, and the
  run over the HTTP executor.  Planning returns \<open>None\<close> when the validation of a value by the HTTP planner recurses
  deeper than the fuel.
\<close>

datatype ConformanceMode = PositiveMode | NegativeMode | MixedMode

record ConformanceOptions =
  co_cases :: nat
  co_seed :: u64
  co_mode :: ConformanceMode
  co_delay_ms :: u64
  co_max_failures :: nat
  co_input :: "json option"
  co_plan :: PlanOptions

record ConformanceCaseObservation =
  cco_case_id :: string
  cco_generation :: ConformanceGeneration
  cco_strategy :: string
  cco_plan :: string
  cco_passed :: bool
  cco_status :: "u16 option"
  cco_reason :: string
  cco_evidence :: string

record ConformanceObservation =
  cfo_protocol :: string
  cfo_kind :: string
  cfo_version :: string
  cfo_config_fingerprint :: string
  cfo_policy_fingerprint :: string
  cfo_source_fingerprints :: "string list"
  cfo_conformance_plan :: string
  cfo_outcome :: Outcome
  cfo_generated :: nat
  cfo_executed :: nat
  cfo_passed :: nat
  cfo_failed :: nat
  cfo_transport_errors :: nat
  cfo_cases :: "ConformanceCaseObservation list"
  cfo_required :: "string option"
  cfo_exit :: u8

subsection \<open>Planning\<close>

definition validate_options :: "ConformanceOptions \<Rightarrow> ConformanceError + unit" where
  "validate_options options =
     ensure (1 \<le> co_cases options \<and> co_cases options \<le> MAX_CASES \<and> 1 \<le> co_max_failures options
             \<and> co_max_failures options \<le> MAX_FAILURES \<and> co_delay_ms options \<le> MAX_DELAY_MS
             \<and> po_input (co_plan options) = None) InvalidOption"

definition positive_attempts :: "nat \<Rightarrow> nat" where
  "positive_attempts cases = max 16 (min (cases * 8) 2048)"

text \<open>A plan is kept unless its fingerprint was seen; the loop stops when there are enough.\<close>

definition add_distinct :: "string \<times> RequestPlan \<Rightarrow> (string \<times> RequestPlan) list \<Rightarrow> (string \<times> RequestPlan) list" where
  "add_distinct = (\<lambda>(strategy, plan) acc.
     if rp_fingerprint plan \<in> set (map (\<lambda>(_, p). rp_fingerprint p) acc) then acc else acc @ [(strategy, plan)])"

fun positive_cases ::
  "crates \<Rightarrow> conf_env \<Rightarrow> OpenApiSource \<Rightarrow> OperationDefinition \<Rightarrow> ConformanceOptions \<Rightarrow> ProjectConfiguration
     \<Rightarrow> json option \<Rightarrow> string option \<Rightarrow> nat list \<Rightarrow> (string \<times> RequestPlan) list
     \<Rightarrow> (ConformanceError + (string \<times> RequestPlan) list) option" where
  "positive_cases C E source operation options configuration baseline content_type [] acc = Some (Inr acc)"
| "positive_cases C E source operation options configuration baseline content_type (index # indices) acc =
     (let variant = variant_of C (co_seed options) (of_nat index) ''positive'' in
      case generated_input C source operation baseline content_type variant of
        Inl e \<Rightarrow> Some (Inl e)
      | Inr input \<Rightarrow>
          (case build_plan_with_configuration C (ce_plan E) (ce_fuel E) source operation
                  ((co_plan options)\<lparr>po_content_type := content_type, po_input := Some input\<rparr>) configuration of
             None \<Rightarrow> None
           | Some (Inl _) \<Rightarrow> Some (Inl CampaignPlan)
           | Some (Inr plan) \<Rightarrow>
               (let acc = add_distinct (''schema-valid:'' @ show_nat (unat variant), plan) acc in
                if co_cases options \<le> length acc then Some (Inr acc)
                else positive_cases C E source operation options configuration baseline content_type indices acc)))"

fun add_until :: "nat \<Rightarrow> (string \<times> RequestPlan) list \<Rightarrow> (string \<times> RequestPlan) list \<Rightarrow> (string \<times> RequestPlan) list" where
  "add_until limit [] acc = acc"
| "add_until limit (c # cs) acc =
     (let acc = add_distinct c acc in if limit \<le> length acc then acc else add_until limit cs acc)"

fun negative_cases ::
  "crates \<Rightarrow> conf_env \<Rightarrow> OpenApiSource \<Rightarrow> OperationDefinition \<Rightarrow> nat \<Rightarrow> (string \<times> RequestPlan) list
     \<Rightarrow> (string \<times> RequestPlan) list \<Rightarrow> ConformanceError + (string \<times> RequestPlan) list" where
  "negative_cases C E source operation limit [] acc = Inr acc"
| "negative_cases C E source operation limit ((_, plan) # plans) acc =
     and_then (negative_plans C E source operation plan) (\<lambda>candidates.
     let acc = add_until limit candidates acc in
     if limit \<le> length acc then Inr acc else negative_cases C E source operation limit plans acc)"

type_synonym selected_case = "ConformanceGeneration \<times> string \<times> RequestPlan"

fun mixed_cases :: "nat \<Rightarrow> (string \<times> RequestPlan) list \<Rightarrow> (string \<times> RequestPlan) list \<Rightarrow> selected_case list" where
  "mixed_cases 0 ps qs = []"
| "mixed_cases (Suc n) [] [] = []"
| "mixed_cases (Suc n) [] (q # qs) = (Negative, q) # mixed_cases n [] qs"
| "mixed_cases (Suc 0) (p # ps) qs = [(Positive, p)]"
| "mixed_cases (Suc (Suc n)) (p # ps) [] = (Positive, p) # mixed_cases (Suc n) ps []"
| "mixed_cases (Suc (Suc n)) (p # ps) (q # qs) = (Positive, p) # (Negative, q) # mixed_cases n ps qs"

definition select_cases ::
  "ConformanceMode \<Rightarrow> nat \<Rightarrow> (string \<times> RequestPlan) list \<Rightarrow> (string \<times> RequestPlan) list
     \<Rightarrow> ConformanceError + selected_case list" where
  "select_cases mode limit positive negative =
     and_then (case mode of
                 PositiveMode \<Rightarrow> Inr (map (Pair Positive) (take limit positive))
               | NegativeMode \<Rightarrow>
                   if negative = [] then Inl (NoCases ''negative'') else Inr (map (Pair Negative) (take limit negative))
               | MixedMode \<Rightarrow> Inr (mixed_cases limit positive negative)) (\<lambda>selected.
     if selected = [] then Inl (NoCases ''requested'') else Inr selected)"

definition header_value :: "PlannedHeader \<Rightarrow> json" where
  "header_value h = JObject [(''name'', JString (ph_name h)), (''value'', JString (ph_value h))]"

definition request_digest :: "crates \<Rightarrow> RequestPlan \<Rightarrow> ConformanceError + string" where
  "request_digest C plan =
     and_then (ok_or (json_to_vec C (JObject
       [(''body'', case rp_body plan of None \<Rightarrow> JNull | Some b \<Rightarrow> JString (pb_blake3 b)),
        (''headers'', JArray (map header_value (rp_headers plan))), (''method'', JString (rp_method plan)),
        (''target'', JString (rp_target plan))])) CampaignSerialization) (\<lambda>byts. Inr (digest C byts))"

definition campaign_case ::
  "crates \<Rightarrow> OpenApiSource \<Rightarrow> OperationDefinition \<Rightarrow> u64 \<Rightarrow> nat \<times> selected_case \<Rightarrow> ConformanceCasePlan list
     \<Rightarrow> ConformanceError + ConformanceCasePlan list" where
  "campaign_case C source operation seed = (\<lambda>(index, generation, strategy, plan) cases.
     and_then (request_digest C plan) (\<lambda>request.
     Inr (cases @
       [\<lparr>cc_case_id = short_handle C ''case'' [as_bytes (os_source_fingerprint source), as_bytes (od_handle operation),
           u64_to_be_bytes seed, u64_to_be_bytes (of_nat index), as_bytes (rp_fingerprint plan)],
         cc_generation = generation, cc_strategy = strategy, cc_plan = rp_id plan,
         cc_plan_fingerprint = rp_fingerprint plan, cc_request_digest = request\<rparr>])))"

definition campaign_grants :: "selected_case list \<Rightarrow> string list" where
  "campaign_grants selected =
     sort_dedup (concat (map (\<lambda>(generation, strategy, plan). rp_required_grants plan) selected)
       @ [''conformance:execute:'' @ show_nat (length selected)]
       @ (if list_ex (\<lambda>(generation, strategy, plan). generation = Negative) selected then [''conformance:negative''] else []))"

definition seal_campaign ::
  "crates \<Rightarrow> conf_env \<Rightarrow> OpenApiSource \<Rightarrow> OperationDefinition \<Rightarrow> ConformanceOptions \<Rightarrow> ProjectConfiguration
     \<Rightarrow> selected_case list \<Rightarrow> ConformanceError + (ConformancePlan \<times> RequestPlan list)" where
  "seal_campaign C E source operation options configuration selected =
     and_then (for_each (campaign_case C source operation (co_seed options)) (List.enumerate 0 selected) []) (\<lambda>cases.
     and_then (map_err (\<lambda>_. CampaignPlan) (config_fingerprint C (ce_plan E) configuration)) (\<lambda>config_fp.
     and_then (map_err (\<lambda>_. CampaignPlan) (policy_fingerprint C configuration)) (\<lambda>policy_fp.
     and_then (map_err (\<lambda>_. CampaignSerialization) (seal_conformance_plan C
       \<lparr>cp_protocol = PROTOCOL, cp_kind = ''conformance-plan'', cp_version = VERSION, cp_config_fingerprint = config_fp,
        cp_policy_fingerprint = policy_fp, cp_source_fingerprints = [os_source_fingerprint source], cp_id = [],
        cp_operation = od_handle operation, cp_seed = co_seed options, cp_requested_cases = co_cases options,
        cp_delay_ms = co_delay_ms options, cp_max_failures = co_max_failures options, cp_cases = cases,
        cp_risk = od_risk operation, cp_required_grants = campaign_grants selected, cp_fingerprint = [], cp_exit = 0\<rparr>)) (\<lambda>campaign.
     Inr (campaign, map (\<lambda>(generation, strategy, plan). plan) selected)))))"

definition build_conformance_plan ::
  "crates \<Rightarrow> conf_env \<Rightarrow> OpenApiSource \<Rightarrow> OperationDefinition \<Rightarrow> ConformanceOptions \<Rightarrow> ProjectConfiguration
     \<Rightarrow> (ConformanceError + (ConformancePlan \<times> RequestPlan list)) option" where
  "build_conformance_plan C E source operation options configuration =
     (case and_then (validate_options options) (\<lambda>_.
           and_then (selected_content_type C source operation (po_content_type (co_plan options))) (\<lambda>content_type.
           and_then (baseline_with_explicit (co_input options) (po_explicit (co_plan options))) (\<lambda>baseline.
           Inr (content_type, baseline)))) of
        Inl e \<Rightarrow> Some (Inl e)
      | Inr (content_type, baseline) \<Rightarrow>
          (case positive_cases C E source operation options configuration baseline content_type
                  [0 ..< positive_attempts (co_cases options)] [] of
             None \<Rightarrow> None
           | Some (Inl e) \<Rightarrow> Some (Inl e)
           | Some (Inr positive) \<Rightarrow>
               Some (if positive = [] then Inl (NoCases ''positive'')
                     else
                       and_then (negative_cases C E source operation (co_cases options) positive []) (\<lambda>negative.
                       and_then (select_cases (co_mode options) (co_cases options) positive negative)
                         (seal_campaign C E source operation options configuration)))))"

subsection \<open>Running\<close>

text \<open>What the executor gets from outside for each case, and the third-party values of results.\<close>

record campaign_env =
  cr_http :: "nat \<Rightarrow> http_env"
  cr_faults :: "nat \<Rightarrow> put_faults"
  cr_de_request :: "bytes \<Rightarrow> RequestPlan option"
  cr_observation_value :: "Observation \<Rightarrow> json option"
  cr_denial_value :: "DenialEnvelope \<Rightarrow> json option"
  cr_error_text :: "ExecError \<Rightarrow> string"

definition assess :: "ConformanceGeneration \<Rightarrow> InvocationResult \<Rightarrow> bool \<times> u16 option \<times> string" where
  "assess generation result =
     (case result of
        InvocationDenied d \<Rightarrow> (False, None, ''case was denied at runtime; missing '' @ de_required d)
      | Observed obs \<Rightarrow>
          let status = ob_status obs in
          if exceeds (\<lambda>s. 500 \<le> s) status then (False, status, ''server returned a 5xx response'')
          else (case generation of
                  Positive \<Rightarrow>
                    if ob_exit obs = 0 then (True, status, ''valid generated request conformed'')
                    else (False, status, ''valid generated request failed response conformance'')
                | Negative \<Rightarrow>
                    if exceeds (\<lambda>s. 400 \<le> s \<and> s < 500) status \<and> ob_exit obs = 0
                    then (True, status, ''invalid generated request was rejected'')
                    else if exceeds (\<lambda>s. 200 \<le> s \<and> s < 300) status
                    then (False, status, ''schema-invalid request was accepted'')
                    else (False, status, ''invalid request rejection did not conform to the response contract'')))"

fun is_transport_error :: "ExecError \<Rightarrow> bool" where
  "is_transport_error Transport = True"
| "is_transport_error (ResponseTooLarge limit) = True"
| "is_transport_error _ = False"

definition safe_exec_reason :: "campaign_env \<Rightarrow> ExecError \<Rightarrow> string" where
  "safe_exec_reason R e =
     (case e of
        Transport \<Rightarrow> ''transport failed''
      | ResponseTooLarge limit \<Rightarrow> ''response exceeded the '' @ show_nat (unat limit) @ '' byte campaign limit''
      | _ \<Rightarrow> cr_error_text R e)"

definition case_error_value :: "campaign_env \<Rightarrow> ConformanceCasePlan \<Rightarrow> ExecError \<Rightarrow> json" where
  "case_error_value R c e =
     JObject [(''case'', JString (cc_case_id c)), (''exit'', json_nat (if is_transport_error e then 3 else 2)),
              (''kind'', JString ''conformance-case-error''), (''plan'', JString (cc_plan c)),
              (''protocol'', JString PROTOCOL), (''reason'', JString (safe_exec_reason R e))]"

definition case_observation ::
  "ConformanceCasePlan \<Rightarrow> bool \<Rightarrow> u16 option \<Rightarrow> string \<Rightarrow> string \<Rightarrow> ConformanceCaseObservation" where
  "case_observation c passed status reason evidence =
     \<lparr>cco_case_id = cc_case_id c, cco_generation = cc_generation c, cco_strategy = cc_strategy c, cco_plan = cc_plan c,
      cco_passed = passed, cco_status = status, cco_reason = reason, cco_evidence = evidence\<rparr>"

record campaign_state =
  cs_evidence :: EvidenceStore
  cs_sent :: "HttpRequest list"
  cs_cases :: "ConformanceCaseObservation list"
  cs_passed :: nat
  cs_failed :: nat
  cs_transport_errors :: nat
  cs_denied :: bool

text \<open>The request a case stands for, checked against the campaign.\<close>

definition case_request :: "crates \<Rightarrow> campaign_env \<Rightarrow> files \<Rightarrow> ConformanceCasePlan \<Rightarrow> ConformanceError + RequestPlan" where
  "case_request C R fs c =
     and_then (map_err (\<lambda>_. InvalidCampaignCase (cc_plan c)) (load_plan C (cr_de_request R) (cc_plan c) fs)) (\<lambda>request.
     if rp_fingerprint request \<noteq> cc_plan_fingerprint c then Inl (InvalidCampaignCase (cc_plan c))
     else
       and_then (request_digest C request) (\<lambda>d.
       if d \<noteq> cc_request_digest c then Inl (InvalidCampaignCase (cc_plan c)) else Inr request))"

definition record_case ::
  "crates \<Rightarrow> campaign_env \<Rightarrow> nat \<Rightarrow> string \<Rightarrow> json option \<Rightarrow> ConformanceCasePlan \<Rightarrow> bool \<Rightarrow> u16 option \<Rightarrow> string
     \<Rightarrow> campaign_state \<Rightarrow> (ConformanceError + unit) \<times> campaign_state" where
  "record_case C R i kind v c passed status reason s =
     (case v of
        None \<Rightarrow> (Inl CampaignSerialization, s)
      | Some v \<Rightarrow>
          (case put_json C (cr_faults R i) kind (json_to_vec C v) True (cs_evidence s) of
             (Inl e, evidence) \<Rightarrow> (Inl (CampaignEvidence e), s\<lparr>cs_evidence := evidence\<rparr>)
           | (Inr envelope, evidence) \<Rightarrow>
               (Inr (), s\<lparr>cs_evidence := evidence,
                          cs_cases := cs_cases s @ [case_observation c passed status reason (ee_handle envelope)]\<rparr>)))"

definition run_case ::
  "crates \<Rightarrow> campaign_env \<Rightarrow> InvokeOptions \<Rightarrow> files \<Rightarrow> nat \<Rightarrow> ConformanceCasePlan \<Rightarrow> campaign_state
     \<Rightarrow> (ConformanceError + unit) \<times> campaign_state" where
  "run_case C R options fs i c s =
     (case case_request C R fs c of
        Inl e \<Rightarrow> (Inl e, s)
      | Inr request \<Rightarrow>
          (case invoke C (cr_http R i) request options (cs_evidence s) of
             (Inl e, evidence, sent) \<Rightarrow>
               record_case C R i ''conformance-case-error'' (Some (case_error_value R c e)) c False None (safe_exec_reason R e)
                 (s\<lparr>cs_evidence := evidence, cs_sent := cs_sent s @ sent, cs_failed := cs_failed s + 1,
                    cs_transport_errors := cs_transport_errors s + (if is_transport_error e then 1 else 0)\<rparr>)
           | (Inr result, evidence, sent) \<Rightarrow>
               (case assess (cc_generation c) result of
                  (passed, status, reason) \<Rightarrow>
                    record_case C R i ''conformance-case''
                      (case result of Observed obs \<Rightarrow> cr_observation_value R obs | InvocationDenied d \<Rightarrow> cr_denial_value R d)
                      c passed status reason
                      (s\<lparr>cs_evidence := evidence, cs_sent := cs_sent s @ sent,
                         cs_denied := (cs_denied s \<or> (case result of InvocationDenied _ \<Rightarrow> True | Observed _ \<Rightarrow> False)),
                         cs_passed := (if passed then cs_passed s + 1 else cs_passed s),
                         cs_failed := (if passed then cs_failed s else cs_failed s + 1)\<rparr>))))"

text \<open>The loop ends early when enough cases have failed.  The delay between cases has no effect on the state.\<close>

fun run_cases ::
  "crates \<Rightarrow> campaign_env \<Rightarrow> InvokeOptions \<Rightarrow> files \<Rightarrow> nat \<Rightarrow> nat \<Rightarrow> ConformanceCasePlan list \<Rightarrow> campaign_state
     \<Rightarrow> (ConformanceError + unit) \<times> campaign_state" where
  "run_cases C R options fs max_failures i [] s = (Inr (), s)"
| "run_cases C R options fs max_failures i (c # cs) s =
     (if max_failures \<le> cs_failed s then (Inr (), s)
      else (case run_case C R options fs i c s of
              (Inl e, s') \<Rightarrow> (Inl e, s')
            | (Inr _, s') \<Rightarrow> run_cases C R options fs max_failures (i + 1) cs s'))"

definition campaign_delay :: "nat \<Rightarrow> u64 \<Rightarrow> u64 option" where
  "campaign_delay index delay_ms = (if 0 < index \<and> 0 < delay_ms then Some delay_ms else None)"

definition campaign_exit :: "campaign_state \<Rightarrow> u8" where
  "campaign_exit s =
     (if cs_denied s then 4 else if cs_failed s = 0 then 0 else if cs_transport_errors s = cs_failed s then 3 else 1)"

definition campaign_observation ::
  "ConformancePlan \<Rightarrow> Outcome \<Rightarrow> campaign_state \<Rightarrow> string option \<Rightarrow> u8 \<Rightarrow> ConformanceObservation" where
  "campaign_observation plan outcome s required exit =
     \<lparr>cfo_protocol = PROTOCOL, cfo_kind = ''conformance-observation'', cfo_version = VERSION,
      cfo_config_fingerprint = cp_config_fingerprint plan, cfo_policy_fingerprint = cp_policy_fingerprint plan,
      cfo_source_fingerprints = cp_source_fingerprints plan, cfo_conformance_plan = cp_id plan, cfo_outcome = outcome,
      cfo_generated = length (cp_cases plan), cfo_executed = length (cs_cases s), cfo_passed = cs_passed s,
      cfo_failed = cs_failed s, cfo_transport_errors = cs_transport_errors s, cfo_cases = cs_cases s,
      cfo_required = required, cfo_exit = exit\<rparr>"

definition start_campaign :: "EvidenceStore \<Rightarrow> campaign_state" where
  "start_campaign evidence =
     \<lparr>cs_evidence = evidence, cs_sent = [], cs_cases = [], cs_passed = 0, cs_failed = 0, cs_transport_errors = 0,
      cs_denied = False\<rparr>"

definition invoke_conformance_gate :: "crates \<Rightarrow> ConformancePlan \<Rightarrow> InvokeOptions \<Rightarrow> ConformanceError + string option" where
  "invoke_conformance_gate C plan options =
     and_then (map_err (\<lambda>_. CampaignSerialization) (verify_seal_conformance_plan C plan)) (\<lambda>sealed.
     if \<not> sealed then Inl CampaignSealBroken
     else if fingerprint_mismatch (opt_expected_config_fingerprint options) (cp_config_fingerprint plan)
             \<or> fingerprint_mismatch (opt_expected_policy_fingerprint options) (cp_policy_fingerprint plan)
     then Inl CampaignPlan
     else Inr (missing_grant (opt_grants options) (cp_required_grants plan)))"

definition invoke_conformance ::
  "crates \<Rightarrow> campaign_env \<Rightarrow> ConformancePlan \<Rightarrow> InvokeOptions \<Rightarrow> files \<Rightarrow> EvidenceStore
     \<Rightarrow> (ConformanceError + ConformanceObservation) \<times> campaign_state" where
  "invoke_conformance C R plan options fs evidence =
     (let start = start_campaign evidence in
      case invoke_conformance_gate C plan options of
        Inl e \<Rightarrow> (Inl e, start)
      | Inr (Some missing) \<Rightarrow> (Inr (campaign_observation plan Denied start (Some missing) 4), start)
      | Inr None \<Rightarrow>
          (case run_cases C R options fs (cp_max_failures plan) 0 (cp_cases plan) start of
             (Inl e, s) \<Rightarrow> (Inl e, s)
           | (Inr _, s) \<Rightarrow>
               (let exit = campaign_exit s in
                (Inr (campaign_observation plan (if exit = 0 then Passed else if exit = 4 then Denied else Failed) s None exit), s))))"

end
