(* ===== verification/Conf_Props.thy ===== *)
theory Conf_Props
  imports Conf_Run Schema_Props Http_Planner_Props Plan_Store_Props
begin

text \<open>
  Properties of conformance campaigns: what a run sends and how it counts, the shape of every campaign that is
  planned, the bounds of generated scalars, and that mutations violate the schema they were made from.
\<close>

subsection \<open>Running\<close>

definition sent_allowed :: "campaign_env \<Rightarrow> InvokeOptions \<Rightarrow> campaign_state \<Rightarrow> bool" where
  "sent_allowed R options s = (\<forall>request \<in> set (cs_sent s). \<exists>i. request_allowed (cr_http R i) options request)"

definition verdict_sound :: "ConformanceGeneration \<Rightarrow> u16 option \<Rightarrow> bool" where
  "verdict_sound generation status =
     (case generation of
        Positive \<Rightarrow> \<not> exceeds (\<lambda>status. 500 \<le> status) status
      | Negative \<Rightarrow> exceeds (\<lambda>status. 400 \<le> status \<and> status < 500) status)"

definition case_observed :: "ConformanceCasePlan \<Rightarrow> ConformanceCaseObservation \<Rightarrow> bool" where
  "case_observed c obs =
     (cco_case_id obs = cc_case_id c \<and> cco_generation obs = cc_generation c \<and> cco_strategy obs = cc_strategy c
      \<and> cco_plan obs = cc_plan c
      \<and> (cco_passed obs \<longrightarrow> verdict_sound (cc_generation c) (cco_status obs)))"

definition tally_ok :: "nat \<Rightarrow> campaign_state \<Rightarrow> bool" where
  "tally_ok max_failures s =
     (cs_passed s = length (filter cco_passed (cs_cases s))
      \<and> cs_failed s = length (filter (\<lambda>c. \<not> cco_passed c) (cs_cases s))
      \<and> cs_failed s \<le> max_failures \<and> cs_transport_errors s \<le> cs_failed s)"

lemma case_observation_observed [simp]:
  "cco_passed (case_observation c passed status reason handle) = passed"
  "case_observed c (case_observation c passed status reason handle) \<longleftrightarrow> (passed \<longrightarrow> verdict_sound (cc_generation c) status)"
  by (simp_all add: case_observation_def case_observed_def)

lemma assess_passed:
  "assess generation result = (True, status, reason) \<Longrightarrow> verdict_sound generation status"
  by (cases generation; cases result) (auto simp: assess_def verdict_sound_def Let_def exceeds_def split: if_splits option.splits)

lemma assess_denied: "assess generation (InvocationDenied d) = (passed, status, reason) \<Longrightarrow> \<not> passed"
  by (simp add: assess_def)

lemma record_case_Inr:
  assumes "record_case C R i kind v c passed status reason s = (Inr (), s')"
  obtains evidence handle where
    "s' = s\<lparr>cs_evidence := evidence, cs_cases := cs_cases s @ [case_observation c passed status reason handle]\<rparr>"
  using assms by (auto simp: record_case_def split: option.splits prod.splits sum.splits)

lemma record_case_sent: "record_case C R i kind v c passed status reason s = (r, s') \<Longrightarrow> cs_sent s' = cs_sent s"
  by (auto simp: record_case_def split: option.splits prod.splits sum.splits)

lemma run_case_sent:
  assumes "run_case C R options fs i c s = (r, s')" and "sent_allowed R options s"
  shows "sent_allowed R options s'"
proof (cases "case_request C R fs c")
  case (Inl e)
  with assms show ?thesis by (simp add: run_case_def)
next
  case (Inr request)
  obtain x evidence sent where inv: "invoke C (cr_http R i) request options (cs_evidence s) = (x, evidence, sent)"
    by (cases "invoke C (cr_http R i) request options (cs_evidence s)") auto
  have "cs_sent s' = cs_sent s @ sent"
    using assms(1) Inr inv
    by (auto simp: run_case_def split: sum.splits prod.splits dest!: record_case_sent)
  moreover have "\<forall>q \<in> set sent. \<exists>i. request_allowed (cr_http R i) options q" using invoke_sent_allowed [OF inv] by blast
  ultimately show ?thesis using assms(2) by (auto simp: sent_allowed_def)
qed

lemma run_case_tally:
  assumes "run_case C R options fs i c s = (Inr (), s')" and "tally_ok m s" and "cs_failed s < m"
  shows "tally_ok m s' \<and> (\<exists>obs. cs_cases s' = cs_cases s @ [obs] \<and> case_observed c obs)
     \<and> (cs_denied s' \<longrightarrow> cs_denied s \<or> 0 < cs_failed s')"
proof -
  from assms(1) obtain request where request: "case_request C R fs c = Inr request"
    by (auto simp: run_case_def split: sum.splits)
  obtain x evidence sent where inv: "invoke C (cr_http R i) request options (cs_evidence s) = (x, evidence, sent)"
    by (cases "invoke C (cr_http R i) request options (cs_evidence s)") auto
  note run = assms(1) [unfolded run_case_def request sum.case inv prod.case]
  show ?thesis
  proof (cases x)
    case (Inl e)
    from run have "record_case C R i ''conformance-case-error'' (Some (case_error_value R c e)) c False None
        (safe_exec_reason R e)
        (s\<lparr>cs_evidence := evidence, cs_sent := cs_sent s @ sent, cs_failed := cs_failed s + 1,
           cs_transport_errors := cs_transport_errors s + (if is_transport_error e then 1 else 0)\<rparr>) = (Inr (), s')"
      unfolding Inl sum.case .
    then show ?thesis
      by (rule record_case_Inr) (use assms(2,3) in \<open>auto simp: tally_ok_def\<close>)
  next
    case (Inr result)
    obtain passed status reason where a: "assess (cc_generation c) result = (passed, status, reason)"
      by (cases "assess (cc_generation c) result")
    from a assess_passed have ok: "passed \<longrightarrow> verdict_sound (cc_generation c) status" by (cases passed) auto
    have denied: "(case result of InvocationDenied _ \<Rightarrow> True | Observed _ \<Rightarrow> False) \<longrightarrow> \<not> passed"
      using a by (cases result) (auto dest: assess_denied)
    from run have "record_case C R i ''conformance-case''
        (case result of Observed obs \<Rightarrow> cr_observation_value R obs | InvocationDenied d \<Rightarrow> cr_denial_value R d)
        c passed status reason
        (s\<lparr>cs_evidence := evidence, cs_sent := cs_sent s @ sent,
           cs_denied := (cs_denied s \<or> (case result of InvocationDenied _ \<Rightarrow> True | Observed _ \<Rightarrow> False)),
           cs_passed := (if passed then cs_passed s + 1 else cs_passed s),
           cs_failed := (if passed then cs_failed s else cs_failed s + 1)\<rparr>) = (Inr (), s')"
      unfolding Inr sum.case a prod.case .
    then show ?thesis
      using assms(2,3) ok denied
      by (auto elim!: record_case_Inr simp: tally_ok_def split: if_splits)
  qed
qed

lemma run_cases_sent:
  "run_cases C R options fs m i cases s = (r, s') \<Longrightarrow> sent_allowed R options s \<Longrightarrow> sent_allowed R options s'"
  by (induction cases arbitrary: i s) (auto split: if_splits prod.splits sum.splits dest: run_case_sent)

lemma run_cases_tally:
  "run_cases C R options fs m i cases s = (Inr u, s') \<Longrightarrow> tally_ok m s \<Longrightarrow>
     \<exists>seen. cs_cases s' = cs_cases s @ seen \<and> length seen \<le> length cases \<and> list_all2 case_observed (take (length seen) cases) seen
       \<and> tally_ok m s' \<and> (length seen < length cases \<longrightarrow> cs_failed s' = m)
       \<and> (cs_denied s' \<longrightarrow> cs_denied s \<or> 0 < cs_failed s') \<and> cs_failed s \<le> cs_failed s'"
proof (induction cases arbitrary: i s)
  case Nil
  then show ?case by auto
next
  case (Cons c cases)
  show ?case
  proof (cases "m \<le> cs_failed s")
    case True
    with Cons.prems show ?thesis by (intro exI [of _ "[]"]) (auto simp: tally_ok_def)
  next
    case False
    with Cons.prems(1) obtain t where t: "run_case C R options fs i c s = (Inr (), t)"
      "run_cases C R options fs m (i + 1) cases t = (Inr u, s')"
      by (auto split: prod.splits sum.splits)
    from False run_case_tally [OF t(1) Cons.prems(2)] obtain obs where obs: "tally_ok m t" "cs_cases t = cs_cases s @ [obs]"
      "case_observed c obs" "cs_denied t \<longrightarrow> cs_denied s \<or> 0 < cs_failed t" by auto
    from obs Cons.prems(2) have grow: "cs_failed s \<le> cs_failed t" by (simp add: tally_ok_def)
    from Cons.IH [OF t(2) obs(1)] obtain seen where "cs_cases s' = cs_cases t @ seen" "length seen \<le> length cases"
      "list_all2 case_observed (take (length seen) cases) seen" "tally_ok m s'" "length seen < length cases \<longrightarrow> cs_failed s' = m"
      "cs_denied s' \<longrightarrow> cs_denied t \<or> 0 < cs_failed s'" "cs_failed t \<le> cs_failed s'" by blast
    with obs grow show ?thesis by (intro exI [of _ "obs # seen"]) auto
  qed
qed

lemma campaign_gate_open:
  assumes "invoke_conformance_gate C plan options = Inr missing"
  shows "verify_seal_conformance_plan C plan = Inr True
       \<and> \<not> fingerprint_mismatch (opt_expected_config_fingerprint options) (cp_config_fingerprint plan)
       \<and> \<not> fingerprint_mismatch (opt_expected_policy_fingerprint options) (cp_policy_fingerprint plan)
       \<and> missing_grant (opt_grants options) (cp_required_grants plan) = missing"
  using assms by (auto simp: invoke_conformance_gate_def result_iffs split: if_splits)

subsection \<open>Planned campaigns\<close>

definition request_of :: "ConformanceCasePlan \<Rightarrow> crates \<Rightarrow> RequestPlan \<Rightarrow> bool" where
  "request_of c C request =
     (cc_plan c = rp_id request \<and> cc_plan_fingerprint c = rp_fingerprint request
      \<and> request_digest C request = Inr (cc_request_digest c) \<and> verify_seal_request_plan C request = Inr True
      \<and> (case cc_generation c of
           Positive \<Rightarrow> rp_valid request
         | Negative \<Rightarrow> \<not> rp_valid request \<and> ''conformance:negative'' \<in> set (rp_required_grants request)))"

definition campaign_ok :: "crates \<Rightarrow> nat \<Rightarrow> ConformancePlan \<Rightarrow> RequestPlan list \<Rightarrow> bool" where
  "campaign_ok C limit plan requests =
     (verify_seal_conformance_plan C plan = Inr True
      \<and> 1 \<le> length (cp_cases plan) \<and> length (cp_cases plan) \<le> limit \<and> limit \<le> MAX_CASES
      \<and> list_all2 (\<lambda>c. request_of c C) (cp_cases plan) requests
      \<and> (\<forall>request \<in> set requests. set (rp_required_grants request) \<subseteq> set (cp_required_grants plan))
      \<and> ''conformance:execute:'' @ show_nat (length (cp_cases plan)) \<in> set (cp_required_grants plan)
      \<and> ((\<exists>c \<in> set (cp_cases plan). cc_generation c = Negative) \<longrightarrow> ''conformance:negative'' \<in> set (cp_required_grants plan)))"

definition good_case :: "crates \<Rightarrow> selected_case \<Rightarrow> bool" where
  "good_case C = (\<lambda>(generation, strategy, plan).
     verify_seal_request_plan C plan = Inr True
      \<and> (case generation of
           Positive \<Rightarrow> rp_valid plan
         | Negative \<Rightarrow> \<not> rp_valid plan \<and> ''conformance:negative'' \<in> set (rp_required_grants plan)))"

lemma sealed_request_good:
  assumes "seal_request_plan C m = Inr p"
  shows "verify_seal_request_plan C p = Inr True" "rp_valid p = rp_valid m"
  using request_seal.seal_verifies [OF assms] assms
  by (auto simp: seal_request_plan_def clear_request_plan_def Let_def split: option.splits)

lemma built_request_good:
  assumes "build_plan_with_configuration C E n source operation options configuration = Some (Inr plan)"
  shows "good_case C (Positive, strategy, plan)"
proof (rule build_plan_Inr [OF assms])
  fix r
  assume "seal_request C E source operation options configuration r = Inr plan"
  then obtain m where "seal_request_plan C m = Inr plan" "rp_valid m"
    unfolding seal_request_def Let_def and_then_Inr_iff map_err_Inr_iff by (elim exE conjE) simp
  from sealed_request_good [OF this(1)] this(2) show ?thesis by (simp add: good_case_def)
qed

lemma invalidated_good: "invalidated C p strategy logical wire = Inr (s, q) \<Longrightarrow> good_case C (Negative, s, q)"
  by (auto simp: invalidated_def seal_negative_def and_then_Inr_iff map_err_Inr_iff good_case_def sealed_request_good
      sealed_request_fields)

definition all_negative :: "crates \<Rightarrow> (string \<times> RequestPlan) list \<Rightarrow> bool" where
  "all_negative C = list_all (\<lambda>x. good_case C (Negative, x))"

lemma body_mutation_good: "body_mutation C plan body x vs = Inr vs' \<Longrightarrow> all_negative C vs \<Longrightarrow> all_negative C vs'"
  by (cases x) (auto simp: body_mutation_def result_iffs Let_def all_negative_def dest: invalidated_good)

lemma add_invalidated_good:
  assumes "(case candidate of None \<Rightarrow> Inr vs
      | Some p \<Rightarrow> and_then (invalidated C p strategy logical wire) (\<lambda>v. Inr (vs @ [v]))) = Inr vs'"
    and "all_negative C vs"
  shows "all_negative C vs'"
  using assms by (cases candidate) (auto simp: and_then_Inr_iff all_negative_def dest: invalidated_good)

lemma negative_parameter_good:
  assumes "negative_parameter C E source plan parameter vs = Inr vs'" and vs: "all_negative C vs"
  shows "all_negative C vs'"
proof -
  from assms(1) obtain p where p: "conf_resolve C (os_document source) parameter ''parameter'' = Inr p"
    by (auto simp: negative_parameter_def and_then_Inr_iff)
  show ?thesis
  proof (cases "get_str p ''name'' = None \<or> get_str p ''in'' = None")
    case True
    with assms p show ?thesis by (auto simp: negative_parameter_def split: option.splits)
  next
    case False
    then obtain name location where n: "get_str p ''name'' = Some name" "get_str p ''in'' = Some location" by auto
    from assms(1) obtain us where us:
      "(if flag p ''required'' \<and> location \<noteq> ''path''
        then and_then (remove_parameter C E plan location name) (\<lambda>candidate.
             case candidate of None \<Rightarrow> Inr vs
             | Some p \<Rightarrow> and_then (invalidated C p (''omit-required-'' @ location @ '':'' @ name) JNull None) (\<lambda>v. Inr (vs @ [v])))
        else Inr vs) = Inr us"
      "(case invalid_scalar (case json_get p ''schema'' of Some s \<Rightarrow> s | None \<Rightarrow> JNull) of
           None \<Rightarrow> Inr us
         | Some invalid \<Rightarrow>
             and_then (replace_parameter C E plan location name invalid) (\<lambda>candidate.
             case candidate of None \<Rightarrow> Inr us
             | Some p \<Rightarrow> and_then (invalidated C p (''invalid-'' @ location @ '':'' @ name) (JString invalid) None) (\<lambda>v.
                 Inr (us @ [v])))) = Inr vs'"
      by (simp only: negative_parameter_def p n and_then_simps prod.case option.case and_then_Inr_iff) blast
    have "all_negative C us"
    proof (cases "flag p ''required'' \<and> location \<noteq> ''path''")
      case True
      with us(1) obtain candidate where "(case candidate of None \<Rightarrow> Inr vs
          | Some p \<Rightarrow> and_then (invalidated C p (''omit-required-'' @ location @ '':'' @ name) JNull None) (\<lambda>v. Inr (vs @ [v]))) = Inr us"
        by (simp only: if_True and_then_Inr_iff simp_thms) blast
      from this vs show ?thesis by (rule add_invalidated_good)
    qed (use us(1) vs in \<open>simp only: if_False sum.inject\<close>)
    show ?thesis
    proof (cases "invalid_scalar (case json_get p ''schema'' of Some s \<Rightarrow> s | None \<Rightarrow> JNull)")
      case None
      with us(2) \<open>all_negative C us\<close> show ?thesis by simp
    next
      case (Some invalid)
      with us(2) obtain candidate where "(case candidate of None \<Rightarrow> Inr us
          | Some p \<Rightarrow> and_then (invalidated C p (''invalid-'' @ location @ '':'' @ name) (JString invalid) None) (\<lambda>v.
              Inr (us @ [v]))) = Inr vs'"
        by (simp only: option.case and_then_Inr_iff) blast
      from this \<open>all_negative C us\<close> show ?thesis by (rule add_invalidated_good)
    qed
  qed
qed

lemma body_mutations_good: "for_each (body_mutation C plan body) ms [] = Inr vs \<Longrightarrow> all_negative C vs"
  by (rule for_each_keeps [where P = "all_negative C"], erule body_mutation_good, assumption+) (simp add: all_negative_def)

lemma negative_plans_good:
  assumes "negative_plans C E source operation plan = Inr vs"
  shows "all_negative C vs"
proof -
  from assms obtain us ps where us: "negative_bodies C source operation plan = Inr us"
    "for_each (negative_parameter C E source plan) ps us = Inr vs"
    by (auto simp: negative_plans_def and_then_Inr_iff)
  have "all_negative C us"
    using us(1) body_mutations_good all_negative_def
    by (auto simp: negative_bodies_def and_then_Inr_iff split: option.splits if_splits)
  then show ?thesis
    by (rule for_each_keeps [where P = "all_negative C", OF _ us(2), rotated]) (rule negative_parameter_good)
qed

lemma add_distinct_all: "list_all P acc \<Longrightarrow> P c \<Longrightarrow> list_all P (add_distinct c acc)"
  by (cases c) (auto simp: add_distinct_def)

lemma add_distinct_fingerprints:
  "distinct (map (\<lambda>(_, p). rp_fingerprint p) acc) \<Longrightarrow> distinct (map (\<lambda>(_, p). rp_fingerprint p) (add_distinct c acc))"
  by (cases c) (auto simp: add_distinct_def)

lemma add_until_all: "list_all P cs \<Longrightarrow> list_all P acc \<Longrightarrow> list_all P (add_until limit cs acc)"
  by (induction limit cs acc rule: add_until.induct) (auto simp: Let_def intro: add_distinct_all)

lemma negative_cases_good:
  "negative_cases C E source operation limit plans acc = Inr vs \<Longrightarrow> all_negative C acc \<Longrightarrow> all_negative C vs"
proof (induction plans arbitrary: acc)
  case (Cons x plans)
  obtain strategy plan where x: "x = (strategy, plan)" by (cases x)
  from Cons.prems(1) obtain candidates where c: "negative_plans C E source operation plan = Inr candidates"
    by (auto simp: x and_then_Inr_iff)
  have "all_negative C (add_until limit candidates acc)"
    using negative_plans_good [OF c] Cons.prems(2) by (simp add: all_negative_def add_until_all)
  with Cons show ?case by (auto simp: x c Let_def split: if_splits)
qed simp

definition all_positive :: "crates \<Rightarrow> (string \<times> RequestPlan) list \<Rightarrow> bool" where
  "all_positive C = list_all (\<lambda>x. good_case C (Positive, x))"

lemma positive_cases_good:
  "positive_cases C E source operation options configuration baseline content_type indices acc = Some (Inr vs) \<Longrightarrow>
     all_positive C acc \<Longrightarrow> all_positive C vs"
proof (induction indices arbitrary: acc)
  case (Cons index indices)
  let ?variant = "variant_of C (co_seed options) (of_nat index) ''positive''"
  from Cons.prems(1) obtain input plan where plan:
    "generated_input C source operation baseline content_type ?variant = Inr input"
    "build_plan_with_configuration C (ce_plan E) (ce_fuel E) source operation
       ((co_plan options)\<lparr>po_content_type := content_type, po_input := Some input\<rparr>) configuration = Some (Inr plan)"
    by (auto simp: Let_def split: sum.splits option.splits)
  have "all_positive C (add_distinct (''schema-valid:'' @ show_nat (unat ?variant), plan) acc)"
    using Cons.prems(2) built_request_good [OF plan(2)] by (simp add: all_positive_def add_distinct_all)
  with Cons plan show ?case by (auto simp: Let_def split: if_splits)
qed simp

lemma mixed_cases_good:
  "all_positive C ps \<Longrightarrow> all_negative C qs \<Longrightarrow> list_all (good_case C) (mixed_cases n ps qs) \<and> length (mixed_cases n ps qs) \<le> n"
  by (induction n ps qs rule: mixed_cases.induct) (auto simp: all_positive_def all_negative_def)

lemma select_cases_good:
  assumes "select_cases mode limit positive negative = Inr selected" and "all_positive C positive" "all_negative C negative"
  shows "list_all (good_case C) selected \<and> selected \<noteq> [] \<and> length selected \<le> limit"
proof -
  have "list_all (\<lambda>x. P (f x)) xs \<Longrightarrow> list_all P (map f (take limit xs))" for P :: "selected_case \<Rightarrow> bool" and f xs
    by (auto simp: list_all_iff dest: in_set_takeD)
  with assms mixed_cases_good [OF assms(2,3)] show ?thesis
    by (cases mode) (auto simp: select_cases_def and_then_Inr_iff all_positive_def all_negative_def split: if_splits)
qed

definition case_of :: "crates \<Rightarrow> ConformanceCasePlan \<Rightarrow> selected_case \<Rightarrow> bool" where
  "case_of C c = (\<lambda>(generation, strategy, plan).
     cc_generation c = generation \<and> cc_strategy c = strategy \<and> cc_plan c = rp_id plan
      \<and> cc_plan_fingerprint c = rp_fingerprint plan \<and> request_digest C plan = Inr (cc_request_digest c))"

lemma campaign_case_Inr:
  "campaign_case C source operation seed (n, x) acc = Inr acc' \<Longrightarrow> \<exists>c. acc' = acc @ [c] \<and> case_of C c x"
  by (cases x) (auto simp: campaign_case_def case_of_def and_then_Inr_iff)

lemma campaign_cases_of:
  "for_each (campaign_case C source operation seed) (List.enumerate n selected) acc = Inr cases \<Longrightarrow>
     \<exists>new. cases = acc @ new \<and> list_all2 (case_of C) new selected"
proof (induction selected arbitrary: n acc)
  case (Cons x selected)
  from Cons.prems obtain acc' where acc': "campaign_case C source operation seed (n, x) acc = Inr acc'"
    "for_each (campaign_case C source operation seed) (List.enumerate (Suc n) selected) acc' = Inr cases"
    by (auto split: sum.splits)
  with campaign_case_Inr obtain c where c: "case_of C c x" "for_each (campaign_case C source operation seed)
      (List.enumerate (Suc n) selected) (acc @ [c]) = Inr cases" by blast
  from Cons.IH [OF c(2)] obtain new where "cases = (acc @ [c]) @ new" "list_all2 (case_of C) new selected" by blast
  with c(1) show ?case by (intro exI [of _ "c # new"]) simp
qed simp

lemma sealed_campaign_fields:
  assumes "seal_conformance_plan C m = Inr p"
  shows "cp_cases p = cp_cases m" "cp_required_grants p = cp_required_grants m" "cp_operation p = cp_operation m"
    "cp_max_failures p = cp_max_failures m"
  using assms by (auto simp: seal_conformance_plan_def clear_conformance_plan_def Let_def split: option.splits)

lemma request_of_case: "case_of C c x \<Longrightarrow> good_case C x \<Longrightarrow> request_of c C (snd (snd x))"
  by (cases x) (auto simp: case_of_def good_case_def request_of_def split: ConformanceGeneration.splits)

lemma campaign_grants_set:
  "set (campaign_grants selected) =
     (\<Union>x \<in> set selected. set (rp_required_grants (snd (snd x)))) \<union> {''conformance:execute:'' @ show_nat (length selected)}
     \<union> (if \<exists>x \<in> set selected. fst x = Negative then {''conformance:negative''} else {})"
  by (auto simp: campaign_grants_def list_ex_iff split_beta)

lemma seal_campaign_ok:
  assumes run: "seal_campaign C E source operation options configuration selected = Inr (plan, requests)"
    and good: "list_all (good_case C) selected" "selected \<noteq> []" "length selected \<le> limit" "limit \<le> MAX_CASES"
  shows "campaign_ok C limit plan requests"
proof -
  from run obtain cases m where cases: "for_each (campaign_case C source operation (co_seed options)) (List.enumerate 0 selected) []
      = Inr cases"
    and sealed: "seal_conformance_plan C m = Inr plan" "cp_cases m = cases" "cp_required_grants m = campaign_grants selected"
    and requests: "requests = map (snd \<circ> snd) selected"
    unfolding seal_campaign_def and_then_Inr_iff map_err_Inr_iff by (elim exE conjE) (auto simp: split_beta comp_def)
  note fields = sealed_campaign_fields [OF sealed(1)]
  from campaign_cases_of [OF cases] have of: "list_all2 (case_of C) cases selected" by auto
  then have len: "length cases = length selected" by (rule list_all2_lengthD)
  have "list_all2 (\<lambda>c. request_of c C) cases requests"
    using of good(1) by (auto simp: requests list_all2_conv_all_nth list_all_length intro: request_of_case)
  moreover have "\<exists>x \<in> set selected. fst x = Negative" if "c \<in> set cases" "cc_generation c = Negative" for c
    using of that by (fastforce simp: list_all2_conv_all_nth in_set_conv_nth case_of_def split_beta)
  ultimately show ?thesis
    using conformance_seal.seal_verifies [OF sealed(1)] good(2-4) len
    by (auto simp: campaign_ok_def fields sealed campaign_grants_set requests Suc_le_eq)
qed

lemma planned_campaign_ok:
  assumes "build_conformance_plan C E source operation options configuration = Some (Inr (plan, requests))"
  shows "campaign_ok C (co_cases options) plan requests"
proof -
  from assms have valid: "validate_options options = Inr ()"
    by (auto simp: build_conformance_plan_def and_then_Inr_iff and_then_def split: sum.splits)
  from assms obtain baseline content_type positive negative selected where
    positive: "positive_cases C E source operation options configuration baseline content_type
      [0 ..< positive_attempts (co_cases options)] [] = Some (Inr positive)"
    and negative: "negative_cases C E source operation (co_cases options) positive [] = Inr negative"
    and selected: "select_cases (co_mode options) (co_cases options) positive negative = Inr selected"
    and sealed: "seal_campaign C E source operation options configuration selected = Inr (plan, requests)"
    by (auto simp: build_conformance_plan_def and_then_Inr_iff split: sum.splits prod.splits option.splits if_splits)
  have "all_positive C positive" using positive_cases_good [OF positive] by (simp add: all_positive_def)
  moreover have "all_negative C negative" using negative_cases_good [OF negative] by (simp add: all_negative_def)
  ultimately have "list_all (good_case C) selected \<and> selected \<noteq> [] \<and> length selected \<le> co_cases options"
    by (rule select_cases_good [OF selected])
  with seal_campaign_ok [OF sealed] valid show ?thesis by (simp add: validate_options_def ensure_Inr_iff)
qed

subsection \<open>Sample campaigns\<close>

definition run_case_plan :: ConformanceCasePlan where
  "run_case_plan =
     \<lparr>cc_case_id = ''case:1'', cc_generation = Positive, cc_strategy = ''boundary'', cc_plan = rp_id sealed_request_plan,
      cc_plan_fingerprint = rp_fingerprint sealed_request_plan,
      cc_request_digest = (case request_digest http_crates sealed_request_plan of Inr d \<Rightarrow> d | Inl _ \<Rightarrow> [])\<rparr>"

definition run_campaign :: ConformancePlan where
  "run_campaign =
     (case seal_conformance_plan http_crates (sample_campaign\<lparr>cp_cases := [run_case_plan]\<rparr>) of
        Inr p \<Rightarrow> p | Inl _ \<Rightarrow> sample_campaign)"

definition run_env :: campaign_env where
  "run_env =
     \<lparr>cr_http = (\<lambda>_. sample_env), cr_faults = (\<lambda>_. no_faults), cr_de_request = (\<lambda>_. Some sealed_request_plan),
      cr_observation_value = (\<lambda>_. Some JNull), cr_denial_value = (\<lambda>_. Some JNull), cr_error_text = (\<lambda>_. [])\<rparr>"

lemma run_campaign_seal: "seal_conformance_plan http_crates (sample_campaign\<lparr>cp_cases := [run_case_plan]\<rparr>) = Inr run_campaign"
  by (simp add: run_campaign_def seal_conformance_plan_def http_crates_def sample_crates_def Let_def)

lemma run_campaign_sealed:
  "verify_seal_conformance_plan http_crates run_campaign = Inr True" "cp_required_grants run_campaign = [''http:GET'']"
  "cp_max_failures run_campaign = 1" "cp_cases run_campaign = [run_case_plan]"
  using conformance_seal.seal_verifies [OF run_campaign_seal] sealed_campaign_fields [OF run_campaign_seal]
  by (simp_all add: sample_campaign_def)

lemma sample_campaign_runs:
  "\<exists>obs s. invoke_conformance http_crates run_env run_campaign sample_options (\<lambda>_. Some []) empty_store = (Inr obs, s)
     \<and> cs_sent s \<noteq> []"
proof -
  have "\<exists>d. request_digest http_crates sealed_request_plan = Inr d"
    by (simp add: request_digest_def sample_json_to_vec)
  then obtain d where d: "request_digest http_crates sealed_request_plan = Inr d" ..
  have load: "case_request http_crates run_env (\<lambda>_. Some []) run_case_plan = Inr sealed_request_plan"
    by (simp add: case_request_def load_plan_def load_sealed_def run_case_plan_def run_env_def d sealed_request_plan_verifies require_seal_def)
  have gate: "invoke_conformance_gate http_crates run_campaign sample_options = Inr None"
    by (simp add: invoke_conformance_gate_def run_campaign_sealed fingerprint_mismatch_def sample_options_def default_options_def
        missing_grant_def)
  obtain obs t request where run: "invoke http_crates sample_env sealed_request_plan sample_options empty_store
      = (Inr (Observed obs), t, [request])" using sample_invocation by blast
  have put: "\<exists>e s'. put_json http_crates no_faults k (json_to_vec http_crates v) True s = (Inr e, s')" for k v s
    by (auto simp: sample_json_to_vec put_json_def put_blob_def write_blob_def no_faults_def Let_def split: prod.split)
  have recorded: "\<exists>s'. record_case http_crates run_env i k (Some JNull) c passed status reason s = (Inr (), s')
      \<and> cs_sent s' = cs_sent s" for i k c passed status reason s
    using put [of k JNull "cs_evidence s"] by (auto simp: record_case_def run_env_def)
  have "\<exists>s. run_case http_crates run_env sample_options (\<lambda>_. Some []) 0 run_case_plan (start_campaign empty_store)
      = (Inr (), s) \<and> cs_sent s = [request]"
  proof -
    have fields: "cr_http run_env 0 = sample_env" "cr_observation_value run_env obs = Some JNull"
      "cs_evidence (start_campaign empty_store) = empty_store" "cs_sent (start_campaign empty_store) = []"
      by (simp_all add: run_env_def start_campaign_def)
    obtain passed status reason where a: "assess (cc_generation run_case_plan) (Observed obs) = (passed, status, reason)"
      by (cases "assess (cc_generation run_case_plan) (Observed obs)")
    show ?thesis
      unfolding run_case_def load sum.case fields run prod.case a InvocationResult.case
      by (rule exE [OF recorded]) (rule exI, rule conjI, erule conjunct1, drule conjunct2, simp)
  qed
  then obtain s where "run_case http_crates run_env sample_options (\<lambda>_. Some []) 0 run_case_plan (start_campaign empty_store)
      = (Inr (), s)" "cs_sent s = [request]" by blast
  with gate show ?thesis
    by (simp add: invoke_conformance_def Let_def run_campaign_sealed start_campaign_def)
qed

definition ping_parameter :: json where
  "ping_parameter = JObject
     [(''in'', JString ''header''), (''name'', JString ''X-Trace''), (''required'', JBool True),
      (''schema'', JObject [(''const'', JString ''a'')])]"

definition ping_operation :: OperationDefinition where
  "ping_operation =
     \<lparr>od_handle = ''op:ping'', od_method = ''GET'', od_path = ''/pets'', od_operation_id = ''ping'', od_risk = Read, od_path_item = [],
      od_operation = [(''parameters'', JArray [ping_parameter]), (''servers'', JArray [JObject [(''url'', JString ''http://127.0.0.1:80'')]])]\<rparr>"

definition ping_input :: json where
  "ping_input = JObject [(''header'', JObject [(''X-Trace'', JString ''a'')])]"

definition ping_options :: ConformanceOptions where
  "ping_options =
     \<lparr>co_cases = 1, co_seed = 7, co_mode = PositiveMode, co_delay_ms = 0, co_max_failures = 1, co_input = None,
      co_plan = \<lparr>po_server = None, po_auth = None, po_content_type = None, po_input = None, po_explicit = [], po_checks = []\<rparr>\<rparr>"

definition ping_env :: conf_env where
  "ping_env =
     \<lparr>ce_plan = sample_plan_env, ce_fuel = 3, ce_query_pairs = (\<lambda>_. []), ce_clear_query = (\<lambda>u. u), ce_path_segments = (\<lambda>_. None),
      ce_set_path_segments = (\<lambda>_ _. None)\<rparr>"

definition ping_crates :: crates where
  "ping_crates = http_crates\<lparr>blake3_hex := sample_hash\<rparr>"

lemma ping_hash: "hex_hash ping_crates"
  using hex_crates_hash by (simp add: hex_hash_def hex_crates_def ping_crates_def)

lemma ping_json_to_vec: "json_to_vec ping_crates v = Some (as_bytes (case v of JString s \<Rightarrow> s | _ \<Rightarrow> ''{}''))"
  using sample_json_to_vec [of v] by (simp add: ping_crates_def)

lemma ping_request:
  "\<exists>plan. build_plan_with_configuration ping_crates sample_plan_env 3 pets_document ping_operation
       ((co_plan ping_options)\<lparr>po_content_type := None, po_input := Some ping_input\<rparr>) default_configuration = Some (Inr plan)
     \<and> rp_body plan = None"
proof -
  let ?options = "(co_plan ping_options)\<lparr>po_content_type := None, po_input := Some ping_input\<rparr>"
  have "(case request_parts ping_crates sample_plan_env 3 pets_document ping_operation ?options default_configuration of
      Some (Inr r) \<Rightarrow> rq_planned_body r = None \<and> rq_auth r = None \<and> url_host_str (rq_target r) = Some ''127.0.0.1''
        \<and> url_port_or_known_default (rq_target r) = Some 80 | _ \<Rightarrow> False)" by code_simp
  then obtain r where parts: "request_parts ping_crates sample_plan_env 3 pets_document ping_operation ?options default_configuration
      = Some (Inr r)" and r: "rq_planned_body r = None" "rq_auth r = None" "url_host_str (rq_target r) = Some ''127.0.0.1''"
      "url_port_or_known_default (rq_target r) = Some 80"
    by (auto split: option.splits sum.splits)
  obtain f where "policy_fingerprint ping_crates default_configuration = Inr f"
    by (simp add: policy_fingerprint_def ping_json_to_vec Let_def)
  moreover obtain g where "http_grants ping_crates default_configuration (od_method ping_operation) (rq_target r) ''127.0.0.1'' 80
      (operation_risk ping_operation default_configuration) None = Inr g"
    by (simp add: http_grants_def token_grants_def)
  moreover have "validate_redaction_policy default_configuration = Inr ()" by code_simp
  moreover have "\<exists>q. seal_request_plan ping_crates m = Inr q" for m
    by (simp add: seal_request_plan_def ping_crates_def http_crates_def sample_crates_def Let_def)
  ultimately have "\<exists>plan. seal_request ping_crates sample_plan_env pets_document ping_operation ?options default_configuration r = Inr plan"
    using r by (simp add: seal_request_def sample_host config_fingerprint_def sample_configuration exceeds_body_limit_def Let_def map_err_Inr_iff)
  then obtain plan where plan: "seal_request ping_crates sample_plan_env pets_document ping_operation ?options default_configuration r = Inr plan" ..
  moreover have "blocking_absence pets_document ping_operation = None" by code_simp
  moreover from plan have "rp_body plan = None" by (elim seal_request_Inr) (simp add: sealed_request_fields r)
  ultimately show ?thesis by (simp add: build_plan_with_configuration_def parts)
qed

lemma ping_campaign:
  "\<exists>plan requests. build_conformance_plan ping_crates ping_env pets_document ping_operation ping_options default_configuration
     = Some (Inr (plan, requests))"
proof -
  obtain request where request: "build_plan_with_configuration ping_crates sample_plan_env 3 pets_document ping_operation
      ((co_plan ping_options)\<lparr>po_content_type := None, po_input := Some ping_input\<rparr>) default_configuration = Some (Inr request)"
    "rp_body request = None" using ping_request by blast
  have ps: "conf_parameters ping_crates pets_document ping_operation = Inr [ping_parameter]" by code_simp
  have body: "map_of (od_operation ping_operation) ''requestBody'' = None" by code_simp
  have parameter: "get_str ping_parameter ''name'' = Some ''X-Trace''" "get_str ping_parameter ''in'' = Some ''header''"
    "flag ping_parameter ''required''" "get_str ping_parameter ''$ref'' = None" "json_get ping_parameter ''schema'' = Some (JObject [(''const'', JString ''a'')])"
    by code_simp+
  have "generate_value (Suc 31) ping_crates document (JObject [(''const'', JString ''a'')]) v path = Inr (JString ''a'')" for document v path
    unfolding generate_value.simps by (simp add: generate_level_def conf_resolve_def get_str_def unsupported_keywords_def)
  moreover have "MAX_GENERATION_DEPTH = Suc 31" by (simp add: MAX_GENERATION_DEPTH_def)
  ultimately have "generate_value MAX_GENERATION_DEPTH ping_crates document (JObject [(''const'', JString ''a'')]) v path = Inr (JString ''a'')"
    for document v path by (simp only:)
  then have input: "generated_input ping_crates pets_document ping_operation None None v = Inr ping_input" for v
    by (simp add: generated_input_def ps generate_parameter_def parameter conf_resolve_def section_or_empty_def insert_in_section_def
        request_body_schema_def body ping_input_def)
  obtain negatives where negative: "negative_plans ping_crates ping_env pets_document ping_operation request = Inr negatives"
  proof -
    have "\<exists>q. seal_request_plan ping_crates m = Inr q" for m
      by (simp add: seal_request_plan_def ping_crates_def http_crates_def sample_crates_def Let_def)
    then obtain q where q: "\<And>m. seal_request_plan ping_crates m = Inr (q m)" by metis
    have "invalid_scalar (JObject [(''const'', JString ''a'')]) = None" by code_simp
    then have "\<exists>n. negative_plans ping_crates ping_env pets_document ping_operation request = Inr n"
      by (cases "length (filter (\<lambda>h. \<not> eq_ignore_ascii_case (ph_name h) ''X-Trace'') (rp_headers request)) = length (rp_headers request)")
        (simp_all add: negative_plans_def negative_bodies_def request(2) ps negative_parameter_def conf_resolve_def parameter
          remove_parameter_def invalidated_def seal_negative_def q Let_def)
    then show thesis using that by blast
  qed
  obtain d where d: "request_digest ping_crates request = Inr d" by (simp add: request_digest_def ping_json_to_vec)
  obtain f where f: "policy_fingerprint ping_crates default_configuration = Inr f"
    by (simp add: policy_fingerprint_def ping_json_to_vec Let_def)
  have "\<exists>q. seal_conformance_plan ping_crates m = Inr q" for m
    by (simp add: seal_conformance_plan_def ping_crates_def http_crates_def sample_crates_def Let_def)
  then obtain q where seals: "\<And>m. seal_conformance_plan ping_crates m = Inr (q m)" by metis
  have "\<exists>plan requests. seal_campaign ping_crates ping_env pets_document ping_operation ping_options default_configuration
      [(Positive, strategy, request)] = Inr (plan, requests)" for strategy
    using seals by (simp add: seal_campaign_def campaign_case_def d f config_fingerprint_def sample_configuration ping_env_def map_err_Inr_iff)
  moreover have "positive_cases ping_crates ping_env pets_document ping_operation ping_options default_configuration None None
      (0 # indices) [] = Some (Inr [(''schema-valid:'' @ show_nat (unat (variant_of ping_crates 7 0 ''positive'')), request)])" for indices
    using request by (simp add: input ping_env_def ping_options_def add_distinct_def Let_def)
  moreover have "[0 ..< positive_attempts 1] = 0 # [Suc 0 ..< positive_attempts 1]"
    by (rule upt_conv_Cons) (simp add: positive_attempts_def)
  ultimately show ?thesis
    by (simp add: build_conformance_plan_def validate_options_def selected_content_type_def baseline_with_explicit_def negative
        Let_def select_cases_def MAX_CASES_def MAX_FAILURES_def MAX_DELAY_MS_def ensure_def ping_options_def body)
qed

subsection \<open>Claims on campaigns\<close>

text \<open>
  C25.  A campaign sends only what was granted: if any request goes out, the seal of the campaign verifies, its
  configuration and policy are the expected ones, every grant it requires was given, and each request passes the
  network checks of the executor.
\<close>

theorem campaign_stays_granted:
  assumes "invoke_conformance C R plan options fs evidence = (r, s)" and "cs_sent s \<noteq> []"
  shows "verify_seal_conformance_plan C plan = Inr True
       \<and> \<not> fingerprint_mismatch (opt_expected_config_fingerprint options) (cp_config_fingerprint plan)
       \<and> \<not> fingerprint_mismatch (opt_expected_policy_fingerprint options) (cp_policy_fingerprint plan)
       \<and> set (cp_required_grants plan) \<subseteq> opt_grants options
       \<and> (\<forall>request \<in> set (cs_sent s). \<exists>i. request_allowed (cr_http R i) options request)"
proof -
  have "cs_sent (start_campaign evidence) = []" by (simp add: start_campaign_def)
  with assms obtain r' where gate: "invoke_conformance_gate C plan options = Inr None"
    and run: "run_cases C R options fs (cp_max_failures plan) 0 (cp_cases plan) (start_campaign evidence) = (r', s)"
    by (auto simp: invoke_conformance_def Let_def split: sum.splits option.splits prod.splits)
  from run have "sent_allowed R options s" by (rule run_cases_sent) (simp add: sent_allowed_def start_campaign_def)
  moreover from campaign_gate_open [OF gate] have "missing_grant (opt_grants options) (cp_required_grants plan) = None" by simp
  ultimately show ?thesis using campaign_gate_open [OF gate] by (simp add: missing_grant_None sent_allowed_def)
qed

theorem campaign_stays_granted_witness:
  "\<exists>obs s. invoke_conformance http_crates run_env run_campaign sample_options (\<lambda>_. Some []) empty_store = (Inr obs, s)
     \<and> cs_sent s \<noteq> [] \<and> set (cp_required_grants run_campaign) \<subseteq> opt_grants sample_options"
proof -
  obtain obs s where run: "invoke_conformance http_crates run_env run_campaign sample_options (\<lambda>_. Some []) empty_store = (Inr obs, s)"
    and sent: "cs_sent s \<noteq> []" using sample_campaign_runs by blast
  from campaign_stays_granted [OF run sent] run sent show ?thesis by blast
qed



text \<open>
  C29.  A planned campaign is bound to its requests: its seal verifies, it has between one and the requested number
  of cases, and case by case it names a sealed request plan by identity, fingerprint and digest.  Positive cases are
  valid plans; negative ones are marked invalid and require \<open>conformance:negative\<close>.  The campaign requires every grant
  of its requests and the grant to execute that many cases.
\<close>

theorem planned_campaign_is_bound:
  assumes "build_conformance_plan C E source operation options configuration = Some (Inr (plan, requests))"
  shows "campaign_ok C (co_cases options) plan requests"
  by (rule planned_campaign_ok [OF assms])

theorem planned_campaign_is_bound_witness:
  "\<exists>plan requests. build_conformance_plan ping_crates ping_env pets_document ping_operation ping_options default_configuration
       = Some (Inr (plan, requests)) \<and> campaign_ok ping_crates 1 plan requests"
proof -
  obtain plan requests where
    built: "build_conformance_plan ping_crates ping_env pets_document ping_operation ping_options default_configuration
      = Some (Inr (plan, requests))" using ping_campaign by blast
  from planned_campaign_is_bound [OF built] built show ?thesis by (auto simp: ping_options_def)
qed

text \<open>
  C30.  The campaign that runs is the campaign that was planned: after a planned campaign is stored, the runner loads
  for each case exactly the request plan that was planned for it, and its checks of fingerprint and digest succeed.
  The handles of the requests are assumed not to collide.
\<close>

theorem stored_campaign_runs_its_requests:
  assumes "build_conformance_plan C E source operation options configuration = Some (Inr (plan, requests))"
    and "store_conformance_plan C faults plan requests fs = (Inr path, fs')" and "hex_hash C"
    and "\<And>data p. p \<in> set requests \<Longrightarrow> ser_request_plan C p = Some data \<Longrightarrow> cr_de_request R data = Some p"
    and "\<And>p q. p \<in> set requests \<Longrightarrow> q \<in> set requests \<Longrightarrow> rp_id p = rp_id q \<Longrightarrow> p = q"
  shows "list_all2 (\<lambda>c request. case_request C R fs' c = Inr request) (cp_cases plan) requests"
proof -
  have bound: "list_all2 (\<lambda>c. request_of c C) (cp_cases plan) requests"
    using planned_campaign_ok [OF assms(1)] by (simp add: campaign_ok_def)
  have "case_request C R fs' c = Inr request" if c: "c \<in> set (cp_cases plan)" and r: "request \<in> set requests" "request_of c C request"
    for c request
  proof -
    obtain p where p: "p \<in> set requests" "load_plan C (cr_de_request R) (cc_plan c) fs' = Inr p" "rp_id p = cc_plan c"
      "rp_fingerprint p = cc_plan_fingerprint c"
      using stored_case_loads [where de_request = "cr_de_request R", OF assms(2,3) _ c] assms(4) by blast
    from r(2) p(3) have "rp_id p = rp_id request" by (simp add: request_of_def)
    with assms(5) p(1) r(1) have "p = request" by blast
    with p r(2) show ?thesis by (simp add: case_request_def request_of_def)
  qed
  with bound show ?thesis by (auto simp: list_all2_conv_all_nth)
qed

theorem stored_campaign_runs_its_requests_witness:
  "\<exists>plan request fs' path. build_conformance_plan ping_crates ping_env pets_document ping_operation ping_options default_configuration
       = Some (Inr (plan, [request]))
     \<and> store_conformance_plan ping_crates (\<lambda>_. working_disk) plan [request] Map.empty = (Inr path, fs')
     \<and> list_all2 (\<lambda>c r. case_request ping_crates (run_env\<lparr>cr_de_request := \<lambda>_. Some request\<rparr>) fs' c = Inr r)
         (cp_cases plan) [request]"
proof -
  obtain plan requests where
    built: "build_conformance_plan ping_crates ping_env pets_document ping_operation ping_options default_configuration
      = Some (Inr (plan, requests))" using ping_campaign by blast
  have ok: "campaign_ok ping_crates 1 plan requests" using planned_campaign_ok [OF built] by (simp add: ping_options_def)
  then have "length (cp_cases plan) = 1" "list_all2 (\<lambda>c. request_of c ping_crates) (cp_cases plan) requests"
    by (simp_all add: campaign_ok_def)
  then obtain c request where one: "cp_cases plan = [c]" "requests = [request]" "request_of c ping_crates request"
    by (auto simp: length_Suc_conv list_all2_Cons1)
  have sers: "ser_request_plan ping_crates p = Some (as_bytes (rp_target p))"
    "ser_conformance_plan ping_crates q = Some (as_bytes (cp_id q @ cp_fingerprint q))" for p q
    by (simp_all add: ping_crates_def http_crates_def sample_crates_def)
  have "verify_seal_conformance_plan ping_crates plan = Inr True" using ok by (simp add: campaign_ok_def)
  with one have "\<exists>path fs'. store_conformance_plan ping_crates (\<lambda>_. working_disk) plan [request] Map.empty = (Inr path, fs')"
    by (simp add: store_conformance_plan_def request_of_def sers store_plan_def store_sealed_def require_seal_def write_plan_def
        working_disk_def)
  then obtain path fs' where stored: "store_conformance_plan ping_crates (\<lambda>_. working_disk) plan [request] Map.empty = (Inr path, fs')"
    by blast
  have "list_all2 (\<lambda>c r. case_request ping_crates (run_env\<lparr>cr_de_request := \<lambda>_. Some request\<rparr>) fs' c = Inr r) (cp_cases plan) [request]"
    by (rule stored_campaign_runs_its_requests [OF built [unfolded one(2)] stored ping_hash]) simp_all
  with built stored one show ?thesis by blast
qed

lemma empty_object_unexpected:
  assumes "map_of (od_operation operation) ''requestBody'' = None"
    and "array_field (od_path_item operation) ''parameters'' = []" "array_field (od_operation operation) ''parameters'' = []"
    and "po_input options = Some (JObject [])" "po_explicit options = []"
  shows "build_plan_with_configuration C E n source operation options configuration \<noteq> Some (Inr plan)"
proof
  assume "build_plan_with_configuration C E n source operation options configuration = Some (Inr plan)"
  then show False
  proof (rule build_plan_Inr)
    fix r
    assume "request_parts C E n source operation options configuration = Some (Inr r)"
    then show False
    proof (rule request_parts_Inr)
      fix inputs ps d
      assume inputs: "inputs_from_options (po_input options) (po_explicit options) = Inr inputs"
        and ps: "parameters C source operation = Inr ps"
        and loop: "each_do (bind_parameter C E (os_document source) n) ps
          \<lparr>dr_inputs = inputs, dr_path = od_path operation, dr_query = [], dr_headers = [], dr_cookies = [], dr_derivations = []\<rparr>
          = Some (Inr d)"
        and body: "bind_body C E source operation (po_content_type options) n (d\<lparr>dr_headers := dr_headers d @ cookie_header (dr_cookies d)\<rparr>)
          = Some (Inr (rq_planned_body r, rq_draft r))"
      from inputs assms(4,5) have "in_body inputs = Some (JObject [])"
        by (auto simp: inputs_from_options_def apply_document_def declare_input_def)
      moreover from ps assms(2,3) have "ps = []" by (simp add: parameters_def)
      ultimately have "in_body (dr_inputs d) \<noteq> None" using loop by auto
      with body assms(1) show False by (simp add: bind_body_def)
    qed
  qed
qed

text \<open>
  C32.  A campaign over an operation that has neither parameters nor a request body never succeeds without a baseline:
  the generated input is the empty object, which the planner takes for a body the operation does not declare.
\<close>

theorem parameterless_campaign_fails:
  assumes "map_of (od_operation operation) ''requestBody'' = None"
    and "array_field (od_path_item operation) ''parameters'' = []" "array_field (od_operation operation) ''parameters'' = []"
    and "co_input options = None" "po_explicit (co_plan options) = []"
  shows "build_conformance_plan C E source operation options configuration \<noteq> Some (Inr result)"
proof
  assume built: "build_conformance_plan C E source operation options configuration = Some (Inr result)"
  have content: "selected_content_type C source operation t = Inr None" for t using assms(1) by (simp add: selected_content_type_def)
  have input: "generated_input C source operation None None v = Inr (JObject [])" for v
    using assms(1-3) by (simp add: generated_input_def conf_parameters_def request_body_schema_def)
  have baseline: "baseline_with_explicit (co_input options) (po_explicit (co_plan options)) = Inr None"
    using assms(4,5) by (simp add: baseline_with_explicit_def)
  have "positive_cases C E source operation options configuration None None (index # indices) [] \<noteq> Some (Inr positive)"
    for index indices positive
    using empty_object_unexpected [OF assms(1-3), of "(co_plan options)\<lparr>po_content_type := None, po_input := Some (JObject [])\<rparr>"
        C "ce_plan E" "ce_fuel E" source configuration] assms(5)
    by (auto simp: input Let_def split: option.splits sum.splits)
  moreover have "[0 ..< positive_attempts cases] = 0 # [Suc 0 ..< positive_attempts cases]" for cases
    by (rule upt_conv_Cons) (simp add: positive_attempts_def)
  ultimately have "positive_cases C E source operation options configuration None None [0 ..< positive_attempts cases] []
      \<noteq> Some (Inr positive)" for cases positive by (simp only: not_False_eq_True)
  then show False
    using built by (auto simp: build_conformance_plan_def content baseline and_then_def split: sum.splits option.splits)
qed

theorem parameterless_campaign_fails_witness:
  "\<nexists>result. build_conformance_plan ping_crates ping_env pets_document (ping_operation\<lparr>od_operation := []\<rparr>) ping_options
     default_configuration = Some (Inr result)"
proof
  assume "\<exists>result. build_conformance_plan ping_crates ping_env pets_document (ping_operation\<lparr>od_operation := []\<rparr>) ping_options
     default_configuration = Some (Inr result)"
  then obtain result where "build_conformance_plan ping_crates ping_env pets_document (ping_operation\<lparr>od_operation := []\<rparr>)
     ping_options default_configuration = Some (Inr result)" ..
  moreover have "build_conformance_plan ping_crates ping_env pets_document (ping_operation\<lparr>od_operation := []\<rparr>) ping_options
     default_configuration \<noteq> Some (Inr result)"
    by (rule parameterless_campaign_fails) (simp_all add: ping_operation_def ping_options_def array_field_def)
  ultimately show False by contradiction
qed

end
