(* ===== verification/Conf_Schema_Props.thy ===== *)
theory Conf_Schema_Props
  imports Conf_Mutate Schema_Props Http_Planner_Props
begin

text \<open>
  What generation and mutation do with a schema: generated values conform to it, generated integers stay in its
  bounds, and mutations violate it.  One level of the recursion rests on the contract of the next; the contracts are
  the locales \<open>generator_level\<close> and \<open>mutator_level\<close>, interpreted on the model's own recursion.
\<close>

subsection \<open>References\<close>

lemma conf_resolve_Inr:
  "conf_resolve C document schema path = Inr s \<longleftrightarrow>
     (if get_str schema ''$ref'' = None then s = schema else resolve_contract_ref C document schema = Some s)"
  by (auto simp: conf_resolve_def resolve_contract_ref_def ok_or_Inr_iff split: option.split)

lemma conf_resolve_path: "conf_resolve C document schema path = Inr s \<Longrightarrow> conf_resolve C document schema path' = Inr s"
  by (simp add: conf_resolve_Inr)

lemma resolved_not_conforms:
  assumes "conf_resolve C document schema path = Inr s" and "\<And>n. \<not> conforms n C document s w"
  shows "\<not> conforms n C document schema w"
proof (cases "get_str schema ''$ref'' = None")
  case True
  with assms show ?thesis by (simp add: conf_resolve_Inr)
next
  case False
  with assms show ?thesis by (cases n) (simp_all add: conf_resolve_Inr)
qed

lemma get_str_types: "get_str s ''type'' = Some kind \<Longrightarrow> declared_types s = [kind]"
  by (auto simp: get_str_def declared_types_def bind_eq_Some_conv as_str_iff)

lemma map_of_map_insert_same: "map_of (map_insert k v m) k = Some v"
  by (induction k v m rule: map_insert.induct) auto

subsection \<open>Mutations\<close>

definition json_kinds :: "string list" where
  "json_kinds = [''null'', ''boolean'', ''integer'', ''number'', ''string'', ''array'', ''object'']"

text \<open>
  A schema is precise about a value when, at every level the mutations go through, one step resolves its reference, a
  string has a declared single type, and it does not declare the property the mutations add.
\<close>

definition precise_level :: "json \<Rightarrow> json \<Rightarrow> bool" where
  "precise_level s v =
     (get_str s ''$ref'' = None
      \<and> (is_string v \<longrightarrow> exceeds (\<lambda>kind. kind \<in> set json_kinds) (get_str s ''type''))
      \<and> \<not> exceeds (\<lambda>properties. map_of properties ''__kahea_unknown'' \<noteq> None) (get_object s ''properties''))"

definition precise_parts :: "(json \<Rightarrow> json \<Rightarrow> bool) \<Rightarrow> json \<Rightarrow> json \<Rightarrow> bool" where
  "precise_parts precise s v =
     ((case (get_object s ''properties'', as_object v) of
         (Some properties, Some m) \<Rightarrow>
           list_all (\<lambda>(name, child_schema). case map_of m name of None \<Rightarrow> True | Some child \<Rightarrow> precise child_schema child) properties
       | _ \<Rightarrow> True)
      \<and> (case (json_get s ''items'', as_array v) of (Some items, Some vs) \<Rightarrow> list_all (precise items) vs | _ \<Rightarrow> True))"

primrec precise :: "nat \<Rightarrow> crates \<Rightarrow> json \<Rightarrow> json \<Rightarrow> json \<Rightarrow> bool" where
  "precise 0 C document schema v = True"
| "precise (Suc levels) C document schema v =
     (case conf_resolve C document schema [] of
        Inl _ \<Rightarrow> True | Inr s \<Rightarrow> precise_level s v \<and> precise_parts (precise levels C document) s v)"

lemma chars_count_replicate [simp]: "char_code c < 128 \<Longrightarrow> chars_count (replicate n c) = of_nat n"
  by (simp add: chars_count_def)

lemma empty_string_short: "chars_count [] = 0" by (simp add: chars_count_def)

lemma too_long_string:
  assumes "unat m < MAX_GENERATED_STRING"
  shows "m < chars_count (replicate (unat m + 1) (CHR ''x''))"
proof -
  have "chars_count (replicate (unat m + 1) (CHR ''x'')) = of_nat (unat m + 1)"
    by (rule chars_count_replicate) (simp add: char_code_def)
  moreover have "unat (of_nat (unat m + 1) :: u64) = unat m + 1"
    by (rule unat_of_nat_u64) (use assms in \<open>simp add: MAX_GENERATED_STRING_def\<close>)
  ultimately show ?thesis by (simp only: word_less_nat_alt)
qed

lemma invalid_of_type_violates:
  assumes "invalid_of_type s v = Some w" and "is_string v \<longrightarrow> exceeds (\<lambda>kind. kind \<in> set json_kinds) (get_str s ''type'')"
  shows "\<not> scalars_conform s w"
proof (cases "get_str s ''type''")
  case None
  with assms show ?thesis by (simp add: invalid_of_type_def exceeds_def split: if_splits)
next
  case (Some kind)
  have kind: "kind \<in> set json_kinds"
    using assms Some by (auto simp: invalid_of_type_def json_kinds_def exceeds_def split: if_splits)
  note types = get_str_types [OF Some]
  show ?thesis
  proof (cases "kind = ''string''")
    case True
    consider "w = JString []" "exceeds (\<lambda>m. 0 < m) (get_u64 s ''minLength'')"
      | m where "w = JString (replicate (unat m + 1) (CHR ''x''))" "get_u64 s ''maxLength'' = Some m" "unat m < MAX_GENERATED_STRING"
      | "w = JBool False"
      using assms(1) Some True by (auto simp: invalid_of_type_def split: if_splits option.splits)
    then show ?thesis
    proof cases
      case 1
      then show ?thesis by (auto simp: scalars_conform_def exceeds_iff empty_string_short)
    next
      case 2
      with too_long_string [OF 2(3)] show ?thesis by (auto simp: scalars_conform_def)
    next
      case 3
      with types True show ?thesis by (simp add: scalars_conform_def type_matches_def)
    qed
  next
    case False
    from kind have "kind = ''null'' \<or> kind = ''boolean'' \<or> kind = ''integer'' \<or> kind = ''number'' \<or> kind = ''string''
        \<or> kind = ''array'' \<or> kind = ''object''" by (simp only: json_kinds_def list.set insert_iff empty_iff simp_thms)
    then show ?thesis
    proof (elim disjE)
      assume k: "kind = ''null''"
      with assms(1) Some have "w = JBool True" by (simp add: invalid_of_type_def)
      with types k show ?thesis by (simp add: scalars_conform_def type_matches_def)
    next
      assume k: "kind = ''boolean''"
      with assms(1) Some have "w = JString ''not-a-boolean''" by (simp add: invalid_of_type_def)
      with types k show ?thesis by (simp add: scalars_conform_def type_matches_def)
    next
      assume k: "kind = ''integer''"
      with assms(1) Some have "w = JString ''not-a-number''" by (simp add: invalid_of_type_def)
      with types k show ?thesis by (simp add: scalars_conform_def type_matches_def)
    next
      assume k: "kind = ''number''"
      with assms(1) Some have "w = JString ''not-a-number''" by (simp add: invalid_of_type_def)
      with types k show ?thesis by (simp add: scalars_conform_def type_matches_def)
    next
      assume "kind = ''string''"
      with False show ?thesis ..
    next
      assume k: "kind = ''array''"
      with assms(1) Some have "w = JObject [(''not'', JString ''an-array'')]" by (simp add: invalid_of_type_def)
      with types k show ?thesis by (simp add: scalars_conform_def type_matches_def)
    next
      assume k: "kind = ''object''"
      with assms(1) Some have "w = JArray [JString ''not-an-object'']" by (simp add: invalid_of_type_def)
      with types k show ?thesis by (simp add: scalars_conform_def type_matches_def)
    qed
  qed
qed

lemma invalid_value_cases:
  assumes "invalid_value s v = Some w"
  obtains "invalid_of_type s v = Some w"
    | vs where "get_array s ''enum'' = Some vs" "w \<notin> set vs"
proof (cases "get_array s ''enum''")
  case None
  with assms have "invalid_of_type s v = Some w" by (simp only: invalid_value_def option.case)
  then show thesis by (rule that(1))
next
  case (Some vs)
  show thesis
  proof (cases "JString outside_enum \<in> set vs")
    case True
    with assms Some have "invalid_of_type s v = Some w" by (simp only: invalid_value_def option.case) simp
    then show thesis by (rule that(1))
  next
    case False
    with assms Some have "w = JString outside_enum" by (simp only: invalid_value_def option.case) simp
    with False Some show thesis by (intro that(2)) simp_all
  qed
qed

lemma invalid_value_violates:
  assumes "invalid_value s v = Some w" and "precise_level s v"
  shows "\<not> scalars_conform s w"
  using assms(1)
proof (cases rule: invalid_value_cases)
  case 1
  then show ?thesis by (rule invalid_of_type_violates) (use assms(2) in \<open>unfold precise_level_def, blast\<close>)
next
  case 2
  then show ?thesis by (simp add: scalars_conform_def)
qed

lemma map_remove_gone: "map_of (map_remove name m) name = None"
  by (auto simp: map_remove_def map_of_eq_None_iff)

lemma omitted_properties_violate:
  assumes "(strategy, w) \<in> set (omitted_properties s v path)"
  shows "\<not> object_conforms s w"
proof -
  from assms obtain required m name where "get_array s ''required'' = Some required" "JString name \<in> set required"
    "as_object w = Some (map_remove name m)"
    unfolding omitted_properties_def
    by (cases "get_array s ''required''"; cases "as_object v"; simp only: option.case prod.case)
      (auto simp: map_filter_set as_str_iff)
  with map_remove_gone [of name m] show ?thesis unfolding object_conforms_def by blast
qed

lemma unknown_property_violates:
  assumes "(strategy, w) \<in> set (unknown_property s v path)" and "precise_level s v"
  shows "\<not> object_conforms s w"
proof -
  from assms(1) obtain m where m: "json_get s ''additionalProperties'' = Some (JBool False)"
    "w = JObject (map_insert ''__kahea_unknown'' (JBool True) m)"
    by (auto simp: unknown_property_def split: option.splits bool.splits)
  have here: "''__kahea_unknown'' \<in> fst ` set (map_insert ''__kahea_unknown'' (JBool True) m)"
    using map_insert_keys [of "''__kahea_unknown''" "JBool True" m] by auto
  have "\<not> (\<exists>properties. get_object s ''properties'' = Some properties \<and> map_of properties ''__kahea_unknown'' \<noteq> None)"
    using assms(2) by (simp add: precise_level_def exceeds_iff)
  with here m(1) show ?thesis unfolding object_conforms_def m(2) as_object.simps option.inject by blast
qed

text \<open>Lists that a loop appends to.\<close>

lemma for_each_collects:
  assumes "\<And>x ys ys'. x \<in> set xs \<Longrightarrow> f x ys = Inr ys' \<Longrightarrow> set ys' \<subseteq> set ys \<union> {y. P y}"
    and "for_each f xs ys = Inr ys'"
  shows "set ys' \<subseteq> set ys \<union> {y. P y}"
  using assms
proof (induction xs arbitrary: ys)
  case (Cons x xs)
  from Cons.prems(2) obtain zs where zs: "f x ys = Inr zs" "for_each f xs zs = Inr ys'" by (auto split: sum.splits)
  have "set ys' \<subseteq> set zs \<union> {y. P y}" by (rule Cons.IH [OF _ zs(2)]) (use Cons.prems(1) in auto)
  with Cons.prems(1) [OF _ zs(1)] show ?case by auto
qed simp

locale mutator_level =
  fixes mutate :: mutator
    and precise_at :: "json \<Rightarrow> json \<Rightarrow> bool"
    and violates :: "json \<Rightarrow> json \<Rightarrow> bool"
  assumes mutate_violates: "mutate s v path = Inr cs \<Longrightarrow> precise_at s v \<Longrightarrow> (strategy, w) \<in> set cs \<Longrightarrow> violates s w"
begin

lemma properties_violate:
  assumes "invalid_properties mutate s v path = Inr cs" and "precise_parts precise_at s v" and "(strategy, w) \<in> set cs"
  shows "\<exists>properties m name child_schema child. get_object s ''properties'' = Some properties \<and> as_object v = Some m
     \<and> (name, child_schema) \<in> set properties \<and> w = JObject (map_insert name child m) \<and> violates child_schema child"
proof -
  from assms(1,3) obtain properties m where p: "get_object s ''properties'' = Some properties" "as_object v = Some m"
    by (cases "get_object s ''properties''"; cases "as_object v") (auto simp: invalid_properties_def)
  let ?f = "\<lambda>(name, child_schema) cs. case map_of m name of None \<Rightarrow> Inr cs
      | Some child \<Rightarrow> and_then (mutate child_schema child (path @ ''.'' @ name)) (\<lambda>invalid.
          Inr (cs @ map (\<lambda>(strategy, w). (strategy, JObject (map_insert name w m))) invalid))"
  let ?P = "\<lambda>c. \<exists>name child_schema child. (name, child_schema) \<in> set properties
      \<and> snd c = JObject (map_insert name child m) \<and> violates child_schema child"
  have run: "for_each ?f properties [] = Inr cs" using assms(1) p by (simp add: invalid_properties_def)
  have "set cs \<subseteq> set [] \<union> {c. ?P c}"
  proof (rule for_each_collects [OF _ run])
    fix x ys ys'
    assume x: "x \<in> set properties" and step: "?f x ys = Inr ys'"
    obtain name child_schema where n: "x = (name, child_schema)" by (cases x)
    show "set ys' \<subseteq> set ys \<union> {c. ?P c}"
    proof (cases "map_of m name")
      case None
      with step n show ?thesis by simp
    next
      case (Some child)
      with step n obtain invalid where i: "mutate child_schema child (path @ ''.'' @ name) = Inr invalid"
        "ys' = ys @ map (\<lambda>(strategy, w). (strategy, JObject (map_insert name w m))) invalid"
        by (auto simp: and_then_Inr_iff)
      have "precise_at child_schema child"
        using assms(2) p x n Some by (auto simp: precise_parts_def list_all_iff)
      with i mutate_violates x n show ?thesis by fastforce
    qed
  qed
  with assms(3) p show ?thesis by fastforce
qed

lemma items_violate:
  assumes "invalid_items mutate s v path = Inr cs" and "precise_parts precise_at s v" and "(strategy, w) \<in> set cs"
  shows "\<exists>items vs index child. json_get s ''items'' = Some items \<and> as_array v = Some vs \<and> index < length vs
     \<and> w = JArray (vs[index := child]) \<and> violates items child"
proof -
  from assms(1,3) obtain items vs where p: "json_get s ''items'' = Some items" "as_array v = Some vs"
    by (cases "json_get s ''items''"; cases "as_array v") (auto simp: invalid_items_def)
  let ?f = "\<lambda>(index, child) cs. and_then (mutate items child (path @ ''['' @ show_nat index @ '']'')) (\<lambda>invalid.
          Inr (cs @ map (\<lambda>(strategy, w). (strategy, JArray (vs[index := w]))) invalid))"
  let ?P = "\<lambda>c. \<exists>index child. index < length vs \<and> snd c = JArray (vs[index := child]) \<and> violates items child"
  have run: "for_each ?f (List.enumerate 0 vs) [] = Inr cs" using assms(1) p by (simp add: invalid_items_def)
  have "set cs \<subseteq> set [] \<union> {c. ?P c}"
  proof (rule for_each_collects [OF _ run])
    fix x ys ys'
    assume x: "x \<in> set (List.enumerate 0 vs)" and step: "?f x ys = Inr ys'"
    obtain index child where n: "x = (index, child)" by (cases x)
    with x have i: "index < length vs" "child \<in> set vs" by (auto simp: in_set_enumerate_eq)
    from step n obtain invalid where inv: "mutate items child (path @ ''['' @ show_nat index @ '']'') = Inr invalid"
      "ys' = ys @ map (\<lambda>(strategy, w). (strategy, JArray (vs[index := w]))) invalid"
      by (auto simp: and_then_Inr_iff)
    have "precise_at items child" using assms(2) p i(2) by (auto simp: precise_parts_def list_all_iff)
    with inv mutate_violates i(1) show "set ys' \<subseteq> set ys \<union> {c. ?P c}" by fastforce
  qed
  with assms(3) p show ?thesis by fastforce
qed

end

lemma level_violated:
  assumes "get_str s ''$ref'' = None"
    and "\<not> scalars_conform s w \<or> \<not> object_conforms s w
       \<or> (\<exists>properties m name child_schema child. get_object s ''properties'' = Some properties
            \<and> (name, child_schema) \<in> set properties \<and> w = JObject (map_insert name child m)
            \<and> (\<forall>n. \<not> conforms n C document child_schema child))
       \<or> (\<exists>items vs index child. json_get s ''items'' = Some items \<and> index < length vs \<and> w = JArray (vs[index := child])
            \<and> (\<forall>n. \<not> conforms n C document items child))"
  shows "\<not> conforms n C document s w"
proof (cases n)
  case (Suc k)
  from assms(2) show ?thesis
  proof (elim disjE)
    assume "\<exists>properties m name child_schema child. get_object s ''properties'' = Some properties
            \<and> (name, child_schema) \<in> set properties \<and> w = JObject (map_insert name child m)
            \<and> (\<forall>n. \<not> conforms n C document child_schema child)"
    then obtain properties m name child_schema child where p: "get_object s ''properties'' = Some properties"
      "(name, child_schema) \<in> set properties" "as_object w = Some (map_insert name child m)"
      "\<not> conforms k C document child_schema child" by auto
    with map_of_map_insert_same [of name child m] assms(1) show ?thesis unfolding Suc conforms.simps by metis
  next
    assume "\<exists>items vs index child. json_get s ''items'' = Some items \<and> index < length vs \<and> w = JArray (vs[index := child])
            \<and> (\<forall>n. \<not> conforms n C document items child)"
    then obtain items vs index child where p: "json_get s ''items'' = Some items" "as_array w = Some (vs[index := child])"
      "child \<in> set (vs[index := child])" "\<not> conforms k C document items child" by (auto simp: set_update_memI)
    with assms(1) show ?thesis unfolding Suc conforms.simps by metis
  qed (simp_all add: Suc assms(1))
qed simp

lemma invalid_json_values_violate:
  "invalid_json_values levels C document schema v path = Inr cs \<Longrightarrow> precise levels C document schema v \<Longrightarrow>
     (strategy, w) \<in> set cs \<Longrightarrow> \<forall>n. \<not> conforms n C document schema w"
proof (induction levels arbitrary: schema v path cs strategy w)
  case 0
  then show ?case by simp
next
  case (Suc levels)
  have lm: "mutator_level (invalid_json_values levels C document) (precise levels C document)
      (\<lambda>s w. \<forall>n. \<not> conforms n C document s w)"
    by unfold_locales (rule Suc.IH)
  from Suc.prems(1) obtain s ps qs where s: "conf_resolve C document schema path = Inr s"
    and ps: "invalid_properties (invalid_json_values levels C document) s v path = Inr ps"
    and qs: "invalid_items (invalid_json_values levels C document) s v path = Inr qs"
    and cs: "cs = omitted_properties s v path @ unknown_property s v path @ ps @ qs
                  @ (case invalid_value s v of Some w \<Rightarrow> [(''invalid-body-value:'' @ path, w)] | None \<Rightarrow> [])"
    by (auto simp: and_then_Inr_iff)
  from Suc.prems(2) conf_resolve_path [OF s, of "[]"] have precise: "precise_level s v"
    "precise_parts (precise levels C document) s v" by simp_all
  have ref: "get_str s ''$ref'' = None" using precise(1) by (simp add: precise_level_def)
  have "\<not> conforms n C document s w" for n
  proof (rule level_violated [OF ref])
    from Suc.prems(3) consider "(strategy, w) \<in> set (omitted_properties s v path)" | "(strategy, w) \<in> set (unknown_property s v path)"
      | "(strategy, w) \<in> set ps" | "(strategy, w) \<in> set qs" | "invalid_value s v = Some w"
      by (auto simp: cs split: option.splits)
    then show "\<not> scalars_conform s w \<or> \<not> object_conforms s w
       \<or> (\<exists>properties m name child_schema child. get_object s ''properties'' = Some properties
            \<and> (name, child_schema) \<in> set properties \<and> w = JObject (map_insert name child m)
            \<and> (\<forall>n. \<not> conforms n C document child_schema child))
       \<or> (\<exists>items vs index child. json_get s ''items'' = Some items \<and> index < length vs \<and> w = JArray (vs[index := child])
            \<and> (\<forall>n. \<not> conforms n C document items child))"
    proof cases
      case 1
      then show ?thesis using omitted_properties_violate by blast
    next
      case 2
      then show ?thesis using unknown_property_violates precise(1) by blast
    next
      case 3
      from mutator_level.properties_violate [OF lm ps precise(2) 3] show ?thesis by blast
    next
      case 4
      from mutator_level.items_violate [OF lm qs precise(2) 4] show ?thesis by blast
    next
      case 5
      then show ?thesis using invalid_value_violates precise(1) by blast
    qed
  qed
  then show ?case using resolved_not_conforms [OF s] by blast
qed

interpretation mutations: mutator_level "invalid_json_values levels C document" "precise levels C document"
    "\<lambda>s w. \<forall>n. \<not> conforms n C document s w" for levels C document
  by unfold_locales (rule invalid_json_values_violate)

subsection \<open>Generated scalars\<close>

lemma pick_in: "xs \<noteq> [] \<Longrightarrow> pick xs variant \<in> set xs"
  by (simp add: pick_def)

lemma as_i64_range: "as_i64 v = Some i \<Longrightarrow> i64_min \<le> i \<and> i \<le> i64_max"
proof (cases v rule: as_i64.cases)
  case (1 n)
  moreover assume "as_i64 v = Some i"
  ultimately have "i = uint n" "i \<le> i64_max" by (simp_all split: if_splits)
  moreover have "i64_min \<le> 0" by (simp add: i64_min_def)
  ultimately show ?thesis using uint_ge_0 [of n] by linarith
qed (auto simp: i64_max_def split: if_splits)

lemma get_i64_range: "get_i64 schema key = Some i \<Longrightarrow> i64_min \<le> i \<and> i \<le> i64_max"
  by (auto simp: get_i64_def bind_eq_Some_conv dest: as_i64_range)

lemma saturate_range: "i64_min \<le> saturate_i64 i \<and> saturate_i64 i \<le> i64_max"
  by (auto simp: saturate_i64_def i64_min_def i64_max_def)

lemma integer_range:
  "i64_min \<le> integer_minimum schema" "integer_minimum schema \<le> i64_max"
  "i64_min \<le> integer_maximum schema" "integer_maximum schema \<le> i64_max"
proof -
  have d: "i64_min \<le> - 100" "- 100 \<le> i64_max" "i64_min \<le> 100" "100 \<le> i64_max" by (simp_all add: i64_min_def i64_max_def)
  show "i64_min \<le> integer_minimum schema" "integer_minimum schema \<le> i64_max"
    "i64_min \<le> integer_maximum schema" "integer_maximum schema \<le> i64_max"
    using d get_i64_range [of schema] saturate_range
    by (auto simp: integer_minimum_def integer_maximum_def Let_def le_max_iff_disj min_le_iff_disj split: option.splits)
qed

lemma wrap_range: "i64_min \<le> wrap_i64 i \<and> wrap_i64 i \<le> i64_max"
  using pos_mod_bound [of 18446744073709551616 "i - i64_min"] pos_mod_sign [of 18446744073709551616 "i - i64_min"]
  by (simp add: wrap_i64_def i64_min_def i64_max_def)

lemma wrap_id: "i64_min \<le> i \<Longrightarrow> i \<le> i64_max \<Longrightarrow> wrap_i64 i = i"
  by (simp add: wrap_i64_def i64_min_def i64_max_def)

lemma floor_multiple:
  fixes i m :: int
  assumes "0 < m"
  shows "i div m * m \<le> i" "i < i div m * m + m"
  using pos_mod_sign [OF assms, of i] pos_mod_bound [OF assms, of i] div_mult_mod_eq [of i m] by linarith+

lemma wrap_under: "i < i64_min \<Longrightarrow> i64_min - i64_max \<le> i \<Longrightarrow> wrap_i64 i = i + 18446744073709551616"
proof -
  assume "i < i64_min" "i64_min - i64_max \<le> i"
  then have "(i - i64_min) mod 18446744073709551616 = i - i64_min + 18446744073709551616"
    by (subst mod_add_self2 [symmetric], intro mod_pos_pos_trivial) (simp_all add: i64_min_def i64_max_def)
  then show ?thesis by (simp add: wrap_i64_def)
qed

lemma saturate_ge: "a \<le> i64_max \<Longrightarrow> a \<le> i \<Longrightarrow> a \<le> saturate_i64 i"
  by (simp add: saturate_i64_def le_max_iff_disj)

lemma saturate_id: "i64_min \<le> i \<Longrightarrow> i \<le> i64_max \<Longrightarrow> saturate_i64 i = i"
  by (simp add: saturate_i64_def)

text \<open>From a selected value down to a multiple, and up again when that is below the minimum.\<close>

definition to_multiple :: "int \<Rightarrow> int \<Rightarrow> int \<Rightarrow> int" where
  "to_multiple low m i =
     (let y = wrap_i64 (i div m * m) in if y < low then saturate_i64 (y + m) else y)"

lemma to_multiple_ge:
  assumes "0 < m" "m \<le> i64_max" "low \<le> i" "i \<le> i64_max" "i64_min \<le> low"
  shows "low \<le> to_multiple low m i"
proof -
  define x where "x = i div m * m"
  have x: "x \<le> i" "i < x + m" using floor_multiple [OF assms(1)] by (simp_all add: x_def)
  show ?thesis
  proof (cases "i64_min \<le> x")
    case True
    then have "wrap_i64 x = x" using x assms by (intro wrap_id) linarith+
    moreover have "low \<le> saturate_i64 (x + m)" using x assms by (intro saturate_ge) linarith+
    ultimately show ?thesis by (simp add: to_multiple_def x_def [symmetric] Let_def)
  next
    case False
    then have "wrap_i64 x = x + 18446744073709551616" using x assms by (intro wrap_under) linarith+
    moreover have "i64_max \<le> x + 18446744073709551616 + m" using x assms(3,5) by (simp add: i64_min_def i64_max_def)
    moreover from this have "low \<le> saturate_i64 (x + 18446744073709551616 + m)" using assms by (intro saturate_ge) linarith+
    ultimately show ?thesis by (simp add: to_multiple_def x_def [symmetric] Let_def)
  qed
qed

lemma to_multiple_dvd:
  assumes "0 < m" "m \<le> 4611686018427387904" "low \<le> i" "i \<le> 4611686018427387904" "- 4611686018427387904 \<le> low"
  shows "m dvd to_multiple low m i"
proof -
  define x where "x = i div m * m"
  have x: "x \<le> i" "i < x + m" using floor_multiple [OF assms(1)] by (simp_all add: x_def)
  have "wrap_i64 x = x" by (rule wrap_id; unfold i64_min_def i64_max_def; use x assms in linarith)
  moreover have "saturate_i64 (x + m) = x + m" if "x < low"
    by (rule saturate_id; unfold i64_min_def i64_max_def; use x assms that in linarith)
  ultimately have "to_multiple low m i \<in> {x, x + m}" by (simp add: to_multiple_def x_def [symmetric] Let_def)
  then show ?thesis by (auto simp: x_def)
qed

lemma generate_integer_Inr:
  assumes "generate_integer schema variant path = Inr v"
  obtains i where "v = json_i64 i" "integer_minimum schema \<le> i" "i \<le> integer_maximum schema"
    "\<forall>m. get_i64 schema ''multipleOf'' = Some m \<and> m \<le> 4611686018427387904 \<and> - 4611686018427387904 \<le> integer_minimum schema
       \<and> integer_maximum schema \<le> 4611686018427387904 \<longrightarrow> m dvd i"
proof -
  let ?min = "integer_minimum schema" and ?max = "integer_maximum schema"
  let ?s = "pick [?min, ?max, max ?min (min ?max 0)] variant"
  from assms have le: "?min \<le> ?max" by (auto simp: generate_integer_def Let_def split: if_splits)
  have "?s \<in> {?min, ?max, max ?min (min ?max 0)}" using pick_in [of "[?min, ?max, max ?min (min ?max 0)]"] by simp
  with le have s: "?min \<le> ?s" "?s \<le> ?max" by auto
  show thesis
  proof (cases "get_i64 schema ''multipleOf''")
    case None
    with assms le s show thesis by (intro that [of ?s]) (auto simp: generate_integer_def Let_def)
  next
    case (Some m)
    let ?z = "to_multiple ?min m ?s"
    have "(if m \<le> 0 then Inl (Generation path) else if ?max < ?z then Inl (Generation path) else Inr (json_i64 ?z)) = Inr v"
      using assms le Some by (simp only: generate_integer_def Let_def to_multiple_def option.case not_less [symmetric] if_False if_True)
    then have pos: "0 < m" and v: "v = json_i64 ?z" and max: "?z \<le> ?max" by (simp_all split: if_splits)
    note range = integer_range [of schema] get_i64_range [OF Some]
    have "?min \<le> ?z" by (rule to_multiple_ge [OF pos _ s(1)]) (use s range in linarith)+
    moreover have "m dvd ?z" if "- 4611686018427387904 \<le> ?min" "?max \<le> 4611686018427387904" "m \<le> 4611686018427387904"
      using to_multiple_dvd [OF pos that(3) s(1) _ that(1)] s(2) that(2) by simp
    ultimately show thesis using Some by (intro that [OF v _ max]) simp_all
  qed
qed

lemma generate_number_Inr:
  assumes "generate_number schema variant path = Inr v"
  obtains minimum maximum x where "number_minimum schema = Some minimum" "number_maximum schema = Some maximum"
    "v = JNumber (Float x)" "minimum \<le> x" "x \<le> maximum"
proof -
  from assms obtain minimum maximum where m: "number_minimum schema = Some minimum" "number_maximum schema = Some maximum"
    by (auto simp: generate_number_def and_then_Inr_iff ok_or_Inr_iff)
  let ?s = "pick [minimum, maximum, max minimum (min maximum 0)] variant"
  from assms m have le: "minimum \<le> maximum" by (auto simp: generate_number_def Let_def split: if_splits)
  have "?s \<in> {minimum, maximum, max minimum (min maximum 0)}"
    using pick_in [of "[minimum, maximum, max minimum (min maximum 0)]"] by simp
  with le have s: "minimum \<le> ?s" "?s \<le> maximum" by auto
  show thesis
  proof (cases "get_f64 schema ''multipleOf''")
    case None
    with assms m le s show thesis by (intro that [OF m, of ?s]) (auto simp: generate_number_def Let_def)
  next
    case (Some multiple)
    with assms m le obtain x where "v = JNumber (Float x)" "minimum \<le> x" "x \<le> maximum"
      by (auto simp: generate_number_def Let_def and_then_Inr_iff split: if_splits)
    with m show thesis by (rule that)
  qed
qed

lemma generate_string_Inr:
  assumes "generate_string schema variant path = Inr s" and "get_str schema ''format'' = None" "get_str schema ''pattern'' = None"
  shows "(\<forall>k. get_u64 schema ''minLength'' = Some k \<longrightarrow> k \<le> chars_count s)
       \<and> (\<forall>k. get_u64 schema ''maxLength'' = Some k \<longrightarrow> chars_count s \<le> k)"
proof -
  define minimum where "minimum = (case length_bound schema ''minLength'' of Some n \<Rightarrow> n | None \<Rightarrow> 0)"
  define maximum where "maximum = (case length_bound schema ''maxLength'' of Some n \<Rightarrow> n | None \<Rightarrow> min (minimum + 16) usize_max)"
  define upper where "upper = min maximum MAX_GENERATED_STRING"
  define n where "n = pick [minimum, upper, min (minimum + 1) upper] variant"
  have ok: "minimum \<le> maximum" "minimum \<le> MAX_GENERATED_STRING" and s: "s = replicate n (pick ''aZ7'' variant)"
    using assms(1)
    unfolding generate_string_def Let_def minimum_def [symmetric] maximum_def [symmetric] upper_def [symmetric] n_def [symmetric]
    by (simp_all add: assms(2,3) split: if_splits)
  have "n \<in> {minimum, upper, min (minimum + 1) upper}"
    using pick_in [of "[minimum, upper, min (minimum + 1) upper]"] by (simp add: n_def)
  with ok have n: "minimum \<le> n" "n \<le> maximum" "n \<le> MAX_GENERATED_STRING" by (auto simp: upper_def)
  have "pick ''aZ7'' variant \<in> set ''aZ7''" by (rule pick_in) simp
  then have "char_code (pick ''aZ7'' variant) < 128" by (auto simp: char_code_def)
  then have "unat (chars_count s) = n"
    using n(3) by (simp add: s MAX_GENERATED_STRING_def unat_of_nat_u64)
  with n show ?thesis
    by (auto simp: word_le_nat_alt minimum_def maximum_def length_bound_def split: option.splits)
qed

subsection \<open>Generated values\<close>

text \<open>
  Schemas whose generated values conform: references resolve in one step; there is no alternative and no \<open>allOf\<close>; what
  the schema gives itself (constants, enumerations, examples) are scalars it accepts; integer bounds are integers that
  a double holds exactly; strings have neither format nor pattern; and what is required can be generated.
\<close>

definition scalar_given :: "json \<Rightarrow> json \<Rightarrow> bool" where
  "scalar_given s v =
     (as_object v = None \<and> as_array v = None \<and> const_failures s v [] [] = [] \<and> scalar_failures s v [] [] = []
      \<and> (declared_types s = [] \<or> list_ex (type_matches v) (declared_types s)))"

definition given_values :: "json \<Rightarrow> json list" where
  "given_values s =
     concat (map (\<lambda>key. case json_get s key of Some v \<Rightarrow> [v] | None \<Rightarrow> []) [''const'', ''example'', ''default''])
       @ (case get_array s ''enum'' of Some vs \<Rightarrow> vs | None \<Rightarrow> []) @ (case get_array s ''examples'' of Some vs \<Rightarrow> vs | None \<Rightarrow> [])"

definition exact_bound :: "json \<Rightarrow> string \<Rightarrow> bool" where
  "exact_bound s key = (json_get s key = None \<or> exceeds (\<lambda>i. \<bar>i\<bar> < 9007199254740992) (get_i64 s key))"

definition generable_level :: "json \<Rightarrow> bool" where
  "generable_level s =
     (get_str s ''$ref'' = None \<and> list_all (\<lambda>key. json_get s key = None) [''oneOf'', ''anyOf'', ''allOf'']
      \<and> list_all (scalar_given s) (given_values s)
      \<and> (''integer'' \<in> set (declared_types s) \<longrightarrow> exact_bound s ''minimum'' \<and> exact_bound s ''maximum'')
      \<and> get_str s ''format'' = None \<and> get_str s ''pattern'' = None
      \<and> map_wf (schema_properties s)
      \<and> list_all (\<lambda>name. exceeds (\<lambda>child. \<not> flag child ''readOnly'') (map_of (schema_properties s) name)) (required_names s))"

definition generable_parts :: "(json \<Rightarrow> bool) \<Rightarrow> json \<Rightarrow> bool" where
  "generable_parts good s =
     (list_all (\<lambda>(name, child). good child) (schema_properties s)
      \<and> (case json_get s ''items'' of Some items \<Rightarrow> good items | None \<Rightarrow> True))"

primrec generable :: "nat \<Rightarrow> crates \<Rightarrow> json \<Rightarrow> json \<Rightarrow> bool" where
  "generable 0 C document schema = True"
| "generable (Suc levels) C document schema =
     (case conf_resolve C document schema [] of
        Inl _ \<Rightarrow> True | Inr s \<Rightarrow> generable_level s \<and> generable_parts (generable levels C document) s)"

lemma scalar_given_conforms: "scalar_given s v \<Longrightarrow> scalars_conform s v"
  unfolding scalar_given_def const_failures_empty scalar_failures_empty scalars_conform_def by blast

lemma for_each_covers:
  assumes "\<And>x s s'. x \<in> set xs \<Longrightarrow> f x s = Inr s' \<Longrightarrow> I s \<Longrightarrow> I s' \<and> Q x s' \<and> (\<forall>y. Q y s \<longrightarrow> Q y s')"
    and "for_each f xs s = Inr s'" and "I s"
  shows "I s' \<and> (\<forall>x \<in> set xs. Q x s') \<and> (\<forall>y. Q y s \<longrightarrow> Q y s')"
  using assms
proof (induction xs arbitrary: s)
  case (Cons x xs)
  from Cons.prems(2) obtain t where t: "f x s = Inr t" "for_each f xs t = Inr s'" by (auto split: sum.splits)
  from Cons.prems(1) [OF _ t(1) Cons.prems(3)] have step: "I t" "Q x t" "\<forall>y. Q y s \<longrightarrow> Q y t" by auto
  have "I s' \<and> (\<forall>x \<in> set xs. Q x s') \<and> (\<forall>y. Q y t \<longrightarrow> Q y s')"
    by (rule Cons.IH [OF _ t(2) step(1)]) (use Cons.prems(1) in auto)
  with step show ?case by auto
qed simp

locale generator_level =
  fixes gen :: generator
    and good :: "json \<Rightarrow> bool"
    and ok :: "json \<Rightarrow> json \<Rightarrow> bool"
  assumes gen_ok: "gen schema variant path = Inr v \<Longrightarrow> good schema \<Longrightarrow> ok schema v"
begin

lemma unique_item_ok:
  "unique_item C gen schema variant index path unique earlier attempts = Inr v \<Longrightarrow> good schema \<Longrightarrow> ok schema v"
  by (induction attempts) (auto simp: and_then_Inr_iff intro: gen_ok split: if_splits)

lemma array_ok:
  assumes "generate_array C gen s variant path = Inr v" and "json_get s ''items'' = Some items \<Longrightarrow> good items"
  obtains vs where "v = JArray vs" "\<And>x. json_get s ''items'' = Some items \<Longrightarrow> x \<in> set vs \<Longrightarrow> ok items x"
proof -
  define its where "its = (case json_get s ''items'' of Some i \<Rightarrow> i | None \<Rightarrow> JNull)"
  let ?f = "\<lambda>index vs. and_then (unique_item C gen its variant index path (flag s ''uniqueItems'') vs array_attempts) (\<lambda>v.
      Inr (vs @ [v]))"
  from assms(1) obtain n vs where vs: "for_each ?f [0 ..< n] [] = Inr vs" "v = JArray vs"
    unfolding generate_array_def Let_def its_def [symmetric] by (auto simp: and_then_Inr_iff split: if_splits)
  have "\<forall>x \<in> set vs. ok items x" if items: "json_get s ''items'' = Some items"
  proof (rule for_each_keeps [where P = "\<lambda>vs. \<forall>x \<in> set vs. ok items x", OF _ vs(1)])
    fix index us us'
    assume "?f index us = Inr us'" "\<forall>x \<in> set us. ok items x"
    moreover have "its = items" using items by (simp add: its_def)
    ultimately show "\<forall>x \<in> set us'. ok items x"
      using assms(2) [OF items] by (auto simp: and_then_Inr_iff dest: unique_item_ok)
  qed simp
  with vs(2) show thesis by (intro that) auto
qed

definition holds_generated :: "(string \<times> json) list \<Rightarrow> (string \<times> json) list \<Rightarrow> bool" where
  "holds_generated properties m =
     (map_wf m \<and> (\<forall>name v. map_of m name = Some v \<longrightarrow> (\<exists>child. map_of properties name = Some child \<and> ok child v)))"

lemma insert_generated_holds:
  assumes "insert_generated C gen variant path name child m = Inr m'" and "holds_generated properties m" and "good child"
    and "map_of properties name = Some child"
  shows "holds_generated properties m' \<and> map_of m' name \<noteq> None \<and> dom (map_of m) \<subseteq> dom (map_of m')"
proof -
  from assms(1) obtain v where v: "gen child (variant_for C variant name) (path @ ''.'' @ name) = Inr v" "m' = map_insert name v m"
    by (auto simp: insert_generated_def and_then_Inr_iff)
  have "map_wf m" using assms(2) by (simp add: holds_generated_def)
  with v assms(2,4) gen_ok [OF v(1) assms(3)] show ?thesis
    by (auto simp: holds_generated_def map_of_map_insert map_insert_wf)
qed

lemma object_ok:
  assumes "generate_object C gen s variant path = Inr v" and wf: "map_wf (schema_properties s)"
    and good: "\<And>name child. (name, child) \<in> set (schema_properties s) \<Longrightarrow> good child"
  obtains m where "v = JObject m" "holds_generated (schema_properties s) m"
    "\<And>name child. name \<in> set (required_names s) \<Longrightarrow> map_of (schema_properties s) name = Some child
       \<Longrightarrow> \<not> flag child ''readOnly'' \<Longrightarrow> map_of m name \<noteq> None"
proof -
  let ?ps = "schema_properties s" and ?required = "set (required_names s)"
  define least where "least = (case length_bound s ''minProperties'' of Some n \<Rightarrow> n | None \<Rightarrow> 0)"
  let ?f = "\<lambda>(index, name, child) m.
      if \<not> flag child ''readOnly'' \<and> (name \<in> ?required \<or> multiple_of 3 (variant + of_nat index))
      then insert_generated C gen variant path name child m else Inr m"
  let ?g = "\<lambda>(name, child) m. if length m < least \<and> map_of m name = None \<and> \<not> flag child ''readOnly''
      then insert_generated C gen variant path name child m else Inr m"
  from assms(1) obtain m1 m2 where runs: "for_each ?f (List.enumerate 0 ?ps) [] = Inr m1" "for_each ?g ?ps m1 = Inr m2" "v = JObject m2"
    unfolding generate_object_def Let_def least_def [symmetric] by (auto simp: and_then_Inr_iff split: if_splits)
  have lookup: "map_of ?ps name = Some child" if "(name, child) \<in> set ?ps" for name child
    using wf that by (simp add: map_wf_def)
  let ?Q = "\<lambda>(x :: nat \<times> string \<times> json) (m :: (string \<times> json) list).
      fst (snd x) \<in> ?required \<and> \<not> flag (snd (snd x)) ''readOnly'' \<longrightarrow> map_of m (fst (snd x)) \<noteq> None"
  have "holds_generated ?ps m1 \<and> (\<forall>x \<in> set (List.enumerate 0 ?ps). ?Q x m1) \<and> (\<forall>y. ?Q y [] \<longrightarrow> ?Q y m1)"
  proof (rule for_each_covers [where Q = ?Q and I = "holds_generated ?ps", OF _ runs(1)])
    fix x m m'
    assume x: "x \<in> set (List.enumerate 0 ?ps)" and step: "?f x m = Inr m'" and holds: "holds_generated ?ps m"
    obtain index name child where n: "x = (index, name, child)" by (cases x)
    with x have mem: "(name, child) \<in> set ?ps" by (auto simp: in_set_enumerate_eq) (metis nth_mem)
    show "holds_generated ?ps m' \<and> ?Q x m' \<and> (\<forall>y. ?Q y m \<longrightarrow> ?Q y m')"
    proof (cases "\<not> flag child ''readOnly'' \<and> (name \<in> ?required \<or> multiple_of 3 (variant + of_nat index))")
      case True
      with step n have "insert_generated C gen variant path name child m = Inr m'" by simp
      from insert_generated_holds [OF this holds good [OF mem] lookup [OF mem]] show ?thesis by (auto simp: n)
    next
      case False
      with step n holds show ?thesis by auto
    qed
  qed (simp add: holds_generated_def map_wf_def)
  then have m1: "holds_generated ?ps m1" and covered: "\<And>x. x \<in> set (List.enumerate 0 ?ps) \<Longrightarrow> ?Q x m1" by blast+
  have there: "map_of m1 name \<noteq> None" if "(name, child) \<in> set ?ps" "name \<in> ?required" "\<not> flag child ''readOnly''" for name child
  proof -
    from that(1) obtain index where "index < length ?ps" "?ps ! index = (name, child)" by (auto simp: in_set_conv_nth)
    then have "(index, name, child) \<in> set (List.enumerate 0 ?ps)" by (simp add: in_set_enumerate_eq)
    from covered [OF this] that show ?thesis by simp
  qed
  have m2: "holds_generated ?ps m2 \<and> dom (map_of m1) \<subseteq> dom (map_of m2)"
  proof -
    have keeps: "holds_generated ?ps m' \<and> dom (map_of m1) \<subseteq> dom (map_of m')"
      if "x \<in> set ?ps" "?g x m = Inr m'" "holds_generated ?ps m \<and> dom (map_of m1) \<subseteq> dom (map_of m)" for x m m'
    proof -
      obtain name child where n: "x = (name, child)" by (cases x)
      with that(1) have mem: "(name, child) \<in> set ?ps" by simp
      show ?thesis
      proof (cases "length m < least \<and> map_of m name = None \<and> \<not> flag child ''readOnly''")
        case True
        with that(2) n have "insert_generated C gen variant path name child m = Inr m'" by simp
        from insert_generated_holds [OF this _ good [OF mem] lookup [OF mem]] that(3) show ?thesis by blast
      next
        case False
        with that(2,3) n show ?thesis by auto
      qed
    qed
    have "(holds_generated ?ps m2 \<and> dom (map_of m1) \<subseteq> dom (map_of m2)) \<and> (\<forall>x \<in> set ?ps. True) \<and> (\<forall>y :: string \<times> json. True \<longrightarrow> True)"
      by (rule for_each_covers [where Q = "\<lambda>_ _. True" and I = "\<lambda>m. holds_generated ?ps m \<and> dom (map_of m1) \<subseteq> dom (map_of m)",
            OF _ runs(2)]) (use keeps m1 in auto)
    then show ?thesis by blast
  qed
  show thesis
  proof (rule that [OF runs(3)])
    fix name child
    assume "name \<in> ?required" "map_of ?ps name = Some child" "\<not> flag child ''readOnly''"
    with there have "map_of m1 name \<noteq> None" by (blast dest: map_of_SomeD)
    with m2 show "map_of m2 name \<noteq> None" by (auto simp: subset_iff domIff)
  qed (use m2 in blast)
qed

end

text \<open>Without references and alternatives, a level accepts what its own keywords and the next level accept.\<close>

lemma plain_level_conforms:
  assumes "generable_level s" and "scalars_conform s v" and "object_conforms s v"
    and "\<And>properties m name child_schema child. get_object s ''properties'' = Some properties \<Longrightarrow> as_object v = Some m
       \<Longrightarrow> (name, child_schema) \<in> set properties \<Longrightarrow> map_of m name = Some child \<Longrightarrow> conforms n C document child_schema child"
    and "\<And>items vs child. json_get s ''items'' = Some items \<Longrightarrow> as_array v = Some vs \<Longrightarrow> child \<in> set vs
       \<Longrightarrow> conforms n C document items child"
  shows "conforms (Suc n) C document s v"
proof -
  have "get_str s ''$ref'' = None" "get_array s ''allOf'' = None" "get_array s ''anyOf'' = None" "get_array s ''oneOf'' = None"
    using assms(1) by (simp_all add: generable_level_def get_array_def)
  with assms(2-5) show ?thesis by (simp only: conforms.simps option.distinct simp_thms if_False) blast
qed

lemma scalar_level_conforms:
  assumes "generable_level s" and "scalars_conform s v" and "as_object v = None" and "as_array v = None"
  shows "conforms (Suc n) C document s v"
  by (rule plain_level_conforms [OF assms(1,2)]) (simp_all add: object_conforms_def assms(3,4))

lemma given_conforms: "generable_level s \<Longrightarrow> v \<in> set (given_values s) \<Longrightarrow> conforms (Suc n) C document s v"
  by (rule scalar_level_conforms) (auto simp: generable_level_def list_all_iff scalar_given_def intro: scalar_given_conforms)

lemma plan_types_eq: "plan_declared_types s = declared_types s"
  by (simp add: plan_declared_types_def declared_types_def)

lemma bit_length_le: "n < 2 ^ k \<Longrightarrow> bit_length n \<le> k"
proof (induction k arbitrary: n)
  case 0
  then show ?case by (simp add: bit_length.simps)
next
  case (Suc k)
  then have "bit_length (n div 2) \<le> k" by (intro Suc.IH) simp
  then show ?case by (subst bit_length.simps) simp
qed

lemma int_to_f64_exact: "\<bar>i\<bar> < 9007199254740992 \<Longrightarrow> int_to_f64 i = of_int i"
proof -
  assume "\<bar>i\<bar> < 9007199254740992"
  then have "bit_length \<bar>i\<bar> \<le> 53" by (intro bit_length_le) simp
  then show ?thesis
    by (simp add: int_to_f64_def round_half_even_def Let_def mult_sgn_abs del: of_int_mult of_int_abs)
qed

lemma as_f64_json_i64: "i64_min \<le> i \<Longrightarrow> i \<le> i64_max \<Longrightarrow> \<bar>i\<bar> < 9007199254740992 \<Longrightarrow> as_f64 (json_i64 i) = Some (of_int i)"
  by (simp add: json_i64_def int_to_f64_exact uint_word_of_int i64_max_def)

lemma as_i64_f64: "as_i64 v = Some i \<Longrightarrow> as_f64 v = Some (int_to_f64 i)"
  by (cases v rule: as_i64.cases) (auto split: if_splits)

lemma exact_bound_f64:
  assumes "exact_bound s key" and "get_f64 s key = Some k"
  obtains i where "get_i64 s key = Some i" "k = of_int i" "\<bar>i\<bar> < 9007199254740992"
proof -
  from assms obtain i where i: "get_i64 s key = Some i" "\<bar>i\<bar> < 9007199254740992"
    by (auto simp: exact_bound_def get_f64_def exceeds_iff)
  then obtain v where "json_get s key = Some v" "as_i64 v = Some i" by (auto simp: get_i64_def bind_eq_Some_conv)
  with assms(2) as_i64_f64 [of v i] i show thesis by (intro that [of i]) (auto simp: get_f64_def int_to_f64_exact)
qed

lemma integer_minimum_ge: "get_i64 s ''minimum'' = Some m \<Longrightarrow> m \<le> integer_minimum s"
  using get_i64_range [of s "''minimum''" m]
  by (auto simp: integer_minimum_def Let_def saturate_i64_def le_max_iff_disj split: option.split)

lemma integer_maximum_le: "get_i64 s ''maximum'' = Some m \<Longrightarrow> integer_maximum s \<le> m"
  using get_i64_range [of s "''maximum''" m]
  by (auto simp: integer_maximum_def Let_def saturate_i64_def min_le_iff_disj split: option.split)

lemma integer_bounds_exact:
  assumes "exact_bound s ''minimum''" "exact_bound s ''maximum''"
  shows "- 9007199254740992 < integer_minimum s" "integer_maximum s < 9007199254740992"
proof -
  have "- 9007199254740992 < (case get_i64 s ''minimum'' of Some m \<Rightarrow> m | None \<Rightarrow> - 100)"
    "(case get_i64 s ''maximum'' of Some m \<Rightarrow> m | None \<Rightarrow> 100) < 9007199254740992"
    using assms by (auto simp: exact_bound_def exceeds_iff get_i64_def)
  moreover have "(case get_i64 s ''minimum'' of Some m \<Rightarrow> m | None \<Rightarrow> - 100) \<le> integer_minimum s"
    using integer_minimum_ge [of s]
    by (cases "get_i64 s ''minimum''") (auto simp: integer_minimum_def saturate_i64_def i64_min_def i64_max_def split: option.split)
  moreover have "integer_maximum s \<le> (case get_i64 s ''maximum'' of Some m \<Rightarrow> m | None \<Rightarrow> 100)"
    using integer_maximum_le [of s]
    by (cases "get_i64 s ''maximum''") (auto simp: integer_maximum_def saturate_i64_def i64_min_def i64_max_def split: option.split)
  ultimately show "- 9007199254740992 < integer_minimum s" "integer_maximum s < 9007199254740992" by linarith+
qed

lemma type_matches_kind:
  "type_matches v kind \<Longrightarrow> kind \<in> set (declared_types s) \<or> declared_types s = [] \<Longrightarrow>
     declared_types s = [] \<or> list_ex (type_matches v) (declared_types s)"
  by (auto simp: list_ex_iff)

lemma schema_kind_declared:
  "schema_kind s variant \<in> set (declared_types s) \<or> declared_types s = []"
  using pick_in [of "declared_types s" variant] by (auto simp: schema_kind_def Let_def plan_types_eq)

text \<open>Values of one kind have only the keywords of that kind to obey, once constants and enumerations are excluded.\<close>

lemma kind_conforms:
  assumes "json_get s ''const'' = None" and "get_array s ''enum'' = None"
    and "type_matches v kind" and "kind \<in> set (declared_types s) \<or> declared_types s = []"
    and "\<And>t. v = JString t \<Longrightarrow> (\<forall>k. get_u64 s ''minLength'' = Some k \<longrightarrow> k \<le> chars_count t)
       \<and> (\<forall>k. get_u64 s ''maxLength'' = Some k \<longrightarrow> chars_count t \<le> k)"
    and "\<And>x. as_f64 v = Some x \<Longrightarrow> (\<forall>k. get_f64 s ''minimum'' = Some k \<longrightarrow> k \<le> x) \<and> (\<forall>k. get_f64 s ''maximum'' = Some k \<longrightarrow> x \<le> k)"
  shows "scalars_conform s v"
  using assms type_matches_kind [OF assms(3,4)] unfolding scalars_conform_def by (auto simp: as_str_iff)

lemma integer_conforms:
  assumes "generate_integer s variant path = Inr v" and "exact_bound s ''minimum''" "exact_bound s ''maximum''"
  shows "is_integer v" "as_f64 v = Some x \<Longrightarrow> (\<forall>k. get_f64 s ''minimum'' = Some k \<longrightarrow> k \<le> x)
     \<and> (\<forall>k. get_f64 s ''maximum'' = Some k \<longrightarrow> x \<le> k)"
proof -
  from assms(1) obtain i where i: "v = json_i64 i" "integer_minimum s \<le> i" "i \<le> integer_maximum s"
    by (rule generate_integer_Inr)
  then show "is_integer v" by (simp add: json_i64_def)
  have "\<bar>i\<bar> < 9007199254740992" using i integer_bounds_exact [OF assms(2,3)] by linarith
  moreover have "i64_min \<le> i" "i \<le> i64_max" using i integer_range [of s] by linarith+
  ultimately have "as_f64 v = Some (of_int i)" by (simp only: i as_f64_json_i64)
  moreover assume "as_f64 v = Some x"
  ultimately have x: "x = of_int i" by simp
  show "(\<forall>k. get_f64 s ''minimum'' = Some k \<longrightarrow> k \<le> x) \<and> (\<forall>k. get_f64 s ''maximum'' = Some k \<longrightarrow> x \<le> k)"
    using i(2,3) integer_minimum_ge integer_maximum_le
    by (fastforce simp: x elim: exact_bound_f64 [OF assms(2)] exact_bound_f64 [OF assms(3)])
qed

lemma number_conforms:
  assumes "generate_number s variant path = Inr v" and "as_f64 v = Some x"
  shows "(\<forall>k. get_f64 s ''minimum'' = Some k \<longrightarrow> k \<le> x) \<and> (\<forall>k. get_f64 s ''maximum'' = Some k \<longrightarrow> x \<le> k)"
  using assms(1)
proof (rule generate_number_Inr)
  fix minimum maximum y
  assume m: "number_minimum s = Some minimum" "number_maximum s = Some maximum" and v: "v = JNumber (Float y)"
    and y: "minimum \<le> y" "y \<le> maximum"
  have "k \<le> minimum" if "get_f64 s ''minimum'' = Some k" for k
    using m(1) that by (auto simp: number_minimum_def Let_def split: option.splits)
  moreover have "maximum \<le> k" if "get_f64 s ''maximum'' = Some k" for k
    using m(2) that by (auto simp: number_maximum_def Let_def split: option.splits)
  ultimately show ?thesis using y v assms(2) by fastforce
qed

lemma array_level_conforms:
  assumes level: "generator_level gen good (conforms n C document)"
    and "generate_array C gen s variant path = Inr v" and "generable_level s" "generable_parts good s"
    and scalars: "\<And>vs. v = JArray vs \<Longrightarrow> scalars_conform s v"
  shows "conforms (Suc n) C document s v"
proof -
  have good: "good items" if "json_get s ''items'' = Some items" for items
    using assms(4) that by (simp add: generable_parts_def)
  from generator_level.array_ok [OF level assms(2)] good obtain vs where v: "v = JArray vs" by blast
  show ?thesis
  proof (rule plain_level_conforms [OF assms(3) scalars [OF v]])
    fix items us child
    assume items: "json_get s ''items'' = Some items" and us: "as_array v = Some us" "child \<in> set us"
    from generator_level.array_ok [OF level assms(2) good] items obtain ws where "v = JArray ws" "\<And>x. x \<in> set ws \<Longrightarrow> conforms n C document items x"
      by metis
    with us show "conforms n C document items child" by simp
  qed (simp_all add: v object_conforms_def)
qed

lemma object_level_conforms:
  assumes level: "generator_level gen good (conforms n C document)"
    and gen: "generate_object C gen s variant path = Inr v" and s: "generable_level s" "generable_parts good s"
    and scalars: "\<And>m. v = JObject m \<Longrightarrow> scalars_conform s v"
  shows "conforms (Suc n) C document s v"
proof -
  let ?ps = "schema_properties s"
  have wf: "map_wf ?ps" using s(1) by (simp add: generable_level_def)
  have good: "good child" if "(name, child) \<in> set ?ps" for name child
    using s(2) that by (auto simp: generable_parts_def list_all_iff)
  obtain m where v: "v = JObject m" and holds: "generator_level.holds_generated (conforms n C document) ?ps m"
    and required: "\<And>name child. name \<in> set (required_names s) \<Longrightarrow> map_of ?ps name = Some child \<Longrightarrow> \<not> flag child ''readOnly''
       \<Longrightarrow> map_of m name \<noteq> None"
    by (rule generator_level.object_ok [OF level gen wf]) (erule good, rule that)
  have held: "\<exists>child. map_of ?ps name = Some child \<and> conforms n C document child x" if "map_of m name = Some x" for name x
    using holds that by (simp add: generator_level.holds_generated_def [OF level])
  have all_required: "map_of m name \<noteq> None" if "name \<in> set (required_names s)" for name
    using s(1) that required by (fastforce simp: generable_level_def list_all_iff exceeds_iff)
  have props: "get_object s ''properties'' = Some ps \<Longrightarrow> ?ps = ps" for ps by (simp add: schema_properties_def)
  have declared: "\<exists>ps. get_object s ''properties'' = Some ps \<and> map_of ps name \<noteq> None" if "map_of ?ps name \<noteq> None" for name
    using that by (auto simp: schema_properties_def split: option.splits)
  show ?thesis
  proof (rule plain_level_conforms [OF s(1) scalars [OF v]])
    have "map_of m name \<noteq> None" if "get_array s ''required'' = Some rs" "JString name \<in> set rs" for rs name
      using that by (intro all_required) (auto simp: required_names_def map_filter_set as_str_iff)
    moreover have "\<exists>ps. get_object s ''properties'' = Some ps \<and> map_of ps name \<noteq> None" if "name \<in> fst ` set m" for name
    proof (rule declared)
      from that have "map_of m name \<noteq> None" by (simp add: map_of_eq_None_iff)
      with held show "map_of ?ps name \<noteq> None" by fastforce
    qed
    ultimately show "object_conforms s v" by (auto simp: object_conforms_def v)
  next
    fix ps m' name child_schema child
    assume ps: "get_object s ''properties'' = Some ps" and m': "as_object v = Some m'" and mem: "(name, child_schema) \<in> set ps"
      and child: "map_of m' name = Some child"
    from mem ps wf props have "map_of ?ps name = Some child_schema" by (simp add: map_wf_def)
    with held [of name child] m' child v show "conforms n C document child_schema child" by simp
  qed (simp add: v)
qed

lemma generate_kind_conforms:
  assumes level: "generator_level gen good (conforms n C document)"
    and gen: "generate_kind C gen s variant path = Inr v" and s: "generable_level s" "generable_parts good s"
    and free: "json_get s ''const'' = None" "get_array s ''enum'' = None"
  shows "conforms (Suc n) C document s v"
proof -
  define kind where "kind = schema_kind s variant"
  have declared: "kind \<in> set (declared_types s) \<or> declared_types s = []"
    unfolding kind_def by (rule schema_kind_declared)
  note scalars = kind_conforms [OF free _ declared]
  note run = gen [unfolded generate_kind_def Let_def kind_def [symmetric]]
  have "kind = ''null'' \<or> kind = ''boolean'' \<or> kind = ''integer'' \<or> kind = ''number'' \<or> kind = ''string''
      \<or> kind = ''array'' \<or> kind = ''object''"
  proof (rule ccontr)
    assume "\<not> ?thesis"
    with run show False by (simp only: de_Morgan_disj) simp
  qed
  then show ?thesis
  proof (elim disjE)
    assume 1: "kind = ''null''"
    with run have v: "v = JNull" by simp
    have "scalars_conform s v" by (rule scalars) (simp_all add: v 1 type_matches_def)
    then show ?thesis by (rule scalar_level_conforms [OF s(1)]) (simp_all add: v)
  next
    assume 2: "kind = ''boolean''"
    with run have v: "v = JBool (multiple_of 2 variant)" by simp
    have "scalars_conform s v" by (rule scalars) (simp_all add: v 2 type_matches_def)
    then show ?thesis by (rule scalar_level_conforms [OF s(1)]) (simp_all add: v)
  next
    assume 3: "kind = ''integer''"
    with run have v: "generate_integer s variant path = Inr v" by simp
    have "''integer'' \<in> set (declared_types s)" using 3 declared by (auto simp: kind_def schema_kind_def plan_types_eq split: if_splits)
    with s(1) have exact: "exact_bound s ''minimum''" "exact_bound s ''maximum''" by (simp_all add: generable_level_def)
    note i = integer_conforms [OF v exact]
    from i(1) obtain x where x: "v = JNumber x" by (cases v rule: is_integer.cases) auto
    have "scalars_conform s v"
      by (rule scalars) (use i in \<open>simp_all add: 3 type_matches_def x\<close>)
    then show ?thesis by (rule scalar_level_conforms [OF s(1)]) (simp_all add: x)
  next
    assume 4: "kind = ''number''"
    with run have v: "generate_number s variant path = Inr v" by simp
    then obtain x where x: "v = JNumber (Float x)" by (rule generate_number_Inr)
    have "scalars_conform s v"
      by (rule scalars) (use number_conforms [OF v] in \<open>simp_all add: 4 type_matches_def x\<close>)
    then show ?thesis by (rule scalar_level_conforms [OF s(1)]) (simp_all add: x)
  next
    assume 5: "kind = ''string''"
    with run obtain t where t: "generate_string s variant path = Inr t" "v = JString t" by (auto simp: and_then_Inr_iff)
    have "get_str s ''format'' = None" "get_str s ''pattern'' = None" using s(1) by (simp_all add: generable_level_def)
    note bounds = generate_string_Inr [OF t(1) this]
    have "scalars_conform s v" by (rule scalars) (use bounds in \<open>simp_all add: 5 type_matches_def t(2)\<close>)
    then show ?thesis by (rule scalar_level_conforms [OF s(1)]) (simp_all add: t(2))
  next
    assume 6: "kind = ''array''"
    with run have v: "generate_array C gen s variant path = Inr v" by simp
    show ?thesis
    proof (rule array_level_conforms [OF level v s])
      fix vs
      assume v: "v = JArray vs"
      show "scalars_conform s v" by (rule scalars) (simp_all add: v 6 type_matches_def)
    qed
  next
    assume 7: "kind = ''object''"
    with run have v: "generate_object C gen s variant path = Inr v" by simp
    show ?thesis
    proof (rule object_level_conforms [OF level v s])
      fix m
      assume v: "v = JObject m"
      show "scalars_conform s v" by (rule scalars) (simp_all add: v 7 type_matches_def)
    qed
  qed
qed

lemma generate_level_conforms:
  assumes level: "generator_level gen good (conforms n C document)"
    and gen: "generate_level C document gen schema variant path = Inr v" and s: "conf_resolve C document schema path = Inr s"
    and g: "generable_level s" "generable_parts good s"
  shows "conforms (Suc n) C document s v"
proof -
  note run = gen [unfolded generate_level_def s and_then_simps]
  show ?thesis
  proof (cases "json_get s ''const'' = None \<and> get_array s ''enum'' = None \<and> chosen_example s variant = None")
    case True
    have "alternative_branches s = []" "get_array s ''allOf'' = None"
      using g(1) by (simp_all add: generable_level_def alternative_branches_def get_array_def)
    with True run have "generate_kind C gen s variant path = Inr v" by (simp split: if_splits)
    with level g True show ?thesis by (intro generate_kind_conforms) simp_all
  next
    case False
    have "v \<in> set (given_values s)"
    proof (cases "json_get s ''const''")
      case (Some w)
      with run have "v = w" by (simp split: if_splits)
      with Some show ?thesis by (simp add: given_values_def)
    next
      case const: None
      show ?thesis
      proof (cases "get_array s ''enum''")
        case (Some vs)
        with run const have "vs \<noteq> []" "v = pick vs variant" by (simp_all split: if_splits)
        with Some pick_in [of vs variant] show ?thesis by (simp add: given_values_def)
      next
        case enum: None
        with False const obtain w where w: "chosen_example s variant = Some w" by auto
        with run const enum have "v = w" by (simp split: if_splits)
        from w consider "json_get s ''example'' = Some w" | "json_get s ''default'' = Some w"
          | vs where "get_array s ''examples'' = Some vs" "vs \<noteq> []" "w = pick vs variant"
          by (auto simp: chosen_example_def example_or_default_def bind_eq_Some_conv split: if_splits option.splits)
        then show ?thesis
        proof cases
          case 3
          with \<open>v = w\<close> pick_in [of vs variant] show ?thesis by (simp add: given_values_def)
        qed (simp_all add: given_values_def \<open>v = w\<close>)
      qed
    qed
    with g(1) show ?thesis by (rule given_conforms)
  qed
qed

lemma generate_value_conforms:
  "generate_value levels C document schema variant path = Inr v \<Longrightarrow> generable levels C document schema \<Longrightarrow>
     2 * levels \<le> n \<Longrightarrow> conforms n C document schema v"
proof (induction levels arbitrary: schema variant path v n)
  case 0
  then show ?case by simp
next
  case (Suc levels)
  have level: "generator_level (generate_value levels C document) (generable levels C document) (conforms k C document)"
    if "2 * levels \<le> k" for k
    by unfold_locales (rule Suc.IH, assumption+, rule that)
  from Suc.prems(1) obtain s where s: "conf_resolve C document schema path = Inr s"
    by (auto simp: generate_level_def and_then_Inr_iff)
  from Suc.prems(2) conf_resolve_path [OF s, of "[]"] have g: "generable_level s" "generable_parts (generable levels C document) s"
    by simp_all
  have run: "generate_level C document (generate_value levels C document) schema variant path = Inr v" using Suc.prems(1) by simp
  have conf: "conforms (Suc k) C document s v" if "2 * levels \<le> k" for k
    by (rule generate_level_conforms [OF level [OF that] run s g])
  obtain k where k: "n = Suc (Suc k)" "2 * levels \<le> k" using Suc.prems(3) by (metis Suc_le_D add_2_eq_Suc mult_Suc_right Suc_le_mono)
  show ?case
  proof (cases "get_str schema ''$ref'' = None")
    case True
    with s have "s = schema" by (simp add: conf_resolve_Inr)
    with conf [of "Suc k"] k show ?thesis by simp
  next
    case False
    with s have "resolve_contract_ref C document schema = Some s" by (simp add: conf_resolve_Inr)
    with conf [OF k(2)] show ?thesis
      unfolding k(1) by (simp only: conforms.simps(2) [of "Suc k"] False not_False_eq_True if_True) blast
  qed
qed

interpretation generation: generator_level "generate_value levels C document" "generable levels C document"
    "\<lambda>s v. \<forall>n \<ge> 2 * levels. conforms n C document s v" for levels C document
  by unfold_locales (blast intro: generate_value_conforms)

subsection \<open>Claims\<close>

definition age_schema :: json where
  "age_schema = JObject [(''maximum'', JNumber (PosInt 9)), (''minimum'', JNumber (PosInt 3)), (''type'', JString ''integer'')]"

definition person_schema :: json where
  "person_schema = JObject
     [(''additionalProperties'', JBool False),
      (''properties'', JObject
         [(''age'', age_schema), (''name'', JObject [(''minLength'', JNumber (PosInt 1)), (''type'', JString ''string'')])]),
      (''required'', JArray [JString ''age'']), (''type'', JString ''object'')]"

lemma age_generated: "\<exists>v. generate_value (Suc k) C JNull age_schema variant path = Inr v"
proof -
  have "get_str age_schema ''$ref'' = None" "list_ex (\<lambda>k. json_get age_schema k \<noteq> None) unsupported_keywords = False"
    "json_get age_schema ''const'' = None" "get_array age_schema ''enum'' = None" "example_or_default age_schema = None"
    "get_array age_schema ''examples'' = None" "alternative_branches age_schema = []" "get_array age_schema ''allOf'' = None"
    "plan_declared_types age_schema = [''integer'']" "integer_minimum age_schema = 3" "integer_maximum age_schema = 9"
    "get_i64 age_schema ''multipleOf'' = None"
    by code_simp+
  then show ?thesis
    by (simp add: generate_level_def conf_resolve_def chosen_example_def generate_kind_def schema_kind_def pick_def generate_integer_def)
qed

lemma person_generated:
  assumes "gen age_schema (variant_for C 1 ''age'') (path @ ''.age'') = Inr v"
  shows "\<exists>v. generate_level C JNull gen person_schema 1 path = Inr v"
proof -
  have "get_str person_schema ''$ref'' = None" "list_ex (\<lambda>k. json_get person_schema k \<noteq> None) unsupported_keywords = False"
    "json_get person_schema ''const'' = None" "get_array person_schema ''enum'' = None" "example_or_default person_schema = None"
    "get_array person_schema ''examples'' = None" "alternative_branches person_schema = []" "get_array person_schema ''allOf'' = None"
    "plan_declared_types person_schema = [''object'']" "required_names person_schema = [''age'']"
    "length_bound person_schema ''minProperties'' = None" "length_bound person_schema ''maxProperties'' = None"
    "flag age_schema ''readOnly'' = False" "multiple_of 3 (1 + of_nat 1) = False"
    by code_simp+
  moreover have "schema_properties person_schema = [(''age'', age_schema), (''name'', JObject [(''minLength'', JNumber (PosInt 1)), (''type'', JString ''string'')])]"
    by (simp add: person_schema_def schema_properties_def get_object_def)
  ultimately show ?thesis using assms
    by (simp add: generate_level_def conf_resolve_def chosen_example_def generate_kind_def schema_kind_def pick_def generate_object_def
        insert_generated_def exceeds_def)
qed




text \<open>
  C28.  Negative values are negative: every mutation of a value that the generator of negative cases proposes violates
  the schema, at any depth of validation, so contract validation reports a failure.  The schema has to be precise about
  the value: at each level the mutations go through, a reference resolves in one step, strings have a declared type, and
  the added property is not declared.
\<close>

theorem mutations_violate_schema:
  assumes "invalid_json_values levels C document schema v path = Inr candidates"
    and "precise levels C document schema v" and "(strategy, w) \<in> set candidates"
  shows "\<not> conforms n C document schema w \<and> validate_schema_value C document schema w location [] depth \<noteq> []"
  using mutations.mutate_violates [OF assms] by (simp add: validate_schema_value_def validate_levels_empty)

theorem mutations_violate_schema_witness:
  "\<exists>candidates. invalid_json_values MAX_GENERATION_DEPTH http_crates JNull person_schema (JObject [(''age'', JNumber (PosInt 4))]) ''body''
       = Inr candidates
     \<and> (''omit-required-body:body.age'', JObject []) \<in> set candidates
     \<and> validate_schema_value http_crates JNull person_schema (JObject []) ''$'' [] 0 \<noteq> []"
proof -
  let ?v = "JObject [(''age'', JNumber (PosInt 4))]"
  obtain candidates where c: "invalid_json_values MAX_GENERATION_DEPTH http_crates JNull person_schema ?v ''body'' = Inr candidates"
    "(''omit-required-body:body.age'', JObject []) \<in> set candidates"
  proof -
    have "(case invalid_json_values MAX_GENERATION_DEPTH http_crates JNull person_schema ?v ''body'' of
        Inl _ \<Rightarrow> False | Inr cs \<Rightarrow> list_ex (\<lambda>c. c = (''omit-required-body:body.age'', JObject [])) cs)" by code_simp
    then show thesis by (auto simp: list_ex_iff split: sum.splits intro: that)
  qed
  moreover have "precise MAX_GENERATION_DEPTH http_crates JNull person_schema ?v" by code_simp
  ultimately show ?thesis using mutations_violate_schema [OF c(1) _ c(2)] by blast
qed

end
