(* ===== verification/Asyncapi.thy ===== *)
theory Asyncapi
  imports Http_Planner
begin

text \<open>
  Ingestion of AsyncAPI documents (\<open>kahea-ingest\<close>, \<open>asyncapi.rs\<close>): local references, the operations of versions
  2.6 and 3.0 with what each of them cannot express, the index of operations, and the compilation of one operation
  to the source of a WebSocket session.  A result is \<open>Inl None\<close> when a chain of references is longer than the
  fuel, and \<open>Inl (Some e)\<close> for an error of the source; the messages of \<open>InvalidAsyncApi\<close> are left out, and so are
  the locations that only occur in them.
\<close>

type_synonym 'a ingest = "IngestError option + 'a"

abbreviation invalid :: "'a ingest" where
  "invalid \<equiv> Inl (Some InvalidAsyncApi)"

fun map_each :: "('a \<Rightarrow> 'e + 'b) \<Rightarrow> 'a list \<Rightarrow> 'e + 'b list" where
  "map_each f [] = Inr []"
| "map_each f (x # xs) = and_then (f x) (\<lambda>y. and_then (map_each f xs) (\<lambda>ys. Inr (y # ys)))"

record AsyncApiSource =
  as_document :: json
  as_source_fingerprint :: string
  as_source_handle :: string
  as_version :: string

record AsyncApiOperation =
  ao_handle :: string
  ao_operation_id :: string
  ao_action :: string
  ao_channel_name :: string
  ao_channel_address :: string
  ao_server_names :: "string list"
  ao_message_name :: string
  ao_message :: json
  ao_operation :: json
  ao_channel :: json
  ao_location :: string
  ao_absent :: "AbsentCapability list"

definition is_asyncapi :: "json \<Rightarrow> bool" where
  "is_asyncapi document = (get_str document ''asyncapi'' \<noteq> None)"

subsection \<open>References\<close>

text \<open>
  The scan of the whole document: depths 0 to 128 are visited, so the recursion is on the 129 levels that are left.
\<close>

primrec validate_references :: "crates \<Rightarrow> json \<Rightarrow> nat \<Rightarrow> json \<Rightarrow> IngestError + unit" where
  "validate_references C base 0 v = Inl InvalidAsyncApi"
| "validate_references C base (Suc levels) v =
     (case v of
        JObject m \<Rightarrow>
          and_then (case Option.bind (map_of m ''$ref'') as_str of
                      None \<Rightarrow> Inr ()
                    | Some reference \<Rightarrow>
                        and_then (ok_or (strip_prefix ''#'' reference) InvalidAsyncApi) (\<lambda>pointer.
                        ensure (json_pointer C base pointer \<noteq> None) InvalidAsyncApi)) (\<lambda>_.
          for_each (\<lambda>(_, child) _. validate_references C base levels child) m ())
      | JArray xs \<Rightarrow> for_each (\<lambda>child _. validate_references C base levels child) xs ()
      | _ \<Rightarrow> Inr ())"

definition reference_levels :: nat where "reference_levels = 129"

text \<open>\<open>resolve_value\<close>: the loop that follows \<open>$ref\<close> members; \<open>seen\<close> is the set of references followed so far.\<close>

primrec follow_refs :: "crates \<Rightarrow> json \<Rightarrow> nat \<Rightarrow> json \<Rightarrow> string list \<Rightarrow> json ingest" where
  "follow_refs C base 0 current seen = Inl None"
| "follow_refs C base (Suc n) current seen =
     (case get_str current ''$ref'' of
        None \<Rightarrow> Inr current
      | Some reference \<Rightarrow>
          if reference \<in> set seen then invalid
          else and_then (ok_or (strip_prefix ''#'' reference) (Some InvalidAsyncApi)) (\<lambda>pointer.
               and_then (ok_or (json_pointer C base pointer) (Some InvalidAsyncApi)) (\<lambda>target.
               follow_refs C base n target (reference # seen))))"

definition resolve_local :: "crates \<Rightarrow> nat \<Rightarrow> json \<Rightarrow> json \<Rightarrow> json ingest" where
  "resolve_local C n base v = follow_refs C base n v []"

text \<open>
  Schemas are sealed with their references replaced; depths 0 to 64 are visited, and \<open>stack\<close> holds the references
  being expanded.
\<close>

primrec inline_local_refs :: "crates \<Rightarrow> json \<Rightarrow> nat \<Rightarrow> json \<Rightarrow> string list \<Rightarrow> IngestError + json" where
  "inline_local_refs C base 0 v stack = Inl InvalidAsyncApi"
| "inline_local_refs C base (Suc levels) v stack =
     (case get_str v ''$ref'' of
        Some reference \<Rightarrow>
          and_then (ok_or (strip_prefix ''#'' reference) InvalidAsyncApi) (\<lambda>pointer.
          if reference \<in> set stack then Inl InvalidAsyncApi
          else and_then (ok_or (json_pointer C base pointer) InvalidAsyncApi) (\<lambda>target.
               inline_local_refs C base levels target (reference # stack)))
      | None \<Rightarrow>
          (case v of
             JObject m \<Rightarrow>
               and_then (map_each (\<lambda>(name, child).
                   and_then (inline_local_refs C base levels child stack) (\<lambda>c. Inr (name, c))) m) (\<lambda>m'. Inr (JObject m'))
           | JArray xs \<Rightarrow>
               and_then (map_each (\<lambda>child. inline_local_refs C base levels child stack) xs) (\<lambda>xs'. Inr (JArray xs'))
           | _ \<Rightarrow> Inr v))"

definition inline_levels :: nat where "inline_levels = 65"

definition ref_tail :: "json \<Rightarrow> string option" where
  "ref_tail v = map_option (\<lambda>r. last (split_char CHR ''/'' r)) (get_str v ''$ref'')"

definition or_option :: "'a option \<Rightarrow> 'a option \<Rightarrow> 'a option" where
  "or_option x y = (case x of None \<Rightarrow> y | Some _ \<Rightarrow> x)"

definition unwrap_or :: "'a option \<Rightarrow> 'a \<Rightarrow> 'a" where
  "unwrap_or x d = (case x of None \<Rightarrow> d | Some y \<Rightarrow> y)"

subsection \<open>The document\<close>

text \<open>\<open>parsed\<close> is what \<open>parse_data_document\<close> returns for the bytes.\<close>

definition load_asyncapi :: "crates \<Rightarrow> IngestError + json \<Rightarrow> bytes \<Rightarrow> IngestError + AsyncApiSource" where
  "load_asyncapi C parsed byts =
     and_then parsed (\<lambda>document.
     and_then (ok_or (get_str document ''asyncapi'') InvalidAsyncApi) (\<lambda>version.
     and_then (ensure (starts_with version ''2.6.'' \<or> starts_with version ''3.0.'') InvalidAsyncApi) (\<lambda>_.
     and_then (validate_references C document reference_levels document) (\<lambda>_.
     Inr \<lparr>as_document = document, as_source_fingerprint = digest C byts,
          as_source_handle = short_handle C ''src'' [byts], as_version = version\<rparr>))))"

definition is_version2 :: "AsyncApiSource \<Rightarrow> bool" where
  "is_version2 source = starts_with (as_version source) ''2.6.''"

subsection \<open>What an operation cannot express\<close>

definition absence :: "string \<Rightarrow> string \<Rightarrow> string \<Rightarrow> bool \<Rightarrow> AbsentCapability" where
  "absence capability reason location blocking =
     \<lparr>ac_capability = capability, ac_reason = reason, ac_location = location,
      ac_severity = (if blocking then SeverityError else Warning), ac_blocking = blocking\<rparr>"

definition scan_bindings :: "json option \<Rightarrow> string \<Rightarrow> AbsentCapability list" where
  "scan_bindings bindings location =
     (case Option.bind bindings as_object of
        None \<Rightarrow> []
      | Some m \<Rightarrow>
          [absence ''asyncapi-protocol-binding'' (''binding '' @ debug_token name @ '' is outside the WebSocket subset'')
             (location @ ''/'' @ escape_pointer name) True. (name, _) \<leftarrow> m, name \<noteq> ''ws'']
          @ (case Option.bind (map_of m ''ws'') as_object of
               None \<Rightarrow> []
             | Some ws \<Rightarrow>
                 [absence ''asyncapi-websocket-binding'' (''WebSocket binding field '' @ debug_token name @ '' is unsupported'')
                    (location @ ''/ws/'' @ escape_pointer name) True.
                  (name, _) \<leftarrow> ws, name \<noteq> ''headers'' \<and> name \<noteq> ''bindingVersion'']))"

definition concrete_example :: "json \<Rightarrow> json option" where
  "concrete_example message =
     or_option
       (Option.bind (get_array message ''examples'') (\<lambda>xs.
        case xs of [] \<Rightarrow> None | x # _ \<Rightarrow> json_get x ''payload''))
       (Option.bind (json_get message ''payload'') (\<lambda>payload.
        or_option (json_get payload ''example'') (or_option (json_get payload ''default'') (json_get payload ''const''))))"

definition has_field :: "json \<Rightarrow> string \<Rightarrow> bool" where
  "has_field v name = (json_get v name \<noteq> None)"

definition has_traits :: "json \<Rightarrow> bool" where
  "has_traits v = (case get_array v ''traits'' of None \<Rightarrow> False | Some xs \<Rightarrow> xs \<noteq> [])"

definition foreign_format :: "json \<Rightarrow> string option" where
  "foreign_format message =
     (case get_str message ''schemaFormat'' of
        None \<Rightarrow> None
      | Some format \<Rightarrow> if contains_str format ''schema+json'' \<or> contains_str format ''json-schema'' then None else Some format)"

definition only_if :: "bool \<Rightarrow> 'a \<Rightarrow> 'a list" where
  "only_if b x = (if b then [x] else [])"

definition trait_absent :: "string \<Rightarrow> json \<Rightarrow> string \<Rightarrow> AbsentCapability list" where
  "trait_absent owner v location =
     only_if (has_traits v)
       (absence ''asyncapi-traits'' (owner @ '' traits are not applied by the finite WebSocket subset'')
          (location @ ''/traits'') True)"

definition operation_absent :: "string \<Rightarrow> json \<Rightarrow> json \<Rightarrow> json \<Rightarrow> string \<Rightarrow> AbsentCapability list" where
  "operation_absent action operation channel message location =
     only_if (has_field message ''headers'')
       (absence ''asyncapi-message-headers''
          ''message headers are envelope metadata and cannot be represented by a raw WebSocket frame''
          (location @ ''/message/headers'') True)
     @ only_if (has_field message ''correlationId'')
         (absence ''asyncapi-correlation-id'' ''correlation metadata cannot be enforced by the raw WebSocket executor''
            (location @ ''/message/correlationId'') True)
     @ only_if (has_field operation ''reply'')
         (absence ''asyncapi-reply'' ''reply ordering requires explicit x-kahea-actions''
            (location @ ''/reply'') (\<not> has_field operation ''x-kahea-actions''))
     @ trait_absent ''operation'' operation location
     @ trait_absent ''message'' message (location @ ''/message'')
     @ (case foreign_format message of
          None \<Rightarrow> []
        | Some format \<Rightarrow>
            [absence ''asyncapi-schema-format''
               (''schema format '' @ debug_token format @ '' is outside the JSON Schema subset'')
               (location @ ''/message/schemaFormat'') True])
     @ only_if (action = ''send'' \<and> concrete_example message = None \<and> \<not> has_field operation ''x-kahea-actions'')
         (absence ''asyncapi-send-payload''
            ''a finite send requires a message example, payload example/default/const, or x-kahea-actions''
            (location @ ''/message/payload'') True)
     @ only_if (action = ''receive'' \<and> \<not> has_field message ''payload'' \<and> concrete_example message = None
                \<and> \<not> has_field operation ''x-kahea-actions'')
         (absence ''asyncapi-receive-contract''
            ''a finite receive requires a payload schema/example or x-kahea-actions''
            (location @ ''/message/payload'') True)
     @ scan_bindings (json_get operation ''bindings'') (location @ ''/bindings'')
     @ scan_bindings (json_get channel ''bindings'') (location @ ''/channel/bindings'')
     @ scan_bindings (json_get message ''bindings'') (location @ ''/message/bindings'')"

definition server_names :: "json \<Rightarrow> json \<Rightarrow> json \<Rightarrow> string list" where
  "server_names document operation channel =
     (case Option.bind (or_option (json_get operation ''servers'') (json_get channel ''servers'')) as_array of
        Some vs \<Rightarrow> List.map_filter (\<lambda>v. or_option (as_str v) (ref_tail v)) vs
      | None \<Rightarrow> (case get_object document ''servers'' of None \<Rightarrow> [] | Some servers \<Rightarrow> map fst servers))"

definition server_location :: "string \<Rightarrow> string" where
  "server_location name = ''#/servers/'' @ escape_pointer name"

definition declared_server :: "json \<Rightarrow> string \<Rightarrow> json option" where
  "declared_server document name = Option.bind (json_get document ''servers'') (\<lambda>servers. json_get servers name)"

definition websocket_protocol :: "string \<Rightarrow> bool" where
  "websocket_protocol protocol = (protocol = ''ws'' \<or> protocol = ''wss'')"

definition server_absent :: "crates \<Rightarrow> nat \<Rightarrow> json \<Rightarrow> string \<Rightarrow> AbsentCapability list ingest" where
  "server_absent C n document name =
     (case declared_server document name of
        None \<Rightarrow> Inr []
      | Some declared \<Rightarrow>
          and_then (resolve_local C n document declared) (\<lambda>server.
          let protocol = unwrap_or (get_str server ''protocol'') [] in
          Inr (only_if (\<not> websocket_protocol protocol)
                 (absence ''asyncapi-server-protocol''
                    (''server '' @ debug_token name @ '' uses protocol '' @ debug_token protocol
                       @ '', outside the WebSocket subset'')
                    (server_location name @ ''/protocol'') False)
               @ scan_bindings (json_get server ''bindings'') (server_location name @ ''/bindings''))))"

subsection \<open>Operations\<close>

definition make_operation ::
  "crates \<Rightarrow> nat \<Rightarrow> AsyncApiSource \<Rightarrow> string \<Rightarrow> string \<Rightarrow> string \<Rightarrow> string \<Rightarrow> json \<Rightarrow> json \<Rightarrow> string \<Rightarrow> json \<Rightarrow> string
     \<Rightarrow> AsyncApiOperation ingest" where
  "make_operation C n source operation_id action channel_name channel_address operation channel message_name message
     location =
     (let names = server_names (as_document source) operation channel in
      and_then (map_each (server_absent C n (as_document source)) names) (\<lambda>absents.
      Inr \<lparr>ao_handle = short_handle C ''op''
             [as_bytes (as_source_fingerprint source), as_bytes action, as_bytes channel_name, as_bytes operation_id,
              as_bytes message_name],
           ao_operation_id = operation_id, ao_action = action, ao_channel_name = channel_name,
           ao_channel_address = channel_address, ao_server_names = names, ao_message_name = message_name,
           ao_message = message, ao_operation = operation, ao_channel = channel, ao_location = location,
           ao_absent = operation_absent action operation channel message location @ concat absents\<rparr>))"

definition variant_id :: "string \<Rightarrow> string \<Rightarrow> nat \<Rightarrow> nat \<Rightarrow> string" where
  "variant_id base name index count =
     (if count = 1 then base else base @ ''#'' @ name @ ''-'' @ show_nat (index + 1))"

definition message_variants :: "crates \<Rightarrow> nat \<Rightarrow> json \<Rightarrow> json \<Rightarrow> (string \<times> json) list ingest" where
  "message_variants C n document raw =
     and_then (resolve_local C n document raw) (\<lambda>resolved.
     map_each (\<lambda>(index, v).
       and_then (resolve_local C n document v) (\<lambda>message.
       Inr (unwrap_or (or_option (get_str message ''name'') (ref_tail v)) (''message-'' @ show_nat (index + 1)), message)))
       (enumerate 0 (unwrap_or (get_array resolved ''oneOf'') [raw])))"

text \<open>Version 2.6: the operations of a channel by verb.\<close>

definition verb_operations ::
  "crates \<Rightarrow> nat \<Rightarrow> AsyncApiSource \<Rightarrow> string \<Rightarrow> json \<Rightarrow> string \<times> string \<Rightarrow> AsyncApiOperation list ingest" where
  "verb_operations C n source channel_name channel = (\<lambda>(verb, action).
     case json_get channel verb of
       None \<Rightarrow> Inr []
     | Some raw_operation \<Rightarrow>
         and_then (resolve_local C n (as_document source) raw_operation) (\<lambda>operation.
         and_then (ok_or (json_get operation ''message'') (Some InvalidAsyncApi)) (\<lambda>raw_message.
         and_then (message_variants C n (as_document source) raw_message) (\<lambda>messages.
         map_each (\<lambda>(index, message_name, message).
           make_operation C n source
             (variant_id (unwrap_or (get_str operation ''operationId'') (verb @ '':'' @ channel_name))
                message_name index (length messages))
             action channel_name channel_name operation channel message_name message
             (''#/channels/'' @ escape_pointer channel_name @ ''/'' @ verb))
           (enumerate 0 messages)))))"

definition collect_v2 :: "crates \<Rightarrow> nat \<Rightarrow> AsyncApiSource \<Rightarrow> AsyncApiOperation list ingest" where
  "collect_v2 C n source =
     and_then (ok_or (get_object (as_document source) ''channels'') (Some InvalidAsyncApi)) (\<lambda>channels.
     and_then (map_each (\<lambda>(channel_name, raw_channel).
         and_then (resolve_local C n (as_document source) raw_channel) (\<lambda>channel.
         and_then (map_each (verb_operations C n source channel_name channel)
                     [(''publish'', ''send''), (''subscribe'', ''receive'')]) (\<lambda>oss.
         Inr (concat oss)))) channels) (\<lambda>per_channel.
     Inr (concat per_channel)))"

text \<open>Version 3.0: operations name their channel and their messages; \<open>operation["channel"]\<close> of an object
  without that member is \<open>Null\<close>.\<close>

definition named_operations ::
  "crates \<Rightarrow> nat \<Rightarrow> AsyncApiSource \<Rightarrow> string \<times> json \<Rightarrow> AsyncApiOperation list ingest" where
  "named_operations C n source = (\<lambda>(name, raw_operation).
     and_then (resolve_local C n (as_document source) raw_operation) (\<lambda>operation.
     and_then (ok_or (get_str operation ''action'') (Some InvalidAsyncApi)) (\<lambda>action.
     and_then (ensure (action = ''send'' \<or> action = ''receive'') (Some InvalidAsyncApi)) (\<lambda>_.
     let declared = unwrap_or (json_get operation ''channel'') JNull;
         channel_name = unwrap_or (ref_tail declared) name in
     and_then (resolve_local C n (as_document source) declared) (\<lambda>channel.
     and_then (ok_or (get_array operation ''messages'') (Some InvalidAsyncApi)) (\<lambda>raw_messages.
     and_then (ensure (raw_messages \<noteq> []) (Some InvalidAsyncApi)) (\<lambda>_.
     map_each (\<lambda>(index, raw_message).
       and_then (resolve_local C n (as_document source) raw_message) (\<lambda>message.
       let message_name = unwrap_or (or_option (get_str message ''name'') (ref_tail raw_message)) ''message'' in
       make_operation C n source (variant_id name message_name index (length raw_messages)) action channel_name
         (unwrap_or (get_str channel ''address'') channel_name) operation channel message_name message
         (''#/operations/'' @ escape_pointer name)))
       (enumerate 0 raw_messages))))))))"

definition collect_v3 :: "crates \<Rightarrow> nat \<Rightarrow> AsyncApiSource \<Rightarrow> AsyncApiOperation list ingest" where
  "collect_v3 C n source =
     and_then (ok_or (get_object (as_document source) ''operations'') (Some InvalidAsyncApi)) (\<lambda>operations.
     and_then (ensure (list_all (\<lambda>(_, operation). has_field operation ''channel'') operations) (Some InvalidAsyncApi)) (\<lambda>_.
     and_then (map_each (named_operations C n source) operations) (\<lambda>per_operation.
     Inr (concat per_operation))))"

definition asyncapi_operations :: "crates \<Rightarrow> nat \<Rightarrow> AsyncApiSource \<Rightarrow> AsyncApiOperation list ingest" where
  "asyncapi_operations C n source = (if is_version2 source then collect_v2 C n source else collect_v3 C n source)"

definition selects_asyncapi :: "string \<Rightarrow> AsyncApiOperation \<Rightarrow> bool" where
  "selects_asyncapi selector operation =
     (ao_handle operation = selector \<or> ao_operation_id operation = selector
      \<or> (case split_once ''#'' (ao_operation_id operation) of None \<Rightarrow> False | Some (base, _) \<Rightarrow> base = selector))"

definition resolve_asyncapi_operation :: "crates \<Rightarrow> nat \<Rightarrow> AsyncApiSource \<Rightarrow> string \<Rightarrow> AsyncApiOperation ingest" where
  "resolve_asyncapi_operation C n source selector =
     and_then (asyncapi_operations C n source) (\<lambda>operations.
     case filter (selects_asyncapi selector) operations of
       [] \<Rightarrow> Inl (Some (UnknownOperation selector))
     | [operation] \<Rightarrow> Inr operation
     | _ \<Rightarrow> Inl (Some (AmbiguousOperation selector)))"

subsection \<open>The index\<close>

definition asyncapi_key :: "AsyncApiOperation \<Rightarrow> string list" where
  "asyncapi_key o' =
     [ao_channel_address o', ao_action o', ao_operation_id o', ao_message_name o', ao_handle o']"

definition matches_asyncapi :: "string \<Rightarrow> AsyncApiOperation \<Rightarrow> bool" where
  "matches_asyncapi query o' =
     (query = []
      \<or> list_ex (\<lambda>v. contains_str (to_ascii_lowercase v) query)
          [ao_handle o', ao_operation_id o', ao_channel_name o', ao_channel_address o', ao_message_name o', ao_action o'])"

definition action_risk :: "AsyncApiOperation \<Rightarrow> RiskClass" where
  "action_risk o' = (if ao_action o' = ''send'' then Write else Unknown)"

definition asyncapi_summary :: "AsyncApiOperation \<Rightarrow> OperationSummary" where
  "asyncapi_summary o' =
     OperationSummary (ao_handle o') (to_ascii_uppercase (ao_action o')) (ao_channel_address o') (ao_operation_id o')
       (action_risk o')"

definition absent_key :: "AbsentCapability \<Rightarrow> string list" where
  "absent_key a = [ac_location a, ac_capability a, ac_reason a]"

fun dedup_absent :: "AbsentCapability list \<Rightarrow> AbsentCapability list" where
  "dedup_absent (a # b # rest) =
     (if absent_key a = absent_key b then dedup_absent (a # rest) else a # dedup_absent (b # rest))"
| "dedup_absent rest = rest"

definition inspect_asyncapi ::
  "crates \<Rightarrow> nat \<Rightarrow> IngestError + json \<Rightarrow> bytes \<Rightarrow> string option \<Rightarrow> nat \<Rightarrow> nat \<Rightarrow> OperationIndexEnvelope ingest" where
  "inspect_asyncapi C n parsed byts query limit cursor =
     and_then (map_err Some (load_asyncapi C parsed byts)) (\<lambda>source.
     and_then (asyncapi_operations C n source) (\<lambda>collected.
     let operations = sort_key asyncapi_key collected;
         query = to_ascii_lowercase (trim (unwrap_or query []));
         filtered = filter (matches_asyncapi query) operations;
         stop = min (cursor + limit) (length filtered)
     in if length filtered < cursor then Inl (Some (InvalidCursor cursor (length filtered)))
        else Inr
          \<lparr>oi_protocol = PROTOCOL, oi_kind = ''operation-index'', oi_version = VERSION,
           oi_config_fingerprint = default_config_fingerprint C, oi_source_fingerprints = [as_source_fingerprint source],
           oi_source = as_source_handle source,
           oi_operations = map asyncapi_summary (take limit (drop cursor filtered)),
           oi_next = (if stop < length filtered then Some (show_nat stop) else None),
           oi_absent = dedup_absent (sort_key absent_key (concat (map ao_absent operations))), oi_exit = 0\<rparr>))"

end
