(* ===== verification/Asyncapi_Compile.thy ===== *)
theory Asyncapi_Compile
  imports Asyncapi
begin

text \<open>
  Compilation of an AsyncAPI operation to a WebSocket session (\<open>asyncapi.rs\<close>, \<open>compile_asyncapi_websocket\<close>) and
  the plan of it (\<open>kahea-plan\<close>, \<open>build_asyncapi_websocket_plan_with_configuration\<close>).  What \<open>serde\<close> makes of
  \<open>x-kahea-actions\<close> and \<open>x-kahea-limits\<close> are arguments.
\<close>

subsection \<open>Server and variables\<close>

definition select_asyncapi_server :: "AsyncApiOperation \<Rightarrow> string option \<Rightarrow> IngestError + string" where
  "select_asyncapi_server operation selector =
     (case selector of
        Some name \<Rightarrow> if name \<in> set (ao_server_names operation) then Inr name else Inl InvalidAsyncApi
      | None \<Rightarrow> (case ao_server_names operation of [name] \<Rightarrow> Inr name | _ \<Rightarrow> Inl InvalidAsyncApi))"

fun scalar_text :: "plan_env \<Rightarrow> json \<Rightarrow> string option" where
  "scalar_text E (JString s) = Some s"
| "scalar_text E (JNumber n) = Some (pe_number_text E n)"
| "scalar_text E (JBool b) = Some (if b then ''true'' else ''false'')"
| "scalar_text E _ = None"

text \<open>The names between braces, from left to right.\<close>

function placeholders :: "string \<Rightarrow> IngestError + string list" where
  "placeholders [] = Inr []"
| "placeholders (c # s) =
     (if c = CHR ''{''
      then (case split_once ''}'' s of
              None \<Rightarrow> Inl InvalidAsyncApi
            | Some (name, rest) \<Rightarrow> and_then (placeholders rest) (\<lambda>names. Inr (name # names)))
      else placeholders s)"
  by pat_completeness auto
termination
  by (relation "measure length") (auto dest!: split_once_Some)

definition schema_field :: "json \<Rightarrow> string \<Rightarrow> json option" where
  "schema_field definition' key =
     or_option (json_get definition' key) (Option.bind (json_get definition' ''schema'') (\<lambda>schema. json_get schema key))"

definition variable_text ::
  "plan_env \<Rightarrow> (string \<times> json) list option \<Rightarrow> string \<Rightarrow> (string \<times> json) list \<Rightarrow> string \<Rightarrow> IngestError + string" where
  "variable_text E definitions owner vals name =
     (let definition' = Option.bind definitions (\<lambda>m. map_of m name) in
      and_then (ok_or (or_option (map_of vals (owner @ ''.'' @ name))
                         (Option.bind definition' (\<lambda>d. schema_field d ''default''))) InvalidAsyncApi) (\<lambda>selected.
      and_then (ensure (case Option.bind (Option.bind definition' (\<lambda>d. schema_field d ''enum'')) as_array of
                          None \<Rightarrow> True | Some allowed \<Rightarrow> selected \<in> set allowed) InvalidAsyncApi) (\<lambda>_.
      ok_or (scalar_text E selected) InvalidAsyncApi)))"

definition substitute_variables ::
  "plan_env \<Rightarrow> string \<Rightarrow> json option \<Rightarrow> string \<Rightarrow> (string \<times> json) list \<Rightarrow> IngestError + string" where
  "substitute_variables E target definitions owner vals =
     and_then (placeholders target) (\<lambda>names.
     for_each (\<lambda>name t.
         and_then (variable_text E (Option.bind definitions as_object) owner vals name) (\<lambda>selected.
         Inr (replace_str (braced name) selected t)))
       (sort (remdups names)) target)"

definition join_address :: "string \<Rightarrow> string \<Rightarrow> string" where
  "join_address url address =
     (if address = [] then url
      else let slashed = (if \<not> ends_with url ''/'' \<and> \<not> starts_with address ''/'' then url @ ''/'' else url);
               single = (if ends_with slashed ''/'' \<and> starts_with address ''/'' then butlast slashed else slashed)
           in single @ address)"

definition server_url :: "AsyncApiSource \<Rightarrow> json \<Rightarrow> string" where
  "server_url source server =
     (if is_version2 source then unwrap_or (get_str server ''url'') []
      else unwrap_or (get_str server ''protocol'') [] @ ''://'' @ unwrap_or (get_str server ''host'') []
             @ unwrap_or (get_str server ''pathname'') [])"

definition server_protocol :: "json \<Rightarrow> string \<Rightarrow> string" where
  "server_protocol server url =
     unwrap_or (get_str server ''protocol'')
       (if starts_with url ''wss://'' then ''wss'' else if starts_with url ''ws://'' then ''ws'' else [])"

subsection \<open>Headers and extensions\<close>

definition binding_header ::
  "plan_env \<Rightarrow> string list \<Rightarrow> string \<times> json \<Rightarrow> (string \<times> string) list \<Rightarrow> (string \<times> string) list ingest" where
  "binding_header E required = (\<lambda>(name, schema) output.
     case Option.bind (or_option (json_get schema ''default'') (json_get schema ''example'')) (scalar_text E) of
       Some v \<Rightarrow>
         if map_of output name \<noteq> None \<and> map_of output name \<noteq> Some v then invalid else Inr (map_insert name v output)
     | None \<Rightarrow> if name \<in> set required then invalid else Inr output)"

definition collect_binding_headers ::
  "crates \<Rightarrow> plan_env \<Rightarrow> nat \<Rightarrow> json \<Rightarrow> json option \<Rightarrow> (string \<times> string) list \<Rightarrow> (string \<times> string) list ingest" where
  "collect_binding_headers C E n document bindings output =
     (case Option.bind (Option.bind bindings (\<lambda>b. json_get b ''ws'')) (\<lambda>ws. json_get ws ''headers'') of
        None \<Rightarrow> Inr output
      | Some declared \<Rightarrow>
          and_then (resolve_local C n document declared) (\<lambda>headers.
          for_each (binding_header E (List.map_filter as_str (unwrap_or (get_array headers ''required'') [])))
            (unwrap_or (get_object headers ''properties'') []) output))"

definition extension_strings :: "json \<Rightarrow> string \<Rightarrow> string list option" where
  "extension_strings v name = map_option (List.map_filter as_str) (get_array v name)"

definition session_subprotocols :: "AsyncApiOperation \<Rightarrow> json \<Rightarrow> string list" where
  "session_subprotocols operation server =
     unwrap_or (or_option (extension_strings (ao_operation operation) ''x-kahea-subprotocols'')
       (or_option (extension_strings (ao_channel operation) ''x-kahea-subprotocols'')
          (extension_strings server ''x-kahea-subprotocols''))) []"

definition session_origin :: "AsyncApiOperation \<Rightarrow> json \<Rightarrow> string option" where
  "session_origin operation server =
     or_option (get_str (ao_operation operation) ''x-kahea-origin'')
       (or_option (get_str (ao_channel operation) ''x-kahea-origin'') (get_str server ''x-kahea-origin''))"

subsection \<open>Security\<close>

definition required_schemes :: "AsyncApiOperation \<Rightarrow> json \<Rightarrow> string list" where
  "required_schemes operation server =
     (let requirements = or_option (json_get (ao_operation operation) ''security'') (json_get server ''security'') in
      sort (remdups (concat (map (map fst)
        (List.map_filter as_object (unwrap_or (Option.bind requirements as_array) []))))))"

definition supported_scheme :: "json \<Rightarrow> bool" where
  "supported_scheme declared =
     (case get_str declared ''type'' of
        None \<Rightarrow> False
      | Some kind \<Rightarrow>
          if kind = ''http''
          then (case get_str declared ''scheme'' of
                  None \<Rightarrow> False
                | Some v \<Rightarrow> to_ascii_lowercase v = ''basic'' \<or> to_ascii_lowercase v = ''bearer'')
          else kind = ''X509'')"

definition select_auth_profile ::
  "crates \<Rightarrow> AsyncApiSource \<Rightarrow> AsyncApiOperation \<Rightarrow> json \<Rightarrow> string option \<Rightarrow> IngestError + string option" where
  "select_auth_profile C source operation server selector =
     (let schemes = required_schemes operation server in
      if schemes = [] then Inr selector
      else and_then (ok_or selector InvalidAsyncApi) (\<lambda>selector.
           and_then (ok_or (split_once ''='' selector) InvalidAsyncApi) (\<lambda>(scheme, profile).
           and_then (ensure (scheme \<in> set schemes) InvalidAsyncApi) (\<lambda>_.
           and_then (ok_or (json_pointer C (as_document source) (''/components/securitySchemes/'' @ escape_pointer scheme))
                       InvalidAsyncApi) (\<lambda>declared.
           and_then (ensure (supported_scheme declared) InvalidAsyncApi) (\<lambda>_.
           Inr (Some profile)))))))"

subsection \<open>Actions\<close>

definition message_action :: "crates \<Rightarrow> json \<Rightarrow> AsyncApiOperation \<Rightarrow> IngestError + WebSocketAction" where
  "message_action C document operation =
     (let message = ao_message operation;
          json_content = contains_str (unwrap_or (get_str message ''contentType'') ''application/json'') ''json'';
          example = concrete_example message in
      if ao_action operation = ''send''
      then and_then (ok_or example InvalidAsyncApi) (\<lambda>example.
           if json_content \<or> as_str example = None
           then and_then (ok_or (json_to_vec C example) InvalidAsyncApi) (\<lambda>txt. Inr (SendText (from_bytes txt)))
           else Inr (SendText (unwrap_or (as_str example) [])))
      else if json_content
      then and_then (case json_get message ''payload'' of
                       None \<Rightarrow> Inr None
                     | Some schema \<Rightarrow>
                         and_then (inline_local_refs C document inline_levels schema []) (\<lambda>s. Inr (Some s))) (\<lambda>schema.
           Inr (ExpectJson None example schema None))
      else (case Option.bind example as_str of
              Some txt \<Rightarrow> Inr (ExpectText txt None)
            | None \<Rightarrow> Inl InvalidAsyncApi))"

definition operation_actions ::
  "crates \<Rightarrow> (json \<Rightarrow> WebSocketAction list option) \<Rightarrow> json \<Rightarrow> AsyncApiOperation \<Rightarrow> IngestError + WebSocketAction list" where
  "operation_actions C de_actions document operation =
     (case json_get (ao_operation operation) ''x-kahea-actions'' of
        Some actions \<Rightarrow> ok_or (de_actions actions) InvalidAsyncApi
      | None \<Rightarrow> and_then (message_action C document operation) (\<lambda>a. Inr [a, Close 1000 ''complete'']))"

subsection \<open>The session\<close>

definition refuse_blocking :: "AbsentCapability list \<Rightarrow> unit ingest" where
  "refuse_blocking absents = ensure (\<not> list_ex ac_blocking absents) (Some InvalidAsyncApi)"

definition compile_asyncapi_websocket ::
  "crates \<Rightarrow> plan_env \<Rightarrow> (json \<Rightarrow> WebSocketAction list option) \<Rightarrow> nat \<Rightarrow> AsyncApiSource \<Rightarrow> AsyncApiOperation
     \<Rightarrow> string option \<Rightarrow> string option \<Rightarrow> (string \<times> json) list \<Rightarrow> WebSocketLimits \<Rightarrow> WebSocketSessionSource ingest" where
  "compile_asyncapi_websocket C E de_actions n source operation server_selector auth_selector vals limits =
     (let document = as_document source in
      and_then (refuse_blocking (ao_absent operation)) (\<lambda>_.
      and_then (map_err Some (select_asyncapi_server operation server_selector)) (\<lambda>server_name.
      and_then (ok_or (declared_server document server_name) (Some InvalidAsyncApi)) (\<lambda>declared.
      and_then (resolve_local C n document declared) (\<lambda>server.
      and_then (refuse_blocking (scan_bindings (json_get server ''bindings'') (server_location server_name @ ''/bindings'')))
        (\<lambda>_.
      let template = server_url source server in
      and_then (ensure (websocket_protocol (server_protocol server template)) (Some InvalidAsyncApi)) (\<lambda>_.
      and_then (map_err Some (substitute_variables E template (json_get server ''variables'') ''server'' vals)) (\<lambda>url.
      and_then (map_err Some (substitute_variables E (ao_channel_address operation)
                  (json_get (ao_channel operation) ''parameters'') ''channel'' vals)) (\<lambda>address.
      and_then (collect_binding_headers C E n document (json_get server ''bindings'') []) (\<lambda>headers.
      and_then (collect_binding_headers C E n document (json_get (ao_channel operation) ''bindings'') headers) (\<lambda>headers.
      and_then (collect_binding_headers C E n document (json_get (ao_operation operation) ''bindings'') headers) (\<lambda>headers.
      and_then (map_err Some (select_auth_profile C source operation server auth_selector)) (\<lambda>auth.
      and_then (map_err Some (operation_actions C de_actions document operation)) (\<lambda>actions.
      Inr \<lparr>ss_kind = ''websocket-session'', ss_version = 1, ss_operation_id = ao_operation_id operation,
           ss_url = join_address url address, ss_risk = Some (action_risk operation), ss_headers = headers,
           ss_auth = auth, ss_origin = session_origin operation server,
           ss_subprotocols = session_subprotocols operation server, ss_limits = limits, ss_actions = actions\<rparr>))))))))))))))"

subsection \<open>The plan\<close>

definition plan_result :: "'a ingest \<Rightarrow> 'a fuelled" where
  "plan_result r =
     (case r of Inl None \<Rightarrow> None | Inl (Some _) \<Rightarrow> Some (Inl InvalidWebSocketSource) | Inr x \<Rightarrow> Some (Inr x))"

definition requested_limits ::
  "(json \<Rightarrow> WebSocketLimits option) \<Rightarrow> AsyncApiSource \<Rightarrow> AsyncApiOperation \<Rightarrow> ProjectConfiguration
     \<Rightarrow> PlanError + WebSocketLimits" where
  "requested_limits de_limits source operation configuration =
     (case or_option (json_get (ao_operation operation) ''x-kahea-limits'')
             (json_get (as_document source) ''x-kahea-limits'') of
        Some v \<Rightarrow> ok_or (de_limits v) InvalidWebSocketSource
      | None \<Rightarrow> Inr (websocket_limits_from_policy (wsp_max_limits (pol_websocket (cfg_policy configuration)))))"

definition explicit_values :: "(string \<times> json) list \<Rightarrow> (string \<times> json) list" where
  "explicit_values explicit = fold (\<lambda>(key, v). map_insert key v) explicit []"

definition build_asyncapi_websocket_plan_with_configuration ::
  "crates \<Rightarrow> plan_env \<Rightarrow> (json \<Rightarrow> WebSocketAction list option) \<Rightarrow> (json \<Rightarrow> WebSocketLimits option) \<Rightarrow> nat
     \<Rightarrow> IngestError + json \<Rightarrow> bytes \<Rightarrow> string \<Rightarrow> PlanOptions \<Rightarrow> ProjectConfiguration \<Rightarrow> WebSocketPlan fuelled" where
  "build_asyncapi_websocket_plan_with_configuration C E de_actions de_limits n parsed byts selector options
     configuration =
     (if po_input options \<noteq> None \<or> po_content_type options \<noteq> None \<or> po_checks options \<noteq> []
      then Some (Inl InvalidWebSocketSource)
      else then_do (plan_result (map_err Some (load_asyncapi C parsed byts))) (\<lambda>source.
           then_do (plan_result (resolve_asyncapi_operation C n source selector)) (\<lambda>operation.
           let vals = explicit_values (po_explicit options) in
           if list_ex (\<lambda>(key, _). \<not> starts_with key ''server.'' \<and> \<not> starts_with key ''channel.'') vals
           then Some (Inl InvalidWebSocketSource)
           else then_do (Some (requested_limits de_limits source operation configuration)) (\<lambda>limits.
                then_do (plan_result (compile_asyncapi_websocket C E de_actions n source operation (po_server options)
                           (po_auth options) vals limits)) (\<lambda>compiled.
                Some (seal_websocket_source C E compiled [as_source_fingerprint source] (ao_handle operation)
                        configuration))))))"

end
