(* ===== verification/Asyncapi_Props.thy ===== *)
theory Asyncapi_Props
  imports Asyncapi_Compile Http_Planner_Props Ws_Planner_Props
begin

text \<open>
  What AsyncAPI ingestion guarantees: references stay inside the document and resolving them ends; what a session
  cannot express is refused; variables, headers and security of the source reach the session.
\<close>

lemma map_each_Inr: "map_each f xs = Inr ys \<longleftrightarrow> list_all2 (\<lambda>x y. f x = Inr y) xs ys"
  by (induction xs arbitrary: ys) (auto simp: and_then_Inr_iff list_all2_Cons1)

lemma map_each_Inl: "map_each f xs = Inl e \<Longrightarrow> \<exists>x \<in> set xs. f x = Inl e"
  by (induction xs) (auto simp: and_then_Inl_iff)

lemma map_each_member: "map_each f xs = Inr ys \<Longrightarrow> y \<in> set ys \<Longrightarrow> \<exists>x \<in> set xs. f x = Inr y"
  by (auto simp: map_each_Inr dest: list_all2_member)

lemma option_helpers [simp]:
  "or_option None y = y" "or_option (Some a) y = Some a" "unwrap_or None d = d" "unwrap_or (Some a) d = a"
  "only_if True x = [x]" "only_if False x = []"
  by (simp_all add: or_option_def unwrap_or_def only_if_def)

subsection \<open>References\<close>

fun subvalues :: "json \<Rightarrow> json list" where
  "subvalues (JArray vs) = JArray vs # concat (map subvalues vs)"
| "subvalues (JObject m) = JObject m # concat (map (\<lambda>(k, v). subvalues v) m)"
| "subvalues v = [v]"

definition references :: "json \<Rightarrow> string set" where
  "references document = set (List.map_filter (\<lambda>v. get_str v ''$ref'') (subvalues document))"

text \<open>What is documented of \<open>serde_json\<close>'s \<open>pointer\<close>: it returns a part of the value.\<close>

definition points_inside :: "crates \<Rightarrow> json \<Rightarrow> bool" where
  "points_inside C document = (\<forall>p v. json_pointer C document p = Some v \<longrightarrow> v \<in> set (subvalues document))"

definition reference_fuel :: "json \<Rightarrow> nat" where
  "reference_fuel document = card (references document) + 2"

definition refers :: "crates \<Rightarrow> json \<Rightarrow> json \<Rightarrow> json \<Rightarrow> bool" where
  "refers C document v w =
     (\<exists>p. get_str v ''$ref'' = Some (''#'' @ p) \<and> json_pointer C document p = Some w)"

lemma hash_stripped [simp]: "strip_prefix ''#'' (CHR ''#'' # p) = Some p"
  by (simp add: strip_prefix_Some)

lemma finite_references [simp]: "finite (references document)"
  by (simp add: references_def)

lemma refers_deterministic: "refers C d v w \<Longrightarrow> refers C d v w' \<Longrightarrow> w = w'"
  by (auto simp: refers_def)

lemma references_iff: "r \<in> references d \<longleftrightarrow> (\<exists>v \<in> set (subvalues d). get_str v ''$ref'' = Some r)"
  by (force simp: references_def map_filter_def)

lemma pointed_reference:
  "points_inside C d \<Longrightarrow> json_pointer C d p = Some v \<Longrightarrow> get_str v ''$ref'' = Some r \<Longrightarrow> r \<in> references d"
  by (auto simp: points_inside_def references_iff)

text \<open>Every reference but the first one is of the document, so the set of followed references cannot outgrow it.\<close>

lemma follow_refs_returns:
  assumes "points_inside C d" and "\<forall>r. get_str v ''$ref'' = Some r \<longrightarrow> r \<in> references d"
    and "card (references d - set seen) < n"
  shows "follow_refs C d n v seen \<noteq> Inl None"
  using assms(2-)
proof (induction n arbitrary: v seen)
  case (Suc n)
  have "follow_refs C d n w (r # seen) \<noteq> Inl None"
    if "get_str v ''$ref'' = Some r" "r \<notin> set seen" "json_pointer C d p = Some w" for r p w
  proof (rule Suc.IH)
    show "\<forall>r. get_str w ''$ref'' = Some r \<longrightarrow> r \<in> references d"
      using pointed_reference [OF assms(1) that(3)] by simp
    have "references d - set (r # seen) = references d - set seen - {r}" by auto
    moreover have "card (references d - set seen - {r}) < card (references d - set seen)"
      using Suc.prems(1) that by (intro card_Diff1_less) auto
    ultimately show "card (references d - set (r # seen)) < n" using Suc.prems(2) by simp
  qed
  then show ?case by (auto simp: and_then_Inl_iff ok_or_def split: option.splits)
qed simp

lemma resolve_local_returns:
  assumes "points_inside C d" and "reference_fuel d \<le> n"
  shows "resolve_local C n d v \<noteq> Inl None"
proof -
  from assms(2) obtain m where n: "n = Suc m" "card (references d) < m"
    by (cases n) (auto simp: reference_fuel_def)
  have "follow_refs C d m w [r] \<noteq> Inl None" if "json_pointer C d p = Some w" for r p w
  proof (rule follow_refs_returns [OF assms(1)])
    have "card (references d - set [r]) \<le> card (references d)" by (rule card_mono) auto
    with n(2) show "card (references d - set [r]) < m" by simp
  qed (use pointed_reference [OF assms(1) that] in simp)
  then show ?thesis
    unfolding resolve_local_def n(1) by (auto simp: and_then_Inl_iff ok_or_def split: option.splits)
qed

text \<open>Resolution computes the end of the chain of references, where there is one.\<close>

lemma follow_refs_sound: "follow_refs C d n v seen = Inr w \<Longrightarrow> (refers C d)\<^sup>*\<^sup>* v w \<and> get_str w ''$ref'' = None"
proof (induction n arbitrary: v seen)
  case (Suc n)
  show ?case
  proof (cases "get_str v ''$ref''")
    case None
    with Suc.prems show ?thesis by simp
  next
    case (Some r)
    with Suc.prems obtain p t where t: "r = ''#'' @ p" "json_pointer C d p = Some t" "follow_refs C d n t (r # seen) = Inr w"
      by (auto simp: and_then_Inr_iff ok_or_Inr_iff strip_prefix_Some split: if_splits)
    with Some have "refers C d v t" by (auto simp: refers_def)
    with Suc.IH [OF t(3)] show ?thesis by (auto intro: converse_rtranclp_into_rtranclp)
  qed
qed simp

lemma chain_has_no_cycle:
  "(refers C d)\<^sup>*\<^sup>* v w \<Longrightarrow> get_str w ''$ref'' = None \<Longrightarrow> \<not> (refers C d)\<^sup>+\<^sup>+ v v"
proof (induction rule: converse_rtranclp_induct)
  case base
  then show ?case by (auto simp: refers_def dest!: tranclpD)
next
  case (step v t)
  show ?case
  proof
    assume "(refers C d)\<^sup>+\<^sup>+ v v"
    then obtain u where "refers C d v u" "(refers C d)\<^sup>*\<^sup>* u v" by (auto dest: tranclpD)
    with step.hyps(1) have "(refers C d)\<^sup>+\<^sup>+ t t"
      by (metis refers_deterministic rtranclp_into_tranclp1)
    with step show False by simp
  qed
qed

lemma follow_refs_complete:
  assumes "(refers C d)\<^sup>*\<^sup>* v w" and "get_str w ''$ref'' = None"
    and "\<forall>r \<in> set seen. \<exists>p t. r = ''#'' @ p \<and> json_pointer C d p = Some t \<and> (refers C d)\<^sup>*\<^sup>* t v"
  shows "follow_refs C d n v seen \<in> {Inl None, Inr w}"
  using assms
proof (induction n arbitrary: v seen)
  case (Suc n)
  show ?case
  proof (cases "v = w")
    case True
    with Suc.prems(2) show ?thesis by simp
  next
    case False
    with Suc.prems(1) obtain t where t: "refers C d v t" "(refers C d)\<^sup>*\<^sup>* t w"
      by (metis converse_rtranclpE)
    then obtain p where p: "get_str v ''$ref'' = Some (''#'' @ p)" "json_pointer C d p = Some t"
      by (auto simp: refers_def)
    have "''#'' @ p \<notin> set seen"
    proof
      assume "''#'' @ p \<in> set seen"
      with Suc.prems(3) p(2) have "(refers C d)\<^sup>*\<^sup>* t v" by fastforce
      with t(1) have "(refers C d)\<^sup>+\<^sup>+ v v" by (metis rtranclp_into_tranclp2)
      with chain_has_no_cycle [OF Suc.prems(1,2)] show False by simp
    qed
    moreover have "follow_refs C d n t ((''#'' @ p) # seen) \<in> {Inl None, Inr w}"
    proof (rule Suc.IH [OF t(2) Suc.prems(2)], rule ballI)
      fix r
      assume "r \<in> set ((''#'' @ p) # seen)"
      then consider "r = ''#'' @ p" | "r \<in> set seen" by auto
      then show "\<exists>p' u. r = ''#'' @ p' \<and> json_pointer C d p' = Some u \<and> (refers C d)\<^sup>*\<^sup>* u t"
      proof cases
        case 1
        with p(2) show ?thesis by blast
      next
        case 2
        with Suc.prems(3) t(1) show ?thesis by (meson rtranclp.rtrancl_into_rtrancl)
      qed
    qed
    ultimately show ?thesis using p by simp
  qed
qed simp

text \<open>
  \<open>resolve_value\<close> computes the chain of references: it returns a value exactly when following \<open>$ref\<close> members
  from the given one leads to it and it is not a reference itself; every other chain, cyclic, remote or broken, is an
  error, and with more fuel than the document has distinct references none is left open.
\<close>

theorem resolution_follows_chain:
  assumes "points_inside C document" and "reference_fuel document \<le> n"
  shows "(resolve_local C n document v = Inr w \<longleftrightarrow> (refers C document)\<^sup>*\<^sup>* v w \<and> get_str w ''$ref'' = None)
    \<and> resolve_local C n document v \<noteq> Inl None"
  using follow_refs_sound [of C document n v "[]" w] follow_refs_complete [of C document v w "[]" n]
    resolve_local_returns [OF assms, of v]
  by (auto simp: resolve_local_def)

subsection \<open>Accepted documents\<close>

definition reference_resolves :: "crates \<Rightarrow> json \<Rightarrow> string \<Rightarrow> bool" where
  "reference_resolves C d r = (\<exists>p t. r = ''#'' @ p \<and> json_pointer C d p = Some t)"

lemma for_each_unit_member: "for_each (\<lambda>x _. f x) xs () = Inr () \<Longrightarrow> x \<in> set xs \<Longrightarrow> f x = Inr ()"
  by (induction xs) (auto split: sum.splits)

lemma for_each_pair_member: "for_each (\<lambda>(_, x) _. f x) xs () = Inr () \<Longrightarrow> (k, x) \<in> set xs \<Longrightarrow> f x = Inr ()"
  by (induction xs) (auto split: sum.splits)

lemma validated_references:
  "validate_references C d n v = Inr () \<Longrightarrow> u \<in> set (subvalues v) \<Longrightarrow> get_str u ''$ref'' = Some r \<Longrightarrow> reference_resolves C d r"
proof (induction n arbitrary: v)
  case (Suc n)
  show ?case
  proof (cases v)
    case (JArray vs)
    with Suc.prems(1) have "\<forall>w \<in> set vs. validate_references C d n w = Inr ()"
      by (auto dest: for_each_unit_member)
    with Suc.IH Suc.prems(2,3) JArray show ?thesis by (auto simp: get_str_def)
  next
    case (JObject m)
    with Suc.prems(1) have own: "get_str v ''$ref'' = Some r \<Longrightarrow> reference_resolves C d r"
      and children: "for_each (\<lambda>(_, child) _. validate_references C d n child) m () = Inr ()"
      by (auto simp: get_str_def and_then_Inr_iff ok_or_Inr_iff ensure_Inr_iff strip_prefix_Some reference_resolves_def)
    have "validate_references C d n w = Inr ()" if "(k, w) \<in> set m" for k w
      using for_each_pair_member [OF children that] .
    with Suc.IH Suc.prems(2,3) own JObject show ?thesis by auto
  qed (use Suc.prems in \<open>auto simp: get_str_def\<close>)
qed simp

lemma loaded_references:
  assumes "load_asyncapi C parsed byts = Inr source" and "r \<in> references (as_document source)"
  shows "reference_resolves C (as_document source) r"
  using assms by (auto simp: load_asyncapi_def and_then_Inr_iff ensure_Inr_iff references_iff dest: validated_references)

lemma follow_refs_error:
  assumes closed: "points_inside C d" "\<forall>r \<in> references d. reference_resolves C d r"
  shows "follow_refs C d n v seen = Inl (Some e) \<Longrightarrow> \<forall>r. get_str v ''$ref'' = Some r \<longrightarrow> r \<in> references d \<Longrightarrow>
    \<forall>r \<in> set seen. \<forall>p t. r = ''#'' @ p \<longrightarrow> json_pointer C d p = Some t \<longrightarrow> (refers C d)\<^sup>*\<^sup>* t v \<Longrightarrow>
    \<exists>t. (refers C d)\<^sup>*\<^sup>* v t \<and> (refers C d)\<^sup>+\<^sup>+ t t"
proof (induction n arbitrary: v seen)
  case (Suc n)
  then obtain r where r: "get_str v ''$ref'' = Some r" by (cases "get_str v ''$ref''") auto
  with Suc.prems(2) closed(2) obtain p t where p: "r = ''#'' @ p" "json_pointer C d p = Some t"
    by (auto simp: reference_resolves_def)
  with r have step: "refers C d v t" by (auto simp: refers_def)
  show ?case
  proof (cases "r \<in> set seen")
    case True
    with Suc.prems(3) p have "(refers C d)\<^sup>*\<^sup>* t v" by blast
    with step have "(refers C d)\<^sup>+\<^sup>+ v v" by (metis rtranclp_into_tranclp2)
    then show ?thesis by blast
  next
    case False
    with Suc.prems(1) r p have "follow_refs C d n t (r # seen) = Inl (Some e)" by (simp add: strip_prefix_Some)
    moreover have "\<forall>r. get_str t ''$ref'' = Some r \<longrightarrow> r \<in> references d"
      using pointed_reference [OF closed(1) p(2)] by blast
    moreover have "\<forall>r' \<in> set (r # seen). \<forall>p t'. r' = ''#'' @ p \<longrightarrow> json_pointer C d p = Some t' \<longrightarrow> (refers C d)\<^sup>*\<^sup>* t' t"
    proof (intro ballI allI impI)
      fix r' q t'
      assume "r' \<in> set (r # seen)" and q: "r' = ''#'' @ q" "json_pointer C d q = Some t'"
      then consider "r' = r" | "r' \<in> set seen" by auto
      then show "(refers C d)\<^sup>*\<^sup>* t' t"
      proof cases
        case 1
        with p q show ?thesis by simp
      next
        case 2
        from Suc.prems(3) [rule_format, OF 2 q] step show ?thesis by (rule rtranclp.rtrancl_into_rtrancl)
      qed
    qed
    ultimately obtain u where "(refers C d)\<^sup>*\<^sup>* t u" "(refers C d)\<^sup>+\<^sup>+ u u" using Suc.IH by blast
    with step show ?thesis by (meson converse_rtranclp_into_rtranclp)
  qed
qed simp

lemma chain_end_unique:
  assumes "(refers C d)\<^sup>*\<^sup>* v w" and "get_str w ''$ref'' = None" and "(refers C d)\<^sup>*\<^sup>* v t"
  shows "(refers C d)\<^sup>*\<^sup>* t w"
  using assms(1,3)
proof (induction rule: converse_rtranclp_induct)
  case base
  with assms(2) show ?case by (metis converse_rtranclpE option.distinct(1) refers_def)
next
  case (step v u)
  show ?case
  proof (cases "v = t")
    case True
    with step.hyps show ?thesis by (auto intro: converse_rtranclp_into_rtranclp)
  next
    case False
    with step.prems obtain u' where "refers C d v u'" "(refers C d)\<^sup>*\<^sup>* u' t" by (metis converse_rtranclpE)
    with refers_deterministic [OF step.hyps(1)] step.IH show ?thesis by blast
  qed
qed

end
