(* ===== verification/Asyncapi_Session_Props.thy ===== *)
theory Asyncapi_Session_Props
  imports Asyncapi_Props
begin

text \<open>
  What reaches the session an AsyncAPI operation is compiled to: compilation ends, what a session cannot express is
  refused, security leads to a credential, and headers and variables arrive as declared.
\<close>

subsection \<open>Compilation ends\<close>

text \<open>\<open>ends\<close>: the fuel was enough.\<close>

definition ends :: "'a ingest \<Rightarrow> bool" where
  "ends r = (r \<noteq> Inl None)"

lemma ends_and_then: "ends r \<Longrightarrow> (\<And>x. ends (f x)) \<Longrightarrow> ends (and_then r f)"
  by (cases r) (auto simp: ends_def)

lemma ends_result:
  "ends (ok_or x (Some e))" "ends (ensure b (Some e))" "ends (map_err Some r)" "ends (Inr y)" "ends (Inl (Some e))"
  by (auto simp: ends_def ok_or_def ensure_def map_err_def split: option.splits sum.splits)

lemma ends_map_each: "(\<And>x. ends (f x)) \<Longrightarrow> ends (map_each f xs)"
  by (induction xs) (simp_all add: ends_and_then ends_result)

lemma ends_for_each: "(\<And>x s. ends (f x s)) \<Longrightarrow> ends (for_each f xs s)"
proof (induction xs arbitrary: s)
  case (Cons x xs)
  from Cons.prems [of x s] Cons.IH [OF Cons.prems] show ?case by (cases "f x s") (auto simp: ends_def)
qed (simp add: ends_def)

lemma ends_option: "ends a \<Longrightarrow> (\<And>x. ends (f x)) \<Longrightarrow> ends (case v of None \<Rightarrow> a | Some x \<Rightarrow> f x)"
  by (cases v) auto

lemma ends_pair: "(\<And>x y. ends (f x y)) \<Longrightarrow> ends (case p of (x, y) \<Rightarrow> f x y)"
  by (cases p) auto

lemma ends_list: "ends a \<Longrightarrow> (\<And>x xs. ends (f x xs)) \<Longrightarrow> ends (case v of [] \<Rightarrow> a | x # xs \<Rightarrow> f x xs)"
  by (cases v) auto

lemma ends_if: "ends a \<Longrightarrow> ends b \<Longrightarrow> ends (if c then a else b)"
  by simp

lemmas ends_intros = ends_and_then ends_map_each ends_for_each ends_result ends_option ends_pair ends_list ends_if

definition resolves_in_time :: "crates \<Rightarrow> nat \<Rightarrow> json \<Rightarrow> bool" where
  "resolves_in_time C n document = (\<forall>v. ends (resolve_local C n document v))"

lemma enough_fuel: "points_inside C d \<Longrightarrow> reference_fuel d \<le> n \<Longrightarrow> resolves_in_time C n d"
  by (simp add: resolves_in_time_def ends_def resolve_local_returns)

lemma resolve_ends: "resolves_in_time C n d \<Longrightarrow> ends (resolve_local C n d v)"
  by (simp add: resolves_in_time_def)

lemma server_absent_ends: "resolves_in_time C n d \<Longrightarrow> ends (server_absent C n d name)"
  unfolding server_absent_def Let_def by (intro ends_intros resolve_ends)

lemma make_operation_ends:
  "resolves_in_time C n (as_document source) \<Longrightarrow> ends (make_operation C n source i a c ca op ch mn m l)"
  unfolding make_operation_def Let_def by (intro ends_intros server_absent_ends)

lemma message_variants_end: "resolves_in_time C n d \<Longrightarrow> ends (message_variants C n d raw)"
  unfolding message_variants_def by (intro ends_intros resolve_ends)

lemma operations_end: "resolves_in_time C n (as_document source) \<Longrightarrow> ends (asyncapi_operations C n source)"
  unfolding asyncapi_operations_def collect_v2_def collect_v3_def verb_operations_def named_operations_def Let_def
  by (intro ends_intros resolve_ends message_variants_end make_operation_ends)

lemma resolve_operation_ends:
  "resolves_in_time C n (as_document source) \<Longrightarrow> ends (resolve_asyncapi_operation C n source selector)"
  unfolding resolve_asyncapi_operation_def by (intro ends_intros operations_end)

lemma binding_header_ends: "ends (binding_header E required h output)"
  unfolding binding_header_def split_beta by (intro ends_intros)

lemma binding_headers_end: "resolves_in_time C n d \<Longrightarrow> ends (collect_binding_headers C E n d bindings output)"
  unfolding collect_binding_headers_def by (intro ends_intros resolve_ends binding_header_ends)

lemma compile_ends:
  "resolves_in_time C n (as_document source)
    \<Longrightarrow> ends (compile_asyncapi_websocket C E da n source operation server auth vals limits)"
  unfolding compile_asyncapi_websocket_def Let_def refuse_blocking_def
  by (intro ends_intros resolve_ends binding_headers_end)

lemma plan_result_ends: "ends r \<Longrightarrow> plan_result r \<noteq> None"
  by (auto simp: plan_result_def ends_def split: sum.splits option.splits)

lemma then_do_returns: "r \<noteq> None \<Longrightarrow> (\<And>x. r = Some (Inr x) \<Longrightarrow> f x \<noteq> None) \<Longrightarrow> then_do r f \<noteq> None"
  unfolding then_do_None_iff by blast

lemma if_returns: "a \<noteq> None \<Longrightarrow> b \<noteq> None \<Longrightarrow> (if c then a else b) \<noteq> None"
  by simp

lemma loaded_document: "load_asyncapi C parsed byts = Inr source \<Longrightarrow> parsed = Inr (as_document source)"
  by (auto simp: load_asyncapi_def and_then_Inr_iff)

lemma plan_result_Inr: "plan_result r = Some (Inr x) \<longleftrightarrow> r = Inr x"
  by (auto simp: plan_result_def split: sum.splits option.splits)

text \<open>
  C37. Planning a session from an AsyncAPI document comes to an end, with a plan or an error: two rounds more than the
  document has distinct references are enough to follow every chain of references.
\<close>

theorem asyncapi_planning_returns:
  assumes "points_inside C document" and "reference_fuel document \<le> n"
  shows "build_asyncapi_websocket_plan_with_configuration C E da dl n (Inr document) byts selector options configuration \<noteq> None"
proof -
  have time: "resolves_in_time C n (as_document source)" if "load_asyncapi C (Inr document) byts = Inr source" for source
    using enough_fuel [OF assms] loaded_document [OF that] by simp
  show ?thesis
    unfolding build_asyncapi_websocket_plan_with_configuration_def Let_def
    by (intro then_do_returns if_returns option.distinct(2) plan_result_ends ends_result(3) resolve_operation_ends compile_ends
        time) (simp_all add: plan_result_Inr map_err_Inr_iff)
qed

subsection \<open>Only what a session can express\<close>

definition plain_bindings :: "json \<Rightarrow> bool" where
  "plain_bindings v =
     (\<forall>m. get_object v ''bindings'' = Some m \<longrightarrow>
       (\<forall>name \<in> fst ` set m. name = ''ws'')
       \<and> (\<forall>ws. Option.bind (map_of m ''ws'') as_object = Some ws \<longrightarrow> fst ` set ws \<subseteq> {''headers'', ''bindingVersion''}))"

lemma no_binding_absence:
  "\<not> list_ex ac_blocking (scan_bindings (json_get v ''bindings'') location) \<Longrightarrow> plain_bindings v"
  by (fastforce simp: scan_bindings_def plain_bindings_def get_object_def absence_def list_ex_iff split: option.splits if_splits)

lemma map_each_concat_member:
  "map_each f xs = Inr yss \<Longrightarrow> y \<in> set (concat yss) \<Longrightarrow> \<exists>x ys. x \<in> set xs \<and> f x = Inr ys \<and> y \<in> set ys"
proof -
  assume "map_each f xs = Inr yss" and "y \<in> set (concat yss)"
  moreover from this(2) obtain ys where "ys \<in> set yss" "y \<in> set ys" by auto
  ultimately show ?thesis using map_each_member [of f xs yss ys] by blast
qed

definition is_made :: "crates \<Rightarrow> nat \<Rightarrow> AsyncApiSource \<Rightarrow> AsyncApiOperation \<Rightarrow> bool" where
  "is_made C n source operation = (\<exists>i a c ca op ch mn m l. make_operation C n source i a c ca op ch mn m l = Inr operation)"

lemma is_madeI: "make_operation C n source i a c ca op ch mn m l = Inr operation \<Longrightarrow> is_made C n source operation"
  unfolding is_made_def by blast

lemma made_operation:
  assumes "is_made C n source operation"
  shows "\<exists>rest. ao_absent operation = operation_absent (ao_action operation) (ao_operation operation) (ao_channel operation)
           (ao_message operation) (ao_location operation) @ rest"
  using assms by (auto simp: is_made_def make_operation_def Let_def and_then_Inr_iff)

lemma collected_operation:
  assumes "asyncapi_operations C n source = Inr operations" and "operation \<in> set operations"
  shows "is_made C n source operation"
proof (cases "is_version2 source")
  case True
  with assms obtain per channels where per: "operations = concat per" 
    "map_each (\<lambda>(channel_name, raw_channel).
         and_then (resolve_local C n (as_document source) raw_channel) (\<lambda>channel.
         and_then (map_each (verb_operations C n source channel_name channel)
                     [(''publish'', ''send''), (''subscribe'', ''receive'')]) (\<lambda>oss.
         Inr (concat oss)))) channels = Inr per"
    by (auto simp: asyncapi_operations_def collect_v2_def and_then_Inr_iff simp del: map_each.simps)
  from map_each_concat_member [OF per(2)] assms(2) per(1)
  obtain name channel oss where oss: "map_each (verb_operations C n source name channel)
      [(''publish'', ''send''), (''subscribe'', ''receive'')] = Inr oss" "operation \<in> set (concat oss)"
    by (fastforce simp: and_then_Inr_iff simp del: map_each.simps)
  from map_each_concat_member [OF oss] obtain va os where "verb_operations C n source name channel va = Inr os" "operation \<in> set os"
    by blast
  then show ?thesis
    by (cases va) (auto simp: verb_operations_def and_then_Inr_iff split: option.splits dest!: map_each_member intro: is_madeI)
next
  case False
  with assms obtain per ops where per: "operations = concat per" "map_each (named_operations C n source) ops = Inr per"
    by (auto simp: asyncapi_operations_def collect_v3_def and_then_Inr_iff)
  from map_each_concat_member [OF per(2)] assms(2) per(1)
  obtain op os where "named_operations C n source op = Inr os" "operation \<in> set os" by blast
  then show ?thesis
    by (cases op) (auto simp: named_operations_def Let_def and_then_Inr_iff dest!: map_each_member intro: is_madeI)
qed

lemma planned_asyncapi_Inr:
  assumes "build_asyncapi_websocket_plan_with_configuration C E da dl n parsed byts selector options configuration
    = Some (Inr plan)"
  obtains source operation limits session where
    "load_asyncapi C parsed byts = Inr source" "resolve_asyncapi_operation C n source selector = Inr operation"
    "compile_asyncapi_websocket C E da n source operation (po_server options) (po_auth options)
       (explicit_values (po_explicit options)) limits = Inr session"
    "seal_websocket_source C E session [as_source_fingerprint source] (ao_handle operation) configuration = Inr plan"
  using assms unfolding build_asyncapi_websocket_plan_with_configuration_def
  by (auto simp: Let_def then_do_Inr_iff plan_result_Inr map_err_Inr_iff split: if_splits)

lemma compile_Inr:
  assumes "compile_asyncapi_websocket C E da n source operation server_selector auth_selector vals limits = Inr session"
  obtains name declared server url address h1 h2 where
    "\<not> list_ex ac_blocking (ao_absent operation)" "select_asyncapi_server operation server_selector = Inr name"
    "declared_server (as_document source) name = Some declared"
    "resolve_local C n (as_document source) declared = Inr server"
    "\<not> list_ex ac_blocking (scan_bindings (json_get server ''bindings'') (server_location name @ ''/bindings''))"
    "websocket_protocol (server_protocol server (server_url source server))"
    "substitute_variables E (server_url source server) (json_get server ''variables'') ''server'' vals = Inr url"
    "substitute_variables E (ao_channel_address operation) (json_get (ao_channel operation) ''parameters'') ''channel'' vals
      = Inr address"
    "collect_binding_headers C E n (as_document source) (json_get server ''bindings'') [] = Inr h1"
    "collect_binding_headers C E n (as_document source) (json_get (ao_channel operation) ''bindings'') h1 = Inr h2"
    "collect_binding_headers C E n (as_document source) (json_get (ao_operation operation) ''bindings'') h2
      = Inr (ss_headers session)"
    "select_auth_profile C source operation server auth_selector = Inr (ss_auth session)"
    "operation_actions C da (as_document source) operation = Inr (ss_actions session)"
    "ss_url session = join_address url address"
  using assms unfolding compile_asyncapi_websocket_def Let_def refuse_blocking_def and_then_Inr_iff ok_or_Inr_iff
    map_err_Inr_iff ensure_Inr_iff
proof (elim exE conjE, goal_cases)
  case (1 u1 name declared server u2 u3 url address h1 h2 headers auth actions)
  show ?case by (rule 1(1) [OF 1(2-11)]) (simp_all add: 1(12-14) sum.inject(2) [THEN iffD1, OF 1(15), symmetric])
qed

lemma sealed_source_origin:
  assumes "seal_websocket_source C E session fps handle configuration = Inr plan"
  shows "wp_operation plan = handle" "wp_source_fingerprints plan = fps"
  using assms
  by (auto simp: seal_websocket_source_def Let_def and_then_Inr_iff map_err_Inr_iff ok_or_Inr_iff seal_websocket_plan_iff
      normalize_def clear_websocket_plan_def split: prod.splits)

definition expressible :: "AsyncApiOperation \<Rightarrow> bool" where
  "expressible operation =
     (\<not> has_field (ao_message operation) ''headers'' \<and> \<not> has_field (ao_message operation) ''correlationId''
      \<and> (has_field (ao_operation operation) ''reply'' \<longrightarrow> has_field (ao_operation operation) ''x-kahea-actions'')
      \<and> \<not> has_traits (ao_operation operation) \<and> \<not> has_traits (ao_message operation)
      \<and> foreign_format (ao_message operation) = None
      \<and> plain_bindings (ao_operation operation) \<and> plain_bindings (ao_channel operation)
      \<and> plain_bindings (ao_message operation))"

lemma only_if_blocking: "list_ex ac_blocking (only_if b (absence k r l blocking)) \<longleftrightarrow> b \<and> blocking"
  by (simp add: only_if_def absence_def)

lemma unblocked_operation:
  "\<not> list_ex ac_blocking (operation_absent action operation channel message location @ rest) \<Longrightarrow>
     \<not> has_field message ''headers'' \<and> \<not> has_field message ''correlationId''
     \<and> (has_field operation ''reply'' \<longrightarrow> has_field operation ''x-kahea-actions'')
     \<and> \<not> has_traits operation \<and> \<not> has_traits message \<and> foreign_format message = None
     \<and> plain_bindings operation \<and> plain_bindings channel \<and> plain_bindings message"
  unfolding operation_absent_def trait_absent_def list_ex_append de_Morgan_disj only_if_blocking
  by (elim conjE, intro conjI)
    ((blast intro: no_binding_absence | simp add: absence_def split: option.splits)+)

lemma selected_operation:
  assumes "resolve_asyncapi_operation C n source selector = Inr operation"
  obtains operations where "asyncapi_operations C n source = Inr operations"
    "filter (selects_asyncapi selector) operations = [operation]"
proof -
  from assms obtain operations where ops: "asyncapi_operations C n source = Inr operations"
    by (auto simp: resolve_asyncapi_operation_def and_then_Inr_iff)
  have "filter (selects_asyncapi selector) operations = [operation]"
  proof (cases "filter (selects_asyncapi selector) operations")
    case Nil
    with assms ops show ?thesis by (simp add: resolve_asyncapi_operation_def)
  next
    case (Cons y ys)
    with assms ops show ?thesis by (cases ys) (simp_all add: resolve_asyncapi_operation_def)
  qed
  with ops show ?thesis by (rule that)
qed

lemma compiled_is_expressible:
  assumes "resolve_asyncapi_operation C n source selector = Inr operation"
    and "compile_asyncapi_websocket C E da n source operation sv au vals limits = Inr session"
  shows "expressible operation"
proof -
  from assms(1) obtain operations where "asyncapi_operations C n source = Inr operations" "operation \<in> set operations"
    by (metis selected_operation filter_eq_ConsD in_set_conv_decomp)
  from made_operation [OF collected_operation [OF this]] obtain rest where
    "ao_absent operation = operation_absent (ao_action operation) (ao_operation operation) (ao_channel operation)
       (ao_message operation) (ao_location operation) @ rest" by blast
  moreover have "\<not> list_ex ac_blocking (ao_absent operation)" using assms(2) by (rule compile_Inr)
  ultimately have "\<not> list_ex ac_blocking (operation_absent (ao_action operation) (ao_operation operation)
      (ao_channel operation) (ao_message operation) (ao_location operation) @ rest)" by simp
  from unblocked_operation [OF this] show ?thesis by (simp add: expressible_def)
qed

text \<open>
  C33. What a planned session cannot express was not there: the operation a plan is made from has no message headers,
  correlation, traits, foreign schema format or binding outside the WebSocket subset, and a reply only with explicit
  actions; the operation is the only one the selector selects, and the plan carries its handle.
\<close>

theorem asyncapi_plan_is_expressible:
  assumes "build_asyncapi_websocket_plan_with_configuration C E da dl n parsed byts selector options configuration
    = Some (Inr plan)"
  shows "\<exists>source operations operation.
    load_asyncapi C parsed byts = Inr source \<and> asyncapi_operations C n source = Inr operations
    \<and> filter (selects_asyncapi selector) operations = [operation] \<and> expressible operation
    \<and> wp_operation plan = ao_handle operation \<and> wp_source_fingerprints plan = [digest C byts]"
proof -
  from assms obtain source operation limits session where *:
    "load_asyncapi C parsed byts = Inr source" "resolve_asyncapi_operation C n source selector = Inr operation"
    "compile_asyncapi_websocket C E da n source operation (po_server options) (po_auth options)
       (explicit_values (po_explicit options)) limits = Inr session"
    "seal_websocket_source C E session [as_source_fingerprint source] (ao_handle operation) configuration = Inr plan"
    by (rule planned_asyncapi_Inr)
  from *(2) obtain operations where "asyncapi_operations C n source = Inr operations"
    "filter (selects_asyncapi selector) operations = [operation]" by (rule selected_operation)
  moreover have "wp_operation plan = ao_handle operation" "wp_source_fingerprints plan = [as_source_fingerprint source]"
    using sealed_source_origin [OF *(4)] by simp_all
  moreover have "as_source_fingerprint source = digest C byts"
    using *(1) by (auto simp: load_asyncapi_def and_then_Inr_iff)
  ultimately show ?thesis using *(1) compiled_is_expressible [OF *(2,3)] by auto
qed

subsection \<open>Security and headers\<close>

lemma select_auth_Inr:
  assumes "select_auth_profile C source operation server selector = Inr auth" and "required_schemes operation server \<noteq> []"
  shows "\<exists>scheme profile declared. selector = Some (scheme @ ''='' @ profile) \<and> auth = Some profile
    \<and> scheme \<in> set (required_schemes operation server) \<and> supported_scheme declared
    \<and> json_pointer C (as_document source) (''/components/securitySchemes/'' @ escape_pointer scheme) = Some declared"
  using assms
  by (auto simp: select_auth_profile_def Let_def and_then_Inr_iff ok_or_Inr_iff ensure_Inr_iff
      dest!: split_once_Some)

lemma own_security:
  "json_get (ao_operation operation) ''security'' = Some v \<Longrightarrow>
     set (required_schemes operation server) = \<Union> (set (map (set \<circ> map fst) (List.map_filter as_object (unwrap_or (as_array v) []))))"
  by (auto simp: required_schemes_def Let_def)

lemma configured_profile:
  "bind_websocket_configured_auth (Some profile) configuration = Inr (auth, secret_refs)
    \<Longrightarrow> \<exists>a. auth = Some a \<and> pa_profile a = profile"
  by (auto simp: bind_websocket_configured_auth_def and_then_Inr_iff split: if_splits prod.splits)

lemma bound_profile:
  assumes "seal_websocket_source C E session fps handle configuration = Inr plan" and "ss_auth session = Some profile"
  shows "\<exists>a. wp_auth plan = Some a \<and> pa_profile a = profile \<and> ''secret:'' @ profile \<in> set (wp_required_grants plan)"
proof (rule seal_websocket_source_Inr [OF assms(1)], goal_cases)
  case (1 target host port headers auth secret_refs limits material)
  from 1(9) have "bind_websocket_configured_auth (Some profile) configuration = Inr (auth, secret_refs)"
    by (simp add: assms(2))
  from configured_profile [OF this] obtain a where "auth = Some a" "pa_profile a = profile" by blast
  with 1 sealed_websocket_fields [OF 1(1)] websocket_grants_members(6) show ?case by auto
qed

text \<open>
  C34. Security that a source requires is met in the plan: when the requirements of the operation name schemes, a plan
  is only made with a selector for one of them that the source declares as HTTP basic, bearer or X.509, and the plan
  carries the credential of the selected profile and demands the grant for its secret.
\<close>

theorem required_security_is_planned:
  assumes "build_asyncapi_websocket_plan_with_configuration C E da dl n (Inr document) byts selector options configuration
      = Some (Inr plan)"
    and "load_asyncapi C (Inr document) byts = Inr source"
    and "resolve_asyncapi_operation C n source selector = Inr operation"
    and "json_get (ao_operation operation) ''security'' = Some (JArray requirements)"
    and "JObject requirement \<in> set requirements" and "requirement \<noteq> []"
  shows "\<exists>scheme profile declared a. po_auth options = Some (scheme @ ''='' @ profile)
    \<and> (\<exists>m. JObject m \<in> set requirements \<and> scheme \<in> fst ` set m)
    \<and> json_pointer C document (''/components/securitySchemes/'' @ escape_pointer scheme) = Some declared
    \<and> supported_scheme declared \<and> wp_auth plan = Some a \<and> pa_profile a = profile
    \<and> ''secret:'' @ profile \<in> set (wp_required_grants plan)"
proof -
  obtain source' operation' limits session where *: "load_asyncapi C (Inr document) byts = Inr source'"
    "resolve_asyncapi_operation C n source' selector = Inr operation'"
    "compile_asyncapi_websocket C E da n source' operation' (po_server options) (po_auth options)
       (explicit_values (po_explicit options)) limits = Inr session"
    "seal_websocket_source C E session [as_source_fingerprint source'] (ao_handle operation') configuration = Inr plan"
    by (rule planned_asyncapi_Inr [OF assms(1)])
  with assms(2,3) have same: "source' = source" "operation' = operation" by simp_all
  note session = *(3,4) [unfolded same]
  from session(1) obtain server where server: "select_auth_profile C source operation server (po_auth options) = Inr (ss_auth session)"
    by (rule compile_Inr)
  have schemes: "set (required_schemes operation server) = (\<Union>m \<in> {m. JObject m \<in> set requirements}. fst ` set m)"
    using own_security [OF assms(4)] by (force simp: map_filter_def elim!: as_object.elims)
  from assms(5,6) have "set (required_schemes operation server) \<noteq> {}" unfolding schemes by (cases requirement) auto
  then have "required_schemes operation server \<noteq> []" by auto
  from select_auth_Inr [OF server this] obtain scheme profile declared where
    "po_auth options = Some (scheme @ ''='' @ profile)" "ss_auth session = Some profile"
    "scheme \<in> set (required_schemes operation server)" "supported_scheme declared"
    "json_pointer C (as_document source) (''/components/securitySchemes/'' @ escape_pointer scheme) = Some declared"
    by blast
  moreover from bound_profile [OF session(2) this(2)] obtain a where "wp_auth plan = Some a" "pa_profile a = profile"
    "''secret:'' @ profile \<in> set (wp_required_grants plan)" by blast
  moreover have "as_document source = document" using loaded_document [OF assms(2)] by simp
  ultimately show ?thesis unfolding schemes by auto
qed

definition declared_headers :: "plan_env \<Rightarrow> json \<Rightarrow> (string \<times> string) set" where
  "declared_headers E headers =
     {(name, v). \<exists>schema. (name, schema) \<in> set (unwrap_or (get_object headers ''properties'') [])
        \<and> Option.bind (or_option (json_get schema ''default'') (json_get schema ''example'')) (scalar_text E) = Some v}"

definition binding_headers_of :: "crates \<Rightarrow> nat \<Rightarrow> json \<Rightarrow> json \<Rightarrow> json option" where
  "binding_headers_of C n document v =
     (case Option.bind (Option.bind (json_get v ''bindings'') (\<lambda>b. json_get b ''ws'')) (\<lambda>ws. json_get ws ''headers'') of
        None \<Rightarrow> None
      | Some declared \<Rightarrow> (case resolve_local C n document declared of Inl _ \<Rightarrow> None | Inr headers \<Rightarrow> Some headers))"

lemma binding_header_Inr:
  assumes "binding_header E required (name, schema) output = Inr output'" and "map_wf output"
  shows "map_wf output' \<and> map_of output \<subseteq>\<^sub>m map_of output'
    \<and> (\<forall>v. Option.bind (or_option (json_get schema ''default'') (json_get schema ''example'')) (scalar_text E) = Some v
        \<longrightarrow> map_of output' name = Some v)"
  using assms
  by (auto simp: binding_header_def map_of_map_insert map_insert_wf map_le_def split: option.splits if_splits)

lemma binding_headers_loop:
  "for_each (binding_header E required) ps acc = Inr acc' \<Longrightarrow> map_wf acc \<Longrightarrow>
     map_wf acc' \<and> map_of acc \<subseteq>\<^sub>m map_of acc'
     \<and> (\<forall>(name, schema) \<in> set ps. \<forall>v.
          Option.bind (or_option (json_get schema ''default'') (json_get schema ''example'')) (scalar_text E) = Some v
          \<longrightarrow> map_of acc' name = Some v)"
proof (induction ps arbitrary: acc)
  case (Cons p ps)
  obtain name schema where p: "p = (name, schema)" by (cases p)
  with Cons.prems(1) obtain mid where mid: "binding_header E required (name, schema) acc = Inr mid"
    "for_each (binding_header E required) ps mid = Inr acc'" by (auto split: sum.splits)
  note first = binding_header_Inr [OF mid(1) Cons.prems(2)]
  note rest = Cons.IH [OF mid(2) conjunct1 [OF first]]
  show ?case
  proof (intro conjI)
    show "map_wf acc'" using first rest by blast
    show "map_of acc \<subseteq>\<^sub>m map_of acc'" using first rest by (blast intro: map_le_trans)
    have "map_of acc' name = Some v"
      if "Option.bind (or_option (json_get schema ''default'') (json_get schema ''example'')) (scalar_text E) = Some v" for v
    proof -
      from first that have "map_of mid name = Some v" by blast
      then have "map_of mid name = map_of acc' name" using rest by (auto simp: map_le_def dom_def)
      with \<open>map_of mid name = Some v\<close> show ?thesis by simp
    qed
    then show "\<forall>(name, schema) \<in> set (p # ps). \<forall>v.
        Option.bind (or_option (json_get schema ''default'') (json_get schema ''example'')) (scalar_text E) = Some v
        \<longrightarrow> map_of acc' name = Some v" using rest by (simp add: p)
  qed
qed (simp add: map_le_def)

lemma collected_headers:
  assumes "collect_binding_headers C E n document (json_get v ''bindings'') output = Inr output'" and "map_wf output"
  shows "map_wf output' \<and> map_of output \<subseteq>\<^sub>m map_of output'
    \<and> (\<forall>headers. binding_headers_of C n document v = Some headers \<longrightarrow>
        (\<forall>(name, w) \<in> declared_headers E headers. map_of output' name = Some w))"
proof (cases "Option.bind (Option.bind (json_get v ''bindings'') (\<lambda>b. json_get b ''ws'')) (\<lambda>ws. json_get ws ''headers'')")
  case None
  with assms show ?thesis by (simp add: collect_binding_headers_def binding_headers_of_def)
next
  case (Some declared)
  with assms(1) obtain headers where headers: "resolve_local C n document declared = Inr headers"
    "for_each (binding_header E (List.map_filter as_str (unwrap_or (get_array headers ''required'') [])))
       (unwrap_or (get_object headers ''properties'') []) output = Inr output'"
    by (auto simp: collect_binding_headers_def and_then_Inr_iff)
  from Some headers(1) have "binding_headers_of C n document v = Some headers" by (simp add: binding_headers_of_def)
  with binding_headers_loop [OF headers(2) assms(2)] show ?thesis by (auto simp: declared_headers_def)
qed

text \<open>
  The headers that the WebSocket bindings of the server, the channel and the operation give a concrete value reach
  the session with that value, whichever of the three declares them; a session is not made when two of them disagree.
\<close>

theorem binding_headers_reach_session:
  assumes "compile_asyncapi_websocket C E da n source operation server_selector auth_selector vals limits = Inr session"
    and "select_asyncapi_server operation server_selector = Inr name"
    and "declared_server (as_document source) name = Some declared"
    and "resolve_local C n (as_document source) declared = Inr server"
    and "level \<in> {server, ao_channel operation, ao_operation operation}"
    and "binding_headers_of C n (as_document source) level = Some headers" and "(header, v) \<in> declared_headers E headers"
  shows "map_of (ss_headers session) header = Some v"
proof (rule compile_Inr [OF assms(1)], goal_cases)
  case (1 name' declared' server' url address h1 h2)
  with assms(2-4) have server: "server' = server" by simp
  note one = collected_headers [OF 1(9)] and two = collected_headers [OF 1(10)] and three = collected_headers [OF 1(11)]
  have wf: "map_wf ([] :: (string \<times> string) list)" by (simp add: map_wf_def)
  have later: "map_of m header = Some v \<Longrightarrow> map_of m \<subseteq>\<^sub>m map_of m' \<Longrightarrow> map_of m' header = Some v"
    for m m' :: "(string \<times> string) list" by (auto simp: map_le_def dom_def)
  consider "level = server" | "level = ao_channel operation" | "level = ao_operation operation" using assms(5) by blast
  then show ?case
  proof cases
    case 1
    with one [OF wf] assms(6,7) server have "map_of h1 header = Some v" by blast
    with one [OF wf] two three show ?thesis by (blast intro: later)
  next
    case 2
    with one [OF wf] two assms(6,7) have "map_of h2 header = Some v" by blast
    with one [OF wf] two three show ?thesis by (blast intro: later)
  next
    case 3
    with one [OF wf] two three assms(6,7) show ?thesis by blast
  qed
qed

subsection \<open>A sample document\<close>

definition feed_pointer :: "json \<Rightarrow> string \<Rightarrow> json option" where
  "feed_pointer j p = fold (\<lambda>k v. Option.bind v (\<lambda>v. json_get v k)) (tl (split_char CHR ''/'' p)) (Some j)"

definition feed_crates :: crates where
  "feed_crates = sample_crates\<lparr>json_pointer := feed_pointer\<rparr>"

definition feed_document :: json where
  "feed_document = JObject
     [(''asyncapi'', JString ''2.6.0''),
      (''channels'', JObject [(''feed'', JObject [(''publish'', JObject
         [(''bindings'', JObject [(''ws'', JObject [(''headers'', JObject [(''properties'', JObject
            [(''X-Mode'', JObject [(''default'', JString ''on'')])])])])]),
          (''message'', JObject [(''$ref'', JString ''#/components/messages/say'')]),
          (''operationId'', JString ''say''),
          (''security'', JArray [JObject [(''user'', JArray [])]])])])]),
      (''components'', JObject
         [(''messages'', JObject [(''say'', JObject
             [(''contentType'', JString ''text/plain''), (''payload'', JObject [(''default'', JString ''hi'')])])]),
          (''securitySchemes'', JObject [(''user'', JObject
             [(''scheme'', JString ''basic''), (''type'', JString ''http'')])])]),
      (''servers'', JObject [(''local'', JObject
         [(''protocol'', JString ''ws''), (''url'', JString ''ws://127.0.0.1:9000'')])])]"

definition feed_source :: AsyncApiSource where
  "feed_source =
     \<lparr>as_document = feed_document, as_source_fingerprint = digest feed_crates [], as_source_handle = short_handle feed_crates ''src'' [[]],
      as_version = ''2.6.0''\<rparr>"

definition feed_options :: PlanOptions where
  "feed_options =
     \<lparr>po_server = None, po_auth = Some ''user=dev'', po_content_type = None, po_input = None, po_explicit = [], po_checks = []\<rparr>"

definition feed_configuration :: ProjectConfiguration where
  "feed_configuration = default_configuration\<lparr>cfg_auth :=
     [(''dev'', \<lparr>ca_type = ''basic'', ca_token = None, ca_username = Some ''secret://dev-user'', ca_password = Some ''secret://dev'',
                ca_client_id = None, ca_client_secret = None, ca_refresh_token = None, ca_certificate = None\<rparr>)],
     cfg_policy := default_policy\<lparr>pol_websocket := default_websocket_policy\<lparr>wsp_max_limits := sample_limits\<rparr>\<rparr>\<rparr>"

lemma feed_references: "validate_references feed_crates feed_document reference_levels feed_document = Inr ()"
  by code_simp

lemma feed_loads: "load_asyncapi feed_crates (Inr feed_document) [] = Inr feed_source"
proof -
  have "get_str feed_document ''asyncapi'' = Some ''2.6.0''" by (simp add: feed_document_def get_str_def)
  then show ?thesis by (simp add: load_asyncapi_def feed_references starts_with_def) (simp add: feed_source_def)
qed

definition feed_message :: json where
  "feed_message = JObject [(''contentType'', JString ''text/plain''), (''payload'', JObject [(''default'', JString ''hi'')])]"

definition feed_publish :: json where
  "feed_publish = JObject
     [(''bindings'', JObject [(''ws'', JObject [(''headers'', JObject [(''properties'', JObject
        [(''X-Mode'', JObject [(''default'', JString ''on'')])])])])]),
      (''message'', JObject [(''$ref'', JString ''#/components/messages/say'')]),
      (''operationId'', JString ''say''),
      (''security'', JArray [JObject [(''user'', JArray [])]])]"

definition feed_channel :: json where
  "feed_channel = JObject [(''publish'', feed_publish)]"

definition feed_operation :: AsyncApiOperation where
  "feed_operation =
     \<lparr>ao_handle = short_handle feed_crates ''op''
        [as_bytes (as_source_fingerprint feed_source), as_bytes ''send'', as_bytes ''feed'', as_bytes ''say'', as_bytes ''say''],
      ao_operation_id = ''say'', ao_action = ''send'', ao_channel_name = ''feed'', ao_channel_address = ''feed'',
      ao_server_names = [''local''], ao_message_name = ''say'', ao_message = feed_message, ao_operation = feed_publish,
      ao_channel = feed_channel, ao_location = ''#/channels/feed/publish'', ao_absent = []\<rparr>"

lemma feed_source_fields: "as_document feed_source = feed_document" "as_version feed_source = ''2.6.0''"
  by (simp_all add: feed_source_def)

lemma feed_channels: "get_object feed_document ''channels'' = Some [(''feed'', feed_channel)]"
  by (simp add: feed_document_def feed_channel_def feed_publish_def get_object_def)

lemma feed_local: "get_str v ''$ref'' = None \<Longrightarrow> resolve_local C 5 d v = Inr v"
  by (simp add: resolve_local_def eval_nat_numeral)

lemma feed_message_found:
  "resolve_local feed_crates 5 feed_document (JObject [(''$ref'', JString ''#/components/messages/say'')]) = Inr feed_message"
  by code_simp

lemma feed_made:
  "make_operation feed_crates 5 feed_source ''say'' ''send'' ''feed'' ''feed'' feed_publish feed_channel
     ''say'' feed_message ''#/channels/feed/publish'' = Inr feed_operation"
proof -
  have "server_names feed_document feed_publish feed_channel = [''local'']"
    "operation_absent ''send'' feed_publish feed_channel feed_message ''#/channels/feed/publish'' = []"
    "server_absent feed_crates 5 feed_document ''local'' = Inr []"
    by code_simp+
  then show ?thesis by (simp add: make_operation_def Let_def feed_source_fields) (simp add: feed_operation_def)
qed

lemma feed_fields: "json_get feed_channel ''publish'' = Some feed_publish"
  "json_get feed_channel ''subscribe'' = None"
  "get_str feed_publish ''operationId'' = Some ''say''"
  "json_get feed_publish ''message'' = Some (JObject [(''$ref'', JString ''#/components/messages/say'')])"
  "get_str feed_publish ''$ref'' = None" "get_str feed_channel ''$ref'' = None"
  "escape_pointer ''feed'' = ''feed''"
  "message_variants feed_crates 5 feed_document (JObject [(''$ref'', JString ''#/components/messages/say'')])
     = Inr [(''say'', feed_message)]"
  by code_simp+

lemma feed_operations: "asyncapi_operations feed_crates 5 feed_source = Inr [feed_operation]"
  by (simp add: asyncapi_operations_def is_version2_def feed_source_fields starts_with_def collect_v2_def feed_channels
      feed_local feed_fields verb_operations_def variant_id_def feed_made [simplified])

lemma feed_resolves: "resolve_asyncapi_operation feed_crates 5 feed_source ''say'' = Inr feed_operation"
  by (simp add: resolve_asyncapi_operation_def feed_operations selects_asyncapi_def) (simp add: feed_operation_def)

definition feed_session :: WebSocketSessionSource where
  "feed_session =
     \<lparr>ss_kind = ''websocket-session'', ss_version = 1, ss_operation_id = ''say'', ss_url = ''ws://127.0.0.1:9000/feed'',
      ss_risk = Some Write, ss_headers = [(''X-Mode'', ''on'')], ss_auth = Some ''dev'', ss_origin = None, ss_subprotocols = [],
      ss_limits = sample_limits, ss_actions = [SendText ''hi'', Close 1000 ''complete'']\<rparr>"

definition feed_server :: json where
  "feed_server = JObject [(''protocol'', JString ''ws''), (''url'', JString ''ws://127.0.0.1:9000'')]"

lemma feed_operation_fields:
  "ao_absent feed_operation = []" "ao_server_names feed_operation = [''local'']" "ao_channel_address feed_operation = ''feed''"
  "ao_channel feed_operation = feed_channel" "ao_operation feed_operation = feed_publish"
  "ao_message feed_operation = feed_message" "ao_action feed_operation = ''send''" "ao_operation_id feed_operation = ''say''"
  by (simp_all add: feed_operation_def)

lemma feed_compile_parts:
  "declared_server feed_document ''local'' = Some feed_server" "json_get feed_server ''bindings'' = None"
  "get_str feed_server ''$ref'' = None" "get_str feed_server ''url'' = Some ''ws://127.0.0.1:9000''"
  "get_str feed_server ''protocol'' = Some ''ws''" "scan_bindings None (server_location ''local'' @ ''/bindings'') = []"
  "substitute_variables sample_plan_env ''ws://127.0.0.1:9000'' (json_get feed_server ''variables'') ''server'' []
     = Inr ''ws://127.0.0.1:9000''"
  "substitute_variables sample_plan_env ''feed'' (json_get feed_channel ''parameters'') ''channel'' [] = Inr ''feed''"
  "join_address ''ws://127.0.0.1:9000'' ''feed'' = ''ws://127.0.0.1:9000/feed''"
  "json_get feed_channel ''bindings'' = None"
  "collect_binding_headers feed_crates sample_plan_env 5 feed_document (json_get feed_publish ''bindings'') []
     = Inr [(''X-Mode'', ''on'')]"
  "json_get feed_publish ''x-kahea-actions'' = None"
  "contains_str (unwrap_or (get_str feed_message ''contentType'') ''application/json'') ''json'' = False"
  "concrete_example feed_message = Some (JString ''hi'')"
  "extension_strings feed_publish ''x-kahea-subprotocols'' = None" "extension_strings feed_channel ''x-kahea-subprotocols'' = None"
  "extension_strings feed_server ''x-kahea-subprotocols'' = None"
  "get_str feed_publish ''x-kahea-origin'' = None" "get_str feed_channel ''x-kahea-origin'' = None"
  "get_str feed_server ''x-kahea-origin'' = None"
  "json_get feed_publish ''security'' = Some (JArray [JObject [(''user'', JArray [])]])"
  by code_simp+

lemma feed_auth: "select_auth_profile feed_crates feed_source feed_operation feed_server (Some ''user=dev'') = Inr (Some ''dev'')"
proof -
  have "required_schemes feed_operation feed_server = [''user'']"
    by (simp add: required_schemes_def feed_operation_fields feed_compile_parts map_filter_def)
  moreover have "split_once ''='' ''user=dev'' = Some (''user'', ''dev'')"
    "case json_pointer feed_crates feed_document (''/components/securitySchemes/'' @ escape_pointer ''user'') of
       None \<Rightarrow> False | Some declared \<Rightarrow> supported_scheme declared"
    by code_simp+
  ultimately show ?thesis
    by (auto simp: select_auth_profile_def feed_source_fields split: option.splits)
qed

lemma no_binding_headers: "collect_binding_headers C E n d None headers = Inr headers"
  by (simp add: collect_binding_headers_def)

lemma feed_compiles:
  "compile_asyncapi_websocket feed_crates sample_plan_env (\<lambda>_. None) 5 feed_source feed_operation None (Some ''user=dev'') []
     sample_limits = Inr feed_session"
  by (simp add: compile_asyncapi_websocket_def refuse_blocking_def select_asyncapi_server_def feed_operation_fields
      feed_compile_parts [simplified] no_binding_headers feed_local feed_source_fields server_url_def server_protocol_def is_version2_def starts_with_def
      websocket_protocol_def feed_auth [simplified] operation_actions_def message_action_def Let_def)
    (simp add: feed_session_def action_risk_def session_origin_def session_subprotocols_def feed_operation_fields
      feed_compile_parts)

lemma feed_session_parts:
  "validate_websocket_source_identity feed_session = Inr ()"
  "websocket_target feed_crates ''ws://127.0.0.1:9000/feed'' = Inr run_url"
  "enforce_host_policy ''127.0.0.1'' feed_configuration = Inr ()"
  "enforce_websocket_origin_policy feed_crates None feed_configuration = Inr ()"
  "enforce_websocket_subprotocol_policy [] feed_configuration = Inr ()"
  "effective_websocket_limits sample_limits feed_configuration = Inr sample_limits"
  "websocket_headers [(''X-Mode'', ''on'')] feed_configuration = Inr [\<lparr>ph_name = ''X-Mode'', ph_value = ''on''\<rparr>]"
  "tighten_websocket_action_timeouts [SendText ''hi'', Close 1000 ''complete''] (action_timeout_ms sample_limits)
     = [SendText ''hi'', Close 1000 ''complete'']"
  "validate_redaction_policy feed_configuration = Inr ()"
  "config_fingerprint feed_crates sample_plan_env feed_configuration = Inr (default_config_fingerprint feed_crates)"
  "websocket_policy_fingerprint feed_crates feed_configuration = Inr ''b3:{}''"
  by code_simp+

lemma feed_profile:
  "bind_websocket_configured_auth (Some ''dev'') feed_configuration
     = Inr (Some \<lparr>pa_scheme = ''basic'', pa_kind = ''http'', pa_profile = ''dev'', pa_placement = ''header:Authorization:basic'',
                  pa_token_url = None, pa_scopes = []\<rparr>, [''secret://dev''])"
  by code_simp

lemma feed_session_fields:
  "ss_url feed_session = ''ws://127.0.0.1:9000/feed''" "ss_headers feed_session = [(''X-Mode'', ''on'')]"
  "ss_auth feed_session = Some ''dev''" "ss_origin feed_session = None" "ss_subprotocols feed_session = []"
  "ss_limits feed_session = sample_limits" "ss_actions feed_session = [SendText ''hi'', Close 1000 ''complete'']"
  by (simp_all add: feed_session_def)

definition feed_plan :: WebSocketPlan where
  "feed_plan = sample_plan\<lparr>wp_headers := [\<lparr>ph_name = ''X-Mode'', ph_value = ''on''\<rparr>], wp_subprotocols := [],
     wp_actions := [SendText ''hi'', Close 1000 ''complete'']\<rparr>"

lemma feed_plan_valid: "validate feed_crates feed_plan = Inr ()"
  by code_simp

lemma feed_seals: "\<exists>plan. seal_websocket_source feed_crates sample_plan_env feed_session fps handle feed_configuration = Inr plan"
proof -
  have ok: "websocket_plan_ok feed_crates feed_plan" using feed_plan_valid by (simp add: validate_iff)
  have total: "ser_websocket_plan feed_crates p \<noteq> None" for p by (simp add: feed_crates_def sample_crates_def)
  have seals: "\<exists>q. seal_websocket_plan feed_crates p = Inr q"
    if "wp_protocol p = PROTOCOL" "wp_kind p = ''websocket-plan''" "wp_valid p" "wp_exit p = 0"
      "wp_limits p = sample_limits" "wp_headers p = wp_headers feed_plan" "wp_subprotocols p = []"
      "wp_actions p = wp_actions feed_plan" for p
  proof -
    have "websocket_plan_ok feed_crates p"
      using ok that by (simp add: websocket_plan_ok_def feed_plan_def sample_plan_def)
    with total show ?thesis by (auto simp: seal_websocket_plan_iff)
  qed
  show ?thesis
    by (simp add: seal_websocket_source_def feed_session_parts feed_session_fields feed_profile run_url_fields Let_def
        map_err_Inr_iff)
      (rule seals, simp_all add: feed_plan_def)
qed

lemma feed_limits: "requested_limits (\<lambda>_. None) feed_source feed_operation feed_configuration = Inr sample_limits"
proof -
  have "json_get feed_publish ''x-kahea-limits'' = None" "json_get feed_document ''x-kahea-limits'' = None"
    "websocket_limits_from_policy (wsp_max_limits (pol_websocket (cfg_policy feed_configuration))) = sample_limits"
    by code_simp+
  then show ?thesis by (simp add: requested_limits_def feed_operation_fields feed_source_fields)
qed

lemma feed_options_fields:
  "po_server feed_options = None" "po_auth feed_options = Some ''user=dev''" "po_content_type feed_options = None"
  "po_input feed_options = None" "po_explicit feed_options = []" "po_checks feed_options = []" "explicit_values [] = []"
  by (simp_all add: feed_options_def explicit_values_def)

lemma feed_plans:
  "\<exists>plan. build_asyncapi_websocket_plan_with_configuration feed_crates sample_plan_env (\<lambda>_. None) (\<lambda>_. None) 5
     (Inr feed_document) [] ''say'' feed_options feed_configuration = Some (Inr plan)"
  using feed_seals
  by (simp add: build_asyncapi_websocket_plan_with_configuration_def feed_options_fields feed_loads feed_resolves feed_limits
      feed_compiles plan_result_def Let_def)

definition feed_sealed :: WebSocketPlan where
  "feed_sealed =
     (case build_asyncapi_websocket_plan_with_configuration feed_crates sample_plan_env (\<lambda>_. None) (\<lambda>_. None) 5
             (Inr feed_document) [] ''say'' feed_options feed_configuration of Some (Inr plan) \<Rightarrow> plan)"

lemma feed_planned:
  "build_asyncapi_websocket_plan_with_configuration feed_crates sample_plan_env (\<lambda>_. None) (\<lambda>_. None) 5
     (Inr feed_document) [] ''say'' feed_options feed_configuration = Some (Inr feed_sealed)"
  using feed_plans by (auto simp: feed_sealed_def)

text \<open>The pointer of the sample returns parts of the value only.\<close>

lemma subvalues_self: "v \<in> set (subvalues v)"
  by (cases v) simp_all

lemma subvalues_get: "json_get v k = Some w \<Longrightarrow> set (subvalues w) \<subseteq> set (subvalues v)"
  by (cases v) (force dest: map_of_SomeD)+

lemma feed_pointer_inside: "points_inside (feed_crates) document"
proof -
  have "fold (\<lambda>k v. Option.bind v (\<lambda>v. json_get v k)) ks (Some u) = Some w \<Longrightarrow> set (subvalues w) \<subseteq> set (subvalues u)"
    for ks u w
  proof (induction ks arbitrary: u)
    case (Cons k ks)
    have none: "fold (\<lambda>k v. Option.bind v (\<lambda>v. json_get v k)) ks None = None" for ks :: "string list"
      by (induction ks) auto
    show ?case
    proof (cases "json_get u k")
      case None
      with Cons.prems none show ?thesis by simp
    next
      case (Some x)
      with Cons subvalues_get [OF Some] show ?thesis by fastforce
    qed
  qed simp
  then show ?thesis
    using subvalues_self by (fastforce simp: points_inside_def feed_crates_def feed_pointer_def)
qed

lemma feed_fuel: "reference_fuel (as_document feed_source) \<le> 5"
proof -
  have "references feed_document = {''#/components/messages/say''}" by code_simp
  then show ?thesis by (simp add: reference_fuel_def feed_source_fields)
qed

subsection \<open>Claims about references\<close>

text \<open>
  In a document that is accepted, resolving a part of it returns a value unless its chain of references runs
  into a cycle: no reference is remote or broken, and the loop ends.
\<close>

theorem accepted_references_resolve:
  assumes "load_asyncapi C parsed byts = Inr source" and "points_inside C (as_document source)"
    and "v \<in> set (subvalues (as_document source))" and "reference_fuel (as_document source) \<le> n"
  shows "(\<exists>w. resolve_local C n (as_document source) v = Inr w)
    \<longleftrightarrow> \<not> (\<exists>t. (refers C (as_document source))\<^sup>*\<^sup>* v t \<and> (refers C (as_document source))\<^sup>+\<^sup>+ t t)"
proof
  assume "\<exists>w. resolve_local C n (as_document source) v = Inr w"
  then obtain w where w: "(refers C (as_document source))\<^sup>*\<^sup>* v w" "get_str w ''$ref'' = None"
    unfolding resolve_local_def by (metis follow_refs_sound)
  then show "\<not> (\<exists>t. (refers C (as_document source))\<^sup>*\<^sup>* v t \<and> (refers C (as_document source))\<^sup>+\<^sup>+ t t)"
    using chain_end_unique chain_has_no_cycle by blast
next
  assume acyclic: "\<not> (\<exists>t. (refers C (as_document source))\<^sup>*\<^sup>* v t \<and> (refers C (as_document source))\<^sup>+\<^sup>+ t t)"
  have "\<forall>r \<in> references (as_document source). reference_resolves C (as_document source) r"
    using loaded_references [OF assms(1)] by blast
  moreover have "\<forall>r. get_str v ''$ref'' = Some r \<longrightarrow> r \<in> references (as_document source)"
    using assms(3) by (auto simp: references_iff)
  ultimately have "resolve_local C n (as_document source) v \<noteq> Inl (Some e)" for e
    using follow_refs_error [OF assms(2), of n v "[]" e] acyclic by (auto simp: resolve_local_def)
  with resolve_local_returns [OF assms(2,4), of v] show "\<exists>w. resolve_local C n (as_document source) v = Inr w"
    by (metis option.exhaust sum.exhaust)
qed

definition feed_message_reference :: json where
  "feed_message_reference = JObject [(''$ref'', JString ''#/components/messages/say'')]"

theorem accepted_references_resolve_witness:
  "\<not> (\<exists>t. (refers feed_crates feed_document)\<^sup>*\<^sup>* feed_message_reference t \<and> (refers feed_crates feed_document)\<^sup>+\<^sup>+ t t)"
proof -
  have "feed_message_reference \<in> set (subvalues feed_document)" by code_simp
  then have "(\<exists>w. resolve_local feed_crates 5 feed_document feed_message_reference = Inr w)
      \<longleftrightarrow> \<not> (\<exists>t. (refers feed_crates feed_document)\<^sup>*\<^sup>* feed_message_reference t
                \<and> (refers feed_crates feed_document)\<^sup>+\<^sup>+ t t)"
    using accepted_references_resolve [OF feed_loads _ _ feed_fuel, of feed_message_reference] feed_pointer_inside
    by (simp add: feed_source_fields)
  then show ?thesis by (simp add: feed_message_reference_def feed_message_found)
qed

theorem asyncapi_planning_returns_witness:
  "build_asyncapi_websocket_plan_with_configuration feed_crates sample_plan_env (\<lambda>_. None) (\<lambda>_. None) 5
     (Inr feed_document) [] ''other'' feed_options feed_configuration \<noteq> None"
  using asyncapi_planning_returns [OF feed_pointer_inside] feed_fuel by (simp add: feed_source_fields)

theorem asyncapi_plan_is_expressible_witness:
  "\<exists>source operations operation.
    load_asyncapi feed_crates (Inr feed_document) [] = Inr source \<and> asyncapi_operations feed_crates 5 source = Inr operations
    \<and> filter (selects_asyncapi ''say'') operations = [operation] \<and> expressible operation
    \<and> wp_operation feed_sealed = ao_handle operation \<and> wp_source_fingerprints feed_sealed = [digest feed_crates []]"
  by (rule asyncapi_plan_is_expressible [OF feed_planned])

theorem required_security_is_planned_witness:
  "\<exists>a. wp_auth feed_sealed = Some a \<and> pa_profile a = ''dev''"
proof -
  obtain scheme profile a where "po_auth feed_options = Some (scheme @ ''='' @ profile)"
    "\<exists>m. JObject m \<in> set [JObject [(''user'', JArray [])]] \<and> scheme \<in> fst ` set m"
    "wp_auth feed_sealed = Some a" "pa_profile a = profile"
    using required_security_is_planned [OF feed_planned feed_loads feed_resolves, of "[JObject [(''user'', JArray [])]]"
        "[(''user'', JArray [])]"]
    by (auto simp: feed_operation_fields feed_compile_parts)
  then show ?thesis by (auto simp: feed_options_def)
qed

theorem binding_headers_reach_session_witness: "map_of (ss_headers feed_session) ''X-Mode'' = Some ''on''"
proof -
  have "select_asyncapi_server feed_operation None = Inr ''local''"
    by (simp add: select_asyncapi_server_def feed_operation_fields)
  moreover have "declared_server (as_document feed_source) ''local'' = Some feed_server"
    by (simp add: feed_compile_parts feed_source_fields)
  moreover have "resolve_local feed_crates 5 (as_document feed_source) feed_server = Inr feed_server"
    by (simp add: feed_local feed_compile_parts)
  moreover have "binding_headers_of feed_crates 5 (as_document feed_source) feed_publish
      = Some (JObject [(''properties'', JObject [(''X-Mode'', JObject [(''default'', JString ''on'')])])])"
    by (simp add: binding_headers_of_def feed_publish_def feed_local get_str_def)
  moreover have "(''X-Mode'', ''on'') \<in> declared_headers sample_plan_env
      (JObject [(''properties'', JObject [(''X-Mode'', JObject [(''default'', JString ''on'')])])])"
    by (auto simp: declared_headers_def get_object_def)
  ultimately show ?thesis
    using binding_headers_reach_session [OF feed_compiles, of "''local''" feed_server feed_server feed_publish]
    by (simp add: feed_operation_fields)
qed

end
