(* ===== verification/Asyncapi_Text_Props.thy ===== *)
theory Asyncapi_Text_Props
  imports Asyncapi_Session_Props
begin

text \<open>
  Substitution of variables in addresses, against a specification that reads the template once, and the schemas a
  session is sealed with, which hold no references.
\<close>

subsection \<open>Templates\<close>

text \<open>The specification: literal characters stay, every \<open>{name}\<close> becomes the text of its name.\<close>

function instantiate :: "(string \<Rightarrow> string) \<Rightarrow> string \<Rightarrow> string" where
  "instantiate f [] = []"
| "instantiate f (c # s) =
     (if c = CHR ''{''
      then (case split_once ''}'' s of None \<Rightarrow> c # s | Some (name, rest) \<Rightarrow> f name @ instantiate f rest)
      else c # instantiate f s)"
  by pat_completeness auto
termination
  by (relation "measure (\<lambda>(f, s). length s)") (auto dest!: split_once_Some)

lemma split_once_first: "split_once [c] s = Some (a, b) \<Longrightarrow> c \<notin> set a"
proof
  assume split: "split_once [c] s = Some (a, b)" and "c \<in> set a"
  then obtain u w where a: "a = u @ c # w" by (metis split_list)
  from split obtain k where k: "position [c] s = Some k" "a = take k s" by (auto simp: split_once_def)
  from split_once_Some [OF split] a have "s = u @ [c] @ (w @ [c] @ b)" by simp
  with k(1) have "k \<le> length u" by (rule position_least)
  moreover have "length a \<le> k" using k(2) by simp
  ultimately show False using a by simp
qed

lemma first_split_unique: "a @ c # r = b @ c # s \<Longrightarrow> c \<notin> set a \<Longrightarrow> c \<notin> set b \<Longrightarrow> a = b"
proof (induction a arbitrary: b)
  case Nil
  then show ?case by (cases b) auto
next
  case (Cons x a)
  then show ?case by (cases b) auto
qed

lemma replace_literal: "CHR ''{'' \<notin> set u \<Longrightarrow> replace_str (braced nm) v (u @ s) = u @ replace_str (braced nm) v s"
  by (induction u) (auto simp: braced_def starts_with_def)

lemma replace_same: "replace_str (braced nm) v (braced nm @ s) = v @ replace_str (braced nm) v s"
proof -
  have "starts_with (braced nm @ s) (braced nm)" by simp
  then show ?thesis by (simp add: braced_def)
qed

lemma replace_other:
  assumes "name \<noteq> nm" and "CHR ''{'' \<notin> set name" and "CHR ''}'' \<notin> set name" and "CHR ''}'' \<notin> set nm"
  shows "replace_str (braced nm) v (braced name @ s) = braced name @ replace_str (braced nm) v s"
proof -
  have "\<not> starts_with (braced name @ s) (braced nm)"
    using first_split_unique [of name "CHR ''}''" s nm] assms by (auto simp: braced_def starts_with_iff)
  moreover have "replace_str (braced nm) v ((name @ ''}'') @ s) = (name @ ''}'') @ replace_str (braced nm) v s"
    using assms(2) by (intro replace_literal) auto
  ultimately show ?thesis by (simp add: braced_def)
qed

lemma split_once_at:
  assumes "c \<notin> set a"
  shows "split_once [c] (a @ c # b) = Some (a, b)"
proof (cases "split_once [c] (a @ c # b)")
  case None
  then have "position [c] (a @ c # b) = None" by (simp add: split_once_def)
  from position_None_append [OF this, of a b] show ?thesis by simp
next
  case (Some p)
  then obtain a' b' where p: "split_once [c] (a @ c # b) = Some (a', b')" by (cases p) auto
  from split_once_Some [OF p] have eq: "a @ c # b = a' @ c # b'" by simp
  then have "a = a'" using assms split_once_first [OF p] by (rule first_split_unique)
  with eq p show ?thesis by simp
qed

lemma instantiate_placeholder:
  "CHR ''}'' \<notin> set name \<Longrightarrow> instantiate f (CHR ''{'' # name @ CHR ''}'' # rest) = f name @ instantiate f rest"
  by (simp add: split_once_at)

lemma instantiate_literal: "c \<noteq> CHR ''{'' \<Longrightarrow> instantiate f (c # s) = c # instantiate f s"
  by simp

lemma placeholders_induct [consumes 1, case_names Nil literal placeholder]:
  assumes "placeholders t = Inr names" and "P [] []"
    and "\<And>c s names. c \<noteq> CHR ''{'' \<Longrightarrow> P s names \<Longrightarrow> P (c # s) names"
    and "\<And>name rest names. CHR ''}'' \<notin> set name \<Longrightarrow> P rest names
           \<Longrightarrow> P (CHR ''{'' # name @ CHR ''}'' # rest) (name # names)"
  shows "P t names"
  using assms(1)
proof (induction t arbitrary: names rule: placeholders.induct)
  case 1
  with assms(2) show ?case by simp
next
  case (2 c s)
  show ?case
  proof (cases "c = CHR ''{''")
    case True
    with 2(3) obtain name rest names' where split: "split_once ''}'' s = Some (name, rest)"
      "placeholders rest = Inr names'" "names = name # names'" by (auto simp: and_then_Inr_iff split: option.splits)
    have "P rest names'" by (rule 2(1) [OF True split(1) refl split(2)])
    from assms(4) [OF split_once_first [OF split(1)] this] split_once_Some [OF split(1)] True split(3) show ?thesis by simp
  next
    case False
    with 2(2,3) assms(3) show ?thesis by simp
  qed
qed

lemma placeholders_names: "placeholders t = Inr names \<Longrightarrow> \<forall>name \<in> set names. CHR ''}'' \<notin> set name"
  by (induction rule: placeholders_induct) auto

lemma instantiate_cong: "placeholders t = Inr names \<Longrightarrow> \<forall>x \<in> set names. f x = g x \<Longrightarrow> instantiate f t = instantiate g t"
  by (induction rule: placeholders_induct) (simp_all add: instantiate_placeholder instantiate_literal del: instantiate.simps(2))

lemma instantiate_braced: "placeholders t = Inr names \<Longrightarrow> instantiate braced t = t"
  by (induction rule: placeholders_induct)
    (simp_all add: instantiate_placeholder instantiate_literal braced_def del: instantiate.simps(2))

text \<open>Replacing one name commutes with reading the template.\<close>

lemma replace_instantiate:
  assumes "placeholders t = Inr names"
    and "\<forall>x \<in> set names. CHR ''{'' \<notin> set x \<and> (g x = braced x \<or> CHR ''{'' \<notin> set (g x))"
    and "g nm = braced nm" and "CHR ''}'' \<notin> set nm"
  shows "replace_str (braced nm) v (instantiate g t) = instantiate (g(nm := v)) t"
  using assms(1,2)
proof (induction rule: placeholders_induct)
  case Nil
  then show ?case by simp
next
  case (literal c s names)
  then show ?case using replace_literal [of "[c]" nm v]
    by (simp add: instantiate_literal del: instantiate.simps(2) fun_upd_apply)
next
  case (placeholder name rest names)
  have "replace_str (braced nm) v (g name @ instantiate g rest)
      = (g(nm := v)) name @ replace_str (braced nm) v (instantiate g rest)"
  proof (cases "name = nm")
    case True
    with assms(3) show ?thesis by (simp add: replace_same)
  next
    case False
    with placeholder assms(4) show ?thesis by (auto simp: replace_other replace_literal)
  qed
  with placeholder show ?case by (simp add: instantiate_placeholder del: instantiate.simps(2) fun_upd_apply)
qed

lemma substitution_loop:
  assumes "placeholders t = Inr names"
    and "\<forall>name \<in> set names. CHR ''{'' \<notin> set name"
    and "\<forall>name \<in> set names. \<forall>v. txt name = Inr v \<longrightarrow> CHR ''{'' \<notin> set v"
  shows "for_each (\<lambda>name s. and_then (txt name) (\<lambda>v. Inr (replace_str (braced name) v s))) todo (instantiate g t) = Inr result
    \<Longrightarrow> distinct todo \<Longrightarrow> set todo \<subseteq> set names \<Longrightarrow> \<forall>x \<in> set todo. g x = braced x
    \<Longrightarrow> \<forall>x \<in> set names. g x = braced x \<or> CHR ''{'' \<notin> set (g x)
    \<Longrightarrow> (\<forall>x \<in> set todo. \<exists>v. txt x = Inr v) \<and> result = instantiate (\<lambda>x. if x \<in> set todo then projr (txt x) else g x) t"
proof (induction todo arbitrary: g)
  case (Cons nm todo)
  from Cons.prems(1) obtain v where v: "txt nm = Inr v"
    "for_each (\<lambda>name s. and_then (txt name) (\<lambda>v. Inr (replace_str (braced name) v s))) todo
       (replace_str (braced nm) v (instantiate g t)) = Inr result"
    by (auto simp: and_then_def split: sum.splits)
  have nm: "nm \<in> set names" "CHR ''}'' \<notin> set nm" "g nm = braced nm"
    using Cons.prems(3,4) placeholders_names [OF assms(1)] by auto
  have step: "replace_str (braced nm) v (instantiate g t) = instantiate (g(nm := v)) t"
    using nm assms(1,2) Cons.prems(5) by (intro replace_instantiate) auto
  have "(\<forall>x \<in> set todo. \<exists>v. txt x = Inr v)
      \<and> result = instantiate (\<lambda>x. if x \<in> set todo then projr (txt x) else (g(nm := v)) x) t"
  proof (rule Cons.IH)
    show "for_each (\<lambda>name s. and_then (txt name) (\<lambda>v. Inr (replace_str (braced name) v s))) todo
        (instantiate (g(nm := v)) t) = Inr result" using v(2) unfolding step .
  qed (use Cons.prems(2-5) v(1) assms(3) nm(1) in auto)
  moreover have "(\<lambda>x. if x \<in> set todo then projr (txt x) else (g(nm := v)) x)
      = (\<lambda>x. if x \<in> set (nm # todo) then projr (txt x) else g x)"
    using v(1) Cons.prems(2) by (auto simp: fun_eq_iff)
  ultimately show ?case using v(1) by simp
qed simp

text \<open>
  C35. Where neither a name nor a substituted text has an opening brace, the replacements made name after name are one
  reading of the template: each placeholder becomes the text of its variable and everything else stays.
\<close>

theorem substitution_instantiates_template:
  assumes "substitute_variables E target definitions owner vals = Inr result" and "placeholders target = Inr names"
    and "\<forall>name \<in> set names. CHR ''{'' \<notin> set name"
    and "\<forall>name \<in> set names. \<forall>v. variable_text E (Option.bind definitions as_object) owner vals name = Inr v
           \<longrightarrow> CHR ''{'' \<notin> set v"
  shows "\<exists>txt. (\<forall>name \<in> set names. variable_text E (Option.bind definitions as_object) owner vals name = Inr (txt name))
    \<and> result = instantiate txt target"
proof -
  let ?var = "variable_text E (Option.bind definitions as_object) owner vals"
  have "for_each (\<lambda>name s. and_then (?var name) (\<lambda>v. Inr (replace_str (braced name) v s))) (sort (remdups names))
      (instantiate braced target) = Inr result"
    using assms(1,2) by (simp add: substitute_variables_def instantiate_braced [OF assms(2)])
  from substitution_loop [OF assms(2-4) this] have
    found: "\<forall>x \<in> set names. \<exists>v. ?var x = Inr v"
    and result: "result = instantiate (\<lambda>x. if x \<in> set names then projr (?var x) else braced x) target" by auto
  have "result = instantiate (\<lambda>x. projr (?var x)) target"
    unfolding result by (rule instantiate_cong [OF assms(2)]) simp
  moreover have "\<forall>x \<in> set names. ?var x = Inr (projr (?var x))" using found by (metis sum.sel(2))
  ultimately show ?thesis by (intro exI [of _ "\<lambda>x. projr (?var x)"]) simp
qed

theorem substitution_instantiates_template_witness:
  "\<exists>txt. (\<forall>name \<in> {''host'', ''port''}. variable_text sample_plan_env None ''server''
        [(''server.host'', JString ''feed.test''), (''server.port'', JString ''9000'')] name = Inr (txt name))
    \<and> ''ws://feed.test:9000'' = instantiate txt ''ws://{host}:{port}''"
proof -
  have var: "variable_text sample_plan_env None ''server'' [(''server.host'', JString ''feed.test''), (''server.port'', JString ''9000'')]
      name = (if name = ''host'' then Inr ''feed.test'' else if name = ''port'' then Inr ''9000'' else Inl InvalidAsyncApi)"
    if "name \<in> {''host'', ''port''}" for name
    using that by (auto simp: variable_text_def)
  have "substitute_variables sample_plan_env ''ws://{host}:{port}'' None ''server''
      [(''server.host'', JString ''feed.test''), (''server.port'', JString ''9000'')] = Inr ''ws://feed.test:9000''"
    by code_simp
  moreover have "placeholders ''ws://{host}:{port}'' = Inr [''host'', ''port'']" by code_simp
  ultimately show ?thesis
    using substitution_instantiates_template [of sample_plan_env "''ws://{host}:{port}''" None "''server''"
        "[(''server.host'', JString ''feed.test''), (''server.port'', JString ''9000'')]" "''ws://feed.test:9000''"
        "[''host'', ''port'']"] var
    by auto
qed

subsection \<open>Sealed schemas\<close>

text \<open>A value whose \<open>$ref\<close> members are all strings.\<close>

definition string_references :: "json \<Rightarrow> bool" where
  "string_references v = (\<forall>u \<in> set (subvalues v). json_get u ''$ref'' \<noteq> None \<longrightarrow> get_str u ''$ref'' \<noteq> None)"

lemma subvalues_trans: "u \<in> set (subvalues v) \<Longrightarrow> set (subvalues u) \<subseteq> set (subvalues v)"
  by (induction v rule: subvalues.induct) fastforce+

lemma string_references_part: "string_references v \<Longrightarrow> u \<in> set (subvalues v) \<Longrightarrow> string_references u"
  using subvalues_trans unfolding string_references_def by blast

lemma ref_free_Suc: "ref_free n j \<Longrightarrow> ref_free (Suc n) j"
proof (induction n arbitrary: j)
  case 0
  then show ?case by (cases j) auto
next
  case (Suc n)
  then show ?case by (cases j) (auto simp: list_all_iff)
qed

lemma map_each_keys:
  "map_each (\<lambda>(name, child). and_then (f child) (\<lambda>c. Inr (name, c))) m = Inr m' \<Longrightarrow>
     map fst m' = map fst m \<and> (\<forall>(k, w) \<in> set m'. \<exists>v. (k, v) \<in> set m \<and> f v = Inr w)"
  by (induction m arbitrary: m') (fastforce simp: and_then_Inr_iff)+

lemma inlined_ref_free:
  assumes "points_inside C d" and "string_references d"
  shows "inline_local_refs C d n v stack = Inr w \<Longrightarrow> string_references v \<Longrightarrow> ref_free n w"
proof (induction n arbitrary: v stack w)
  case (Suc n)
  show ?case
  proof (cases "get_str v ''$ref''")
    case (Some r)
    with Suc.prems(1) obtain p t where t: "json_pointer C d p = Some t" "inline_local_refs C d n t (r # stack) = Inr w"
      by (auto simp: and_then_Inr_iff ok_or_Inr_iff split: if_splits)
    have "string_references t" using assms t(1) string_references_part by (auto simp: points_inside_def)
    from Suc.IH [OF t(2) this] show ?thesis by (rule ref_free_Suc)
  next
    case None
    show ?thesis
    proof (cases v)
      case (JArray xs)
      with None Suc.prems(1) obtain ys where ys: "w = JArray ys" "map_each (\<lambda>child. inline_local_refs C d n child stack) xs = Inr ys"
        by (auto simp: and_then_Inr_iff)
      have "ref_free n y" if y: "y \<in> set ys" for y
      proof -
        from map_each_member [OF ys(2) y] obtain x where x: "x \<in> set xs" "inline_local_refs C d n x stack = Inr y" by blast
        have "string_references x"
          using Suc.prems(2) by (rule string_references_part) (use JArray x(1) subvalues_self in auto)
        from Suc.IH [OF x(2) this] show ?thesis .
      qed
      then show ?thesis by (simp add: ys(1) list_all_iff)
    next
      case (JObject m)
      with None Suc.prems(1) obtain m' where m': "w = JObject m'"
        "map_each (\<lambda>(name, child). and_then (inline_local_refs C d n child stack) (\<lambda>c. Inr (name, c))) m = Inr m'"
        by (auto simp: and_then_Inr_iff)
      note same = map_each_keys [OF m'(2)]
      have "json_get v ''$ref'' = None"
        using Suc.prems(2) None subvalues_self unfolding string_references_def by fastforce
      then have "map_of m' ''$ref'' = None" using same JObject by (simp add: map_of_eq_None_iff flip: set_map)
      moreover have "ref_free n y" if y: "(k, y) \<in> set m'" for k y
      proof -
        from same y obtain x where x: "(k, x) \<in> set m" "inline_local_refs C d n x stack = Inr y" by blast
        have "string_references x"
          using Suc.prems(2) by (rule string_references_part) (use JObject x(1) subvalues_self in force)
        from Suc.IH [OF x(2) this] show ?thesis .
      qed
      ultimately show ?thesis by (auto simp: m'(1) list_all_iff get_str_def)
    qed (use None Suc.prems(1) in auto)
  qed
qed simp


definition watch_operation :: AsyncApiOperation where
  "watch_operation = feed_operation\<lparr>ao_action := ''receive'',
     ao_message := JObject [(''payload'', JObject [(''$ref'', JString ''#/components/messages/say/payload'')])]\<rparr>"

definition watch_session :: WebSocketSessionSource where
  "watch_session = feed_session\<lparr>ss_risk := Some Unknown,
     ss_actions := [ExpectJson None None (Some (JObject [(''default'', JString ''hi'')])) None, Close 1000 ''complete'']\<rparr>"

lemma watch_fields:
  "ao_absent watch_operation = []" "ao_server_names watch_operation = [''local'']" "ao_channel_address watch_operation = ''feed''"
  "ao_channel watch_operation = feed_channel" "ao_operation watch_operation = feed_publish"
  "ao_message watch_operation = JObject [(''payload'', JObject [(''$ref'', JString ''#/components/messages/say/payload'')])]"
  "ao_action watch_operation = ''receive''" "ao_operation_id watch_operation = ''say''"
  by (simp_all add: watch_operation_def feed_operation_fields)

lemma watch_auth: "select_auth_profile feed_crates feed_source watch_operation feed_server (Some ''user=dev'') = Inr (Some ''dev'')"
  using feed_auth by (simp add: select_auth_profile_def required_schemes_def watch_fields feed_operation_fields)

lemma watch_action:
  "message_action feed_crates feed_document watch_operation
     = Inr (ExpectJson None None (Some (JObject [(''default'', JString ''hi'')])) None)"
proof -
  let ?payload = "JObject [(''$ref'', JString ''#/components/messages/say/payload'')]"
  have "inline_local_refs feed_crates feed_document inline_levels ?payload [] = Inr (JObject [(''default'', JString ''hi'')])"
    "concrete_example (JObject [(''payload'', ?payload)]) = None"
    "contains_str (unwrap_or (get_str (JObject [(''payload'', ?payload)]) ''contentType'') ''application/json'') ''json''"
    by code_simp+
  then show ?thesis by (simp add: message_action_def watch_fields Let_def)
qed

lemma watch_compiles:
  "compile_asyncapi_websocket feed_crates sample_plan_env (\<lambda>_. None) 5 feed_source watch_operation None (Some ''user=dev'') []
     sample_limits = Inr watch_session"
  by (simp add: compile_asyncapi_websocket_def refuse_blocking_def select_asyncapi_server_def watch_fields
      feed_compile_parts [simplified] no_binding_headers feed_local feed_source_fields server_url_def server_protocol_def
      is_version2_def starts_with_def websocket_protocol_def watch_auth [simplified] operation_actions_def watch_action Let_def)
    (simp add: watch_session_def feed_session_def action_risk_def session_origin_def session_subprotocols_def watch_fields
      feed_compile_parts)


end
