(* ===== verification/Spec2Isabelle.thy ===== *)
theory Spec2Isabelle
  imports Ws_Plan_Props Wire_Props Deadline Net_Boundary Redaction_Props Schema_Props Evidence_Props Http_Checks_Props
    Http_Invoke_Props Ws_Session_Progress Ws_Connect_Props
    Plan_Store_Props Ws_Planner_Props Openapi_Index_Props Http_Planner_Props
    Workflow_Plan_Props Conf_Props Conf_Schema_Props Asyncapi_Text_Props
begin

text \<open>
  A verification development for Kahea, a runner of planned API calls: \<^bold>\<open>inspect\<close> indexes the operations of a source
  document, \<^bold>\<open>plan\<close> binds one operation, its inputs, policy and required grants into a sealed, content-addressed plan,
  \<^bold>\<open>invoke\<close> verifies the plan and the grants given, talks to the network and stores redacted evidence, \<^bold>\<open>explain\<close>
  reads evidence back.  Beside single HTTP requests and finite WebSocket sessions there are workflows of several steps
  and conformance campaigns of generated requests, both run over the same two executors.

  \<^bold>\<open>How the model is written.\<close>  A struct is a record with the fields of the source, an enum a datatype; machine integers
  are words; a \<open>BTreeMap\<close> is an association list in key order; strings are lists of bytes in UTF-8.  A function that can
  fail returns \<open>error + value\<close>, with an error type per crate; early returns and \<open>?\<close> are \<open>and_then\<close>.  Third-party code is
  the record \<open>crates\<close> (theory \<open>Crates\<close>), the planner's file system and conversions are \<open>plan_env\<close>, and what an executor
  sees of the world (resolver, sockets, clock, file system faults) are arguments, so that a theorem that quantifies over
  them holds for every peer and every failure.  Messages of errors are left out where nothing but a reader depends on them.

  \<^bold>\<open>Theories and the code they model\<close> (paths under \<open>src/crates\<close>).
  \<^item> \<open>Prelude\<close>, \<open>Rust_Str\<close>, \<open>Json\<close>: words, results, the parts of \<open>str\<close> and \<open>serde_json::Value\<close> that the sources use.
  \<^item> \<open>Core_Types\<close>, \<open>Core_Campaigns\<close>, \<open>Seal\<close>, \<open>Ws_Plan\<close>: \<open>kahea-core/src/lib.rs\<close>, its data, \<open>seal\<close> and \<open>verify_seal\<close>
    of the four plan kinds, \<open>WebSocketPlan::validate\<close> and \<open>normalize\<close>.
  \<^item> \<open>Wire\<close>, \<open>Deadline\<close>, \<open>Ws_Handshake\<close>, \<open>Ws_Session\<close>, \<open>Ws_Connect\<close>: \<open>kahea-exec/src/websocket.rs\<close>, from the frame
    parser that charges budgets (\<open>WireParser\<close>, \<open>AccountedStream\<close>) over deadlines, the HTTP upgrade and the action loop to
    \<open>execute_websocket\<close> with its stored observation.
  \<^item> \<open>Net_Boundary\<close>, \<open>Ip_Parse\<close>, \<open>Exec_Types\<close>, \<open>Redaction\<close>, \<open>Schema\<close>, \<open>Http_Checks\<close>, \<open>Http_Invoke\<close>: \<open>kahea-exec/src/lib.rs\<close>,
    the classification of addresses, redaction, response checks, and \<open>invoke\<close> with OAuth.
  \<^item> \<open>Evidence\<close>: \<open>kahea-evidence/src/lib.rs\<close>, blobs on disk and their index, \<open>explain\<close>, the closure of exported bundles.
  \<^item> \<open>Plan_Config\<close>, \<open>Plan_Inputs\<close>, \<open>Http_Planner\<close>, \<open>Ws_Planner\<close>, \<open>Plan_Store\<close>: \<open>kahea-plan/src/lib.rs\<close>, configuration and
    policy, inputs, the two planners, and storing and loading of plans.
  \<^item> \<open>Openapi_Index\<close>: \<open>kahea-ingest/src/lib.rs\<close>, YAML under limits, the index, resolution of a selector.
  \<^item> \<open>Asyncapi\<close>, \<open>Asyncapi_Compile\<close>: \<open>kahea-ingest/src/asyncapi.rs\<close> and its caller in the planner: local references,
    operations of versions 2.6 and 3.0, what they cannot express, compilation to a WebSocket session.
  \<^item> \<open>Workflow_Lang\<close>, \<open>Workflow_Plan\<close>, \<open>Workflow_Run\<close>: \<open>kahea-workflow/src/lib.rs\<close>, Arazzo expressions, criteria and
    actions, the planner that seals a plan per step, and the engine with its retries and bindings.
  \<^item> \<open>Conf_Generate\<close>, \<open>Conf_Mutate\<close>, \<open>Conf_Run\<close>: \<open>kahea-conformance/src/lib.rs\<close>, values from schemas, negative mutations,
    planning of campaigns and their run.

  \<^bold>\<open>What is proved.\<close>  Each theory named \<open>.._Props\<close> holds the properties of the theory it is named after.
  \<^item> Authority: nothing is sent, contacted or stored before the seal is verified, the fingerprints match and every
    listed grant is given, for requests, sessions, workflows and campaigns; every address contacted is granted
    or outside the ranges the executor calls unsafe; an executor accepts what the planner sealed; policy, security requirements and bindings cannot be widened.
  \<^item> Budgets and time: a session stays within its sealed frames, bytes and messages whatever the peer does, charging
    does not depend on how the stream is cut, reported timeouts and interruptions are true, sessions end.
  \<^item> Outcomes: an observation says what happened, exit codes follow outcomes, a passed session or workflow fulfils its
    plan step by step, a campaign accounts for its cases.
  \<^item> Contracts: plan validation and schema validation decide declarative specifications; generated values conform,
    mutations violate; AsyncAPI operations that a session cannot express are refused, their templates and schemas reach
    the plan as specified.
  \<^item> Storage: integrity of evidence under failing file system and database steps, atomic plan storage, round trips,
    closed bundles, and no secret in what is stored.

  \<^bold>\<open>Interfaces.\<close>  \<open>sealing\<close> (a sealed plan verifies, equal fingerprints mean equal content unless the hash collides) is interpreted for the four plan
  kinds; \<open>plan_storing\<close> extends it with what storing relies on, for request, WebSocket and workflow plans.
  \<open>level_contract\<close> is the contract between a level of schema validation and the next, \<open>generator_level\<close> and
  \<open>mutator_level\<close> those of generation and mutation; each is interpreted on the code's own recursion, by induction on its
  levels.  \<open>session_invariant\<close> asks an invariant of the primitive steps of a session and gives it for whole sessions,
  interpreted for budgets and for the soundness of results.  \<open>retry_loop\<close> bounds the attempts of a workflow step and is
  interpreted for HTTP and WebSocket steps.

  \<^bold>\<open>Bounds and fuel.\<close>  Where the source bounds its recursion the model recurses on the levels left: 64 for schema
  validation, 32 for generation, depth 128 for YAML and for scanning AsyncAPI references, 65 levels for expanding them.  Generation goes
  half as deep as validation because a level of it can take two of the validator's.  The session loop runs over a list of
  replies of the socket.  Three loops of the source have no bound and take fuel: the planner's validation of values, which
  a schema that includes itself does not end (and one without references does, within its depth); the chain of AsyncAPI
  references, for which two more than the distinct references of the document are enough; and \<open>str\<close> scans, whose fuel is
  the length of the string.

  \<^bold>\<open>Not modelled.\<close>  \<open>kahea-ingest/src/imports.rs\<close>: the importers of HAR, Postman, curl and \<open>.http\<close> sources read
  files and directories and rewrite one document format as another; their result enters as the argument \<open>import\<close> of
  \<open>load_source\<close>, and everything that protects a run is applied to it after.  \<open>kahea-mcp\<close> and \<open>kahea/src/main.rs\<close>: framing of
  JSON-RPC, argument parsing, printing and exit codes around the operations modelled here.  \<open>kahea-core\<close>'s constant tables
  (\<open>describe\<close>, JSON schemas), its error envelope and the derived serializers, which are fields of \<open>crates\<close>.  The TLS, HTTP and WebSocket
  libraries are replies in lists; that the bytes they send are those they were given is not stated.  Threads do not occur,
  save for the cancellation flag, which is read at every call as an input.
\<close>

end
